(* ===== verification/Py_Prelude.thy ===== *)
theory Py_Prelude
  imports Complex_Main "HOL-Library.Sublist"
begin

text \<open>
  Shared ground of the development: the Python values and errors the components use, string
  operations of the standard library on ASCII text, decimal printing of integers, and the
  generic list lemmas the component proofs rest on.

  A Python \<open>float\<close> is modelled by an exact \<open>real\<close>: rounding, infinities and NaN are not
  represented. A Python \<open>int\<close> is \<open>int\<close>, a \<open>str\<close> is \<open>string\<close>. An exception that leaves a
  function is the left value of a sum.
\<close>

named_theorems py_eval \<open>unfolding of the small string and number helpers on literals\<close>

section \<open>Errors\<close>

text \<open>
  An exception object is what the harness looks at when it classifies one: its class name and
  its message (\<open>type(exc).__name__\<close> and \<open>str(exc)\<close>). An exception of the gRPC or httpx library also
  carries the library classes it is an instance of, the name of the status its \<open>code()\<close>
  returns, and what its \<open>details()\<close> returns; \<open>None\<close> stands for a missing method, whose call is
  an \<open>AttributeError\<close>. The exceptions modelled are those below \<open>Exception\<close>.
\<close>

datatype py_exn =
    Exn (exn_name: string) (exn_msg: string)
  | Lib_Exn (exn_name: string) (exn_msg: string) (exn_classes: "string list")
      (exn_code: "string option") (exn_details: "string option option")

primrec isinstance :: "py_exn \<Rightarrow> string \<Rightarrow> bool" where
  "isinstance (Exn n m) c \<longleftrightarrow> n = c"
| "isinstance (Lib_Exn n m cs code det) c \<longleftrightarrow> List.member cs c"

text \<open>\<open>exc.code()\<close> and \<open>exc.details()\<close>, where they exist.\<close>

primrec code_of :: "py_exn \<Rightarrow> string option" where
  "code_of (Exn n m) = None"
| "code_of (Lib_Exn n m cs code det) = code"

primrec details_of :: "py_exn \<Rightarrow> string option option" where
  "details_of (Exn n m) = None"
| "details_of (Lib_Exn n m cs code det) = det"

abbreviation value_error :: "string \<Rightarrow> py_exn" where
  "value_error m \<equiv> Exn ''ValueError'' m"

abbreviation key_error :: "string \<Rightarrow> py_exn" where
  "key_error m \<equiv> Exn ''KeyError'' m"

abbreviation zero_division_error :: py_exn where
  "zero_division_error \<equiv> Exn ''ZeroDivisionError'' ''float division by zero''"

type_synonym 'a py_result = "py_exn + 'a"

definition bind_result :: "'a py_result \<Rightarrow> ('a \<Rightarrow> 'b py_result) \<Rightarrow> 'b py_result" where
  "bind_result r f = (case r of Inl e \<Rightarrow> Inl e | Inr x \<Rightarrow> f x)"

lemma bind_result_simps [simp]:
  "bind_result (Inl e) f = Inl e"
  "bind_result (Inr x) f = f x"
  by (simp_all add: bind_result_def)

lemma bind_result_Inr_iff:
  "bind_result r f = Inr y \<longleftrightarrow> (\<exists>x. r = Inr x \<and> f x = Inr y)"
  by (cases r) auto

text \<open>A list comprehension whose element may raise: the first error ends it.\<close>

fun map_result :: "('a \<Rightarrow> 'b py_result) \<Rightarrow> 'a list \<Rightarrow> 'b list py_result" where
  "map_result f [] = Inr []"
| "map_result f (x # xs) = bind_result (f x) (\<lambda>y. bind_result (map_result f xs) (\<lambda>ys. Inr (y # ys)))"

lemma map_result_Inr_iff:
  "map_result f xs = Inr ys \<longleftrightarrow> list_all2 (\<lambda>x y. f x = Inr y) xs ys"
proof (induction xs arbitrary: ys)
  case (Cons x xs)
  then show ?case
    by (cases ys) (auto simp: bind_result_Inr_iff list_all2_Cons1)
qed auto

lemma map_result_length: "map_result f xs = Inr ys \<Longrightarrow> length ys = length xs"
  by (simp add: map_result_Inr_iff list_all2_lengthD)

text \<open>Python's \<open>x and ...\<close> and \<open>x or ...\<close> on an optional string.\<close>

definition truthy :: "string option \<Rightarrow> bool" where
  "truthy x \<longleftrightarrow> (case x of None \<Rightarrow> False | Some s \<Rightarrow> s \<noteq> [])"

definition or_else :: "string option \<Rightarrow> string option \<Rightarrow> string option" where
  "or_else a b = (if truthy a then a else b)"

section \<open>Strings\<close>

definition starts_with :: "string \<Rightarrow> string \<Rightarrow> bool" where
  "starts_with p s \<longleftrightarrow> take (length p) s = p"

definition ends_with :: "string \<Rightarrow> string \<Rightarrow> bool" where
  "ends_with p s \<longleftrightarrow> drop (length s - length p) s = p"

fun has_substring :: "string \<Rightarrow> string \<Rightarrow> bool" where
  "has_substring p [] \<longleftrightarrow> p = []"
| "has_substring p (c # cs) \<longleftrightarrow> starts_with p (c # cs) \<or> has_substring p cs"

definition lower_char :: "char \<Rightarrow> char" where
  "lower_char c = (let n = of_char c :: nat in if 65 \<le> n \<and> n \<le> 90 then char_of (n + 32) else c)"

definition str_lower :: "string \<Rightarrow> string" where
  "str_lower = map lower_char"

text \<open>
  A Python list of literals, a Python set of literals and a field test share one shape:
  membership of a value in a finite collection, written \<open>List.member\<close> in the definitions.
\<close>

lemma starts_with_append [simp]: "starts_with p (p @ s)"
  by (simp add: starts_with_def)

lemma starts_with_iff_prefix: "starts_with p s \<longleftrightarrow> prefix p s"
  unfolding starts_with_def prefix_def
  by (metis append_take_drop_id append_eq_conv_conj)

lemma has_substring_self_prefix: "has_substring p (p @ s)"
  by (cases "p @ s") (auto simp: starts_with_def, metis starts_with_append starts_with_def)

lemma has_substring_append: "has_substring p s \<Longrightarrow> has_substring p (t @ s)"
  by (induction t) auto

lemma has_substring_iff: "has_substring p s \<longleftrightarrow> (\<exists>u v. s = u @ p @ v)"
proof
  assume "has_substring p s"
  then show "\<exists>u v. s = u @ p @ v"
  proof (induction s)
    case Nil
    then show ?case by simp
  next
    case (Cons c s)
    show ?case
    proof (cases "starts_with p (c # s)")
      case True
      then obtain v where "c # s = p @ v" by (auto simp: starts_with_iff_prefix prefix_def)
      then have "c # s = [] @ p @ v" by simp
      then show ?thesis by blast
    next
      case False
      with Cons obtain u v where "s = u @ p @ v" by auto
      then have "c # s = (c # u) @ p @ v" by simp
      then show ?thesis by blast
    qed
  qed
next
  assume "\<exists>u v. s = u @ p @ v"
  then show "has_substring p s"
    by (auto intro: has_substring_append has_substring_self_prefix)
qed

lemma has_substring_append_right: "has_substring p s \<Longrightarrow> has_substring p (s @ t)"
  by (auto simp: has_substring_iff) (metis append.assoc)

lemma str_lower_append [simp]: "str_lower (s @ t) = str_lower s @ str_lower t"
  by (simp add: str_lower_def)

section \<open>Decimal printing\<close>

definition digit_char :: "nat \<Rightarrow> char" where
  "digit_char d = char_of (48 + d)"

fun str_nat :: "nat \<Rightarrow> string" where
  "str_nat n = (if n < 10 then [digit_char n] else str_nat (n div 10) @ [digit_char (n mod 10)])"

declare str_nat.simps [simp del]

definition str_int :: "int \<Rightarrow> string" where
  "str_int i = (if i < 0 then CHR ''-'' # str_nat (nat (- i)) else str_nat (nat i))"

lemma str_nat_nonempty [simp]: "str_nat n \<noteq> []"
  by (subst str_nat.simps) simp

lemma str_int_nonempty [simp]: "str_int i \<noteq> []"
  by (simp add: str_int_def)

section \<open>Lists\<close>

definition join_with :: "string \<Rightarrow> string list \<Rightarrow> string" where
  "join_with sep xs = concat (case xs of [] \<Rightarrow> [] | y # ys \<Rightarrow> y # concat (map (\<lambda>z. [sep, z]) ys))"

text \<open>\<open>list(dict.fromkeys(...))\<close> and \<open>{...}\<close> over a list: first occurrences kept in order.\<close>

definition sum_or_none :: "real list \<Rightarrow> real option" where
  "sum_or_none xs = (if xs = [] then None else Some (sum_list xs))"

text \<open>\<open>d.setdefault(k, []).append(v)\<close> on a dict of lists.\<close>

fun dict_append :: "'k \<Rightarrow> 'v \<Rightarrow> ('k \<times> 'v list) list \<Rightarrow> ('k \<times> 'v list) list" where
  "dict_append k v [] = [(k, [v])]"
| "dict_append k v ((k', vs) # d) =
     (if k = k' then (k', vs @ [v]) # d else (k', vs) # dict_append k v d)"

definition dict_get_list :: "('k \<times> 'v list) list \<Rightarrow> 'k \<Rightarrow> 'v list" where
  "dict_get_list d k = (case map_of d k of None \<Rightarrow> [] | Some vs \<Rightarrow> vs)"

lemma dict_get_list_append [simp]:
  "dict_get_list (dict_append k v d) k' = (if k = k' then dict_get_list d k' @ [v] else dict_get_list d k')"
  by (induction k v d rule: dict_append.induct) (auto simp: dict_get_list_def)

lemma map_filter_comp: "map f (filter (P \<circ> f) xs) = filter P (map f xs)"
  by (simp add: filter_map)

lemma length_filter_mono:
  "(\<And>x. x \<in> set xs \<Longrightarrow> P x \<Longrightarrow> Q x) \<Longrightarrow> length (filter P xs) \<le> length (filter Q xs)"
  by (induction xs) (auto simp: le_SucI)

lemma fold_append_concat: "fold (\<lambda>x acc. acc @ f x) xs ys = ys @ concat (map f xs)"
  by (induction xs arbitrary: ys) auto

lemma foldl_snoc_map: "foldl (\<lambda>acc x. acc @ [f x]) ys xs = ys @ map f xs"
  by (induction xs arbitrary: ys) auto

lemma sorted_hd_le: "sorted xs \<Longrightarrow> x \<in> set xs \<Longrightarrow> hd xs \<le> x"
  by (cases xs) auto

lemma sorted_le_last: "sorted xs \<Longrightarrow> x \<in> set xs \<Longrightarrow> x \<le> last xs"
  by (induction xs) auto

lemma sum_list_bounds:
  fixes xs :: "real list"
  assumes "\<And>x. x \<in> set xs \<Longrightarrow> lo \<le> x \<and> x \<le> hi"
  shows "real (length xs) * lo \<le> sum_list xs \<and> sum_list xs \<le> real (length xs) * hi"
  using assms
proof (induction xs)
  case Nil
  then show ?case by simp
next
  case (Cons x xs)
  then have "real (length xs) * lo \<le> sum_list xs \<and> sum_list xs \<le> real (length xs) * hi"
    and "lo \<le> x \<and> x \<le> hi" by simp_all
  then show ?case by (simp add: algebra_simps)
qed

end
