(* ===== verification/Channel_Config.thy ===== *)
theory Channel_Config
  imports Py_Prelude
begin

text \<open>
  The named grpcio option bundles of \<open>channel_config.py\<close>: the allowlist of channel arguments,
  the validating constructor, the seven presets and the look-ups over them.
\<close>

section \<open>Options and their allowlist\<close>

datatype option_value = Opt_Int int | Opt_Str string

type_synonym channel_options = "(string \<times> option_value) list"

definition ALLOWED_ARGS :: "string list" where
  "ALLOWED_ARGS =
    [''grpc.max_send_message_length'', ''grpc.max_receive_message_length'',
     ''grpc.keepalive_time_ms'', ''grpc.keepalive_timeout_ms'',
     ''grpc.keepalive_permit_without_calls'', ''grpc.http2.max_pings_without_data'',
     ''grpc.http2.min_time_between_pings_ms'',
     ''grpc.http2.min_ping_interval_without_data_ms'', ''grpc.http2.bdp_probe'',
     ''grpc.http2.lookahead_bytes'', ''grpc.http2.max_frame_size'',
     ''grpc.default_compression_algorithm'', ''grpc.default_compression_level'']"

fun validate_options :: "channel_options \<Rightarrow> unit py_result" where
  "validate_options [] = Inr ()"
| "validate_options ((k, _) # rest) =
     (if \<not> List.member ALLOWED_ARGS k then Inl (value_error ''unknown grpcio channel arg'')
      else validate_options rest)"

lemma validate_options_ok_iff:
  "validate_options opts = Inr () \<longleftrightarrow> fst ` set opts \<subseteq> set ALLOWED_ARGS"
  by (induction opts rule: validate_options.induct) auto

section \<open>Names\<close>

text \<open>
  The regular expression \<open>^[a-z0-9][a-z0-9-]+[a-z0-9]$\<close>. In Python \<open>$\<close> also matches just before
  one trailing newline, so a name that ends in a newline is accepted too.
\<close>

definition lower_alnum :: "char \<Rightarrow> bool" where
  "lower_alnum c = (let n = of_char c :: nat in (97 \<le> n \<and> n \<le> 122) \<or> (48 \<le> n \<and> n \<le> 57))"

definition kebab :: "string \<Rightarrow> bool" where
  "kebab s \<longleftrightarrow> 3 \<le> length s \<and> lower_alnum (hd s) \<and> lower_alnum (last s)
     \<and> list_all (\<lambda>c. lower_alnum c \<or> c = CHR ''-'') s"

definition newline :: char where "newline = char_of (10 :: nat)"

definition name_re_match :: "string \<Rightarrow> bool" where
  "name_re_match s \<longleftrightarrow> kebab s \<or> (s \<noteq> [] \<and> last s = newline \<and> kebab (butlast s))"

section \<open>The configuration record\<close>

datatype axis = Ax_Max_Message_Size | Ax_Keepalive | Ax_Compression | Ax_Http2_Framing
  | Ax_Baseline | Ax_Schema

datatype compression = NoCompression | Gzip | Deflate

record channel_config =
  cfg_name :: string
  cfg_axis :: axis
  cfg_server_options :: channel_options
  cfg_client_options :: channel_options
  cfg_compression :: compression
  cfg_description :: string

definition mk_channel_config ::
  "string \<Rightarrow> axis \<Rightarrow> channel_options \<Rightarrow> channel_options \<Rightarrow> compression \<Rightarrow> string
     \<Rightarrow> channel_config py_result" where
  "mk_channel_config nm ax srv cli cmp desc =
     (if \<not> name_re_match nm then Inl (value_error ''ChannelConfig.name must be kebab-case'')
      else bind_result (validate_options srv) (\<lambda>_.
           bind_result (validate_options cli) (\<lambda>_.
             Inr \<lparr>cfg_name = nm, cfg_axis = ax, cfg_server_options = srv,
                  cfg_client_options = cli, cfg_compression = cmp, cfg_description = desc\<rparr>)))"

lemma mk_channel_config_ok:
  "mk_channel_config nm ax srv cli cmp desc = Inr cfg \<Longrightarrow>
     name_re_match (cfg_name cfg)
     \<and> fst ` set (cfg_server_options cfg) \<subseteq> set ALLOWED_ARGS
     \<and> fst ` set (cfg_client_options cfg) \<subseteq> set ALLOWED_ARGS"
  by (simp add: mk_channel_config_def bind_result_Inr_iff validate_options_ok_iff
           split: if_split_asm, elim conjE, hypsubst, simp)

section \<open>Presets\<close>

text \<open>
  The arguments of each module-level call. \<open>preset_args\<close> lists them in the order of
  \<open>ALL_PRESETS\<close>; \<open>ALL_PRESETS\<close> runs the validating constructor on each.
\<close>

definition BASELINE :: channel_config where
  "BASELINE = \<lparr>cfg_name = ''m1-baseline'', cfg_axis = Ax_Baseline, cfg_server_options = [],
     cfg_client_options = [], cfg_compression = NoCompression,
     cfg_description = ''No explicit channel options; matches M1 wire shape exactly.''\<rparr>"

definition MAX_MSG_16MIB :: channel_config where
  "MAX_MSG_16MIB = \<lparr>cfg_name = ''max-msg-16mib'', cfg_axis = Ax_Max_Message_Size,
     cfg_server_options = [(''grpc.max_send_message_length'', Opt_Int (16 * 1024 * 1024)),
                           (''grpc.max_receive_message_length'', Opt_Int (16 * 1024 * 1024))],
     cfg_client_options = [(''grpc.max_send_message_length'', Opt_Int (16 * 1024 * 1024)),
                           (''grpc.max_receive_message_length'', Opt_Int (16 * 1024 * 1024))],
     cfg_compression = NoCompression,
     cfg_description =
       ''16 MiB on each side; clears hidden_size=8192 float32 embeds with margin.''\<rparr>"

definition MAX_MSG_UNLIMITED :: channel_config where
  "MAX_MSG_UNLIMITED = \<lparr>cfg_name = ''max-msg-unlimited'', cfg_axis = Ax_Max_Message_Size,
     cfg_server_options = [(''grpc.max_send_message_length'', Opt_Int (- 1)),
                           (''grpc.max_receive_message_length'', Opt_Int (- 1))],
     cfg_client_options = [(''grpc.max_send_message_length'', Opt_Int (- 1)),
                           (''grpc.max_receive_message_length'', Opt_Int (- 1))],
     cfg_compression = NoCompression,
     cfg_description =
       ''Both sides unlimited (-1); used to confirm bind/no-bind boundary cleanly.''\<rparr>"

definition KEEPALIVE_AGGRESSIVE :: channel_config where
  "KEEPALIVE_AGGRESSIVE = \<lparr>cfg_name = ''keepalive-aggressive'', cfg_axis = Ax_Keepalive,
     cfg_server_options = [(''grpc.keepalive_time_ms'', Opt_Int 10000),
                           (''grpc.keepalive_timeout_ms'', Opt_Int 5000),
                           (''grpc.keepalive_permit_without_calls'', Opt_Int 1),
                           (''grpc.http2.min_time_between_pings_ms'', Opt_Int 5000),
                           (''grpc.http2.min_ping_interval_without_data_ms'', Opt_Int 5000)],
     cfg_client_options = [(''grpc.keepalive_time_ms'', Opt_Int 10000),
                           (''grpc.keepalive_timeout_ms'', Opt_Int 5000),
                           (''grpc.keepalive_permit_without_calls'', Opt_Int 1)],
     cfg_compression = NoCompression,
     cfg_description =
       ''10s keepalive ping interval; surfaces GOAWAY storms on unconfigured servers.''\<rparr>"

definition KEEPALIVE_RELAXED :: channel_config where
  "KEEPALIVE_RELAXED = \<lparr>cfg_name = ''keepalive-relaxed'', cfg_axis = Ax_Keepalive,
     cfg_server_options = [(''grpc.keepalive_time_ms'', Opt_Int 60000),
                           (''grpc.keepalive_timeout_ms'', Opt_Int 20000)],
     cfg_client_options = [(''grpc.keepalive_time_ms'', Opt_Int 60000),
                           (''grpc.keepalive_timeout_ms'', Opt_Int 20000)],
     cfg_compression = NoCompression,
     cfg_description =
       ''60s keepalive ping interval; closer to typical production tuning.''\<rparr>"

definition COMPRESSION_GZIP :: channel_config where
  "COMPRESSION_GZIP = \<lparr>cfg_name = ''compression-gzip'', cfg_axis = Ax_Compression,
     cfg_server_options = [], cfg_client_options = [], cfg_compression = Gzip,
     cfg_description =
       ''Gzip channel-level compression; expected to enlarge dense float embeds.''\<rparr>"

definition HTTP2_BDP_PROBE :: channel_config where
  "HTTP2_BDP_PROBE = \<lparr>cfg_name = ''http2-bdp-probe'', cfg_axis = Ax_Http2_Framing,
     cfg_server_options = [(''grpc.http2.bdp_probe'', Opt_Int 1),
                           (''grpc.http2.lookahead_bytes'', Opt_Int 16384)],
     cfg_client_options = [(''grpc.http2.bdp_probe'', Opt_Int 1),
                           (''grpc.http2.lookahead_bytes'', Opt_Int 16384)],
     cfg_compression = NoCompression,
     cfg_description = ''Adaptive HTTP/2 flow-control window via BDP probing.''\<rparr>"

definition ALL_PRESETS :: "channel_config list" where
  "ALL_PRESETS = [BASELINE, MAX_MSG_16MIB, MAX_MSG_UNLIMITED, KEEPALIVE_AGGRESSIVE,
     KEEPALIVE_RELAXED, COMPRESSION_GZIP, HTTP2_BDP_PROBE]"

definition revalidate :: "channel_config \<Rightarrow> channel_config py_result" where
  "revalidate c = mk_channel_config (cfg_name c) (cfg_axis c) (cfg_server_options c)
     (cfg_client_options c) (cfg_compression c) (cfg_description c)"

lemmas preset_defs = BASELINE_def MAX_MSG_16MIB_def MAX_MSG_UNLIMITED_def
  KEEPALIVE_AGGRESSIVE_def KEEPALIVE_RELAXED_def COMPRESSION_GZIP_def HTTP2_BDP_PROBE_def

definition preset_by_name :: "string \<Rightarrow> channel_config py_result" where
  "preset_by_name nm =
     (case find (\<lambda>c. cfg_name c = nm) ALL_PRESETS of
        Some c \<Rightarrow> Inr c
      | None \<Rightarrow> Inl (key_error ''no ChannelConfig preset named''))"

definition presets_for_axis :: "axis \<Rightarrow> channel_config list" where
  "presets_for_axis ax = BASELINE # filter (\<lambda>c. cfg_axis c = ax) ALL_PRESETS"

record client_kwargs =
  kw_options :: "channel_options option"
  kw_compression :: "compression option"

definition client_kwargs_of :: "channel_config \<Rightarrow> client_kwargs" where
  "client_kwargs_of cfg =
     \<lparr>kw_options = (if cfg_client_options cfg \<noteq> [] then Some (cfg_client_options cfg) else None),
      kw_compression =
        (if cfg_compression cfg \<noteq> NoCompression then Some (cfg_compression cfg) else None)\<rparr>"

lemma preset_validates:
  "revalidate BASELINE = Inr BASELINE"
  "revalidate MAX_MSG_16MIB = Inr MAX_MSG_16MIB"
  "revalidate MAX_MSG_UNLIMITED = Inr MAX_MSG_UNLIMITED"
  "revalidate KEEPALIVE_AGGRESSIVE = Inr KEEPALIVE_AGGRESSIVE"
  "revalidate KEEPALIVE_RELAXED = Inr KEEPALIVE_RELAXED"
  "revalidate COMPRESSION_GZIP = Inr COMPRESSION_GZIP"
  "revalidate HTTP2_BDP_PROBE = Inr HTTP2_BDP_PROBE"
  by (simp_all add: revalidate_def mk_channel_config_def name_re_match_def kebab_def
        lower_alnum_def ALLOWED_ARGS_def preset_defs)

lemma preset_by_name_ok: "preset_by_name nm = Inr c \<Longrightarrow> c \<in> set ALL_PRESETS \<and> cfg_name c = nm"
  by (auto simp: preset_by_name_def find_Some_iff split: option.splits)

lemma presets_distinct_names: "distinct (map cfg_name ALL_PRESETS)"
  by (simp add: ALL_PRESETS_def preset_defs)

end
