(* ===== verification/Bench_Types.thy ===== *)
theory Bench_Types
  imports Channel_Config
begin

text \<open>
  The harness-wide types of \<open>tools/benchmark/src/vllm_grpc_bench/types.py\<close>: the cohort
  universe, the sweep cells, the per-RPC result, and the records whose \<open>__post_init__\<close>
  validates its fields. A record with a validator is a HOL record and a constructor
  \<open>mk_<record>\<close> that returns the record or the \<open>ValueError\<close> the code raises.
\<close>

section \<open>Cohorts\<close>

datatype cohort = Rest_Https_Edge | Rest_Plain_Tcp | Default_Grpc | Tuned_Grpc_Multiplexed

primrec cohort_name :: "cohort \<Rightarrow> string" where
  "cohort_name Rest_Https_Edge = ''rest_https_edge''"
| "cohort_name Rest_Plain_Tcp = ''rest_plain_tcp''"
| "cohort_name Default_Grpc = ''default_grpc''"
| "cohort_name Tuned_Grpc_Multiplexed = ''tuned_grpc_multiplexed''"

text \<open>
  The harness sorts cohorts by name. The order of the type is that alphabetical order:
  default, rest https, rest plain, tuned.
\<close>

primrec cohort_rank :: "cohort \<Rightarrow> nat" where
  "cohort_rank Default_Grpc = 0"
| "cohort_rank Rest_Https_Edge = 1"
| "cohort_rank Rest_Plain_Tcp = 2"
| "cohort_rank Tuned_Grpc_Multiplexed = 3"

lemma cohort_rank_inject [simp]: "cohort_rank a = cohort_rank b \<longleftrightarrow> a = b"
  by (cases a; cases b) simp_all

instantiation cohort :: linorder
begin

definition less_eq_cohort :: "cohort \<Rightarrow> cohort \<Rightarrow> bool" where
  "less_eq_cohort a b \<longleftrightarrow> cohort_rank a \<le> cohort_rank b"

definition less_cohort :: "cohort \<Rightarrow> cohort \<Rightarrow> bool" where
  "less_cohort a b \<longleftrightarrow> cohort_rank a < cohort_rank b"

instance
proof
  fix x y z :: cohort
  show "(x < y) = (x \<le> y \<and> \<not> y \<le> x)"
    by (auto simp: less_eq_cohort_def less_cohort_def)
  show "x \<le> x" by (simp add: less_eq_cohort_def)
  show "x \<le> y \<Longrightarrow> y \<le> z \<Longrightarrow> x \<le> z" by (simp add: less_eq_cohort_def)
  show "x \<le> y \<Longrightarrow> y \<le> x \<Longrightarrow> x = y" by (simp add: less_eq_cohort_def antisym)
  show "x \<le> y \<or> y \<le> x" by (auto simp: less_eq_cohort_def)
qed

end

definition COHORTS :: "cohort list" where
  "COHORTS = [Rest_Https_Edge, Rest_Plain_Tcp, Default_Grpc, Tuned_Grpc_Multiplexed]"

definition cohorts_at_concurrency :: "int \<Rightarrow> cohort list" where
  "cohorts_at_concurrency c =
     (if c = 1 then [Default_Grpc, Rest_Https_Edge, Rest_Plain_Tcp]
      else [Default_Grpc, Tuned_Grpc_Multiplexed, Rest_Https_Edge, Rest_Plain_Tcp])"

lemma distinct_COHORTS: "distinct COHORTS"
  by (simp add: COHORTS_def)

lemma set_COHORTS [simp]: "set COHORTS = UNIV"
  by (auto simp: COHORTS_def intro: cohort.exhaust)

lemma distinct_cohorts_at_concurrency [simp]: "distinct (cohorts_at_concurrency c)"
  by (simp add: cohorts_at_concurrency_def)

lemma length_cohorts_at_concurrency:
  "length (cohorts_at_concurrency c) = (if c = 1 then 3 else 4)"
  by (simp add: cohorts_at_concurrency_def)

lemma cohorts_at_concurrency_nonempty [simp]: "cohorts_at_concurrency c \<noteq> []"
  by (simp add: cohorts_at_concurrency_def)

section \<open>Cells\<close>

datatype path = Embed | Chat_Stream

primrec path_name :: "path \<Rightarrow> string" where
  "path_name Embed = ''embed''"
| "path_name Chat_Stream = ''chat_stream''"

record cell =
  cell_path :: path
  cell_hidden_size :: int
  cell_concurrency :: int

definition CELLS :: "(path \<times> int \<times> int) list" where
  "CELLS =
    [(Embed, 4096, 1), (Embed, 4096, 4), (Embed, 4096, 8),
     (Chat_Stream, 4096, 1), (Chat_Stream, 4096, 4), (Chat_Stream, 4096, 8)]"

section \<open>Engine cost and RPC results\<close>

record engine_cost_span =
  engine_forward_ms :: "real option"
  engine_ttft_ms :: "real option"
  engine_tpot_ms :: "real option"

text \<open>A timing payload value is an \<open>int\<close>, a \<open>str\<close> or \<open>None\<close>.\<close>

datatype payload_value = PV_Int int | PV_Str string | PV_None

record rpc_result =
  rr_success :: bool
  rr_wall_clock_ms :: "real option"
  rr_ttft_ms :: "real option"
  rr_engine_cost :: "engine_cost_span option"
  rr_failure_reason :: "string option"
  rr_timing_payload :: "(string \<times> payload_value) list option"

section \<open>Validated records\<close>

record rtt_record =
  rtt_n :: int
  rtt_median_ms :: real
  rtt_p95_ms :: real
  rtt_samples_ms :: "real list"

definition mk_rtt_record :: "int \<Rightarrow> real \<Rightarrow> real \<Rightarrow> real list \<Rightarrow> rtt_record py_result" where
  "mk_rtt_record n med p95 samples =
     (if n < 1 then Inl (value_error ''RTTRecord.n must be >= 1'')
      else if list_ex (\<lambda>s. s < 0) samples
        then Inl (value_error ''RTTRecord.samples_ms entries must be non-negative'')
      else Inr \<lparr>rtt_n = n, rtt_median_ms = med, rtt_p95_ms = p95, rtt_samples_ms = samples\<rparr>)"

datatype corpus_subset = M1_Chat | M1_Embed | M3_Long_Stream

definition CANONICAL_WIDTHS :: "int list" where
  "CANONICAL_WIDTHS = [2048, 4096, 8192]"

record benchmark_cell =
  bc_path :: path
  bc_hidden_size :: int
  bc_channel_config :: channel_config
  bc_corpus_subset :: corpus_subset
  bc_iterations :: int

definition mk_benchmark_cell ::
  "path \<Rightarrow> int \<Rightarrow> channel_config \<Rightarrow> corpus_subset \<Rightarrow> int \<Rightarrow> benchmark_cell py_result" where
  "mk_benchmark_cell p h cfg sub iters =
     (if h \<le> 0 then Inl (value_error ''BenchmarkCell.hidden_size must be > 0'')
      else if iters < 1 then Inl (value_error ''BenchmarkCell.iterations must be >= 1'')
      else if p = Embed \<and> sub \<noteq> M1_Embed
        then Inl (value_error ''path/corpus_subset mismatch: path=embed'')
      else if p = Chat_Stream \<and> \<not> List.member [M1_Chat, M3_Long_Stream] sub
        then Inl (value_error ''path/corpus_subset mismatch: path=chat_stream'')
      else Inr \<lparr>bc_path = p, bc_hidden_size = h, bc_channel_config = cfg,
                bc_corpus_subset = sub, bc_iterations = iters\<rparr>)"

primrec corpus_subset_name :: "corpus_subset \<Rightarrow> string" where
  "corpus_subset_name M1_Chat = ''m1_chat''"
| "corpus_subset_name M1_Embed = ''m1_embed''"
| "corpus_subset_name M3_Long_Stream = ''m3_long_stream''"

definition benchmark_cell_id :: "benchmark_cell \<Rightarrow> string" where
  "benchmark_cell_id c = path_name (bc_path c) @ ''|h'' @ str_int (bc_hidden_size c) @ ''|''
     @ cfg_name (bc_channel_config c) @ ''|'' @ corpus_subset_name (bc_corpus_subset c)"

definition off_canonical :: "benchmark_cell \<Rightarrow> bool" where
  "off_canonical c \<longleftrightarrow> \<not> List.member CANONICAL_WIDTHS (bc_hidden_size c)"

record expansion_record =
  er_initial_n :: int
  er_initial_ci_overlapped :: bool
  er_expanded :: bool
  er_final_n :: int
  er_expansion_reason :: "string option"

definition mk_expansion_record ::
  "int \<Rightarrow> bool \<Rightarrow> bool \<Rightarrow> int \<Rightarrow> string option \<Rightarrow> expansion_record py_result" where
  "mk_expansion_record n0 overlapped expanded n1 reason =
     (if n0 < 1 then Inl (value_error ''ExpansionRecord.initial_n must be >= 1'')
      else if n1 < n0 then Inl (value_error ''ExpansionRecord.final_n must be >= initial_n'')
      else if expanded \<and> n1 = n0
        then Inl (value_error ''ExpansionRecord.expanded=True requires final_n > initial_n'')
      else if \<not> expanded \<and> n1 \<noteq> n0
        then Inl (value_error ''ExpansionRecord.expanded=False requires final_n == initial_n'')
      else Inr \<lparr>er_initial_n = n0, er_initial_ci_overlapped = overlapped, er_expanded = expanded,
                er_final_n = n1, er_expansion_reason = reason\<rparr>)"

text \<open>
  A record that the validator accepts is expanded exactly when it took more samples, which is
  what the readers of \<open>expanded\<close> rely on.
\<close>

lemma mk_expansion_record_expanded:
  "mk_expansion_record n0 ov ex n1 r = Inr e \<Longrightarrow>
     er_expanded e \<longleftrightarrow> er_initial_n e < er_final_n e"
  by (auto simp: mk_expansion_record_def split: if_splits)

lemma mk_benchmark_cell_subset:
  "mk_benchmark_cell p h cfg sub it = Inr c \<Longrightarrow>
     (bc_path c = Embed \<longleftrightarrow> bc_corpus_subset c = M1_Embed) \<and> 0 < bc_hidden_size c
       \<and> 1 \<le> bc_iterations c"
  by (cases p; cases sub) (auto simp: mk_benchmark_cell_def split: if_splits)

end
