(* ===== verification/Sweep_Types.thy ===== *)
theory Sweep_Types
  imports Bench_Types
begin

text \<open>
  The shared constants and records of \<open>sweep_types.py\<close>: the \<open>max_tokens\<close> axis and its
  subsets, the thresholds, and the rows of the M6.2 artifact. Field names carry a short prefix
  per record, because HOL record fields share one name space.
\<close>

section \<open>Axis constants and thresholds\<close>

definition MAX_TOKENS_AXIS :: "int list" where
  "MAX_TOKENS_AXIS = [10, 50, 256, 512, 1024, 2048]"

definition VALIDATE_MAX_TOKENS_AXIS :: "int list" where
  "VALIDATE_MAX_TOKENS_AXIS = [10, 50, 2048]"

definition NULL_ANCHOR_MAX_TOKENS :: "int list" where
  "NULL_ANCHOR_MAX_TOKENS = [10, 50]"

definition INTERIOR_CAP_MAX_TOKENS :: "int list" where
  "INTERIOR_CAP_MAX_TOKENS = [256, 512, 1024, 2048]"

definition SUB_PROBE_MAX_TOKENS :: "int list" where
  "SUB_PROBE_MAX_TOKENS = [1024, 2048]"

definition SUB_PROBE_N :: int where "SUB_PROBE_N = 20"

definition PUBLISH_N :: int where "PUBLISH_N = 40"

definition KV_PRESSURE_THRESHOLD :: real where "KV_PRESSURE_THRESHOLD = 22 / 10"

definition NULL_ANCHOR_DRIFT_COUNT_THRESHOLD :: int where
  "NULL_ANCHOR_DRIFT_COUNT_THRESHOLD = 2"

definition LATENCY_DRIFT_COHORT_COUNT_THRESHOLD :: int where
  "LATENCY_DRIFT_COHORT_COUNT_THRESHOLD = 2"

definition FAILURE_SUMMARY_CELL_COUNT_THRESHOLD :: int where
  "FAILURE_SUMMARY_CELL_COUNT_THRESHOLD = 3"

lemmas axis_defs = MAX_TOKENS_AXIS_def VALIDATE_MAX_TOKENS_AXIS_def NULL_ANCHOR_MAX_TOKENS_def
  INTERIOR_CAP_MAX_TOKENS_def SUB_PROBE_MAX_TOKENS_def

lemma axis_partition:
  "set MAX_TOKENS_AXIS = set NULL_ANCHOR_MAX_TOKENS \<union> set INTERIOR_CAP_MAX_TOKENS"
  "set NULL_ANCHOR_MAX_TOKENS \<inter> set INTERIOR_CAP_MAX_TOKENS = {}"
  "set SUB_PROBE_MAX_TOKENS \<subseteq> set INTERIOR_CAP_MAX_TOKENS"
  "set VALIDATE_MAX_TOKENS_AXIS \<subseteq> set MAX_TOKENS_AXIS"
  by (auto simp: axis_defs)

section \<open>Literal vocabularies\<close>

datatype sweep_mode = Publish | Validate

datatype prompt_source =
  Synthetic_Seed_Derived | Corpus_Sharegpt | Synthetic_Random_Tensor | Corpus_Sharegpt_Embed

datatype measurement_regime = Natural_Eos | Forced_Cap_Ignore_Eos_True

datatype wall_clock_label =
  Kv_Pressure_Inferred_Chat_Stream | Kv_Pressure_Inferred_Embed | Kv_Pressure_Not_Observable

datatype drift_verdict = PASS | WARN | FAIL

section \<open>Records\<close>

record measurement_point =
  mp_cell_id :: string
  mp_cohort :: cohort
  mp_max_tokens :: int
  mp_n_rpcs :: int
  mp_wall_p50_ms :: "real option"
  mp_wall_p95_ms :: "real option"
  mp_wall_p99_ms :: "real option"
  mp_wall_p50_ci :: "real option"
  mp_tpot_ms :: "real option"
  mp_seg_ab_ms :: "real option"
  mp_seg_queue_ms :: "real option"
  mp_seg_prefill_ms :: "real option"
  mp_seg_ingress_ms :: "real option"
  mp_seg_egress_ms :: "real option"
  mp_failed_reason :: "string option"
  mp_block_start_utc :: string
  mp_block_end_utc :: string
  mp_retry_attempted :: bool
  mp_clock_anomaly :: bool
  mp_prompt_source :: prompt_source
  mp_measurement_regime :: measurement_regime
  mp_prompt_corpus_idx :: "int option"

record null_anchor =
  na_cell_id :: string
  na_cohort :: cohort
  na_max_tokens :: int
  na_m6_2_p50 :: "real option"
  na_m6_1_3_p50 :: "real option"
  na_m6_1_3_ci :: "real option"
  na_drift_verdict :: "drift_verdict option"
  na_drift_fraction :: "real option"
  na_new_baseline :: bool

text \<open>
  The evidence text of a crossover record, by its five forms and the values interpolated: winner
  p50 and half-width, second p50 and half-width, and the cap.
\<close>

datatype crossover_evidence =
    Evidence_Base_Inconclusive
  | Evidence_Too_Few_Cohorts
  | Evidence_Not_Robust
  | Evidence_Overlap real real real real int
  | Evidence_Survives

record crossover_threshold =
  ct_cell_id :: string
  ct_winner :: "cohort option"
  ct_second :: "cohort option"
  ct_crossover_max_tokens :: "int option"
  ct_evidence :: crossover_evidence
  ct_base_verdict :: string

record kv_pressure_observation =
  kv_cohort :: cohort
  kv_cell_type :: path
  kv_ratio :: "real option"
  kv_label :: wall_clock_label
  kv_cache_peak :: "real option"
  kv_stall :: "string option"
  kv_oom_observed :: bool
  kv_n_rpcs :: int
  kv_prompt_source :: prompt_source
  kv_regime :: measurement_regime

record anchor_snapshot =
  as_wall_p50_ms :: real
  as_wall_p95_ms :: real
  as_wall_p99_ms :: real
  as_timestamp :: string
  as_hour_mark :: real

record anchor_trajectory =
  at_cohort :: cohort
  at_snapshots :: "anchor_snapshot list"
  at_spread :: real
  at_drift_warning :: bool
  at_insufficient :: bool

text \<open>The identity of a block: cell, cohort and cap, the key of every lookup over rows.\<close>

type_synonym block_key = "string \<times> cohort \<times> int"

definition mp_key :: "measurement_point \<Rightarrow> block_key" where
  "mp_key m = (mp_cell_id m, mp_cohort m, mp_max_tokens m)"

end
