(* ===== verification/Corpus.thy ===== *)
theory Corpus
  imports Sweep_Types "HOL-Library.Char_ord" "HOL-Library.List_Lexorder" "HOL-Library.Multiset"
begin

text \<open>
  \<open>corpus.py\<close>: the prompt corpora and the SHA gate that pins them. The disk, SHA-256 and the
  JSON and tensor readers are the environment \<open>corpus_env\<close>; bytes are character lists. A
  decoded JSON item keeps a missing key as \<open>None\<close>, so a \<open>KeyError\<close> stays an outcome; its
  values have the types the dataclasses annotate.
\<close>

section \<open>Samples\<close>

type_synonym chat_message = "(string \<times> string) list"

record request_sample =
  rs_id :: string
  rs_messages :: "chat_message list"
  rs_model :: string
  rs_max_tokens :: int
  rs_temperature :: real
  rs_seed :: int
  rs_bucket :: string

record completion_text_sample =
  ts_id :: string
  ts_prompt :: string
  ts_model :: string
  ts_max_tokens :: int
  ts_seed :: int
  ts_bucket :: string

record completion_embed_sample =
  es_id :: int
  es_tensor_bytes :: string
  es_max_tokens :: int
  es_seed :: int
  es_seq_len :: int
  es_bucket :: string

section \<open>Environment\<close>

record raw_chat_item =
  ri_id :: "string option"
  ri_messages :: "chat_message list option"
  ri_model :: "string option"
  ri_max_tokens :: "int option"
  ri_temperature :: "real option"
  ri_seed :: "int option"
  ri_bucket :: "string option"

record raw_text_item =
  rt_id :: "string option"
  rt_prompt :: "string option"
  rt_model :: "string option"
  rt_max_tokens :: "int option"
  rt_seed :: "int option"
  rt_bucket :: "string option"

record raw_embed_entry =
  re_id :: "int option"
  re_embed_file :: "string option"
  re_sha256 :: "string option"
  re_max_tokens :: "int option"
  re_seed :: "int option"
  re_seq_len :: "int option"
  re_bucket :: "string option"

record raw_manifest =
  rm_corpus_sha256 :: "string option"
  rm_entries :: "raw_embed_entry list option"

record corpus_env =
  env_read :: "string \<Rightarrow> string option"
  env_is_dir :: "string \<Rightarrow> bool"
  env_sha256 :: "string \<Rightarrow> string"
  env_loads_chat :: "string \<Rightarrow> raw_chat_item list py_result"
  env_loads_text :: "string \<Rightarrow> raw_text_item list py_result"
  env_loads_embeds :: "string \<Rightarrow> raw_embed_entry list py_result"
  env_loads_manifest :: "string \<Rightarrow> raw_manifest py_result"
  env_loads_provenance :: "string \<Rightarrow> (string \<times> string) list py_result"
  env_torch_resave :: "(string \<Rightarrow> string py_result) option"

abbreviation file_not_found :: "string \<Rightarrow> py_exn" where
  "file_not_found m \<equiv> Exn ''FileNotFoundError'' m"

abbreviation corpus_drift :: "string \<Rightarrow> py_exn" where
  "corpus_drift m \<equiv> Exn ''CorpusDriftError'' m"

definition path_join :: "string \<Rightarrow> string \<Rightarrow> string" where
  "path_join d f = (if starts_with ''/'' f then f else d @ ''/'' @ f)"

definition need :: "string \<Rightarrow> 'a option \<Rightarrow> 'a py_result" where
  "need k x = (case x of None \<Rightarrow> Inl (key_error k) | Some v \<Rightarrow> Inr v)"

definition read_text :: "corpus_env \<Rightarrow> string \<Rightarrow> string py_result" where
  "read_text e p = (case env_read e p of None \<Rightarrow> Inl (file_not_found p) | Some t \<Rightarrow> Inr t)"

section \<open>Loading the chat corpus\<close>

definition request_sample_of :: "raw_chat_item \<Rightarrow> request_sample py_result" where
  "request_sample_of it =
     bind_result (need ''id'' (ri_id it)) (\<lambda>i.
     bind_result (need ''messages'' (ri_messages it)) (\<lambda>ms.
     bind_result (need ''model'' (ri_model it)) (\<lambda>m.
     bind_result (need ''max_tokens'' (ri_max_tokens it)) (\<lambda>mt.
     bind_result (need ''temperature'' (ri_temperature it)) (\<lambda>t.
     bind_result (need ''seed'' (ri_seed it)) (\<lambda>s.
       Inr \<lparr>rs_id = i, rs_messages = ms, rs_model = m, rs_max_tokens = mt, rs_temperature = t,
            rs_seed = s,
            rs_bucket = (case ri_bucket it of None \<Rightarrow> ''unspecified'' | Some b \<Rightarrow> b)\<rparr>))))))"

definition load_corpus :: "corpus_env \<Rightarrow> string \<Rightarrow> request_sample list py_result" where
  "load_corpus e p =
     bind_result (read_text e p) (\<lambda>txt.
     bind_result (env_loads_chat e txt) (\<lambda>raw.
       if raw = [] then Inl (value_error ''Corpus is empty'')
       else map_result request_sample_of raw))"

definition sha256_of_file :: "corpus_env \<Rightarrow> string \<Rightarrow> string py_result" where
  "sha256_of_file e p = bind_result (read_text e p) (\<lambda>bytes. Inr (env_sha256 e bytes))"

definition verify_corpus_sha :: "corpus_env \<Rightarrow> string \<Rightarrow> string \<Rightarrow> unit py_result" where
  "verify_corpus_sha e p expected =
     bind_result (sha256_of_file e p) (\<lambda>observed.
       if observed \<noteq> expected then Inl (corpus_drift ''Corpus SHA mismatch'') else Inr ())"

section \<open>Loading the embedding corpus\<close>

definition compute_embed_corpus_sha :: "corpus_env \<Rightarrow> string list \<Rightarrow> string" where
  "compute_embed_corpus_sha e shas = env_sha256 e (join_with [char_of (10::nat)] (sort shas))"

definition embed_sample_of ::
  "corpus_env \<Rightarrow> string \<Rightarrow> raw_embed_entry \<Rightarrow> completion_embed_sample py_result" where
  "embed_sample_of e dir entry =
     bind_result (need ''embed_file'' (re_embed_file entry)) (\<lambda>f.
       let p = path_join dir f
       in if env_read e p = None then Inl (file_not_found ''Embed tensor file is missing'')
          else bind_result (sha256_of_file e p) (\<lambda>observed.
               bind_result (need ''sha256'' (re_sha256 entry)) (\<lambda>expected.
                 if observed \<noteq> expected then Inl (corpus_drift ''Embed tensor SHA mismatch'')
                 else bind_result (need ''id'' (re_id entry)) (\<lambda>i.
                      bind_result (read_text e p) (\<lambda>bytes.
                      bind_result (need ''seq_len'' (re_seq_len entry)) (\<lambda>sl.
                      bind_result (need ''bucket'' (re_bucket entry)) (\<lambda>b.
                        Inr \<lparr>es_id = i, es_tensor_bytes = bytes, es_max_tokens = 0, es_seed = 0,
                             es_seq_len = sl, es_bucket = b\<rparr>)))))))"

definition load_completions_embeds_qwen3_8b ::
  "corpus_env \<Rightarrow> string \<Rightarrow> completion_embed_sample list py_result" where
  "load_completions_embeds_qwen3_8b e dir =
     (if \<not> env_is_dir e dir then Inl (file_not_found ''Embed corpus directory not found'')
      else let mp = path_join dir ''manifest.json''
      in if env_read e mp = None then Inl (file_not_found ''Embed corpus manifest not found'')
      else bind_result (read_text e mp) (\<lambda>txt.
           bind_result (env_loads_manifest e txt) (\<lambda>manifest.
           bind_result (need ''corpus_sha256'' (rm_corpus_sha256 manifest)) (\<lambda>expected.
           bind_result (need ''entries'' (rm_entries manifest)) (\<lambda>entries.
           bind_result (map_result (\<lambda>en. need ''sha256'' (re_sha256 en)) entries) (\<lambda>shas.
             if compute_embed_corpus_sha e shas \<noteq> expected
             then Inl (corpus_drift ''Embed corpus SHA mismatch'')
             else map_result (embed_sample_of e dir) entries))))))"

section \<open>The older completions corpora\<close>

datatype completions_corpus =
    Text_Corpus "completion_text_sample list"
  | Embed_Corpus "completion_embed_sample list"

definition text_sample_of :: "raw_text_item \<Rightarrow> completion_text_sample py_result" where
  "text_sample_of it =
     bind_result (need ''id'' (rt_id it)) (\<lambda>i.
     bind_result (need ''prompt'' (rt_prompt it)) (\<lambda>p.
     bind_result (need ''model'' (rt_model it)) (\<lambda>m.
     bind_result (need ''max_tokens'' (rt_max_tokens it)) (\<lambda>mt.
     bind_result (need ''seed'' (rt_seed it)) (\<lambda>s.
       Inr \<lparr>ts_id = i, ts_prompt = p, ts_model = m, ts_max_tokens = mt, ts_seed = s,
            ts_bucket = (case rt_bucket it of None \<Rightarrow> ''short'' | Some b \<Rightarrow> b)\<rparr>)))))"

text \<open>
  The tensor is loaded and saved again by torch; \<open>None\<close> in the environment is an import error.
  \<open>parent_dir\<close> is \<open>corpus_dir.parent\<close>.
\<close>

definition old_embed_sample_of ::
  "corpus_env \<Rightarrow> (string \<Rightarrow> string py_result) \<Rightarrow> string \<Rightarrow> raw_embed_entry
     \<Rightarrow> completion_embed_sample py_result" where
  "old_embed_sample_of e resave parent_dir entry =
     bind_result (need ''embed_file'' (re_embed_file entry)) (\<lambda>f.
       let p = path_join parent_dir f
       in case env_read e p of
            None \<Rightarrow> Inl (file_not_found ''Embedding file not found'')
          | Some raw \<Rightarrow>
              bind_result (resave raw) (\<lambda>bytes.
              bind_result (need ''id'' (re_id entry)) (\<lambda>i.
              bind_result (need ''max_tokens'' (re_max_tokens entry)) (\<lambda>mt.
              bind_result (need ''seed'' (re_seed entry)) (\<lambda>s.
              bind_result (need ''seq_len'' (re_seq_len entry)) (\<lambda>sl.
              bind_result (need ''bucket'' (re_bucket entry)) (\<lambda>b.
                Inr \<lparr>es_id = i, es_tensor_bytes = bytes, es_max_tokens = mt, es_seed = s,
                     es_seq_len = sl, es_bucket = b\<rparr>)))))))"

definition load_completions_corpus ::
  "corpus_env \<Rightarrow> bool \<Rightarrow> string \<Rightarrow> string \<Rightarrow> completions_corpus py_result" where
  "load_completions_corpus e is_text corpus_dir parent_dir =
     (if is_text then
        (let p = path_join corpus_dir ''completions_text.json''
         in if env_read e p = None then Inl (file_not_found ''Completions text corpus not found'')
            else bind_result (read_text e p) (\<lambda>txt.
                 bind_result (env_loads_text e txt) (\<lambda>raw.
                 bind_result (map_result text_sample_of raw) (\<lambda>xs. Inr (Text_Corpus xs)))))
      else
        (let mp = path_join (path_join corpus_dir ''completions_embeds'') ''manifest.json''
         in if env_read e mp = None
            then Inl (file_not_found ''Completions embeds manifest not found'')
            else case env_torch_resave e of
                   None \<Rightarrow> Inl (Exn ''ImportError'' ''torch is required to load embedding corpus'')
                 | Some resave \<Rightarrow>
                     bind_result (read_text e mp) (\<lambda>txt.
                     bind_result (env_loads_embeds e txt) (\<lambda>manifest.
                     bind_result (map_result (old_embed_sample_of e resave parent_dir) manifest)
                       (\<lambda>xs. Inr (Embed_Corpus xs))))))"

section \<open>Lemmas\<close>

lemma need_Inr_iff [simp]: "need k x = Inr v \<longleftrightarrow> x = Some v"
  by (auto simp: need_def split: option.splits)

lemma read_text_Inr_iff [simp]: "read_text e p = Inr t \<longleftrightarrow> env_read e p = Some t"
  by (auto simp: read_text_def split: option.splits)

lemma sha256_of_file_Inr_iff:
  "sha256_of_file e p = Inr h \<longleftrightarrow> (\<exists>t. env_read e p = Some t \<and> h = env_sha256 e t)"
  by (auto simp: sha256_of_file_def bind_result_Inr_iff)

lemma verify_corpus_sha_ok_iff:
  "verify_corpus_sha e p sha = Inr () \<longleftrightarrow> (\<exists>t. env_read e p = Some t \<and> env_sha256 e t = sha)"
  by (auto simp: verify_corpus_sha_def bind_result_Inr_iff sha256_of_file_Inr_iff
      split: if_split_asm)

lemma embed_sample_of_ok:
  "embed_sample_of e dir en = Inr s \<Longrightarrow>
     \<exists>h. re_sha256 en = Some h \<and> env_sha256 e (es_tensor_bytes s) = h \<and> re_id en = Some (es_id s)"
  by (auto simp: embed_sample_of_def bind_result_Inr_iff Let_def sha256_of_file_Inr_iff
      split: if_split_asm)

lemma load_embeds_ok:
  assumes "load_completions_embeds_qwen3_8b e dir = Inr samples"
  shows "\<exists>m entries. rm_entries (m :: raw_manifest) = Some entries
      \<and> rm_corpus_sha256 m
          = Some (compute_embed_corpus_sha e (map (\<lambda>s. env_sha256 e (es_tensor_bytes s)) samples))
      \<and> list_all2 (\<lambda>en s. re_sha256 en = Some (env_sha256 e (es_tensor_bytes s))) entries samples"
proof -
  from assms obtain m :: raw_manifest and entries shas where
    m: "rm_entries m = Some entries" "rm_corpus_sha256 m = Some (compute_embed_corpus_sha e shas)"
    and shas: "map_result (\<lambda>en. need ''sha256'' (re_sha256 en)) entries = Inr shas"
    and smp: "map_result (embed_sample_of e dir) entries = Inr samples"
    unfolding load_completions_embeds_qwen3_8b_def
    by (clarsimp simp: bind_result_Inr_iff Let_def split: if_split_asm)
  have ok: "list_all2 (\<lambda>en s. re_sha256 en = Some (env_sha256 e (es_tensor_bytes s))) entries samples"
    using smp unfolding map_result_Inr_iff
    by (rule list_all2_mono) (auto dest: embed_sample_of_ok)
  moreover have "shas = map (\<lambda>s. env_sha256 e (es_tensor_bytes s)) samples"
    using shas ok unfolding map_result_Inr_iff
    by (auto simp: list_all2_conv_all_nth intro!: nth_equalityI)
  ultimately show ?thesis using m by blast
qed

text \<open>The embedding corpus hash forgets the order of the entries.\<close>

lemma embed_sha_permutation_invariant:
  "mset shas = mset shas' \<Longrightarrow> compute_embed_corpus_sha e shas = compute_embed_corpus_sha e shas'"
  by (simp add: compute_embed_corpus_sha_def) (metis properties_for_sort mset_sort sorted_sort)

end
