(* ===== verification/Py_Parse.thy ===== *)
theory Py_Parse
  imports Py_Prelude
begin

text \<open>
  Python's \<open>int(text)\<close> and \<open>float(text)\<close> on ASCII text: surrounding white space is dropped, an
  optional sign is read, and single underscores may stand between digits. The texts
  \<open>inf\<close>, \<open>infinity\<close> and \<open>nan\<close>, whose values are not reals, are read as unparseable.
  The result \<open>None\<close> stands for the \<open>ValueError\<close> that the callers catch.
\<close>

definition is_space :: "char \<Rightarrow> bool" where
  "is_space c = (let n = of_char c :: nat in (9 \<le> n \<and> n \<le> 13) \<or> (28 \<le> n \<and> n \<le> 32))"

definition py_strip :: "string \<Rightarrow> string" where
  "py_strip s = rev (dropWhile is_space (rev (dropWhile is_space s)))"

definition is_digit :: "char \<Rightarrow> bool" where
  "is_digit c = (let n = of_char c :: nat in 48 \<le> n \<and> n \<le> 57)"

definition digit_val :: "char \<Rightarrow> nat" where
  "digit_val c = of_char c - 48"

fun digits_val :: "nat \<Rightarrow> bool \<Rightarrow> string \<Rightarrow> nat option" where
  "digits_val acc prev [] = (if prev then Some acc else None)"
| "digits_val acc prev (c # cs) =
     (if is_digit c then digits_val (10 * acc + digit_val c) True cs
      else if c = CHR ''_'' \<and> prev then digits_val acc False cs
      else None)"

definition split_sign :: "string \<Rightarrow> bool \<times> string" where
  "split_sign s = (case s of
       [] \<Rightarrow> (False, [])
     | c # cs \<Rightarrow> if c = CHR ''-'' then (True, cs) else if c = CHR ''+'' then (False, cs)
                else (False, s))"

definition py_int :: "string \<Rightarrow> int option" where
  "py_int s = (let (neg, ds) = split_sign (py_strip s)
               in map_option (\<lambda>n. if neg then - int n else int n) (digits_val 0 False ds))"

section \<open>Floats\<close>

definition digit_count :: "string \<Rightarrow> nat" where
  "digit_count s = length (filter is_digit s)"

definition mantissa_val :: "string \<Rightarrow> real option" where
  "mantissa_val m =
     (let ip = takeWhile (\<lambda>c. c \<noteq> CHR ''.'') m; rest = dropWhile (\<lambda>c. c \<noteq> CHR ''.'') m
      in case rest of
           [] \<Rightarrow> map_option real (digits_val 0 False ip)
         | _ # fp \<Rightarrow>
             if ip = [] then map_option (\<lambda>f. real f / 10 ^ digit_count fp) (digits_val 0 False fp)
             else if fp = [] then map_option real (digits_val 0 False ip)
             else (case (digits_val 0 False ip, digits_val 0 False fp) of
                     (Some i, Some f) \<Rightarrow> Some (real i + real f / 10 ^ digit_count fp)
                   | _ \<Rightarrow> None))"

definition exponent_val :: "string \<Rightarrow> real option" where
  "exponent_val e = (let (neg, ds) = split_sign e
     in map_option (\<lambda>n. if neg then 1 / 10 ^ n else 10 ^ n) (digits_val 0 False ds))"

definition is_exp_mark :: "char \<Rightarrow> bool" where
  "is_exp_mark c \<longleftrightarrow> c = CHR ''e'' \<or> c = CHR ''E''"

definition py_float :: "string \<Rightarrow> real option" where
  "py_float s =
     (let (neg, body) = split_sign (py_strip s);
          m = takeWhile (\<lambda>c. \<not> is_exp_mark c) body;
          scaled = (case dropWhile (\<lambda>c. \<not> is_exp_mark c) body of
                      [] \<Rightarrow> mantissa_val m
                    | _ # e \<Rightarrow> (case (mantissa_val m, exponent_val e) of
                                 (Some a, Some b) \<Rightarrow> Some (a * b) | _ \<Rightarrow> None))
      in map_option (\<lambda>x. if neg then - x else x) scaled)"

section \<open>Printing and reading back\<close>

lemma of_char_digit_char: "d < 10 \<Longrightarrow> (of_char (digit_char d) :: nat) = 48 + d"
  by (simp add: digit_char_def of_char_of)

lemma is_digit_digit_char [simp]: "d < 10 \<Longrightarrow> is_digit (digit_char d)"
  by (simp add: is_digit_def of_char_digit_char)

lemma digit_val_digit_char [simp]: "d < 10 \<Longrightarrow> digit_val (digit_char d) = d"
  by (simp add: digit_val_def of_char_digit_char)

lemma digit_not_space: "is_digit c \<Longrightarrow> \<not> is_space c"
  by (auto simp: is_digit_def is_space_def Let_def)

lemma str_nat_digits: "c \<in> set (str_nat n) \<Longrightarrow> is_digit c"
proof (induction n rule: str_nat.induct)
  case (1 n)
  then show ?case
    by (subst (asm) (2) str_nat.simps) (auto split: if_split_asm)
qed

lemma digits_val_snoc:
  "list_all is_digit s \<Longrightarrow> is_digit c \<Longrightarrow> s \<noteq> [] \<or> prev \<Longrightarrow>
     digits_val acc prev (s @ [c]) =
       map_option (\<lambda>v. 10 * v + digit_val c) (digits_val acc prev s)"
  by (induction s arbitrary: acc prev) auto

lemma digits_val_str_nat: "digits_val 0 False (str_nat n) = Some n"
proof (induction n rule: str_nat.induct)
  case (1 n)
  show ?case
  proof (cases "n < 10")
    case True
    then show ?thesis by (subst str_nat.simps) simp
  next
    case False
    moreover have "list_all is_digit (str_nat (n div 10))"
      by (auto simp: list_all_iff intro: str_nat_digits)
    ultimately show ?thesis
      using 1 by (subst str_nat.simps) (simp add: digits_val_snoc)
  qed
qed

lemma dropWhile_none: "(\<And>x. x \<in> set xs \<Longrightarrow> \<not> P x) \<Longrightarrow> dropWhile P xs = xs"
  by (cases xs) auto

lemma py_strip_no_space: "(\<And>c. c \<in> set s \<Longrightarrow> \<not> is_space c) \<Longrightarrow> py_strip s = s"
proof -
  assume "\<And>c. c \<in> set s \<Longrightarrow> \<not> is_space c"
  then have "dropWhile is_space s = s" "dropWhile is_space (rev s) = rev s"
    by (auto intro!: dropWhile_none)
  then show ?thesis by (simp add: py_strip_def)
qed

lemma minus_not_digit_space: "\<not> is_digit (CHR ''-'')" "\<not> is_space (CHR ''-'')"
  "\<not> is_digit (CHR ''+'')"
  by (simp_all add: is_digit_def is_space_def)

lemma str_int_no_space: "c \<in> set (str_int i) \<Longrightarrow> \<not> is_space c"
  by (auto simp: str_int_def minus_not_digit_space split: if_split_asm
      dest!: str_nat_digits digit_not_space)

lemma split_sign_str_nat: "split_sign (str_nat n) = (False, str_nat n)"
proof (cases "str_nat n")
  case (Cons c cs)
  then have "is_digit c" using str_nat_digits[of c n] by simp
  then show ?thesis using Cons minus_not_digit_space by (auto simp: split_sign_def)
qed simp

theorem py_int_str_int [simp]: "py_int (str_int i) = Some i"
proof -
  have strip: "py_strip (str_int i) = str_int i"
    by (rule py_strip_no_space) (rule str_int_no_space)
  show ?thesis
  proof (cases "i < 0")
    case True
    then show ?thesis
      using strip by (simp add: py_int_def str_int_def split_sign_def digits_val_str_nat)
  next
    case False
    then show ?thesis
      using strip by (simp add: py_int_def str_int_def split_sign_str_nat digits_val_str_nat)
  qed
qed

lemma str_int_inject [simp]: "str_int i = str_int j \<longleftrightarrow> i = j"
  by (metis option.inject py_int_str_int)

end
