(* ===== verification/Py_Json.thy ===== *)
theory Py_Json
  imports Py_Parse
begin

text \<open>
  JSON values as Python holds them after \<open>json.loads\<close>, and the conversions \<open>int(v)\<close>,
  \<open>float(v)\<close> and \<open>str(v)\<close> the harness applies to them. A dict is an association list with its
  keys in insertion order. The text form of JSON is not modelled: reading and writing it is
  the standard library's, and the components that need it take it as an argument.
\<close>

datatype json =
    JNull
  | JBool bool
  | JInt int
  | JFloat real
  | JStr string
  | JList "json list"
  | JObj "(string \<times> json) list"

type_synonym json_dict = "(string \<times> json) list"

text \<open>\<open>d[k]\<close>, whose missing key is a \<open>KeyError\<close>, and \<open>d.get(k)\<close>, whose missing key is \<open>None\<close>.\<close>

definition dict_item :: "(string \<times> 'v) list \<Rightarrow> string \<Rightarrow> 'v py_result" where
  "dict_item d k = (case map_of d k of None \<Rightarrow> Inl (key_error k) | Some v \<Rightarrow> Inr v)"

definition json_get :: "json_dict \<Rightarrow> string \<Rightarrow> json" where
  "json_get d k = (case map_of d k of None \<Rightarrow> JNull | Some v \<Rightarrow> v)"

abbreviation type_error :: "string \<Rightarrow> py_exn" where
  "type_error m \<equiv> Exn ''TypeError'' m"

text \<open>The same on a value of any kind, and the iteration of one.\<close>

fun json_index :: "json \<Rightarrow> string \<Rightarrow> json py_result" where
  "json_index (JObj kvs) k = dict_item kvs k"
| "json_index _ k = Inl (type_error ''not subscriptable by a string'')"

fun json_iter :: "json \<Rightarrow> json list py_result" where
  "json_iter (JList xs) = Inr xs"
| "json_iter (JObj kvs) = Inr (map (JStr \<circ> fst) kvs)"
| "json_iter (JStr s) = Inr (map (\<lambda>c. JStr [c]) s)"
| "json_iter _ = Inl (type_error ''object is not iterable'')"

fun json_get_or :: "json \<Rightarrow> string \<Rightarrow> json \<Rightarrow> json py_result" where
  "json_get_or (JObj kvs) k fallback = Inr (case map_of kvs k of None \<Rightarrow> fallback | Some v \<Rightarrow> v)"
| "json_get_or _ k fallback = Inl (Exn ''AttributeError'' ''object has no attribute 'get' '')"

definition trunc_real :: "real \<Rightarrow> int" where
  "trunc_real x = (if 0 \<le> x then \<lfloor>x\<rfloor> else \<lceil>x\<rceil>)"

definition int_of_str :: "string \<Rightarrow> int py_result" where
  "int_of_str s = (case py_int s of None \<Rightarrow> Inl (value_error ''invalid literal for int()'')
                                 | Some i \<Rightarrow> Inr i)"

fun json_int :: "json \<Rightarrow> int py_result" where
  "json_int (JInt i) = Inr i"
| "json_int (JBool b) = Inr (if b then 1 else 0)"
| "json_int (JFloat x) = Inr (trunc_real x)"
| "json_int (JStr s) = int_of_str s"
| "json_int _ = Inl (type_error ''int() argument'')"

definition float_of_str :: "string \<Rightarrow> real py_result" where
  "float_of_str s = (case py_float s of None \<Rightarrow> Inl (value_error ''could not convert string to float'')
                                     | Some x \<Rightarrow> Inr x)"

fun json_float :: "json \<Rightarrow> real py_result" where
  "json_float (JInt i) = Inr (real_of_int i)"
| "json_float (JBool b) = Inr (if b then 1 else 0)"
| "json_float (JFloat x) = Inr x"
| "json_float (JStr s) = float_of_str s"
| "json_float _ = Inl (type_error ''float() argument'')"

text \<open>
  \<open>str(v)\<close>. The text of a float, a list or a dict is the argument \<open>other\<close>: Python's float
  printing is not modelled.
\<close>

fun json_str :: "(json \<Rightarrow> string) \<Rightarrow> json \<Rightarrow> string" where
  "json_str other JNull = ''None''"
| "json_str other (JBool b) = (if b then ''True'' else ''False'')"
| "json_str other (JInt i) = str_int i"
| "json_str other (JStr s) = s"
| "json_str other v = other v"

fun json_truthy :: "json \<Rightarrow> bool" where
  "json_truthy JNull = False"
| "json_truthy (JBool b) = b"
| "json_truthy (JInt i) = (i \<noteq> 0)"
| "json_truthy (JFloat x) = (x \<noteq> 0)"
| "json_truthy (JStr s) = (s \<noteq> [])"
| "json_truthy (JList xs) = (xs \<noteq> [])"
| "json_truthy (JObj kvs) = (kvs \<noteq> [])"

text \<open>An \<open>except (KeyError, ValueError, TypeError): return None\<close> around a result.\<close>

definition or_none :: "'a py_result \<Rightarrow> 'a option" where
  "or_none r = (case r of Inl _ \<Rightarrow> None | Inr x \<Rightarrow> Some x)"

lemma or_none_simps [simp]: "or_none (Inl e) = None" "or_none (Inr x) = Some x"
  by (simp_all add: or_none_def)

lemma or_none_eq_Some [simp]: "or_none r = Some x \<longleftrightarrow> r = Inr x"
  by (cases r) auto

lemma int_of_str_int [simp]: "int_of_str (str_int i) = Inr i"
  by (simp add: int_of_str_def)

lemma dict_item_simps [simp]:
  "dict_item ((k, v) # d) k = Inr v"
  "k \<noteq> k' \<Longrightarrow> dict_item ((k', v) # d) k = dict_item d k"
  by (simp_all add: dict_item_def)

lemma dict_item_Inr_iff: "dict_item d k = Inr v \<longleftrightarrow> map_of d k = Some v"
  by (simp add: dict_item_def split: option.splits)

end
