(* ===== verification/Prompts.thy ===== *)
theory Prompts
  imports Corpus Py_Json
begin

text \<open>
  \<open>prompts.py\<close> and \<open>seq_len.py\<close>: the seeded chat prompt, the cohort-symmetric corpus pick, the
  SHA-gated loaders, and the three-regime resolver that decides what every block sends. The
  blake2b hex digest of a text is the argument \<open>digest\<close>.
\<close>

definition DEFAULT_CHAT_MAX_TOKENS :: int where "DEFAULT_CHAT_MAX_TOKENS = 64"

definition build_chat_prompt :: "(string \<Rightarrow> string) \<Rightarrow> int \<Rightarrow> string" where
  "build_chat_prompt digest seed =
     ''M6 chat probe seed='' @ str_int seed @ '' digest='' @ digest (str_int seed)
       @ ''. Please respond.''"

definition assign_symmetric_prompt :: "int \<Rightarrow> cohort \<Rightarrow> 'a list \<Rightarrow> 'a py_result" where
  "assign_symmetric_prompt iter_idx cohort corpus =
     (if corpus = [] then Inl (value_error ''assign_symmetric_prompt: corpus must be non-empty'')
      else Inr (corpus ! nat (iter_idx mod int (length corpus))))"

section \<open>Gated loaders\<close>

definition load_chat_corpus_provenance ::
  "corpus_env \<Rightarrow> string \<Rightarrow> (string \<times> string) list py_result" where
  "load_chat_corpus_provenance e p =
     (if env_read e p = None then Inl (file_not_found ''Chat corpus provenance file not found'')
      else bind_result (read_text e p) (env_loads_provenance e))"

definition load_chat_corpus ::
  "corpus_env \<Rightarrow> string \<Rightarrow> string \<Rightarrow> request_sample list py_result" where
  "load_chat_corpus e p provenance_path =
     (if env_read e p = None then Inl (file_not_found ''Chat corpus file not found'')
      else bind_result (load_chat_corpus_provenance e provenance_path) (\<lambda>prov.
           bind_result (need ''corpus_sha256'' (map_of prov ''corpus_sha256'')) (\<lambda>expected.
             case verify_corpus_sha e p expected of
               Inl exc \<Rightarrow> if exn_name exc = ''CorpusDriftError''
                          then Inl (corpus_drift (''chat: '' @ exn_msg exc)) else Inl exc
             | Inr _ \<Rightarrow> load_corpus e p)))"

definition load_embed_corpus_manifest :: "corpus_env \<Rightarrow> string \<Rightarrow> raw_manifest py_result" where
  "load_embed_corpus_manifest e dir =
     (let mp = path_join dir ''manifest.json''
      in if \<not> env_is_dir e dir then Inl (file_not_found ''Embed corpus directory not found'')
         else if env_read e mp = None then Inl (file_not_found ''Embed corpus manifest not found'')
         else bind_result (read_text e mp) (env_loads_manifest e))"

definition load_embed_corpus :: "corpus_env \<Rightarrow> string \<Rightarrow> completion_embed_sample list py_result" where
  "load_embed_corpus = load_completions_embeds_qwen3_8b"

section \<open>The block inputs\<close>

record block_inputs =
  bi_prompt_text :: "string option"
  bi_embed_tensor_bytes :: "string option"
  bi_prompt_source :: prompt_source
  bi_prompt_corpus_idx :: "int option"
  bi_ignore_eos :: bool
  bi_max_tokens :: int

definition cell_type_of :: "string \<Rightarrow> path py_result" where
  "cell_type_of cid =
     (if starts_with ''chat_stream'' cid then Inr Chat_Stream
      else if starts_with ''embed'' cid then Inr Embed
      else Inl (value_error ''Unrecognized cell_id''))"

datatype regime = Null_Anchor_Regime | Interior_Cap_Regime

definition regime_of :: "int \<Rightarrow> regime py_result" where
  "regime_of mt =
     (if List.member NULL_ANCHOR_MAX_TOKENS mt then Inr Null_Anchor_Regime
      else if List.member INTERIOR_CAP_MAX_TOKENS mt then Inr Interior_Cap_Regime
      else if List.member SUB_PROBE_MAX_TOKENS mt then Inr Interior_Cap_Regime
      else Inl (value_error ''max_tokens not in any M6.2 regime''))"

text \<open>\<open>next(m for m in messages if m["role"] == "user")\<close>: no user message raises \<open>StopIteration\<close>.\<close>

fun first_user_message :: "chat_message list \<Rightarrow> chat_message py_result" where
  "first_user_message [] = Inl (Exn ''StopIteration'' [])"
| "first_user_message (m # ms) =
     bind_result (dict_item m ''role'') (\<lambda>r. if r = ''user'' then Inr m else first_user_message ms)"

definition resolve_block_inputs ::
  "(string \<Rightarrow> string) \<Rightarrow> string \<Rightarrow> int \<Rightarrow> int \<Rightarrow> cohort \<Rightarrow> int \<Rightarrow> request_sample list option
     \<Rightarrow> completion_embed_sample list option \<Rightarrow> bool option \<Rightarrow> block_inputs py_result" where
  "resolve_block_inputs digest cell mt iter_idx cohort base_seed chat_corpus embed_corpus override =
     bind_result (cell_type_of cell) (\<lambda>ctype.
     bind_result (regime_of mt) (\<lambda>regime.
       let ignore_eos = (override = Some True)
       in if regime = Null_Anchor_Regime \<and> \<not> ignore_eos then
            (if ctype = Chat_Stream then
               (let seed = base_seed + iter_idx
                in Inr \<lparr>bi_prompt_text = Some (build_chat_prompt digest seed),
                        bi_embed_tensor_bytes = None, bi_prompt_source = Synthetic_Seed_Derived,
                        bi_prompt_corpus_idx = None, bi_ignore_eos = False, bi_max_tokens = mt\<rparr>)
             else Inr \<lparr>bi_prompt_text = None, bi_embed_tensor_bytes = None,
                        bi_prompt_source = Synthetic_Random_Tensor, bi_prompt_corpus_idx = None,
                        bi_ignore_eos = False, bi_max_tokens = mt\<rparr>)
          else if ctype = Chat_Stream then
            (case chat_corpus of
               None \<Rightarrow> Inl (value_error ''chat_corpus must be provided for corpus-regime chat blocks'')
             | Some corpus \<Rightarrow>
                 bind_result (assign_symmetric_prompt iter_idx cohort corpus) (\<lambda>smp.
                 bind_result (first_user_message (rs_messages smp)) (\<lambda>msg.
                 bind_result (dict_item msg ''content'') (\<lambda>content.
                   Inr \<lparr>bi_prompt_text = Some content, bi_embed_tensor_bytes = None,
                        bi_prompt_source = Corpus_Sharegpt, bi_prompt_corpus_idx = Some iter_idx,
                        bi_ignore_eos = ignore_eos, bi_max_tokens = mt\<rparr>))))
          else
            (case embed_corpus of
               None \<Rightarrow> Inl (value_error ''embed_corpus must be provided for corpus-regime embed blocks'')
             | Some corpus \<Rightarrow>
                 bind_result (assign_symmetric_prompt iter_idx cohort corpus) (\<lambda>smp.
                   Inr \<lparr>bi_prompt_text = None, bi_embed_tensor_bytes = Some (es_tensor_bytes smp),
                        bi_prompt_source = Corpus_Sharegpt_Embed,
                        bi_prompt_corpus_idx = Some iter_idx,
                        bi_ignore_eos = ignore_eos, bi_max_tokens = mt\<rparr>))))"

section \<open>The pinned sequence length\<close>

definition M6_TEXT_DIGEST_SAMPLE :: string where
  "M6_TEXT_DIGEST_SAMPLE = ''embeds:'' @ replicate 16 (CHR ''0'')"

definition PRECOMPUTED_SEQ_LEN :: "((string \<times> string) \<times> int) list" where
  "PRECOMPUTED_SEQ_LEN = [((''Qwen/Qwen3-8B'', M6_TEXT_DIGEST_SAMPLE), 19)]"

text \<open>A tokenizer is its \<open>encode\<close>; fetching one is the argument \<open>from_pretrained\<close>.\<close>

type_synonym tokenizer = "string \<Rightarrow> int list"

definition load_tokenizer ::
  "(string \<Rightarrow> tokenizer) \<Rightarrow> (string \<times> tokenizer) list \<Rightarrow> string
     \<Rightarrow> tokenizer \<times> (string \<times> tokenizer) list" where
  "load_tokenizer from_pretrained cache m =
     (case map_of cache m of
        Some tok \<Rightarrow> (tok, cache)
      | None \<Rightarrow> let tok = from_pretrained m in (tok, (m, tok) # cache))"

definition pin_seq_len_at_sweep_start ::
  "(string \<Rightarrow> tokenizer) \<Rightarrow> (string \<times> tokenizer) list \<Rightarrow> string
     \<Rightarrow> int py_result \<times> (string \<times> tokenizer) list" where
  "pin_seq_len_at_sweep_start from_pretrained cache m =
     (case map_of PRECOMPUTED_SEQ_LEN (m, M6_TEXT_DIGEST_SAMPLE) of
        Some n \<Rightarrow> (Inr n, cache)
      | None \<Rightarrow>
          let (tok, cache') = load_tokenizer from_pretrained cache m;
              n = int (length (tok M6_TEXT_DIGEST_SAMPLE))
          in (if n < 1 then Inl (Exn ''RuntimeError'' ''tokenizer returned 0 tokens'') else Inr n,
              cache'))"

section \<open>Lemmas\<close>

lemma assign_symmetric_prompt_cohort:
  "assign_symmetric_prompt i c1 corpus = assign_symmetric_prompt i c2 corpus"
  by (simp add: assign_symmetric_prompt_def)

lemma assign_symmetric_prompt_mem:
  "assign_symmetric_prompt i c corpus = Inr x \<Longrightarrow> x \<in> set corpus"
  by (auto simp: assign_symmetric_prompt_def nat_less_iff split: if_split_asm intro!: nth_mem)

lemma assign_symmetric_prompt_wraps:
  "assign_symmetric_prompt (i + int (length corpus)) c corpus = assign_symmetric_prompt i c corpus"
  by (simp add: assign_symmetric_prompt_def)

lemma cell_type_of_path_name [simp]: "cell_type_of (path_name p @ s) = Inr p"
  by (cases p) (simp_all add: cell_type_of_def starts_with_def)

lemma regime_of_axis:
  "regime_of mt = Inr r \<longleftrightarrow> mt \<in> set MAX_TOKENS_AXIS
     \<and> r = (if mt \<in> set NULL_ANCHOR_MAX_TOKENS then Null_Anchor_Regime else Interior_Cap_Regime)"
  by (auto simp: regime_of_def axis_defs)

text \<open>The cohort plays no part in a block's inputs.\<close>

lemma resolve_block_inputs_cohort:
  "resolve_block_inputs dg cell mt i c1 seed cc ec ov
   = resolve_block_inputs dg cell mt i c2 seed cc ec ov"
  unfolding resolve_block_inputs_def assign_symmetric_prompt_def by (rule refl)

text \<open>
  What a resolved block carries: the label of its regime, the corpus index exactly in the corpus
  regimes, the cap unchanged, and never both a prompt and a tensor.
\<close>

lemma resolve_block_inputs_wf:
  assumes "resolve_block_inputs dg cell mt i c seed cc ec ov = Inr b"
  shows "bi_max_tokens b = mt \<and> bi_ignore_eos b = (ov = Some True)
    \<and> (bi_prompt_corpus_idx b = None \<longleftrightarrow> mt \<in> set NULL_ANCHOR_MAX_TOKENS \<and> ov \<noteq> Some True)
    \<and> (bi_prompt_corpus_idx b = None \<longleftrightarrow>
         bi_prompt_source b \<in> {Synthetic_Seed_Derived, Synthetic_Random_Tensor})
    \<and> (bi_prompt_corpus_idx b \<noteq> None \<longrightarrow> bi_prompt_corpus_idx b = Some i)
    \<and> (bi_prompt_text b = None \<or> bi_embed_tensor_bytes b = None)"
  using assms
  by (auto simp: resolve_block_inputs_def bind_result_Inr_iff Let_def regime_of_axis
      split: if_split_asm option.split_asm)

lemma load_chat_corpus_gate:
  assumes "load_chat_corpus e p prov = Inr xs"
  shows "\<exists>txt d. env_read e p = Some txt \<and> load_chat_corpus_provenance e prov = Inr d
    \<and> map_of d ''corpus_sha256'' = Some (env_sha256 e txt) \<and> load_corpus e p = Inr xs"
proof -
  from assms obtain d h where
    d: "load_chat_corpus_provenance e prov = Inr d" "map_of d ''corpus_sha256'' = Some h"
    and v: "(case verify_corpus_sha e p h of
        Inl exc \<Rightarrow> if exn_name exc = ''CorpusDriftError''
                   then Inl (corpus_drift (''chat: '' @ exn_msg exc)) else Inl exc
      | Inr _ \<Rightarrow> load_corpus e p) = Inr xs"
    unfolding load_chat_corpus_def
    by (simp add: bind_result_Inr_iff split: if_split_asm) blast
  then have "verify_corpus_sha e p h = Inr ()" "load_corpus e p = Inr xs"
    by (auto split: sum.split_asm if_split_asm)
  with d show ?thesis unfolding verify_corpus_sha_ok_iff by blast
qed

lemma load_chat_corpus_drift:
  assumes "env_read e p = Some txt" "load_chat_corpus_provenance e prov = Inr d"
    and "map_of d ''corpus_sha256'' = Some h" "h \<noteq> env_sha256 e txt"
  shows "\<exists>m. load_chat_corpus e p prov = Inl (corpus_drift m)"
  using assms
  by (auto simp: load_chat_corpus_def verify_corpus_sha_def sha256_of_file_def need_def
      read_text_def split: if_split_asm sum.split_asm)

section \<open>Properties\<close>

text \<open>
  The chat corpus the sweep measures with is the one its provenance file names: it loads only
  when the SHA-256 of the file equals the recorded one, and any other content is rejected with a
  \<open>CorpusDriftError\<close>.
\<close>

theorem chat_corpus_gated:
  assumes "env_read e p = Some txt" "load_chat_corpus_provenance e prov = Inr d"
    and "map_of d ''corpus_sha256'' = Some h"
  shows "(if h = env_sha256 e txt then load_chat_corpus e p prov = load_corpus e p
          else \<exists>m. load_chat_corpus e p prov = Inl (corpus_drift m))"
proof (cases "h = env_sha256 e txt")
  case True
  have n: "need ''corpus_sha256'' (map_of d ''corpus_sha256'') = Inr h"
    and v: "verify_corpus_sha e p h = Inr ()"
    using assms True by (simp_all add: verify_corpus_sha_ok_iff)
  show ?thesis unfolding load_chat_corpus_def using True assms(1,2) n v by (simp add: need_def)
next
  case False
  then show ?thesis using load_chat_corpus_drift[OF assms] by simp
qed

definition demo_env :: corpus_env where
  "demo_env = \<lparr>env_read = (\<lambda>p. Some p), env_is_dir = (\<lambda>_. True), env_sha256 = (\<lambda>t. t),
     env_loads_chat = (\<lambda>_. Inr []), env_loads_text = (\<lambda>_. Inr []), env_loads_embeds = (\<lambda>_. Inr []),
     env_loads_manifest = (\<lambda>_. Inl (Exn ''X'' [])),
     env_loads_provenance = (\<lambda>_. Inr [(''corpus_sha256'', ''chat'')]), env_torch_resave = None\<rparr>"

theorem chat_corpus_gated_witness:
  "\<exists>m. load_chat_corpus demo_env ''other'' ''prov'' = Inl (corpus_drift m)"
  using chat_corpus_gated[of demo_env "''other''" "''other''" "''prov''" "[(''corpus_sha256'', ''chat'')]" "''chat''"]
  by (simp add: demo_env_def load_chat_corpus_provenance_def read_text_def)

text \<open>
  What a block sends does not depend on its cohort: at the same position the four cohorts get
  the same inputs or the same error; a block reads the corpus exactly when its cap is an interior one
  (or the sub-probe forces it), and its prompt source says so.
\<close>

theorem block_inputs_symmetric:
  "resolve_block_inputs dg cid mt i c1 seed cc ec ov = resolve_block_inputs dg cid mt i c2 seed cc ec ov
    \<and> (\<forall>b. resolve_block_inputs dg cid mt i c1 seed cc ec ov = Inr b \<longrightarrow>
         bi_max_tokens b = mt \<and> bi_ignore_eos b = (ov = Some True)
         \<and> (bi_prompt_corpus_idx b = None \<longleftrightarrow> mt \<in> set NULL_ANCHOR_MAX_TOKENS \<and> ov \<noteq> Some True)
         \<and> (bi_prompt_corpus_idx b = None
              \<longleftrightarrow> bi_prompt_source b \<in> {Synthetic_Seed_Derived, Synthetic_Random_Tensor}))"
  using resolve_block_inputs_cohort[of dg cid mt i c1 seed cc ec ov c2]
    resolve_block_inputs_wf[of dg cid mt i c1 seed cc ec ov] by blast

theorem block_inputs_symmetric_witness:
  "resolve_block_inputs (\<lambda>s. s) ''chat_stream_c1'' 10 0 Default_Grpc 1 None None None
    = resolve_block_inputs (\<lambda>s. s) ''chat_stream_c1'' 10 0 Rest_Plain_Tcp 1 None None None"
  using block_inputs_symmetric by blast

end
