(* ===== verification/Iteration.thy ===== *)
theory Iteration
  imports Prompts
begin

text \<open>
  The pure iteration helpers of \<open>sweep.py\<close>: the outer and full dispatch sequences, the expected
  counts, and the post-hoc check that the blocks of a (cell, cap) tuple are contiguous in time.
\<close>

definition cell_id_of :: "path \<Rightarrow> int \<Rightarrow> string" where
  "cell_id_of p c = path_name p @ ''_c'' @ str_int c"

definition iter_main_sweep_tuples :: "int list \<Rightarrow> (string \<times> int \<times> int) list" where
  "iter_main_sweep_tuples axis =
     concat (map (\<lambda>(p, _, c). map (\<lambda>mt. (cell_id_of p c, c, mt)) axis) CELLS)"

definition iter_block_dispatch_order :: "int list \<Rightarrow> (string \<times> int \<times> cohort) list" where
  "iter_block_dispatch_order axis =
     concat (map (\<lambda>(cid, c, mt). map (\<lambda>co. (cid, mt, co)) (cohorts_at_concurrency c))
                 (iter_main_sweep_tuples axis))"

definition count_expected_blocks :: "int list \<Rightarrow> nat" where
  "count_expected_blocks axis =
     fold (\<lambda>(_, c, _) total. total + length (cohorts_at_concurrency c))
          (iter_main_sweep_tuples axis) 0"

definition count_expected_tuples :: "int list \<Rightarrow> nat" where
  "count_expected_tuples axis = length (iter_main_sweep_tuples axis)"

text \<open>
  The walk of \<open>verify_iteration_discipline\<close>: \<open>seen\<close> are the tuples already left, \<open>cur\<close> the
  tuple the walk is in.
\<close>

fun discipline_walk :: "(string \<times> int) list \<Rightarrow> (string \<times> int) option \<Rightarrow> (string \<times> int) list \<Rightarrow> bool" where
  "discipline_walk seen cur [] = True"
| "discipline_walk seen cur (t # ts) =
     (if Some t = cur then discipline_walk seen cur ts
      else if List.member seen t then False
      else discipline_walk (case cur of None \<Rightarrow> seen | Some c \<Rightarrow> c # seen) (Some t) ts)"

definition mp_tuple :: "measurement_point \<Rightarrow> string \<times> int" where
  "mp_tuple m = (mp_cell_id m, mp_max_tokens m)"

definition verify_iteration_discipline :: "measurement_point list \<Rightarrow> bool" where
  "verify_iteration_discipline points =
     (if points = [] then True
      else discipline_walk [] None (map mp_tuple (sort_key mp_block_start_utc points)))"

section \<open>The sequences\<close>

lemma cell_id_of_inject [simp]: "cell_id_of p c = cell_id_of q d \<longleftrightarrow> p = q \<and> c = d"
  by (cases p; cases q) (auto simp: cell_id_of_def)

lemma cell_type_of_cell_id [simp]: "cell_type_of (cell_id_of p c) = Inr p"
  by (simp add: cell_id_of_def)

lemma length_iter_main_sweep_tuples: "length (iter_main_sweep_tuples axis) = 6 * length axis"
  by (simp add: iter_main_sweep_tuples_def CELLS_def)

lemma distinct_iter_main_sweep_tuples:
  "distinct axis \<Longrightarrow> distinct (iter_main_sweep_tuples axis)"
  by (auto simp: iter_main_sweep_tuples_def CELLS_def distinct_map inj_on_def)

lemma set_iter_main_sweep_tuples:
  "(cid, c, mt) \<in> set (iter_main_sweep_tuples axis) \<longleftrightarrow>
     mt \<in> set axis \<and> (\<exists>p. cid = cell_id_of p c) \<and> c \<in> {1, 4, 8}"
proof -
  have "(\<exists>p. cid = cell_id_of p c) \<longleftrightarrow> cid = cell_id_of Embed c \<or> cid = cell_id_of Chat_Stream c"
    by (metis path.exhaust)
  then show ?thesis by (auto simp: iter_main_sweep_tuples_def CELLS_def)
qed

lemma count_fold: "fold (\<lambda>(_, c, _) total. total + length (cohorts_at_concurrency c)) ts n =
    n + sum_list (map (\<lambda>(_, c, _). length (cohorts_at_concurrency c)) ts)"
  by (induction ts arbitrary: n) auto

lemma count_expected_blocks_alt: "count_expected_blocks axis =
    sum_list (map (\<lambda>(_, c, _). length (cohorts_at_concurrency c)) (iter_main_sweep_tuples axis))"
  unfolding count_expected_blocks_def count_fold by simp

lemma length_dispatch_order: "length (iter_block_dispatch_order axis) = count_expected_blocks axis"
  unfolding iter_block_dispatch_order_def count_expected_blocks_alt length_concat map_map
  by (rule arg_cong[where f = sum_list]) auto

lemma count_expected_blocks_value: "count_expected_blocks axis = 22 * length axis"
proof -
  have "sum_list (map (\<lambda>(_, c, _). length (cohorts_at_concurrency c)) (map (\<lambda>mt. (x, c, mt)) axis))
      = length axis * length (cohorts_at_concurrency c)" for x :: string and c
    by (induction axis) simp_all
  then show ?thesis
    unfolding count_expected_blocks_alt iter_main_sweep_tuples_def CELLS_def
    by (simp add: length_cohorts_at_concurrency del: map_map)
qed

lemma distinct_concat_map:
  assumes "distinct xs" "\<And>x. x \<in> set xs \<Longrightarrow> distinct (f x)"
    and "\<And>x y z. x \<in> set xs \<Longrightarrow> y \<in> set xs \<Longrightarrow> z \<in> set (f x) \<Longrightarrow> z \<in> set (f y) \<Longrightarrow> x = y"
  shows "distinct (concat (map f xs))"
  using assms
proof (induction xs)
  case (Cons a xs)
  have "distinct (concat (map f xs))"
  proof (rule Cons.IH)
    show "x = y" if "x \<in> set xs" "y \<in> set xs" "z \<in> set (f x)" "z \<in> set (f y)" for x y z
      using Cons.prems(3)[of x y z] that by simp
  qed (use Cons.prems in simp_all)
  moreover have "set (f a) \<inter> set (concat (map f xs)) = {}"
  proof (rule ccontr)
    assume "\<not> ?thesis"
    then obtain z y where "z \<in> set (f a)" "y \<in> set xs" "z \<in> set (f y)" by auto
    then show False using Cons.prems(1) Cons.prems(3)[of a y z] by auto
  qed
  ultimately show ?case using Cons.prems(2)[of a] by simp
qed simp

lemma distinct_dispatch_order:
  assumes "distinct axis"
  shows "distinct (iter_block_dispatch_order axis)"
  unfolding iter_block_dispatch_order_def
proof (rule distinct_concat_map)
  show "distinct (iter_main_sweep_tuples axis)" by (rule distinct_iter_main_sweep_tuples[OF assms])
next
  fix x y z assume "x \<in> set (iter_main_sweep_tuples axis)" "y \<in> set (iter_main_sweep_tuples axis)"
    "z \<in> set ((\<lambda>(cid, c, mt). map (\<lambda>co. (cid, mt, co)) (cohorts_at_concurrency c)) x)"
    "z \<in> set ((\<lambda>(cid, c, mt). map (\<lambda>co. (cid, mt, co)) (cohorts_at_concurrency c)) y)"
  moreover obtain a b c where "x = (a, b, c)" by (rule prod_cases3)
  moreover obtain a' b' c' where "y = (a', b', c')" by (rule prod_cases3)
  ultimately show "x = y" by (auto simp: set_iter_main_sweep_tuples)
qed (auto simp: distinct_map inj_on_def split: prod.split)

section \<open>The discipline check\<close>

lemma discipline_walk_Some:
  "c \<notin> set seen \<Longrightarrow> discipline_walk seen (Some c) ts \<longleftrightarrow>
     distinct (remdups_adj (c # ts)) \<and> set ts \<inter> set seen = {}"
proof (induction ts arbitrary: seen c)
  case (Cons t ts)
  show ?case
  proof (cases "t = c")
    case True
    then show ?thesis using Cons by auto
  next
    case False
    show ?thesis
    proof (cases "t \<in> set seen")
      case True
      then show ?thesis using False by auto
    next
      case fresh: False
      then have "t \<notin> set (c # seen)" using False by simp
      then have "discipline_walk (c # seen) (Some t) ts \<longleftrightarrow>
          distinct (remdups_adj (t # ts)) \<and> set ts \<inter> set (c # seen) = {}"
        by (rule Cons.IH)
      then show ?thesis using False fresh by auto
    qed
  qed
qed simp

lemma discipline_walk_iff: "discipline_walk [] None ts \<longleftrightarrow> distinct (remdups_adj ts)"
  by (cases ts) (simp_all add: discipline_walk_Some)

lemma verify_iteration_discipline_iff:
  "verify_iteration_discipline ps \<longleftrightarrow>
     distinct (remdups_adj (map mp_tuple (sort_key mp_block_start_utc ps)))"
  by (simp add: verify_iteration_discipline_def discipline_walk_iff)

lemma remdups_adj_replicate_append:
  "x \<notin> set ys \<Longrightarrow> remdups_adj (replicate (Suc n) x @ ys) = x # remdups_adj ys"
proof (induction n)
  case 0
  then show ?case by (cases ys) auto
qed simp

lemma distinct_remdups_adj_blocks:
  assumes "distinct ts"
  shows "distinct (remdups_adj (concat (map (\<lambda>t. replicate (f t) t) ts)))"
  using assms
proof (induction ts)
  case (Cons t ts)
  then have "t \<notin> set (concat (map (\<lambda>t. replicate (f t) t) ts))" by auto
  then show ?case
    using Cons by (cases "f t") (simp_all add: remdups_adj_replicate_append del: replicate_Suc)
qed simp

text \<open>A prefix of a contiguous sequence is contiguous.\<close>

lemma set_remdups_adj_append_prefix: "distinct (remdups_adj (xs @ ys)) \<Longrightarrow> distinct (remdups_adj xs)"
proof (induction xs rule: remdups_adj.induct)
  case (3 x y xs)
  then show ?case by (auto split: if_split_asm)
qed auto

definition tuple_of_block :: "string \<times> int \<times> cohort \<Rightarrow> string \<times> int" where
  "tuple_of_block b = (fst b, fst (snd b))"

lemma dispatch_order_tuples:
  "map tuple_of_block (iter_block_dispatch_order axis) =
     concat (map (\<lambda>(cid, c, mt). replicate (length (cohorts_at_concurrency c)) (cid, mt))
                 (iter_main_sweep_tuples axis))"
  by (auto simp: iter_block_dispatch_order_def map_concat tuple_of_block_def map_replicate_const
      comp_def intro!: arg_cong[where f = concat])

lemma dispatch_order_contiguous:
  assumes "distinct axis"
  shows "distinct (remdups_adj (map tuple_of_block (iter_block_dispatch_order axis)))"
proof -
  define conc where "conc cid = (THE c. \<exists>p. cid = cell_id_of p c)" for cid
  have conc: "conc (cell_id_of p c) = c" for p c
    unfolding conc_def by (rule the_equality) auto
  let ?ts = "map (\<lambda>(cid, c, mt). (cid, mt)) (iter_main_sweep_tuples axis)"
  have "map tuple_of_block (iter_block_dispatch_order axis) =
      concat (map (\<lambda>t. replicate (length (cohorts_at_concurrency (conc (fst t)))) t) ?ts)"
    unfolding dispatch_order_tuples
    by (auto simp: set_iter_main_sweep_tuples conc intro!: arg_cong[where f = concat])
  moreover have "distinct ?ts"
    using distinct_iter_main_sweep_tuples[OF assms]
    by (auto simp: distinct_map inj_on_def set_iter_main_sweep_tuples)
  ultimately show ?thesis by (simp only: distinct_remdups_adj_blocks)
qed

section \<open>Property\<close>

lemma mem_concat_tuples:
  "(cid, mt, co) \<in> set (concat (map (\<lambda>(cid, c, mt). map (\<lambda>co. (cid, mt, co)) (f c)) ts))
     \<longleftrightarrow> (\<exists>c. (cid, c, mt) \<in> set ts \<and> co \<in> set (f c))"
  by (induction ts) auto

lemma mem_dispatch_order:
  "(cid, mt, co) \<in> set (iter_block_dispatch_order axis) \<longleftrightarrow>
     (\<exists>c. (cid, c, mt) \<in> set (iter_main_sweep_tuples axis) \<and> co \<in> set (cohorts_at_concurrency c))"
  unfolding iter_block_dispatch_order_def by (rule mem_concat_tuples)

text \<open>
  The dispatch order of a sweep: every block of the cells, cohorts and caps exactly once,
  twenty-two of them per cap, and the blocks of one (cell, cap) tuple next to each other, so that
  the order itself passes the discipline check.
\<close>

theorem dispatch_order_complete:
  assumes "distinct axis"
  shows "distinct (iter_block_dispatch_order axis)
    \<and> length (iter_block_dispatch_order axis) = 22 * length axis
    \<and> (\<forall>cid mt co. (cid, mt, co) \<in> set (iter_block_dispatch_order axis) \<longleftrightarrow>
         (\<exists>p c. cid = cell_id_of p c \<and> c \<in> {1, 4, 8} \<and> mt \<in> set axis \<and> co \<in> set (cohorts_at_concurrency c)))
    \<and> distinct (remdups_adj (map tuple_of_block (iter_block_dispatch_order axis)))"
proof (intro conjI allI)
  show "length (iter_block_dispatch_order axis) = 22 * length axis"
    by (simp add: length_dispatch_order count_expected_blocks_value)
  show "(cid, mt, co) \<in> set (iter_block_dispatch_order axis) \<longleftrightarrow>
      (\<exists>p c. cid = cell_id_of p c \<and> c \<in> {1, 4, 8} \<and> mt \<in> set axis \<and> co \<in> set (cohorts_at_concurrency c))"
    for cid mt co
    unfolding mem_dispatch_order set_iter_main_sweep_tuples by blast
qed (rule distinct_dispatch_order[OF assms] dispatch_order_contiguous[OF assms])+

theorem dispatch_order_complete_witness:
  "distinct (iter_block_dispatch_order [10, 50]) \<and> length (iter_block_dispatch_order [10, 50]) = 44"
  using dispatch_order_complete[of "[10, 50]"] by simp

end
