(* ===== verification/Retry.thy ===== *)
theory Retry
  imports Iteration
begin

text \<open>
  The block dispatch wrapper of \<open>sweep.py\<close>: what a dispatcher returns, the classification of an
  exception into a failure label, and \<open>run_block_with_retry\<close>. The world the dispatcher and
  the clock act on is a state that every call threads through; a dispatcher that raises returns
  the left value and the world it leaves behind.
\<close>

record block_dispatch_result =
  br_timings_ms :: "real list"
  br_failed_reason :: "string option"
  br_per_rpc_metadata :: "(string \<times> string) list list"

record block_call =
  bcall_cell_id :: string
  bcall_cohort :: cohort
  bcall_max_tokens :: int
  bcall_n :: int
  bcall_inputs :: block_inputs

type_synonym 'w block_dispatcher = "block_call \<Rightarrow> 'w \<Rightarrow> block_dispatch_result py_result \<times> 'w"

type_synonym 'w clock = "'w \<Rightarrow> string \<times> 'w"

definition TRANSIENT_FAILURE_REASONS :: "string list" where
  "TRANSIENT_FAILURE_REASONS =
     [''grpc_unavailable'', ''grpc_deadline_exceeded'', ''grpc_resource_exhausted'',
      ''grpc_internal'', ''asyncio_timeout'', ''rest_transient'', ''single_rpc_engine_oom'']"

definition classify_exception :: "py_exn \<Rightarrow> string" where
  "classify_exception exc =
     (let name = exn_name exc; msg = str_lower (exn_msg exc)
      in if has_substring ''deadline'' msg \<or> has_substring ''TimeoutError'' name
         then ''grpc_deadline_exceeded''
         else if has_substring ''unavailable'' msg then ''grpc_unavailable''
         else if has_substring ''resource_exhausted'' msg \<or> has_substring ''out of memory'' msg
                 \<or> has_substring ''oom'' msg then ''single_rpc_engine_oom''
         else if has_substring ''rpcerror'' (str_lower name) then ''grpc_internal''
         else if has_substring ''httpx'' (str_lower name) \<or> has_substring ''connection'' msg
         then ''rest_transient''
         else ''unexpected_'' @ name)"

definition exception_result :: "py_exn \<Rightarrow> block_dispatch_result" where
  "exception_result exc =
     \<lparr>br_timings_ms = [], br_failed_reason = Some (classify_exception exc),
      br_per_rpc_metadata = []\<rparr>"

text \<open>
  The wrapper. The result is the dispatch result, the two timestamps, and whether a retry was
  made. The three \<open>except BaseException\<close> clauses make it total: it returns for every
  behaviour of the dispatcher.
\<close>

definition run_block_with_retry ::
  "block_call \<Rightarrow> 'w block_dispatcher \<Rightarrow> (py_exn \<Rightarrow> bool) \<Rightarrow> 'w clock \<Rightarrow> 'w
     \<Rightarrow> (block_dispatch_result \<times> string \<times> string \<times> bool) \<times> 'w" where
  "run_block_with_retry call dispatcher is_transient now w0 =
     (let (block_start, w1) = now w0;
          failed = (\<lambda>exc retry w. let (block_end, w') = now w
                     in ((exception_result exc, block_start, block_end, retry), w'));
          finish = (\<lambda>result retry w.
            if (case br_failed_reason result of
                  None \<Rightarrow> False | Some r \<Rightarrow> List.member TRANSIENT_FAILURE_REASONS r)
            then (case dispatcher call w of
                    (Inl exc, w') \<Rightarrow> failed exc True w'
                  | (Inr result', w') \<Rightarrow>
                      let (block_end, w'') = now w'
                      in ((result', block_start, block_end, True), w''))
            else let (block_end, w') = now w
                 in ((result, block_start, block_end, retry), w'))
      in case dispatcher call w1 of
           (Inl exc, w2) \<Rightarrow>
             if \<not> is_transient exc then failed exc False w2
             else (case dispatcher call w2 of
                     (Inl exc2, w3) \<Rightarrow> failed exc2 True w3
                   | (Inr result, w3) \<Rightarrow> finish result True w3)
         | (Inr result, w2) \<Rightarrow> finish result False w2)"

section \<open>Branches\<close>

definition transient_result :: "block_dispatch_result \<Rightarrow> bool" where
  "transient_result r = (case br_failed_reason r of
     None \<Rightarrow> False | Some x \<Rightarrow> List.member TRANSIENT_FAILURE_REASONS x)"

lemma retry_plain:
  assumes "now w0 = (t0, w1)" "dispatcher call w1 = (Inr r, w2)" "\<not> transient_result r"
    "now w2 = (t1, w3)"
  shows "run_block_with_retry call dispatcher is_transient now w0 = ((r, t0, t1, False), w3)"
  using assms by (simp add: run_block_with_retry_def transient_result_def split: option.split_asm)

lemma retry_fatal:
  assumes "now w0 = (t0, w1)" "dispatcher call w1 = (Inl e, w2)" "\<not> is_transient e"
    "now w2 = (t1, w3)"
  shows "run_block_with_retry call dispatcher is_transient now w0
    = ((exception_result e, t0, t1, False), w3)"
  using assms by (simp add: run_block_with_retry_def)

lemma retry_twice_raises:
  assumes "now w0 = (t0, w1)" "dispatcher call w1 = (Inl e, w2)" "is_transient e"
    "dispatcher call w2 = (Inl e2, w3)" "now w3 = (t1, w4)"
  shows "run_block_with_retry call dispatcher is_transient now w0
    = ((exception_result e2, t0, t1, True), w4)"
  using assms by (simp add: run_block_with_retry_def)

lemma retry_recovers:
  assumes "now w0 = (t0, w1)" "dispatcher call w1 = (Inl e, w2)" "is_transient e"
    "dispatcher call w2 = (Inr r, w3)" "\<not> transient_result r" "now w3 = (t1, w4)"
  shows "run_block_with_retry call dispatcher is_transient now w0 = ((r, t0, t1, True), w4)"
  using assms by (simp add: run_block_with_retry_def transient_result_def split: option.split_asm)

lemma retry_coded_then_result:
  assumes "now w0 = (t0, w1)" "dispatcher call w1 = (Inr r, w2)" "transient_result r"
    "dispatcher call w2 = (Inr r2, w3)" "now w3 = (t1, w4)"
  shows "run_block_with_retry call dispatcher is_transient now w0 = ((r2, t0, t1, True), w4)"
  using assms by (simp add: run_block_with_retry_def transient_result_def split: option.split_asm)

section \<open>How often the dispatcher runs\<close>

text \<open>A dispatcher that also counts its calls, and the clock on the counted world.\<close>

definition counting :: "'w block_dispatcher \<Rightarrow> ('w \<times> nat) block_dispatcher" where
  "counting d call = (\<lambda>(w, k). let (r, w') = d call w in (r, (w', Suc k)))"

definition counting_clock :: "'w clock \<Rightarrow> ('w \<times> nat) clock" where
  "counting_clock now = (\<lambda>(w, k). let (t, w') = now w in (t, (w', k)))"

lemma counting_simps:
  "d call w = (r, w') \<Longrightarrow> counting d call (w, k) = (r, (w', Suc k))"
  "now w = (t, w') \<Longrightarrow> counting_clock now (w, k) = (t, (w', k))"
  by (simp_all add: counting_def counting_clock_def)

definition dispatch_count ::
  "block_call \<Rightarrow> 'w block_dispatcher \<Rightarrow> (py_exn \<Rightarrow> bool) \<Rightarrow> 'w clock \<Rightarrow> 'w \<Rightarrow> nat" where
  "dispatch_count call d tr now w =
     snd (snd (run_block_with_retry call (counting d) tr (counting_clock now) (w, 0)))"

lemma dispatch_count_cases:
  assumes n0: "now w0 = (t0, w1)" and d1: "d call w1 = (r1, w2)"
  shows "dispatch_count call d tr now w0 = (case r1 of
      Inl e \<Rightarrow> if \<not> tr e then 1 else
        (case fst (d call w2) of Inl _ \<Rightarrow> 2 | Inr r \<Rightarrow> if transient_result r then 3 else 2)
    | Inr r \<Rightarrow> if transient_result r then 2 else 1)"
proof -
  obtain r2 w3 where d2: "d call w2 = (r2, w3)" by (cases "d call w2")
  obtain r3 w4 where d3: "d call w3 = (r3, w4)" by (cases "d call w3")
  have now: "\<exists>t w'. now w = (t, w')" for w by (cases "now w") auto
  obtain a2 b2 where n2: "now w2 = (a2, b2)" using now by blast
  obtain a3 b3 where n3: "now w3 = (a3, b3)" using now by blast
  obtain a4 b4 where n4: "now w4 = (a4, b4)" using now by blast
  note c = counting_simps(1)[of d call, OF d1] counting_simps(1)[of d call, OF d2]
    counting_simps(1)[of d call, OF d3]
    counting_simps(2)[of now, OF n0] counting_simps(2)[of now, OF n2]
    counting_simps(2)[of now, OF n3] counting_simps(2)[of now, OF n4]
  show ?thesis
    by (auto simp: dispatch_count_def run_block_with_retry_def transient_result_def c d2
        split: sum.split option.split)
qed

lemma dispatch_count_bounds:
  "1 \<le> dispatch_count call d tr now w \<and> dispatch_count call d tr now w \<le> 3"
proof -
  obtain t0 w1 where n0: "now w = (t0, w1)" by (cases "now w")
  obtain r1 w2 where d1: "d call w1 = (r1, w2)" by (cases "d call w1")
  show ?thesis
    unfolding dispatch_count_cases[where now = now and d = d and call = call, OF n0 d1] by (simp split: sum.split)
qed

section \<open>The classifier\<close>

lemma classify_exception_preemption:
  "classify_exception (Exn ''PreemptionBudgetExhausted'' '''') = ''unexpected_PreemptionBudgetExhausted''"
  by (simp add: classify_exception_def Let_def starts_with_def str_lower_def
      lower_char_def)

end
