(* ===== verification/Stats.thy ===== *)
theory Stats
  imports Py_Parse
begin

text \<open>
  Sample statistics: the linear-interpolation percentiles that five modules of the harness
  each define for themselves, the normal-approximation half-width, and the t-based interval of
  \<open>ci.py\<close>. The five percentiles are written as their modules write them and proved equal on the
  arguments they are called with; bounds and monotonicity are proved once.
\<close>

section \<open>Percentiles as the modules define them\<close>

text \<open>\<open>metrics._percentile\<close>: \<open>None\<close> on an empty list.\<close>

definition metrics_percentile :: "real list \<Rightarrow> real \<Rightarrow> real option" where
  "metrics_percentile values p =
     (if values = [] then None
      else let sorted_vals = sort values;
               idx = (p / 100) * real (length sorted_vals - 1);
               lo = nat \<lfloor>idx\<rfloor>;
               hi = lo + 1
           in if hi \<ge> length sorted_vals then Some (sorted_vals ! lo)
              else let frac = idx - real lo
                   in Some (sorted_vals ! lo * (1 - frac) + sorted_vals ! hi * frac))"

text \<open>\<open>anchor_trajectory._percentile\<close> and \<open>sub_probe._percentile\<close>: \<open>ValueError\<close> when empty.\<close>

definition anchor_percentile :: "real list \<Rightarrow> real \<Rightarrow> real py_result" where
  "anchor_percentile samples p =
     (if samples = [] then Inl (value_error ''percentile of empty sample set'')
      else let sorted_samples = sort samples
           in if length sorted_samples = 1 then Inr (sorted_samples ! 0)
              else let idx = (p / 100) * real (length sorted_samples - 1);
                       low = nat \<lfloor>idx\<rfloor>;
                       high = min (low + 1) (length sorted_samples - 1);
                       weight = idx - real low
                   in Inr (sorted_samples ! low * (1 - weight) + sorted_samples ! high * weight))"

definition sub_probe_percentile :: "real list \<Rightarrow> real \<Rightarrow> real py_result" where
  "sub_probe_percentile samples p =
     (if samples = [] then Inl (value_error ''percentile of empty sample set'')
      else let sorted_samples = sort samples
           in if length sorted_samples = 1 then Inr (sorted_samples ! 0)
              else let idx = (p / 100) * real (length sorted_samples - 1);
                       low = nat \<lfloor>idx\<rfloor>;
                       high = min (low + 1) (length sorted_samples - 1);
                       weight = idx - real low
                   in Inr (sorted_samples ! low * (1 - weight) + sorted_samples ! high * weight))"

text \<open>\<open>sweep._percentile\<close>: its argument is sorted by the caller, and 0 when empty.\<close>

definition sweep_percentile :: "real list \<Rightarrow> real \<Rightarrow> real" where
  "sweep_percentile sorted_samples p =
     (if sorted_samples = [] then 0
      else if length sorted_samples = 1 then sorted_samples ! 0
      else let idx = (p / 100) * real (length sorted_samples - 1);
               low = nat \<lfloor>idx\<rfloor>;
               high = min (low + 1) (length sorted_samples - 1);
               weight = idx - real low
           in sorted_samples ! low * (1 - weight) + sorted_samples ! high * weight)"

text \<open>\<open>rtt_probe._percentile\<close>: guards outside the open interval (0, 100).\<close>

definition rtt_percentile :: "real list \<Rightarrow> real \<Rightarrow> real py_result" where
  "rtt_percentile samples pct =
     (if samples = [] then Inl (value_error ''_percentile: samples must be non-empty'')
      else if length samples = 1 then Inr (samples ! 0)
      else let ordered = sort samples
           in if pct \<le> 0 then Inr (ordered ! 0)
              else if pct \<ge> 100 then Inr (last ordered)
              else let rank = (pct / 100) * real (length ordered - 1);
                       lower = nat \<lfloor>rank\<rfloor>;
                       upper = min (lower + 1) (length ordered - 1);
                       frac = rank - real lower
                   in Inr (ordered ! lower + (ordered ! upper - ordered ! lower) * frac))"

section \<open>The common interpolation\<close>

definition interp :: "real list \<Rightarrow> real \<Rightarrow> real" where
  "interp xs t = (let k = nat \<lfloor>t\<rfloor>; w = t - real k
                  in xs ! k * (1 - w) + xs ! min (k + 1) (length xs - 1) * w)"

lemma interp_alt:
  "interp xs t = xs ! nat \<lfloor>t\<rfloor> + (xs ! min (nat \<lfloor>t\<rfloor> + 1) (length xs - 1) - xs ! nat \<lfloor>t\<rfloor>)
     * (t - real (nat \<lfloor>t\<rfloor>))"
  by (simp add: interp_def Let_def algebra_simps)

definition rank_of :: "real list \<Rightarrow> real \<Rightarrow> real" where
  "rank_of xs p = (p / 100) * real (length xs - 1)"

lemma rank_of_range:
  "0 \<le> p \<Longrightarrow> p \<le> 100 \<Longrightarrow> 0 \<le> rank_of xs p \<and> rank_of xs p \<le> real (length xs - 1)"
  using mult_left_le_one_le[of "real (length xs - 1)" "p / 100"] by (simp add: rank_of_def)

lemma rank_of_mono: "p \<le> q \<Longrightarrow> rank_of xs p \<le> rank_of xs q"
  by (simp add: rank_of_def mult_right_mono divide_right_mono)

lemma floor_index:
  assumes "0 \<le> t" "t \<le> real n"
  shows "nat \<lfloor>t\<rfloor> \<le> n" "real (nat \<lfloor>t\<rfloor>) \<le> t" "t < real (nat \<lfloor>t\<rfloor>) + 1"
  using assms by linarith+

text \<open>Every subscript the percentiles use is in range: the code cannot raise \<open>IndexError\<close>.\<close>

lemma percentile_index_in_range:
  assumes "xs \<noteq> []" "0 \<le> p" "p \<le> 100"
  shows "nat \<lfloor>rank_of xs p\<rfloor> < length xs"
proof -
  have "nat \<lfloor>rank_of xs p\<rfloor> \<le> length xs - 1"
    using rank_of_range[OF assms(2,3)] by (intro floor_index) auto
  then show ?thesis using assms(1) by (cases xs) auto
qed

lemma interp_between:
  assumes "sorted xs" "xs \<noteq> []" "0 \<le> t" "t \<le> real (length xs - 1)"
  shows "xs ! nat \<lfloor>t\<rfloor> \<le> interp xs t"
    and "interp xs t \<le> xs ! min (nat \<lfloor>t\<rfloor> + 1) (length xs - 1)"
proof -
  define k where "k = nat \<lfloor>t\<rfloor>"
  define h where "h = min (k + 1) (length xs - 1)"
  define w where "w = t - real k"
  have w: "0 \<le> w" "w \<le> 1" and k: "k \<le> length xs - 1"
    using floor_index[OF assms(3,4)] unfolding w_def k_def by linarith+
  have "xs ! k \<le> xs ! h"
    using assms(1,2) k by (intro sorted_nth_mono) (auto simp: h_def min_less_iff_disj)
  then have d: "0 \<le> xs ! h - xs ! k" by simp
  have eq: "interp xs t = xs ! k + (xs ! h - xs ! k) * w"
    unfolding w_def h_def k_def by (rule interp_alt)
  have "0 \<le> (xs ! h - xs ! k) * w" using d w by simp
  then show "xs ! nat \<lfloor>t\<rfloor> \<le> interp xs t" by (simp add: eq k_def)
  have "(xs ! h - xs ! k) * w \<le> xs ! h - xs ! k" using d w by (simp add: mult_left_le)
  then show "interp xs t \<le> xs ! min (nat \<lfloor>t\<rfloor> + 1) (length xs - 1)"
    by (simp add: eq h_def k_def)
qed

lemma interp_mono:
  assumes s: "sorted xs" "xs \<noteq> []" and t: "0 \<le> t" "t \<le> u" "u \<le> real (length xs - 1)"
  shows "interp xs t \<le> interp xs u"
proof (cases "nat \<lfloor>t\<rfloor> = nat \<lfloor>u\<rfloor>")
  case True
  define k where "k = nat \<lfloor>t\<rfloor>"
  define h where "h = min (k + 1) (length xs - 1)"
  have k: "k \<le> length xs - 1" using floor_index(1)[of t "length xs - 1"] t by (simp add: k_def)
  have "xs ! k \<le> xs ! h"
    using s k by (intro sorted_nth_mono) (auto simp: h_def min_less_iff_disj)
  then have "(xs ! h - xs ! k) * (t - real k) \<le> (xs ! h - xs ! k) * (u - real k)"
    using t by (intro mult_left_mono) auto
  then show ?thesis
    using True unfolding interp_alt[of xs t] interp_alt[of xs u] h_def k_def by simp
next
  case False
  then have lt: "nat \<lfloor>t\<rfloor> + 1 \<le> nat \<lfloor>u\<rfloor>"
    using nat_mono[OF floor_mono[OF t(2)]] by linarith
  have u: "nat \<lfloor>u\<rfloor> \<le> length xs - 1" using floor_index(1)[of u "length xs - 1"] t by simp
  have "interp xs t \<le> xs ! min (nat \<lfloor>t\<rfloor> + 1) (length xs - 1)"
    using s t by (intro interp_between) auto
  also have "\<dots> \<le> xs ! nat \<lfloor>u\<rfloor>"
  proof (rule sorted_nth_mono[OF s(1)])
    show "min (nat \<lfloor>t\<rfloor> + 1) (length xs - 1) \<le> nat \<lfloor>u\<rfloor>" using lt by linarith
    show "nat \<lfloor>u\<rfloor> < length xs" using u s(2) by (cases xs) auto
  qed
  also have "\<dots> \<le> interp xs u"
    using s t by (intro interp_between) auto
  finally show ?thesis .
qed

lemma interp_range:
  assumes "sorted xs" "xs \<noteq> []" "0 \<le> t" "t \<le> real (length xs - 1)"
  shows "hd xs \<le> interp xs t" "interp xs t \<le> last xs"
proof -
  have i: "nat \<lfloor>t\<rfloor> \<le> length xs - 1" using assms by (intro floor_index)
  then have "nat \<lfloor>t\<rfloor> < length xs" using assms(2) by (cases xs) auto
  then have "hd xs \<le> xs ! nat \<lfloor>t\<rfloor>" using assms by (intro sorted_hd_le) auto
  also note interp_between(1)[OF assms]
  finally show "hd xs \<le> interp xs t" .
  have "min (nat \<lfloor>t\<rfloor> + 1) (length xs - 1) < length xs" using assms(2) by (cases xs) auto
  then have "xs ! min (nat \<lfloor>t\<rfloor> + 1) (length xs - 1) \<le> last xs"
    using assms by (intro sorted_le_last) auto
  with interp_between(2)[OF assms] show "interp xs t \<le> last xs" by simp
qed

section \<open>The variants compute the common interpolation\<close>

lemma length_1_nth0: "length xs = 1 \<Longrightarrow> interp xs (rank_of xs p) = xs ! 0"
  by (simp add: interp_def rank_of_def)

lemma sort_eq_Nil_iff [simp]: "sort xs = [] \<longleftrightarrow> xs = []"
  by (metis length_0_conv length_sort)

lemma sweep_percentile_interp:
  "xs \<noteq> [] \<Longrightarrow> sweep_percentile xs p = interp xs (rank_of xs p)"
  using length_1_nth0[of xs p]
  by (auto simp: sweep_percentile_def interp_def rank_of_def Let_def)

lemma anchor_percentile_interp:
  "anchor_percentile xs p =
     (if xs = [] then Inl (value_error ''percentile of empty sample set'')
      else Inr (interp (sort xs) (rank_of (sort xs) p)))"
  using length_1_nth0[of "sort xs" p]
  by (auto simp: anchor_percentile_def interp_def rank_of_def Let_def)

lemma sub_probe_percentile_interp:
  "sub_probe_percentile xs p =
     (if xs = [] then Inl (value_error ''percentile of empty sample set'')
      else Inr (interp (sort xs) (rank_of (sort xs) p)))"
  using length_1_nth0[of "sort xs" p]
  by (auto simp: sub_probe_percentile_def interp_def rank_of_def Let_def)

lemma interp_at_last:
  assumes "xs \<noteq> []" "length xs - 1 \<le> nat \<lfloor>t\<rfloor>" "t \<le> real (length xs - 1)" "0 \<le> t"
  shows "interp xs t = xs ! nat \<lfloor>t\<rfloor>"
proof -
  have "nat \<lfloor>t\<rfloor> = length xs - 1" using assms floor_index(1)[of t "length xs - 1"] by simp
  moreover have "t = real (length xs - 1)" using assms by linarith
  ultimately show ?thesis by (simp add: interp_def)
qed

lemma metrics_percentile_interp:
  assumes "0 \<le> p" "p \<le> 100"
  shows "metrics_percentile xs p =
     (if xs = [] then None else Some (interp (sort xs) (rank_of (sort xs) p)))"
proof (cases "xs = []")
  case True
  then show ?thesis by (simp add: metrics_percentile_def)
next
  case False
  define t where "t = rank_of (sort xs) p"
  have r: "0 \<le> t" "t \<le> real (length (sort xs) - 1)"
    using rank_of_range[OF assms, of "sort xs"] unfolding t_def by blast+
  show ?thesis
  proof (cases "nat \<lfloor>t\<rfloor> + 1 \<ge> length xs")
    case True
    then have "interp (sort xs) t = sort xs ! nat \<lfloor>t\<rfloor>"
      using False r by (intro interp_at_last) auto
    with True False show ?thesis
      by (simp add: metrics_percentile_def Let_def t_def rank_of_def)
  next
    case inner: False
    then have "min (nat \<lfloor>t\<rfloor> + 1) (length xs - 1) = nat \<lfloor>t\<rfloor> + 1" by simp
    with inner False show ?thesis
      by (simp add: metrics_percentile_def Let_def t_def rank_of_def interp_def)
  qed
qed

lemma rtt_percentile_interp:
  assumes "0 < p" "p < 100" "xs \<noteq> []"
  shows "rtt_percentile xs p = Inr (interp (sort xs) (rank_of (sort xs) p))"
proof (cases "length xs = 1")
  case True
  then obtain x where "xs = [x]" by (cases xs) auto
  then show ?thesis by (simp add: rtt_percentile_def interp_def rank_of_def)
next
  case False
  with assms show ?thesis
    by (simp add: rtt_percentile_def interp_def rank_of_def Let_def algebra_simps)
qed

section \<open>Bounds and monotonicity of a block's percentiles\<close>

definition percentile_of :: "real list \<Rightarrow> real \<Rightarrow> real" where
  "percentile_of xs p = interp (sort xs) (rank_of (sort xs) p)"

lemma percentile_of_mono:
  assumes "xs \<noteq> []" "0 \<le> p" "p \<le> q" "q \<le> 100"
  shows "percentile_of xs p \<le> percentile_of xs q"
  unfolding percentile_of_def
  using assms rank_of_range[of p "sort xs"] rank_of_range[of q "sort xs"]
  by (intro interp_mono) (auto intro: rank_of_mono)

lemma percentile_of_range:
  assumes "xs \<noteq> []" "0 \<le> p" "p \<le> 100"
  shows "\<exists>lo\<in>set xs. lo \<le> percentile_of xs p" "\<exists>hi\<in>set xs. percentile_of xs p \<le> hi"
    "(\<And>x. x \<in> set xs \<Longrightarrow> lo \<le> x) \<Longrightarrow> lo \<le> percentile_of xs p"
    "(\<And>x. x \<in> set xs \<Longrightarrow> x \<le> hi) \<Longrightarrow> percentile_of xs p \<le> hi"
proof -
  have s: "sort xs \<noteq> []" using assms by simp
  have r: "hd (sort xs) \<le> percentile_of xs p" "percentile_of xs p \<le> last (sort xs)"
    unfolding percentile_of_def
    using assms rank_of_range[of p "sort xs"] by (auto intro!: interp_range)
  have mem: "hd (sort xs) \<in> set xs" "last (sort xs) \<in> set xs"
    using hd_in_set[OF s] last_in_set[OF s] by simp_all
  show "\<exists>lo\<in>set xs. lo \<le> percentile_of xs p" "\<exists>hi\<in>set xs. percentile_of xs p \<le> hi"
    using r mem by blast+
  show "(\<And>x. x \<in> set xs \<Longrightarrow> lo \<le> x) \<Longrightarrow> lo \<le> percentile_of xs p"
    using r(1) mem(1) by fastforce
  show "(\<And>x. x \<in> set xs \<Longrightarrow> x \<le> hi) \<Longrightarrow> percentile_of xs p \<le> hi"
    using r(2) mem(2) by fastforce
qed

lemma percentile_of_perm: "sort xs = sort ys \<Longrightarrow> percentile_of xs p = percentile_of ys p"
  by (simp add: percentile_of_def)

section \<open>Spread of a sample\<close>

definition mean_of :: "real list \<Rightarrow> real" where
  "mean_of xs = sum_list xs / real (length xs)"

text \<open>\<open>statistics.stdev\<close>, and \<open>numpy.std\<close> with \<open>ddof=1\<close>.\<close>

definition stdev :: "real list \<Rightarrow> real" where
  "stdev xs = sqrt (sum_list (map (\<lambda>x. (x - mean_of xs) ^ 2) xs) / real (length xs - 1))"

definition median_of :: "real list \<Rightarrow> real" where
  "median_of xs = (let s = sort xs; n = length s
     in if n mod 2 = 1 then s ! (n div 2) else (s ! (n div 2 - 1) + s ! (n div 2)) / 2)"

definition ci_half_width_95 :: "real list \<Rightarrow> real" where
  "ci_half_width_95 samples =
     (if length samples < 2 then 0
      else (196 / 100) * stdev samples / sqrt (real (length samples)))"

lemma sum_list_squares_nonneg: "0 \<le> sum_list (map (\<lambda>x. (f x :: real) ^ 2) xs)"
  by (induction xs) auto

lemma stdev_nonneg [simp]: "0 \<le> stdev xs"
  by (simp add: stdev_def sum_list_squares_nonneg)

lemma ci_half_width_95_nonneg [simp]: "0 \<le> ci_half_width_95 xs"
  by (simp add: ci_half_width_95_def)

lemma mean_of_bounds:
  assumes "xs \<noteq> []" "\<And>x. x \<in> set xs \<Longrightarrow> lo \<le> x \<and> x \<le> hi"
  shows "lo \<le> mean_of xs" "mean_of xs \<le> hi"
  using sum_list_bounds[of xs lo hi] assms
  by (simp_all add: mean_of_def field_simps)

lemma mean_of_replicate [simp]: "0 < n \<Longrightarrow> mean_of (replicate n c) = c"
  by (simp add: mean_of_def sum_list_replicate)

lemma stdev_replicate [simp]: "0 < n \<Longrightarrow> stdev (replicate n c) = 0"
  by (simp add: stdev_def sum_list_replicate)

section \<open>The t-based interval of ci.py\<close>

definition T_CRITICAL_AT_95 :: "(int \<times> real) list" where
  "T_CRITICAL_AT_95 = [(10, 22622 / 10000), (20, 20930 / 10000), (30, 20452 / 10000),
     (50, 20096 / 10000), (100, 19842 / 10000)]"

text \<open>The loop over \<open>sorted(_T_CRITICAL_AT_95)\<close>; the table is written in key order.\<close>

fun t_scan :: "int \<Rightarrow> (int \<times> real) list \<Rightarrow> real" where
  "t_scan n [] = 19842 / 10000"
| "t_scan n ((cutoff, t) # rest) = (if n \<le> cutoff then t else t_scan n rest)"

definition t_critical :: "int \<Rightarrow> real py_result" where
  "t_critical n =
     (if n < 10 then Inl (value_error ''Sample size below the supported floor (10)'')
      else Inr (t_scan n T_CRITICAL_AT_95))"

record estimate_result =
  est_mean :: real
  est_stddev :: real
  est_ci_low :: real
  est_ci_high :: real
  est_n :: int

definition estimate :: "real list \<Rightarrow> estimate_result py_result" where
  "estimate samples =
     (if samples = [] then Inl (value_error ''estimate() requires at least one sample'')
      else let n = int (length samples); mean = mean_of samples
           in if n = 1 then Inr \<lparr>est_mean = mean, est_stddev = 0, est_ci_low = mean,
                                 est_ci_high = mean, est_n = 1\<rparr>
              else let sd = stdev samples; se = sd / sqrt (real (length samples))
                   in bind_result (t_critical n) (\<lambda>t. let half = t * se
                        in Inr \<lparr>est_mean = mean, est_stddev = sd, est_ci_low = mean - half,
                                est_ci_high = mean + half, est_n = n\<rparr>))"

definition is_winner :: "real \<Rightarrow> real \<Rightarrow> bool" where
  "is_winner baseline_ci_high candidate_ci_low \<longleftrightarrow> candidate_ci_low > baseline_ci_high"

lemma t_critical_antimono:
  "t_critical m = Inr s \<Longrightarrow> t_critical n = Inr t \<Longrightarrow> m \<le> n \<Longrightarrow> t \<le> s"
  by (auto simp: t_critical_def T_CRITICAL_AT_95_def split: if_split_asm)

lemma t_critical_bounds: "t_critical n = Inr t \<Longrightarrow> 19842 / 10000 \<le> t \<and> t \<le> 22622 / 10000"
  by (auto simp: t_critical_def T_CRITICAL_AT_95_def split: if_split_asm)

lemma estimate_defined_iff:
  "(\<exists>e. estimate xs = Inr e) \<longleftrightarrow> length xs = 1 \<or> 10 \<le> length xs"
  by (auto simp: estimate_def Let_def t_critical_def)

lemma estimate_interval:
  assumes "estimate xs = Inr e"
  shows "est_ci_low e \<le> est_mean e \<and> est_mean e \<le> est_ci_high e
       \<and> est_mean e - est_ci_low e = est_ci_high e - est_mean e \<and> est_n e = int (length xs)"
proof -
  have pos: "t_critical n = Inr t \<Longrightarrow> 0 \<le> t" for n t
    using t_critical_bounds[of n t] by simp
  show ?thesis
    using assms
    by (auto simp: estimate_def Let_def bind_result_Inr_iff dest!: pos split: if_split_asm)
qed

section \<open>Property\<close>

text \<open>
  The five percentile routines of the harness are one function. On every nonempty sample,
  in any order, and every percentile strictly between 0 and 100, the sweep's, the anchor's, the
  sub-probe's, the metrics module's and the RTT probe's routine all return the linear interpolation
  between the closest ranks of the sorted sample, and that value lies within the sample's range.
\<close>

theorem percentile_routines_agree:
  assumes "xs \<noteq> []" "0 < p" "p < 100"
  shows "sweep_percentile (sort xs) p = percentile_of xs p
    \<and> anchor_percentile xs p = Inr (percentile_of xs p)
    \<and> sub_probe_percentile xs p = Inr (percentile_of xs p)
    \<and> metrics_percentile xs p = Some (percentile_of xs p)
    \<and> rtt_percentile xs p = Inr (percentile_of xs p)
    \<and> Min (set xs) \<le> percentile_of xs p \<and> percentile_of xs p \<le> Max (set xs)"
proof -
  have "Min (set xs) \<le> percentile_of xs p" "percentile_of xs p \<le> Max (set xs)"
    using assms by (auto intro!: percentile_of_range(3,4))
  then show ?thesis
    using assms metrics_percentile_interp[of p xs] rtt_percentile_interp[of p xs]
    by (simp add: percentile_of_def sweep_percentile_interp anchor_percentile_interp
        sub_probe_percentile_interp)
qed

theorem percentile_routines_agree_witness:
  "metrics_percentile [3, 1, 2] 50 = Some (percentile_of [3, 1, 2] 50)
    \<and> 1 \<le> percentile_of [3, 1, 2 :: real] 50 \<and> percentile_of [3, 1, 2] 50 \<le> 3"
  using percentile_routines_agree[of "[3, 1, 2]" 50] by simp

end
