(* ===== verification/Timing.thy ===== *)
theory Timing
  imports Py_Json Bench_Types
begin

text \<open>
  \<open>timing.py\<close>: the per-RPC timing checkpoint, its two wire formats (gRPC trailing metadata and
  the \<open>m6_1_1_timings\<close> sub-object of a REST payload), the dictionary form the RPC drivers
  carry, and the per-segment durations. A nanosecond count is an \<open>int\<close>; milliseconds are reals.
\<close>

section \<open>The checkpoint\<close>

record timing_checkpoint =
  tc_handler_entry_ns :: int
  tc_pre_engine_ns :: int
  tc_first_chunk_ns :: int
  tc_terminal_emit_ns :: int
  tc_perturbation_audit_ns :: int
  tc_engine_arrival_ns :: int
  tc_engine_queued_ns :: int
  tc_engine_scheduled_ns :: int
  tc_engine_first_token_ns :: int
  tc_engine_last_token_ns :: int
  tc_pre_engine_wall_ns :: "int option"
  tc_first_chunk_mono_ns :: "int option"
  tc_tokenized_prompt_length :: "int option"
  tc_tokenized_prompt_hash :: "string option"

definition has_engine_stats :: "timing_checkpoint \<Rightarrow> bool" where
  "has_engine_stats c \<longleftrightarrow>
     0 < tc_engine_queued_ns c \<and> 0 < tc_engine_scheduled_ns c
     \<and> 0 < tc_engine_first_token_ns c \<and> 0 < tc_engine_last_token_ns c"

definition has_proxy_edge_probes :: "timing_checkpoint \<Rightarrow> bool" where
  "has_proxy_edge_probes c \<longleftrightarrow>
     tc_pre_engine_wall_ns c \<noteq> None \<and> tc_first_chunk_mono_ns c \<noteq> None"

section \<open>Segments\<close>

record per_segment_delta =
  sd_ab_ms :: real
  sd_bc_ms :: real
  sd_cd_ms :: real
  sd_queue_ms :: "real option"
  sd_prefill_ms :: "real option"

definition ns_to_ms :: "int \<Rightarrow> real" where
  "ns_to_ms d = real_of_int d / 1000000"

definition delta_from_checkpoint :: "timing_checkpoint \<Rightarrow> per_segment_delta" where
  "delta_from_checkpoint c =
     (let (q, p) = (if has_engine_stats c
                    then (Some (ns_to_ms (tc_engine_scheduled_ns c - tc_engine_queued_ns c)),
                          Some (ns_to_ms (tc_engine_first_token_ns c - tc_engine_scheduled_ns c)))
                    else (None, None))
      in \<lparr>sd_ab_ms = ns_to_ms (tc_pre_engine_ns c - tc_handler_entry_ns c),
          sd_bc_ms = ns_to_ms (tc_first_chunk_ns c - tc_pre_engine_ns c),
          sd_cd_ms = ns_to_ms (tc_terminal_emit_ns c - tc_first_chunk_ns c),
          sd_queue_ms = q, sd_prefill_ms = p\<rparr>)"

definition compute_per_segment_delta :: "timing_checkpoint \<Rightarrow> per_segment_delta" where
  "compute_per_segment_delta = delta_from_checkpoint"

section \<open>Reading the REST sub-object\<close>

definition opt_int :: "json \<Rightarrow> int" where
  "opt_int v = (if v = JNull then 0 else case json_int v of Inl _ \<Rightarrow> 0 | Inr i \<Rightarrow> i)"

definition opt_int_or_none :: "json_dict \<Rightarrow> string \<Rightarrow> int option" where
  "opt_int_or_none md key =
     (let v = json_get md key in if v = JNull then None else or_none (json_int v))"

definition opt_str_or_none :: "(json \<Rightarrow> string) \<Rightarrow> json_dict \<Rightarrow> string \<Rightarrow> string option" where
  "opt_str_or_none other md key =
     (let v = json_get md key in if v = JNull then None else Some (json_str other v))"

definition extract_rest_timings :: "(json \<Rightarrow> string) \<Rightarrow> json_dict \<Rightarrow> timing_checkpoint option" where
  "extract_rest_timings other ev = (case json_get ev ''m6_1_1_timings'' of
     JObj sub \<Rightarrow> or_none (
       bind_result (bind_result (dict_item sub ''handler_entry_ns'') json_int) (\<lambda>h.
       bind_result (bind_result (dict_item sub ''pre_engine_ns'') json_int) (\<lambda>p.
       bind_result (bind_result (dict_item sub ''first_chunk_ns'') json_int) (\<lambda>f.
       bind_result (bind_result (dict_item sub ''terminal_emit_ns'') json_int) (\<lambda>t.
       bind_result (bind_result (dict_item sub ''perturbation_audit_ns'') json_int) (\<lambda>a.
       Inr \<lparr>tc_handler_entry_ns = h, tc_pre_engine_ns = p, tc_first_chunk_ns = f,
            tc_terminal_emit_ns = t, tc_perturbation_audit_ns = a,
            tc_engine_arrival_ns = opt_int (json_get sub ''engine_arrival_ns''),
            tc_engine_queued_ns = opt_int (json_get sub ''engine_queued_ns''),
            tc_engine_scheduled_ns = opt_int (json_get sub ''engine_scheduled_ns''),
            tc_engine_first_token_ns = opt_int (json_get sub ''engine_first_token_ns''),
            tc_engine_last_token_ns = opt_int (json_get sub ''engine_last_token_ns''),
            tc_pre_engine_wall_ns = opt_int_or_none sub ''pre_engine_wall_ns'',
            tc_first_chunk_mono_ns = opt_int_or_none sub ''first_chunk_mono_ns'',
            tc_tokenized_prompt_length = opt_int_or_none sub ''tokenized_prompt_length'',
            tc_tokenized_prompt_hash = opt_str_or_none other sub ''tokenized_prompt_hash''\<rparr>))))))
   | _ \<Rightarrow> None)"

section \<open>Reading gRPC trailing metadata\<close>

type_synonym str_dict = "(string \<times> string) list"

definition md_int :: "str_dict \<Rightarrow> string \<Rightarrow> int py_result" where
  "md_int md key = bind_result (dict_item md key) int_of_str"

definition md_opt_int :: "str_dict \<Rightarrow> string \<Rightarrow> int" where
  "md_opt_int md key = (case map_of md key of None \<Rightarrow> 0
     | Some s \<Rightarrow> (case int_of_str s of Inl _ \<Rightarrow> 0 | Inr i \<Rightarrow> i))"

definition md_opt_int_or_none :: "str_dict \<Rightarrow> string \<Rightarrow> int option" where
  "md_opt_int_or_none md key =
     (case map_of md key of None \<Rightarrow> None | Some s \<Rightarrow> or_none (int_of_str s))"

definition extract_grpc_timings :: "str_dict \<Rightarrow> timing_checkpoint option" where
  "extract_grpc_timings md = or_none (
     bind_result (md_int md ''m6_1_1_t_handler_entry'') (\<lambda>h.
     bind_result (md_int md ''m6_1_1_t_pre_engine'') (\<lambda>p.
     bind_result (md_int md ''m6_1_1_t_first_chunk'') (\<lambda>f.
     bind_result (md_int md ''m6_1_1_t_terminal_emit'') (\<lambda>t.
     bind_result (md_int md ''m6_1_1_t_perturbation_audit_ns'') (\<lambda>a.
     Inr \<lparr>tc_handler_entry_ns = h, tc_pre_engine_ns = p, tc_first_chunk_ns = f,
          tc_terminal_emit_ns = t, tc_perturbation_audit_ns = a,
          tc_engine_arrival_ns = md_opt_int md ''m6_1_1_t_engine_arrival_ns'',
          tc_engine_queued_ns = md_opt_int md ''m6_1_1_t_engine_queued_ns'',
          tc_engine_scheduled_ns = md_opt_int md ''m6_1_1_t_engine_scheduled_ns'',
          tc_engine_first_token_ns = md_opt_int md ''m6_1_1_t_engine_first_token_ns'',
          tc_engine_last_token_ns = md_opt_int md ''m6_1_1_t_engine_last_token_ns'',
          tc_pre_engine_wall_ns = md_opt_int_or_none md ''m6_1_1_t_pre_engine_wall_ns'',
          tc_first_chunk_mono_ns = md_opt_int_or_none md ''m6_1_1_t_first_chunk_mono_ns'',
          tc_tokenized_prompt_length = md_opt_int_or_none md ''m6_1_3_tokenized_prompt_length'',
          tc_tokenized_prompt_hash = map_of md ''m6_1_3_tokenized_prompt_hash''\<rparr>))))))"

section \<open>The payload dictionary\<close>

definition pv_int_option :: "int option \<Rightarrow> payload_value" where
  "pv_int_option x = (case x of None \<Rightarrow> PV_None | Some i \<Rightarrow> PV_Int i)"

definition pv_str_option :: "string option \<Rightarrow> payload_value" where
  "pv_str_option x = (case x of None \<Rightarrow> PV_None | Some s \<Rightarrow> PV_Str s)"

definition checkpoint_fields :: "timing_checkpoint \<Rightarrow> (string \<times> payload_value) list" where
  "checkpoint_fields c =
     [(''handler_entry_ns'', PV_Int (tc_handler_entry_ns c)),
      (''pre_engine_ns'', PV_Int (tc_pre_engine_ns c)),
      (''first_chunk_ns'', PV_Int (tc_first_chunk_ns c)),
      (''terminal_emit_ns'', PV_Int (tc_terminal_emit_ns c)),
      (''perturbation_audit_ns'', PV_Int (tc_perturbation_audit_ns c)),
      (''engine_arrival_ns'', PV_Int (tc_engine_arrival_ns c)),
      (''engine_queued_ns'', PV_Int (tc_engine_queued_ns c)),
      (''engine_scheduled_ns'', PV_Int (tc_engine_scheduled_ns c)),
      (''engine_first_token_ns'', PV_Int (tc_engine_first_token_ns c)),
      (''engine_last_token_ns'', PV_Int (tc_engine_last_token_ns c)),
      (''pre_engine_wall_ns'', pv_int_option (tc_pre_engine_wall_ns c)),
      (''first_chunk_mono_ns'', pv_int_option (tc_first_chunk_mono_ns c)),
      (''tokenized_prompt_length'', pv_int_option (tc_tokenized_prompt_length c)),
      (''tokenized_prompt_hash'', pv_str_option (tc_tokenized_prompt_hash c))]"

definition timing_checkpoint_to_payload ::
  "timing_checkpoint option \<Rightarrow> (string \<times> payload_value) list option" where
  "timing_checkpoint_to_payload ckpt =
     (case ckpt of None \<Rightarrow> None | Some c \<Rightarrow> Some (checkpoint_fields c))"

fun payload_json :: "payload_value \<Rightarrow> json" where
  "payload_json (PV_Int i) = JInt i"
| "payload_json (PV_Str s) = JStr s"
| "payload_json PV_None = JNull"

section \<open>Lemmas\<close>

lemma ns_to_ms_add: "ns_to_ms (a + b) = ns_to_ms a + ns_to_ms b"
  by (simp add: ns_to_ms_def add_divide_distrib)

lemma ns_to_ms_nonneg_iff [simp]: "0 \<le> ns_to_ms d \<longleftrightarrow> 0 \<le> d"
  by (simp add: ns_to_ms_def zero_le_divide_iff)

lemma ns_to_ms_neg_iff [simp]: "ns_to_ms d < 0 \<longleftrightarrow> d < 0"
  by (simp add: ns_to_ms_def divide_less_0_iff)

text \<open>The three checkpoint segments partition the handler's wall time exactly.\<close>

lemma segments_partition_handler_time:
  "sd_ab_ms (delta_from_checkpoint c) + sd_bc_ms (delta_from_checkpoint c)
     + sd_cd_ms (delta_from_checkpoint c)
   = ns_to_ms (tc_terminal_emit_ns c - tc_handler_entry_ns c)"
  by (simp add: delta_from_checkpoint_def ns_to_ms_add [symmetric])

lemma engine_segments_present_iff:
  "sd_queue_ms (delta_from_checkpoint c) \<noteq> None \<longleftrightarrow> has_engine_stats c"
  "sd_prefill_ms (delta_from_checkpoint c) \<noteq> None \<longleftrightarrow> has_engine_stats c"
  by (simp_all add: delta_from_checkpoint_def)

lemma opt_int_JInt [simp]: "opt_int (JInt i) = i"
  by (simp add: opt_int_def)

text \<open>Writing a checkpoint into the payload dictionary and reading it as a REST body gives it back.\<close>

lemma json_get_simps [simp]:
  "json_get ((k, v) # d) k = v"
  "k \<noteq> k' \<Longrightarrow> json_get ((k', v) # d) k = json_get d k"
  by (simp_all add: json_get_def)

lemma payload_json_pv_option [simp]:
  "payload_json (pv_int_option x) = (case x of None \<Rightarrow> JNull | Some i \<Rightarrow> JInt i)"
  "payload_json (pv_str_option y) = (case y of None \<Rightarrow> JNull | Some s \<Rightarrow> JStr s)"
  by (cases x; simp add: pv_int_option_def) (cases y; simp add: pv_str_option_def)

lemma rest_payload_roundtrip:
  "extract_rest_timings other
     [(''m6_1_1_timings'', JObj (map (\<lambda>(k, v). (k, payload_json v)) (checkpoint_fields c)))]
   = Some c"
  by (simp add: extract_rest_timings_def checkpoint_fields_def opt_int_or_none_def
      opt_str_or_none_def split: option.split)

section \<open>Property\<close>

text \<open>
  A timing checkpoint survives its JSON transport: written as the payload dictionary and read
  from a REST body it is the same checkpoint, and its three proxy segments add up to the time between
  the handler's entry and its last emission.
\<close>

theorem timing_payload_roundtrip:
  "extract_rest_timings other
      [(''m6_1_1_timings'', JObj (map (\<lambda>(k, v). (k, payload_json v))
          (the (timing_checkpoint_to_payload (Some c)))))] = Some c
    \<and> (let d = compute_per_segment_delta c
       in sd_ab_ms d + sd_bc_ms d + sd_cd_ms d = ns_to_ms (tc_terminal_emit_ns c - tc_handler_entry_ns c))"
  by (simp add: timing_checkpoint_to_payload_def rest_payload_roundtrip compute_per_segment_delta_def
      segments_partition_handler_time Let_def)

end
