(* ===== verification/Aggregate.thy ===== *)
theory Aggregate
  imports Retry Stats Timing
begin

text \<open>
  The per-block aggregation of \<open>sweep.py\<close>: wall percentiles and half-width from the timings,
  segment means and the clock-anomaly gate from the per-RPC metadata, and the measurement row
  that a dispatch result becomes.
\<close>

definition CLOCK_ANOMALY_MAX_FRACTION :: real where "CLOCK_ANOMALY_MAX_FRACTION = 5 / 1000"

definition parse_int :: "str_dict \<Rightarrow> string \<Rightarrow> int option" where
  "parse_int md key = (case map_of md key of None \<Rightarrow> None | Some raw \<Rightarrow> py_int raw)"

definition parse_float :: "str_dict \<Rightarrow> string \<Rightarrow> real option" where
  "parse_float md key = (case map_of md key of None \<Rightarrow> None | Some raw \<Rightarrow> py_float raw)"

definition mean_or_none :: "real list \<Rightarrow> real option" where
  "mean_or_none samples =
     (if samples = [] then None else Some (sum_list samples / real (length samples)))"

text \<open>\<open>_parse_int(md, key) or 0\<close>.\<close>

definition or_zero :: "int option \<Rightarrow> int" where
  "or_zero x = (case x of None \<Rightarrow> 0 | Some i \<Rightarrow> i)"

fun seg_ab_samples :: "str_dict list \<Rightarrow> real list" where
  "seg_ab_samples [] = []"
| "seg_ab_samples (md # mds) =
     (case (parse_int md ''handler_entry_ns'', parse_int md ''pre_engine_ns'') of
        (Some h, Some p) \<Rightarrow> ns_to_ms (p - h) # seg_ab_samples mds
      | _ \<Rightarrow> seg_ab_samples mds)"

fun engine_seg_samples :: "str_dict list \<Rightarrow> real list \<times> real list" where
  "engine_seg_samples [] = ([], [])"
| "engine_seg_samples (md # mds) =
     (let q = or_zero (parse_int md ''engine_queued_ns'');
          s = or_zero (parse_int md ''engine_scheduled_ns'');
          f = or_zero (parse_int md ''engine_first_token_ns'');
          (qs, ps) = engine_seg_samples mds
      in if q > 0 \<and> s > 0 \<and> f > 0 then (ns_to_ms (s - q) # qs, ns_to_ms (f - s) # ps)
         else (qs, ps))"

text \<open>
  One pass of the proxy-edge loop: the ingress and the egress duration of an RPC when its two
  anchors are there (a negative one is dropped), and whether the RPC was anomalous.
\<close>

definition ingress_of :: "str_dict \<Rightarrow> real option \<times> bool" where
  "ingress_of md =
     (let engine_arr = or_zero (parse_int md ''engine_arrival_ns'')
      in case parse_int md ''pre_engine_wall_ns'' of
           None \<Rightarrow> (None, False)
         | Some pre_wall \<Rightarrow>
             if engine_arr > 0
             then (let delta = ns_to_ms (engine_arr - pre_wall)
                   in if delta < 0 then (None, True) else (Some delta, False))
             else (None, False))"

definition egress_of :: "str_dict \<Rightarrow> real option \<times> bool" where
  "egress_of md =
     (let engine_first = or_zero (parse_int md ''engine_first_token_ns'')
      in case parse_int md ''first_chunk_mono_ns'' of
           None \<Rightarrow> (None, False)
         | Some first_mono \<Rightarrow>
             if engine_first > 0
             then (let delta = ns_to_ms (first_mono - engine_first)
                   in if delta < 0 then (None, True) else (Some delta, False))
             else (None, False))"

fun option_cons :: "'a option \<Rightarrow> 'a list \<Rightarrow> 'a list" where
  "option_cons None xs = xs" | "option_cons (Some x) xs = x # xs"

fun proxy_edge_samples :: "str_dict list \<Rightarrow> real list \<times> real list \<times> nat" where
  "proxy_edge_samples [] = ([], [], 0)"
| "proxy_edge_samples (md # mds) =
     (let (i, bad_i) = ingress_of md; (e, bad_e) = egress_of md;
          (is, es, k) = proxy_edge_samples mds
      in (option_cons i is, option_cons e es, if bad_i \<or> bad_e then Suc k else k))"

definition tpot_samples :: "str_dict list \<Rightarrow> real list" where
  "tpot_samples mds = List.map_filter (\<lambda>md. parse_float md ''engine_tpot_ms'') mds"

record aggregated_rpc_metrics =
  agg_wall_p50_ms :: real
  agg_wall_p95_ms :: real
  agg_wall_p99_ms :: real
  agg_wall_p50_ci :: real
  agg_tpot_ms :: "real option"
  agg_seg_ab_ms :: "real option"
  agg_seg_queue_ms :: "real option"
  agg_seg_prefill_ms :: "real option"
  agg_seg_ingress_ms :: "real option"
  agg_seg_egress_ms :: "real option"
  agg_clock_anomaly_fraction :: real
  agg_clock_anomaly :: bool

definition aggregate_block_metrics :: "real list \<Rightarrow> str_dict list \<Rightarrow> aggregated_rpc_metrics" where
  "aggregate_block_metrics timings mds =
     (let sorted_t = sort timings;
          (seg_queue, seg_prefill) = engine_seg_samples mds;
          (seg_ingress, seg_egress, anomaly_count) = proxy_edge_samples mds;
          n_total = length mds;
          fraction = (if n_total > 0 then real anomaly_count / real n_total else 0)
      in \<lparr>agg_wall_p50_ms = sweep_percentile sorted_t 50,
          agg_wall_p95_ms = sweep_percentile sorted_t 95,
          agg_wall_p99_ms = sweep_percentile sorted_t 99,
          agg_wall_p50_ci = ci_half_width_95 timings,
          agg_tpot_ms = mean_or_none (tpot_samples mds),
          agg_seg_ab_ms = mean_or_none (seg_ab_samples mds),
          agg_seg_queue_ms = mean_or_none seg_queue,
          agg_seg_prefill_ms = mean_or_none seg_prefill,
          agg_seg_ingress_ms = mean_or_none seg_ingress,
          agg_seg_egress_ms = mean_or_none seg_egress,
          agg_clock_anomaly_fraction = fraction,
          agg_clock_anomaly = (fraction > CLOCK_ANOMALY_MAX_FRACTION)\<rparr>)"

text \<open>\<open>result.failed_reason or "no_successful_rpcs"\<close>: the empty string counts as absent.\<close>

definition reason_or_default :: "string option \<Rightarrow> string" where
  "reason_or_default r =
     (case r of None \<Rightarrow> ''no_successful_rpcs''
      | Some s \<Rightarrow> if s = [] then ''no_successful_rpcs'' else s)"

definition build_measurement_point ::
  "string \<Rightarrow> cohort \<Rightarrow> int \<Rightarrow> int \<Rightarrow> block_dispatch_result \<Rightarrow> string \<Rightarrow> string \<Rightarrow> bool
     \<Rightarrow> block_inputs \<Rightarrow> measurement_point" where
  "build_measurement_point cid co mt n result start_utc end_utc retried inputs =
     (if br_failed_reason result \<noteq> None \<or> br_timings_ms result = [] then
        \<lparr>mp_cell_id = cid, mp_cohort = co, mp_max_tokens = mt, mp_n_rpcs = n,
         mp_wall_p50_ms = None, mp_wall_p95_ms = None, mp_wall_p99_ms = None,
         mp_wall_p50_ci = None, mp_tpot_ms = None, mp_seg_ab_ms = None, mp_seg_queue_ms = None,
         mp_seg_prefill_ms = None, mp_seg_ingress_ms = None, mp_seg_egress_ms = None,
         mp_failed_reason = Some (reason_or_default (br_failed_reason result)),
         mp_block_start_utc = start_utc, mp_block_end_utc = end_utc,
         mp_retry_attempted = retried, mp_clock_anomaly = False,
         mp_prompt_source = bi_prompt_source inputs, mp_measurement_regime = Natural_Eos,
         mp_prompt_corpus_idx = bi_prompt_corpus_idx inputs\<rparr>
      else
        (let agg = aggregate_block_metrics (br_timings_ms result) (br_per_rpc_metadata result)
         in \<lparr>mp_cell_id = cid, mp_cohort = co, mp_max_tokens = mt, mp_n_rpcs = n,
             mp_wall_p50_ms = Some (agg_wall_p50_ms agg),
             mp_wall_p95_ms = Some (agg_wall_p95_ms agg),
             mp_wall_p99_ms = Some (agg_wall_p99_ms agg),
             mp_wall_p50_ci = Some (agg_wall_p50_ci agg),
             mp_tpot_ms = agg_tpot_ms agg, mp_seg_ab_ms = agg_seg_ab_ms agg,
             mp_seg_queue_ms = agg_seg_queue_ms agg, mp_seg_prefill_ms = agg_seg_prefill_ms agg,
             mp_seg_ingress_ms = agg_seg_ingress_ms agg, mp_seg_egress_ms = agg_seg_egress_ms agg,
             mp_failed_reason = None,
             mp_block_start_utc = start_utc, mp_block_end_utc = end_utc,
             mp_retry_attempted = retried, mp_clock_anomaly = agg_clock_anomaly agg,
             mp_prompt_source = bi_prompt_source inputs, mp_measurement_regime = Natural_Eos,
             mp_prompt_corpus_idx = bi_prompt_corpus_idx inputs\<rparr>))"

section \<open>Wall clock figures\<close>

lemma sweep_percentile_sorted:
  "xs \<noteq> [] \<Longrightarrow> sweep_percentile (sort xs) p = percentile_of xs p"
  by (simp add: sweep_percentile_interp percentile_of_def)

lemma aggregate_wall:
  assumes "ts \<noteq> []"
  shows "agg_wall_p50_ms (aggregate_block_metrics ts mds) = percentile_of ts 50"
    "agg_wall_p95_ms (aggregate_block_metrics ts mds) = percentile_of ts 95"
    "agg_wall_p99_ms (aggregate_block_metrics ts mds) = percentile_of ts 99"
    "agg_wall_p50_ci (aggregate_block_metrics ts mds) = ci_half_width_95 ts"
  using assms
  by (simp_all add: aggregate_block_metrics_def Let_def sweep_percentile_sorted
      split: prod.split)

section \<open>The well-formed row\<close>

text \<open>
  Either the row failed, with a nonempty reason and no latency field; or it succeeded, with all
  three percentiles in order and a nonnegative half-width.
\<close>

definition mp_wf :: "measurement_point \<Rightarrow> bool" where
  "mp_wf m = (case mp_failed_reason m of
     Some r \<Rightarrow> r \<noteq> [] \<and> mp_wall_p50_ms m = None \<and> mp_wall_p95_ms m = None
       \<and> mp_wall_p99_ms m = None \<and> mp_wall_p50_ci m = None \<and> mp_tpot_ms m = None
       \<and> mp_seg_ab_ms m = None \<and> mp_seg_queue_ms m = None \<and> mp_seg_prefill_ms m = None
       \<and> mp_seg_ingress_ms m = None \<and> mp_seg_egress_ms m = None \<and> \<not> mp_clock_anomaly m
   | None \<Rightarrow> (case (mp_wall_p50_ms m, mp_wall_p95_ms m, mp_wall_p99_ms m, mp_wall_p50_ci m) of
       (Some p50, Some p95, Some p99, Some ci) \<Rightarrow> p50 \<le> p95 \<and> p95 \<le> p99 \<and> 0 \<le> ci
     | _ \<Rightarrow> False))"

lemma reason_or_default_nonempty [simp]: "reason_or_default r \<noteq> []"
  by (simp add: reason_or_default_def split: option.split)

lemma build_measurement_point_wf:
  "mp_wf (build_measurement_point cid co mt n result s e r inputs)"
proof (cases "br_failed_reason result \<noteq> None \<or> br_timings_ms result = []")
  case True
  then show ?thesis by (simp add: build_measurement_point_def mp_wf_def)
next
  case False
  then show ?thesis
    by (simp add: build_measurement_point_def mp_wf_def Let_def aggregate_wall
        percentile_of_mono)
qed

lemma build_measurement_point_simps [simp]:
  "mp_cell_id (build_measurement_point cid co mt n result s e r inputs) = cid"
  "mp_cohort (build_measurement_point cid co mt n result s e r inputs) = co"
  "mp_max_tokens (build_measurement_point cid co mt n result s e r inputs) = mt"
  "mp_n_rpcs (build_measurement_point cid co mt n result s e r inputs) = n"
  "mp_block_start_utc (build_measurement_point cid co mt n result s e r inputs) = s"
  "mp_block_end_utc (build_measurement_point cid co mt n result s e r inputs) = e"
  "mp_retry_attempted (build_measurement_point cid co mt n result s e r inputs) = r"
  "mp_prompt_corpus_idx (build_measurement_point cid co mt n result s e r inputs)
     = bi_prompt_corpus_idx inputs"
  "mp_prompt_source (build_measurement_point cid co mt n result s e r inputs)
     = bi_prompt_source inputs"
  by (simp_all add: build_measurement_point_def Let_def)

section \<open>Segments and the anomaly gate\<close>

lemma proxy_edge_nonneg:
  "proxy_edge_samples mds = (is, es, k) \<Longrightarrow> list_all (\<lambda>x. 0 \<le> x) is \<and> list_all (\<lambda>x. 0 \<le> x) es"
proof (induction mds arbitrary: "is" es k)
  case (Cons md mds)
  obtain is' es' k' where rec: "proxy_edge_samples mds = (is', es', k')" by (rule prod_cases3)
  have "case fst (ingress_of md) of None \<Rightarrow> True | Some x \<Rightarrow> 0 \<le> x"
    "case fst (egress_of md) of None \<Rightarrow> True | Some x \<Rightarrow> 0 \<le> x"
    by (auto simp: ingress_of_def egress_of_def Let_def split: option.split)
  then show ?case
    using Cons.prems Cons.IH[OF rec] rec
    by (cases "fst (ingress_of md)"; cases "fst (egress_of md)")
      (auto simp: Let_def split: prod.split_asm)
qed simp

lemma proxy_edge_count_le: "snd (snd (proxy_edge_samples mds)) \<le> length mds"
  by (induction mds) (auto simp: Let_def split: prod.split)

lemma mean_or_none_nonneg: "list_all (\<lambda>x. 0 \<le> x) xs \<Longrightarrow> mean_or_none xs = Some m \<Longrightarrow> 0 \<le> m"
  by (auto simp: mean_or_none_def list_all_iff intro!: sum_list_nonneg divide_nonneg_nonneg
      split: if_split_asm)

lemma aggregate_edges_nonneg:
  "agg_seg_ingress_ms (aggregate_block_metrics ts mds) = Some m \<Longrightarrow> 0 \<le> m"
  "agg_seg_egress_ms (aggregate_block_metrics ts mds) = Some m \<Longrightarrow> 0 \<le> m"
proof -
  obtain "is" es k where e: "proxy_edge_samples mds = (is, es, k)" by (rule prod_cases3)
  then have n: "list_all (\<lambda>x. 0 \<le> x) is" "list_all (\<lambda>x. 0 \<le> x) es"
    using proxy_edge_nonneg by blast+
  show "agg_seg_ingress_ms (aggregate_block_metrics ts mds) = Some m \<Longrightarrow> 0 \<le> m"
    using e mean_or_none_nonneg[OF n(1)]
    by (auto simp: aggregate_block_metrics_def Let_def split: prod.split_asm)
  show "agg_seg_egress_ms (aggregate_block_metrics ts mds) = Some m \<Longrightarrow> 0 \<le> m"
    using e mean_or_none_nonneg[OF n(2)]
    by (auto simp: aggregate_block_metrics_def Let_def split: prod.split_asm)
qed

definition rpc_anomalous :: "str_dict \<Rightarrow> bool" where
  "rpc_anomalous md \<longleftrightarrow> snd (ingress_of md) \<or> snd (egress_of md)"

lemma proxy_edge_count: "snd (snd (proxy_edge_samples mds)) = length (filter rpc_anomalous mds)"
  by (induction mds) (auto simp: Let_def rpc_anomalous_def split: prod.split)

text \<open>The gate fires when more than one RPC in 200 is anomalous, and only then.\<close>

lemma clock_anomaly_iff:
  "agg_clock_anomaly (aggregate_block_metrics ts mds) \<longleftrightarrow>
     length mds < 200 * length (filter rpc_anomalous mds)"
proof -
  have k: "snd (snd (proxy_edge_samples mds)) = length (filter rpc_anomalous mds)"
    by (rule proxy_edge_count)
  show ?thesis
  proof (cases "mds = []")
    case True
    then show ?thesis
      by (simp add: aggregate_block_metrics_def Let_def CLOCK_ANOMALY_MAX_FRACTION_def)
  next
    case False
    then have pos: "0 < real (length mds)" by simp
    have gate: "5 / 1000 < real a / real (length mds) \<longleftrightarrow> length mds < 200 * a" for a
    proof -
      have "5 / 1000 < real a / real (length mds) \<longleftrightarrow> 5 / 1000 * real (length mds) < real a"
        using pos by (rule pos_less_divide_eq)
      also have "\<dots> \<longleftrightarrow> real (length mds) < real (200 * a)" by (simp add: mult.commute)
      also have "\<dots> \<longleftrightarrow> length mds < 200 * a" by (rule of_nat_less_iff)
      finally show ?thesis .
    qed
    obtain "is" es c where e: "proxy_edge_samples mds = (is, es, c)" by (rule prod_cases3)
    then have "c = length (filter rpc_anomalous mds)" using k by simp
    with e False gate[of c] show ?thesis
      by (auto simp: aggregate_block_metrics_def Let_def CLOCK_ANOMALY_MAX_FRACTION_def
          split: prod.split)
  qed
qed

section \<open>Properties\<close>

text \<open>
  The figures of a block: on any nonempty list of latencies, the three percentiles are in
  order and between the fastest and the slowest RPC, the half-width is not negative, and the two
  edge segments, when there are any, are not negative although the clocks they compare may disagree.
\<close>

theorem block_figures_ordered:
  assumes "ts \<noteq> []"
  shows "let a = aggregate_block_metrics ts mds
    in Min (set ts) \<le> agg_wall_p50_ms a \<and> agg_wall_p50_ms a \<le> agg_wall_p95_ms a
      \<and> agg_wall_p95_ms a \<le> agg_wall_p99_ms a \<and> agg_wall_p99_ms a \<le> Max (set ts)
      \<and> 0 \<le> agg_wall_p50_ci a
      \<and> (\<forall>m. agg_seg_ingress_ms a = Some m \<or> agg_seg_egress_ms a = Some m \<longrightarrow> 0 \<le> m)"
  using assms aggregate_edges_nonneg[of ts mds]
  by (auto simp: aggregate_wall Let_def percentile_of_mono intro!: percentile_of_range(3,4))

theorem block_figures_ordered_witness:
  "agg_wall_p50_ms (aggregate_block_metrics [30, 10, 20] []) \<le> agg_wall_p95_ms (aggregate_block_metrics [30, 10, 20] [])
    \<and> agg_wall_p99_ms (aggregate_block_metrics [30, 10, 20] []) \<le> 30"
  using block_figures_ordered[of "[30, 10, 20]" "[]"] by (simp add: Let_def)

text \<open>
  A block is flagged for clock anomalies exactly when more than one in two hundred of the RPCs
  with metadata had a negative edge segment, and the count behind it is that of those RPCs.
\<close>

theorem clock_flag_exact:
  "agg_clock_anomaly (aggregate_block_metrics ts mds)
     \<longleftrightarrow> length mds < 200 * length (filter rpc_anomalous mds)"
  by (rule clock_anomaly_iff)

end
