(* ===== verification/Null_Anchor.thy ===== *)
theory Null_Anchor
  imports Sweep_Types
begin

text \<open>
  \<open>null_anchor.py\<close>: the pooled drift threshold, the three-way verdict of an anchor measurement
  against its published baseline, the two anchor constructors and the sweep-level header rule.
  The keyword arguments with defaults are explicit arguments; the names ending in \<open>_default\<close>
  fix them at the code's defaults.
\<close>

definition DRIFT_THRESHOLD_FLOOR_MS :: real where "DRIFT_THRESHOLD_FLOOR_MS = 10"

definition DRIFT_THRESHOLD_FLOOR_FRACTION :: real where
  "DRIFT_THRESHOLD_FLOOR_FRACTION = 25 / 1000"

definition DRIFT_THRESHOLD_WARN_MULTIPLIER :: real where "DRIFT_THRESHOLD_WARN_MULTIPLIER = 3"

lemmas drift_constants = DRIFT_THRESHOLD_FLOOR_MS_def DRIFT_THRESHOLD_FLOOR_FRACTION_def
  DRIFT_THRESHOLD_WARN_MULTIPLIER_def

definition pooled_ci_half_width :: "real \<Rightarrow> real \<Rightarrow> real \<Rightarrow> real \<Rightarrow> real \<Rightarrow> real" where
  "pooled_ci_half_width base_ci own_ci baseline_p50 floor_ms floor_fraction =
     Max {max base_ci 0, max own_ci 0, floor_ms, max baseline_p50 0 * max floor_fraction 0}"

definition compute_drift_verdict ::
  "real \<Rightarrow> real \<Rightarrow> real \<Rightarrow> real \<Rightarrow> real \<Rightarrow> real \<Rightarrow> real \<Rightarrow> drift_verdict" where
  "compute_drift_verdict p50 base_p50 base_ci own_ci floor_ms floor_fraction warn_multiplier =
     (let delta = \<bar>p50 - base_p50\<bar>;
          pooled = pooled_ci_half_width base_ci own_ci base_p50 floor_ms floor_fraction
      in if delta \<le> pooled then PASS
         else if delta \<le> warn_multiplier * pooled then WARN
         else FAIL)"

definition pooled_default :: "real \<Rightarrow> real \<Rightarrow> real \<Rightarrow> real" where
  "pooled_default base_ci own_ci baseline_p50 =
     pooled_ci_half_width base_ci own_ci baseline_p50 DRIFT_THRESHOLD_FLOOR_MS
       DRIFT_THRESHOLD_FLOOR_FRACTION"

definition drift_verdict_default :: "real \<Rightarrow> real \<Rightarrow> real \<Rightarrow> real \<Rightarrow> drift_verdict" where
  "drift_verdict_default p50 base_p50 base_ci own_ci =
     compute_drift_verdict p50 base_p50 base_ci own_ci DRIFT_THRESHOLD_FLOOR_MS
       DRIFT_THRESHOLD_FLOOR_FRACTION DRIFT_THRESHOLD_WARN_MULTIPLIER"

definition make_null_anchor ::
  "string \<Rightarrow> cohort \<Rightarrow> int \<Rightarrow> real option \<Rightarrow> real \<Rightarrow> real \<Rightarrow> real \<Rightarrow> null_anchor" where
  "make_null_anchor cid co mt p50 base_p50 base_ci own_ci = (case p50 of
     None \<Rightarrow>
       \<lparr>na_cell_id = cid, na_cohort = co, na_max_tokens = mt, na_m6_2_p50 = None,
        na_m6_1_3_p50 = Some base_p50, na_m6_1_3_ci = Some base_ci,
        na_drift_verdict = Some FAIL, na_drift_fraction = None, na_new_baseline = False\<rparr>
   | Some p \<Rightarrow>
       (let verdict = drift_verdict_default p base_p50 base_ci own_ci;
            pooled = pooled_default base_ci own_ci base_p50;
            fraction = (if pooled > 0 then (p - base_p50) / pooled else 0)
        in \<lparr>na_cell_id = cid, na_cohort = co, na_max_tokens = mt, na_m6_2_p50 = Some p,
            na_m6_1_3_p50 = Some base_p50, na_m6_1_3_ci = Some base_ci,
            na_drift_verdict = Some verdict, na_drift_fraction = Some fraction,
            na_new_baseline = False\<rparr>))"

definition make_new_baseline_anchor ::
  "string \<Rightarrow> cohort \<Rightarrow> int \<Rightarrow> real option \<Rightarrow> null_anchor" where
  "make_new_baseline_anchor cid co mt p50 =
     \<lparr>na_cell_id = cid, na_cohort = co, na_max_tokens = mt, na_m6_2_p50 = p50,
      na_m6_1_3_p50 = None, na_m6_1_3_ci = None, na_drift_verdict = None,
      na_drift_fraction = None, na_new_baseline = True\<rparr>"

definition anchor_drifted :: "null_anchor \<Rightarrow> bool" where
  "anchor_drifted a \<longleftrightarrow>
     \<not> na_new_baseline a \<and> List.member [Some WARN, Some FAIL] (na_drift_verdict a)"

definition compute_null_anchor_drift_header_fired :: "null_anchor list \<Rightarrow> int \<Rightarrow> bool" where
  "compute_null_anchor_drift_header_fired anchors threshold \<longleftrightarrow>
     int (length (filter anchor_drifted anchors)) \<ge> threshold"

section \<open>The threshold\<close>

lemma pooled_alt: "pooled_ci_half_width base_ci own_ci bp fl fr =
    max (max base_ci 0) (max (max own_ci 0) (max fl (max bp 0 * max fr 0)))"
  by (simp add: pooled_ci_half_width_def)

lemma pooled_ge:
  "base_ci \<le> pooled_ci_half_width base_ci own_ci bp fl fr"
  "own_ci \<le> pooled_ci_half_width base_ci own_ci bp fl fr"
  "fl \<le> pooled_ci_half_width base_ci own_ci bp fl fr"
  "0 \<le> pooled_ci_half_width base_ci own_ci bp fl fr"
  by (simp_all add: pooled_alt le_max_iff_disj)

lemma pooled_mono:
  assumes "b \<le> b'" "c \<le> c'" "p \<le> p'" "f \<le> f'" "r \<le> r'"
  shows "pooled_ci_half_width b c p f r \<le> pooled_ci_half_width b' c' p' f' r'"
  unfolding pooled_alt using assms by (intro max.mono mult_mono order_refl) auto

lemma pooled_default_ge_floor: "10 \<le> pooled_default b c p"
  using pooled_ge(3)[of 10 b c p] by (simp add: pooled_default_def drift_constants)

lemma pooled_default_pos: "0 < pooled_default b c p"
  using pooled_default_ge_floor[of b c p] by linarith

section \<open>The verdict\<close>

lemma drift_verdict_default_alt:
  "drift_verdict_default p base_p50 base_ci own_ci =
     (if \<bar>p - base_p50\<bar> \<le> pooled_default base_ci own_ci base_p50 then PASS
      else if \<bar>p - base_p50\<bar> \<le> 3 * pooled_default base_ci own_ci base_p50 then WARN else FAIL)"
  by (simp add: drift_verdict_default_def compute_drift_verdict_def pooled_default_def
      drift_constants Let_def)

primrec verdict_rank :: "drift_verdict \<Rightarrow> nat" where
  "verdict_rank PASS = 0" | "verdict_rank WARN = 1" | "verdict_rank FAIL = 2"

text \<open>A measurement further from the baseline never gets a milder verdict.\<close>

lemma verdict_monotone_in_distance:
  "\<bar>p - b\<bar> \<le> \<bar>q - b\<bar> \<Longrightarrow>
     verdict_rank (drift_verdict_default p b ci own) \<le> verdict_rank (drift_verdict_default q b ci own)"
  by (simp add: drift_verdict_default_alt)

text \<open>A wider interval of the run's own never makes the verdict stricter.\<close>

lemma verdict_antimono_in_ci:
  assumes "own \<le> own'"
  shows "verdict_rank (drift_verdict_default p b ci own')
    \<le> verdict_rank (drift_verdict_default p b ci own)"
proof -
  have "pooled_default ci own b \<le> pooled_default ci own' b"
    unfolding pooled_default_def using assms by (intro pooled_mono) auto
  then show ?thesis by (simp add: drift_verdict_default_alt)
qed

text \<open>The reported fraction places the verdict: at most 1 is PASS, at most 3 is WARN.\<close>

lemma null_anchor_fraction_verdict:
  "na_drift_verdict (make_null_anchor cid co mt (Some p) b ci own) =
     Some (if \<bar>(p - b) / pooled_default ci own b\<bar> \<le> 1 then PASS
           else if \<bar>(p - b) / pooled_default ci own b\<bar> \<le> 3 then WARN else FAIL)"
  "na_drift_fraction (make_null_anchor cid co mt (Some p) b ci own) =
     Some ((p - b) / pooled_default ci own b)"
  using pooled_default_pos[of ci own b]
  by (simp_all add: make_null_anchor_def Let_def drift_verdict_default_alt abs_divide
      divide_le_eq)

section \<open>The header\<close>

lemma new_baseline_never_drifts [simp]: "\<not> anchor_drifted (make_new_baseline_anchor c co mt p)"
  by (simp add: anchor_drifted_def make_new_baseline_anchor_def)

lemma failed_anchor_drifts: "anchor_drifted (make_null_anchor c co mt None b ci own)"
  by (simp add: anchor_drifted_def make_null_anchor_def)

lemma header_mono:
  "compute_null_anchor_drift_header_fired xs t \<Longrightarrow>
     compute_null_anchor_drift_header_fired (xs @ ys) t"
  by (simp add: compute_null_anchor_drift_header_fired_def)

section \<open>Property\<close>

text \<open>
  The verdict of a null anchor and the fraction printed beside it say the same: the verdict is
  PASS up to one threshold of distance, WARN up to three, FAIL beyond; and it never gets milder
  when the measurement moves away from the baseline or its own interval gets narrower.
\<close>

theorem anchor_verdict_scale:
  assumes "\<bar>p - b\<bar> \<le> \<bar>q - b\<bar>" "own' \<le> own"
  shows "verdict_rank (drift_verdict_default p b ci own) \<le> verdict_rank (drift_verdict_default q b ci own')
    \<and> na_drift_verdict (make_null_anchor cid co mt (Some p) b ci own) = Some
        (let d = \<bar>the (na_drift_fraction (make_null_anchor cid co mt (Some p) b ci own))\<bar>
         in if d \<le> 1 then PASS else if d \<le> 3 then WARN else FAIL)"
  using order_trans[OF verdict_monotone_in_distance[OF assms(1), of ci own]
      verdict_antimono_in_ci[OF assms(2), of q b ci]]
  by (simp add: null_anchor_fraction_verdict)

theorem anchor_verdict_scale_witness:
  "verdict_rank (drift_verdict_default 105 100 5 2) \<le> verdict_rank (drift_verdict_default 130 100 5 1)"
  using anchor_verdict_scale[of 105 100 130 1 2 5] by simp

end
