(* ===== verification/Anchor.thy ===== *)
theory Anchor
  imports Null_Anchor Stats "HOL-Library.AList"
begin

text \<open>
  \<open>anchor_trajectory.py\<close> and the anchor parts of \<open>sweep.py\<close>: when an anchor block fires, how
  one is measured across the cohorts, how the snapshots of a sweep reduce to a trajectory per
  cohort, and the two sweep-level headers. A dict keyed by cohort is an association list in
  insertion order.
\<close>

section \<open>When an anchor fires\<close>

definition ANCHOR_CADENCE_HOURS :: real where "ANCHOR_CADENCE_HOURS = 4"
definition START_GUARD_HOURS :: real where "START_GUARD_HOURS = 1 / 1000"
definition ANCHOR_EPSILON_HOURS :: real where "ANCHOR_EPSILON_HOURS = 5 / 100"

text \<open>Python's \<open>round\<close>: to the nearest integer, halves to the even one.\<close>

definition py_round :: "real \<Rightarrow> int" where
  "py_round x = (let f = \<lfloor>x\<rfloor>; d = x - real_of_int f
     in if d < 1 / 2 then f else if d > 1 / 2 then f + 1 else if even f then f else f + 1)"

definition should_run_anchor_at ::
  "real \<Rightarrow> sweep_mode \<Rightarrow> real option \<Rightarrow> real \<Rightarrow> real \<Rightarrow> real \<Rightarrow> bool" where
  "should_run_anchor_at mark mode tot cadence epsilon start_guard =
     (if mark \<le> start_guard then True
      else if (case tot of None \<Rightarrow> False | Some t \<Rightarrow> \<bar>mark - t\<bar> \<le> epsilon) then True
      else if mode = Validate \<and> (case tot of None \<Rightarrow> True | Some t \<Rightarrow> t < 8) then False
      else let multiples = mark / cadence; nearest = py_round multiples
           in if nearest = 0 then False
              else \<bar>multiples - real_of_int nearest\<bar> \<le> epsilon / cadence)"

definition anchor_due :: "real \<Rightarrow> sweep_mode \<Rightarrow> real option \<Rightarrow> bool" where
  "anchor_due mark mode tot = should_run_anchor_at mark mode tot ANCHOR_CADENCE_HOURS
     ANCHOR_EPSILON_HOURS START_GUARD_HOURS"

lemma py_round_eqI:
  assumes "\<bar>x - real_of_int k\<bar> < 1 / 2"
  shows "py_round x = k"
proof -
  have x: "real_of_int k - 1 / 2 < x" "x < real_of_int k + 1 / 2" using assms by linarith+
  then consider "\<lfloor>x\<rfloor> = k" | "\<lfloor>x\<rfloor> = k - 1" by linarith
  then show ?thesis using x by cases (auto simp: py_round_def Let_def)
qed

lemma py_round_error: "\<bar>x - real_of_int (py_round x)\<bar> \<le> 1 / 2"
  by (simp add: py_round_def Let_def)

text \<open>In a publish sweep an anchor fires at the start and within three minutes of every 4 h mark.\<close>

lemma anchor_due_publish:
  "anchor_due mark Publish None \<longleftrightarrow>
     mark \<le> 1 / 1000 \<or> (\<exists>k :: int. k \<noteq> 0 \<and> \<bar>mark - 4 * real_of_int k\<bar> \<le> 5 / 100)"
proof -
  have eq: "\<bar>mark / 4 - real_of_int k\<bar> \<le> 5 / 100 / 4 \<longleftrightarrow> \<bar>mark - 4 * real_of_int k\<bar> \<le> 5 / 100"
    for k :: int by linarith
  have "py_round (mark / 4) = k" if "\<bar>mark - 4 * real_of_int k\<bar> \<le> 5 / 100" for k :: int
    using that by (intro py_round_eqI) linarith
  then show ?thesis
    unfolding anchor_due_def should_run_anchor_at_def ANCHOR_CADENCE_HOURS_def
      ANCHOR_EPSILON_HOURS_def START_GUARD_HOURS_def Let_def eq
    by auto
qed

lemma anchor_due_validate:
  "anchor_due mark Validate None \<longleftrightarrow> mark \<le> 1 / 1000"
  by (simp add: anchor_due_def should_run_anchor_at_def START_GUARD_HOURS_def)

section \<open>Measuring an anchor block\<close>

type_synonym 'w anchor_driver = "cohort \<Rightarrow> int \<Rightarrow> int \<Rightarrow> int \<Rightarrow> 'w \<Rightarrow> real list py_result \<times> 'w"

text \<open>The driver's arguments are the cohort, \<open>n\<close>, \<open>base_seed\<close> and \<open>seed_offset\<close>.\<close>

definition anchor_snapshot_of :: "real list \<Rightarrow> string \<Rightarrow> real \<Rightarrow> anchor_snapshot py_result" where
  "anchor_snapshot_of samples stamp mark =
     bind_result (anchor_percentile samples 50) (\<lambda>p50.
     bind_result (anchor_percentile samples 95) (\<lambda>p95.
     bind_result (anchor_percentile samples 99) (\<lambda>p99.
       Inr \<lparr>as_wall_p50_ms = p50, as_wall_p95_ms = p95, as_wall_p99_ms = p99,
            as_timestamp = stamp, as_hour_mark = mark\<rparr>)))"

text \<open>The loop over the cohorts; \<open>acc\<close> is the dict \<open>snapshots\<close>.\<close>

fun anchor_loop ::
  "cohort list \<Rightarrow> 'w anchor_driver \<Rightarrow> int \<Rightarrow> real \<Rightarrow> int \<Rightarrow> int \<Rightarrow> ('w \<Rightarrow> string \<times> 'w)
     \<Rightarrow> (cohort \<times> anchor_snapshot) list \<Rightarrow> 'w \<Rightarrow> (cohort \<times> anchor_snapshot) list py_result \<times> 'w" where
  "anchor_loop [] driver seed mark n offset now acc w = (Inr acc, w)"
| "anchor_loop (c # cs) driver seed mark n offset now acc w =
     (case driver c n seed offset w of
        (Inl e, w1) \<Rightarrow> (Inl e, w1)
      | (Inr samples, w1) \<Rightarrow>
          if samples = [] then anchor_loop cs driver seed mark n offset now acc w1
          else let (stamp, w2) = now w1
               in case anchor_snapshot_of samples stamp mark of
                    Inl e \<Rightarrow> (Inl e, w2)
                  | Inr snap \<Rightarrow>
                      anchor_loop cs driver seed mark n offset now (AList.update c snap acc) w2)"

definition compute_anchor_block ::
  "cohort list \<Rightarrow> 'w anchor_driver \<Rightarrow> int \<Rightarrow> real \<Rightarrow> int \<Rightarrow> int \<Rightarrow> ('w \<Rightarrow> string \<times> 'w) \<Rightarrow> 'w
     \<Rightarrow> (cohort \<times> anchor_snapshot) list py_result \<times> 'w" where
  "compute_anchor_block cs driver seed mark n offset now w =
     anchor_loop cs driver seed mark n offset now [] w"

lemma anchor_snapshot_of_ok:
  "samples \<noteq> [] \<Longrightarrow> anchor_snapshot_of samples stamp mark =
     Inr \<lparr>as_wall_p50_ms = percentile_of samples 50, as_wall_p95_ms = percentile_of samples 95,
          as_wall_p99_ms = percentile_of samples 99, as_timestamp = stamp, as_hour_mark = mark\<rparr>"
  by (simp add: anchor_snapshot_of_def anchor_percentile_interp percentile_of_def)

definition snapshot_wf :: "anchor_snapshot \<Rightarrow> bool" where
  "snapshot_wf s \<longleftrightarrow> as_wall_p50_ms s \<le> as_wall_p95_ms s \<and> as_wall_p95_ms s \<le> as_wall_p99_ms s"

lemma anchor_snapshot_of_wf:
  "anchor_snapshot_of samples stamp mark = Inr s \<Longrightarrow> snapshot_wf s \<and> as_hour_mark s = mark"
  by (cases "samples = []")
    (auto simp: anchor_snapshot_of_ok snapshot_wf_def percentile_of_mono
      anchor_snapshot_of_def [of "[]"] anchor_percentile_def)

lemma set_AList_update: "set (AList.update k v xs) \<subseteq> insert (k, v) (set xs)"
  by (induction xs) auto

lemma anchor_loop_wf:
  assumes "anchor_loop cs driver seed mark n offset now acc w = (Inr snaps, w')"
    and "\<And>c s. (c, s) \<in> set acc \<Longrightarrow> snapshot_wf s \<and> as_hour_mark s = mark"
    and "(c, s) \<in> set snaps"
  shows "snapshot_wf s \<and> as_hour_mark s = mark"
  using assms
proof (induction cs arbitrary: acc w)
  case (Cons d cs)
  obtain r w1 where d: "driver d n seed offset w = (r, w1)" by (cases "driver d n seed offset w")
  then obtain samples where r: "r = Inr samples"
    using Cons.prems(1) by (cases r) auto
  show ?case
  proof (cases "samples = []")
    case True
    then have "anchor_loop cs driver seed mark n offset now acc w1 = (Inr snaps, w')"
      using Cons.prems(1) d r by simp
    then show ?thesis using Cons.IH Cons.prems(2,3) by blast
  next
    case False
    obtain st w2 where n: "now w1 = (st, w2)" by (cases "now w1")
    obtain sn where sn: "anchor_snapshot_of samples st mark = Inr sn"
      using False by (simp add: anchor_snapshot_of_ok)
    have run: "anchor_loop cs driver seed mark n offset now (AList.update d sn acc) w2
        = (Inr snaps, w')"
      using Cons.prems(1) d r False n sn by simp
    show ?thesis
    proof (rule Cons.IH[OF run _ Cons.prems(3)])
      fix c s assume "(c, s) \<in> set (AList.update d sn acc)"
      then have "(c, s) = (d, sn) \<or> (c, s) \<in> set acc"
        using set_AList_update[of d sn acc] by auto
      then show "snapshot_wf s \<and> as_hour_mark s = mark"
        using anchor_snapshot_of_wf[OF sn] Cons.prems(2) by auto
    qed
  qed
qed auto

lemma compute_anchor_block_wf:
  assumes "compute_anchor_block cs driver seed mark n offset now w = (Inr snaps, w')"
    and "(c, s) \<in> set snaps"
  shows "snapshot_wf s \<and> as_hour_mark s = mark"
  using anchor_loop_wf[of cs driver seed mark n offset now "[]" w snaps w' c s] assms
  by (simp add: compute_anchor_block_def)

section \<open>Trajectories\<close>

definition WARMUP_SUPPRESSION_HOURS :: real where "WARMUP_SUPPRESSION_HOURS = 5 / 100"

definition snapshot_ci_half_width :: "anchor_snapshot list \<Rightarrow> real" where
  "snapshot_ci_half_width snapshots =
     (if length snapshots < 2 then 0
      else let p50s = map as_wall_p50_ms snapshots
           in (196 / 100) * stdev p50s / sqrt (real (length p50s)))"

definition trajectory_of ::
  "cohort \<Rightarrow> anchor_snapshot list \<Rightarrow> real \<Rightarrow> real \<Rightarrow> real \<Rightarrow> real \<Rightarrow> real \<Rightarrow> anchor_trajectory" where
  "trajectory_of co snapshots baseline_ci baseline_p50 floor_ms floor_fraction warmup =
     (let post_warmup = filter (\<lambda>s. as_hour_mark s \<ge> warmup) snapshots
      in if length post_warmup < 2 then
           \<lparr>at_cohort = co, at_snapshots = snapshots, at_spread = 0, at_drift_warning = False,
            at_insufficient = True\<rparr>
         else
           (let p50s = map as_wall_p50_ms post_warmup;
                spread = Max (set p50s) - Min (set p50s);
                threshold = pooled_ci_half_width baseline_ci (snapshot_ci_half_width post_warmup)
                              baseline_p50 floor_ms floor_fraction
            in \<lparr>at_cohort = co, at_snapshots = snapshots, at_spread = spread,
                at_drift_warning = (spread > threshold), at_insufficient = False\<rparr>))"

definition compute_anchor_latency_trajectory ::
  "(cohort \<times> anchor_snapshot list) list \<Rightarrow> real \<Rightarrow> real \<Rightarrow> real \<Rightarrow> real \<Rightarrow> real
     \<Rightarrow> (cohort \<times> anchor_trajectory) list" where
  "compute_anchor_latency_trajectory by_cohort baseline_ci baseline_p50 floor_ms floor_fraction warmup =
     map (\<lambda>(co, snaps). (co, trajectory_of co snaps baseline_ci baseline_p50 floor_ms
                               floor_fraction warmup)) by_cohort"

definition compute_insufficient_snapshots_header_fired :: "(cohort \<times> anchor_trajectory) list \<Rightarrow> bool" where
  "compute_insufficient_snapshots_header_fired trajs = list_ex (at_insufficient \<circ> snd) trajs"

definition compute_intra_sweep_drift_header_fired :: "(cohort \<times> anchor_trajectory) list \<Rightarrow> bool" where
  "compute_intra_sweep_drift_header_fired trajs \<longleftrightarrow>
     int (length (filter (at_drift_warning \<circ> snd) trajs)) \<ge> LATENCY_DRIFT_COHORT_COUNT_THRESHOLD"

definition default_cohorts :: "cohort list" where
  "default_cohorts = COHORTS"

text \<open>The half-width here and the block half-width of the sweep are one formula.\<close>

lemma snapshot_ci_half_width_eq:
  "snapshot_ci_half_width ss = ci_half_width_95 (map as_wall_p50_ms ss)"
  by (simp add: snapshot_ci_half_width_def ci_half_width_95_def Let_def)

text \<open>The warning never fires below the 10 ms floor, nor on a cohort with too few snapshots.\<close>

lemma trajectory_warning_sound:
  assumes "at_drift_warning (trajectory_of co ss ci p50 floor_ms fr wu)"
  shows "\<not> at_insufficient (trajectory_of co ss ci p50 floor_ms fr wu)"
    and "floor_ms < at_spread (trajectory_of co ss ci p50 floor_ms fr wu)"
    and "\<exists>s\<in>set ss. \<exists>t\<in>set ss. wu \<le> as_hour_mark s \<and> wu \<le> as_hour_mark t
           \<and> floor_ms < as_wall_p50_ms s - as_wall_p50_ms t"
proof -
  let ?post = "filter (\<lambda>s. as_hour_mark s \<ge> wu) ss"
  let ?p50s = "set (map as_wall_p50_ms ?post)"
  have ge: "\<not> length ?post < 2"
    using assms by (auto simp: trajectory_of_def Let_def split: if_split_asm)
  then show "\<not> at_insufficient (trajectory_of co ss ci p50 floor_ms fr wu)"
    by (simp add: trajectory_of_def Let_def)
  have warn: "pooled_ci_half_width ci (snapshot_ci_half_width ?post) p50 floor_ms fr
      < Max ?p50s - Min ?p50s"
    using assms ge by (simp add: trajectory_of_def Let_def)
  then have fl: "floor_ms < Max ?p50s - Min ?p50s"
    using pooled_ge(3)[of floor_ms ci "snapshot_ci_half_width ?post" p50 fr] by linarith
  then show "floor_ms < at_spread (trajectory_of co ss ci p50 floor_ms fr wu)"
    using ge by (simp add: trajectory_of_def Let_def)
  have ne: "?p50s \<noteq> {}" using ge by (cases ?post) auto
  have "Max ?p50s \<in> ?p50s" "Min ?p50s \<in> ?p50s" using ne by (auto intro: Max_in Min_in)
  then obtain s t where st: "s \<in> set ss" "wu \<le> as_hour_mark s" "t \<in> set ss" "wu \<le> as_hour_mark t"
    and mm: "Max ?p50s = as_wall_p50_ms s" "Min ?p50s = as_wall_p50_ms t" by auto
  from fl have "floor_ms < as_wall_p50_ms s - as_wall_p50_ms t" unfolding mm .
  with st show "\<exists>s\<in>set ss. \<exists>t\<in>set ss. wu \<le> as_hour_mark s \<and> wu \<le> as_hour_mark t
           \<and> floor_ms < as_wall_p50_ms s - as_wall_p50_ms t"
    by blast
qed

lemma trajectory_constant_no_warning:
  assumes "\<And>s. s \<in> set ss \<Longrightarrow> as_wall_p50_ms s = x" "0 \<le> floor_ms"
  shows "\<not> at_drift_warning (trajectory_of co ss ci p50 floor_ms fr wu)"
  using trajectory_warning_sound(3)[of co ss ci p50 floor_ms fr wu] assms by fastforce

section \<open>Properties\<close>

text \<open>
  The anchor cadence of a publish run, checked after a tuple at elapsed hour \<open>mark\<close>, fires
  exactly at the start and within three minutes of a nonzero multiple of four hours; a check that
  falls outside every such window never makes up for it. A validate run fires only at the start.
\<close>

theorem anchor_cadence:
  "(anchor_due mark Publish None \<longleftrightarrow> mark \<le> 1 / 1000 \<or> (\<exists>k :: int. k \<noteq> 0 \<and> \<bar>mark - 4 * real_of_int k\<bar> \<le> 5 / 100))
    \<and> (anchor_due mark Validate None \<longleftrightarrow> mark \<le> 1 / 1000)"
  using anchor_due_publish anchor_due_validate by blast

text \<open>
  A drift warning of a cohort's trajectory is backed by two snapshots: both after the warm-up,
  their medians further apart than the floor and than the pooled threshold; and a cohort with fewer
  than two such snapshots never warns.
\<close>

theorem drift_warning_backed:
  assumes "at_drift_warning (trajectory_of co ss ci p50 floor_ms fr wu)"
  shows "\<not> at_insufficient (trajectory_of co ss ci p50 floor_ms fr wu)
    \<and> (\<exists>s\<in>set ss. \<exists>t\<in>set ss. wu \<le> as_hour_mark s \<and> wu \<le> as_hour_mark t
         \<and> floor_ms < as_wall_p50_ms s - as_wall_p50_ms t)"
  using trajectory_warning_sound[OF assms] by blast

theorem drift_warning_backed_witness:
  "\<not> at_insufficient (trajectory_of Default_Grpc
      [\<lparr>as_wall_p50_ms = 0, as_wall_p95_ms = 0, as_wall_p99_ms = 0, as_timestamp = [], as_hour_mark = 1\<rparr>,
       \<lparr>as_wall_p50_ms = 100, as_wall_p95_ms = 100, as_wall_p99_ms = 100, as_timestamp = [], as_hour_mark = 5\<rparr>,
       \<lparr>as_wall_p50_ms = 100, as_wall_p95_ms = 100, as_wall_p99_ms = 100, as_timestamp = [], as_hour_mark = 9\<rparr>]
      0 0 10 0 0)"
proof (rule drift_warning_backed[THEN conjunct1])
  have "(98 * sqrt (10000 / 3) / (50 * sqrt 3))\<^sup>2 < 100\<^sup>2"
    by (simp add: power_divide power_mult_distrib)
  then have "98 * sqrt (10000 / 3) / (50 * sqrt 3) < (100 :: real)"
    by (rule power2_less_imp_less) simp
  then show "at_drift_warning (trajectory_of Default_Grpc
      [\<lparr>as_wall_p50_ms = 0, as_wall_p95_ms = 0, as_wall_p99_ms = 0, as_timestamp = [], as_hour_mark = 1\<rparr>,
       \<lparr>as_wall_p50_ms = 100, as_wall_p95_ms = 100, as_wall_p99_ms = 100, as_timestamp = [], as_hour_mark = 5\<rparr>,
       \<lparr>as_wall_p50_ms = 100, as_wall_p95_ms = 100, as_wall_p99_ms = 100, as_timestamp = [], as_hour_mark = 9\<rparr>]
      0 0 10 0 0)"
    by (simp add: trajectory_of_def snapshot_ci_half_width_def Let_def stdev_def mean_of_def pooled_alt power2_eq_square)
qed

end
