(* ===== verification/Resume.thy ===== *)
theory Resume
  imports Py_Json Sweep_Types Corpus
begin

text \<open>
  \<open>resume.py\<close>: the JSONL checkpoint of a sweep. The text of a JSON line is not modelled. A line
  is a list of chunks: a whole dump of a dict, or a nonempty proper prefix of one, left by a
  crash. A line parses exactly when it is one whole dump: a proper prefix of an object has an
  open brace, two dumps side by side are "extra data", and a prefix followed by a dump closes
  neither its braces nor its strings. The file is its terminated lines and the open tail.
\<close>

datatype chunk = Full json_dict | Part json_dict

record ckpt_file =
  cf_lines :: "chunk list list"
  cf_tail :: "chunk list"

section \<open>The header\<close>

definition RESUME_SCHEMA_VERSION :: string where "RESUME_SCHEMA_VERSION = ''m6_2_resume.v1''"

record checkpoint_header =
  ch_schema_version :: string
  ch_run_id :: string
  ch_run_started_at :: string
  ch_sweep_mode :: string
  ch_n_per_point :: int
  ch_axis :: "int list"
  ch_base_seed :: int
  ch_model_identifier :: string
  ch_modal_region :: string
  ch_git_sha :: string
  ch_chat_corpus_sha256 :: string
  ch_embed_corpus_sha256 :: string

abbreviation checkpoint_mismatch :: "string \<Rightarrow> py_exn" where
  "checkpoint_mismatch m \<equiv> Exn ''CheckpointMismatchError'' m"

section \<open>Names of the vocabularies\<close>

text \<open>
  The loader casts the strings it reads without checking them. A string outside a vocabulary is
  not a value of the model's datatype; reading one is the error \<open>unknown_name\<close>.
\<close>

primrec sweep_mode_name :: "sweep_mode \<Rightarrow> string" where
  "sweep_mode_name Publish = ''publish''" | "sweep_mode_name Validate = ''validate''"

primrec prompt_source_name :: "prompt_source \<Rightarrow> string" where
  "prompt_source_name Synthetic_Seed_Derived = ''synthetic_seed_derived''"
| "prompt_source_name Corpus_Sharegpt = ''corpus_sharegpt''"
| "prompt_source_name Synthetic_Random_Tensor = ''synthetic_random_tensor''"
| "prompt_source_name Corpus_Sharegpt_Embed = ''corpus_sharegpt_embed''"

primrec regime_name :: "measurement_regime \<Rightarrow> string" where
  "regime_name Natural_Eos = ''natural_eos''"
| "regime_name Forced_Cap_Ignore_Eos_True = ''forced_cap_ignore_eos_true''"

definition by_name :: "('a \<Rightarrow> string) \<Rightarrow> 'a list \<Rightarrow> string \<Rightarrow> 'a py_result" where
  "by_name nm universe s = (case find (\<lambda>x. nm x = s) universe of
     None \<Rightarrow> Inl (value_error ''unknown_name'') | Some x \<Rightarrow> Inr x)"

definition cohort_of_name :: "string \<Rightarrow> cohort py_result" where
  "cohort_of_name = by_name cohort_name COHORTS"

definition prompt_source_of_name :: "string \<Rightarrow> prompt_source py_result" where
  "prompt_source_of_name = by_name prompt_source_name
     [Synthetic_Seed_Derived, Corpus_Sharegpt, Synthetic_Random_Tensor, Corpus_Sharegpt_Embed]"

definition regime_of_name :: "string \<Rightarrow> measurement_regime py_result" where
  "regime_of_name = by_name regime_name [Natural_Eos, Forced_Cap_Ignore_Eos_True]"

section \<open>Writers\<close>

definition write_line_truncate :: "json_dict \<Rightarrow> ckpt_file option \<Rightarrow> ckpt_file option" where
  "write_line_truncate payload f = Some \<lparr>cf_lines = [[Full payload]], cf_tail = []\<rparr>"

definition write_line_append :: "json_dict \<Rightarrow> ckpt_file option \<Rightarrow> ckpt_file option" where
  "write_line_append payload f = (case f of
     None \<Rightarrow> Some \<lparr>cf_lines = [[Full payload]], cf_tail = []\<rparr>
   | Some g \<Rightarrow> Some \<lparr>cf_lines = cf_lines g @ [cf_tail g @ [Full payload]], cf_tail = []\<rparr>)"

definition header_payload :: "checkpoint_header \<Rightarrow> json_dict" where
  "header_payload h =
     [(''kind'', JStr ''header''), (''schema_version'', JStr (ch_schema_version h)),
      (''run_id'', JStr (ch_run_id h)), (''run_started_at'', JStr (ch_run_started_at h)),
      (''sweep_mode'', JStr (ch_sweep_mode h)), (''n_per_point'', JInt (ch_n_per_point h)),
      (''axis'', JList (map JInt (ch_axis h))), (''base_seed'', JInt (ch_base_seed h)),
      (''model_identifier'', JStr (ch_model_identifier h)),
      (''modal_region'', JStr (ch_modal_region h)), (''git_sha'', JStr (ch_git_sha h)),
      (''chat_corpus_sha256'', JStr (ch_chat_corpus_sha256 h)),
      (''embed_corpus_sha256'', JStr (ch_embed_corpus_sha256 h))]"

definition write_checkpoint_header ::
  "checkpoint_header \<Rightarrow> ckpt_file option \<Rightarrow> ckpt_file option" where
  "write_checkpoint_header h = write_line_truncate (header_payload h)"

definition jopt :: "('a \<Rightarrow> json) \<Rightarrow> 'a option \<Rightarrow> json" where
  "jopt f x = (case x of None \<Rightarrow> JNull | Some v \<Rightarrow> f v)"

definition measurement_payload :: "measurement_point \<Rightarrow> json_dict" where
  "measurement_payload m =
     [(''kind'', JStr ''measurement''), (''cell_id'', JStr (mp_cell_id m)),
      (''cohort'', JStr (cohort_name (mp_cohort m))), (''max_tokens'', JInt (mp_max_tokens m)),
      (''n_rpcs'', JInt (mp_n_rpcs m)), (''wall_p50_ms'', jopt JFloat (mp_wall_p50_ms m)),
      (''wall_p95_ms'', jopt JFloat (mp_wall_p95_ms m)),
      (''wall_p99_ms'', jopt JFloat (mp_wall_p99_ms m)),
      (''wall_p50_ms_ci_half_width'', jopt JFloat (mp_wall_p50_ci m)),
      (''tpot_ms'', jopt JFloat (mp_tpot_ms m)), (''seg_ab_ms'', jopt JFloat (mp_seg_ab_ms m)),
      (''seg_queue_ms'', jopt JFloat (mp_seg_queue_ms m)),
      (''seg_prefill_ms'', jopt JFloat (mp_seg_prefill_ms m)),
      (''seg_ingress_ms'', jopt JFloat (mp_seg_ingress_ms m)),
      (''seg_egress_ms'', jopt JFloat (mp_seg_egress_ms m)),
      (''failed_reason'', jopt JStr (mp_failed_reason m)),
      (''block_start_utc'', JStr (mp_block_start_utc m)),
      (''block_end_utc'', JStr (mp_block_end_utc m)),
      (''retry_attempted'', JBool (mp_retry_attempted m)),
      (''clock_anomaly'', JBool (mp_clock_anomaly m)),
      (''prompt_source'', JStr (prompt_source_name (mp_prompt_source m))),
      (''measurement_regime'', JStr (regime_name (mp_measurement_regime m))),
      (''prompt_corpus_idx'', jopt JInt (mp_prompt_corpus_idx m))]"

definition append_measurement :: "measurement_point \<Rightarrow> ckpt_file option \<Rightarrow> ckpt_file option" where
  "append_measurement m = write_line_append (measurement_payload m)"

definition anchor_payload :: "cohort \<Rightarrow> anchor_snapshot \<Rightarrow> json_dict" where
  "anchor_payload c s =
     [(''kind'', JStr ''anchor''), (''cohort'', JStr (cohort_name c)),
      (''wall_p50_ms'', JFloat (as_wall_p50_ms s)), (''wall_p95_ms'', JFloat (as_wall_p95_ms s)),
      (''wall_p99_ms'', JFloat (as_wall_p99_ms s)),
      (''snapshot_timestamp'', JStr (as_timestamp s)),
      (''sweep_hour_mark'', JFloat (as_hour_mark s))]"

definition append_anchor ::
  "cohort \<Rightarrow> anchor_snapshot \<Rightarrow> ckpt_file option \<Rightarrow> ckpt_file option" where
  "append_anchor c s = write_line_append (anchor_payload c s)"

section \<open>Reading one payload\<close>

definition as_mismatch :: "string \<Rightarrow> 'a py_result \<Rightarrow> 'a py_result" where
  "as_mismatch what r = (case r of
     Inl e \<Rightarrow> Inl (checkpoint_mismatch (what @ '' is malformed ('' @ exn_name e @ '')''))
   | Inr x \<Rightarrow> Inr x)"

definition item_str :: "(json \<Rightarrow> string) \<Rightarrow> json_dict \<Rightarrow> string \<Rightarrow> string py_result" where
  "item_str other d k = bind_result (dict_item d k) (\<lambda>v. Inr (json_str other v))"

definition item_int :: "json_dict \<Rightarrow> string \<Rightarrow> int py_result" where
  "item_int d k = bind_result (dict_item d k) json_int"

definition item_float :: "json_dict \<Rightarrow> string \<Rightarrow> real py_result" where
  "item_float d k = bind_result (dict_item d k) json_float"

definition item_bool :: "json_dict \<Rightarrow> string \<Rightarrow> bool py_result" where
  "item_bool d k = bind_result (dict_item d k) (\<lambda>v. Inr (json_truthy v))"

definition opt_of :: "(json \<Rightarrow> 'a py_result) \<Rightarrow> json \<Rightarrow> 'a option py_result" where
  "opt_of f v = (if v = JNull then Inr None else bind_result (f v) (\<lambda>x. Inr (Some x)))"

definition json_iter :: "json \<Rightarrow> json list py_result" where
  "json_iter v = (case v of
     JList xs \<Rightarrow> Inr xs
   | JStr s \<Rightarrow> Inr (map (\<lambda>c. JStr [c]) s)
   | JObj kvs \<Rightarrow> Inr (map (\<lambda>kv. JStr (fst kv)) kvs)
   | _ \<Rightarrow> Inl (type_error ''object is not iterable''))"

definition parse_header :: "(json \<Rightarrow> string) \<Rightarrow> json_dict \<Rightarrow> checkpoint_header py_result" where
  "parse_header other d =
     (if json_get d ''schema_version'' \<noteq> JStr RESUME_SCHEMA_VERSION
      then Inl (checkpoint_mismatch ''schema_version'')
      else as_mismatch ''header'' (
        bind_result (item_str other d ''schema_version'') (\<lambda>sv.
        bind_result (item_str other d ''run_id'') (\<lambda>rid.
        bind_result (item_str other d ''run_started_at'') (\<lambda>rsa.
        bind_result (item_str other d ''sweep_mode'') (\<lambda>sm.
        bind_result (item_int d ''n_per_point'') (\<lambda>n.
        bind_result (bind_result (bind_result (dict_item d ''axis'') json_iter)
                                 (map_result json_int)) (\<lambda>ax.
        bind_result (item_int d ''base_seed'') (\<lambda>bs.
        bind_result (item_str other d ''model_identifier'') (\<lambda>mi.
        bind_result (item_str other d ''modal_region'') (\<lambda>mr.
        bind_result (item_str other d ''git_sha'') (\<lambda>gs.
        bind_result (item_str other d ''chat_corpus_sha256'') (\<lambda>cs.
        bind_result (item_str other d ''embed_corpus_sha256'') (\<lambda>es.
          Inr \<lparr>ch_schema_version = sv, ch_run_id = rid, ch_run_started_at = rsa,
               ch_sweep_mode = sm, ch_n_per_point = n, ch_axis = ax, ch_base_seed = bs,
               ch_model_identifier = mi, ch_modal_region = mr, ch_git_sha = gs,
               ch_chat_corpus_sha256 = cs, ch_embed_corpus_sha256 = es\<rparr>))))))))))))))"

definition parse_measurement :: "(json \<Rightarrow> string) \<Rightarrow> json_dict \<Rightarrow> measurement_point py_result" where
  "parse_measurement other d = as_mismatch ''measurement'' (
     bind_result (item_str other d ''cell_id'') (\<lambda>cid.
     bind_result (bind_result (item_str other d ''cohort'') cohort_of_name) (\<lambda>co.
     bind_result (item_int d ''max_tokens'') (\<lambda>mt.
     bind_result (item_int d ''n_rpcs'') (\<lambda>n.
     bind_result (opt_of json_float (json_get d ''wall_p50_ms'')) (\<lambda>p50.
     bind_result (opt_of json_float (json_get d ''wall_p95_ms'')) (\<lambda>p95.
     bind_result (opt_of json_float (json_get d ''wall_p99_ms'')) (\<lambda>p99.
     bind_result (opt_of json_float (json_get d ''wall_p50_ms_ci_half_width'')) (\<lambda>ci.
     bind_result (opt_of json_float (json_get d ''tpot_ms'')) (\<lambda>tp.
     bind_result (opt_of json_float (json_get d ''seg_ab_ms'')) (\<lambda>ab.
     bind_result (opt_of json_float (json_get d ''seg_queue_ms'')) (\<lambda>qu.
     bind_result (opt_of json_float (json_get d ''seg_prefill_ms'')) (\<lambda>pf.
     bind_result (opt_of json_float (json_get d ''seg_ingress_ms'')) (\<lambda>ing.
     bind_result (opt_of json_float (json_get d ''seg_egress_ms'')) (\<lambda>eg.
     bind_result (opt_of (\<lambda>v. Inr (json_str other v)) (json_get d ''failed_reason'')) (\<lambda>fr.
     bind_result (item_str other d ''block_start_utc'') (\<lambda>bs.
     bind_result (item_str other d ''block_end_utc'') (\<lambda>be.
     bind_result (item_bool d ''retry_attempted'') (\<lambda>ra.
     bind_result (item_bool d ''clock_anomaly'') (\<lambda>ca.
     bind_result (bind_result (item_str other d ''prompt_source'') prompt_source_of_name) (\<lambda>ps.
     bind_result (bind_result (item_str other d ''measurement_regime'') regime_of_name) (\<lambda>rg.
     bind_result (opt_of json_int (json_get d ''prompt_corpus_idx'')) (\<lambda>ix.
       Inr \<lparr>mp_cell_id = cid, mp_cohort = co, mp_max_tokens = mt, mp_n_rpcs = n,
            mp_wall_p50_ms = p50, mp_wall_p95_ms = p95, mp_wall_p99_ms = p99,
            mp_wall_p50_ci = ci, mp_tpot_ms = tp, mp_seg_ab_ms = ab, mp_seg_queue_ms = qu,
            mp_seg_prefill_ms = pf, mp_seg_ingress_ms = ing, mp_seg_egress_ms = eg,
            mp_failed_reason = fr, mp_block_start_utc = bs, mp_block_end_utc = be,
            mp_retry_attempted = ra, mp_clock_anomaly = ca, mp_prompt_source = ps,
            mp_measurement_regime = rg, mp_prompt_corpus_idx = ix\<rparr>)))))))))))))))))))))))"

definition parse_anchor ::
  "(json \<Rightarrow> string) \<Rightarrow> json_dict \<Rightarrow> (cohort \<times> anchor_snapshot) py_result" where
  "parse_anchor other d = as_mismatch ''anchor snapshot'' (
     bind_result (bind_result (item_str other d ''cohort'') cohort_of_name) (\<lambda>co.
     bind_result (item_float d ''wall_p50_ms'') (\<lambda>p50.
     bind_result (item_float d ''wall_p95_ms'') (\<lambda>p95.
     bind_result (item_float d ''wall_p99_ms'') (\<lambda>p99.
     bind_result (item_str other d ''snapshot_timestamp'') (\<lambda>ts.
     bind_result (item_float d ''sweep_hour_mark'') (\<lambda>hm.
       Inr (co, \<lparr>as_wall_p50_ms = p50, as_wall_p95_ms = p95, as_wall_p99_ms = p99,
                 as_timestamp = ts, as_hour_mark = hm\<rparr>))))))))"

section \<open>Loading\<close>

text \<open>\<open>json.loads\<close> of a stripped line, \<open>None\<close> for the blank and the unparseable line.\<close>

fun line_payload :: "chunk list \<Rightarrow> json_dict option" where
  "line_payload [Full d] = Some d"
| "line_payload _ = None"

definition file_lines :: "ckpt_file \<Rightarrow> chunk list list" where
  "file_lines f = cf_lines f @ (if cf_tail f = [] then [] else [cf_tail f])"

definition payloads :: "ckpt_file option \<Rightarrow> json_dict list" where
  "payloads f = (case f of None \<Rightarrow> [] | Some g \<Rightarrow> List.map_filter line_payload (file_lines g))"

type_synonym loaded =
  "checkpoint_header option \<times> measurement_point list \<times> (cohort \<times> anchor_snapshot list) list"

definition load_step :: "(json \<Rightarrow> string) \<Rightarrow> json_dict \<Rightarrow> loaded \<Rightarrow> loaded py_result" where
  "load_step other d acc = (case acc of (hdr, ms, ans) \<Rightarrow>
     (let kind = json_get d ''kind''
      in if kind = JStr ''header''
         then bind_result (parse_header other d) (\<lambda>h. Inr (Some h, ms, ans))
         else if kind = JStr ''measurement''
         then bind_result (parse_measurement other d) (\<lambda>m. Inr (hdr, ms @ [m], ans))
         else if kind = JStr ''anchor''
         then bind_result (parse_anchor other d) (\<lambda>(c, s). Inr (hdr, ms, dict_append c s ans))
         else Inr acc))"

fun load_fold :: "(json \<Rightarrow> string) \<Rightarrow> json_dict list \<Rightarrow> loaded \<Rightarrow> loaded py_result" where
  "load_fold other [] acc = Inr acc"
| "load_fold other (d # ds) acc = bind_result (load_step other d acc) (load_fold other ds)"

definition load_checkpoint ::
  "(json \<Rightarrow> string) \<Rightarrow> ckpt_file option
     \<Rightarrow> (checkpoint_header \<times> measurement_point list \<times> (cohort \<times> anchor_snapshot list) list) py_result"
  where
  "load_checkpoint other f =
     (if f = None then Inl (checkpoint_mismatch ''checkpoint file not found'')
      else bind_result (load_fold other (payloads f) (None, [], [])) (\<lambda>(hdr, ms, ans).
        case hdr of
          None \<Rightarrow> Inl (checkpoint_mismatch ''checkpoint is missing a header line'')
        | Some h \<Rightarrow> Inr (h, ms, ans)))"

section \<open>The integrity gate\<close>

text \<open>The current run is a header too; its schema, run id and start time are not compared.\<close>

definition header_mismatches :: "checkpoint_header \<Rightarrow> checkpoint_header \<Rightarrow> string list" where
  "header_mismatches cur h =
     (let chk = (\<lambda>label ok. if ok then [] else [label])
      in chk ''sweep_mode'' (ch_sweep_mode cur = ch_sweep_mode h)
       @ chk ''n_per_point'' (ch_n_per_point cur = ch_n_per_point h)
       @ chk ''axis'' (ch_axis cur = ch_axis h)
       @ chk ''base_seed'' (ch_base_seed cur = ch_base_seed h)
       @ chk ''model_identifier'' (ch_model_identifier cur = ch_model_identifier h)
       @ chk ''modal_region'' (ch_modal_region cur = ch_modal_region h)
       @ chk ''git_sha'' (ch_git_sha cur = ch_git_sha h)
       @ chk ''chat_corpus_sha256'' (ch_chat_corpus_sha256 cur = ch_chat_corpus_sha256 h)
       @ chk ''embed_corpus_sha256'' (ch_embed_corpus_sha256 cur = ch_embed_corpus_sha256 h))"

definition validate_checkpoint_against_current_run ::
  "checkpoint_header \<Rightarrow> checkpoint_header \<Rightarrow> unit py_result" where
  "validate_checkpoint_against_current_run h cur =
     (let ms = header_mismatches cur h
      in if ms \<noteq> [] then Inl (checkpoint_mismatch (join_with '', '' ms)) else Inr ())"

definition completed_block_keys :: "measurement_point list \<Rightarrow> block_key set" where
  "completed_block_keys ms = set (map mp_key ms)"

definition normalised_anchor_snapshots ::
  "(cohort \<times> anchor_snapshot list) list \<Rightarrow> (cohort \<times> anchor_snapshot list) list" where
  "normalised_anchor_snapshots snaps = map (\<lambda>c. (c, dict_get_list snaps c)) COHORTS"

section \<open>Crashes\<close>

datatype crash_point = Before_Write | Mid_Write | Before_Newline | After_Newline

fun crashed_append :: "crash_point \<Rightarrow> json_dict \<Rightarrow> ckpt_file \<Rightarrow> ckpt_file" where
  "crashed_append Before_Write d f = f"
| "crashed_append Mid_Write d f = f\<lparr>cf_tail := cf_tail f @ [Part d]\<rparr>"
| "crashed_append Before_Newline d f = f\<lparr>cf_tail := cf_tail f @ [Full d]\<rparr>"
| "crashed_append After_Newline d f =
     \<lparr>cf_lines = cf_lines f @ [cf_tail f @ [Full d]], cf_tail = []\<rparr>"

section \<open>The store contract\<close>

text \<open>
  What the sweep relies on: on a store whose last line is complete, an append is read back as one
  more entry and leaves the last line complete. The lemmas for the sweep are proved from this.
\<close>

locale append_store =
  fixes append :: "'e \<Rightarrow> 's \<Rightarrow> 's"
    and contents :: "'s \<Rightarrow> 'e list"
    and clean :: "'s \<Rightarrow> bool"
  assumes append_clean: "clean s \<Longrightarrow> clean (append e s)"
    and append_contents: "clean s \<Longrightarrow> contents (append e s) = contents s @ [e]"
begin

definition append_all :: "'e list \<Rightarrow> 's \<Rightarrow> 's" where
  "append_all es s = fold append es s"

lemma append_all_clean: "clean s \<Longrightarrow> clean (append_all es s)"
  unfolding append_all_def by (induction es arbitrary: s) (simp_all add: append_clean)

lemma append_all_contents: "clean s \<Longrightarrow> contents (append_all es s) = contents s @ es"
  unfolding append_all_def
  by (induction es arbitrary: s) (simp_all add: append_contents append_clean)

end

definition clean_file :: "ckpt_file option \<Rightarrow> bool" where
  "clean_file f = (case f of None \<Rightarrow> True | Some g \<Rightarrow> cf_tail g = [])"

lemma map_filter_snoc:
  "List.map_filter f (xs @ [x]) = List.map_filter f xs @ (case f x of None \<Rightarrow> [] | Some y \<Rightarrow> [y])"
  by (induction xs) (auto split: option.split)

lemma payloads_append:
  "clean_file f \<Longrightarrow> payloads (write_line_append d f) = payloads f @ [d]"
  by (cases f) (simp_all add: payloads_def write_line_append_def clean_file_def file_lines_def
      map_filter_snoc)

lemma clean_write_line_append [simp]: "clean_file (write_line_append d f)"
  by (cases f) (simp_all add: write_line_append_def clean_file_def)

interpretation ckpt: append_store write_line_append payloads clean_file
  by unfold_locales (simp_all add: payloads_append)

section \<open>Round trips\<close>

lemma by_name_self:
  assumes "x \<in> set u" "\<And>y. y \<in> set u \<Longrightarrow> nm y = nm x \<Longrightarrow> y = x"
  shows "by_name nm u (nm x) = Inr x"
proof -
  obtain y where y: "find (\<lambda>y. nm y = nm x) u = Some y"
    using assms(1) by (cases "find (\<lambda>y. nm y = nm x) u") (auto simp: find_None_iff)
  then have "y \<in> set u" "nm y = nm x" by (auto simp: find_Some_iff)
  then have "y = x" using assms(2) by blast
  with y show ?thesis by (simp add: by_name_def)
qed

lemma cohort_of_name_name [simp]: "cohort_of_name (cohort_name c) = Inr c"
  by (cases c) (simp_all add: cohort_of_name_def by_name_def COHORTS_def)

lemma prompt_source_of_name_name [simp]: "prompt_source_of_name (prompt_source_name p) = Inr p"
  by (cases p) (simp_all add: prompt_source_of_name_def by_name_def)

lemma regime_of_name_name [simp]: "regime_of_name (regime_name r) = Inr r"
  by (cases r) (simp_all add: regime_of_name_def by_name_def)

lemma opt_of_jopt [simp]:
  "opt_of json_float (jopt JFloat x) = Inr x"
  "opt_of json_int (jopt JInt i) = Inr i"
  "opt_of (\<lambda>v. Inr (json_str other v)) (jopt JStr s) = Inr s"
  by (simp_all add: opt_of_def jopt_def split: option.split)

lemma json_get_cons [simp]:
  "json_get ((k, v) # d) k' = (if k = k' then v else json_get d k')"
  by (simp add: json_get_def)

lemma dict_item_cons:
  "dict_item ((k, v) # d) k' = (if k = k' then Inr v else dict_item d k')"
  by (simp add: dict_item_def)

lemmas payload_items = item_str_def item_int_def item_float_def item_bool_def as_mismatch_def

lemma parse_measurement_payload [simp]:
  "parse_measurement other (measurement_payload m) = Inr m"
  unfolding parse_measurement_def measurement_payload_def payload_items
  by (simp add: dict_item_cons)

lemma parse_anchor_payload [simp]: "parse_anchor other (anchor_payload c s) = Inr (c, s)"
  unfolding parse_anchor_def anchor_payload_def payload_items by (simp add: dict_item_cons)

lemma map_result_json_int [simp]: "map_result json_int (map JInt xs) = Inr xs"
  by (induction xs) simp_all

lemma parse_header_payload [simp]:
  "ch_schema_version h = RESUME_SCHEMA_VERSION \<Longrightarrow> parse_header other (header_payload h) = Inr h"
  unfolding parse_header_def header_payload_def payload_items
  by (simp add: dict_item_cons json_iter_def)

section \<open>Loading what was written\<close>

datatype event = Ev_Measurement measurement_point | Ev_Anchor cohort anchor_snapshot

primrec event_payload :: "event \<Rightarrow> json_dict" where
  "event_payload (Ev_Measurement m) = measurement_payload m"
| "event_payload (Ev_Anchor c s) = anchor_payload c s"

fun ev_measurement :: "event \<Rightarrow> measurement_point option" where
  "ev_measurement (Ev_Measurement m) = Some m" | "ev_measurement _ = None"

definition ev_measurements :: "event list \<Rightarrow> measurement_point list" where
  "ev_measurements evs = List.map_filter ev_measurement evs"

fun add_anchor :: "event \<Rightarrow> (cohort \<times> anchor_snapshot list) list \<Rightarrow> (cohort \<times> anchor_snapshot list) list" where
  "add_anchor (Ev_Anchor c s) d = dict_append c s d" | "add_anchor _ d = d"

definition ev_anchors :: "event list \<Rightarrow> (cohort \<times> anchor_snapshot list) list" where
  "ev_anchors evs = fold add_anchor evs []"

lemma kinds [simp]:
  "json_get (measurement_payload m) ''kind'' = JStr ''measurement''"
  "json_get (anchor_payload c s) ''kind'' = JStr ''anchor''"
  "json_get (header_payload h) ''kind'' = JStr ''header''"
  by (simp_all add: measurement_payload_def anchor_payload_def header_payload_def)

lemma load_fold_events:
  "load_fold other (map event_payload evs) (hdr, ms, ans) =
     Inr (hdr, ms @ ev_measurements evs, fold add_anchor evs ans)"
proof (induction evs arbitrary: ms ans)
  case (Cons ev evs)
  then show ?case by (cases ev) (simp_all add: load_step_def ev_measurements_def)
qed (simp add: ev_measurements_def)

lemma load_after_header:
  assumes "ch_schema_version h = RESUME_SCHEMA_VERSION"
    and "payloads f = header_payload h # map event_payload evs"
  shows "load_checkpoint other f = Inr (h, ev_measurements evs, ev_anchors evs)"
proof -
  have "f \<noteq> None" using assms(2) by (auto simp: payloads_def split: option.split_asm)
  then show ?thesis
    using assms
    by (simp add: load_checkpoint_def load_step_def load_fold_events ev_anchors_def)
qed

text \<open>Writing a header and then any events, and loading the file, gives them back.\<close>

lemma checkpoint_roundtrip:
  assumes "ch_schema_version h = RESUME_SCHEMA_VERSION"
  shows "load_checkpoint other
      (fold write_line_append (map event_payload evs) (write_checkpoint_header h f))
    = Inr (h, ev_measurements evs, ev_anchors evs)"
proof -
  have c: "clean_file (write_checkpoint_header h f)"
    and p: "payloads (write_checkpoint_header h f) = [header_payload h]"
    by (simp_all add: write_checkpoint_header_def write_line_truncate_def clean_file_def
        payloads_def file_lines_def)
  then have "payloads (fold write_line_append (map event_payload evs) (write_checkpoint_header h f))
      = header_payload h # map event_payload evs"
    using ckpt.append_all_contents[OF c] unfolding ckpt.append_all_def by simp
  then show ?thesis by (rule load_after_header[OF assms])
qed

section \<open>Crashes\<close>

text \<open>A crash inside an append of a clean file loses at most the entry being written.\<close>

lemma crashed_append_payloads:
  assumes "cf_tail g = []"
  shows "payloads (Some (crashed_append cp d g)) =
    (if cp \<in> {Before_Newline, After_Newline} then payloads (Some g) @ [d] else payloads (Some g))"
  using assms
  by (cases cp) (simp_all add: payloads_def file_lines_def map_filter_snoc)

text \<open>The next append after a crash that left an open tail is lost with that tail.\<close>

lemma line_payload_merged: "tail \<noteq> [] \<Longrightarrow> line_payload (tail @ [Full d]) = None"
  by (cases tail; cases "tl tail") (auto elim: line_payload.elims)

lemma append_after_open_tail:
  assumes "cf_tail g \<noteq> []"
  shows "payloads (write_line_append d (Some g)) = List.map_filter line_payload (cf_lines g)"
  using assms
  by (simp add: payloads_def write_line_append_def file_lines_def map_filter_snoc
      line_payload_merged)

section \<open>The gate\<close>

lemma validate_checkpoint_ok_iff:
  "validate_checkpoint_against_current_run h cur = Inr () \<longleftrightarrow>
     ch_sweep_mode h = ch_sweep_mode cur \<and> ch_n_per_point h = ch_n_per_point cur
     \<and> ch_axis h = ch_axis cur \<and> ch_base_seed h = ch_base_seed cur
     \<and> ch_model_identifier h = ch_model_identifier cur \<and> ch_modal_region h = ch_modal_region cur
     \<and> ch_git_sha h = ch_git_sha cur
     \<and> ch_chat_corpus_sha256 h = ch_chat_corpus_sha256 cur
     \<and> ch_embed_corpus_sha256 h = ch_embed_corpus_sha256 cur"
  by (auto simp: validate_checkpoint_against_current_run_def header_mismatches_def Let_def)

lemma normalised_anchor_snapshots_total:
  "map fst (normalised_anchor_snapshots snaps) = COHORTS"
  "dict_get_list (normalised_anchor_snapshots snaps) c = dict_get_list snaps c"
proof -
  show "map fst (normalised_anchor_snapshots snaps) = COHORTS"
    by (simp add: normalised_anchor_snapshots_def comp_def)
  show "dict_get_list (normalised_anchor_snapshots snaps) c = dict_get_list snaps c"
    by (cases c) (simp_all add: normalised_anchor_snapshots_def dict_get_list_def COHORTS_def)
qed

section \<open>Properties\<close>

text \<open>
  C33. A crash of the process inside the append of one more event, at any of its four points, leaves
  a file that loads as all earlier events, plus the new one exactly when its line was completely
  written.
\<close>

theorem crash_keeps_prefix:
  assumes h: "ch_schema_version h = RESUME_SCHEMA_VERSION"
    and g: "fold write_line_append (map event_payload evs) (write_checkpoint_header h f) = Some g"
  shows "load_checkpoint other (Some (crashed_append cp (event_payload ev) g)) =
    (let kept = (if cp \<in> {Before_Newline, After_Newline} then evs @ [ev] else evs)
     in Inr (h, ev_measurements kept, ev_anchors kept))"
proof -
  have w: "write_checkpoint_header h f = Some \<lparr>cf_lines = [[Full (header_payload h)]], cf_tail = []\<rparr>"
    by (simp add: write_checkpoint_header_def write_line_truncate_def)
  have clean: "clean_file (write_checkpoint_header h f)" by (simp add: w clean_file_def)
  have all: "Some g = ckpt.append_all (map event_payload evs) (write_checkpoint_header h f)"
    using g by (simp add: ckpt.append_all_def)
  have tail: "cf_tail g = []"
    using ckpt.append_all_clean[OF clean, of "map event_payload evs"]
    unfolding all[symmetric] by (simp add: clean_file_def)
  have p: "payloads (Some g) = header_payload h # map event_payload evs"
    unfolding all ckpt.append_all_contents[OF clean]
    by (simp add: w payloads_def file_lines_def)
  let ?kept = "if cp \<in> {Before_Newline, After_Newline} then evs @ [ev] else evs"
  have "payloads (Some (crashed_append cp (event_payload ev) g)) = header_payload h # map event_payload ?kept"
    unfolding crashed_append_payloads[OF tail] p by simp
  from load_after_header[OF h this] show ?thesis by (simp add: Let_def)
qed

definition demo_ckpt_header :: checkpoint_header where
  "demo_ckpt_header = \<lparr>ch_schema_version = RESUME_SCHEMA_VERSION, ch_run_id = ''r0'',
     ch_run_started_at = ''2026'', ch_sweep_mode = ''validate'', ch_n_per_point = 2,
     ch_axis = [10], ch_base_seed = 42, ch_model_identifier = ''m'', ch_modal_region = ''eu'',
     ch_git_sha = ''0'', ch_chat_corpus_sha256 = ''1'', ch_embed_corpus_sha256 = ''2''\<rparr>"

definition demo_snapshot :: anchor_snapshot where
  "demo_snapshot = \<lparr>as_wall_p50_ms = 1, as_wall_p95_ms = 2, as_wall_p99_ms = 3, as_timestamp = ''t'',
     as_hour_mark = 0\<rparr>"

theorem crash_keeps_prefix_witness:
  "\<exists>g. load_checkpoint (\<lambda>_. []) (Some (crashed_append Mid_Write
      (event_payload (Ev_Anchor Default_Grpc demo_snapshot)) g)) = Inr (demo_ckpt_header, [], [])"
proof -
  obtain g where "fold write_line_append (map event_payload []) (write_checkpoint_header demo_ckpt_header None) = Some g"
    by (simp add: write_checkpoint_header_def write_line_truncate_def)
  from crash_keeps_prefix[OF _ this, of "\<lambda>_. []" Mid_Write "Ev_Anchor Default_Grpc demo_snapshot"]
  show ?thesis by (intro exI[of _ g]) (simp add: demo_ckpt_header_def ev_measurements_def ev_anchors_def)
qed

text \<open>
  The open tail a crash leaves is never repaired: the next append joins it on one line, so the
  appended entry is not read back, and the file loads as if it had never been written.
\<close>

theorem append_after_crash_is_lost:
  assumes "cf_tail g \<noteq> []"
  shows "load_checkpoint other (write_line_append d (Some g))
    = load_checkpoint other (Some \<lparr>cf_lines = cf_lines g, cf_tail = []\<rparr>)"
proof -
  have "payloads (write_line_append d (Some g)) = payloads (Some \<lparr>cf_lines = cf_lines g, cf_tail = []\<rparr>)"
    unfolding append_after_open_tail[OF assms] by (simp add: payloads_def file_lines_def)
  then show ?thesis by (simp add: load_checkpoint_def write_line_append_def split: option.split)
qed

theorem append_after_crash_is_lost_witness:
  "load_checkpoint (\<lambda>_. []) (write_line_append (event_payload (Ev_Anchor Default_Grpc demo_snapshot))
      (Some \<lparr>cf_lines = [[Full (header_payload demo_ckpt_header)]], cf_tail = [Part []]\<rparr>))
    = load_checkpoint (\<lambda>_. []) (Some \<lparr>cf_lines = [[Full (header_payload demo_ckpt_header)]], cf_tail = []\<rparr>)"
  using append_after_crash_is_lost[of "\<lparr>cf_lines = [[Full (header_payload demo_ckpt_header)]], cf_tail = [Part []]\<rparr>"]
  by simp

end
