(* ===== verification/Sweep.thy ===== *)
theory Sweep
  imports Aggregate Anchor Resume
begin

text \<open>
  The orchestrator of \<open>sweep.py\<close>: the sample-size gate, the failure-summary header, the anchor
  and probe captures, and \<open>run_sweep\<close> itself. The world \<open>'w\<close> holds everything the sweep talks to
  (engine, network, clocks); the checkpoint file is part of the sweep's state, and a run that
  raises returns the state it leaves behind. The stderr progress lines, and the clock reads that
  only feed them, are left out.
\<close>

section \<open>Gates and headers\<close>

definition gate_publish_mode_n :: "int option \<Rightarrow> sweep_mode \<Rightarrow> int py_result" where
  "gate_publish_mode_n arg mode =
     (if mode = Publish then
        (case arg of
           None \<Rightarrow> Inl (value_error ''FR-004 explicit-n gate'')
         | Some n \<Rightarrow> Inr n)
      else
        (if arg \<noteq> None \<and> arg \<noteq> Some 20
         then Inl (value_error ''--m6_2-validate is pinned at n=20'')
         else Inr 20))"

definition group_by_tuple :: "measurement_point list \<Rightarrow> ((string \<times> int) \<times> measurement_point list) list" where
  "group_by_tuple ps = fold (\<lambda>p d. dict_append (mp_tuple p) p d) ps []"

definition compute_failure_summary_header_fired :: "measurement_point list \<Rightarrow> int \<Rightarrow> bool" where
  "compute_failure_summary_header_fired points cell_threshold =
     (let failed = filter (\<lambda>p. mp_failed_reason p \<noteq> None) points
      in if int (length failed) \<ge> cell_threshold then True
         else list_ex (\<lambda>(_, blocks). blocks \<noteq> [] \<and> list_all (\<lambda>b. mp_failed_reason b \<noteq> None) blocks)
                (group_by_tuple points))"

definition gate_corpus_shas ::
  "corpus_env \<Rightarrow> string \<Rightarrow> string \<Rightarrow> string \<Rightarrow> (string \<times> string \<times> string \<times> string) py_result" where
  "gate_corpus_shas e chat_path provenance_path embed_dir =
     bind_result (load_chat_corpus e chat_path provenance_path) (\<lambda>_.
     bind_result (load_embed_corpus e embed_dir) (\<lambda>_.
     bind_result (load_chat_corpus_provenance e provenance_path) (\<lambda>prov.
     bind_result (load_embed_corpus_manifest e embed_dir) (\<lambda>manifest.
     bind_result (need ''corpus_sha256'' (map_of prov ''corpus_sha256'')) (\<lambda>chat_sha.
     bind_result (need ''corpus_sha256'' (rm_corpus_sha256 manifest)) (\<lambda>embed_sha.
       Inr (chat_sha,
            (case map_of prov ''corpus_path'' of
               None \<Rightarrow> ''tools/benchmark/corpus/chat_sharegpt_1000.json'' | Some p \<Rightarrow> p),
            embed_sha, ''tools/benchmark/corpus/completions_embeds_qwen3_8b/'')))))))"

section \<open>Inputs, outputs and state\<close>

record ('w, 'e) sweep_inputs =
  si_sweep_mode :: sweep_mode
  si_n :: int
  si_axis :: "int list"
  si_base_seed :: int
  si_chat_corpus :: "request_sample list"
  si_embed_corpus :: "completion_embed_sample list"
  si_dispatcher :: "'w block_dispatcher"
  si_anchor_dispatcher :: "'w anchor_driver"
  si_is_transient :: "py_exn \<Rightarrow> bool"
  si_topology_probe :: "('w \<Rightarrow> (cohort \<times> 'e) list py_result \<times> 'w) option"
  si_checkpoint :: bool
  si_preloaded_measurements :: "measurement_point list option"
  si_preloaded_anchors :: "(cohort \<times> anchor_snapshot list) list option"
  si_wall_clock_start_override :: "string option"
  si_now :: "'w clock"
  si_time :: "'w \<Rightarrow> real \<times> 'w"
  si_digest :: "string \<Rightarrow> string"

text \<open>
  \<open>si_checkpoint\<close> tells whether a checkpoint path is set; the last three fields are the wall
  clock, the event loop's clock in seconds and the prompt digest.
\<close>

record 'e sweep_outputs =
  so_measurements :: "measurement_point list"
  so_anchor_snapshots :: "(cohort \<times> anchor_snapshot list) list"
  so_iteration_discipline_verified :: bool
  so_wall_clock_start_utc :: string
  so_wall_clock_end_utc :: string
  so_network_paths :: "(cohort \<times> 'e list) list option"

record ('w, 'e) sweep_state =
  ss_world :: 'w
  ss_measurements :: "measurement_point list"
  ss_anchors :: "(cohort \<times> anchor_snapshot list) list"
  ss_network :: "(cohort \<times> 'e list) list"
  ss_ckpt :: "ckpt_file option"

section \<open>Captures\<close>

definition capture_topology_probe ::
  "('w, 'e) sweep_inputs \<Rightarrow> ('w, 'e) sweep_state \<Rightarrow> ('w, 'e) sweep_state" where
  "capture_topology_probe inp st = (case si_topology_probe inp of
     None \<Rightarrow> st
   | Some probe \<Rightarrow>
       (case probe (ss_world st) of
          (Inl _, w) \<Rightarrow> st\<lparr>ss_world := w\<rparr>
        | (Inr res, w) \<Rightarrow> st\<lparr>ss_world := w,
              ss_network := fold (\<lambda>(c, x) d. dict_append c x d) res (ss_network st)\<rparr>))"

definition record_snapshot ::
  "('w, 'e) sweep_inputs \<Rightarrow> cohort \<times> anchor_snapshot \<Rightarrow> ('w, 'e) sweep_state \<Rightarrow> ('w, 'e) sweep_state" where
  "record_snapshot inp cs st =
     st\<lparr>ss_anchors := dict_append (fst cs) (snd cs) (ss_anchors st),
        ss_ckpt := (if si_checkpoint inp then append_anchor (fst cs) (snd cs) (ss_ckpt st)
                    else ss_ckpt st)\<rparr>"

definition capture_anchor_block ::
  "('w, 'e) sweep_inputs \<Rightarrow> real \<Rightarrow> ('w, 'e) sweep_state
     \<Rightarrow> unit py_result \<times> ('w, 'e) sweep_state" where
  "capture_anchor_block inp mark st =
     (case compute_anchor_block COHORTS (si_anchor_dispatcher inp) (si_base_seed inp) mark 20 0
             (si_now inp) (ss_world st) of
        (Inl e, w) \<Rightarrow> (Inl e, st\<lparr>ss_world := w\<rparr>)
      | (Inr snaps, w) \<Rightarrow> (Inr (), fold (record_snapshot inp) snaps (st\<lparr>ss_world := w\<rparr>)))"

section \<open>The main loop\<close>

definition run_block ::
  "('w, 'e) sweep_inputs \<Rightarrow> block_key list \<Rightarrow> string \<Rightarrow> int \<Rightarrow> cohort \<Rightarrow> ('w, 'e) sweep_state
     \<Rightarrow> unit py_result \<times> ('w, 'e) sweep_state" where
  "run_block inp completed cid mt co st =
     (if List.member completed (cid, co, mt) then (Inr (), st)
      else case resolve_block_inputs (si_digest inp) cid mt (int (length (ss_measurements st))) co
                  (si_base_seed inp) (Some (si_chat_corpus inp)) (Some (si_embed_corpus inp)) None of
             Inl e \<Rightarrow> (Inl e, st)
           | Inr inputs \<Rightarrow>
               let ((result, start_utc, end_utc, retried), w) =
                     run_block_with_retry
                       \<lparr>bcall_cell_id = cid, bcall_cohort = co, bcall_max_tokens = mt,
                        bcall_n = si_n inp, bcall_inputs = inputs\<rparr>
                       (si_dispatcher inp) (si_is_transient inp) (si_now inp) (ss_world st);
                   m = build_measurement_point cid co mt (si_n inp) result start_utc end_utc
                         retried inputs
               in (Inr (), st\<lparr>ss_world := w, ss_measurements := ss_measurements st @ [m],
                     ss_ckpt := (if si_checkpoint inp then append_measurement m (ss_ckpt st)
                                 else ss_ckpt st)\<rparr>))"

fun run_cohorts ::
  "('w, 'e) sweep_inputs \<Rightarrow> block_key list \<Rightarrow> string \<Rightarrow> int \<Rightarrow> cohort list \<Rightarrow> ('w, 'e) sweep_state
     \<Rightarrow> unit py_result \<times> ('w, 'e) sweep_state" where
  "run_cohorts inp completed cid mt [] st = (Inr (), st)"
| "run_cohorts inp completed cid mt (co # rest) st =
     (case run_block inp completed cid mt co st of
        (Inl e, st') \<Rightarrow> (Inl e, st')
      | (Inr _, st') \<Rightarrow> run_cohorts inp completed cid mt rest st')"

definition cadence_check ::
  "('w, 'e) sweep_inputs \<Rightarrow> real \<Rightarrow> ('w, 'e) sweep_state \<Rightarrow> unit py_result \<times> ('w, 'e) sweep_state" where
  "cadence_check inp start_perf st =
     (let (t, w) = si_time inp (ss_world st); st' = st\<lparr>ss_world := w\<rparr>;
          elapsed = (t - start_perf) / 3600
      in if anchor_due elapsed (si_sweep_mode inp) None
         then capture_anchor_block inp elapsed st' else (Inr (), st'))"

fun run_tuples ::
  "('w, 'e) sweep_inputs \<Rightarrow> block_key list \<Rightarrow> real \<Rightarrow> (string \<times> int \<times> int) list
     \<Rightarrow> ('w, 'e) sweep_state \<Rightarrow> unit py_result \<times> ('w, 'e) sweep_state" where
  "run_tuples inp completed start_perf [] st = (Inr (), st)"
| "run_tuples inp completed start_perf ((cid, c, mt) # ts) st =
     (case run_cohorts inp completed cid mt (cohorts_at_concurrency c) st of
        (Inl e, st1) \<Rightarrow> (Inl e, st1)
      | (Inr _, st1) \<Rightarrow>
          (case cadence_check inp start_perf st1 of
             (Inl e, st2) \<Rightarrow> (Inl e, st2)
           | (Inr _, st2) \<Rightarrow> run_tuples inp completed start_perf ts st2))"

section \<open>The whole sweep\<close>

definition all_marks :: "(cohort \<times> anchor_snapshot list) list \<Rightarrow> real list" where
  "all_marks anchors = concat (map (\<lambda>(_, snaps). map as_hour_mark snaps) anchors)"

definition start_anchor ::
  "('w, 'e) sweep_inputs \<Rightarrow> ('w, 'e) sweep_state \<Rightarrow> unit py_result \<times> ('w, 'e) sweep_state" where
  "start_anchor inp st =
     (if list_ex (\<lambda>(_, snaps). snaps \<noteq> []) (ss_anchors st) then (Inr (), st)
      else capture_anchor_block inp 0 st)"

definition end_anchor ::
  "('w, 'e) sweep_inputs \<Rightarrow> real \<Rightarrow> ('w, 'e) sweep_state \<Rightarrow> unit py_result \<times> ('w, 'e) sweep_state" where
  "end_anchor inp elapsed st =
     (let marks = all_marks (ss_anchors st)
      in if marks = [] \<or> Max (set marks) < elapsed - 5 / 100
         then capture_anchor_block inp elapsed st else (Inr (), st))"

definition initial_state ::
  "('w, 'e) sweep_inputs \<Rightarrow> 'w \<Rightarrow> ckpt_file option \<Rightarrow> ('w, 'e) sweep_state" where
  "initial_state inp w ckpt0 =
     \<lparr>ss_world = w,
      ss_measurements = (case si_preloaded_measurements inp of None \<Rightarrow> [] | Some ms \<Rightarrow> ms),
      ss_anchors = (case si_preloaded_anchors inp of None \<Rightarrow> [] | Some d \<Rightarrow> d),
      ss_network = map (\<lambda>c. (c, [])) COHORTS,
      ss_ckpt = ckpt0\<rparr>"

definition sweep_start_utc :: "('w, 'e) sweep_inputs \<Rightarrow> 'w \<Rightarrow> string \<times> 'w" where
  "sweep_start_utc inp w = (case si_wall_clock_start_override inp of
     Some s \<Rightarrow> if s \<noteq> [] then (s, w) else si_now inp w
   | None \<Rightarrow> si_now inp w)"

definition finish_sweep ::
  "('w, 'e) sweep_inputs \<Rightarrow> string \<Rightarrow> real \<Rightarrow> ('w, 'e) sweep_state
     \<Rightarrow> 'e sweep_outputs py_result \<times> ('w, 'e) sweep_state" where
  "finish_sweep inp start_utc start_perf st =
     (let (end_utc, w1) = si_now inp (ss_world st);
          (t, w2) = si_time inp w1;
          elapsed = (t - start_perf) / 3600
      in case end_anchor inp elapsed (st\<lparr>ss_world := w2\<rparr>) of
           (Inl e, st1) \<Rightarrow> (Inl e, st1)
         | (Inr _, st1) \<Rightarrow>
             let st2 = capture_topology_probe inp st1
             in (Inr \<lparr>so_measurements = ss_measurements st2, so_anchor_snapshots = ss_anchors st2,
                      so_iteration_discipline_verified =
                        verify_iteration_discipline (ss_measurements st2),
                      so_wall_clock_start_utc = start_utc, so_wall_clock_end_utc = end_utc,
                      so_network_paths =
                        (if si_topology_probe inp \<noteq> None then Some (ss_network st2) else None)\<rparr>,
                 st2))"

definition run_sweep ::
  "('w, 'e) sweep_inputs \<Rightarrow> 'w \<Rightarrow> ckpt_file option
     \<Rightarrow> 'e sweep_outputs py_result \<times> ('w, 'e) sweep_state" where
  "run_sweep inp w0 ckpt0 =
     (let (start_utc, w1) = sweep_start_utc inp w0;
          (start_perf, w2) = si_time inp w1;
          st0 = initial_state inp w2 ckpt0;
          completed = map mp_key (ss_measurements st0);
          st1 = capture_topology_probe inp st0
      in case start_anchor inp st1 of
           (Inl e, st2) \<Rightarrow> (Inl e, st2)
         | (Inr _, st2) \<Rightarrow>
             (case run_tuples inp completed start_perf (iter_main_sweep_tuples (si_axis inp)) st2 of
                (Inl e, st3) \<Rightarrow> (Inl e, st3)
              | (Inr _, st3) \<Rightarrow> finish_sweep inp start_utc start_perf st3))"

end
