(* ===== verification/Sweep_Time.thy ===== *)
theory Sweep_Time
  imports Sweep_Laws
begin

text \<open>
  Time and the sweep. \<open>monotone_world stamp inp\<close> says that the clocks and the outside calls never
  take the world back in time: \<open>stamp\<close> bounds the next timestamp from below, and every timestamp
  the clock returns is bounded by the stamp of the world it leaves. Under it, the start times of
  the rows are sorted, and the discipline check is decided by the order of the rows alone.
\<close>

definition monotone_world :: "('w \<Rightarrow> string) \<Rightarrow> ('w, 'e) sweep_inputs \<Rightarrow> bool" where
  "monotone_world stamp inp \<longleftrightarrow>
     (\<forall>w t w'. si_now inp w = (t, w') \<longrightarrow> stamp w \<le> t \<and> t \<le> stamp w')
     \<and> (\<forall>w t w'. si_time inp w = (t, w') \<longrightarrow> stamp w \<le> stamp w')
     \<and> (\<forall>call w r w'. si_dispatcher inp call w = (r, w') \<longrightarrow> stamp w \<le> stamp w')
     \<and> (\<forall>c n b d w r w'. si_anchor_dispatcher inp c n b d w = (r, w') \<longrightarrow> stamp w \<le> stamp w')
     \<and> (\<forall>probe w r w'. si_topology_probe inp = Some probe \<longrightarrow> probe w = (r, w')
          \<longrightarrow> stamp w \<le> stamp w')"

lemma monotoneD:
  assumes "monotone_world stamp inp"
  shows "si_now inp w = (t, w') \<Longrightarrow> stamp w \<le> t"
    and "si_now inp w = (t, w') \<Longrightarrow> t \<le> stamp w'"
    and "si_now inp w = (t, w') \<Longrightarrow> stamp w \<le> stamp w'"
    and "si_time inp w = (x, w') \<Longrightarrow> stamp w \<le> stamp w'"
    and "si_dispatcher inp call w = (r, w') \<Longrightarrow> stamp w \<le> stamp w'"
    and "si_anchor_dispatcher inp c n b d w = (q, w') \<Longrightarrow> stamp w \<le> stamp w'"
    and "si_topology_probe inp = Some probe \<Longrightarrow> probe w = (pr, w') \<Longrightarrow> stamp w \<le> stamp w'"
  by (insert assms[unfolded monotone_world_def]) (blast | meson order_trans)+

text \<open>The wrapper starts the block at or after the stamp and ends no earlier than its start.\<close>

lemma retry_time:
  assumes mono: "monotone_world stamp inp"
    and run: "run_block_with_retry call (si_dispatcher inp) tr (si_now inp) w0 = ((res, s, e, rt), w')"
  shows "stamp w0 \<le> s" "s \<le> e" "e \<le> stamp w'" "s \<le> stamp w'"
proof -
  note N1 = monotoneD(1)[OF mono] and N2 = monotoneD(2)[OF mono] and D = monotoneD(5)[OF mono]
  have steps: "\<exists>v. s \<le> stamp v \<and> si_now inp v = (e, w') \<and> stamp w0 \<le> s"
  proof -
    obtain t0 w1 where n: "si_now inp w0 = (t0, w1)" by fastforce
    obtain r1 w2 where d1: "si_dispatcher inp call w1 = (r1, w2)" by fastforce
    obtain r2 w3 where d2: "si_dispatcher inp call w2 = (r2, w3)" by fastforce
    obtain r3 w4 where d3: "si_dispatcher inp call w3 = (r3, w4)" by fastforce
    have st: "t0 \<le> stamp w1" "stamp w1 \<le> stamp w2" "stamp w2 \<le> stamp w3" "stamp w3 \<le> stamp w4"
      using N2[OF n] D[OF d1] D[OF d2] D[OF d3] by auto
    have s: "s = t0" and v: "si_now inp w2 = (e, w') \<or> si_now inp w3 = (e, w') \<or> si_now inp w4 = (e, w')"
      using run n d1 d2 d3
      by (auto simp: run_block_with_retry_def Let_def split: sum.splits if_splits prod.splits)
    from v st N1[OF n] show ?thesis unfolding s by (meson order_trans)
  qed
  then obtain v where v: "s \<le> stamp v" "si_now inp v = (e, w')" "stamp w0 \<le> s" by blast
  then show "stamp w0 \<le> s" "s \<le> e" "e \<le> stamp w'" "s \<le> stamp w'"
    using N1[OF v(2)] N2[OF v(2)] by (auto intro: order_trans)
qed

definition timely :: "('w \<Rightarrow> string) \<Rightarrow> ('w, 'e) sweep_state \<Rightarrow> bool" where
  "timely stamp st \<longleftrightarrow>
     sorted (map mp_block_start_utc (ss_measurements st))
     \<and> (\<forall>m\<in>set (ss_measurements st). mp_block_start_utc m \<le> stamp (ss_world st))"

lemma timely_later:
  "timely stamp st \<Longrightarrow> ss_measurements st' = ss_measurements st \<Longrightarrow>
     stamp (ss_world st) \<le> stamp (ss_world st') \<Longrightarrow> timely stamp st'"
  unfolding timely_def by (metis order_trans)

lemma timely_snoc:
  assumes "timely stamp st" "ss_measurements st' = ss_measurements st @ [m]"
    and "stamp (ss_world st) \<le> mp_block_start_utc m" "mp_block_start_utc m \<le> stamp (ss_world st')"
  shows "timely stamp st'"
proof -
  have "x \<le> mp_block_start_utc m" if "x \<in> mp_block_start_utc ` set (ss_measurements st)" for x
    using that assms(1,3) unfolding timely_def by (auto intro: order_trans)
  then show ?thesis
    using assms unfolding timely_def
    by (auto simp: sorted_append intro: order_trans)
qed

lemma record_snapshots_same [simp]:
  "ss_measurements (fold (record_snapshot inp) xs st) = ss_measurements st"
  "ss_world (fold (record_snapshot inp) xs st) = ss_world st"
  by (induction xs arbitrary: st) (auto simp: record_snapshot_def)

lemma anchor_loop_time:
  assumes "monotone_world stamp inp"
    and "anchor_loop cs (si_anchor_dispatcher inp) b mark n d (si_now inp) acc w = (r, w')"
  shows "stamp w \<le> stamp w'"
  using assms(2)
proof (induction cs arbitrary: acc w)
  case (Cons c cs)
  obtain q w1 where q: "si_anchor_dispatcher inp c n b d w = (q, w1)" by fastforce
  obtain t w2 where t: "si_now inp w1 = (t, w2)" by fastforce
  have s: "stamp w \<le> stamp w1" "stamp w1 \<le> stamp w2"
    using monotoneD(6)[OF assms(1) q] monotoneD(3)[OF assms(1) t] by auto
  consider "w' = w1" | "w' = w2"
    | acc' where "anchor_loop cs (si_anchor_dispatcher inp) b mark n d (si_now inp) acc' w1 = (r, w')"
    | acc' where "anchor_loop cs (si_anchor_dispatcher inp) b mark n d (si_now inp) acc' w2 = (r, w')"
    using Cons.prems q t by (auto split: sum.splits if_splits)
  then show ?case
    using s Cons.IH by cases (auto intro: order_trans)
qed simp

lemma timely_capture_anchor:
  assumes "monotone_world stamp inp" "timely stamp st" "capture_anchor_block inp mark st = (r, st')"
  shows "timely stamp st'"
proof -
  obtain q w where q: "anchor_loop COHORTS (si_anchor_dispatcher inp) (si_base_seed inp) mark 20 0
      (si_now inp) [] (ss_world st) = (q, w)" by fastforce
  have "stamp (ss_world st) \<le> stamp w" by (rule anchor_loop_time[OF assms(1) q])
  moreover have "ss_world st' = w" "ss_measurements st' = ss_measurements st"
    using assms(3) q
    by (auto simp: capture_anchor_block_def compute_anchor_block_def split: sum.splits)
  ultimately show ?thesis by (intro timely_later[OF assms(2)]) simp_all
qed

lemma timely_probe:
  assumes "monotone_world stamp inp" "timely stamp st"
  shows "timely stamp (capture_topology_probe inp st)"
proof (cases "si_topology_probe inp")
  case None
  then show ?thesis using assms by (simp add: capture_topology_probe_def)
next
  case (Some probe)
  obtain q w where q: "probe (ss_world st) = (q, w)" by fastforce
  have "stamp (ss_world st) \<le> stamp w" by (rule monotoneD(7)[OF assms(1) Some q])
  then show ?thesis
    using Some q
    by (intro timely_later[OF assms(2)]) (auto simp: capture_topology_probe_def split: sum.split)
qed

lemma timely_run_block:
  assumes mono: "monotone_world stamp inp" and st: "timely stamp st"
    and run: "run_block inp completed cid mt co st = (r, st')"
  shows "timely stamp st'"
proof (cases "(cid, co, mt) \<in> set completed")
  case True
  then show ?thesis using run st by (simp add: run_block_def)
next
  case False
  let ?res = "resolve_block_inputs (si_digest inp) cid mt (int (length (ss_measurements st))) co
                  (si_base_seed inp) (Some (si_chat_corpus inp)) (Some (si_embed_corpus inp)) None"
  show ?thesis
  proof (cases ?res)
    case (Inl e)
    then show ?thesis using run st False by (simp add: run_block_def)
  next
    case (Inr inputs)
    let ?call = "\<lparr>bcall_cell_id = cid, bcall_cohort = co, bcall_max_tokens = mt,
                  bcall_n = si_n inp, bcall_inputs = inputs\<rparr>"
    obtain result s e retried w where rb: "run_block_with_retry ?call (si_dispatcher inp)
        (si_is_transient inp) (si_now inp) (ss_world st) = ((result, s, e, retried), w)"
      by (metis prod_cases4 surj_pair)
    have m: "ss_measurements st' = ss_measurements st @
        [build_measurement_point cid co mt (si_n inp) result s e retried inputs]"
      and w: "ss_world st' = w"
      using run False Inr rb by (auto simp: run_block_def Let_def)
    show ?thesis
      using retry_time(1,4)[OF mono rb] by (intro timely_snoc[OF st m]) (simp_all add: w)
  qed
qed

lemma timely_run_cohorts:
  assumes mono: "monotone_world stamp inp"
  shows "timely stamp st \<Longrightarrow> run_cohorts inp completed cid mt cs st = (r, st') \<Longrightarrow> timely stamp st'"
proof (induction cs arbitrary: st)
  case (Cons co cs)
  obtain q st1 where b: "run_block inp completed cid mt co st = (q, st1)" by fastforce
  have "timely stamp st1" by (rule timely_run_block[OF mono Cons.prems(1) b])
  then show ?case using Cons b by (cases q) auto
qed simp

lemma timely_cadence:
  assumes "monotone_world stamp inp" "timely stamp st" "cadence_check inp p st = (r, st')"
  shows "timely stamp st'"
proof -
  obtain t w where t: "si_time inp (ss_world st) = (t, w)" by fastforce
  have s: "timely stamp (st\<lparr>ss_world := w\<rparr>)"
    using monotoneD(4)[OF assms(1) t] by (intro timely_later[OF assms(2)]) simp_all
  show ?thesis
    using assms(3) t timely_capture_anchor[OF assms(1) s] s
    by (auto simp: cadence_check_def Let_def split: if_split_asm)
qed

lemma timely_run_tuples:
  assumes mono: "monotone_world stamp inp"
  shows "timely stamp st \<Longrightarrow> run_tuples inp completed p ts st = (r, st') \<Longrightarrow> timely stamp st'"
proof (induction ts arbitrary: st)
  case (Cons t ts)
  obtain cid c mt where t: "t = (cid, c, mt)" by (rule prod_cases3)
  obtain q st1 where b: "run_cohorts inp completed cid mt (cohorts_at_concurrency c) st = (q, st1)"
    by fastforce
  have t1: "timely stamp st1" by (rule timely_run_cohorts[OF mono Cons.prems(1) b])
  obtain q2 st2 where cc: "cadence_check inp p st1 = (q2, st2)" by fastforce
  have t2: "timely stamp st2" by (rule timely_cadence[OF mono t1 cc])
  show ?case
    using Cons.prems(2) Cons.IH[OF t2] b cc t t1 t2 by (cases q; cases q2) auto
qed simp

lemma timely_finish:
  assumes mono: "monotone_world stamp inp" and st: "timely stamp st"
    and run: "finish_sweep inp s0 p0 st = (r, st')"
  shows "timely stamp st'"
proof -
  obtain e1 w1 where n: "si_now inp (ss_world st) = (e1, w1)" by fastforce
  obtain t w2 where t: "si_time inp w1 = (t, w2)" by fastforce
  have "stamp (ss_world st) \<le> stamp w2"
    using monotoneD(3)[OF mono n] monotoneD(4)[OF mono t] by (rule order_trans)
  then have s2: "timely stamp (st\<lparr>ss_world := w2\<rparr>)"
    by (intro timely_later[OF st]) simp_all
  obtain q st1 where q: "end_anchor inp ((t - p0) / 3600) (st\<lparr>ss_world := w2\<rparr>) = (q, st1)"
    by fastforce
  have s3: "timely stamp st1"
    using q timely_capture_anchor[OF mono s2] s2
    by (auto simp: end_anchor_def Let_def split: if_split_asm)
  show ?thesis
    using run n t q s3 timely_probe[OF mono s3]
    by (cases q) (auto simp: finish_sweep_def Let_def)
qed

lemma timely_run_sweep:
  assumes mono: "monotone_world stamp inp" and run: "run_sweep inp w0 c0 = (r, st')"
    and pre: "sorted (map mp_block_start_utc (preloaded inp))"
      "\<forall>m\<in>set (preloaded inp). mp_block_start_utc m \<le> stamp w0"
  shows "timely stamp st'"
proof -
  obtain s0 w1 where s0: "sweep_start_utc inp w0 = (s0, w1)" by fastforce
  obtain p0 w2 where p0: "si_time inp w1 = (p0, w2)" by fastforce
  have "stamp w0 \<le> stamp w1"
    using s0 monotoneD(3)[OF mono]
    by (auto simp: sweep_start_utc_def split: option.splits if_split_asm)
  then have "stamp w0 \<le> stamp w2" using monotoneD(4)[OF mono p0] by (rule order_trans)
  then have t0: "timely stamp (initial_state inp w2 c0)"
    using pre by (auto simp: timely_def initial_state_def preloaded_def intro: order_trans
        split: option.splits)
  let ?st1 = "capture_topology_probe inp (initial_state inp w2 c0)"
  have t1: "timely stamp ?st1" by (rule timely_probe[OF mono t0])
  obtain q1 st2 where q1: "start_anchor inp ?st1 = (q1, st2)" by fastforce
  have t2: "timely stamp st2"
    using q1 t1 timely_capture_anchor[OF mono t1] by (auto simp: start_anchor_def split: if_split_asm)
  obtain q2 st3 where q2: "run_tuples inp (map mp_key (preloaded inp)) p0
      (iter_main_sweep_tuples (si_axis inp)) st2 = (q2, st3)" by fastforce
  have t3: "timely stamp st3" by (rule timely_run_tuples[OF mono t2 q2])
  show ?thesis
    using run s0 p0 q1 q2 t2 t3 timely_finish[OF mono t3]
    by (cases q1; cases q2) (auto simp: run_sweep_def Let_def)
qed

section \<open>Discipline\<close>

lemma timely_discipline:
  assumes "timely stamp st"
  shows "verify_iteration_discipline (ss_measurements st)
    \<longleftrightarrow> distinct (remdups_adj (map mp_tuple (ss_measurements st)))"
proof -
  have "sort_key mp_block_start_utc (ss_measurements st) = ss_measurements st"
    using assms by (intro sort_key_id_if_sorted) (simp add: timely_def)
  then show ?thesis by (simp add: verify_iteration_discipline_iff)
qed

lemma mp_tuple_keys: "map mp_tuple ms = map (\<lambda>(cid, co, mt). (cid, mt)) (map mp_key ms)"
  by (simp add: mp_tuple_def mp_key_def comp_def)

lemma dispatch_keys_contiguous:
  assumes "distinct axis"
  shows "distinct (remdups_adj (map (\<lambda>(cid, co, mt). (cid, mt)) (dispatch_keys axis)))"
proof -
  have "map (\<lambda>(cid, co, mt). (cid, mt)) (dispatch_keys axis)
      = map tuple_of_block (iter_block_dispatch_order axis)"
    by (auto simp: dispatch_keys_def tuple_of_block_def)
  then show ?thesis using dispatch_order_contiguous[OF assms] by simp
qed

lemma filter_not_in_take:
  assumes "distinct xs"
  shows "filter (\<lambda>x. x \<notin> set (take k xs)) xs = drop k xs"
proof -
  have d: "set (take k xs) \<inter> set (drop k xs) = {}"
    using assms by (rule set_take_disj_set_drop_if_distinct) simp
  have "filter (\<lambda>x. x \<notin> set (take k xs)) (take k xs) = []" by (simp add: filter_empty_conv)
  moreover have "filter (\<lambda>x. x \<notin> set (take k xs)) (drop k xs) = drop k xs"
    using d by (intro filter_True) auto
  ultimately have "filter (\<lambda>x. x \<notin> set (take k xs)) (take k xs @ drop k xs) = drop k xs"
    unfolding filter_append by simp
  then show ?thesis by simp
qed

lemma todo_keys_prefix:
  assumes "distinct (si_axis inp)"
    and "map mp_key (preloaded inp) = take k (dispatch_keys (si_axis inp))"
  shows "todo_keys inp = drop k (dispatch_keys (si_axis inp))"
  using filter_not_in_take[OF distinct_dispatch_keys[OF assms(1)], of k]
  by (simp add: todo_keys_def pending_def assms(2))

end
