(* ===== verification/Resume_Laws.thy ===== *)
theory Resume_Laws
  imports Sweep_Time
begin

text \<open>
  The checkpoint and the sweep together: what a run leaves in its checkpoint however it ends,
  what a crash inside an append leaves, and that a resumed run completes the dispatch order
  without repeating a block.
\<close>

lemma header_payloads [simp]:
  "payloads (write_checkpoint_header h f) = [header_payload h]"
  "clean_file (write_checkpoint_header h f)"
  by (simp_all add: write_checkpoint_header_def write_line_truncate_def clean_file_def
      payloads_def file_lines_def)

lemma payloads_append_all:
  "payloads (ckpt.append_all ds (write_checkpoint_header h f)) = header_payload h # ds"
  by (simp add: ckpt.append_all_contents)

lemma load_append_all:
  assumes "ch_schema_version h = RESUME_SCHEMA_VERSION"
  shows "load_checkpoint other
      (ckpt.append_all (map event_payload evs) (write_checkpoint_header h f))
    = Inr (h, ev_measurements evs, ev_anchors evs)"
  by (rule load_after_header[OF assms payloads_append_all])

text \<open>However the run ends, its checkpoint loads as its rows and snapshots so far.\<close>

lemma checkpoint_mirrors_run:
  assumes run: "run_sweep inp w0 (write_checkpoint_header h f) = (r, st')"
    and h: "ch_schema_version h = RESUME_SCHEMA_VERSION"
    and inp: "si_checkpoint inp" "si_preloaded_measurements inp = None" "si_preloaded_anchors inp = None"
  shows "load_checkpoint other (ss_ckpt st') = Inr (h, ss_measurements st', ss_anchors st')
    \<and> prefix (map mp_key (ss_measurements st')) (dispatch_keys (si_axis inp))
    \<and> rows_ok 0 (ss_measurements st')"
proof -
  obtain w evs ks where a: "advances inp (initial_state inp w (write_checkpoint_header h f)) evs ks st'"
    and p: "prefix ks (todo_keys inp)"
    using advances_run_sweep[OF run] by blast
  have pre: "preloaded inp = []" using inp(2) by (simp add: preloaded_def)
  then have todo: "todo_keys inp = dispatch_keys (si_axis inp)"
    by (simp add: todo_keys_def pending_def)
  have e: "ss_measurements st' = ev_measurements evs" "ss_anchors st' = ev_anchors evs"
    "ss_ckpt st' = ckpt.append_all (map event_payload evs) (write_checkpoint_header h f)"
    using a inp pre by (simp_all add: advances_def extends_def initial_state_def ev_anchors_def)
  moreover have "map mp_key (ev_measurements evs) = ks" "rows_ok 0 (ev_measurements evs)"
    using a pre by (simp_all add: advances_def)
  ultimately show ?thesis using p todo load_append_all[OF h] by simp
qed

text \<open>A crash inside the append of one more event loses at most that event.\<close>

lemma crash_loses_at_most_one:
  assumes h: "ch_schema_version h = RESUME_SCHEMA_VERSION"
    and g: "ckpt.append_all (map event_payload evs) (write_checkpoint_header h f) = Some g"
  shows "load_checkpoint other (Some (crashed_append cp (event_payload ev) g)) =
    (if cp \<in> {Before_Newline, After_Newline}
     then Inr (h, ev_measurements (evs @ [ev]), ev_anchors (evs @ [ev]))
     else Inr (h, ev_measurements evs, ev_anchors evs))"
proof -
  have "clean_file (Some g)" unfolding g[symmetric] by (rule ckpt.append_all_clean) simp
  then have c: "cf_tail g = []" by (simp add: clean_file_def)
  have p: "payloads (Some g) = header_payload h # map event_payload evs"
    unfolding g[symmetric] by (rule payloads_append_all)
  show ?thesis
  proof (cases "cp \<in> {Before_Newline, After_Newline}")
    case True
    then have "payloads (Some (crashed_append cp (event_payload ev) g))
        = header_payload h # map event_payload (evs @ [ev])"
      using crashed_append_payloads[OF c] p by simp
    from load_after_header[OF h this] show ?thesis using True by simp
  next
    case False
    then have "payloads (Some (crashed_append cp (event_payload ev) g))
        = header_payload h # map event_payload evs"
      using crashed_append_payloads[OF c] p by simp
    from load_after_header[OF h this] show ?thesis using False by auto
  qed
qed

text \<open>Resuming from a prefix of the dispatch order ends with the whole order.\<close>

lemma resume_completes:
  assumes run: "run_sweep inp w0 c = (Inr out, st')" and d: "distinct (si_axis inp)"
    and pre: "si_preloaded_measurements inp = Some ms"
    and ms: "prefix (map mp_key ms) (dispatch_keys (si_axis inp))" "rows_ok 0 ms"
  shows "map mp_key (so_measurements out) = dispatch_keys (si_axis inp)
    \<and> take (length ms) (so_measurements out) = ms \<and> rows_ok 0 (so_measurements out)"
proof -
  obtain w evs where a: "advances inp (initial_state inp w c) evs (todo_keys inp) st'"
    and out: "so_measurements out = ss_measurements st'"
    using advances_run_sweep[OF run] by blast
  have p: "preloaded inp = ms" using pre by (simp add: preloaded_def)
  have k: "map mp_key (preloaded inp) = take (length ms) (dispatch_keys (si_axis inp))"
    using ms(1) p by (auto simp: prefix_def)
  have so: "so_measurements out = ms @ ev_measurements evs"
    using a out p by (simp add: advances_def extends_def)
  have "map mp_key (ev_measurements evs) = drop (length ms) (dispatch_keys (si_axis inp))"
    using a todo_keys_prefix[OF d k] by (simp add: advances_def)
  moreover have "rows_ok (length ms) (ev_measurements evs)" using a p by (simp add: advances_def)
  ultimately show ?thesis
    using so k p ms(2) rows_ok_append[of 0 ms] by simp
qed

section \<open>The closing anchor\<close>

lemma all_marks_iff:
  "x \<in> set (all_marks anchors) \<longleftrightarrow> (\<exists>co snaps s. (co, snaps) \<in> set anchors \<and> s \<in> set snaps
     \<and> x = as_hour_mark s)"
  by (auto simp: all_marks_def)

text \<open>
  The hour marks of a resumed run start again at zero, so a snapshot carried over from a later
  hour of the first run suppresses the closing anchor.
\<close>

lemma end_anchor_suppressed:
  assumes "(co, snaps) \<in> set (ss_anchors st)" "s \<in> set snaps" "elapsed - 5 / 100 \<le> as_hour_mark s"
  shows "end_anchor inp elapsed st = (Inr (), st)"
proof -
  have mem: "as_hour_mark s \<in> set (all_marks (ss_anchors st))" using assms by (auto simp: all_marks_iff)
  then have "elapsed - 5 / 100 \<le> Max (set (all_marks (ss_anchors st)))"
    using assms(3) by (intro order_trans[OF _ Max_ge]) auto
  then show ?thesis using mem by (auto simp: end_anchor_def Let_def)
qed

section \<open>Where a sweep's errors come from\<close>

definition inputs_fail :: "('w, 'e) sweep_inputs \<Rightarrow> block_key \<Rightarrow> py_exn \<Rightarrow> bool" where
  "inputs_fail inp = (\<lambda>(cid, co, mt) e. \<exists>i :: nat.
     resolve_block_inputs (si_digest inp) cid mt (int i) co (si_base_seed inp)
       (Some (si_chat_corpus inp)) (Some (si_embed_corpus inp)) None = Inl e)"

lemma run_block_error:
  assumes "run_block inp completed cid mt co st = (Inl e, st')"
  shows "inputs_fail inp (cid, co, mt) e"
  using assms by (auto simp: run_block_def inputs_fail_def Let_def split: if_splits sum.splits prod.splits)

lemma anchor_loop_error:
  "anchor_loop cs driver b mark n off now acc w = (Inl e, w') \<Longrightarrow>
     \<exists>co u u'. driver co n b off u = (Inl e, u')"
proof (induction cs arbitrary: acc w)
  case (Cons c cs)
  obtain q w1 where q: "driver c n b off w = (q, w1)" by fastforce
  show ?case
  proof (cases q)
    case (Inl x)
    then show ?thesis using Cons.prems q by auto
  next
    case (Inr samples)
    obtain t w2 where t: "now w1 = (t, w2)" by fastforce
    show ?thesis using Cons Inr q t
      by (cases "samples = []") (auto simp: anchor_snapshot_of_ok)
  qed
qed simp

text \<open>The errors a sweep can end with: of the inputs of a block it dispatches, or of the anchor driver.\<close>

definition anchor_fails :: "('w, 'e) sweep_inputs \<Rightarrow> py_exn \<Rightarrow> bool" where
  "anchor_fails inp e \<longleftrightarrow>
     (\<exists>co u u'. si_anchor_dispatcher inp co 20 (si_base_seed inp) 0 u = (Inl e, u'))"

lemma capture_anchor_error: "capture_anchor_block inp mark st = (Inl e, st') \<Longrightarrow> anchor_fails inp e"
  by (auto simp: capture_anchor_block_def compute_anchor_block_def anchor_fails_def
      split: prod.splits sum.splits dest!: anchor_loop_error)

lemma run_cohorts_error:
  "run_cohorts inp completed cid mt cs st = (Inl e, st') \<Longrightarrow> \<exists>co \<in> set cs. inputs_fail inp (cid, co, mt) e"
proof (induction cs arbitrary: st)
  case (Cons co cs)
  obtain q st1 where b: "run_block inp completed cid mt co st = (q, st1)" by fastforce
  show ?case
  proof (cases q)
    case (Inl x)
    then show ?thesis using Cons.prems b run_block_error[of inp completed cid mt co st x st1] by auto
  next
    case (Inr u)
    then show ?thesis using Cons b by auto
  qed
qed simp

lemma cadence_error: "cadence_check inp start st = (Inl e, st') \<Longrightarrow> anchor_fails inp e"
  by (auto simp: cadence_check_def Let_def split: prod.splits if_splits dest: capture_anchor_error)

lemma run_tuples_error:
  "run_tuples inp completed start ts st = (Inl e, st') \<Longrightarrow>
     (\<exists>k \<in> set (concat (map tuple_keys ts)). inputs_fail inp k e) \<or> anchor_fails inp e"
proof (induction ts arbitrary: st)
  case (Cons t ts)
  obtain cid c mt where t: "t = (cid, c, mt)" by (rule prod_cases3)
  obtain q st1 where b: "run_cohorts inp completed cid mt (cohorts_at_concurrency c) st = (q, st1)"
    by fastforce
  obtain q2 st2 where k: "cadence_check inp start st1 = (q2, st2)" by fastforce
  show ?case
  proof (cases q)
    case (Inl x)
    then have "run_cohorts inp completed cid mt (cohorts_at_concurrency c) st = (Inl e, st1)"
      using Cons.prems t b by simp
    from run_cohorts_error[OF this] show ?thesis using t by (auto simp: tuple_keys_def)
  next
    case Inr1: (Inr u)
    show ?thesis
    proof (cases q2)
      case (Inl x)
      then show ?thesis using Cons.prems t b k Inr1 cadence_error[of inp start st1 e st2] by simp
    next
      case (Inr v)
      then show ?thesis using Cons.IH[of st2] Cons.prems t b k Inr1 by auto
    qed
  qed
qed simp

lemma run_sweep_error:
  assumes "run_sweep inp w0 c0 = (Inl e, st')"
  shows "(\<exists>k \<in> set (dispatch_keys (si_axis inp)). inputs_fail inp k e) \<or> anchor_fails inp e"
proof -
  obtain s0 w1 where s0: "sweep_start_utc inp w0 = (s0, w1)" by fastforce
  obtain p0 w2 where p0: "si_time inp w1 = (p0, w2)" by fastforce
  let ?st1 = "capture_topology_probe inp (initial_state inp w2 c0)"
  obtain q1 st2 where q1: "start_anchor inp ?st1 = (q1, st2)" by fastforce
  obtain q2 st3 where q2: "run_tuples inp (map mp_key (preloaded inp)) p0
      (iter_main_sweep_tuples (si_axis inp)) st2 = (q2, st3)" by fastforce
  consider "q1 = Inl e" | u where "q1 = Inr u" "q2 = Inl e"
    | u v where "q1 = Inr u" "q2 = Inr v" "finish_sweep inp s0 p0 st3 = (Inl e, st')"
    using assms s0 p0 q1 q2 by (cases q1; cases q2) (simp_all add: run_sweep_def Let_def)
  then show ?thesis
  proof cases
    case 1
    then show ?thesis using q1 capture_anchor_error[of inp 0 ?st1 e st2]
      by (auto simp: start_anchor_def split: if_splits)
  next
    case 2
    then show ?thesis using q2 run_tuples_error unfolding tuple_keys_dispatch[symmetric] by blast
  next
    case 3
    obtain e1 v1 where n: "si_now inp (ss_world st3) = (e1, v1)" by fastforce
    obtain t v2 where t: "si_time inp v1 = (t, v2)" by fastforce
    obtain q st4 where q: "end_anchor inp ((t - p0) / 3600) (st3\<lparr>ss_world := v2\<rparr>) = (q, st4)" by fastforce
    have "q = Inl e" using 3(3) n t q by (cases q) (auto simp: finish_sweep_def Let_def)
    then show ?thesis using q capture_anchor_error
      by (fastforce simp: end_anchor_def Let_def split: if_splits)
  qed
qed

text \<open>
  A sweep over published caps always returns, whatever its block dispatcher does, when the corpora
  hold a usable prompt in every place and the anchor driver does not raise.
\<close>

definition usable_corpora :: "('w, 'e) sweep_inputs \<Rightarrow> bool" where
  "usable_corpora inp \<longleftrightarrow> si_chat_corpus inp \<noteq> [] \<and> si_embed_corpus inp \<noteq> []
     \<and> (\<forall>s \<in> set (si_chat_corpus inp). \<exists>msg content.
          first_user_message (rs_messages s) = Inr msg \<and> dict_item msg ''content'' = Inr content)"

lemma inputs_resolve:
  assumes "usable_corpora inp" "mt \<in> set MAX_TOKENS_AXIS"
  shows "\<not> inputs_fail inp (cell_id_of p c, co, mt) e"
proof -
  obtain r where r: "regime_of mt = Inr r" using assms(2) by (simp add: regime_of_axis)
  have chat: "\<exists>msg content. first_user_message (rs_messages smp) = Inr msg \<and> dict_item msg ''content'' = Inr content"
    if "assign_symmetric_prompt i co (si_chat_corpus inp) = Inr smp" for i smp
    using assms(1) assign_symmetric_prompt_mem[OF that] by (auto simp: usable_corpora_def)
  have ne: "\<exists>x. assign_symmetric_prompt i co (si_chat_corpus inp) = Inr x"
    "\<exists>x. assign_symmetric_prompt i co (si_embed_corpus inp) = Inr x" for i
    using assms(1) by (simp_all add: assign_symmetric_prompt_def usable_corpora_def)
  have "\<exists>b. resolve_block_inputs (si_digest inp) (cell_id_of p c) mt i co (si_base_seed inp)
      (Some (si_chat_corpus inp)) (Some (si_embed_corpus inp)) None = Inr b" for i
  proof (cases "r = Null_Anchor_Regime")
    case True
    then show ?thesis using r by (simp add: resolve_block_inputs_def Let_def)
  next
    case False
    obtain x y where x: "assign_symmetric_prompt i co (si_chat_corpus inp) = Inr x"
      and y: "assign_symmetric_prompt i co (si_embed_corpus inp) = Inr y" using ne by blast
    obtain m t where "first_user_message (rs_messages x) = Inr m" "dict_item m ''content'' = Inr t"
      using chat[OF x] by blast
    then show ?thesis using False r x y by (simp add: resolve_block_inputs_def Let_def)
  qed
  then obtain b where "resolve_block_inputs (si_digest inp) (cell_id_of p c) mt i co (si_base_seed inp)
      (Some (si_chat_corpus inp)) (Some (si_embed_corpus inp)) None = Inr (b i)" for i by metis
  then show ?thesis by (simp add: inputs_fail_def)
qed

lemma dispatch_keys_cell:
  assumes "(cid, co, mt) \<in> set (dispatch_keys axis)"
  shows "mt \<in> set axis \<and> (\<exists>p c. cid = cell_id_of p c)"
proof -
  obtain t where "t \<in> set (iter_main_sweep_tuples axis)" "(cid, co, mt) \<in> set (tuple_keys t)"
    using assms unfolding tuple_keys_dispatch[symmetric] by auto
  moreover obtain cid' c mt' where "t = (cid', c, mt')" by (rule prod_cases3)
  ultimately have "(cid, c, mt) \<in> set (iter_main_sweep_tuples axis)" by (auto simp: tuple_keys_def)
  then show ?thesis unfolding set_iter_main_sweep_tuples by blast
qed

lemma run_sweep_returns:
  assumes "set (si_axis inp) \<subseteq> set MAX_TOKENS_AXIS" "usable_corpora inp" "\<And>e. \<not> anchor_fails inp e"
  shows "\<exists>out st'. run_sweep inp w0 c0 = (Inr out, st')"
proof -
  obtain r st' where run: "run_sweep inp w0 c0 = (r, st')" by fastforce
  show ?thesis
  proof (cases r)
    case (Inl e)
    then obtain cid co mt where k: "(cid, co, mt) \<in> set (dispatch_keys (si_axis inp))"
      and f: "inputs_fail inp (cid, co, mt) e"
      using run_sweep_error[of inp w0 c0 e st'] run assms(3) by auto
    then show ?thesis using dispatch_keys_cell[OF k] inputs_resolve[OF assms(2)] assms(1) by blast
  next
    case (Inr out)
    then show ?thesis using run by blast
  qed
qed

end
