(* ===== verification/Dispatch.thy ===== *)
theory Dispatch
  imports Aggregate Anchor
begin

text \<open>
  The Modal-backed dispatchers of \<open>validate.py\<close>: the classifiers of a failed RPC, the block
  dispatcher with its preemption-recovery loop, and the anchor dispatcher. The RPC driver and
  \<open>make_driver\<close> are arguments. The N concurrent RPCs of a block are run in index order; their
  interleavings and the bound on the calls in flight are the subject of \<open>Semaphore\<close>.
\<close>

section \<open>Classifying a failed RPC\<close>

definition GRPC_TRANSIENT_CODES :: "string list" where
  "GRPC_TRANSIENT_CODES =
     [''UNAVAILABLE'', ''DEADLINE_EXCEEDED'', ''ABORTED'', ''INTERNAL'', ''RESOURCE_EXHAUSTED'']"

definition in_codes :: "string option \<Rightarrow> string list \<Rightarrow> bool" where
  "in_codes code codes = (case code of None \<Rightarrow> False | Some c \<Rightarrow> List.member codes c)"

definition is_transient_modal_error :: "py_exn \<Rightarrow> bool" where
  "is_transient_modal_error exc =
     (if isinstance exc ''grpc.RpcError'' then in_codes (code_of exc) GRPC_TRANSIENT_CODES
      else isinstance exc ''httpx.TransportError'' \<or> isinstance exc ''httpx.TimeoutException''
        \<or> isinstance exc ''httpx.RemoteProtocolError'')"

definition ENDPOINT_DEATH_GRPC_CODES :: "string list" where
  "ENDPOINT_DEATH_GRPC_CODES = [''UNAVAILABLE'', ''CANCELLED'']"

definition ENDPOINT_DEATH_MESSAGE_FRAGMENTS :: "string list" where
  "ENDPOINT_DEATH_MESSAGE_FRAGMENTS =
     [''failed to connect to all addresses'', ''all connection attempts failed'',
      ''nodename nor servname provided'', ''name or service not known'', ''connection refused'',
      ''connection reset by peer'', ''no route to host'', ''broken pipe'']"

definition has_death_fragment :: "string \<Rightarrow> bool" where
  "has_death_fragment lower = list_ex (\<lambda>frag. has_substring frag lower) ENDPOINT_DEATH_MESSAGE_FRAGMENTS"

text \<open>\<open>exc.details() or ""\<close>.\<close>

definition or_empty :: "string option \<Rightarrow> string" where
  "or_empty s = (case s of None \<Rightarrow> [] | Some t \<Rightarrow> t)"

definition is_modal_endpoint_death :: "py_exn \<Rightarrow> bool" where
  "is_modal_endpoint_death exc =
     (if isinstance exc ''grpc.RpcError'' then
        (case (code_of exc, details_of exc) of
           (Some code, Some details) \<Rightarrow>
             if \<not> List.member ENDPOINT_DEATH_GRPC_CODES code then False
             else has_death_fragment (str_lower (or_empty details))
         | _ \<Rightarrow> False)
      else if isinstance exc ''httpx.ConnectError'' then True
      else if isinstance exc ''httpx.ReadError'' then has_death_fragment (str_lower (exn_msg exc))
      else False)"

definition is_modal_endpoint_death_reason :: "string option \<Rightarrow> bool" where
  "is_modal_endpoint_death_reason reason = (case reason of
     None \<Rightarrow> False
   | Some r \<Rightarrow> if r = [] then False else has_death_fragment (str_lower r))"

text \<open>What \<open>asyncio.gather(..., return_exceptions=True)\<close> holds for one RPC.\<close>

type_synonym rpc_outcome = "rpc_result py_result"

definition is_endpoint_death_result :: "rpc_outcome \<Rightarrow> bool" where
  "is_endpoint_death_result r = (case r of
     Inl e \<Rightarrow> is_modal_endpoint_death e
   | Inr x \<Rightarrow> if \<not> rr_success x then is_modal_endpoint_death_reason (rr_failure_reason x) else False)"

definition block_failed_with_endpoint_death :: "rpc_outcome list \<Rightarrow> int \<Rightarrow> bool" where
  "block_failed_with_endpoint_death results n =
     (if n \<le> 0 \<or> int (length results) \<noteq> n then False
      else list_all is_endpoint_death_result results)"

definition block_has_endpoint_death :: "rpc_outcome list \<Rightarrow> bool" where
  "block_has_endpoint_death results = list_ex is_endpoint_death_result results"

definition cell_from_cell_id :: "string \<Rightarrow> cell py_result" where
  "cell_from_cell_id cid =
     (case find (\<lambda>(p, h, c). cid = cell_id_of p c) CELLS of
        Some (p, h, c) \<Rightarrow> Inr \<lparr>cell_path = p, cell_hidden_size = h, cell_concurrency = c\<rparr>
      | None \<Rightarrow> Inl (value_error ''unknown M6.2 cell id''))"

definition ENDPOINT_DEATH_CONSECUTIVE_THRESHOLD :: nat where
  "ENDPOINT_DEATH_CONSECUTIVE_THRESHOLD = 2"

definition PREEMPTION_RECURRENCE_THRESHOLD :: nat where
  "PREEMPTION_RECURRENCE_THRESHOLD = 2"

definition lower_name :: "py_exn \<Rightarrow> string" where
  "lower_name exc = str_lower (exn_name exc)"

definition classify_dispatcher_exc :: "py_exn \<Rightarrow> string" where
  "classify_dispatcher_exc exc =
     (if isinstance exc ''grpc.RpcError'' then
        ''grpc_'' @ (case code_of exc of None \<Rightarrow> ''unknown'' | Some c \<Rightarrow> str_lower c)
      else if isinstance exc ''httpx.TimeoutException'' then ''httpx_timeout''
      else if isinstance exc ''httpx.HTTPError'' then ''httpx_'' @ lower_name exc
      else lower_name exc)"

section \<open>The recovery loop\<close>

text \<open>
  The loop both dispatchers run after a block: decide whether the block shows a preemption,
  refresh the driver while the budget lasts, and dispatch the block again. \<open>state\<close> is the
  \<open>SimpleNamespace\<close> a dispatcher keeps across its calls.
\<close>

type_synonym 'w rpc_driver =
  "cohort \<Rightarrow> cell \<Rightarrow> int \<Rightarrow> int \<Rightarrow> bool \<Rightarrow> string option \<Rightarrow> string option \<Rightarrow> 'w \<Rightarrow> rpc_outcome \<times> 'w"

text \<open>The driver's arguments: cohort, cell, seed, \<open>max_tokens\<close>, \<open>ignore_eos\<close>, prompt, embeds.\<close>

record 'w preempt_state =
  ps_driver :: "'w rpc_driver"
  ps_events :: nat
  ps_consecutive :: nat

definition fresh_state :: "'w rpc_driver \<Rightarrow> 'w preempt_state" where
  "fresh_state driver = \<lparr>ps_driver = driver, ps_events = 0, ps_consecutive = 0\<rparr>"

text \<open>The two triggers and the streak counter; the flag tells whether to recover.\<close>

definition death_trigger ::
  "int \<Rightarrow> nat \<Rightarrow> rpc_outcome list \<Rightarrow> 'w preempt_state \<Rightarrow> bool \<times> 'w preempt_state" where
  "death_trigger n threshold results st =
     (if block_failed_with_endpoint_death results n then (True, st\<lparr>ps_consecutive := 0\<rparr>)
      else if block_has_endpoint_death results then
        (let k = ps_consecutive st + 1
         in if k \<ge> threshold then (True, st\<lparr>ps_consecutive := 0\<rparr>)
            else (False, st\<lparr>ps_consecutive := k\<rparr>))
      else (False, st\<lparr>ps_consecutive := 0\<rparr>))"

lemma death_trigger_keeps:
  "death_trigger n th rs st = (b, st') \<Longrightarrow> ps_events st' = ps_events st \<and> ps_driver st' = ps_driver st"
  by (auto simp: death_trigger_def Let_def split: if_splits)

text \<open>
  The fixed arguments of a loop: the block's size, the configured budget and threshold, how the
  block is dispatched with a driver, \<open>make_driver\<close>, and the two errors it may raise.
\<close>

record 'w recovery_args =
  ra_n :: int
  ra_budget :: nat
  ra_threshold :: nat
  ra_gather :: "'w rpc_driver \<Rightarrow> 'w \<Rightarrow> rpc_outcome list py_result \<times> 'w"
  ra_make_driver :: "'w \<Rightarrow> 'w rpc_driver py_result \<times> 'w"
  ra_exhausted :: py_exn
  ra_failed :: "py_exn \<Rightarrow> py_exn"

function recovery_loop ::
  "'w recovery_args \<Rightarrow> rpc_outcome list \<Rightarrow> 'w preempt_state \<Rightarrow> 'w
     \<Rightarrow> rpc_outcome list py_result \<times> 'w preempt_state \<times> 'w" where
  "recovery_loop a results st w =
     (case death_trigger (ra_n a) (ra_threshold a) results st of
        (False, st1) \<Rightarrow> (Inr results, st1, w)
      | (True, st1) \<Rightarrow>
          if ps_events st1 \<ge> ra_budget a then (Inl (ra_exhausted a), st1, w)
          else case ra_make_driver a w of
                 (Inl e, w1) \<Rightarrow> (Inl (ra_failed a e), st1, w1)
               | (Inr d, w1) \<Rightarrow>
                   case ra_gather a d w1 of
                     (Inl e, w2) \<Rightarrow> (Inl e, st1\<lparr>ps_driver := d, ps_events := ps_events st1 + 1\<rparr>, w2)
                   | (Inr results', w2) \<Rightarrow>
                       recovery_loop a results'
                         (st1\<lparr>ps_driver := d, ps_events := ps_events st1 + 1\<rparr>) w2)"
  by pat_completeness auto
termination
  by (relation "measure (\<lambda>(a, results, st, w). ra_budget a - ps_events st)")
    (auto dest!: sym [of "(True, _)"] death_trigger_keeps)

declare recovery_loop.simps [simp del]

section \<open>The block dispatcher\<close>

text \<open>
  The keyword arguments a block passes to every RPC, the seeds of its RPCs, and the dispatch of
  the whole block: an exception becomes an entry of the result list.
\<close>

record rpc_args =
  rq_cohort :: cohort
  rq_cell :: cell
  rq_max_tokens :: int
  rq_ignore_eos :: bool
  rq_prompt :: "string option"
  rq_embeds :: "string option"

definition rpc_seeds :: "int \<Rightarrow> int \<Rightarrow> int list" where
  "rpc_seeds base n = map (\<lambda>i. base + int i) [0..<nat n]"

definition call_driver :: "'w rpc_driver \<Rightarrow> rpc_args \<Rightarrow> int \<Rightarrow> 'w \<Rightarrow> rpc_outcome \<times> 'w" where
  "call_driver driver q seed = driver (rq_cohort q) (rq_cell q) seed (rq_max_tokens q)
     (rq_ignore_eos q) (rq_prompt q) (rq_embeds q)"

fun gather_block :: "'w rpc_driver \<Rightarrow> rpc_args \<Rightarrow> int list \<Rightarrow> 'w \<Rightarrow> rpc_outcome list \<times> 'w" where
  "gather_block driver q [] w = ([], w)"
| "gather_block driver q (seed # seeds) w =
     (let (r, w1) = call_driver driver q seed w; (rs, w2) = gather_block driver q seeds w1
      in (r # rs, w2))"

lemma length_gather_block: "length (fst (gather_block driver q seeds w)) = length seeds"
  by (induction seeds arbitrary: w) (simp_all add: split_beta)

text \<open>The per-RPC metadata dictionary; \<open>fstr\<close> is \<open>str\<close> on a float.\<close>

primrec payload_str :: "payload_value \<Rightarrow> string option" where
  "payload_str (PV_Int i) = Some (str_int i)"
| "payload_str (PV_Str s) = Some s"
| "payload_str PV_None = None"

definition payload_entries :: "(string \<times> payload_value) list \<Rightarrow> str_dict" where
  "payload_entries = List.map_filter (\<lambda>(k, v). map_option (Pair k) (payload_str v))"

definition engine_attrs :: "engine_cost_span \<Rightarrow> (string \<times> real option) list" where
  "engine_attrs ec = [(''engine_tpot_ms'', engine_tpot_ms ec), (''engine_ttft_ms'', engine_ttft_ms ec),
     (''engine_forward_ms'', engine_forward_ms ec)]"

definition set_attr :: "(real \<Rightarrow> string) \<Rightarrow> string \<times> real option \<Rightarrow> str_dict \<Rightarrow> str_dict" where
  "set_attr fstr = (\<lambda>(attr, v) md. case v of None \<Rightarrow> md | Some x \<Rightarrow> AList.update attr (fstr x) md)"

definition rpc_metadata :: "(real \<Rightarrow> string) \<Rightarrow> rpc_result \<Rightarrow> str_dict" where
  "rpc_metadata fstr r =
     (let md = (case rr_timing_payload r of None \<Rightarrow> [] | Some p \<Rightarrow> payload_entries p)
      in case rr_engine_cost r of None \<Rightarrow> md | Some ec \<Rightarrow> fold (set_attr fstr) (engine_attrs ec) md)"

definition rpc_failure_text :: "string option \<Rightarrow> string" where
  "rpc_failure_text reason = (case reason of None \<Rightarrow> ''unknown_failure''
     | Some s \<Rightarrow> if s = [] then ''unknown_failure'' else s)"

text \<open>The aggregation loop: timings, metadata and first failure, in that order.\<close>

definition collect_one ::
  "(real \<Rightarrow> string) \<Rightarrow> rpc_outcome \<Rightarrow> real list \<times> str_dict list \<times> string option
     \<Rightarrow> real list \<times> str_dict list \<times> string option" where
  "collect_one fstr r = (\<lambda>(ts, mds, first_failure). case r of
     Inl e \<Rightarrow> (ts, mds, if first_failure = None then Some (classify_dispatcher_exc e) else first_failure)
   | Inr x \<Rightarrow>
       (case (rr_success x, rr_wall_clock_ms x) of
          (True, Some t) \<Rightarrow>
            (let md = rpc_metadata fstr x
             in (ts @ [t], if md \<noteq> [] then mds @ [md] else mds, first_failure))
        | _ \<Rightarrow> (ts, mds, if first_failure = None then Some (rpc_failure_text (rr_failure_reason x))
                         else first_failure)))"

definition collect_results :: "(real \<Rightarrow> string) \<Rightarrow> rpc_outcome list \<Rightarrow> block_dispatch_result" where
  "collect_results fstr results =
     (let (ts, mds, first_failure) = fold (collect_one fstr) results ([], [], None)
      in if ts = [] then
           \<lparr>br_timings_ms = [],
            br_failed_reason = Some (case first_failure of None \<Rightarrow> ''no_successful_rpcs''
              | Some s \<Rightarrow> if s = [] then ''no_successful_rpcs'' else s),
            br_per_rpc_metadata = []\<rparr>
         else \<lparr>br_timings_ms = ts, br_failed_reason = None, br_per_rpc_metadata = mds\<rparr>)"

text \<open>
  What the two factories close over, and the world of a Modal-backed sweep: the outside world
  and the state of each dispatcher.
\<close>

record 'w modal_config =
  mc_base_seed :: int
  mc_make_driver :: "('w \<Rightarrow> 'w rpc_driver py_result \<times> 'w) option"
  mc_budget :: nat
  mc_threshold :: nat
  mc_fstr :: "real \<Rightarrow> string"
  mc_anchor_cell :: cell
  mc_anchor_max_tokens :: int

record 'w modal_world =
  mw_world :: 'w
  mw_block :: "'w preempt_state"
  mw_anchor :: "'w preempt_state"

definition call_place :: "block_call \<Rightarrow> string" where
  "call_place call = ''cell='' @ bcall_cell_id call @ '' cohort='' @ cohort_name (bcall_cohort call)
     @ '' max_tokens='' @ str_int (bcall_max_tokens call)"

definition block_exhausted :: "'w modal_config \<Rightarrow> block_call \<Rightarrow> py_exn" where
  "block_exhausted cfg call = Exn ''PreemptionBudgetExhausted''
     (''Modal preemption recurrence threshold ('' @ str_nat (mc_budget cfg) @ '') exhausted at ''
      @ call_place call @ ''; aborting sweep per FR-026.'')"

definition block_recovery_failed :: "block_call \<Rightarrow> py_exn \<Rightarrow> py_exn" where
  "block_recovery_failed call exc = Exn ''PreemptionRecoveryFailed''
     (''make_driver() failed during preemption recovery at '' @ call_place call @ '': ''
      @ exn_name exc @ '': '' @ exn_msg exc)"

definition block_rpc_args :: "block_call \<Rightarrow> cell \<Rightarrow> rpc_args" where
  "block_rpc_args call cell =
     \<lparr>rq_cohort = bcall_cohort call, rq_cell = cell, rq_max_tokens = bcall_max_tokens call,
      rq_ignore_eos = bi_ignore_eos (bcall_inputs call),
      rq_prompt = bi_prompt_text (bcall_inputs call),
      rq_embeds = bi_embed_tensor_bytes (bcall_inputs call)\<rparr>"

definition block_recovery_args ::
  "'w modal_config \<Rightarrow> block_call \<Rightarrow> cell \<Rightarrow> ('w \<Rightarrow> 'w rpc_driver py_result \<times> 'w)
     \<Rightarrow> 'w recovery_args" where
  "block_recovery_args cfg call cell mk =
     \<lparr>ra_n = bcall_n call, ra_budget = mc_budget cfg, ra_threshold = mc_threshold cfg,
      ra_gather = (\<lambda>d w. let (rs, w') = gather_block d (block_rpc_args call cell)
                                            (rpc_seeds (mc_base_seed cfg) (bcall_n call)) w
                         in (Inr rs, w')),
      ra_make_driver = mk,
      ra_exhausted = block_exhausted cfg call, ra_failed = block_recovery_failed call\<rparr>"

definition modal_block_dispatcher :: "'w modal_config \<Rightarrow> 'w modal_world block_dispatcher" where
  "modal_block_dispatcher cfg call mw =
     (case cell_from_cell_id (bcall_cell_id call) of
        Inl e \<Rightarrow> (Inl e, mw)
      | Inr cell \<Rightarrow>
          let (results, w1) = gather_block (ps_driver (mw_block mw)) (block_rpc_args call cell)
                (rpc_seeds (mc_base_seed cfg) (bcall_n call)) (mw_world mw)
          in case mc_make_driver cfg of
               None \<Rightarrow> (Inr (collect_results (mc_fstr cfg) results), mw\<lparr>mw_world := w1\<rparr>)
             | Some mk \<Rightarrow>
                 let (r, st, w2) = recovery_loop (block_recovery_args cfg call cell mk) results
                                     (mw_block mw) w1;
                     mw' = mw\<lparr>mw_world := w2, mw_block := st\<rparr>
                 in case r of
                      Inl e \<Rightarrow> (Inl e, mw')
                    | Inr results' \<Rightarrow> (Inr (collect_results (mc_fstr cfg) results'), mw'))"

section \<open>The anchor dispatcher\<close>

text \<open>
  The anchor's \<open>_one\<close> turns only gRPC and httpx errors into entries; another exception leaves
  the gather, which is then abandoned.
\<close>

fun gather_anchor :: "'w rpc_driver \<Rightarrow> rpc_args \<Rightarrow> int list \<Rightarrow> 'w \<Rightarrow> rpc_outcome list py_result \<times> 'w" where
  "gather_anchor driver q [] w = (Inr [], w)"
| "gather_anchor driver q (seed # seeds) w =
     (let (r, w1) = call_driver driver q seed w
      in if (case r of Inl e \<Rightarrow> \<not> (isinstance e ''grpc.RpcError'' \<or> isinstance e ''httpx.HTTPError'')
                     | Inr _ \<Rightarrow> False)
         then (Inl (projl r), w1)
         else case gather_anchor driver q seeds w1 of
                (Inl e, w2) \<Rightarrow> (Inl e, w2)
              | (Inr rs, w2) \<Rightarrow> (Inr (r # rs), w2))"

definition anchor_exhausted :: "'w modal_config \<Rightarrow> cohort \<Rightarrow> py_exn" where
  "anchor_exhausted cfg co = Exn ''PreemptionBudgetExhausted''
     (''Modal preemption recurrence threshold ('' @ str_nat (mc_budget cfg)
      @ '') exhausted during anchor block cohort='' @ cohort_name co @ ''; aborting sweep per FR-026.'')"

definition anchor_recovery_failed :: "cohort \<Rightarrow> py_exn \<Rightarrow> py_exn" where
  "anchor_recovery_failed co exc = Exn ''PreemptionRecoveryFailed''
     (''make_driver() failed during anchor-block preemption recovery cohort='' @ cohort_name co
      @ '': '' @ exn_name exc @ '': '' @ exn_msg exc)"

definition anchor_rpc_args :: "'w modal_config \<Rightarrow> cohort \<Rightarrow> rpc_args" where
  "anchor_rpc_args cfg co =
     \<lparr>rq_cohort = co, rq_cell = mc_anchor_cell cfg, rq_max_tokens = mc_anchor_max_tokens cfg,
      rq_ignore_eos = False, rq_prompt = None, rq_embeds = None\<rparr>"

definition anchor_recovery_args ::
  "'w modal_config \<Rightarrow> cohort \<Rightarrow> int \<Rightarrow> int list \<Rightarrow> ('w \<Rightarrow> 'w rpc_driver py_result \<times> 'w)
     \<Rightarrow> 'w recovery_args" where
  "anchor_recovery_args cfg co n seeds mk =
     \<lparr>ra_n = n, ra_budget = mc_budget cfg, ra_threshold = mc_threshold cfg,
      ra_gather = (\<lambda>d. gather_anchor d (anchor_rpc_args cfg co) seeds),
      ra_make_driver = mk,
      ra_exhausted = anchor_exhausted cfg co, ra_failed = anchor_recovery_failed co\<rparr>"

definition anchor_timings :: "rpc_outcome list \<Rightarrow> real list" where
  "anchor_timings = List.map_filter (\<lambda>r. case r of Inl _ \<Rightarrow> None
     | Inr x \<Rightarrow> if rr_success x then rr_wall_clock_ms x else None)"

definition modal_anchor_dispatcher :: "'w modal_config \<Rightarrow> 'w modal_world anchor_driver" where
  "modal_anchor_dispatcher cfg co n base_seed seed_offset mw =
     (let seeds = rpc_seeds (base_seed + seed_offset) n
      in case gather_anchor (ps_driver (mw_anchor mw)) (anchor_rpc_args cfg co) seeds (mw_world mw) of
           (Inl e, w1) \<Rightarrow> (Inl e, mw\<lparr>mw_world := w1\<rparr>)
         | (Inr results, w1) \<Rightarrow>
             (case mc_make_driver cfg of
                None \<Rightarrow> (Inr (anchor_timings results), mw\<lparr>mw_world := w1\<rparr>)
              | Some mk \<Rightarrow>
                  let (r, st, w2) = recovery_loop (anchor_recovery_args cfg co n seeds mk) results
                                      (mw_anchor mw) w1;
                      mw' = mw\<lparr>mw_world := w2, mw_anchor := st\<rparr>
                  in case r of
                       Inl e \<Rightarrow> (Inl e, mw')
                     | Inr results' \<Rightarrow> (Inr (anchor_timings results'), mw')))"

definition default_anchor_cell :: cell where
  "default_anchor_cell = \<lparr>cell_path = Chat_Stream, cell_hidden_size = 4096, cell_concurrency = 1\<rparr>"

section \<open>Refreshing the driver\<close>

text \<open>
  The callable \<open>build_modal_make_driver_callable\<close> returns. Its state is the current endpoints
  and the stack that owns the live driver. \<open>refresh\<close> polls the handshake dict, \<open>close_stack\<close>
  closes a stack (whatever it raises is suppressed), and \<open>provide\<close> opens a driver on a new one. The timeout in the message is the default one.
\<close>

definition refresh_failed :: py_exn where
  "refresh_failed = Exn ''RuntimeError''
     (''Modal endpoint refresh: no fresh URLs published to the handshake Dict within 600 s. ''
      @ ''The preempted Modal worker may have failed to restart, or the new container's vLLM ''
      @ ''EngineCore is still initializing. The block dispatcher will surface this as ''
      @ ''PreemptionRecoveryFailed and the orchestrator will abort.'')"

definition make_driver ::
  "('ep \<Rightarrow> 'u \<Rightarrow> 'ep option py_result \<times> 'u) \<Rightarrow> ('stk \<Rightarrow> 'u \<Rightarrow> 'u)
     \<Rightarrow> ('ep \<Rightarrow> 'u \<Rightarrow> ('d \<times> 'stk) py_result \<times> 'u)
     \<Rightarrow> 'u \<times> 'ep \<times> 'stk \<Rightarrow> 'd py_result \<times> ('u \<times> 'ep \<times> 'stk)" where
  "make_driver refresh close_stack provide = (\<lambda>(u, endpoints, stack).
     case refresh endpoints u of
       (Inl e, u1) \<Rightarrow> (Inl e, (u1, endpoints, stack))
     | (Inr None, u1) \<Rightarrow> (Inl refresh_failed, (u1, endpoints, stack))
     | (Inr (Some new_endpoints), u1) \<Rightarrow>
         (case provide new_endpoints (close_stack stack u1) of
            (Inl e, u2) \<Rightarrow> (Inl e, (u2, endpoints, stack))
          | (Inr (driver, new_stack), u2) \<Rightarrow> (Inr driver, (u2, new_endpoints, new_stack))))"

section \<open>The stub dispatchers\<close>

text \<open>Python's salted \<open>hash\<close> is an argument: on the triple of a block and on a string.\<close>

definition stub_seed :: "(string \<times> string \<times> int \<Rightarrow> int) \<Rightarrow> string \<Rightarrow> string \<Rightarrow> int \<Rightarrow> int" where
  "stub_seed hash_block cid co mt = \<bar>hash_block (cid, co, mt)\<bar> mod 2 ^ 31"

definition stub_dispatcher ::
  "(string \<times> string \<times> int \<Rightarrow> int) \<Rightarrow> (string \<Rightarrow> int) \<Rightarrow> 'w block_dispatcher" where
  "stub_dispatcher hash_block hash_str call w =
     (let seed = stub_seed hash_block (bcall_cell_id call) (cohort_name (bcall_cohort call))
                   (bcall_max_tokens call);
          base = 50 + real_of_int (bcall_max_tokens call) / 50 * 8;
          cohort_bias = real_of_int (\<bar>hash_str (cohort_name (bcall_cohort call))\<bar> mod 17) * (13 / 10);
          concurrency_bias = (if has_substring ''c8'' (bcall_cell_id call) then 14 / 10
            else if has_substring ''c4'' (bcall_cell_id call) then 12 / 10 else 1)
      in (Inr \<lparr>br_timings_ms = map (\<lambda>i. (base + cohort_bias) * concurrency_bias
                 + real_of_int ((seed + int i * 9973) mod 1000) / 100) [0..<nat (bcall_n call)],
               br_failed_reason = None, br_per_rpc_metadata = []\<rparr>, w))"

definition stub_anchor :: "(string \<Rightarrow> int) \<Rightarrow> 'w anchor_driver" where
  "stub_anchor hash_str co n base_seed seed_offset w =
     (let base = 60 + real_of_int (base_seed mod 17) * (5 / 10);
          cohort_bias = real_of_int (\<bar>hash_str (cohort_name co)\<bar> mod 13) * (11 / 10)
      in (Inr (map (\<lambda>i. base + cohort_bias + real (i mod 7) * (3 / 10)) [0..<nat n]), w))"

definition stub_is_transient :: "py_exn \<Rightarrow> bool" where
  "stub_is_transient exc = False"

end
