(* ===== verification/Dispatch_Laws.thy ===== *)
theory Dispatch_Laws
  imports Dispatch
begin

text \<open>
  What the Modal dispatchers promise: the recovery loop stays within its budget and never hands
  back a block that is wholly endpoint-dead, a dispatch result carries either timings or a
  failure reason, and the metadata a dispatcher threads is what the aggregator reads. The
  contract between a block dispatcher and the row builder is the locale \<open>dispatch_contract\<close>.
\<close>

section \<open>The recovery loop\<close>

abbreviation refreshed :: "'w preempt_state \<Rightarrow> 'w rpc_driver \<Rightarrow> 'w preempt_state" where
  "refreshed st d \<equiv> st\<lparr>ps_driver := d, ps_events := ps_events st + 1\<rparr>"

text \<open>One case per way through the loop's body.\<close>

lemma recovery_loop_run_induct [consumes 1, case_names stop exhausted refresh_fails gather_fails again]:
  assumes "recovery_loop a rs st w = (r, st', w')"
    and "\<And>rs st w st1. death_trigger (ra_n a) (ra_threshold a) rs st = (False, st1)
      \<Longrightarrow> P rs st w (Inr rs) st1 w"
    and "\<And>rs st w st1. death_trigger (ra_n a) (ra_threshold a) rs st = (True, st1)
      \<Longrightarrow> ra_budget a \<le> ps_events st \<Longrightarrow> P rs st w (Inl (ra_exhausted a)) st1 w"
    and "\<And>rs st w st1 e w1. death_trigger (ra_n a) (ra_threshold a) rs st = (True, st1)
      \<Longrightarrow> ps_events st < ra_budget a \<Longrightarrow> ra_make_driver a w = (Inl e, w1)
      \<Longrightarrow> P rs st w (Inl (ra_failed a e)) st1 w1"
    and "\<And>rs st w st1 d w1 e w2. death_trigger (ra_n a) (ra_threshold a) rs st = (True, st1)
      \<Longrightarrow> ps_events st < ra_budget a \<Longrightarrow> ra_make_driver a w = (Inr d, w1)
      \<Longrightarrow> ra_gather a d w1 = (Inl e, w2) \<Longrightarrow> P rs st w (Inl e) (refreshed st1 d) w2"
    and "\<And>rs st w st1 d w1 rs2 w2 r st' w'. death_trigger (ra_n a) (ra_threshold a) rs st = (True, st1)
      \<Longrightarrow> ps_events st < ra_budget a \<Longrightarrow> ra_make_driver a w = (Inr d, w1)
      \<Longrightarrow> ra_gather a d w1 = (Inr rs2, w2)
      \<Longrightarrow> recovery_loop a rs2 (refreshed st1 d) w2 = (r, st', w')
      \<Longrightarrow> P rs2 (refreshed st1 d) w2 r st' w' \<Longrightarrow> P rs st w r st' w'"
  shows "P rs st w r st' w'"
  using assms(1)
proof (induction "ra_budget a - ps_events st" arbitrary: rs st w rule: less_induct)
  case less
  obtain b st1 where t: "death_trigger (ra_n a) (ra_threshold a) rs st = (b, st1)" by fastforce
  note e = death_trigger_keeps[OF t]
  obtain q w1 where m: "ra_make_driver a w = (q, w1)" by fastforce
  have unroll: "recovery_loop a rs st w = (case (b, st1) of
        (False, st1) \<Rightarrow> (Inr rs, st1, w)
      | (True, st1) \<Rightarrow>
          if ps_events st1 \<ge> ra_budget a then (Inl (ra_exhausted a), st1, w)
          else case (q, w1) of
                 (Inl e, w1) \<Rightarrow> (Inl (ra_failed a e), st1, w1)
               | (Inr d, w1) \<Rightarrow>
                   case ra_gather a d w1 of
                     (Inl e, w2) \<Rightarrow> (Inl e, refreshed st1 d, w2)
                   | (Inr results', w2) \<Rightarrow> recovery_loop a results' (refreshed st1 d) w2)"
    unfolding recovery_loop.simps[of a rs st w] t m by (rule refl)
  note run = less.prems[unfolded unroll]
  consider "\<not> b" | "b" "ra_budget a \<le> ps_events st" | x where "b" "ps_events st < ra_budget a" "q = Inl x"
    | d where "b" "ps_events st < ra_budget a" "q = Inr d"
    by (cases q; use not_le in blast)
  then show ?case
  proof cases
    case 1
    then have eq: "r = Inr rs" "st' = st1" "w' = w" using run by simp_all
    have t': "death_trigger (ra_n a) (ra_threshold a) rs st = (False, st1)" using t 1 by simp
    show ?thesis unfolding eq by (rule assms(2)[OF t'])
  next
    case 2
    then have eq: "r = Inl (ra_exhausted a)" "st' = st1" "w' = w" using run e by simp_all
    have t': "death_trigger (ra_n a) (ra_threshold a) rs st = (True, st1)" using t 2 by simp
    show ?thesis unfolding eq by (rule assms(3)[OF t' 2(2)])
  next
    case 3
    then have eq: "r = Inl (ra_failed a x)" "st' = st1" "w' = w1" using run e by simp_all
    have t': "death_trigger (ra_n a) (ra_threshold a) rs st = (True, st1)" using t 3 by simp
    show ?thesis unfolding eq by (rule assms(4)[OF t' 3(2) m[unfolded 3(3)]])
  next
    case 4
    note q = 4(3) and b = 4(1) and lt = 4(2)
    have t': "death_trigger (ra_n a) (ra_threshold a) rs st = (True, st1)" using t b by simp
    obtain g w2 where g: "ra_gather a d w1 = (g, w2)" by fastforce
    show ?thesis
    proof (cases g)
      case (Inl x)
      then have eq: "r = Inl x" "st' = refreshed st1 d" "w' = w2" using run q b lt g e by simp_all
      show ?thesis unfolding eq by (rule assms(5)[OF t' lt m[unfolded q] g[unfolded Inl]])
    next
      case (Inr rs2)
      have next_run: "recovery_loop a rs2 (refreshed st1 d) w2 = (r, st', w')"
        using run q b lt g Inr e by simp
      have "P rs2 (refreshed st1 d) w2 r st' w'"
        using less.hyps[OF _ next_run] lt e by simp
      then show ?thesis by (rule assms(6)[OF t' lt m[unfolded q] g[unfolded Inr] next_run])
    qed
  qed
qed

lemma recovery_loop_events:
  assumes "recovery_loop a rs st w = (r, st', w')"
  shows "ps_events st \<le> ps_events st' \<and> ps_events st' \<le> max (ps_events st) (ra_budget a)"
  using assms by (induction rule: recovery_loop_run_induct) (auto dest: death_trigger_keeps)

text \<open>
  A block that is handed back did not fail wholly, and the streak of partial deaths it leaves is
  below the threshold.
\<close>

lemma death_trigger_stops:
  assumes "death_trigger n th rs st = (False, st1)"
  shows "\<not> block_failed_with_endpoint_death rs n"
    and "ps_consecutive st1 < th \<or> ps_consecutive st1 = 0 \<and> \<not> block_has_endpoint_death rs"
  using assms by (auto simp: death_trigger_def Let_def split: if_splits)

lemma recovery_loop_result:
  assumes "recovery_loop a rs st w = (Inr rs', st', w')"
  shows "\<not> block_failed_with_endpoint_death rs' (ra_n a)
    \<and> (ps_consecutive st' < ra_threshold a
       \<or> ps_consecutive st' = 0 \<and> \<not> block_has_endpoint_death rs')"
  using assms
  by (induction rs st w "Inr rs' :: rpc_outcome list py_result" st' w' rule: recovery_loop_run_induct)
    (auto dest: death_trigger_stops)

text \<open>Where the errors of the loop come from.\<close>

lemma recovery_loop_error:
  assumes "recovery_loop a rs st w = (Inl e, st', w')"
  shows "e = ra_exhausted a \<and> ra_budget a \<le> ps_events st'
    \<or> (\<exists>x u u'. ra_make_driver a u = (Inl x, u') \<and> e = ra_failed a x)
    \<or> (\<exists>d u u'. ra_gather a d u = (Inl e, u'))"
  using assms
  by (induction rs st w "Inl e :: rpc_outcome list py_result" st' w' rule: recovery_loop_run_induct)
    (fastforce dest: death_trigger_keeps)+

section \<open>The dispatch result\<close>

definition successful :: "rpc_outcome \<Rightarrow> rpc_result option" where
  "successful r = (case r of Inl _ \<Rightarrow> None
     | Inr x \<Rightarrow> if rr_success x \<and> rr_wall_clock_ms x \<noteq> None then Some x else None)"

definition outcome_failure :: "rpc_outcome \<Rightarrow> string option" where
  "outcome_failure r = (case r of Inl e \<Rightarrow> Some (classify_dispatcher_exc e)
     | Inr x \<Rightarrow> if rr_success x \<and> rr_wall_clock_ms x \<noteq> None then None
                else Some (rpc_failure_text (rr_failure_reason x)))"

definition first_of :: "'a list \<Rightarrow> 'a option" where
  "first_of xs = (case xs of [] \<Rightarrow> None | x # _ \<Rightarrow> Some x)"

lemma map_filter_Cons:
  "List.map_filter f (x # xs) = (case f x of None \<Rightarrow> List.map_filter f xs
     | Some y \<Rightarrow> y # List.map_filter f xs)"
  by (simp split: option.split)

lemma fold_collect_one:
  "fold (collect_one f) rs (ts, mds, ff) =
     (ts @ anchor_timings rs,
      mds @ filter (\<lambda>md. md \<noteq> []) (map (rpc_metadata f) (List.map_filter successful rs)),
      case ff of None \<Rightarrow> first_of (List.map_filter outcome_failure rs) | Some x \<Rightarrow> Some x)"
proof (induction rs arbitrary: ts mds ff)
  case Nil
  then show ?case by (simp add: anchor_timings_def first_of_def split: option.split)
next
  case (Cons r rs)
  show ?case
  proof (cases "successful r")
    case None
    then have "collect_one f r (ts, mds, ff) = (ts, mds, case ff of None \<Rightarrow> outcome_failure r | Some x \<Rightarrow> Some x)"
      and "outcome_failure r \<noteq> None"
      and "anchor_timings (r # rs) = anchor_timings rs"
      by (auto simp: collect_one_def successful_def outcome_failure_def anchor_timings_def
          split: sum.splits option.splits if_splits bool.splits)
    then show ?thesis using None Cons.IH
      by (auto simp: map_filter_Cons first_of_def split: option.splits)
  next
    case (Some x)
    then obtain t where "r = Inr x" "rr_success x" "rr_wall_clock_ms x = Some t"
      by (auto simp: successful_def split: sum.splits if_splits)
    then have "collect_one f r (ts, mds, ff) =
        (ts @ [t], if rpc_metadata f x \<noteq> [] then mds @ [rpc_metadata f x] else mds, ff)"
      and "outcome_failure r = None" and "anchor_timings (r # rs) = t # anchor_timings rs"
      by (simp_all add: collect_one_def outcome_failure_def anchor_timings_def Let_def)
    then show ?thesis using Some Cons.IH by (cases ff) (simp_all add: map_filter_Cons)
  qed
qed

lemma collect_results_eq:
  "collect_results f rs =
     (if anchor_timings rs = [] then
        \<lparr>br_timings_ms = [],
         br_failed_reason = Some (reason_or_default (first_of (List.map_filter outcome_failure rs))),
         br_per_rpc_metadata = []\<rparr>
      else \<lparr>br_timings_ms = anchor_timings rs, br_failed_reason = None,
            br_per_rpc_metadata =
              filter (\<lambda>md. md \<noteq> []) (map (rpc_metadata f) (List.map_filter successful rs))\<rparr>)"
  by (simp add: collect_results_def fold_collect_one reason_or_default_def)

lemma length_anchor_timings: "length (anchor_timings rs) \<le> length rs"
  by (induction rs) (auto simp: anchor_timings_def split: option.split)

lemma length_map_filter_successful:
  "length (List.map_filter successful rs) = length (anchor_timings rs)"
  by (induction rs) (auto simp: anchor_timings_def successful_def split: option.splits sum.splits)

text \<open>The values \<open>failed_reason\<close> and \<open>timings_ms\<close> of a result exclude each other.\<close>

definition coherent_result :: "block_dispatch_result \<Rightarrow> bool" where
  "coherent_result r \<longleftrightarrow> (br_failed_reason r = None \<longleftrightarrow> br_timings_ms r \<noteq> [])
     \<and> br_failed_reason r \<noteq> Some []
     \<and> (br_failed_reason r \<noteq> None \<longrightarrow> br_per_rpc_metadata r = [])
     \<and> length (br_per_rpc_metadata r) \<le> length (br_timings_ms r)"

lemma collect_results_coherent: "coherent_result (collect_results f rs)"
proof -
  have "length (filter (\<lambda>md. md \<noteq> []) (map (rpc_metadata f) (List.map_filter successful rs)))
      \<le> length (anchor_timings rs)"
    by (rule order_trans[OF length_filter_le]) (simp add: length_map_filter_successful)
  then show ?thesis by (simp add: coherent_result_def collect_results_eq reason_or_default_def
        split: option.split)
qed

lemma classify_exception_nonempty: "classify_exception e \<noteq> []"
  by (simp add: classify_exception_def Let_def)

lemma exception_result_coherent: "coherent_result (exception_result e)"
  by (simp add: exception_result_def coherent_result_def classify_exception_nonempty)

text \<open>What the retry wrapper returns is a dispatcher's result or a classified exception.\<close>

lemma run_block_with_retry_origin:
  assumes "run_block_with_retry call disp tr now w = ((r, s, e, b), w')"
  shows "(\<exists>x u u'. disp call u = (Inl x, u') \<and> r = exception_result x)
    \<or> (\<exists>u u'. disp call u = (Inr r, u'))"
proof -
  obtain t0 w1 where n0: "now w = (t0, w1)" by fastforce
  obtain r1 w2 where d1: "disp call w1 = (r1, w2)" by fastforce
  obtain r2 w3 where d2: "disp call w2 = (r2, w3)" by fastforce
  obtain r3 w4 where d3: "disp call w3 = (r3, w4)" by fastforce
  obtain a2 b2 where n2: "now w2 = (a2, b2)" by fastforce
  obtain a3 b3 where n3: "now w3 = (a3, b3)" by fastforce
  obtain a4 b4 where n4: "now w4 = (a4, b4)" by fastforce
  have "(\<exists>x. r1 = Inl x \<and> r = exception_result x) \<or> (\<exists>x. r2 = Inl x \<and> r = exception_result x)
      \<or> (\<exists>x. r3 = Inl x \<and> r = exception_result x) \<or> r1 = Inr r \<or> r2 = Inr r \<or> r3 = Inr r"
    using assms
    by (auto simp: run_block_with_retry_def n0 d1 d2 d3 n2 n3 n4 Let_def
        split: sum.split_asm option.split_asm if_splits)
  then show ?thesis using d1 d2 d3 by metis
qed

section \<open>The contract of a block dispatcher\<close>

locale dispatch_contract =
  fixes disp :: "'w block_dispatcher"
  assumes coherent: "\<lbrakk>0 < bcall_n call; disp call w = (Inr r, w')\<rbrakk> \<Longrightarrow> coherent_result r"
begin

lemma retry_coherent:
  assumes "0 < bcall_n call" "run_block_with_retry call disp tr now w = ((r, s, e, b), w')"
  shows "coherent_result r"
  using run_block_with_retry_origin[OF assms(2)] coherent[OF assms(1)] exception_result_coherent
  by blast

text \<open>The row a block becomes says exactly what its dispatch said.\<close>

lemma row_reports_dispatch:
  assumes "0 < bcall_n call" "run_block_with_retry call disp tr now w = ((r, s, e, b), w')"
  shows "mp_failed_reason (build_measurement_point cid co mt n r s e b inputs) = br_failed_reason r"
    and "mp_wall_p50_ms (build_measurement_point cid co mt n r s e b inputs) \<noteq> None
      \<longleftrightarrow> br_failed_reason r = None"
  using retry_coherent[OF assms]
  by (auto simp: coherent_result_def build_measurement_point_def reason_or_default_def Let_def
      split: option.splits)

end

lemma modal_dispatcher_result:
  assumes "modal_block_dispatcher cfg call mw = (Inr r, mw')"
  shows "\<exists>rs. r = collect_results (mc_fstr cfg) rs"
  using assms by (auto simp: modal_block_dispatcher_def Let_def split: sum.splits option.splits prod.splits)

interpretation modal: dispatch_contract "modal_block_dispatcher cfg" for cfg
proof
  fix call and w :: "'a modal_world" and r w'
  assume "modal_block_dispatcher cfg call w = (Inr r, w')"
  then show "coherent_result r"
    using modal_dispatcher_result collect_results_coherent by metis
qed

interpretation stub: dispatch_contract "stub_dispatcher hash_block hash_str" for hash_block hash_str
  by unfold_locales (auto simp: stub_dispatcher_def coherent_result_def Let_def)

section \<open>The budget over a whole sweep\<close>

text \<open>A sequence of block and anchor calls on one world, whatever each of them returns.\<close>

datatype modal_call = Block_Call block_call | Anchor_Call cohort int int int

primrec modal_step :: "'w modal_config \<Rightarrow> modal_call \<Rightarrow> 'w modal_world \<Rightarrow> 'w modal_world" where
  "modal_step cfg (Block_Call call) mw = snd (modal_block_dispatcher cfg call mw)"
| "modal_step cfg (Anchor_Call co n seed off) mw = snd (modal_anchor_dispatcher cfg co n seed off mw)"

definition within_budget :: "'w modal_config \<Rightarrow> 'w modal_world \<Rightarrow> bool" where
  "within_budget cfg mw \<longleftrightarrow>
     ps_events (mw_block mw) \<le> mc_budget cfg \<and> ps_events (mw_anchor mw) \<le> mc_budget cfg"

lemma within_budget_step:
  assumes "within_budget cfg mw" shows "within_budget cfg (modal_step cfg c mw)"
proof (cases c)
  case (Block_Call call)
  then show ?thesis using assms
    by (auto simp: within_budget_def modal_block_dispatcher_def block_recovery_args_def Let_def
        dest!: recovery_loop_events split: sum.splits option.splits prod.splits)
next
  case (Anchor_Call co n seed off)
  then show ?thesis using assms
    by (auto simp: within_budget_def modal_anchor_dispatcher_def anchor_recovery_args_def Let_def
        dest!: recovery_loop_events split: sum.splits option.splits prod.splits)
qed

lemma within_budget_run:
  "within_budget cfg mw \<Longrightarrow> within_budget cfg (fold (modal_step cfg) cs mw)"
  by (induction cs arbitrary: mw) (auto intro: within_budget_step)

section \<open>A spent budget does not stop the sweep\<close>

text \<open>
  \<open>PreemptionBudgetExhausted\<close> is caught by the retry wrapper like any other exception: the
  block becomes a failed row and the sweep goes on.
\<close>

lemma not_transient_Exn [simp]: "n \<notin> {''grpc.RpcError'', ''httpx.TransportError'',
    ''httpx.TimeoutException'', ''httpx.RemoteProtocolError''} \<Longrightarrow>
  \<not> is_transient_modal_error (Exn n m)"
  by (auto simp: is_transient_modal_error_def)

lemma modal_block_exhausted:
  assumes "cell_from_cell_id (bcall_cell_id call) = Inr cell"
    and "gather_block (ps_driver (mw_block mw)) (block_rpc_args call cell)
           (rpc_seeds (mc_base_seed cfg) (bcall_n call)) (mw_world mw) = (results, w1)"
    and "block_failed_with_endpoint_death results (bcall_n call)"
    and "mc_make_driver cfg = Some mk" "mc_budget cfg \<le> ps_events (mw_block mw)"
  shows "modal_block_dispatcher cfg call mw =
    (Inl (block_exhausted cfg call),
     mw\<lparr>mw_world := w1, mw_block := (mw_block mw)\<lparr>ps_consecutive := 0\<rparr>\<rparr>)"
proof -
  have "recovery_loop (block_recovery_args cfg call cell mk) results (mw_block mw) w1
      = (Inl (block_exhausted cfg call), (mw_block mw)\<lparr>ps_consecutive := 0\<rparr>, w1)"
    using assms(3,5)
    by (subst recovery_loop.simps) (simp add: block_recovery_args_def death_trigger_def)
  then show ?thesis using assms(1,2,4) by (simp add: modal_block_dispatcher_def)
qed

lemma spent_budget_row:
  assumes "modal_block_dispatcher cfg call mw1 = (Inl (block_exhausted cfg call), mw2)"
    and "now mw0 = (t0, mw1)" "now mw2 = (t1, mw3)"
  shows "run_block_with_retry call (modal_block_dispatcher cfg) is_transient_modal_error now mw0
    = ((exception_result (block_exhausted cfg call), t0, t1, False), mw3)"
  proof (rule retry_fatal)
  show "now mw0 = (t0, mw1)" by (rule assms(2))
  show "modal_block_dispatcher cfg call mw1 = (Inl (block_exhausted cfg call), mw2)" by (rule assms(1))
  show "\<not> is_transient_modal_error (block_exhausted cfg call)" by (simp add: block_exhausted_def)
  show "now mw2 = (t1, mw3)" by (rule assms(3))
qed

section \<open>Metadata from the driver to the aggregator\<close>

lemma map_of_set_attr:
  "map_of (set_attr fstr (attr, v) md) k =
     (if v \<noteq> None \<and> k = attr then map_option fstr v else map_of md k)"
  by (simp add: set_attr_def update_conv' split: option.split)

lemma map_of_rpc_metadata:
  "map_of (rpc_metadata fstr r) k =
     (let base = map_of (case rr_timing_payload r of None \<Rightarrow> [] | Some p \<Rightarrow> payload_entries p) k
      in case rr_engine_cost r of None \<Rightarrow> base
         | Some ec \<Rightarrow> (case map_of (engine_attrs ec) k of
                          Some (Some x) \<Rightarrow> Some (fstr x) | _ \<Rightarrow> base))"
  by (auto simp: rpc_metadata_def Let_def engine_attrs_def map_of_set_attr split: option.split)

lemma map_of_payload_entries:
  "distinct (map fst p) \<Longrightarrow> map_of (payload_entries p) k = Option.bind (map_of p k) payload_str"
proof (induction p)
  case (Cons e p)
  obtain k' v where e: "e = (k', v)" by fastforce
  have none: "map_of p k' = None" using Cons.prems e by (simp add: map_of_eq_None_iff)
  have step: "payload_entries (e # p) =
      (case payload_str v of None \<Rightarrow> payload_entries p | Some s \<Rightarrow> (k', s) # payload_entries p)"
    by (simp add: payload_entries_def e map_filter_Cons split: option.split)
  show ?case unfolding step using Cons none e by (auto split: option.split)
qed (simp add: payload_entries_def)

lemma distinct_checkpoint_fields: "distinct (map fst (checkpoint_fields c))"
  by (simp add: checkpoint_fields_def)

lemma map_of_checkpoint_metadata:
  assumes "rr_timing_payload x = Some (checkpoint_fields c)"
    and "k \<notin> {''engine_tpot_ms'', ''engine_ttft_ms'', ''engine_forward_ms''}"
  shows "map_of (rpc_metadata fstr x) k = Option.bind (map_of (checkpoint_fields c) k) payload_str"
  using assms by (auto simp: map_of_rpc_metadata Let_def engine_attrs_def
      map_of_payload_entries[OF distinct_checkpoint_fields] split: option.split)

lemma payload_str_pv_int_option [simp]: "payload_str (pv_int_option v) = map_option str_int v"
  by (cases v) (simp_all add: pv_int_option_def)

lemma parse_int_checkpoint_metadata:
  assumes "rr_timing_payload x = Some (checkpoint_fields c)"
  shows "parse_int (rpc_metadata fstr x) ''handler_entry_ns'' = Some (tc_handler_entry_ns c)"
    and "parse_int (rpc_metadata fstr x) ''pre_engine_ns'' = Some (tc_pre_engine_ns c)"
    and "parse_int (rpc_metadata fstr x) ''engine_arrival_ns'' = Some (tc_engine_arrival_ns c)"
    and "parse_int (rpc_metadata fstr x) ''engine_queued_ns'' = Some (tc_engine_queued_ns c)"
    and "parse_int (rpc_metadata fstr x) ''engine_scheduled_ns'' = Some (tc_engine_scheduled_ns c)"
    and "parse_int (rpc_metadata fstr x) ''engine_first_token_ns'' = Some (tc_engine_first_token_ns c)"
    and "parse_int (rpc_metadata fstr x) ''pre_engine_wall_ns'' = tc_pre_engine_wall_ns c"
    and "parse_int (rpc_metadata fstr x) ''first_chunk_mono_ns'' = tc_first_chunk_mono_ns c"
  by (simp_all add: parse_int_def map_of_checkpoint_metadata[OF assms] checkpoint_fields_def
      py_int_str_int split: option.split)

lemma parse_float_tpot_metadata:
  assumes "rr_engine_cost x = Some ec" "engine_tpot_ms ec = Some t" "py_float (fstr t) = Some t"
  shows "parse_float (rpc_metadata fstr x) ''engine_tpot_ms'' = Some t"
  using assms by (simp add: parse_float_def map_of_rpc_metadata engine_attrs_def)

text \<open>
  The segment samples the aggregator computes from the metadata are the segments of the
  checkpoints the RPCs carried; the engine segments are those of the RPCs with engine stamps.
\<close>

lemma seg_ab_samples_checkpoints:
  assumes "list_all2 (\<lambda>x c. rr_timing_payload x = Some (checkpoint_fields c)) xs cs"
  shows "seg_ab_samples (map (rpc_metadata fstr) xs) = map (\<lambda>c. sd_ab_ms (delta_from_checkpoint c)) cs"
  using assms
  by (induction rule: list_all2_induct)
    (simp_all add: parse_int_checkpoint_metadata delta_from_checkpoint_def)

lemma engine_seg_samples_checkpoints:
  assumes "list_all2 (\<lambda>x c. rr_timing_payload x = Some (checkpoint_fields c)) xs cs"
    and "\<forall>c \<in> set cs. has_engine_stats c"
  shows "engine_seg_samples (map (rpc_metadata fstr) xs) =
    (map (\<lambda>c. the (sd_queue_ms (delta_from_checkpoint c))) cs,
     map (\<lambda>c. the (sd_prefill_ms (delta_from_checkpoint c))) cs)"
proof -
  have q: "the (sd_queue_ms (delta_from_checkpoint c)) = ns_to_ms (tc_engine_scheduled_ns c - tc_engine_queued_ns c)"
    "the (sd_prefill_ms (delta_from_checkpoint c)) = ns_to_ms (tc_engine_first_token_ns c - tc_engine_scheduled_ns c)"
    if "has_engine_stats c" for c
    using that by (simp_all add: delta_from_checkpoint_def)
  show ?thesis using assms
    by (induction rule: list_all2_induct)
      (simp_all add: parse_int_checkpoint_metadata q, simp add: has_engine_stats_def or_zero_def Let_def)
qed

lemma cell_of_embed_c1:
  "cell_from_cell_id (cell_id_of Embed 1)
     = Inr \<lparr>cell_path = Embed, cell_hidden_size = 4096, cell_concurrency = 1\<rparr>"
  by (simp add: cell_from_cell_id_def CELLS_def)

text \<open>What the aggregation loop makes of successful RPCs that all carry a checkpoint.\<close>

lemma checkpoint_metadata_nonempty:
  "rr_timing_payload x = Some (checkpoint_fields c) \<Longrightarrow> rpc_metadata fstr x \<noteq> []"
  using parse_int_checkpoint_metadata(1)[of x c fstr] by (auto simp: parse_int_def)

lemma collect_checkpoints:
  assumes "list_all2 (\<lambda>x c. rr_success x \<and> rr_wall_clock_ms x \<noteq> None
      \<and> rr_timing_payload x = Some (checkpoint_fields c)) xs cs" "xs \<noteq> []"
  shows "collect_results fstr (map Inr xs) =
    \<lparr>br_timings_ms = map (\<lambda>x. the (rr_wall_clock_ms x)) xs, br_failed_reason = None,
     br_per_rpc_metadata = map (rpc_metadata fstr) xs\<rparr>"
proof -
  have a: "anchor_timings (Inr x # rs) = the (rr_wall_clock_ms x) # anchor_timings rs"
    and b: "successful (Inr x) = Some x"
    if "rr_success x" "rr_wall_clock_ms x \<noteq> None" for x rs
    using that by (auto simp: anchor_timings_def successful_def)
  have nil: "anchor_timings [] = []" by (simp add: anchor_timings_def)
  have "anchor_timings (map Inr xs) = map (\<lambda>x. the (rr_wall_clock_ms x)) xs
      \<and> List.map_filter successful (map Inr xs) = xs
      \<and> filter (\<lambda>md. md \<noteq> []) (map (rpc_metadata fstr) xs) = map (rpc_metadata fstr) xs"
    using assms(1)
    by (induction rule: list_all2_induct)
      (simp_all add: a b map_filter_Cons checkpoint_metadata_nonempty nil)
  then show ?thesis using assms(2) by (simp add: collect_results_eq)
qed

end
