(* ===== verification/Concrete_Run.thy ===== *)
theory Concrete_Run
  imports Resume_Laws Dispatch_Laws
begin

text \<open>
  One concrete sweep: the stub dispatchers of the harness on a corpus of one prompt and one
  tensor, the single cap 10, and clocks that stand still. It shows that the hypotheses of the
  sweep's theorems hold together.
\<close>

definition demo_chat :: request_sample where
  "demo_chat = \<lparr>rs_id = ''p0'', rs_messages = [[(''role'', ''user''), (''content'', ''hello'')]],
     rs_model = ''m'', rs_max_tokens = 10, rs_temperature = 0, rs_seed = 0, rs_bucket = ''short''\<rparr>"

definition demo_embed :: completion_embed_sample where
  "demo_embed = \<lparr>es_id = 0, es_tensor_bytes = ''t'', es_max_tokens = 10, es_seed = 0,
     es_seq_len = 1, es_bucket = ''short''\<rparr>"

definition demo_inputs :: "measurement_point list option \<Rightarrow> (nat, unit) sweep_inputs" where
  "demo_inputs pre =
     \<lparr>si_sweep_mode = Validate, si_n = 2, si_axis = [10], si_base_seed = 42,
      si_chat_corpus = [demo_chat], si_embed_corpus = [demo_embed],
      si_dispatcher = stub_dispatcher (\<lambda>_. 7) (\<lambda>_. 7), si_anchor_dispatcher = stub_anchor (\<lambda>_. 7),
      si_is_transient = stub_is_transient, si_topology_probe = None, si_checkpoint = True,
      si_preloaded_measurements = pre, si_preloaded_anchors = None,
      si_wall_clock_start_override = None,
      si_now = (\<lambda>w. (''2026-01-01T00:00:00Z'', w)), si_time = (\<lambda>w. (0, w)), si_digest = (\<lambda>s. s)\<rparr>"

lemma demo_inputs_simps [simp]:
  "si_axis (demo_inputs pre) = [10]" "si_checkpoint (demo_inputs pre)"
  "si_preloaded_measurements (demo_inputs pre) = pre" "si_preloaded_anchors (demo_inputs pre) = None"
  "preloaded (demo_inputs pre) = (case pre of None \<Rightarrow> [] | Some ms \<Rightarrow> ms)"
  by (simp_all add: demo_inputs_def preloaded_def)

lemma demo_axis: "set (si_axis (demo_inputs pre)) \<subseteq> set MAX_TOKENS_AXIS"
  by (simp add: MAX_TOKENS_AXIS_def)

lemma demo_usable: "usable_corpora (demo_inputs pre)"
  by (simp add: usable_corpora_def demo_inputs_def demo_chat_def dict_item_def)

lemma demo_anchor_never_fails: "\<not> anchor_fails (demo_inputs pre) e"
  by (simp add: anchor_fails_def demo_inputs_def stub_anchor_def Let_def)

lemma demo_returns: "\<exists>out st'. run_sweep (demo_inputs pre) w0 c0 = (Inr out, st')"
  by (rule run_sweep_returns[OF demo_axis demo_usable demo_anchor_never_fails])

lemma demo_monotone: "monotone_world (\<lambda>_. ''2026-01-01T00:00:00Z'') (demo_inputs pre)"
  by (simp add: monotone_world_def demo_inputs_def)

definition demo_header :: checkpoint_header where
  "demo_header = \<lparr>ch_schema_version = RESUME_SCHEMA_VERSION, ch_run_id = ''r0'',
     ch_run_started_at = ''2026-01-01T00:00:00Z'', ch_sweep_mode = ''validate'', ch_n_per_point = 2,
     ch_axis = [10], ch_base_seed = 42, ch_model_identifier = ''m'', ch_modal_region = ''eu'',
     ch_git_sha = ''0'', ch_chat_corpus_sha256 = ''1'', ch_embed_corpus_sha256 = ''2''\<rparr>"

lemma demo_header_schema [simp]: "ch_schema_version demo_header = RESUME_SCHEMA_VERSION"
  by (simp add: demo_header_def)

end
