(* ===== verification/Crossover.thy ===== *)
theory Crossover
  imports Sweep_Types Resume "HOL-Library.Product_Lexorder"
begin

text \<open>
  \<open>crossover.py\<close>: from which cap on the published winner and runner-up of a cell can no longer
  be told apart, and whether the sub-probe's wall-clock ratio infers KV-cache pressure. Nested
  dicts are nested association lists.
\<close>

section \<open>Winner and runner-up\<close>

record cohort_baseline =
  cb_wall_p50_ms :: real
  cb_ci_half_width :: real

definition is_inconclusive_verdict :: "string \<Rightarrow> bool" where
  "is_inconclusive_verdict verdict \<longleftrightarrow>
     List.member [''inconclusive''] verdict \<or> starts_with ''inconclusive'' verdict"

definition identify_winner_and_second ::
  "(cohort \<times> cohort_baseline) list \<Rightarrow> (cohort \<times> cohort) option" where
  "identify_winner_and_second baseline =
     (if length baseline < 2 then None
      else let ordered = sort_key (\<lambda>(c, b). (cb_wall_p50_ms b, c)) baseline
           in Some (fst (ordered ! 0), fst (ordered ! 1)))"

section \<open>The symmetric rule\<close>

definition symmetric_mean_in_ci :: "measurement_point \<Rightarrow> measurement_point \<Rightarrow> bool" where
  "symmetric_mean_in_ci a b =
     (case (mp_wall_p50_ms a, mp_wall_p50_ms b, mp_wall_p50_ci a, mp_wall_p50_ci b) of
        (Some pa, Some pb, Some ca, Some cb) \<Rightarrow>
          (let a_lo = pa - ca; a_hi = pa + ca; b_lo = pb - cb; b_hi = pb + cb
           in (b_lo \<le> pa \<and> pa \<le> b_hi) \<or> (a_lo \<le> pb \<and> pb \<le> a_hi))
      | _ \<Rightarrow> False)"

section \<open>Crossover of a cell\<close>

type_synonym axis_rows = "(int \<times> measurement_point) list"
type_synonym cell_rows = "(cohort \<times> axis_rows) list"

text \<open>The loop over the axis: the first cap where both rows are there and overlap.\<close>

fun first_overlap ::
  "axis_rows \<Rightarrow> axis_rows \<Rightarrow> int list \<Rightarrow> (int \<times> measurement_point \<times> measurement_point) option" where
  "first_overlap wrows srows [] = None"
| "first_overlap wrows srows (mt # axis) =
     (case (map_of wrows mt, map_of srows mt) of
        (Some w, Some s) \<Rightarrow>
          if symmetric_mean_in_ci w s then Some (mt, w, s) else first_overlap wrows srows axis
      | _ \<Rightarrow> first_overlap wrows srows axis)"

definition value_or_zero :: "real option \<Rightarrow> real" where
  "value_or_zero x = (case x of None \<Rightarrow> 0 | Some v \<Rightarrow> v)"

definition get_or_empty :: "('k \<times> 'v list) list \<Rightarrow> 'k \<Rightarrow> 'v list" where
  "get_or_empty = dict_get_list"

definition crossover_of_cell ::
  "int list \<Rightarrow> (string \<times> cell_rows) list \<Rightarrow> (string \<times> (cohort \<times> cohort_baseline) list) list
     \<Rightarrow> string \<Rightarrow> string \<Rightarrow> crossover_threshold" where
  "crossover_of_cell axis rows baselines cid verdict =
     (if is_inconclusive_verdict verdict then
        \<lparr>ct_cell_id = cid, ct_winner = None, ct_second = None, ct_crossover_max_tokens = None,
         ct_evidence = Evidence_Base_Inconclusive, ct_base_verdict = verdict\<rparr>
      else case identify_winner_and_second (get_or_empty baselines cid) of
        None \<Rightarrow>
          \<lparr>ct_cell_id = cid, ct_winner = None, ct_second = None, ct_crossover_max_tokens = None,
           ct_evidence = Evidence_Too_Few_Cohorts, ct_base_verdict = verdict\<rparr>
      | Some (winner, second) \<Rightarrow>
          (let per_cohort = get_or_empty rows cid
           in case first_overlap (get_or_empty per_cohort winner) (get_or_empty per_cohort second)
                     axis of
                None \<Rightarrow>
                  \<lparr>ct_cell_id = cid, ct_winner = Some winner, ct_second = Some second,
                   ct_crossover_max_tokens = None, ct_evidence = Evidence_Survives,
                   ct_base_verdict = verdict\<rparr>
              | Some (mt, w, s) \<Rightarrow>
                  \<lparr>ct_cell_id = cid, ct_winner = Some winner, ct_second = Some second,
                   ct_crossover_max_tokens = Some mt,
                   ct_evidence =
                     (if mt = hd axis then Evidence_Not_Robust
                      else Evidence_Overlap (value_or_zero (mp_wall_p50_ms w))
                             (value_or_zero (mp_wall_p50_ci w)) (value_or_zero (mp_wall_p50_ms s))
                             (value_or_zero (mp_wall_p50_ci s)) mt),
                   ct_base_verdict = verdict\<rparr>))"

definition compute_per_cell_crossover ::
  "(string \<times> cell_rows) list \<Rightarrow> (string \<times> (cohort \<times> cohort_baseline) list) list
     \<Rightarrow> (string \<times> string) list \<Rightarrow> sweep_mode \<Rightarrow> crossover_threshold list" where
  "compute_per_cell_crossover rows baselines verdicts mode =
     (let axis = (if mode = Validate then VALIDATE_MAX_TOKENS_AXIS else MAX_TOKENS_AXIS)
      in map (\<lambda>(cid, v). crossover_of_cell axis rows baselines cid v) verdicts)"

section \<open>KV-pressure inference\<close>

record sub_probe_block_result =
  sp_cohort :: cohort
  sp_cell_type :: path
  sp_max_tokens :: int
  sp_n_rpcs :: int
  sp_wall_p50_ms :: "real option"
  sp_wall_p95_ms :: "real option"
  sp_failed_reason :: "string option"
  sp_kv_peak :: "real option"
  sp_stall :: "string option"
  sp_block_start_utc :: string
  sp_block_end_utc :: string
  sp_retry_attempted :: bool

primrec sub_probe_prompt_source_for :: "path \<Rightarrow> prompt_source" where
  "sub_probe_prompt_source_for Chat_Stream = Corpus_Sharegpt"
| "sub_probe_prompt_source_for Embed = Corpus_Sharegpt_Embed"

primrec kv_inferred :: "path \<Rightarrow> wall_clock_label" where
  "kv_inferred Chat_Stream = Kv_Pressure_Inferred_Chat_Stream"
| "kv_inferred Embed = Kv_Pressure_Inferred_Embed"

definition sp_bucket ::
  "sub_probe_block_result list \<Rightarrow> path \<Rightarrow> cohort \<Rightarrow> int \<Rightarrow> sub_probe_block_result option" where
  "sp_bucket rows t c mt =
     map_of (map (\<lambda>r. ((sp_cell_type r, sp_cohort r, sp_max_tokens r), r)) (rev rows)) (t, c, mt)"

definition row_oom :: "sub_probe_block_result option \<Rightarrow> bool" where
  "row_oom r = (case r of None \<Rightarrow> False
     | Some row \<Rightarrow> ends_with ''oom'' (str_lower (case sp_failed_reason row of None \<Rightarrow> '''' | Some s \<Rightarrow> s)))"

definition kv_observation ::
  "sub_probe_block_result list \<Rightarrow> path \<Rightarrow> cohort \<Rightarrow> kv_pressure_observation py_result" where
  "kv_observation rows t c =
     (let r1 = sp_bucket rows t c 1024; r2 = sp_bucket rows t c 2048; oom = row_oom r2;
          p1 = Option.bind r1 sp_wall_p50_ms; p2 = Option.bind r2 sp_wall_p50_ms
      in bind_result
           (case (p1, p2) of
              (Some a, Some b) \<Rightarrow>
                if a = 0 then Inl zero_division_error
                else Inr (Some (b / a),
                          if oom then Kv_Pressure_Not_Observable
                          else if b / a > KV_PRESSURE_THRESHOLD then kv_inferred t
                          else Kv_Pressure_Not_Observable)
            | _ \<Rightarrow> Inr (None, Kv_Pressure_Not_Observable))
           (\<lambda>(ratio, label).
              Inr \<lparr>kv_cohort = c, kv_cell_type = t, kv_ratio = ratio, kv_label = label,
                   kv_cache_peak = Option.bind r2 sp_kv_peak, kv_stall = Option.bind r2 sp_stall,
                   kv_oom_observed = oom, kv_n_rpcs = SUB_PROBE_N,
                   kv_prompt_source = sub_probe_prompt_source_for t,
                   kv_regime = Forced_Cap_Ignore_Eos_True\<rparr>))"

definition kv_pairs :: "(path \<times> cohort) list" where
  "kv_pairs = concat (map (\<lambda>t. map (\<lambda>c. (t, c)) COHORTS) [Chat_Stream, Embed])"

definition compute_kv_pressure_inference ::
  "sub_probe_block_result list \<Rightarrow> kv_pressure_observation list py_result" where
  "compute_kv_pressure_inference rows = map_result (\<lambda>(t, c). kv_observation rows t c) kv_pairs"

section \<open>Lemmas\<close>

lemma symmetric_mean_in_ci_sym: "symmetric_mean_in_ci a b = symmetric_mean_in_ci b a"
  unfolding symmetric_mean_in_ci_def by (auto simp: Let_def split: option.split)

text \<open>The rule says exactly that the medians are within the larger of the two half-widths.\<close>

lemma symmetric_mean_in_ci_iff:
  "symmetric_mean_in_ci a b \<longleftrightarrow> (\<exists>pa pb ca cb.
     mp_wall_p50_ms a = Some pa \<and> mp_wall_p50_ms b = Some pb
     \<and> mp_wall_p50_ci a = Some ca \<and> mp_wall_p50_ci b = Some cb \<and> \<bar>pa - pb\<bar> \<le> max ca cb)"
proof -
  have "(pb - cb \<le> pa \<and> pa \<le> pb + cb) \<or> (pa - ca \<le> pb \<and> pb \<le> pa + ca)
      \<longleftrightarrow> \<bar>pa - pb\<bar> \<le> max ca cb" for pa pb ca cb :: real
    by (simp add: le_max_iff_disj abs_le_iff) linarith
  then show ?thesis
    unfolding symmetric_mean_in_ci_def by (auto simp: Let_def split: option.split)
qed

lemma first_overlap_Some_iff:
  assumes "distinct axis"
  shows "first_overlap wr sr axis = Some (mt, w, s) \<longleftrightarrow>
     mt \<in> set axis \<and> map_of wr mt = Some w \<and> map_of sr mt = Some s \<and> symmetric_mean_in_ci w s
     \<and> (\<forall>x\<in>set (takeWhile (\<lambda>y. y \<noteq> mt) axis). \<forall>w' s'. map_of wr x = Some w' \<longrightarrow>
           map_of sr x = Some s' \<longrightarrow> \<not> symmetric_mean_in_ci w' s')"
  using assms
  by (induction axis) (auto split: option.splits if_splits)

lemma first_overlap_None_iff:
  "first_overlap wr sr axis = None \<longleftrightarrow>
     (\<forall>x\<in>set axis. \<forall>w s. map_of wr x = Some w \<longrightarrow> map_of sr x = Some s \<longrightarrow> \<not> symmetric_mean_in_ci w s)"
  by (induction axis) (auto split: option.splits)

lemma winner_is_least:
  assumes "identify_winner_and_second bl = Some (w, s)" "distinct (map fst bl)"
  shows "w \<noteq> s \<and> (\<exists>bw bs. (w, bw) \<in> set bl \<and> (s, bs) \<in> set bl
    \<and> cb_wall_p50_ms bw \<le> cb_wall_p50_ms bs
    \<and> (\<forall>c b. (c, b) \<in> set bl \<longrightarrow> c \<noteq> w \<longrightarrow> cb_wall_p50_ms bs \<le> cb_wall_p50_ms b))"
proof -
  let ?k = "\<lambda>(c, b). (cb_wall_p50_ms b, c)"
  let ?o = "sort_key ?k bl"
  have len: "2 \<le> length ?o" and ws: "w = fst (?o ! 0)" "s = fst (?o ! 1)"
    using assms(1) by (auto simp: identify_winner_and_second_def Let_def split: if_split_asm)
  then obtain x y rest where o: "?o = x # y # rest"
    by (cases ?o; cases "tl ?o") auto
  obtain bw where x: "x = (w, bw)" using ws o by (cases x) simp
  obtain bs where y: "y = (s, bs)" using ws o by (cases y) simp
  have set_o: "set (x # y # rest) = set bl" using o by (metis set_sort)
  have "sorted (map ?k ?o)" by simp
  then have srt: "sorted (map ?k (x # y # rest))" unfolding o .
  have "distinct (map fst ?o)"
  proof -
    have "mset (map fst ?o) = mset (map fst bl)" by simp
    then show ?thesis using assms(2) by (metis distinct_count_atmost_1 mset_eq_setD)
  qed
  then have ne: "w \<noteq> s" unfolding o x y by auto
  have xy: "cb_wall_p50_ms bw \<le> cb_wall_p50_ms bs"
    using srt unfolding x y by (auto simp: less_eq_prod_def)
  have "cb_wall_p50_ms bs \<le> cb_wall_p50_ms b" if "(c, b) \<in> set bl" "c \<noteq> w" for c b
  proof -
    have "(c, b) = y \<or> (c, b) \<in> set rest" using that set_o x by auto
    then show ?thesis using srt unfolding y by (auto simp: less_eq_prod_def)
  qed
  then show ?thesis using ne xy set_o x y by (metis list.set_intros(1) list.set_intros(2))
qed

lemma length_crossover [simp]:
  "length (compute_per_cell_crossover rows bls vs mode) = length vs"
  by (simp add: compute_per_cell_crossover_def)

lemma kv_pairs_all: "set kv_pairs = UNIV" "distinct kv_pairs" "length kv_pairs = 8"
proof -
  have "(t, c) \<in> set kv_pairs" for t c
    by (cases t; cases c) (simp_all add: kv_pairs_def COHORTS_def)
  then show "set kv_pairs = UNIV" by auto
  show "distinct kv_pairs" "length kv_pairs = 8"
    by (simp_all add: kv_pairs_def COHORTS_def)
qed

lemma kv_observation_fields:
  "kv_observation rows t c = Inr ob \<Longrightarrow> kv_cohort ob = c \<and> kv_cell_type ob = t
     \<and> (kv_label ob = kv_inferred t \<longleftrightarrow>
          \<not> kv_oom_observed ob \<and> (\<exists>r. kv_ratio ob = Some r \<and> 22 / 10 < r))
     \<and> (kv_label ob = kv_inferred t \<or> kv_label ob = Kv_Pressure_Not_Observable)"
  by (cases t) (auto simp: kv_observation_def Let_def bind_result_Inr_iff KV_PRESSURE_THRESHOLD_def
      split: option.split_asm if_split_asm)

lemma kv_observation_raises_iff:
  "(\<exists>e. kv_observation rows t c = Inl e) \<longleftrightarrow>
     Option.bind (sp_bucket rows t c 1024) sp_wall_p50_ms = Some 0
     \<and> Option.bind (sp_bucket rows t c 2048) sp_wall_p50_ms \<noteq> None"
  by (auto simp: kv_observation_def Let_def split: option.split)

section \<open>Properties\<close>

lemma takeWhile_before: "x \<notin> set xs \<Longrightarrow> takeWhile (\<lambda>y. y \<noteq> x) (xs @ x # ys) = xs"
  by (induction xs) auto

text \<open>
  The crossover of a cell is the first cap, in the order of the axis, at which both cohorts
  have a row and their medians are within the larger of the two half-widths; without such a cap
  there is none.
\<close>

theorem crossover_is_first_overlap:
  assumes "distinct axis"
  shows "first_overlap wr sr axis = Some (mt, w, s) \<longleftrightarrow>
     (\<exists>before after. axis = before @ mt # after \<and> map_of wr mt = Some w \<and> map_of sr mt = Some s
        \<and> symmetric_mean_in_ci w s
        \<and> (\<forall>x\<in>set before. \<forall>w' s'. map_of wr x = Some w' \<longrightarrow> map_of sr x = Some s'
             \<longrightarrow> \<not> symmetric_mean_in_ci w' s'))"
proof
  assume "first_overlap wr sr axis = Some (mt, w, s)"
  note f = this[unfolded first_overlap_Some_iff[OF assms]]
  then obtain b a where ba: "axis = b @ mt # a" "mt \<notin> set b" by (meson split_list_first)
  then have "takeWhile (\<lambda>y. y \<noteq> mt) axis = b" using takeWhile_before[OF ba(2)] by metis
  then show "\<exists>before after. axis = before @ mt # after \<and> map_of wr mt = Some w \<and> map_of sr mt = Some s
        \<and> symmetric_mean_in_ci w s
        \<and> (\<forall>x\<in>set before. \<forall>w' s'. map_of wr x = Some w' \<longrightarrow> map_of sr x = Some s'
             \<longrightarrow> \<not> symmetric_mean_in_ci w' s')"
    using f ba by blast
next
  assume "\<exists>before after. axis = before @ mt # after \<and> map_of wr mt = Some w \<and> map_of sr mt = Some s
        \<and> symmetric_mean_in_ci w s
        \<and> (\<forall>x\<in>set before. \<forall>w' s'. map_of wr x = Some w' \<longrightarrow> map_of sr x = Some s'
             \<longrightarrow> \<not> symmetric_mean_in_ci w' s')"
  then obtain b a where ba: "axis = b @ mt # a" and rest: "map_of wr mt = Some w" "map_of sr mt = Some s"
    "symmetric_mean_in_ci w s" "\<forall>x\<in>set b. \<forall>w' s'. map_of wr x = Some w' \<longrightarrow> map_of sr x = Some s'
             \<longrightarrow> \<not> symmetric_mean_in_ci w' s'" by blast
  have "mt \<notin> set b" using assms ba by simp
  then have "takeWhile (\<lambda>y. y \<noteq> mt) axis = b" unfolding ba by (rule takeWhile_before)
  then show "first_overlap wr sr axis = Some (mt, w, s)"
    unfolding first_overlap_Some_iff[OF assms] using rest ba by simp
qed

theorem crossover_is_first_overlap_witness:
  "\<forall>w s. first_overlap [] [] [10, 50] \<noteq> Some (10, w, s)"
  using crossover_is_first_overlap[of "[10, 50]" "[]" "[]" 10] by simp

text \<open>
  The KV-pressure inference of a (cell type, cohort) pair: it labels the pair with inferred
  pressure exactly when the 2048-token bucket did not run out of memory and its median exceeds the
  1024-token bucket's by a factor above 2.2; and it raises exactly when both medians are there and
  the smaller bucket's is zero.
\<close>

theorem kv_inference_exact:
  "(case kv_observation rows t c of
      Inr ob \<Rightarrow> kv_cohort ob = c \<and> kv_cell_type ob = t
        \<and> (kv_label ob = kv_inferred t
             \<longleftrightarrow> \<not> kv_oom_observed ob \<and> (\<exists>r. kv_ratio ob = Some r \<and> 22 / 10 < r))
        \<and> (kv_label ob = kv_inferred t \<or> kv_label ob = Kv_Pressure_Not_Observable)
    | Inl e \<Rightarrow> Option.bind (sp_bucket rows t c 1024) sp_wall_p50_ms = Some 0
        \<and> Option.bind (sp_bucket rows t c 2048) sp_wall_p50_ms \<noteq> None)
   \<and> (isl (kv_observation rows t c) \<longleftrightarrow> Option.bind (sp_bucket rows t c 1024) sp_wall_p50_ms = Some 0
        \<and> Option.bind (sp_bucket rows t c 2048) sp_wall_p50_ms \<noteq> None)"
proof -
  have raises: "isl (kv_observation rows t c) \<longleftrightarrow> Option.bind (sp_bucket rows t c 1024) sp_wall_p50_ms = Some 0
        \<and> Option.bind (sp_bucket rows t c 2048) sp_wall_p50_ms \<noteq> None"
    using kv_observation_raises_iff by (metis isl_def)
  show ?thesis
  proof (cases "kv_observation rows t c")
    case (Inl e)
    then show ?thesis using raises by simp
  next
    case (Inr ob)
    then show ?thesis using raises kv_observation_fields[OF Inr] by simp blast
  qed
qed

end
