(* ===== verification/Baseline.thy ===== *)
theory Baseline
  imports Crossover Anchor Iteration
begin

text \<open>
  What \<open>validate.py\<close> reads from the published M6.1.3 artifact: the per-cell cohort baselines, the
  classifier labels, the drift threshold and the p50 of the anchor cell, and the null-anchor table
  built from them. The artifact is \<open>None\<close> when its file is missing or is not JSON. Its entries
  are keyed by the cell and by the name of a cohort; an entry under a name that is not one of
  \<open>COHORTS\<close> is left out.
\<close>

section \<open>Reading JSON\<close>

abbreviation attribute_error :: "string \<Rightarrow> py_exn" where
  "attribute_error m \<equiv> Exn ''AttributeError'' m"

text \<open>The receiver of \<open>.get\<close> or \<open>.items\<close>, and \<open>v or {}\<close>.\<close>

definition as_dict :: "json \<Rightarrow> json_dict py_result" where
  "as_dict v = (case v of JObj d \<Rightarrow> Inr d | _ \<Rightarrow> Inl (attribute_error ''object has no attribute get''))"

definition or_empty_dict :: "json \<Rightarrow> json" where
  "or_empty_dict v = (if json_truthy v then v else JObj [])"

definition cohort_key :: "json \<Rightarrow> cohort option" where
  "cohort_key v = (case v of JStr s \<Rightarrow> or_none (cohort_of_name s) | _ \<Rightarrow> None)"

text \<open>\<open>v < 2\<close>: only numbers compare.\<close>

definition less_than_two :: "json \<Rightarrow> bool py_result" where
  "less_than_two v = (case v of
     JInt i \<Rightarrow> Inr (i < 2) | JFloat x \<Rightarrow> Inr (x < 2) | JBool b \<Rightarrow> Inr True
   | _ \<Rightarrow> Inl (type_error ''not supported between instances''))"

fun fold_result :: "('a \<Rightarrow> 'b \<Rightarrow> 'b py_result) \<Rightarrow> 'a list \<Rightarrow> 'b \<Rightarrow> 'b py_result" where
  "fold_result f [] b = Inr b"
| "fold_result f (x # xs) b = bind_result (f x b) (fold_result f xs)"

section \<open>Cohort baselines\<close>

type_synonym cell_baselines = "(string \<times> (cohort \<times> cohort_baseline) list) list"

definition put_baseline :: "string \<Rightarrow> cohort \<Rightarrow> cohort_baseline \<Rightarrow> cell_baselines \<Rightarrow> cell_baselines" where
  "put_baseline cid co b bs = AList.update cid (AList.update co b (get_or_empty bs cid)) bs"

definition store_mean :: "json \<Rightarrow> cohort option \<Rightarrow> real \<Rightarrow> cell_baselines \<Rightarrow> cell_baselines" where
  "store_mean cid co w bs = (case (cid, co) of
     (JStr c, Some k) \<Rightarrow> put_baseline c k \<lparr>cb_wall_p50_ms = w, cb_ci_half_width = 0\<rparr> bs
   | _ \<Rightarrow> bs)"

definition add_measurement_baseline :: "json \<Rightarrow> cell_baselines \<Rightarrow> cell_baselines py_result" where
  "add_measurement_baseline m bs =
     bind_result (as_dict m) (\<lambda>d.
       let cid = json_get d ''cell_id''; co = json_get d ''cohort'';
           wall_mean = json_get d ''wall_clock_ms_mean''
       in if cid = JNull \<or> co = JNull \<or> wall_mean = JNull then Inr bs
          else bind_result (json_float wall_mean) (\<lambda>w.
            Inr (store_mean cid (cohort_key co) w bs)))"

text \<open>
  The half-width from a variance entry: \<open>None\<close> where the loop goes on to the next one. The
  argument is the value of \<open>n_runs\<close> when the entry has none.
\<close>

definition variance_half_width :: "json \<Rightarrow> json_dict \<Rightarrow> real option py_result" where
  "variance_half_width default_runs var =
     (let stddev = json_get var ''stddev_of_means_ms'';
          n_runs = (case map_of var ''n_runs'' of None \<Rightarrow> default_runs | Some v \<Rightarrow> v)
      in if stddev = JNull \<or> n_runs = JNull then Inr None
         else bind_result (less_than_two n_runs) (\<lambda>few.
           if few then Inr None
           else case (json_float stddev, json_float n_runs) of
                  (Inr s, Inr n) \<Rightarrow> Inr (Some ((196 / 100) * s / sqrt n))
                | _ \<Rightarrow> Inr None))"

definition enrich_baseline :: "string \<Rightarrow> string \<times> json \<Rightarrow> cell_baselines \<Rightarrow> cell_baselines py_result" where
  "enrich_baseline cid kv bs =
     bind_result (as_dict (snd kv)) (\<lambda>var.
     bind_result (variance_half_width (JInt 1) var) (\<lambda>half.
       case (half, cohort_key (JStr (fst kv))) of
         (Some h, Some co) \<Rightarrow>
           (case map_of (get_or_empty bs cid) co of
              None \<Rightarrow> Inr bs
            | Some entry \<Rightarrow> Inr (put_baseline cid co
                \<lparr>cb_wall_p50_ms = cb_wall_p50_ms entry, cb_ci_half_width = h\<rparr> bs))
       | _ \<Rightarrow> Inr bs))"

definition enrich_cell :: "string \<times> json \<Rightarrow> cell_baselines \<Rightarrow> cell_baselines py_result" where
  "enrich_cell kv bs =
     bind_result (as_dict (or_empty_dict (snd kv))) (\<lambda>per_cohort.
       fold_result (enrich_baseline (fst kv)) per_cohort bs)"

definition base_verdicts_of :: "json_dict \<Rightarrow> (string \<times> string) list" where
  "base_verdicts_of labels =
     List.map_filter (\<lambda>(cid, v). case v of JStr s \<Rightarrow> Some (cid, s) | _ \<Rightarrow> None) labels"

definition load_m6_1_3_baseline ::
  "json option \<Rightarrow> (cell_baselines \<times> (string \<times> string) list) py_result" where
  "load_m6_1_3_baseline artifact = (case artifact of
     None \<Rightarrow> Inr ([], [])
   | Some data \<Rightarrow>
       bind_result (as_dict data) (\<lambda>d.
       bind_result (case map_of d ''measurements'' of None \<Rightarrow> Inr [] | Some v \<Rightarrow> json_iter v) (\<lambda>ms.
       bind_result (fold_result add_measurement_baseline ms []) (\<lambda>bs.
       bind_result (as_dict (or_empty_dict (json_get d ''between_run_variance''))) (\<lambda>variance.
       bind_result (fold_result enrich_cell variance bs) (\<lambda>bs'.
       bind_result (as_dict (or_empty_dict (json_get d ''classifications''))) (\<lambda>labels.
         Inr (bs', base_verdicts_of labels))))))))"

section \<open>The anchor cell\<close>

definition anchor_cell_entry :: "json \<Rightarrow> string \<Rightarrow> json_dict py_result" where
  "anchor_cell_entry data key =
     bind_result (as_dict data) (\<lambda>d.
     bind_result (as_dict (or_empty_dict (json_get d key))) (\<lambda>cells.
       as_dict (or_empty_dict (json_get cells ''chat_stream_c1''))))"

definition add_half_width :: "string \<times> json \<Rightarrow> real list \<Rightarrow> real list py_result" where
  "add_half_width kv halves = (case snd kv of
     JObj var \<Rightarrow> bind_result (variance_half_width JNull var) (\<lambda>half.
       case half of None \<Rightarrow> Inr halves | Some h \<Rightarrow> Inr (halves @ [h]))
   | _ \<Rightarrow> Inr halves)"

definition max_or :: "real \<Rightarrow> real list \<Rightarrow> real" where
  "max_or fallback xs = (if xs = [] then fallback else Max (set xs))"

definition derive_anchor_drift_threshold :: "json option \<Rightarrow> real py_result" where
  "derive_anchor_drift_threshold artifact = (case artifact of
     None \<Rightarrow> Inr 5
   | Some data \<Rightarrow>
       bind_result (anchor_cell_entry data ''between_run_variance'') (\<lambda>brv.
       bind_result (fold_result add_half_width brv []) (\<lambda>halves. Inr (max_or 5 halves))))"

definition add_wall_p50 :: "string \<times> json \<Rightarrow> real list \<Rightarrow> real list" where
  "add_wall_p50 kv p50s = (case snd kv of
     JObj cohort_data \<Rightarrow>
       (case (let row = json_get cohort_data ''10'' in if json_truthy row then row else JObj cohort_data) of
          JObj row \<Rightarrow>
            (let wall = json_get row ''wall_p50_ms''
             in if wall = JNull then p50s
                else case json_float wall of Inl _ \<Rightarrow> p50s | Inr x \<Rightarrow> p50s @ [x])
        | _ \<Rightarrow> p50s)
   | _ \<Rightarrow> p50s)"

definition derive_anchor_baseline_p50_ms :: "json option \<Rightarrow> real py_result" where
  "derive_anchor_baseline_p50_ms artifact = (case artifact of
     None \<Rightarrow> Inr 0
   | Some data \<Rightarrow>
       bind_result (anchor_cell_entry data ''per_cell'') (\<lambda>per_cell.
         Inr (max_or 0 (fold add_wall_p50 per_cell []))))"

section \<open>Null anchors\<close>

primrec cross_checkable_max_tokens :: "path \<Rightarrow> int" where
  "cross_checkable_max_tokens Chat_Stream = 50"
| "cross_checkable_max_tokens Embed = 10"

definition anchor_rows :: "measurement_point list \<Rightarrow> (block_key \<times> measurement_point) list" where
  "anchor_rows ms = fold (\<lambda>p. AList.update (mp_key p) p)
     (filter (\<lambda>p. List.member NULL_ANCHOR_MAX_TOKENS (mp_max_tokens p)) ms) []"

definition null_anchor_at ::
  "(block_key \<times> measurement_point) list \<Rightarrow> cell_baselines \<Rightarrow> path \<Rightarrow> string \<Rightarrow> cohort \<Rightarrow> int
     \<Rightarrow> null_anchor" where
  "null_anchor_at rows baselines p cid co mt =
     (let point = map_of rows (cid, co, mt);
          p50 = Option.bind point mp_wall_p50_ms;
          entry = (if mt = cross_checkable_max_tokens p then map_of (get_or_empty baselines cid) co
                   else None)
      in case entry of
           None \<Rightarrow> make_new_baseline_anchor cid co mt p50
         | Some b \<Rightarrow>
             if cb_ci_half_width b > 0
             then make_null_anchor cid co mt p50 (cb_wall_p50_ms b) (cb_ci_half_width b)
                    (value_or_zero (Option.bind point mp_wall_p50_ci))
             else make_new_baseline_anchor cid co mt p50)"

definition null_anchor_keys :: "(path \<times> string \<times> cohort \<times> int) list" where
  "null_anchor_keys = concat (map (\<lambda>(p, _, c). concat (map (\<lambda>co.
     map (\<lambda>mt. (p, cell_id_of p c, co, mt)) NULL_ANCHOR_MAX_TOKENS) COHORTS)) CELLS)"

definition make_null_anchor_validation ::
  "measurement_point list \<Rightarrow> cell_baselines \<Rightarrow> null_anchor list" where
  "make_null_anchor_validation ms baselines =
     map (\<lambda>(p, cid, co, mt). null_anchor_at (anchor_rows ms) baselines p cid co mt) null_anchor_keys"

section \<open>Lemmas\<close>

lemma length_null_anchor_validation: "length (make_null_anchor_validation ms bs) = 48"
  by (simp add: make_null_anchor_validation_def null_anchor_keys_def CELLS_def COHORTS_def
      NULL_ANCHOR_MAX_TOKENS_def)

definition na_key :: "null_anchor \<Rightarrow> block_key" where
  "na_key a = (na_cell_id a, na_cohort a, na_max_tokens a)"

lemma na_key_null_anchor_at: "na_key (null_anchor_at rows bs p cid co mt) = (cid, co, mt)"
  by (simp add: null_anchor_at_def na_key_def make_null_anchor_def make_new_baseline_anchor_def
      Let_def split: option.split)

lemma na_keys:
  "map na_key (make_null_anchor_validation ms bs) = map (\<lambda>(p, cid, co, mt). (cid, co, mt)) null_anchor_keys"
  by (auto simp: make_null_anchor_validation_def na_key_null_anchor_at split: prod.split)

text \<open>An anchor is checked against M6.1.3 exactly when a baseline with a spread is there for it.\<close>

lemma cross_checked_iff:
  "\<not> na_new_baseline (null_anchor_at rows bs p cid co mt) \<longleftrightarrow>
     mt = cross_checkable_max_tokens p
     \<and> (\<exists>b. map_of (get_or_empty bs cid) co = Some b \<and> 0 < cb_ci_half_width b)"
  by (auto simp: null_anchor_at_def make_null_anchor_def make_new_baseline_anchor_def Let_def
      split: option.split)

lemma length_filter_cross_checked:
  "length (filter (\<lambda>a. \<not> na_new_baseline a) (make_null_anchor_validation ms bs)) \<le> 24"
proof -
  have "length (filter (\<lambda>a. \<not> na_new_baseline a) (make_null_anchor_validation ms bs))
      \<le> length (filter (\<lambda>(p, cid, co, mt). mt = cross_checkable_max_tokens p) null_anchor_keys)"
    unfolding make_null_anchor_validation_def filter_map length_map
    by (rule length_filter_mono) (auto simp: cross_checked_iff)
  also have "\<dots> = 24"
    by (simp add: null_anchor_keys_def CELLS_def COHORTS_def NULL_ANCHOR_MAX_TOKENS_def)
  finally show ?thesis .
qed

text \<open>The drift threshold is the largest half-width read, and the fallback without one.\<close>

lemma max_or_ge: "x \<in> set xs \<Longrightarrow> x \<le> max_or d xs"
  by (auto simp: max_or_def)

lemma max_or_in: "max_or d xs = d \<and> xs = [] \<or> max_or d xs \<in> set xs"
  by (auto simp: max_or_def)

text \<open>An artifact without a \<open>per_cell\<close> block gives a baseline p50 of zero, whatever it measured.\<close>

lemma no_per_cell_baseline_p50:
  "map_of d ''per_cell'' = None \<Longrightarrow> derive_anchor_baseline_p50_ms (Some (JObj d)) = Inr 0"
  by (simp add: derive_anchor_baseline_p50_ms_def anchor_cell_entry_def as_dict_def or_empty_dict_def
      json_get_def max_or_def)

text \<open>Without variance entries every baseline keeps the half-width zero.\<close>

definition zero_width :: "cell_baselines \<Rightarrow> bool" where
  "zero_width bs \<longleftrightarrow> (\<forall>cid co b. map_of (get_or_empty bs cid) co = Some b \<longrightarrow> cb_ci_half_width b = 0)"

lemma get_or_empty_put_baseline:
  "map_of (get_or_empty (put_baseline cid co b bs) c) k =
     (if c = cid \<and> k = co then Some b else map_of (get_or_empty bs c) k)"
  by (simp add: put_baseline_def get_or_empty_def dict_get_list_def update_conv')

lemma zero_width_add_measurement:
  "zero_width bs \<Longrightarrow> add_measurement_baseline m bs = Inr bs' \<Longrightarrow> zero_width bs'"
proof -
  assume z: "zero_width bs" and run: "add_measurement_baseline m bs = Inr bs'"
  have store: "zero_width (store_mean cid co w bs)" for cid co w
    using z by (cases cid; cases co)
      (simp_all add: store_mean_def zero_width_def get_or_empty_put_baseline)
  obtain d where d: "as_dict m = Inr d" using run
    by (auto simp: add_measurement_baseline_def bind_result_Inr_iff)
  show "zero_width bs'"
  proof (cases "json_get d ''cell_id'' = JNull \<or> json_get d ''cohort'' = JNull
      \<or> json_get d ''wall_clock_ms_mean'' = JNull")
    case True
    then show ?thesis using run d z by (simp add: add_measurement_baseline_def Let_def)
  next
    case False
    then show ?thesis using run d store
      by (auto simp: add_measurement_baseline_def Let_def bind_result_Inr_iff)
  qed
qed

lemma zero_width_fold:
  "zero_width bs \<Longrightarrow> fold_result add_measurement_baseline ms bs = Inr bs' \<Longrightarrow> zero_width bs'"
  by (induction ms arbitrary: bs)
    (auto simp: bind_result_Inr_iff intro: zero_width_add_measurement)

lemma no_variance_zero_width:
  assumes "load_m6_1_3_baseline (Some (JObj d)) = Inr (bs, vs)"
    and "map_of d ''between_run_variance'' = None"
  shows "zero_width bs"
proof -
  obtain ms where "fold_result add_measurement_baseline ms [] = Inr bs"
    using assms by (auto simp: load_m6_1_3_baseline_def bind_result_Inr_iff as_dict_def
        or_empty_dict_def json_get_def)
  then show ?thesis
    by (rule zero_width_fold[rotated]) (simp add: zero_width_def get_or_empty_def dict_get_list_def)
qed

section \<open>Property\<close>

text \<open>
  The null-anchor validation always has one row for every cell, cohort and anchor cap, in
  order; a row is checked against the published baseline exactly at the path's cross-checkable cap
  and when the baseline has a positive half-width there, so never more than 24 of the 48.
\<close>

theorem null_anchor_table:
  "map na_key (make_null_anchor_validation ms bs) = map (\<lambda>(p, cid, co, mt). (cid, co, mt)) null_anchor_keys
    \<and> length (make_null_anchor_validation ms bs) = 48
    \<and> (\<not> na_new_baseline (null_anchor_at rows bs p cid co mt) \<longleftrightarrow>
         mt = cross_checkable_max_tokens p
         \<and> (\<exists>b. map_of (get_or_empty bs cid) co = Some b \<and> 0 < cb_ci_half_width b))
    \<and> length (filter (\<lambda>a. \<not> na_new_baseline a) (make_null_anchor_validation ms bs)) \<le> 24"
  using na_keys length_null_anchor_validation cross_checked_iff length_filter_cross_checked by blast

end
