(* ===== verification/Topology.thy ===== *)
theory Topology
  imports Py_Json Bench_Types "HOL-Library.Multiset"
begin

text \<open>
  \<open>network_probe.py\<close>: endpoint URLs, the \<open>tcptraceroute\<close> output, the attribution of an address to
  a cloud provider, and the probe of every cohort. The sockets, the subprocess, the IP-range
  files and the membership test of an address in a prefix are arguments; they answer the same
  question the same way during one probe. The detail texts of skipped cohorts, and the warnings,
  carry no interpolated key or URL.
\<close>

section \<open>Records\<close>

datatype cloud_provider = AWS | Azure | GCP | Unknown_Provider

primrec provider_name :: "cloud_provider \<Rightarrow> string" where
  "provider_name AWS = ''AWS''"
| "provider_name Azure = ''Microsoft Azure''"
| "provider_name GCP = ''GCP''"
| "provider_name Unknown_Provider = ''unknown''"

record topology_hop =
  th_hop_number :: int
  th_ip :: "string option"
  th_rtt_ms :: "real option"
  th_cloud_provider :: "string option"

record topology_path =
  tp_endpoint_ip :: string
  tp_hops :: "topology_hop list"
  tp_cloud_provider :: cloud_provider
  tp_region :: "string option"
  tp_probed_at_utc :: string

datatype probe_error = Tcptraceroute_Unavailable | Probe_Timeout | Subprocess_Error | Parse_Error

record topology_path_error =
  te_error :: probe_error
  te_probed_at_utc :: string
  te_detail :: "string option"

type_synonym topology_entry = "topology_path_error + topology_path"

section \<open>URLs\<close>

text \<open>\<open>s.split(c, 1)[0]\<close> and \<open>s.rsplit(c, 1)\<close>, for a character that occurs.\<close>

definition before_first :: "char \<Rightarrow> string \<Rightarrow> string" where
  "before_first c s = takeWhile (\<lambda>x. x \<noteq> c) s"

definition rsplit1 :: "char \<Rightarrow> string \<Rightarrow> string \<times> string" where
  "rsplit1 c s = (let tl = rev (takeWhile (\<lambda>x. x \<noteq> c) (rev s))
                  in (take (length s - length tl - 1) s, tl))"

definition strip_prefix :: "string \<Rightarrow> string \<Rightarrow> string" where
  "strip_prefix p s = drop (length p) s"

definition host_and_port :: "string \<Rightarrow> (string \<times> int option) py_result" where
  "host_and_port rest =
     (let r = (if List.member rest (CHR ''/'') then before_first (CHR ''/'') rest else rest)
      in if List.member r (CHR '':'') then
           (let (host, port_s) = rsplit1 (CHR '':'') r
            in bind_result (int_of_str port_s) (\<lambda>p. Inr (host, Some p)))
         else Inr (r, None))"

definition parse_url :: "string \<Rightarrow> (string \<times> int option) py_result" where
  "parse_url url =
     (if starts_with ''tcp+plaintext://'' url then host_and_port (strip_prefix ''tcp+plaintext://'' url)
      else if starts_with ''http://'' url then host_and_port (strip_prefix ''http://'' url)
      else if starts_with ''https://'' url then
        (let rest = strip_prefix ''https://'' url
         in if \<not> List.member rest (CHR '':'') then Inr (rest, Some 443) else host_and_port rest)
      else host_and_port url)"

section \<open>Hops\<close>

definition is_line_end :: "char \<Rightarrow> bool" where
  "is_line_end c = (let n = of_char c :: nat in (10 \<le> n \<and> n \<le> 13) \<or> (28 \<le> n \<and> n \<le> 30))"

text \<open>
  \<open>str.splitlines\<close> on ASCII text; \<open>cur\<close> is the line read so far, reversed, and the flag says that
  a carriage return was just read, whose line feed belongs to it.
\<close>

fun splitlines_from :: "string \<Rightarrow> bool \<Rightarrow> string \<Rightarrow> string list" where
  "splitlines_from cur cr [] = (if cur = [] then [] else [rev cur])"
| "splitlines_from cur cr (c # cs) =
     (if cr \<and> of_char c = (10 :: nat) then splitlines_from cur False cs
      else if is_line_end c then rev cur # splitlines_from [] (of_char c = (13 :: nat)) cs
      else splitlines_from (c # cur) False cs)"

definition splitlines :: "string \<Rightarrow> string list" where
  "splitlines = splitlines_from [] False"

text \<open>
  The hop regular expression. Its tokens are delimited by disjoint character classes, so the
  greedy reading below is the only one: hop number, white space, and either an address with an
  optional name in parentheses and a round trip in ms, or an asterisk.
\<close>

definition is_hex_colon :: "char \<Rightarrow> bool" where
  "is_hex_colon c = (is_digit c \<or> c = CHR '':'' \<or> (let n = of_char c :: nat in
     (65 \<le> n \<and> n \<le> 70) \<or> (97 \<le> n \<and> n \<le> 102)))"

fun split_on :: "char \<Rightarrow> string \<Rightarrow> string list" where
  "split_on c [] = [[]]"
| "split_on c (x # xs) = (if x = c then [] # split_on c xs
     else case split_on c xs of [] \<Rightarrow> [[x]] | p # ps \<Rightarrow> (x # p) # ps)"

definition dotted_quad :: "string \<Rightarrow> bool" where
  "dotted_quad s = (let ps = split_on (CHR ''.'') s
     in length ps = 4 \<and> list_all (\<lambda>p. 1 \<le> length p \<and> length p \<le> 3 \<and> list_all is_digit p) ps)"

definition is_ip_token :: "string \<Rightarrow> bool" where
  "is_ip_token s \<longleftrightarrow> dotted_quad s \<or> (s \<noteq> [] \<and> list_all is_hex_colon s)"

text \<open>White space is there; the rest after it.\<close>

definition spaces1 :: "string \<Rightarrow> string option" where
  "spaces1 s = (case s of c # _ \<Rightarrow> if is_space c then Some (dropWhile is_space s) else None | [] \<Rightarrow> None)"

text \<open>\<open>(?:\s+\([^)]*\))?\<close>.\<close>

definition skip_name :: "string \<Rightarrow> string" where
  "skip_name s = (case spaces1 s of
     Some (c # cs) \<Rightarrow>
       if c = CHR ''('' then (case dropWhile (\<lambda>x. x \<noteq> CHR '')'') cs of _ # ds \<Rightarrow> ds | [] \<Rightarrow> s) else s
   | _ \<Rightarrow> s)"

definition read_rtt :: "string \<Rightarrow> string option" where
  "read_rtt s =
     (let ip = takeWhile is_digit s; r1 = dropWhile is_digit s;
          (frac, r2) = (case r1 of
             c # cs \<Rightarrow> if c = CHR ''.'' \<and> takeWhile is_digit cs \<noteq> []
                       then (c # takeWhile is_digit cs, dropWhile is_digit cs) else ([], r1)
           | [] \<Rightarrow> ([], []))
      in if ip \<noteq> [] \<and> starts_with ''ms'' (dropWhile is_space r2) then Some (ip @ frac) else None)"

definition parse_hop_line :: "string \<Rightarrow> topology_hop option" where
  "parse_hop_line line =
     (let s = dropWhile is_space line; num = takeWhile is_digit s; after = dropWhile is_digit s
      in case (digits_val 0 False num, spaces1 after) of
           (Some n, Some rest) \<Rightarrow>
             (let tok = takeWhile (\<lambda>c. \<not> is_space c) rest;
                  tail = dropWhile (\<lambda>c. \<not> is_space c) rest
              in if is_ip_token tok then
                   (case Option.bind (spaces1 (skip_name tail)) read_rtt of
                      Some rtt \<Rightarrow> Some \<lparr>th_hop_number = int n, th_ip = Some tok,
                                        th_rtt_ms = py_float rtt, th_cloud_provider = None\<rparr>
                    | None \<Rightarrow> None)
                 else if starts_with ''*'' rest then
                   Some \<lparr>th_hop_number = int n, th_ip = None, th_rtt_ms = None,
                         th_cloud_provider = None\<rparr>
                 else None)
         | _ \<Rightarrow> None)"

definition parse_tcptraceroute_output :: "string \<Rightarrow> topology_hop list" where
  "parse_tcptraceroute_output stdout = List.map_filter parse_hop_line (splitlines stdout)"

section \<open>Attribution\<close>

text \<open>The IP-range files, read into records; an entry's missing key is \<open>None\<close>.\<close>

record gcp_prefix =
  gp_ipv4 :: "string option"
  gp_ipv6 :: "string option"
  gp_scope :: "string option"

record azure_value =
  az_region :: "string option"
  az_prefixes :: "string list"

record ip_ranges =
  ir_aws_prefixes :: "(string option \<times> string option) list"
  ir_aws_ipv6_prefixes :: "(string option \<times> string option) list"
  ir_azure_values :: "azure_value list"
  ir_gcp_prefixes :: "gcp_prefix list"

definition prefix_hit :: "(string \<Rightarrow> string \<Rightarrow> bool) \<Rightarrow> string \<Rightarrow> string option \<Rightarrow> bool" where
  "prefix_hit in_prefix ip p \<longleftrightarrow> truthy p \<and> in_prefix ip (the p)"

definition attribute_aws ::
  "(string \<Rightarrow> string \<Rightarrow> bool) \<Rightarrow> string \<Rightarrow> ip_ranges \<Rightarrow> (cloud_provider \<times> string option) option" where
  "attribute_aws in_prefix ip r =
     (case find (\<lambda>(p, _). prefix_hit in_prefix ip p) (ir_aws_prefixes r) of
        Some (_, region) \<Rightarrow> Some (AWS, region)
      | None \<Rightarrow>
          (case find (\<lambda>(p, _). prefix_hit in_prefix ip p) (ir_aws_ipv6_prefixes r) of
             Some (_, region) \<Rightarrow> Some (AWS, region)
           | None \<Rightarrow> None))"

definition attribute_azure ::
  "(string \<Rightarrow> string \<Rightarrow> bool) \<Rightarrow> string \<Rightarrow> ip_ranges \<Rightarrow> (cloud_provider \<times> string option) option" where
  "attribute_azure in_prefix ip r =
     (case find (\<lambda>v. list_ex (in_prefix ip) (az_prefixes v)) (ir_azure_values r) of
        Some v \<Rightarrow> Some (Azure, or_else (az_region v) None)
      | None \<Rightarrow> None)"

definition attribute_gcp ::
  "(string \<Rightarrow> string \<Rightarrow> bool) \<Rightarrow> string \<Rightarrow> ip_ranges \<Rightarrow> (cloud_provider \<times> string option) option" where
  "attribute_gcp in_prefix ip r =
     (case find (\<lambda>e. prefix_hit in_prefix ip (or_else (gp_ipv4 e) (gp_ipv6 e))) (ir_gcp_prefixes r) of
        Some e \<Rightarrow> Some (GCP, gp_scope e)
      | None \<Rightarrow> None)"

definition RIR_REFERRAL_HINTS :: "(string \<times> string) list" where
  "RIR_REFERRAL_HINTS =
     [(''RIPE Network Coordination'', ''whois.ripe.net''), (''RIPE NCC'', ''whois.ripe.net''),
      (''Asia Pacific Network'', ''whois.apnic.net''), (''APNIC'', ''whois.apnic.net''),
      (''African Network Information'', ''whois.afrinic.net''), (''AFRINIC'', ''whois.afrinic.net''),
      (''Latin American and Caribbean'', ''whois.lacnic.net''), (''LACNIC'', ''whois.lacnic.net'')]"

definition ORG_FIELDS :: "string list" where
  "ORG_FIELDS = [''OrgName:'', ''Organization:'', ''org:'', ''org-name:'', ''owner:'', ''descr:'', ''netname:'']"

definition field_value :: "string \<Rightarrow> string option" where
  "field_value line =
     (case find (\<lambda>f. starts_with f line \<and> py_strip (strip_prefix f line) \<noteq> []) ORG_FIELDS of
        Some f \<Rightarrow> Some (py_strip (strip_prefix f line)) | None \<Rightarrow> None)"

fun first_org :: "string list \<Rightarrow> string option" where
  "first_org [] = None"
| "first_org (raw # rest) =
     (let line = py_strip raw
      in if line = [] \<or> starts_with ''#'' line \<or> starts_with ''%'' line then first_org rest
         else case field_value line of Some v \<Rightarrow> Some v | None \<Rightarrow> first_org rest)"

definition extract_org :: "string \<Rightarrow> string option" where
  "extract_org text = first_org (splitlines text)"

text \<open>The argument \<open>query\<close> is \<open>_query_whois_server\<close>: a server and an address to a response text.\<close>

definition whois_lookup :: "(string \<Rightarrow> string \<Rightarrow> string) \<Rightarrow> string \<Rightarrow> string option" where
  "whois_lookup query ip =
     (let arin_text = query ''whois.arin.net'' ip
      in if arin_text = [] then None
         else case extract_org arin_text of
                None \<Rightarrow> None
              | Some org \<Rightarrow>
                  (case find (\<lambda>(hint, _). has_substring hint org) RIR_REFERRAL_HINTS of
                     None \<Rightarrow> Some org
                   | Some (_, server) \<Rightarrow>
                       (let rir_text = query server ip;
                            rir_org = (if rir_text = [] then None else extract_org rir_text)
                        in if truthy rir_org then rir_org else Some org)))"

definition WHOIS_ORG_TO_CSP :: "(string \<times> cloud_provider) list" where
  "WHOIS_ORG_TO_CSP = [(''amazon'', AWS), (''amzn'', AWS), (''aws'', AWS), (''microsoft'', Azure),
     (''msft'', Azure), (''azure'', Azure), (''google'', GCP), (''gogl'', GCP)]"

text \<open>What the probe talks to: the prefix test, whois, the resolver, the subprocess, the clock.\<close>

datatype proc_outcome =
  Proc_Timeout | Proc_Missing | Proc_Failed py_exn | Proc_Done int string string

record probe_env =
  pe_in_prefix :: "string \<Rightarrow> string \<Rightarrow> bool"
  pe_query :: "string \<Rightarrow> string \<Rightarrow> string"
  pe_resolve :: "string \<Rightarrow> string option"
  pe_run :: "string \<Rightarrow> int \<Rightarrow> proc_outcome"
  pe_now :: string

definition attribute_cloud_provider ::
  "probe_env \<Rightarrow> ip_ranges \<Rightarrow> string \<Rightarrow> cloud_provider \<times> string option" where
  "attribute_cloud_provider env r ip =
     (case attribute_aws (pe_in_prefix env) ip r of Some hit \<Rightarrow> hit | None \<Rightarrow>
     (case attribute_azure (pe_in_prefix env) ip r of Some hit \<Rightarrow> hit | None \<Rightarrow>
     (case attribute_gcp (pe_in_prefix env) ip r of Some hit \<Rightarrow> hit | None \<Rightarrow>
       (let org = whois_lookup (pe_query env) ip
        in if truthy org
           then (case find (\<lambda>(needle, _). has_substring needle (str_lower (the org))) WHOIS_ORG_TO_CSP of
                   Some (_, csp) \<Rightarrow> (csp, None) | None \<Rightarrow> (Unknown_Provider, None))
           else (Unknown_Provider, None)))))"

definition attribute_hop_provider :: "probe_env \<Rightarrow> ip_ranges \<Rightarrow> string option \<Rightarrow> string option" where
  "attribute_hop_provider env r hop_ip = (case hop_ip of
     None \<Rightarrow> None
   | Some ip \<Rightarrow>
       (let (csp, _) = attribute_cloud_provider env r ip
        in if csp \<noteq> Unknown_Provider then Some (provider_name csp)
           else or_else (whois_lookup (pe_query env) ip) None))"

section \<open>Probing\<close>

definition resolve_endpoint_ip :: "probe_env \<Rightarrow> string \<Rightarrow> topology_hop list \<Rightarrow> string option" where
  "resolve_endpoint_ip env host hops = (case pe_resolve env host of
     Some ip \<Rightarrow> Some ip
   | None \<Rightarrow> (case find (\<lambda>h. th_ip h \<noteq> None) (rev hops) of Some h \<Rightarrow> th_ip h | None \<Rightarrow> None))"

definition probe_failure :: "probe_env \<Rightarrow> probe_error \<Rightarrow> string option \<Rightarrow> topology_entry" where
  "probe_failure env err detail =
     Inl \<lparr>te_error = err, te_probed_at_utc = pe_now env, te_detail = detail\<rparr>"

definition probe_one_cohort :: "probe_env \<Rightarrow> ip_ranges \<Rightarrow> string \<Rightarrow> int \<Rightarrow> topology_entry" where
  "probe_one_cohort env r host port = (case pe_run env host port of
     Proc_Timeout \<Rightarrow> probe_failure env Probe_Timeout
       (Some (''tcptraceroute exceeded 30.0s wall-clock for '' @ host @ '':'' @ str_int port))
   | Proc_Missing \<Rightarrow> probe_failure env Tcptraceroute_Unavailable
       (Some ''tcptraceroute binary not found on PATH'')
   | Proc_Failed e \<Rightarrow> probe_failure env Subprocess_Error (Some (exn_name e @ '': '' @ exn_msg e))
   | Proc_Done rc out err \<Rightarrow>
       if rc \<noteq> 0 \<and> py_strip out = [] then
         probe_failure env Subprocess_Error
           (if py_strip err \<noteq> [] then Some (hd (splitlines (py_strip err))) else None)
       else
         (let hops = parse_tcptraceroute_output out;
              endpoint_ip = resolve_endpoint_ip env host hops;
              (csp, region) = (if truthy endpoint_ip
                then attribute_cloud_provider env r (the endpoint_ip) else (Unknown_Provider, None))
          in Inr \<lparr>tp_endpoint_ip = (case endpoint_ip of None \<Rightarrow> [] | Some ip \<Rightarrow> ip),
                  tp_hops = map (\<lambda>h. h\<lparr>th_cloud_provider := attribute_hop_provider env r (th_ip h)\<rparr>) hops,
                  tp_cloud_provider = csp, tp_region = region, tp_probed_at_utc = pe_now env\<rparr>))"

primrec COHORT_HANDSHAKE_KEY :: "cohort \<Rightarrow> string" where
  "COHORT_HANDSHAKE_KEY Rest_Https_Edge = ''rest_https_edge_url''"
| "COHORT_HANDSHAKE_KEY Rest_Plain_Tcp = ''rest_plain_tcp_url''"
| "COHORT_HANDSHAKE_KEY Default_Grpc = ''grpc''"
| "COHORT_HANDSHAKE_KEY Tuned_Grpc_Multiplexed = ''grpc''"

primrec EXPECTED_COHORT_CSP :: "cohort \<Rightarrow> cloud_provider" where
  "EXPECTED_COHORT_CSP Rest_Https_Edge = Azure"
| "EXPECTED_COHORT_CSP Rest_Plain_Tcp = AWS"
| "EXPECTED_COHORT_CSP Default_Grpc = AWS"
| "EXPECTED_COHORT_CSP Tuned_Grpc_Multiplexed = AWS"

text \<open>The loop that sorts the cohorts into probe targets and skipped ones.\<close>

fun probe_targets ::
  "probe_env \<Rightarrow> json_dict \<Rightarrow> cohort list
     \<Rightarrow> ((cohort \<times> string \<times> int) list \<times> (cohort \<times> topology_entry) list) py_result" where
  "probe_targets env handshake [] = Inr ([], [])"
| "probe_targets env handshake (c # cs) =
     (case json_get handshake (COHORT_HANDSHAKE_KEY c) of
        JStr url \<Rightarrow>
          if url = [] then
            bind_result (probe_targets env handshake cs) (\<lambda>(ts, sk).
              Inr (ts, (c, probe_failure env Subprocess_Error (Some ''handshake dict missing key'')) # sk))
          else
            bind_result (parse_url url) (\<lambda>(host, port).
            bind_result (probe_targets env handshake cs) (\<lambda>(ts, sk).
              case port of
                None \<Rightarrow> Inr (ts, (c, probe_failure env Parse_Error (Some ''could not parse port'')) # sk)
              | Some p \<Rightarrow> Inr ((c, host, p) # ts, sk)))
      | _ \<Rightarrow>
          bind_result (probe_targets env handshake cs) (\<lambda>(ts, sk).
            Inr (ts, (c, probe_failure env Subprocess_Error (Some ''handshake dict missing key'')) # sk)))"

definition run_topology_probe ::
  "probe_env \<Rightarrow> ip_ranges \<Rightarrow> json_dict \<Rightarrow> cohort list \<Rightarrow> (cohort \<times> topology_entry) list py_result" where
  "run_topology_probe env r handshake cs =
     bind_result (probe_targets env handshake cs) (\<lambda>(ts, sk).
       Inr (map (\<lambda>(c, host, port). (c, probe_one_cohort env r host port)) ts @ sk))"

datatype probe_warning =
  Every_Probe_Failed "probe_error list" | Entered_Other_Provider cohort cloud_provider cloud_provider

definition emit_probe_warnings :: "(cohort \<times> topology_entry) list \<Rightarrow> probe_warning list" where
  "emit_probe_warnings results =
     (if results = [] then []
      else (if list_all (\<lambda>(_, e). isl e) results
            then [Every_Probe_Failed (map (\<lambda>(_, e). te_error (projl e)) results)] else [])
           @ List.map_filter (\<lambda>(c, e). case e of
               Inl _ \<Rightarrow> None
             | Inr p \<Rightarrow> if tp_cloud_provider p = EXPECTED_COHORT_CSP c then None
                        else Some (Entered_Other_Provider c (tp_cloud_provider p) (EXPECTED_COHORT_CSP c)))
               results)"

section \<open>Every cohort gets an entry\<close>

lemma probe_targets_cohorts:
  "probe_targets env handshake cs = Inr (ts, sk) \<Longrightarrow>
     mset (map fst ts) + mset (map fst sk) = mset cs"
proof (induction cs arbitrary: ts sk)
  case (Cons c cs)
  show ?case using Cons.prems
    by (auto simp: bind_result_Inr_iff split: json.splits if_splits option.splits prod.splits
        dest!: Cons.IH)
qed simp

lemma run_topology_probe_cohorts:
  assumes "run_topology_probe env r handshake cs = Inr res"
  shows "mset (map fst res) = mset cs"
proof -
  obtain ts sk where t: "probe_targets env handshake cs = Inr (ts, sk)"
    and r: "res = map (\<lambda>(c, host, port). (c, probe_one_cohort env r host port)) ts @ sk"
    using assms by (auto simp: run_topology_probe_def bind_result_Inr_iff)
  have "map fst res = map fst ts @ map fst sk" unfolding r by (induction ts) auto
  then have "mset (map fst res) = mset (map fst ts) + mset (map fst sk)" by (simp only: mset_append)
  then show ?thesis using probe_targets_cohorts[OF t] by simp
qed

text \<open>The one way the probe as a whole fails: the port of some cohort's URL is not a number.\<close>

definition url_of :: "json_dict \<Rightarrow> cohort \<Rightarrow> string option" where
  "url_of handshake c = (case json_get handshake (COHORT_HANDSHAKE_KEY c) of
     JStr url \<Rightarrow> if url = [] then None else Some url | _ \<Rightarrow> None)"

lemma probe_targets_raises_iff:
  "isl (probe_targets env handshake cs) \<longleftrightarrow>
     (\<exists>c \<in> set cs. \<exists>url. url_of handshake c = Some url \<and> isl (parse_url url))"
proof (induction cs)
  case (Cons c cs)
  show ?case using Cons.IH
    by (cases "probe_targets env handshake cs"; cases "json_get handshake (COHORT_HANDSHAKE_KEY c)")
      (auto simp: url_of_def bind_result_def split: sum.splits option.splits prod.splits if_splits)
qed simp

lemma run_topology_probe_raises_iff:
  "isl (run_topology_probe env r handshake cs) \<longleftrightarrow>
     (\<exists>c \<in> set cs. \<exists>url. url_of handshake c = Some url \<and> isl (parse_url url))"
  unfolding probe_targets_raises_iff[where env = env, symmetric]
  by (auto simp: run_topology_probe_def bind_result_def split: sum.splits prod.splits)

text \<open>An https URL without a port keeps its path in the host.\<close>

lemma parse_url_https_no_port:
  "\<not> List.member rest (CHR '':'') \<Longrightarrow> parse_url (''https://'' @ rest) = Inr (rest, Some 443)"
  by (simp add: parse_url_def strip_prefix_def starts_with_def)

lemma parse_url_port:
  assumes "CHR '':'' \<notin> set host" "CHR ''/'' \<notin> set host"
  shows "parse_url (''http://'' @ host @ '':'' @ str_int p) = Inr (host, Some p)"
proof -
  have d: "c \<noteq> CHR '':'' \<and> c \<noteq> CHR ''/''" if "c \<in> set (str_int p)" for c
  proof -
    have "is_digit c \<or> c = CHR ''-''" using that
      by (auto simp: str_int_def split: if_splits dest: str_nat_digits)
    then show ?thesis by (auto simp: is_digit_def)
  qed
  have noslash: "CHR ''/'' \<notin> set (host @ '':'' @ str_int p)" using assms(2) d by auto
  have "takeWhile (\<lambda>x. x \<noteq> CHR '':'') (rev (str_int p) @ CHR '':'' # rev host) = rev (str_int p)"
    using d by (subst takeWhile_append2) auto
  then have "rsplit1 (CHR '':'') (host @ '':'' @ str_int p) = (host, str_int p)"
    by (simp add: rsplit1_def Let_def)
  then show ?thesis using noslash
    by (simp add: parse_url_def strip_prefix_def starts_with_def host_and_port_def List.member_iff)
qed

section \<open>Property\<close>

text \<open>
  The topology probe answers for every cohort it was asked about, once each, with a path or
  with an error; the only thing that makes it raise is a cohort's URL whose port does not parse, and
  then no cohort gets an answer.
\<close>

theorem topology_probe_total:
  "(case run_topology_probe env r handshake cs of
      Inr res \<Rightarrow> mset (map fst res) = mset cs
    | Inl e \<Rightarrow> True)
   \<and> (isl (run_topology_probe env r handshake cs) \<longleftrightarrow>
       (\<exists>c \<in> set cs. \<exists>url. url_of handshake c = Some url \<and> isl (parse_url url)))"
  using run_topology_probe_cohorts run_topology_probe_raises_iff by (auto split: sum.split)

end
