(* ===== verification/Sub_Probe.thy ===== *)
theory Sub_Probe
  imports Crossover Aggregate
begin

text \<open>
  \<open>sub_probe.py\<close>: the separate forced-cap loop that feeds the KV-pressure inference. Sixteen
  blocks, cohort innermost, each dispatched through the retry wrapper with
  \<open>ignore_eos_override=True\<close>.
\<close>

definition SUB_PROBE_CELL_TYPES :: "path list" where
  "SUB_PROBE_CELL_TYPES = [Chat_Stream, Embed]"

primrec sub_probe_cell_id :: "path \<Rightarrow> string" where
  "sub_probe_cell_id Chat_Stream = ''chat_stream_c8''"
| "sub_probe_cell_id Embed = ''embed_c8''"

definition iter_sub_probe_tuples :: "(path \<times> int \<times> cohort) list" where
  "iter_sub_probe_tuples =
     concat (map (\<lambda>t. concat (map (\<lambda>mt. map (\<lambda>c. (t, mt, c)) COHORTS) SUB_PROBE_MAX_TOKENS))
       SUB_PROBE_CELL_TYPES)"

text \<open>\<open>meta.get(a) or meta.get(b)\<close>: an empty string under the first key falls through.\<close>

definition get_or :: "str_dict \<Rightarrow> string \<Rightarrow> string \<Rightarrow> string option" where
  "get_or md a b = (case map_of md a of
     Some s \<Rightarrow> if s \<noteq> [] then Some s else map_of md b
   | None \<Rightarrow> map_of md b)"

definition kv_fractions :: "str_dict list \<Rightarrow> real list" where
  "kv_fractions mds = List.map_filter (\<lambda>md.
     Option.bind (get_or md ''engine_kv_cache_used_fraction'' ''kv_cache_used_fraction'') py_float) mds"

definition extract_engine_kv_fraction_peak :: "str_dict list \<Rightarrow> real option" where
  "extract_engine_kv_fraction_peak mds =
     (let values = kv_fractions mds in if values = [] then None else Some (Max (set values)))"

definition stall_values :: "str_dict list \<Rightarrow> string list" where
  "stall_values mds = concat (map (\<lambda>md.
     concat (map (\<lambda>key. case map_of md key of
                         Some v \<Rightarrow> if v \<noteq> [] then [v] else [] | None \<Rightarrow> [])
               [''scheduling_stall'', ''engine_scheduling_stall''])) mds)"

definition extract_scheduling_stall_signals :: "str_dict list \<Rightarrow> string option" where
  "extract_scheduling_stall_signals mds =
     (let seen = remdups (stall_values mds)
      in if seen = [] then None else Some (join_with '','' (sort seen)))"

definition build_sub_probe_row ::
  "cohort \<Rightarrow> path \<Rightarrow> int \<Rightarrow> int \<Rightarrow> real list \<Rightarrow> string option \<Rightarrow> str_dict list \<Rightarrow> string \<Rightarrow> string
     \<Rightarrow> bool \<Rightarrow> sub_probe_block_result py_result" where
  "build_sub_probe_row co t mt n timings failed mds start_utc end_utc retried =
     (if failed \<noteq> None \<or> timings = [] then
        Inr \<lparr>sp_cohort = co, sp_cell_type = t, sp_max_tokens = mt, sp_n_rpcs = n,
             sp_wall_p50_ms = None, sp_wall_p95_ms = None,
             sp_failed_reason = Some (reason_or_default failed),
             sp_kv_peak = None, sp_stall = None, sp_block_start_utc = start_utc,
             sp_block_end_utc = end_utc, sp_retry_attempted = retried\<rparr>
      else
        bind_result (sub_probe_percentile timings 50) (\<lambda>p50.
        bind_result (sub_probe_percentile timings 95) (\<lambda>p95.
          Inr \<lparr>sp_cohort = co, sp_cell_type = t, sp_max_tokens = mt, sp_n_rpcs = n,
               sp_wall_p50_ms = Some p50, sp_wall_p95_ms = Some p95, sp_failed_reason = None,
               sp_kv_peak = extract_engine_kv_fraction_peak mds,
               sp_stall = extract_scheduling_stall_signals mds,
               sp_block_start_utc = start_utc, sp_block_end_utc = end_utc,
               sp_retry_attempted = retried\<rparr>)))"

text \<open>The loop of \<open>run_kv_pressure_sub_probe\<close> over the remaining tuples, from index \<open>i\<close> on.\<close>

fun sub_probe_loop ::
  "(string \<Rightarrow> string) \<Rightarrow> 'w block_dispatcher \<Rightarrow> (py_exn \<Rightarrow> bool) \<Rightarrow> 'w clock \<Rightarrow> int
     \<Rightarrow> request_sample list \<Rightarrow> completion_embed_sample list \<Rightarrow> int \<Rightarrow> int
     \<Rightarrow> (path \<times> int \<times> cohort) list \<Rightarrow> sub_probe_block_result list \<Rightarrow> 'w
     \<Rightarrow> sub_probe_block_result list py_result \<times> 'w" where
  "sub_probe_loop dg disp tr now seed cc ec n i [] out w = (Inr out, w)"
| "sub_probe_loop dg disp tr now seed cc ec n i ((t, mt, co) # rest) out w =
     (case resolve_block_inputs dg (sub_probe_cell_id t) mt i co seed (Some cc) (Some ec)
             (Some True) of
        Inl e \<Rightarrow> (Inl e, w)
      | Inr inputs \<Rightarrow>
          let ((result, start_utc, end_utc, retried), w1) = run_block_with_retry
                \<lparr>bcall_cell_id = sub_probe_cell_id t, bcall_cohort = co, bcall_max_tokens = mt,
                 bcall_n = n, bcall_inputs = inputs\<rparr> disp tr now w
          in case build_sub_probe_row co t mt n (br_timings_ms result) (br_failed_reason result)
                    (br_per_rpc_metadata result) start_utc end_utc retried of
               Inl e \<Rightarrow> (Inl e, w1)
             | Inr row \<Rightarrow> sub_probe_loop dg disp tr now seed cc ec n (i + 1) rest (out @ [row]) w1)"

definition run_kv_pressure_sub_probe ::
  "(string \<Rightarrow> string) \<Rightarrow> 'w block_dispatcher \<Rightarrow> (py_exn \<Rightarrow> bool) \<Rightarrow> 'w clock \<Rightarrow> int
     \<Rightarrow> request_sample list \<Rightarrow> completion_embed_sample list \<Rightarrow> int \<Rightarrow> 'w
     \<Rightarrow> sub_probe_block_result list py_result \<times> 'w" where
  "run_kv_pressure_sub_probe dg disp tr now seed cc ec n w =
     sub_probe_loop dg disp tr now seed cc ec n 0 iter_sub_probe_tuples [] w"

section \<open>Lemmas\<close>

lemma iter_sub_probe_tuples_all:
  "distinct iter_sub_probe_tuples" "length iter_sub_probe_tuples = 16"
  "(t, mt, c) \<in> set iter_sub_probe_tuples \<longleftrightarrow> mt = 1024 \<or> mt = 2048"
proof -
  show "distinct iter_sub_probe_tuples" "length iter_sub_probe_tuples = 16"
    by (simp_all add: iter_sub_probe_tuples_def SUB_PROBE_CELL_TYPES_def axis_defs COHORTS_def)
  show "(t, mt, c) \<in> set iter_sub_probe_tuples \<longleftrightarrow> mt = 1024 \<or> mt = 2048"
    by (cases t; cases c)
      (auto simp: iter_sub_probe_tuples_def SUB_PROBE_CELL_TYPES_def axis_defs COHORTS_def)
qed

lemma sub_probe_cell_ids: "sub_probe_cell_id t = path_name t @ ''_c8''"
  by (cases t) simp_all

lemma build_sub_probe_row_total: "\<exists>row. build_sub_probe_row co t mt n ts f mds s e r = Inr row"
  by (auto simp: build_sub_probe_row_def sub_probe_percentile_interp)

lemma build_sub_probe_row_fields:
  "build_sub_probe_row co t mt n ts f mds s e r = Inr row \<Longrightarrow>
     sp_cohort row = co \<and> sp_cell_type row = t \<and> sp_max_tokens row = mt \<and> sp_n_rpcs row = n
     \<and> (sp_failed_reason row = None \<longleftrightarrow> f = None \<and> ts \<noteq> [])
     \<and> (sp_wall_p50_ms row = None \<longleftrightarrow> sp_failed_reason row \<noteq> None)
     \<and> (sp_failed_reason row = None \<longrightarrow> sp_wall_p50_ms row = Some (percentile_of ts 50)
          \<and> sp_wall_p95_ms row = Some (percentile_of ts 95))"
  by (auto simp: build_sub_probe_row_def sub_probe_percentile_interp percentile_of_def
      split: if_split_asm)

definition sp_key :: "sub_probe_block_result \<Rightarrow> path \<times> int \<times> cohort" where
  "sp_key r = (sp_cell_type r, sp_max_tokens r, sp_cohort r)"

lemma sub_probe_loop_keys:
  "sub_probe_loop dg disp tr now seed cc ec n i ts out w = (Inr rows, w') \<Longrightarrow>
     map sp_key rows = map sp_key out @ ts"
proof (induction ts arbitrary: i out w)
  case (Cons x ts)
  obtain t mt co where x: "x = (t, mt, co)" by (rule prod_cases3)
  let ?res = "resolve_block_inputs dg (sub_probe_cell_id t) mt i co seed (Some cc) (Some ec) (Some True)"
  obtain inputs where r: "?res = Inr inputs" using Cons.prems x by (cases ?res) auto
  let ?call = "\<lparr>bcall_cell_id = sub_probe_cell_id t, bcall_cohort = co, bcall_max_tokens = mt,
                 bcall_n = n, bcall_inputs = inputs\<rparr>"
  obtain result s e rt w1 where rb: "run_block_with_retry ?call disp tr now w = ((result, s, e, rt), w1)"
    by (metis prod_cases4 surj_pair)
  obtain row where row: "build_sub_probe_row co t mt n (br_timings_ms result)
      (br_failed_reason result) (br_per_rpc_metadata result) s e rt = Inr row"
    using build_sub_probe_row_total by blast
  have "sub_probe_loop dg disp tr now seed cc ec n (i + 1) ts (out @ [row]) w1 = (Inr rows, w')"
    using Cons.prems x r rb row by (simp add: Let_def)
  from Cons.IH[OF this] show ?case
    using build_sub_probe_row_fields[OF row] x by (simp add: sp_key_def)
qed simp

text \<open>The only way the loop raises is an unresolvable input: a corpus without usable entries.\<close>

lemma sub_probe_loop_raises:
  assumes "sub_probe_loop dg disp tr now seed cc ec n i ts out w = (Inl e, w')"
  shows "\<exists>t mt co j. (t, mt, co) \<in> set ts \<and> resolve_block_inputs dg (sub_probe_cell_id t) mt j co
    seed (Some cc) (Some ec) (Some True) = Inl e"
  using assms
proof (induction ts arbitrary: i out w)
  case (Cons x ts)
  obtain t mt co where x: "x = (t, mt, co)" by (rule prod_cases3)
  let ?res = "resolve_block_inputs dg (sub_probe_cell_id t) mt i co seed (Some cc) (Some ec) (Some True)"
  show ?case
  proof (cases ?res)
    case (Inl e')
    then have "e' = e" using Cons.prems x by simp
    then show ?thesis using Inl x by (intro exI[of _ t] exI[of _ mt] exI[of _ co] exI[of _ i]) simp
  next
    case (Inr inputs)
    let ?call = "\<lparr>bcall_cell_id = sub_probe_cell_id t, bcall_cohort = co, bcall_max_tokens = mt,
                 bcall_n = n, bcall_inputs = inputs\<rparr>"
    obtain result s f rt w1 where rb: "run_block_with_retry ?call disp tr now w = ((result, s, f, rt), w1)"
      by (metis prod_cases4 surj_pair)
    obtain row where row: "build_sub_probe_row co t mt n (br_timings_ms result)
        (br_failed_reason result) (br_per_rpc_metadata result) s f rt = Inr row"
      using build_sub_probe_row_total by blast
    have "sub_probe_loop dg disp tr now seed cc ec n (i + 1) ts (out @ [row]) w1 = (Inl e, w')"
      using Cons.prems x Inr rb row by (simp add: Let_def)
    from Cons.IH[OF this] show ?thesis by auto
  qed
qed simp

end
