(* ===== verification/Report.thy ===== *)
theory Report
  imports Sweep Baseline Topology Sub_Probe
begin

text \<open>
  The parts of \<open>reporter.py\<close> that decide what an artifact says: the validate-mode placeholders,
  the integrity channels and their rules, the early-EOS audit and the failure summary. The
  Markdown around them is not modelled; a nested dict is a nested association list.
\<close>

section \<open>Constants\<close>

definition NOT_VALIDATED_MARKER :: string where "NOT_VALIDATED_MARKER = ''not_validated''"

definition SC011_CLOCK_ANOMALY_FRACTION_THRESHOLD :: real where
  "SC011_CLOCK_ANOMALY_FRACTION_THRESHOLD = 5 / 1000"

definition EARLY_EOS_RATIO_THRESHOLD :: real where "EARLY_EOS_RATIO_THRESHOLD = 5 / 10"

definition EARLY_EOS_AUDIT_MIN_MAX_TOKENS :: int where "EARLY_EOS_AUDIT_MIN_MAX_TOKENS = 256"

definition INTEGRITY_CHANNELS :: "string list" where
  "INTEGRITY_CHANNELS =
     [''null_anchor_drift'', ''failure_summary_threshold'', ''cohort_csp_mismatch'',
      ''intra_sweep_latency_drift'', ''iteration_discipline_broken'', ''clock_anomaly_warning'',
      ''trajectory_insufficient_snapshots'']"

type_synonym per_cell = "(string \<times> cell_rows) list"

section \<open>The table\<close>

definition compute_implied_output_tokens :: "measurement_point \<Rightarrow> real option" where
  "compute_implied_output_tokens p =
     (case (mp_wall_p50_ms p, mp_tpot_ms p) of
        (Some wall, Some tpot) \<Rightarrow>
          if tpot \<le> 0 then None
          else Some (max 0 ((wall - value_or_zero (mp_seg_prefill_ms p)
                                  - value_or_zero (mp_seg_egress_ms p)) / tpot))
      | _ \<Rightarrow> None)"

text \<open>Rows by cell, cohort and cap, each sorted.\<close>

definition flatten_measurements :: "per_cell \<Rightarrow> measurement_point list" where
  "flatten_measurements t =
     concat (map (\<lambda>(_, per_cohort).
       concat (map (\<lambda>(_, per_cap). map snd (sort_key fst per_cap)) (sort_key fst per_cohort)))
       (sort_key fst t))"

definition placeholder :: "string \<Rightarrow> string \<Rightarrow> string \<Rightarrow> cohort \<Rightarrow> int \<Rightarrow> measurement_point" where
  "placeholder start_utc end_utc cid co mt =
     \<lparr>mp_cell_id = cid, mp_cohort = co, mp_max_tokens = mt, mp_n_rpcs = 0,
      mp_wall_p50_ms = None, mp_wall_p95_ms = None, mp_wall_p99_ms = None, mp_wall_p50_ci = None,
      mp_tpot_ms = None, mp_seg_ab_ms = None, mp_seg_queue_ms = None, mp_seg_prefill_ms = None,
      mp_seg_ingress_ms = None, mp_seg_egress_ms = None,
      mp_failed_reason = Some NOT_VALIDATED_MARKER,
      mp_block_start_utc = start_utc, mp_block_end_utc = end_utc,
      mp_retry_attempted = False, mp_clock_anomaly = False,
      mp_prompt_source = (if starts_with ''embed'' cid then Corpus_Sharegpt_Embed else Corpus_Sharegpt),
      mp_measurement_regime = Natural_Eos, mp_prompt_corpus_idx = None\<rparr>"

definition fill_cap :: "(int \<Rightarrow> measurement_point) \<Rightarrow> int \<Rightarrow> axis_rows \<Rightarrow> axis_rows" where
  "fill_cap row_for mt rows =
     (if List.member VALIDATE_MAX_TOKENS_AXIS mt \<or> map_of rows mt \<noteq> None then rows
      else rows @ [(mt, row_for mt)])"

definition fill_caps :: "string \<Rightarrow> string \<Rightarrow> string \<Rightarrow> cohort \<Rightarrow> axis_rows \<Rightarrow> axis_rows" where
  "fill_caps start_utc end_utc cid co per_cap =
     fold (fill_cap (placeholder start_utc end_utc cid co)) INTERIOR_CAP_MAX_TOKENS per_cap"

definition fill_validate_mode_placeholders ::
  "per_cell \<Rightarrow> sweep_mode \<Rightarrow> string \<Rightarrow> string \<Rightarrow> per_cell" where
  "fill_validate_mode_placeholders t mode start_utc end_utc =
     (if mode \<noteq> Validate then t
      else map (\<lambda>(cid, per_cohort).
        (cid, map (\<lambda>(co, per_cap). (co, fill_caps start_utc end_utc cid co per_cap)) per_cohort)) t)"

section \<open>Channels\<close>

definition traffic_rows :: "measurement_point list \<Rightarrow> measurement_point list" where
  "traffic_rows ms = filter (\<lambda>m. mp_n_rpcs m > 0 \<and> mp_failed_reason m \<noteq> Some NOT_VALIDATED_MARKER) ms"

definition compute_clock_anomaly_fraction :: "measurement_point list \<Rightarrow> real" where
  "compute_clock_anomaly_fraction ms =
     (let rows = traffic_rows ms
      in if rows = [] then 0
         else real (length (filter mp_clock_anomaly rows)) / real (length rows))"

fun csp_scan :: "(cloud_provider \<times> string option) option \<Rightarrow> topology_entry list \<Rightarrow> bool" where
  "csp_scan prior [] = False"
| "csp_scan prior (Inl _ # es) = csp_scan prior es"
| "csp_scan prior (Inr p # es) =
     (let key = (tp_cloud_provider p, tp_region p)
      in case prior of
           None \<Rightarrow> csp_scan (Some key) es
         | Some k \<Rightarrow> if key \<noteq> k then True else csp_scan (Some key) es)"

definition has_cohort_csp_mismatch :: "(cohort \<times> topology_entry list) list \<Rightarrow> bool" where
  "has_cohort_csp_mismatch paths = list_ex (\<lambda>(_, snapshots). csp_scan None snapshots) paths"

section \<open>The artifact\<close>

record run_meta =
  rm_git_sha :: string
  rm_modal_region :: string
  rm_base_seed :: int
  rm_model_identifier :: string
  rm_sweep_mode :: sweep_mode
  rm_baseline_path :: string
  rm_iteration_discipline_verified :: bool
  rm_n_per_point :: int
  rm_validate_axis_subset :: "int list option"
  rm_wall_clock_start_utc :: string
  rm_wall_clock_end_utc :: string
  rm_total_sweep_hours :: real
  rm_chat_corpus_sha256 :: string
  rm_chat_corpus_path :: string
  rm_embed_corpus_sha256 :: string
  rm_embed_corpus_path :: string
  rm_sub_probe_ran :: bool
  rm_preemption_events :: int

record sweep_artifact =
  ar_run_id :: string
  ar_run_started_at :: string
  ar_run_completed_at :: string
  ar_run_meta :: run_meta
  ar_per_cell :: per_cell
  ar_network_paths :: "(cohort \<times> topology_entry list) list"
  ar_cohort_set :: "cohort list"
  ar_null_anchors :: "null_anchor list"
  ar_axis :: "int list"
  ar_crossover :: "crossover_threshold list"
  ar_kv :: "kv_pressure_observation list"
  ar_trajectories :: "(cohort \<times> anchor_trajectory) list"
  ar_failure_summary :: "(string \<times> int) list"
  ar_warnings :: "string list"

definition build_integrity_warnings :: "sweep_artifact \<Rightarrow> string list" where
  "build_integrity_warnings a =
     (let ms = flatten_measurements (ar_per_cell a);
          real_ms = filter (\<lambda>m. mp_failed_reason m \<noteq> Some NOT_VALIDATED_MARKER) ms
      in (if compute_null_anchor_drift_header_fired (ar_null_anchors a) NULL_ANCHOR_DRIFT_COUNT_THRESHOLD
            then [''null_anchor_drift''] else [])
       @ (if compute_failure_summary_header_fired real_ms FAILURE_SUMMARY_CELL_COUNT_THRESHOLD
            then [''failure_summary_threshold''] else [])
       @ (if has_cohort_csp_mismatch (ar_network_paths a) then [''cohort_csp_mismatch''] else [])
       @ (if compute_intra_sweep_drift_header_fired (ar_trajectories a)
            then [''intra_sweep_latency_drift''] else [])
       @ (if compute_insufficient_snapshots_header_fired (ar_trajectories a)
            then [''trajectory_insufficient_snapshots''] else [])
       @ (if \<not> rm_iteration_discipline_verified (ar_run_meta a)
            then [''iteration_discipline_broken''] else [])
       @ (if compute_clock_anomaly_fraction ms \<ge> SC011_CLOCK_ANOMALY_FRACTION_THRESHOLD
            then [''clock_anomaly_warning''] else []))"

section \<open>Sections of the report\<close>

definition row_status :: "measurement_point \<Rightarrow> string" where
  "row_status p = (case mp_failed_reason p of
     None \<Rightarrow> ''ok''
   | Some r \<Rightarrow> if r = NOT_VALIDATED_MARKER then ''`not_validated`'' else ''`failed_'' @ r @ ''`'')"

definition early_eos_flagged :: "per_cell \<Rightarrow> (measurement_point \<times> real \<times> real) list" where
  "early_eos_flagged t = List.map_filter (\<lambda>p.
     if \<not> starts_with ''chat_stream'' (mp_cell_id p) \<or> mp_measurement_regime p \<noteq> Natural_Eos
        \<or> mp_failed_reason p \<noteq> None \<or> mp_max_tokens p < EARLY_EOS_AUDIT_MIN_MAX_TOKENS then None
     else case compute_implied_output_tokens p of
            None \<Rightarrow> None
          | Some implied \<Rightarrow>
              (let ratio = (if mp_max_tokens p > 0 then implied / real_of_int (mp_max_tokens p) else 0)
               in if ratio < EARLY_EOS_RATIO_THRESHOLD then Some (p, implied, ratio) else None))
     (flatten_measurements t)"

text \<open>\<open>counts[k] = counts.get(k, 0) + 1\<close>.\<close>

definition bump :: "string \<Rightarrow> (string \<times> int) list \<Rightarrow> (string \<times> int) list" where
  "bump k d = AList.update k (1 + (case map_of d k of None \<Rightarrow> 0 | Some n \<Rightarrow> n)) d"

definition is_real_failure :: "measurement_point \<Rightarrow> bool" where
  "is_real_failure p \<longleftrightarrow> mp_failed_reason p \<noteq> None \<and> mp_failed_reason p \<noteq> Some NOT_VALIDATED_MARKER"

definition failure_counts :: "measurement_point list \<Rightarrow> (string \<times> int) list" where
  "failure_counts ms = fold (\<lambda>p. bump (the (mp_failed_reason p))) (filter is_real_failure ms) []"

definition systemic_failures :: "measurement_point list \<Rightarrow> (string \<times> string \<times> int) list" where
  "systemic_failures ms = List.map_filter (\<lambda>((cid, mt), blocks).
     let reasons = remdups (map (\<lambda>b. the (mp_failed_reason b)) blocks)
     in if length blocks = 4 \<and> length reasons = 1 then Some (hd reasons, cid, mt) else None)
     (group_by_tuple (filter is_real_failure ms))"

section \<open>The placeholders\<close>

lemma map_of_snoc: "map_of (xs @ [(k, v)]) k' =
    (case map_of xs k' of None \<Rightarrow> if k' = k then Some v else None | Some x \<Rightarrow> Some x)"
  by (simp add: map_add_def split: option.split)

definition open_cap :: "axis_rows \<Rightarrow> int \<Rightarrow> bool" where
  "open_cap rows mt \<longleftrightarrow> mt \<notin> set VALIDATE_MAX_TOKENS_AXIS \<and> map_of rows mt = None"

lemma map_of_fill_cap:
  "map_of (fill_cap f mt rows) k = (if open_cap rows k \<and> k = mt then Some (f k) else map_of rows k)"
  by (auto simp: fill_cap_def open_cap_def map_add_def split: option.splits)

lemma open_fill_cap: "open_cap (fill_cap f mt rows) k \<longleftrightarrow> open_cap rows k \<and> k \<noteq> mt"
  using map_of_fill_cap[of f mt rows k] by (auto simp: open_cap_def)

lemma map_of_fold_fill_cap:
  "map_of (fold (fill_cap f) mts rows) k =
     (if open_cap rows k \<and> k \<in> set mts then Some (f k) else map_of rows k)"
  by (induction mts arbitrary: rows) (auto simp: open_fill_cap map_of_fill_cap)

lemma map_of_fill_caps:
  "map_of (fill_caps s e cid co rows) k =
     (if open_cap rows k \<and> k \<in> set INTERIOR_CAP_MAX_TOKENS then Some (placeholder s e cid co k)
      else map_of rows k)"
  by (simp add: fill_caps_def map_of_fold_fill_cap)

text \<open>A measured row is never touched, and every cap of the full axis has a row afterwards.\<close>

lemma fill_caps_keeps: "map_of rows k = Some p \<Longrightarrow> map_of (fill_caps s e cid co rows) k = Some p"
  by (simp add: map_of_fill_caps open_cap_def)

lemma fill_caps_complete:
  assumes "\<forall>mt \<in> set VALIDATE_MAX_TOKENS_AXIS. map_of rows mt \<noteq> None" "k \<in> set MAX_TOKENS_AXIS"
  shows "map_of (fill_caps s e cid co rows) k \<noteq> None"
  using assms by (auto simp: map_of_fill_caps open_cap_def MAX_TOKENS_AXIS_def
      VALIDATE_MAX_TOKENS_AXIS_def INTERIOR_CAP_MAX_TOKENS_def)

lemma fill_publish_id: "fill_validate_mode_placeholders t Publish s e = t"
  by (simp add: fill_validate_mode_placeholders_def)

section \<open>The provider channel\<close>

definition csp_key :: "topology_path \<Rightarrow> cloud_provider \<times> string option" where
  "csp_key p = (tp_cloud_provider p, tp_region p)"

lemma csp_scan_Some: "csp_scan (Some k) es \<longleftrightarrow> (\<exists>p. Inr p \<in> set es \<and> csp_key p \<noteq> k)"
proof (induction es arbitrary: k)
  case (Cons e es)
  then show ?case by (cases e) (auto simp: csp_key_def)
qed simp

text \<open>The scan of neighbours finds a change exactly when two successful probes disagree.\<close>

lemma csp_scan_None:
  "csp_scan None es \<longleftrightarrow> (\<exists>p q. Inr p \<in> set es \<and> Inr q \<in> set es \<and> csp_key p \<noteq> csp_key q)"
proof (induction es)
  case (Cons e es)
  show ?case
  proof (cases e)
    case (Inl x)
    then show ?thesis using Cons by simp
  next
    case (Inr p)
    have "csp_scan None (e # es) \<longleftrightarrow> (\<exists>q. Inr q \<in> set es \<and> csp_key q \<noteq> csp_key p)"
      using Inr by (simp add: csp_scan_Some csp_key_def)
    also have "\<dots> \<longleftrightarrow> (\<exists>a b. Inr a \<in> set (e # es) \<and> Inr b \<in> set (e # es) \<and> csp_key a \<noteq> csp_key b)"
      using Inr by auto metis
    finally show ?thesis .
  qed
qed simp

lemma has_cohort_csp_mismatch_iff:
  "has_cohort_csp_mismatch paths \<longleftrightarrow>
     (\<exists>co es p q. (co, es) \<in> set paths \<and> Inr p \<in> set es \<and> Inr q \<in> set es
        \<and> csp_key p \<noteq> csp_key q)"
  by (auto simp: has_cohort_csp_mismatch_def list_ex_iff csp_scan_None split_beta) force+

section \<open>The other channels\<close>

lemma implied_tokens_nonneg: "compute_implied_output_tokens p = Some x \<Longrightarrow> 0 \<le> x"
  by (auto simp: compute_implied_output_tokens_def split: option.splits if_splits)

lemma clock_fraction_bounds:
  "0 \<le> compute_clock_anomaly_fraction ms \<and> compute_clock_anomaly_fraction ms \<le> 1"
  using length_filter_le[of mp_clock_anomaly "traffic_rows ms"]
  by (auto simp: compute_clock_anomaly_fraction_def Let_def divide_le_eq)

lemma warnings_channels:
  "distinct (build_integrity_warnings a) \<and> set (build_integrity_warnings a) \<subseteq> set INTEGRITY_CHANNELS"
  by (auto simp: build_integrity_warnings_def Let_def INTEGRITY_CHANNELS_def split: if_splits)

text \<open>The tally counts every real failure once.\<close>

lemma sum_bump: "sum_list (map snd (bump k d)) = 1 + sum_list (map snd d)"
proof (induction d)
  case Nil
  then show ?case by (simp add: bump_def)
next
  case (Cons e d)
  then show ?case by (cases e) (auto simp: bump_def)
qed

lemma sum_fold_bump:
  "sum_list (map snd (fold (\<lambda>p. bump (f p)) ps d)) = int (length ps) + sum_list (map snd d)"
  by (induction ps arbitrary: d) (simp_all add: sum_bump)

lemma failure_counts_total:
  "sum_list (map snd (failure_counts ms)) = int (length (filter is_real_failure ms))"
  by (simp add: failure_counts_def sum_fold_bump)

lemma map_of_bump:
  "map_of (bump k d) k' = (if k' = k then Some (1 + (case map_of d k of None \<Rightarrow> 0 | Some n \<Rightarrow> n))
     else map_of d k')"
  by (simp add: bump_def update_conv')

section \<open>Property\<close>

text \<open>
  The validate-mode placeholders complete the table and invent nothing: over rows that have all
  validate caps, every cap of the full axis has a row afterwards, a measured row is kept as it is,
  and an added row is marked as not validated, has no RPCs and no latency.
\<close>

theorem placeholders_complete:
  assumes "\<forall>mt \<in> set VALIDATE_MAX_TOKENS_AXIS. map_of rows mt \<noteq> None" "k \<in> set MAX_TOKENS_AXIS"
  shows "\<exists>p. map_of (fill_caps s e cid co rows) k = Some p
    \<and> (case map_of rows k of Some q \<Rightarrow> p = q
       | None \<Rightarrow> mp_failed_reason p = Some NOT_VALIDATED_MARKER \<and> mp_n_rpcs p = 0
           \<and> mp_wall_p50_ms p = None \<and> mp_key p = (cid, co, k))"
proof -
  obtain p where p: "map_of (fill_caps s e cid co rows) k = Some p"
    using fill_caps_complete[OF assms, of s e cid co] by blast
  show ?thesis
  proof (cases "map_of rows k")
    case None
    then have "p = placeholder s e cid co k" using p by (simp add: map_of_fill_caps split: if_splits)
    then show ?thesis using p None by (simp add: placeholder_def mp_key_def)
  next
    case (Some q)
    then show ?thesis using p fill_caps_keeps[OF Some, of s e cid co] by simp
  qed
qed

theorem placeholders_complete_witness:
  "\<exists>p. map_of (fill_caps [] [] ''embed_c1'' Default_Grpc
      (map (\<lambda>mt. (mt, placeholder [] [] ''embed_c1'' Default_Grpc mt)) VALIDATE_MAX_TOKENS_AXIS)) 256 = Some p
    \<and> mp_n_rpcs p = 0"
proof -
  let ?rows = "map (\<lambda>mt. (mt, placeholder [] [] ''embed_c1'' Default_Grpc mt)) VALIDATE_MAX_TOKENS_AXIS"
  have "\<forall>mt \<in> set VALIDATE_MAX_TOKENS_AXIS. map_of ?rows mt \<noteq> None" "256 \<in> set MAX_TOKENS_AXIS"
    "map_of ?rows 256 = None"
    by (simp_all add: VALIDATE_MAX_TOKENS_AXIS_def MAX_TOKENS_AXIS_def)
  from placeholders_complete[OF this(1,2), of "[]" "[]" "''embed_c1''" Default_Grpc] this(3)
  show ?thesis by auto
qed

end
