(* ===== verification/Validate.thy ===== *)
theory Validate
  imports Report Dispatch_Laws
begin

text \<open>
  The entry function of \<open>validate.py\<close>: output paths, checkpoint resolution, the main sweep followed
  by the sub-probe, the artifact, and \<open>run_m6_2\<close> with its exit codes, on the stub and on the
  Modal-backed path. The checkpoint files are a map from paths; the printed lines and the writing
  of the report are left out: an exit code of 0 comes with the artifact that is written.
\<close>

section \<open>Arguments and paths\<close>

text \<open>The parsed flags; a \<open>Path\<close> argument is the text of the \<open>Path\<close> argparse makes of the flag.\<close>

record cli_args =
  ca_validate :: bool
  ca_n :: "int option"
  ca_report_out :: "string option"
  ca_report_json_out :: "string option"
  ca_base_seed :: int
  ca_modal_region :: string
  ca_model :: string
  ca_skip_deploy :: bool
  ca_checkpoint_out :: "string option"
  ca_resume :: "string option"

text \<open>\<open>str(Path(s))\<close> on POSIX: empty and \<open>.\<close> components go, and nothing left is the dot.\<close>

definition path_str :: "string \<Rightarrow> string" where
  "path_str s =
     (let parts = filter (\<lambda>p. p \<noteq> [] \<and> p \<noteq> ''.'') (split_on (CHR ''/'') s);
          root = (if starts_with ''//'' s \<and> \<not> starts_with ''///'' s then ''//''
                  else if starts_with ''/'' s then ''/'' else []);
          full = root @ join_with ''/'' parts
      in if full = [] then ''.'' else full)"

datatype report_kind = Md | Json_Report

definition infer_output_path :: "cli_args \<Rightarrow> report_kind \<Rightarrow> string" where
  "infer_output_path args kind =
     (case (kind, ca_report_out args, ca_report_json_out args) of
        (Md, Some p, _) \<Rightarrow> p
      | (Json_Report, _, Some p) \<Rightarrow> p
      | (Md, None, _) \<Rightarrow> if ca_validate args then ''docs/benchmarks/m6_2-token-budget-validate.md''
                        else ''docs/benchmarks/m6_2-token-budget.md''
      | (Json_Report, _, None) \<Rightarrow>
          if ca_validate args then ''docs/benchmarks/m6_2-token-budget-validate.json''
          else ''docs/benchmarks/m6_2-token-budget.json'')"

definition resolve_axis :: "sweep_mode \<Rightarrow> int list" where
  "resolve_axis mode = (if mode = Validate then VALIDATE_MAX_TOKENS_AXIS else MAX_TOKENS_AXIS)"

section \<open>The artifact\<close>

text \<open>The arguments of \<open>build_artifact\<close>, with the git SHA, the time difference and the fresh run id.\<close>

record artifact_args =
  aa_sweep_mode :: sweep_mode
  aa_outputs :: "topology_entry sweep_outputs"
  aa_chat_corpus_sha256 :: string
  aa_chat_corpus_path :: string
  aa_embed_corpus_sha256 :: string
  aa_embed_corpus_path :: string
  aa_n_per_point :: int
  aa_base_seed :: int
  aa_modal_region :: string
  aa_model_identifier :: string
  aa_sub_probe_rows :: "sub_probe_block_result list"
  aa_sub_probe_ran :: bool
  aa_run_id :: "string option"
  aa_baseline_path :: string
  aa_baseline :: "json option"
  aa_preemption_events :: int
  aa_git_sha :: string
  aa_hours_between :: "string \<Rightarrow> string \<Rightarrow> real"
  aa_fresh_run_id :: string

definition pivot_row :: "measurement_point \<Rightarrow> per_cell \<Rightarrow> per_cell" where
  "pivot_row p t =
     (let per_cohort = get_or_empty t (mp_cell_id p);
          per_cap = get_or_empty per_cohort (mp_cohort p)
      in AList.update (mp_cell_id p)
           (AList.update (mp_cohort p) (AList.update (mp_max_tokens p) p per_cap) per_cohort) t)"

definition pivot_rows :: "measurement_point list \<Rightarrow> per_cell" where
  "pivot_rows ms = fold pivot_row ms []"

definition tally_failure_summary :: "per_cell \<Rightarrow> (string \<times> int) list" where
  "tally_failure_summary t =
     failure_counts (concat (map (\<lambda>(_, per_cohort).
       concat (map (\<lambda>(_, per_cap). map snd per_cap) per_cohort)) t))"

definition artifact_run_meta :: "artifact_args \<Rightarrow> run_meta" where
  "artifact_run_meta a =
     (let started = so_wall_clock_start_utc (aa_outputs a); ended = so_wall_clock_end_utc (aa_outputs a)
      in \<lparr>rm_git_sha = aa_git_sha a, rm_modal_region = aa_modal_region a,
          rm_base_seed = aa_base_seed a, rm_model_identifier = aa_model_identifier a,
          rm_sweep_mode = aa_sweep_mode a, rm_baseline_path = aa_baseline_path a,
          rm_iteration_discipline_verified = so_iteration_discipline_verified (aa_outputs a),
          rm_n_per_point = aa_n_per_point a,
          rm_validate_axis_subset =
            (if aa_sweep_mode a = Validate then Some VALIDATE_MAX_TOKENS_AXIS else None),
          rm_wall_clock_start_utc = started, rm_wall_clock_end_utc = ended,
          rm_total_sweep_hours = aa_hours_between a started ended,
          rm_chat_corpus_sha256 = aa_chat_corpus_sha256 a, rm_chat_corpus_path = aa_chat_corpus_path a,
          rm_embed_corpus_sha256 = aa_embed_corpus_sha256 a,
          rm_embed_corpus_path = aa_embed_corpus_path a,
          rm_sub_probe_ran = aa_sub_probe_ran a, rm_preemption_events = aa_preemption_events a\<rparr>)"

definition build_artifact :: "artifact_args \<Rightarrow> sweep_artifact py_result" where
  "build_artifact a =
     (let out = aa_outputs a;
          started = so_wall_clock_start_utc out; ended = so_wall_clock_end_utc out;
          per_cell = fill_validate_mode_placeholders (pivot_rows (so_measurements out))
                       (aa_sweep_mode a) started ended
      in bind_result (load_m6_1_3_baseline (aa_baseline a)) (\<lambda>(baselines, verdicts).
         bind_result (derive_anchor_drift_threshold (aa_baseline a)) (\<lambda>threshold.
         bind_result (derive_anchor_baseline_p50_ms (aa_baseline a)) (\<lambda>baseline_p50.
         bind_result (compute_kv_pressure_inference (aa_sub_probe_rows a)) (\<lambda>kv.
           let artifact =
             \<lparr>ar_run_id = (case aa_run_id a of Some r \<Rightarrow> if r \<noteq> [] then r else aa_fresh_run_id a
                           | None \<Rightarrow> aa_fresh_run_id a),
              ar_run_started_at = started, ar_run_completed_at = ended,
              ar_run_meta = artifact_run_meta a,
              ar_per_cell = per_cell,
              ar_network_paths = map (\<lambda>c. (c, case so_network_paths out of None \<Rightarrow> []
                                               | Some paths \<Rightarrow> dict_get_list paths c)) COHORTS,
              ar_cohort_set = COHORTS,
              ar_null_anchors = make_null_anchor_validation (so_measurements out) baselines,
              ar_axis = (if aa_sweep_mode a = Validate then VALIDATE_MAX_TOKENS_AXIS else MAX_TOKENS_AXIS),
              ar_crossover = compute_per_cell_crossover per_cell baselines verdicts (aa_sweep_mode a),
              ar_kv = kv,
              ar_trajectories = compute_anchor_latency_trajectory (so_anchor_snapshots out) threshold
                baseline_p50 DRIFT_THRESHOLD_FLOOR_MS DRIFT_THRESHOLD_FLOOR_FRACTION
                WARMUP_SUPPRESSION_HOURS,
              ar_failure_summary = [], ar_warnings = []\<rparr>;
             tallied = artifact\<lparr>ar_failure_summary := tally_failure_summary (ar_per_cell artifact)\<rparr>
           in Inr (tallied\<lparr>ar_warnings := build_integrity_warnings tallied\<rparr>))))))"

section \<open>Sweep and sub-probe\<close>

definition drive_main_sweep_and_sub_probe ::
  "('w, topology_entry) sweep_inputs \<Rightarrow> 'w \<Rightarrow> ckpt_file option
     \<Rightarrow> (topology_entry sweep_outputs \<times> sub_probe_block_result list) py_result
         \<times> 'w \<times> ckpt_file option" where
  "drive_main_sweep_and_sub_probe inp w ckpt =
     (case run_sweep inp w ckpt of
        (Inl e, st) \<Rightarrow> (Inl e, ss_world st, ss_ckpt st)
      | (Inr out, st) \<Rightarrow>
          (case run_kv_pressure_sub_probe (si_digest inp) (si_dispatcher inp) (si_is_transient inp)
                  (si_now inp) (si_base_seed inp) (si_chat_corpus inp) (si_embed_corpus inp)
                  SUB_PROBE_N (ss_world st) of
             (Inl e, w') \<Rightarrow> (Inl e, w', ss_ckpt st)
           | (Inr rows, w') \<Rightarrow> (Inr (out, rows), w', ss_ckpt st)))"

section \<open>Resuming\<close>

text \<open>
  The surroundings of a run: the corpus files and their paths, the checkpoint files by path, git,
  the clocks, the digest, the text of a JSON float, the baseline artifact, Python's hashes, the
  tokenizer, and the Modal deployment: its set-up gives the initial driver and \<open>make_driver\<close>.
\<close>

type_synonym ckpt_store = "string \<Rightarrow> ckpt_file option"

record 'w run_env =
  re_corpus :: corpus_env
  re_chat_path :: string
  re_provenance_path :: string
  re_embed_dir :: string
  re_is_dir :: "string \<Rightarrow> bool"
  re_git_sha :: string
  re_uuid8 :: string
  re_now :: "'w clock"
  re_time :: "'w \<Rightarrow> real \<times> 'w"
  re_hours_between :: "string \<Rightarrow> string \<Rightarrow> real"
  re_digest :: "string \<Rightarrow> string"
  re_other :: "json \<Rightarrow> string"
  re_fstr :: "real \<Rightarrow> string"
  re_baseline_path :: string
  re_baseline :: "json option"
  re_hash_block :: "string \<times> string \<times> int \<Rightarrow> int"
  re_hash_str :: "string \<Rightarrow> int"
  re_from_pretrained :: "string \<Rightarrow> tokenizer"
  re_deploy :: "int \<Rightarrow> 'w \<Rightarrow> ('w rpc_driver \<times> ('w \<Rightarrow> 'w rpc_driver py_result \<times> 'w)) py_result \<times> 'w"
  re_topology_probe :: "'w \<Rightarrow> (cohort \<times> topology_entry) list py_result \<times> 'w"

record resume_state =
  rs_checkpoint_path :: "string option"
  rs_measurements :: "measurement_point list option"
  rs_anchors :: "(cohort \<times> anchor_snapshot list) list option"
  rs_run_id :: "string option"
  rs_run_started_at :: "string option"

definition current_header ::
  "'w run_env \<Rightarrow> cli_args \<Rightarrow> sweep_mode \<Rightarrow> int \<Rightarrow> string \<Rightarrow> string \<Rightarrow> string \<Rightarrow> string
     \<Rightarrow> checkpoint_header" where
  "current_header env args mode n chat_sha embed_sha run_id started =
     \<lparr>ch_schema_version = RESUME_SCHEMA_VERSION, ch_run_id = run_id, ch_run_started_at = started,
      ch_sweep_mode = sweep_mode_name mode, ch_n_per_point = n, ch_axis = resolve_axis mode,
      ch_base_seed = ca_base_seed args, ch_model_identifier = ca_model args,
      ch_modal_region = ca_modal_region args, ch_git_sha = re_git_sha env,
      ch_chat_corpus_sha256 = chat_sha, ch_embed_corpus_sha256 = embed_sha\<rparr>"

definition resolve_resume_state ::
  "'w run_env \<Rightarrow> cli_args \<Rightarrow> string \<Rightarrow> sweep_mode \<Rightarrow> int \<Rightarrow> string \<Rightarrow> string \<Rightarrow> ckpt_store \<Rightarrow> 'w
     \<Rightarrow> resume_state py_result \<times> ckpt_store \<times> 'w" where
  "resolve_resume_state env args json_path mode n chat_sha embed_sha files w =
     (case ca_resume args of
        Some p \<Rightarrow>
          (bind_result (load_checkpoint (re_other env) (files p)) (\<lambda>(hdr, ms, ans).
           bind_result (validate_checkpoint_against_current_run hdr
                          (current_header env args mode n chat_sha embed_sha [] [])) (\<lambda>_.
             Inr \<lparr>rs_checkpoint_path = Some p, rs_measurements = Some ms,
                  rs_anchors = (if ans = [] then None else Some ans),
                  rs_run_id = Some (ch_run_id hdr),
                  rs_run_started_at = Some (ch_run_started_at hdr)\<rparr>)), files, w)
      | None \<Rightarrow>
          if ca_checkpoint_out args = Some [] then
            (Inr \<lparr>rs_checkpoint_path = None, rs_measurements = None, rs_anchors = None,
                  rs_run_id = None, rs_run_started_at = None\<rparr>, files, w)
          else
            (let path = (case ca_checkpoint_out args of
                           None \<Rightarrow> path_str (json_path @ ''.checkpoint.jsonl'') | Some p \<Rightarrow> p);
                 (started, w1) = re_now env w;
                 run_id = started @ ''-'' @ re_uuid8 env;
                 hdr = current_header env args mode n chat_sha embed_sha run_id started
             in if re_is_dir env path then (Inl (Exn ''IsADirectoryError'' path), files, w1)
                else (Inr \<lparr>rs_checkpoint_path = Some path, rs_measurements = None,
                           rs_anchors = None, rs_run_id = Some run_id,
                           rs_run_started_at = Some started\<rparr>,
                      files(path := write_checkpoint_header hdr (files path)), w1)))"

section \<open>The entry function\<close>

definition modal_exit_code :: "py_exn \<Rightarrow> int" where
  "modal_exit_code e =
     (if exn_name e = ''ModalDeployError'' then 2
      else if exn_name e = ''PreemptionBudgetExhausted'' then 6
      else if exn_name e = ''PreemptionRecoveryFailed'' then 7
      else 5)"

definition resumed_inputs ::
  "'v run_env \<Rightarrow> cli_args \<Rightarrow> sweep_mode \<Rightarrow> int \<Rightarrow> request_sample list \<Rightarrow> completion_embed_sample list
     \<Rightarrow> resume_state \<Rightarrow> 'w block_dispatcher \<Rightarrow> 'w anchor_driver \<Rightarrow> (py_exn \<Rightarrow> bool)
     \<Rightarrow> ('w \<Rightarrow> (cohort \<times> topology_entry) list py_result \<times> 'w) option \<Rightarrow> 'w clock
     \<Rightarrow> ('w \<Rightarrow> real \<times> 'w) \<Rightarrow> ('w, topology_entry) sweep_inputs" where
  "resumed_inputs env args mode n chat embeds rs disp anchor transient probe now_w time_w =
     \<lparr>si_sweep_mode = mode, si_n = n, si_axis = resolve_axis mode, si_base_seed = ca_base_seed args,
      si_chat_corpus = chat, si_embed_corpus = embeds, si_dispatcher = disp,
      si_anchor_dispatcher = anchor, si_is_transient = transient, si_topology_probe = probe,
      si_checkpoint = (rs_checkpoint_path rs \<noteq> None),
      si_preloaded_measurements = rs_measurements rs, si_preloaded_anchors = rs_anchors rs,
      si_wall_clock_start_override = rs_run_started_at rs,
      si_now = now_w, si_time = time_w, si_digest = re_digest env\<rparr>"

definition stored :: "resume_state \<Rightarrow> ckpt_store \<Rightarrow> ckpt_file option" where
  "stored rs files = (case rs_checkpoint_path rs of None \<Rightarrow> None | Some p \<Rightarrow> files p)"

definition store_back :: "resume_state \<Rightarrow> ckpt_file option \<Rightarrow> ckpt_store \<Rightarrow> ckpt_store" where
  "store_back rs f files = (case rs_checkpoint_path rs of None \<Rightarrow> files | Some p \<Rightarrow> files(p := f))"

definition artifact_args_of ::
  "'v run_env \<Rightarrow> cli_args \<Rightarrow> sweep_mode \<Rightarrow> int \<Rightarrow> string \<times> string \<times> string \<times> string \<Rightarrow> resume_state
     \<Rightarrow> topology_entry sweep_outputs \<Rightarrow> sub_probe_block_result list \<Rightarrow> int \<Rightarrow> artifact_args" where
  "artifact_args_of env args mode n shas rs out rows events =
     (let (chat_sha, chat_path, embed_sha, embed_path) = shas
      in \<lparr>aa_sweep_mode = mode, aa_outputs = out, aa_chat_corpus_sha256 = chat_sha,
          aa_chat_corpus_path = chat_path, aa_embed_corpus_sha256 = embed_sha,
          aa_embed_corpus_path = embed_path, aa_n_per_point = n, aa_base_seed = ca_base_seed args,
          aa_modal_region = ca_modal_region args, aa_model_identifier = ca_model args,
          aa_sub_probe_rows = rows, aa_sub_probe_ran = True, aa_run_id = rs_run_id rs,
          aa_baseline_path = re_baseline_path env, aa_baseline = re_baseline env,
          aa_preemption_events = events, aa_git_sha = re_git_sha env,
          aa_hours_between = re_hours_between env,
          aa_fresh_run_id = so_wall_clock_start_utc out @ ''-'' @ re_uuid8 env\<rparr>)"

text \<open>An exit code, with the artifact when one is written.\<close>

type_synonym run_exit = "(int \<times> sweep_artifact option) py_result"

definition written :: "artifact_args \<Rightarrow> run_exit" where
  "written a = bind_result (build_artifact a) (\<lambda>art. Inr (0, Some art))"

definition run_stub ::
  "'w run_env \<Rightarrow> cli_args \<Rightarrow> sweep_mode \<Rightarrow> int \<Rightarrow> string \<times> string \<times> string \<times> string
     \<Rightarrow> request_sample list \<Rightarrow> completion_embed_sample list \<Rightarrow> resume_state \<Rightarrow> ckpt_store \<Rightarrow> 'w
     \<Rightarrow> run_exit \<times> ckpt_store \<times> 'w" where
  "run_stub env args mode n shas chat embeds rs files w =
     (let inp = resumed_inputs env args mode n chat embeds rs
                  (stub_dispatcher (re_hash_block env) (re_hash_str env)) (stub_anchor (re_hash_str env))
                  stub_is_transient None (re_now env) (re_time env)
      in case drive_main_sweep_and_sub_probe inp w (stored rs files) of
           (Inl e, w', f) \<Rightarrow> (Inl e, store_back rs f files, w')
         | (Inr (out, rows), w', f) \<Rightarrow>
             (written (artifact_args_of env args mode n shas rs out rows 0), store_back rs f files, w'))"

text \<open>A step on the outside world as a step on the Modal world.\<close>

definition on_world :: "('w \<Rightarrow> 'a \<times> 'w) \<Rightarrow> 'w modal_world \<Rightarrow> 'a \<times> 'w modal_world" where
  "on_world f mw = (let (x, w) = f (mw_world mw) in (x, mw\<lparr>mw_world := w\<rparr>))"

definition modal_config_of ::
  "'w run_env \<Rightarrow> cli_args \<Rightarrow> ('w \<Rightarrow> 'w rpc_driver py_result \<times> 'w) \<Rightarrow> 'w modal_config" where
  "modal_config_of env args mk =
     \<lparr>mc_base_seed = ca_base_seed args, mc_make_driver = Some mk,
      mc_budget = PREEMPTION_RECURRENCE_THRESHOLD, mc_threshold = ENDPOINT_DEATH_CONSECUTIVE_THRESHOLD,
      mc_fstr = re_fstr env, mc_anchor_cell = default_anchor_cell, mc_anchor_max_tokens = 10\<rparr>"

definition run_modal_backed ::
  "'w run_env \<Rightarrow> cli_args \<Rightarrow> sweep_mode \<Rightarrow> int \<Rightarrow> string \<times> string \<times> string \<times> string
     \<Rightarrow> request_sample list \<Rightarrow> completion_embed_sample list \<Rightarrow> resume_state \<Rightarrow> ckpt_store \<Rightarrow> 'w
     \<Rightarrow> run_exit \<times> ckpt_store \<times> 'w" where
  "run_modal_backed env args mode n shas chat embeds rs files w =
     (case fst (pin_seq_len_at_sweep_start (re_from_pretrained env) [] (ca_model args)) of
        Inl e \<Rightarrow> (Inl e, files, w)
      | Inr seq_len \<Rightarrow>
          (case re_deploy env seq_len w of
             (Inl e, w1) \<Rightarrow> (Inr (modal_exit_code e, None), files, w1)
           | (Inr (driver, mk), w1) \<Rightarrow>
               (let cfg = modal_config_of env args mk;
                    mw = \<lparr>mw_world = w1, mw_block = fresh_state driver, mw_anchor = fresh_state driver\<rparr>;
                    inp = resumed_inputs env args mode n chat embeds rs (modal_block_dispatcher cfg)
                            (modal_anchor_dispatcher cfg) is_transient_modal_error
                            (Some (on_world (re_topology_probe env)))
                            (on_world (re_now env)) (on_world (re_time env))
                in case drive_main_sweep_and_sub_probe inp mw (stored rs files) of
                     (Inl e, mw', f) \<Rightarrow>
                       (Inr (modal_exit_code e, None), store_back rs f files, mw_world mw')
                   | (Inr (out, rows), mw', f) \<Rightarrow>
                       (written (artifact_args_of env args mode n shas rs out rows
                          (int (ps_events (mw_block mw')) + int (ps_events (mw_anchor mw')))),
                        store_back rs f files, mw_world mw'))))"

definition run_m6_2 ::
  "'w run_env \<Rightarrow> cli_args \<Rightarrow> sweep_mode \<Rightarrow> ckpt_store \<Rightarrow> 'w \<Rightarrow> run_exit \<times> ckpt_store \<times> 'w" where
  "run_m6_2 env args mode files w =
     (case gate_publish_mode_n (ca_n args) mode of
        Inl e \<Rightarrow> (Inr (5, None), files, w)
      | Inr n \<Rightarrow>
     (case gate_corpus_shas (re_corpus env) (re_chat_path env) (re_provenance_path env)
             (re_embed_dir env) of
        Inl e \<Rightarrow> (if List.member [''CorpusDriftError'', ''FileNotFoundError''] (exn_name e)
                  then Inr (6, None) else Inl e, files, w)
      | Inr shas \<Rightarrow>
     (case bind_result (load_chat_corpus (re_corpus env) (re_chat_path env) (re_provenance_path env))
             (\<lambda>chat. bind_result (load_embed_corpus (re_corpus env) (re_embed_dir env))
             (\<lambda>embeds. Inr (chat, embeds))) of
        Inl e \<Rightarrow> (Inl e, files, w)
      | Inr (chat, embeds) \<Rightarrow>
     (case resolve_resume_state env args (infer_output_path args Json_Report) mode n (fst shas)
             (fst (snd (snd shas))) files w of
        (Inl e, files1, w1) \<Rightarrow>
          (if ca_resume args \<noteq> None \<and> exn_name e = ''CheckpointMismatchError'' then Inr (8, None)
           else Inl e, files1, w1)
      | (Inr rs, files1, w1) \<Rightarrow>
          if ca_skip_deploy args
          then run_stub env args mode n shas chat embeds rs files1 w1
          else run_modal_backed env args mode n shas chat embeds rs files1 w1))))"

end
