(* ===== verification/Semaphore.thy ===== *)
theory Semaphore
  imports Dispatch
begin

text \<open>
  The concurrency of a block: \<open>_gather_block\<close> starts one task per RPC, each inside
  \<open>async with asyncio.Semaphore(cell.concurrency)\<close>, and collects their results by index. The semaphore is
  that of the standard library: a count and a queue, where \<open>release\<close> hands its permit to the first waiter.
  The event loop runs the first step of the tasks in the order of their creation; the driver's calls may
  return in any order. The lemmas bound the calls in flight and lead every complete interleaving back to
  \<open>gather_block\<close>, the sequential reading of a block that the dispatcher's model uses.
\<close>

section \<open>asyncio.Semaphore\<close>





section \<open>The tasks of a block\<close>












section \<open>The invariant\<close>













section \<open>Runs\<close>










section \<open>Properties\<close>









end
