(* ===== verification/Engine_Cost.thy ===== *)
theory Engine_Cost
  imports Py_Json Stats Bench_Types
begin

text \<open>
  \<open>engine_cost.py\<close>: the server-instrumented cost of one RPC as it arrives on the two wires, its
  aggregation per cell, and the pairwise drift warning between cohorts.
\<close>

section \<open>Parsers\<close>

text \<open>
  \<open>{k: v for k, v in metadata}\<close> keeps the last value of a repeated key; \<open>map_of\<close> keeps the
  first, so the list is reversed.
\<close>

definition parse_grpc_trailing_metadata ::
  "(string \<times> string) list \<Rightarrow> path \<Rightarrow> engine_cost_span option" where
  "parse_grpc_trailing_metadata metadata p =
     (let md = rev metadata;
          num = (\<lambda>k. bind_result (dict_item md k) float_of_str)
      in or_none (
        if p = Embed then
          bind_result (num ''engine-forward-ms'') (\<lambda>f.
            Inr \<lparr>engine_forward_ms = Some f, engine_ttft_ms = None, engine_tpot_ms = None\<rparr>)
        else
          bind_result (num ''engine-ttft-ms'') (\<lambda>t.
          bind_result (num ''engine-tpot-ms'') (\<lambda>q.
            Inr \<lparr>engine_forward_ms = None, engine_ttft_ms = Some t, engine_tpot_ms = Some q\<rparr>))))"

definition parse_rest_response :: "json_dict \<Rightarrow> path \<Rightarrow> engine_cost_span option" where
  "parse_rest_response response p = (case json_get response ''engine_cost'' of
     JObj ec \<Rightarrow>
       (let num = (\<lambda>k. bind_result (dict_item ec k) json_float)
        in or_none (
          if p = Embed then
            bind_result (num ''engine_forward_ms'') (\<lambda>f.
              Inr \<lparr>engine_forward_ms = Some f, engine_ttft_ms = None, engine_tpot_ms = None\<rparr>)
          else
            bind_result (num ''engine_ttft_ms'') (\<lambda>t.
            bind_result (num ''engine_tpot_ms'') (\<lambda>q.
              Inr \<lparr>engine_forward_ms = None, engine_ttft_ms = Some t, engine_tpot_ms = Some q\<rparr>))))
   | _ \<Rightarrow> None)"

text \<open>The validity rule of \<open>EngineCostSpan\<close>: forward cost, or both stream costs, never a mix.\<close>

definition span_ok :: "path \<Rightarrow> engine_cost_span \<Rightarrow> bool" where
  "span_ok p s \<longleftrightarrow>
     (if p = Embed then engine_forward_ms s \<noteq> None \<and> engine_ttft_ms s = None \<and> engine_tpot_ms s = None
      else engine_forward_ms s = None \<and> engine_ttft_ms s \<noteq> None \<and> engine_tpot_ms s \<noteq> None)"

lemma parsed_span_ok:
  "parse_grpc_trailing_metadata md p = Some s \<Longrightarrow> span_ok p s"
  "parse_rest_response r p = Some s \<Longrightarrow> span_ok p s"
  by (auto simp: parse_grpc_trailing_metadata_def parse_rest_response_def span_ok_def Let_def
      bind_result_Inr_iff split: if_split_asm json.split_asm)

section \<open>Drift warning\<close>

definition DRIFT_WARNING_PCT :: real where "DRIFT_WARNING_PCT = 1 / 10"

definition pair_drifts :: "real \<Rightarrow> real \<Rightarrow> bool" where
  "pair_drifts a b = (let base = min a b
     in if base \<le> 0 then False else \<bar>a - b\<bar> / base > DRIFT_WARNING_PCT)"

definition compute_drift_warning :: "(string \<times> real) list \<Rightarrow> bool" where
  "compute_drift_warning costs =
     (let means = map snd costs
      in if length means < 2 then False
         else list_ex (\<lambda>i. list_ex (\<lambda>j. pair_drifts (means ! i) (means ! j))
                             [i + 1 ..< length means]) [0 ..< length means])"

lemma pair_drifts_sym: "pair_drifts a b = pair_drifts b a"
  by (simp add: pair_drifts_def min.commute abs_minus_commute)

lemma pair_drifts_refl [simp]: "\<not> pair_drifts a a"
  by (simp add: pair_drifts_def DRIFT_WARNING_PCT_def)

text \<open>The double loop decides whether any two cohorts disagree, whatever their order.\<close>

lemma compute_drift_warning_iff:
  "compute_drift_warning costs \<longleftrightarrow>
     (\<exists>a\<in>snd ` set costs. \<exists>b\<in>snd ` set costs. 0 < a \<and> 0 < b \<and> \<bar>a - b\<bar> > min a b / 10)"
proof -
  define ms where "ms = map snd costs"
  have set_ms: "snd ` set costs = set ms" by (simp add: ms_def)
  have pd: "pair_drifts a b \<longleftrightarrow> 0 < a \<and> 0 < b \<and> \<bar>a - b\<bar> > min a b / 10" for a b
  proof (cases "0 < a \<and> 0 < b")
    case True
    then have "0 < min a b" "\<not> min a b \<le> 0" by auto
    then show ?thesis using True by (simp add: pair_drifts_def DRIFT_WARNING_PCT_def less_divide_eq)
  next
    case False
    then have "min a b \<le> 0" by auto
    then have "\<not> pair_drifts a b" by (simp add: pair_drifts_def)
    with False show ?thesis by blast
  qed
  have "compute_drift_warning costs \<longleftrightarrow> \<not> length ms < 2 \<and>
      (\<exists>i\<in>{0..<length ms}. \<exists>j\<in>{i + 1..<length ms}. pair_drifts (ms ! i) (ms ! j))"
    by (simp add: compute_drift_warning_def ms_def list_ex_iff Let_def)
  also have "\<dots> \<longleftrightarrow> (\<exists>i j. i < j \<and> j < length ms \<and> pair_drifts (ms ! i) (ms ! j))"
  proof
    assume "\<exists>i j. i < j \<and> j < length ms \<and> pair_drifts (ms ! i) (ms ! j)"
    then obtain i j where ij: "i < j" "j < length ms" "pair_drifts (ms ! i) (ms ! j)" by blast
    then have i: "i \<in> {0..<length ms}" and j: "j \<in> {i + 1..<length ms}" by simp_all
    from ij have "\<not> length ms < 2" by simp
    moreover have "\<exists>i\<in>{0..<length ms}. \<exists>j\<in>{i + 1..<length ms}. pair_drifts (ms ! i) (ms ! j)"
      using i j ij(3) by blast
    ultimately show "\<not> length ms < 2 \<and>
      (\<exists>i\<in>{0..<length ms}. \<exists>j\<in>{i + 1..<length ms}. pair_drifts (ms ! i) (ms ! j))" by blast
  next
    assume "\<not> length ms < 2 \<and>
      (\<exists>i\<in>{0..<length ms}. \<exists>j\<in>{i + 1..<length ms}. pair_drifts (ms ! i) (ms ! j))"
    then obtain i j where "j \<in> {i + 1..<length ms}" "pair_drifts (ms ! i) (ms ! j)" by blast
    then show "\<exists>i j. i < j \<and> j < length ms \<and> pair_drifts (ms ! i) (ms ! j)"
      by (intro exI[of _ i] exI[of _ j]) simp
  qed
  also have "\<dots> \<longleftrightarrow> (\<exists>i < length ms. \<exists>j < length ms. pair_drifts (ms ! i) (ms ! j))"
    by (metis less_trans linorder_neqE_nat pair_drifts_refl pair_drifts_sym)
  also have "\<dots> \<longleftrightarrow> (\<exists>a\<in>set ms. \<exists>b\<in>set ms. pair_drifts a b)"
    by (metis in_set_conv_nth)
  finally show ?thesis unfolding set_ms pd .
qed

section \<open>Per-cell aggregation\<close>

record engine_cost_aggregate =
  eca_forward_mean_ms :: "real option"
  eca_forward_ci_half_width_ms :: "real option"
  eca_ttft_mean_ms :: "real option"
  eca_ttft_ci_half_width_ms :: "real option"
  eca_tpot_mean_ms :: "real option"
  eca_tpot_ci_half_width_ms :: "real option"

definition empty_aggregate :: engine_cost_aggregate where
  "empty_aggregate = \<lparr>eca_forward_mean_ms = None, eca_forward_ci_half_width_ms = None,
     eca_ttft_mean_ms = None, eca_ttft_ci_half_width_ms = None,
     eca_tpot_mean_ms = None, eca_tpot_ci_half_width_ms = None\<rparr>"

definition present :: "('a \<Rightarrow> 'b option) \<Rightarrow> 'a list \<Rightarrow> 'b list" where
  "present f xs = List.map_filter f xs"

definition mean_and_half :: "real list \<Rightarrow> (real option \<times> real option) py_result" where
  "mean_and_half xs =
     (if xs = [] then Inr (None, None)
      else bind_result (estimate xs) (\<lambda>e.
        Inr (Some (est_mean e), Some ((est_ci_high e - est_ci_low e) / 2))))"

definition aggregate_engine_cost_per_cell ::
  "engine_cost_span list \<Rightarrow> path \<Rightarrow> engine_cost_aggregate py_result" where
  "aggregate_engine_cost_per_cell spans p =
     (if p = Embed then
        (let values = present engine_forward_ms spans
         in if values = [] then Inr empty_aggregate
            else bind_result (mean_and_half values) (\<lambda>(m, h).
              Inr (empty_aggregate\<lparr>eca_forward_mean_ms := m, eca_forward_ci_half_width_ms := h\<rparr>)))
      else
        (let ttft = present engine_ttft_ms spans; tpot = present engine_tpot_ms spans
         in if ttft = [] \<and> tpot = [] then Inr empty_aggregate
            else bind_result (mean_and_half ttft) (\<lambda>(tm, th).
                 bind_result (mean_and_half tpot) (\<lambda>(pm, ph).
                   Inr (empty_aggregate\<lparr>eca_ttft_mean_ms := tm, eca_ttft_ci_half_width_ms := th,
                          eca_tpot_mean_ms := pm, eca_tpot_ci_half_width_ms := ph\<rparr>)))))"

lemma mean_and_half_defined:
  "(\<exists>r. mean_and_half xs = Inr r) \<longleftrightarrow> length xs \<le> 1 \<or> 10 \<le> length xs"
  using estimate_defined_iff[of xs]
  by (cases "xs = []") (auto simp: mean_and_half_def bind_result_Inr_iff le_Suc_eq)

lemma mean_and_half_nonneg:
  "mean_and_half xs = Inr (m, Some h) \<Longrightarrow> 0 \<le> h"
  using estimate_interval[of xs]
  by (auto simp: mean_and_half_def bind_result_Inr_iff split: if_split_asm)

text \<open>
  Two to nine successful RPCs of a cell are too few for \<open>ci.estimate\<close>: the aggregate raises.
\<close>

lemma aggregate_embed_raises:
  assumes "2 \<le> length (present engine_forward_ms spans)"
    and "length (present engine_forward_ms spans) \<le> 9"
  shows "\<exists>e. aggregate_engine_cost_per_cell spans Embed = Inl e"
proof -
  have "\<nexists>r. mean_and_half (present engine_forward_ms spans) = Inr r"
    using assms mean_and_half_defined[of "present engine_forward_ms spans"] by auto
  then obtain e where "mean_and_half (present engine_forward_ms spans) = Inl e"
    by (cases "mean_and_half (present engine_forward_ms spans)") auto
  moreover have "present engine_forward_ms spans \<noteq> []" using assms(1) by auto
  ultimately show ?thesis by (simp add: aggregate_engine_cost_per_cell_def)
qed

lemma aggregate_path_discriminated:
  "aggregate_engine_cost_per_cell spans p = Inr a \<Longrightarrow>
     (p = Embed \<longrightarrow> eca_ttft_mean_ms a = None \<and> eca_tpot_mean_ms a = None)
     \<and> (p \<noteq> Embed \<longrightarrow> eca_forward_mean_ms a = None)"
  by (auto simp: aggregate_engine_cost_per_cell_def empty_aggregate_def Let_def
      bind_result_Inr_iff split: if_split_asm prod.split_asm)

section \<open>Property\<close>

text \<open>
  The engine-cost drift warning of a cell fires exactly when some two cohorts with positive
  mean costs differ by more than a tenth of the smaller one, whatever the order of the cohorts.
\<close>

theorem engine_drift_exact:
  "compute_drift_warning costs \<longleftrightarrow>
     (\<exists>a\<in>snd ` set costs. \<exists>b\<in>snd ` set costs. 0 < a \<and> 0 < b \<and> \<bar>a - b\<bar> > min a b / 10)"
  by (rule compute_drift_warning_iff)

end
