(* ===== verification/Grpc_Wire.thy ===== *)
theory Grpc_Wire
  imports Py_Prelude
begin

text \<open>
  The messages of \<open>proto/vllm_grpc/v1\<close> (\<open>chat.proto\<close>, \<open>completions.proto\<close>, \<open>health.proto\<close>) and the
  constructors the generated Python classes give them. An \<open>optional\<close> field is an \<open>option\<close>, a
  \<open>oneof\<close> an \<open>option\<close> of a datatype, bytes are character lists. Assigning an integer outside its
  field's width is the \<open>ValueError\<close> protobuf raises; a \<open>float\<close> field holds a single-precision value,
  and the rounding to it is the argument \<open>f32\<close>. The counters the program itself puts into an answer
  are lengths of lists and are not range checked.
\<close>

definition int32_ok :: "int \<Rightarrow> bool" where
  "int32_ok i \<longleftrightarrow> - (2 ^ 31) \<le> i \<and> i < 2 ^ 31"

definition int64_ok :: "int \<Rightarrow> bool" where
  "int64_ok i \<longleftrightarrow> - (2 ^ 63) \<le> i \<and> i < 2 ^ 63"

section \<open>Chat\<close>

record chat_message_pb =
  cm_role :: string
  cm_content :: string

record chat_complete_request =
  cq_messages :: "chat_message_pb list"
  cq_model :: string
  cq_max_tokens :: int
  cq_temperature :: "real option"
  cq_top_p :: "real option"
  cq_seed :: "int option"
  cq_ignore_eos :: bool

record chat_complete_response =
  cp_message :: chat_message_pb
  cp_finish_reason :: string
  cp_prompt_tokens :: int
  cp_completion_tokens :: int

record chat_stream_chunk =
  ck_delta_content :: string
  ck_finish_reason :: string
  ck_token_index :: int

definition fields_in_range :: "int \<Rightarrow> int option \<Rightarrow> bool" where
  "fields_in_range max_tokens seed \<longleftrightarrow>
     int32_ok max_tokens \<and> (case seed of None \<Rightarrow> True | Some s \<Rightarrow> int64_ok s)"

text \<open>\<open>ChatCompleteRequest(**kwargs)\<close>; \<open>ignore_eos\<close> is never among the keywords.\<close>

definition chat_request_pb ::
  "(real \<Rightarrow> real) \<Rightarrow> chat_message_pb list \<Rightarrow> string \<Rightarrow> int \<Rightarrow> real option \<Rightarrow> real option \<Rightarrow> int option
     \<Rightarrow> chat_complete_request py_result" where
  "chat_request_pb f32 messages model max_tokens temperature top_p seed =
     (if fields_in_range max_tokens seed
      then Inr \<lparr>cq_messages = messages, cq_model = model, cq_max_tokens = max_tokens,
                cq_temperature = map_option f32 temperature, cq_top_p = map_option f32 top_p,
                cq_seed = seed, cq_ignore_eos = False\<rparr>
      else Inl (value_error ''Value out of range''))"

section \<open>Completions\<close>

datatype completion_input = Prompt_Input string | Embeds_Input string

record completion_request =
  nq_model :: string
  nq_max_tokens :: int
  nq_temperature :: "real option"
  nq_top_p :: "real option"
  nq_seed :: "int option"
  nq_input :: "completion_input option"
  nq_ignore_eos :: bool

record completion_response =
  np_generated_text :: string
  np_finish_reason :: string
  np_prompt_tokens :: int
  np_completion_tokens :: int

record completion_stream_chunk =
  nk_delta_text :: string
  nk_finish_reason :: string
  nk_token_index :: int

definition completion_request_pb ::
  "(real \<Rightarrow> real) \<Rightarrow> string \<Rightarrow> int \<Rightarrow> real option \<Rightarrow> real option \<Rightarrow> int option \<Rightarrow> completion_input
     \<Rightarrow> completion_request py_result" where
  "completion_request_pb f32 model max_tokens temperature top_p seed input =
     (if fields_in_range max_tokens seed
      then Inr \<lparr>nq_model = model, nq_max_tokens = max_tokens,
                nq_temperature = map_option f32 temperature, nq_top_p = map_option f32 top_p,
                nq_seed = seed, nq_input = Some input, nq_ignore_eos = False\<rparr>
      else Inl (value_error ''Value out of range''))"

section \<open>Calls\<close>

text \<open>
  What a client sees of a call. A call that fails raises an \<open>AioRpcError\<close> with a status code and
  details; other exceptions are those of the client's own code or of the runtime.
\<close>

definition aio_rpc_error :: "string \<Rightarrow> string \<Rightarrow> py_exn" where
  "aio_rpc_error code det =
     Lib_Exn ''AioRpcError'' det [''AioRpcError'', ''RpcError''] (Some code) (Some (Some det))"

text \<open>A response stream as its reader sees it: the messages, and the exception that ended it, if any.\<close>

type_synonym 'c message_stream = "'c list \<times> py_exn option"

lemma isinstance_aio_rpc_error [simp]: "isinstance (aio_rpc_error code det) ''AioRpcError''"
  by (simp add: aio_rpc_error_def)

lemma code_of_aio_rpc_error [simp]: "code_of (aio_rpc_error code det) = Some code"
  by (simp add: aio_rpc_error_def)

lemma details_of_aio_rpc_error [simp]: "details_of (aio_rpc_error code det) = Some (Some det)"
  by (simp add: aio_rpc_error_def)

end
