(* ===== verification/Frontend_Translate.thy ===== *)
theory Frontend_Translate
  imports Grpc_Wire
begin

text \<open>
  \<open>packages/frontend\<close>: the engine's outputs as the servicers read them, \<open>chat_translate.py\<close> and
  \<open>completions_translate.py\<close>. vLLM is not in the repository: its \<open>SamplingParams\<close> constructor, the
  tokenizer's chat template and torch's loader are arguments.
\<close>

section \<open>Engine outputs\<close>

record completion_output =
  co_text :: string
  co_token_ids :: "int list"
  co_finish_reason :: "string option"

record engine_metrics =
  em_arrival_time :: "real option"
  em_queued_ts :: "real option"
  em_scheduled_ts :: "real option"
  em_first_token_ts :: "real option"
  em_last_token_ts :: "real option"

record engine_output =
  eo_outputs :: "completion_output list"
  eo_prompt_token_ids :: "int list option"
  eo_metrics :: "engine_metrics option"

abbreviation index_error :: py_exn where
  "index_error \<equiv> Exn ''IndexError'' ''list index out of range''"

abbreviation none_has_no_len :: py_exn where
  "none_has_no_len \<equiv> Exn ''TypeError'' ''object of type 'NoneType' has no len()''"

text \<open>\<open>output.outputs[0]\<close> and \<open>len(output.prompt_token_ids)\<close>.\<close>

definition first_completion :: "engine_output \<Rightarrow> completion_output py_result" where
  "first_completion out = (case eo_outputs out of [] \<Rightarrow> Inl index_error | c # _ \<Rightarrow> Inr c)"

definition prompt_length :: "engine_output \<Rightarrow> int py_result" where
  "prompt_length out = (case eo_prompt_token_ids out of
     None \<Rightarrow> Inl none_has_no_len | Some ids \<Rightarrow> Inr (int (length ids)))"

definition reason_or_stop :: "completion_output \<Rightarrow> string" where
  "reason_or_stop c = (if truthy (co_finish_reason c) then the (co_finish_reason c) else ''stop'')"

section \<open>chat_translate.py\<close>

text \<open>The keyword arguments of \<open>SamplingParams\<close>; a seed the request does not carry is not passed.\<close>

record sampling_kwargs =
  sk_max_tokens :: int
  sk_temperature :: real
  sk_top_p :: real
  sk_seed :: "int option"
  sk_ignore_eos :: bool

definition chat_sampling_kwargs :: "chat_complete_request \<Rightarrow> sampling_kwargs" where
  "chat_sampling_kwargs req =
     \<lparr>sk_max_tokens = cq_max_tokens req,
      sk_temperature = (case cq_temperature req of Some t \<Rightarrow> t | None \<Rightarrow> 1),
      sk_top_p = (case cq_top_p req of Some p \<Rightarrow> p | None \<Rightarrow> 1),
      sk_seed = cq_seed req,
      sk_ignore_eos = cq_ignore_eos req\<rparr>"

definition chat_proto_to_sampling_params ::
  "(sampling_kwargs \<Rightarrow> 'p py_result) \<Rightarrow> chat_complete_request \<Rightarrow> 'p py_result" where
  "chat_proto_to_sampling_params SamplingParams req = SamplingParams (chat_sampling_kwargs req)"

definition messages_to_prompt ::
  "((string \<times> string) list \<Rightarrow> string py_result) \<Rightarrow> chat_message_pb list \<Rightarrow> string py_result" where
  "messages_to_prompt apply_chat_template messages =
     apply_chat_template (map (\<lambda>m. (cm_role m, cm_content m)) messages)"

definition output_to_stream_chunk ::
  "engine_output \<Rightarrow> int \<Rightarrow> string \<Rightarrow> chat_stream_chunk py_result" where
  "output_to_stream_chunk out token_index prev_text =
     bind_result (first_completion out) (\<lambda>c.
       Inr \<lparr>ck_delta_content = drop (length prev_text) (co_text c), ck_finish_reason = [],
            ck_token_index = token_index\<rparr>)"

definition request_output_to_proto :: "engine_output \<Rightarrow> chat_complete_response py_result" where
  "request_output_to_proto out =
     bind_result (first_completion out) (\<lambda>c.
     bind_result (prompt_length out) (\<lambda>n.
       Inr \<lparr>cp_message = \<lparr>cm_role = ''assistant'', cm_content = co_text c\<rparr>,
            cp_finish_reason = reason_or_stop c, cp_prompt_tokens = n,
            cp_completion_tokens = int (length (co_token_ids c))\<rparr>))"

section \<open>completions_translate.py\<close>

datatype torch_dtype = Float32 | Bfloat16 | Float16 | Other_Dtype string

text \<open>A tensor as torch loads it: its element type, its number of dimensions, and the rest.\<close>

record 'a tensor =
  tn_dtype :: torch_dtype
  tn_ndim :: nat
  tn_data :: 'a

definition decode_embeds ::
  "(string \<Rightarrow> 'a tensor py_result) \<Rightarrow> string \<Rightarrow> 'a tensor py_result" where
  "decode_embeds torch_load raw_bytes =
     (case torch_load raw_bytes of
        Inl exc \<Rightarrow> Inl (value_error (''Failed to deserialize prompt_embeds: '' @ exn_msg exc))
      | Inr tensor \<Rightarrow>
          if \<not> List.member [Float32, Bfloat16, Float16] (tn_dtype tensor)
          then Inl (value_error ''prompt_embeds must have dtype float32, bfloat16, or float16'')
          else if tn_ndim tensor \<noteq> 2
          then Inl (value_error ''prompt_embeds must be a 2-D tensor'')
          else Inr tensor)"

definition completion_sampling_kwargs :: "completion_request \<Rightarrow> sampling_kwargs" where
  "completion_sampling_kwargs req =
     \<lparr>sk_max_tokens = nq_max_tokens req,
      sk_temperature = (case nq_temperature req of Some t \<Rightarrow> t | None \<Rightarrow> 1),
      sk_top_p = (case nq_top_p req of Some p \<Rightarrow> p | None \<Rightarrow> 1),
      sk_seed = nq_seed req,
      sk_ignore_eos = nq_ignore_eos req\<rparr>"

definition completion_proto_to_sampling_params ::
  "(sampling_kwargs \<Rightarrow> 'p py_result) \<Rightarrow> completion_request \<Rightarrow> 'p py_result" where
  "completion_proto_to_sampling_params SamplingParams req =
     SamplingParams (completion_sampling_kwargs req)"

section \<open>Lemmas\<close>

lemma first_completion_Inr_iff:
  "first_completion out = Inr c \<longleftrightarrow> (\<exists>cs. eo_outputs out = c # cs)"
  by (auto simp: first_completion_def split: list.splits)

lemma reason_or_stop_nonempty [simp]: "reason_or_stop c \<noteq> []"
  by (auto simp: reason_or_stop_def truthy_def split: option.splits)

text \<open>The decoder accepts exactly the two-dimensional tensors of the three float types.\<close>

lemma decode_embeds_ok_iff:
  "decode_embeds torch_load raw = Inr t \<longleftrightarrow>
     torch_load raw = Inr t \<and> tn_ndim t = 2 \<and> tn_dtype t \<in> {Float32, Bfloat16, Float16}"
  by (auto simp: decode_embeds_def split: sum.splits)

lemma decode_embeds_errors:
  "decode_embeds torch_load raw = Inl e \<Longrightarrow> isinstance e ''ValueError''"
  by (auto simp: decode_embeds_def split: sum.splits if_split_asm)

lemma chat_sampling_of_request_pb:
  assumes "chat_request_pb f32 ms model mt temp top_p seed = Inr req"
  shows "chat_sampling_kwargs req =
     \<lparr>sk_max_tokens = mt,
      sk_temperature = (case temp of None \<Rightarrow> 1 | Some t \<Rightarrow> f32 t),
      sk_top_p = (case top_p of None \<Rightarrow> 1 | Some p \<Rightarrow> f32 p),
      sk_seed = seed, sk_ignore_eos = False\<rparr>"
  using assms
  by (auto simp: chat_request_pb_def chat_sampling_kwargs_def split: if_split_asm option.splits)

lemma completion_sampling_of_request_pb:
  assumes "completion_request_pb f32 model mt temp top_p seed inp = Inr req"
  shows "completion_sampling_kwargs req =
     \<lparr>sk_max_tokens = mt,
      sk_temperature = (case temp of None \<Rightarrow> 1 | Some t \<Rightarrow> f32 t),
      sk_top_p = (case top_p of None \<Rightarrow> 1 | Some p \<Rightarrow> f32 p),
      sk_seed = seed, sk_ignore_eos = False\<rparr>"
  using assms
  by (auto simp: completion_request_pb_def completion_sampling_kwargs_def
      split: if_split_asm option.splits)

end
