(* ===== verification/Py_Text.thy ===== *)
theory Py_Text
  imports Py_Json
begin

text \<open>
  Text the program writes: \<open>json.dumps\<close> of a JSON value (\<open>ensure_ascii\<close>, the default separators),
  the \<open>f"{x:.3f}"\<close> family of fixed-point formats, and server-sent-event framing with the reader
  that undoes it. The text of a float inside JSON is the argument \<open>fl\<close>.
\<close>

section \<open>Line feed\<close>

definition LF :: char where "LF = CHR 0x0A"

definition is_line_safe :: "string \<Rightarrow> bool" where
  "is_line_safe = list_all (\<lambda>c. 32 \<le> (of_char c :: nat))"

lemma is_line_safe_simps [simp]:
  "is_line_safe []"
  "is_line_safe (c # s) \<longleftrightarrow> 32 \<le> (of_char c :: nat) \<and> is_line_safe s"
  "is_line_safe (s @ t) \<longleftrightarrow> is_line_safe s \<and> is_line_safe t"
  by (simp_all add: is_line_safe_def)

lemma is_line_safe_concat: "(\<And>s. s \<in> set ss \<Longrightarrow> is_line_safe s) \<Longrightarrow> is_line_safe (concat ss)"
  by (induction ss) auto

lemma line_safe_no_LF: "is_line_safe s \<Longrightarrow> LF \<notin> set s"
  by (auto simp: is_line_safe_def list_all_iff LF_def)

section \<open>JSON text\<close>

definition hex_digit :: "nat \<Rightarrow> char" where
  "hex_digit d = (if d < 10 then char_of (48 + d) else char_of (87 + d))"

definition esc_char :: "char \<Rightarrow> string" where
  "esc_char c =
     (let n = of_char c :: nat
      in if n = 34 then [CHR 0x5C, CHR 0x22]
         else if n = 92 then [CHR 0x5C, CHR 0x5C]
         else if n = 10 then [CHR 0x5C, CHR ''n'']
         else if n = 13 then [CHR 0x5C, CHR ''r'']
         else if n = 9 then [CHR 0x5C, CHR ''t'']
         else if n = 8 then [CHR 0x5C, CHR ''b'']
         else if n = 12 then [CHR 0x5C, CHR ''f'']
         else if 32 \<le> n \<and> n < 127 then [c]
         else [CHR 0x5C, CHR ''u'', CHR ''0'', CHR ''0'', hex_digit (n div 16), hex_digit (n mod 16)])"

definition json_quote :: "string \<Rightarrow> string" where
  "json_quote s = [CHR 0x22] @ concat (map esc_char s) @ [CHR 0x22]"

fun json_dumps :: "(real \<Rightarrow> string) \<Rightarrow> json \<Rightarrow> string" where
  "json_dumps fl JNull = ''null''"
| "json_dumps fl (JBool b) = (if b then ''true'' else ''false'')"
| "json_dumps fl (JInt i) = str_int i"
| "json_dumps fl (JFloat x) = fl x"
| "json_dumps fl (JStr s) = json_quote s"
| "json_dumps fl (JList vs) = ''['' @ join_with '', '' (map (json_dumps fl) vs) @ '']''"
| "json_dumps fl (JObj kvs) =
     ''{'' @ join_with '', '' (map (\<lambda>(k, v). json_quote k @ '': '' @ json_dumps fl v) kvs) @ ''}''"

fun float_free :: "json \<Rightarrow> bool" where
  "float_free (JFloat x) \<longleftrightarrow> False"
| "float_free (JList vs) \<longleftrightarrow> list_all float_free vs"
| "float_free (JObj kvs) \<longleftrightarrow> list_all (\<lambda>(k, v). float_free v) kvs"
| "float_free _ \<longleftrightarrow> True"

lemma of_char_hex_digit: "d < 16 \<Longrightarrow> 32 \<le> (of_char (hex_digit d) :: nat)"
  by (simp add: hex_digit_def of_char_of)

lemma is_line_safe_esc [simp]: "is_line_safe (esc_char c)"
proof -
  have "(of_char c :: nat) mod 256 < 256" by simp
  then have "(of_char c :: nat) < 256" by (simp only: of_char_mod_256)
  then have "(of_char c :: nat) div 16 < 16" by linarith
  then show ?thesis
    by (simp add: esc_char_def Let_def of_char_hex_digit)
qed

lemma is_line_safe_quote [simp]: "is_line_safe (json_quote s)"
  by (auto simp: json_quote_def intro!: is_line_safe_concat)

lemma is_line_safe_digits: "(\<And>c. c \<in> set s \<Longrightarrow> is_digit c) \<Longrightarrow> is_line_safe s"
  by (force simp: is_line_safe_def list_all_iff is_digit_def Let_def)

lemma is_line_safe_str_nat [simp]: "is_line_safe (str_nat n)"
  by (rule is_line_safe_digits) (rule str_nat_digits)

lemma is_line_safe_str_int [simp]: "is_line_safe (str_int i)"
  by (simp add: str_int_def)

lemma is_line_safe_join:
  "is_line_safe sep \<Longrightarrow> (\<And>s. s \<in> set ss \<Longrightarrow> is_line_safe s) \<Longrightarrow> is_line_safe (join_with sep ss)"
  by (cases ss) (auto simp: join_with_def intro!: is_line_safe_concat split: if_split_asm)

lemma json_dumps_line_safe: "float_free v \<Longrightarrow> is_line_safe (json_dumps fl v)"
proof (induction fl v rule: json_dumps.induct)
  case (6 fl vs)
  then show ?case by (auto simp: list_all_iff intro!: is_line_safe_join)
next
  case (7 fl kvs)
  then show ?case by (fastforce simp: list_all_iff intro!: is_line_safe_join)
qed simp_all

section \<open>Server-sent events\<close>

definition sse_frame :: "string \<Rightarrow> string" where
  "sse_frame payload = ''data: '' @ payload @ [LF, LF]"

text \<open>The reader of an event stream: events are the texts between blank lines.\<close>

fun sse_split :: "string \<Rightarrow> string \<Rightarrow> string list" where
  "sse_split cur [] = (if cur = [] then [] else [rev cur])"
| "sse_split cur [c] = [rev (c # cur)]"
| "sse_split cur (c # d # cs) =
     (if c = LF \<and> d = LF then rev cur # sse_split [] cs else sse_split (c # cur) (d # cs))"

definition sse_read :: "string \<Rightarrow> string list" where
  "sse_read body = sse_split [] body"

lemma sse_split_line:
  "LF \<notin> set s \<Longrightarrow> sse_split cur (s @ LF # LF # rest) = rev (rev s @ cur) # sse_split [] rest"
proof (induction s arbitrary: cur)
  case (Cons c s)
  then obtain d ds where "s @ LF # LF # rest = d # ds" by (cases s) auto
  with Cons show ?case by auto
qed simp

theorem sse_read_frames:
  "(\<And>p. p \<in> set ps \<Longrightarrow> is_line_safe p) \<Longrightarrow>
     sse_read (concat (map sse_frame ps)) = map (\<lambda>p. ''data: '' @ p) ps"
proof (induction ps)
  case (Cons p ps)
  have "LF \<notin> set (''data: '' @ p)"
    using Cons.prems[of p] line_safe_no_LF[of p] by (simp add: LF_def)
  from sse_split_line[OF this, of "[]" "concat (map sse_frame ps)"]
  have "sse_read (concat (map sse_frame (p # ps)))
      = (''data: '' @ p) # sse_read (concat (map sse_frame ps))"
    by (simp only: sse_read_def sse_frame_def list.map concat.simps append_assoc append_Cons append_Nil
        rev_append rev_rev_ident append_Nil2)
  then show ?case using Cons by simp
qed (simp add: sse_read_def)

section \<open>Fixed-point formats\<close>

definition round_half_even :: "real \<Rightarrow> int" where
  "round_half_even x =
     (let f = \<lfloor>x\<rfloor>; r = x - real_of_int f
      in if r < 1 / 2 then f else if r > 1 / 2 then f + 1 else if even f then f else f + 1)"

definition zero_pad :: "nat \<Rightarrow> string \<Rightarrow> string" where
  "zero_pad d s = replicate (d - length s) (CHR ''0'') @ s"

text \<open>\<open>f"{x:.df}"\<close> for a positive number \<open>d\<close> of decimals.\<close>

definition fmt_fixed :: "nat \<Rightarrow> real \<Rightarrow> string" where
  "fmt_fixed d x =
     (let k = nat (round_half_even (\<bar>x\<bar> * 10 ^ d))
      in (if x < 0 then ''-'' else []) @ str_nat (k div 10 ^ d) @ ''.'' @ zero_pad d (str_nat (k mod 10 ^ d)))"

lemma round_half_even_nonneg: "0 \<le> x \<Longrightarrow> 0 \<le> round_half_even x"
  by (simp add: round_half_even_def Let_def)

lemma round_half_even_near: "\<bar>real_of_int (round_half_even x) - x\<bar> \<le> 1 / 2"
  unfolding round_half_even_def Let_def by (auto split: if_split)

lemma digits_val_append_digits:
  "list_all is_digit s \<Longrightarrow> digits_val acc True (s @ t) = digits_val (foldl (\<lambda>a c. 10 * a + digit_val c) acc s) True t"
  by (induction s arbitrary: acc) auto

lemma digits_val_replicate_zero:
  "s \<noteq> [] \<Longrightarrow> digits_val 0 b (replicate n (CHR ''0'') @ s) = digits_val 0 (b \<or> 0 < n) s"
  by (induction n arbitrary: b) (auto simp: is_digit_def digit_val_def)

lemma digits_val_flag: "s \<noteq> [] \<Longrightarrow> list_all is_digit s \<Longrightarrow> digits_val acc b s = digits_val acc True s"
  by (cases s) auto

lemma list_all_str_nat [simp]: "list_all is_digit (str_nat n)"
  by (auto simp: list_all_iff intro: str_nat_digits)

lemma digits_val_zero_pad: "digits_val 0 False (zero_pad d (str_nat n)) = Some n"
  using digits_val_flag[of "str_nat n" 0 False] digits_val_str_nat[of n]
  by (cases "d - length (str_nat n) = 0") (simp_all add: zero_pad_def digits_val_replicate_zero)

lemma length_str_nat: "n < 10 ^ Suc d \<Longrightarrow> length (str_nat n) \<le> Suc d"
proof (induction d arbitrary: n)
  case 0
  then show ?case by (subst str_nat.simps) simp
next
  case (Suc d)
  then have "n div 10 < 10 ^ Suc d" by simp
  then have "length (str_nat (n div 10)) \<le> Suc d" by (rule Suc.IH)
  then show ?case by (subst str_nat.simps) simp
qed

lemma length_zero_pad: "n < 10 ^ Suc d \<Longrightarrow> length (zero_pad (Suc d) (str_nat n)) = Suc d"
  using length_str_nat[of n d] by (simp add: zero_pad_def)

lemma list_all_zero_pad [simp]: "list_all is_digit (zero_pad d (str_nat n))"
proof -
  have "is_digit (CHR ''0'')" by (simp add: is_digit_def)
  then show ?thesis by (auto simp: zero_pad_def list_all_iff intro: str_nat_digits)
qed

lemma digit_facts: "is_digit c \<Longrightarrow> c \<noteq> CHR ''.'' \<and> c \<noteq> CHR ''-'' \<and> c \<noteq> CHR ''+'' \<and> \<not> is_exp_mark c \<and> \<not> is_space c"
  using digit_not_space[of c] by (auto simp: is_digit_def is_exp_mark_def)

lemma takeWhile_digits:
  "list_all is_digit s \<Longrightarrow> takeWhile (\<lambda>c. c \<noteq> CHR ''.'') (s @ CHR ''.'' # t) = s"
  "list_all is_digit s \<Longrightarrow> dropWhile (\<lambda>c. c \<noteq> CHR ''.'') (s @ CHR ''.'' # t) = CHR ''.'' # t"
  by (induction s) (auto dest: digit_facts)

lemma no_exp_mark:
  assumes "list_all is_digit s" "list_all is_digit t"
  shows "takeWhile (\<lambda>c. \<not> is_exp_mark c) (s @ CHR ''.'' # t) = s @ CHR ''.'' # t"
    and "dropWhile (\<lambda>c. \<not> is_exp_mark c) (s @ CHR ''.'' # t) = []"
proof -
  have "\<And>c. c \<in> set (s @ CHR ''.'' # t) \<Longrightarrow> \<not> is_exp_mark c"
    using assms by (auto simp: list_all_iff digit_facts) (simp add: is_exp_mark_def)
  then show "takeWhile (\<lambda>c. \<not> is_exp_mark c) (s @ CHR ''.'' # t) = s @ CHR ''.'' # t"
    and "dropWhile (\<lambda>c. \<not> is_exp_mark c) (s @ CHR ''.'' # t) = []"
    by (simp_all only: takeWhile_eq_all_conv dropWhile_eq_Nil_conv) blast+
qed

lemma mantissa_decimal:
  assumes "n < 10 ^ Suc d"
  shows "mantissa_val (str_nat m @ CHR ''.'' # zero_pad (Suc d) (str_nat n))
       = Some (real m + real n / 10 ^ Suc d)"
proof -
  have len: "digit_count (zero_pad (Suc d) (str_nat n)) = Suc d"
    using list_all_zero_pad[of "Suc d" n] length_zero_pad[OF assms]
    by (simp add: digit_count_def list_all_iff filter_id_conv)
  have "zero_pad (Suc d) (str_nat n) \<noteq> []" using length_zero_pad[OF assms] by auto
  then show ?thesis
    using len by (simp add: mantissa_val_def Let_def takeWhile_digits digits_val_str_nat digits_val_zero_pad)
qed

text \<open>A reader gets back the number that was printed: the value rounded to \<open>d\<close> decimals.\<close>

theorem py_float_fmt_fixed:
  "py_float (fmt_fixed (Suc d) x)
     = Some ((if x < 0 then -1 else 1) * real_of_int (round_half_even (\<bar>x\<bar> * 10 ^ Suc d)) / 10 ^ Suc d)"
proof -
  define r where "r = round_half_even (\<bar>x\<bar> * 10 ^ Suc d)"
  define k where "k = nat r"
  define body where "body = str_nat (k div 10 ^ Suc d) @ CHR ''.'' # zero_pad (Suc d) (str_nat (k mod 10 ^ Suc d))"
  have r0: "0 \<le> r" by (simp add: r_def round_half_even_nonneg)
  have fmt: "fmt_fixed (Suc d) x = (if x < 0 then CHR ''-'' # body else body)"
    by (simp add: fmt_fixed_def Let_def body_def k_def r_def)
  have chars: "\<And>c. c \<in> set body \<Longrightarrow> is_digit c \<or> c = CHR ''.''"
    using list_all_zero_pad[of "Suc d"] by (auto simp: body_def list_all_iff str_nat_digits)
  then have nosp: "\<And>c. c \<in> set (fmt_fixed (Suc d) x) \<Longrightarrow> \<not> is_space c"
    by (auto simp: fmt digit_not_space minus_not_digit_space split: if_split_asm) (auto simp: is_space_def dest!: chars digit_not_space)
  have "body \<noteq> []" by (simp add: body_def)
  moreover have "\<not> (hd body = CHR ''-'' \<or> hd body = CHR ''+'')"
    using str_nat_digits[of "hd (str_nat (k div 10 ^ Suc d))" "k div 10 ^ Suc d"]
    by (auto simp: body_def dest: digit_facts)
  ultimately have sgn: "split_sign (fmt_fixed (Suc d) x) = (x < 0, body)"
    by (cases body) (auto simp: fmt split_sign_def)
  have "mantissa_val body = Some (real (k div 10 ^ Suc d) + real (k mod 10 ^ Suc d) / 10 ^ Suc d)"
    unfolding body_def by (rule mantissa_decimal) simp
  also have "real (k div 10 ^ Suc d) + real (k mod 10 ^ Suc d) / 10 ^ Suc d = real k / 10 ^ Suc d"
  proof -
    have "real k = real (k div 10 ^ Suc d * 10 ^ Suc d + k mod 10 ^ Suc d)" by (simp only: div_mult_mod_eq)
    then show ?thesis by (simp only: of_nat_add of_nat_mult of_nat_power of_nat_numeral) (simp add: field_simps)
  qed
  finally have man: "mantissa_val body = Some (real k / 10 ^ Suc d)" .
  have exps: "takeWhile (\<lambda>c. \<not> is_exp_mark c) body = body" "dropWhile (\<lambda>c. \<not> is_exp_mark c) body = []"
    unfolding body_def by (rule no_exp_mark; simp)+
  have "py_float (fmt_fixed (Suc d) x) = map_option (\<lambda>y. if x < 0 then - y else y) (Some (real k / 10 ^ Suc d))"
    by (simp add: py_float_def py_strip_no_space[OF nosp] sgn exps man del: option.map)
  moreover have "real k = real_of_int r" using r0 by (simp add: k_def)
  ultimately show ?thesis by (simp only: option.map r_def) (simp split: if_split)
qed

lemma fmt_fixed_reads_near:
  assumes "py_float (fmt_fixed (Suc d) x) = Some y"
  shows "\<bar>y - x\<bar> \<le> 1 / (2 * 10 ^ Suc d)"
proof -
  define r where "r = real_of_int (round_half_even (\<bar>x\<bar> * 10 ^ Suc d))"
  define t :: real where "t = 10 ^ Suc d"
  have t: "0 < t" by (simp add: t_def)
  have near: "\<bar>r - \<bar>x\<bar> * t\<bar> \<le> 1 / 2"
    using round_half_even_near[of "\<bar>x\<bar> * 10 ^ Suc d"] by (simp add: r_def t_def)
  have y: "y = (if x < 0 then -1 else 1) * r / t"
    using assms by (simp only: py_float_fmt_fixed r_def t_def option.inject)
  have "\<bar>y - x\<bar> = \<bar>r / t - \<bar>x\<bar>\<bar>" using y by (auto simp: abs_if)
  also have "\<dots> = \<bar>r - \<bar>x\<bar> * t\<bar> / t" using t by (simp add: field_simps abs_divide)
  also have "\<dots> \<le> (1 / 2) / t" using near t by (intro divide_right_mono) auto
  finally show ?thesis by (simp add: t_def)
qed

lemma fmt3_readable: "\<exists>y. float_of_str (fmt_fixed 3 x) = Inr y \<and> \<bar>y - x\<bar> \<le> 1 / 2000"
proof -
  have "\<exists>y. py_float (fmt_fixed (Suc 2) x) = Some y \<and> \<bar>y - x\<bar> \<le> 1 / (2 * 10 ^ Suc 2)"
    using py_float_fmt_fixed fmt_fixed_reads_near by blast
  then obtain y where "py_float (fmt_fixed 3 x) = Some y" "\<bar>y - x\<bar> \<le> 1 / 2000"
    by (auto simp: numeral_3_eq_3 numeral_2_eq_2)
  then show ?thesis by (auto simp: float_of_str_def)
qed

end
