(* ===== verification/Frontend_Stream.thy ===== *)
theory Frontend_Stream
  imports Frontend_Translate Py_Text
begin

text \<open>
  The parts the two streaming servicers share (\<open>ChatServicer.CompleteStream\<close> and
  \<open>CompletionsServicer.CompleteStream\<close>): the clock readings of a call, the local variables of the
  handler, the \<open>async for\<close> over the engine's outputs with its exception clauses, and the contract of
  a token stream: an abstract run that both handlers refine.

  Every clock reading is an argument: those at the handler's entry, and those taken while one output
  is processed. The engine's run is the list of its outputs and the way it ends.
\<close>

section \<open>Readings\<close>

record entry_reads =
  er_pa_t0 :: int
  er_pa_t4 :: int
  er_handler_entry_ns :: int
  er_pre_engine_ns :: int
  er_pre_engine_wall_ns :: int
  er_start :: real

text \<open>
  The readings around one output: \<open>perf_counter\<close> (\<open>now\<close>), \<open>perf_counter_ns\<close> and \<open>monotonic_ns\<close> at the
  first chunk, \<open>perf_counter_ns\<close> at the terminal emission, and what \<open>context.is_active()\<close> does before
  a chunk and before the final one.
\<close>

record step_reads =
  sr_now :: real
  sr_first_ns :: int
  sr_first_mono_ns :: int
  sr_terminal_ns :: int
  sr_active_chunk :: "bool py_result"
  sr_active_final :: "bool py_result"

type_synonym timed_output = "engine_output \<times> step_reads"

definition perturbation_audit :: "entry_reads \<Rightarrow> int" where
  "perturbation_audit er = er_pa_t4 er - er_pa_t0 er"

section \<open>Handler state\<close>

record stream_state =
  ss_first_token_at :: "real option"
  ss_last_token_at :: "real option"
  ss_token_count :: int
  ss_first_chunk_ns :: "int option"
  ss_first_chunk_mono_ns :: "int option"
  ss_tokenized_prompt_length :: "int option"
  ss_tokenized_prompt_hash :: "string option"
  ss_engine_arrival_ns :: int
  ss_engine_queued_ns :: int
  ss_engine_scheduled_ns :: int
  ss_engine_first_token_ns :: int
  ss_engine_last_token_ns :: int
  ss_prev_text :: string
  ss_token_index :: int

definition initial_stream_state :: stream_state where
  "initial_stream_state =
     \<lparr>ss_first_token_at = None, ss_last_token_at = None, ss_token_count = 0,
      ss_first_chunk_ns = None, ss_first_chunk_mono_ns = None,
      ss_tokenized_prompt_length = None, ss_tokenized_prompt_hash = None,
      ss_engine_arrival_ns = 0, ss_engine_queued_ns = 0, ss_engine_scheduled_ns = 0,
      ss_engine_first_token_ns = 0, ss_engine_last_token_ns = 0,
      ss_prev_text = [], ss_token_index = 0\<rparr>"

text \<open>\<open>int(x * 1e9) if x else 0\<close>.\<close>

definition stat_ns :: "real option \<Rightarrow> int" where
  "stat_ns x = (case x of None \<Rightarrow> 0 | Some t \<Rightarrow> if t = 0 then 0 else trunc_real (t * 1000000000))"

text \<open>\<open>t.to_bytes(4, "little")\<close>.\<close>

definition to_bytes4_little :: "int \<Rightarrow> string py_result" where
  "to_bytes4_little t =
     (if 0 \<le> t \<and> t < 2 ^ 32
      then Inr (map (\<lambda>k. char_of (nat (t div 256 ^ k mod 256))) [0, 1, 2, 3])
      else Inl (Exn ''OverflowError'' ''int too big to convert''))"

definition prompt_ids :: "engine_output \<Rightarrow> int list" where
  "prompt_ids out = (case eo_prompt_token_ids out of None \<Rightarrow> [] | Some ids \<Rightarrow> ids)"

text \<open>\<open>hashlib.blake2b(..., digest_size=8).hexdigest()\<close> is the argument \<open>blake\<close>.\<close>

definition prompt_hash :: "(string \<Rightarrow> string) \<Rightarrow> int list \<Rightarrow> string py_result" where
  "prompt_hash blake ids =
     bind_result (map_result to_bytes4_little ids) (\<lambda>bs. Inr (blake (concat bs)))"

section \<open>Events and the loop\<close>

text \<open>
  What a streaming handler does to the wire, in order: it yields a message or sets the trailing
  metadata of the call.
\<close>

datatype 'c stream_event = Ev_Chunk 'c | Ev_Trailers "(string \<times> string) list"

datatype run_end = Engine_Exhausted | Engine_Raised py_exn | Engine_Cancelled

datatype stream_end = Stream_Returned | Stream_Aborted string string | Stream_Raised py_exn

datatype 's outcome = Go_On 's | Finish | Fail py_exn

text \<open>
  The loop inside its \<open>try\<close>: \<open>CancelledError\<close> returns, any other exception aborts the call with
  \<open>INTERNAL\<close> and the text of the exception.
\<close>

definition internal_abort :: "py_exn \<Rightarrow> stream_end" where
  "internal_abort exc = Stream_Aborted ''INTERNAL'' (exn_msg exc)"

definition end_of_run :: "run_end \<Rightarrow> stream_end" where
  "end_of_run e = (case e of
     Engine_Exhausted \<Rightarrow> Stream_Returned | Engine_Cancelled \<Rightarrow> Stream_Returned
   | Engine_Raised exc \<Rightarrow> internal_abort exc)"

fun async_for ::
  "('x \<Rightarrow> 's \<Rightarrow> 'e list \<times> 's outcome) \<Rightarrow> 's \<Rightarrow> 'x list \<Rightarrow> run_end \<Rightarrow> 'e list \<times> stream_end" where
  "async_for step st [] e = ([], end_of_run e)"
| "async_for step st (x # xs) e =
     (let (evs, out) = step x st
      in case out of
           Finish \<Rightarrow> (evs, Stream_Returned)
         | Fail exc \<Rightarrow> (evs, internal_abort exc)
         | Go_On st' \<Rightarrow> (let (evs', en) = async_for step st' xs e in (evs @ evs', en)))"

definition chunks_of :: "'c stream_event list \<Rightarrow> 'c list" where
  "chunks_of evs = List.map_filter (\<lambda>ev. case ev of Ev_Chunk c \<Rightarrow> Some c | Ev_Trailers _ \<Rightarrow> None) evs"

definition trailers_of :: "'c stream_event list \<Rightarrow> (string \<times> string) list list" where
  "trailers_of evs = List.map_filter (\<lambda>ev. case ev of Ev_Chunk _ \<Rightarrow> None | Ev_Trailers t \<Rightarrow> Some t) evs"

lemma chunks_of_simps [simp]:
  "chunks_of [] = []"
  "chunks_of (Ev_Chunk c # evs) = c # chunks_of evs"
  "chunks_of (Ev_Trailers t # evs) = chunks_of evs"
  "chunks_of (evs @ evs') = chunks_of evs @ chunks_of evs'"
  by (simp_all add: chunks_of_def List.map_filter_def)

lemma trailers_of_simps [simp]:
  "trailers_of [] = []"
  "trailers_of (Ev_Chunk c # evs) = trailers_of evs"
  "trailers_of (Ev_Trailers t # evs) = t # trailers_of evs"
  "trailers_of (evs @ evs') = trailers_of evs @ trailers_of evs'"
  by (simp_all add: trailers_of_def List.map_filter_def)

section \<open>The servicers' environment\<close>

datatype 'a engine_input = Text_Input string | Tensor_Input "'a tensor"

text \<open>
  The engine, the tokenizer and torch, the hash of the standard library and the call's fresh
  \<open>request_id\<close>. The engine's answer to a call is its timed run.
\<close>

record ('p, 'a) frontend_env =
  fe_apply_chat_template :: "(string \<times> string) list \<Rightarrow> string py_result"
  fe_SamplingParams :: "sampling_kwargs \<Rightarrow> 'p py_result"
  fe_generate :: "'a engine_input \<Rightarrow> 'p \<Rightarrow> string \<Rightarrow> timed_output list \<times> run_end"
  fe_torch_load :: "string \<Rightarrow> 'a tensor py_result"
  fe_blake :: "string \<Rightarrow> string"
  fe_request_id :: string

text \<open>
  A unary handler drains the engine and keeps the last output. It has no \<open>try\<close>: an exception of the
  engine, a cancellation included, leaves the handler.
\<close>

definition drain :: "timed_output list \<times> run_end \<Rightarrow> engine_output option py_result" where
  "drain run = (case snd run of
     Engine_Raised exc \<Rightarrow> Inl exc
   | Engine_Cancelled \<Rightarrow> Inl (Exn ''CancelledError'' [])
   | Engine_Exhausted \<Rightarrow> Inr (if fst run = [] then None else Some (fst (last (fst run)))))"

abbreviation no_output_error :: py_exn where
  "no_output_error \<equiv> Exn ''AssertionError'' ''Engine produced no output''"

section \<open>The abstract token stream\<close>

text \<open>
  What a stream promises, without clocks or metadata: each output that adds text is a chunk with the
  added text, no finish reason and the next index; the first output with a finish reason ends the
  stream with the metadata and one last empty chunk that carries the reason.
\<close>

datatype abs_event = A_Chunk string string int | A_Trailers

definition added_text :: "string \<Rightarrow> completion_output \<Rightarrow> string" where
  "added_text prev c = drop (length prev) (co_text c)"

definition finishes :: "completion_output \<Rightarrow> bool" where
  "finishes c = truthy (co_finish_reason c)"

definition next_index :: "string \<Rightarrow> int \<Rightarrow> completion_output \<Rightarrow> int" where
  "next_index prev i c = (if added_text prev c = [] then i else i + 1)"

definition abs_emit :: "string \<Rightarrow> int \<Rightarrow> completion_output \<Rightarrow> abs_event list" where
  "abs_emit prev i c =
     (if added_text prev c = [] then [] else [A_Chunk (added_text prev c) [] i])
     @ (if finishes c
        then [A_Trailers, A_Chunk [] (the (co_finish_reason c)) (next_index prev i c)] else [])"

fun abs_run :: "string \<Rightarrow> int \<Rightarrow> completion_output list \<Rightarrow> abs_event list" where
  "abs_run prev i [] = []"
| "abs_run prev i (c # cs) =
     abs_emit prev i c @ (if finishes c then [] else abs_run (co_text c) (next_index prev i c) cs)"

definition abs_texts :: "abs_event list \<Rightarrow> string list" where
  "abs_texts evs = List.map_filter (\<lambda>ev. case ev of A_Chunk t r i \<Rightarrow> Some t | A_Trailers \<Rightarrow> None) evs"

definition abs_reasons :: "abs_event list \<Rightarrow> string list" where
  "abs_reasons evs = List.map_filter (\<lambda>ev. case ev of A_Chunk t r i \<Rightarrow> Some r | A_Trailers \<Rightarrow> None) evs"

definition abs_indices :: "abs_event list \<Rightarrow> int list" where
  "abs_indices evs = List.map_filter (\<lambda>ev. case ev of A_Chunk t r i \<Rightarrow> Some i | A_Trailers \<Rightarrow> None) evs"

lemma abs_views_simps [simp]:
  "abs_texts [] = []" "abs_reasons [] = []" "abs_indices [] = []"
  "abs_texts (A_Chunk t r i # evs) = t # abs_texts evs"
  "abs_reasons (A_Chunk t r i # evs) = r # abs_reasons evs"
  "abs_indices (A_Chunk t r i # evs) = i # abs_indices evs"
  "abs_texts (A_Trailers # evs) = abs_texts evs"
  "abs_reasons (A_Trailers # evs) = abs_reasons evs"
  "abs_indices (A_Trailers # evs) = abs_indices evs"
  "abs_texts (evs @ evs') = abs_texts evs @ abs_texts evs'"
  "abs_reasons (evs @ evs') = abs_reasons evs @ abs_reasons evs'"
  "abs_indices (evs @ evs') = abs_indices evs @ abs_indices evs'"
  by (simp_all add: abs_texts_def abs_reasons_def abs_indices_def List.map_filter_def)

text \<open>The outputs the stream reads: those up to the first that finishes.\<close>

fun consumed :: "completion_output list \<Rightarrow> completion_output list" where
  "consumed [] = []"
| "consumed (c # cs) = (if finishes c then [c] else c # consumed cs)"

lemma consumed_Nil_iff [simp]: "consumed cs = [] \<longleftrightarrow> cs = []"
  by (cases cs) auto

fun text_grows :: "string \<Rightarrow> completion_output list \<Rightarrow> bool" where
  "text_grows prev [] \<longleftrightarrow> True"
| "text_grows prev (c # cs) \<longleftrightarrow> prefix prev (co_text c) \<and> text_grows (co_text c) cs"

lemma abs_run_texts:
  "text_grows prev (consumed cs) \<Longrightarrow>
     prev @ concat (abs_texts (abs_run prev i cs))
       = (if cs = [] then prev else co_text (last (consumed cs)))"
proof (induction cs arbitrary: prev i)
  case (Cons c cs)
  have grow: "prev @ added_text prev c = co_text c"
    using Cons.prems by (auto simp: added_text_def prefix_def split: if_split_asm)
  show ?case
  proof (cases "finishes c")
    case True
    then show ?thesis using grow by (auto simp: abs_emit_def)
  next
    case False
    then have "text_grows (co_text c) (consumed cs)" using Cons.prems by simp
    note ih = Cons.IH[OF this, of "next_index prev i c"]
    have "prev @ concat (abs_texts (abs_run prev i (c # cs)))
        = co_text c @ concat (abs_texts (abs_run (co_text c) (next_index prev i c) cs))"
      using False grow by (auto simp: abs_emit_def)
    then show ?thesis using False ih by simp
  qed
qed simp

lemma upt_shift: "map (\<lambda>k. i + int k) [0 ..< Suc n] = i # map (\<lambda>k. (i + 1) + int k) [0 ..< n]"
  by (simp add: map_upt_Suc del: upt_Suc)

lemma abs_run_indices:
  "abs_indices (abs_run prev i cs)
     = map (\<lambda>k. i + int k) [0 ..< length (abs_texts (abs_run prev i cs))]"
proof (induction cs arbitrary: prev i)
  case (Cons c cs)
  note ih = Cons.IH[of "co_text c" "next_index prev i c"]
  show ?case
  proof (cases "added_text prev c = []")
    case True
    then show ?thesis using ih by (simp add: abs_emit_def next_index_def)
  next
    case False
    then show ?thesis using ih by (simp add: abs_emit_def next_index_def upt_shift del: upt_Suc)
      (simp add: upt_rec)?
  qed
qed simp

text \<open>A finish reason is on the last chunk and nowhere else, right after the metadata.\<close>

definition closing :: "int \<Rightarrow> completion_output option \<Rightarrow> abs_event list" where
  "closing i c = (case c of None \<Rightarrow> []
     | Some c \<Rightarrow> [A_Trailers, A_Chunk [] (the (co_finish_reason c)) i])"

definition text_chunk :: "abs_event \<Rightarrow> bool" where
  "text_chunk ev \<longleftrightarrow> (case ev of A_Chunk t r i \<Rightarrow> t \<noteq> [] \<and> r = [] | A_Trailers \<Rightarrow> False)"

lemma abs_run_shape:
  "\<exists>pre. list_all text_chunk pre \<and>
     abs_run prev i cs = pre @ closing (i + int (length pre)) (find finishes cs)"
proof (induction cs arbitrary: prev i)
  case (Cons c cs)
  define hd_evs where "hd_evs = (if added_text prev c = [] then [] else [A_Chunk (added_text prev c) [] i])"
  have ni: "next_index prev i c = i + int (length hd_evs)"
    by (simp add: next_index_def hd_evs_def)
  have hd_ok: "list_all text_chunk hd_evs"
    by (simp add: hd_evs_def text_chunk_def)
  have emit: "abs_emit prev i c = hd_evs @ (if finishes c then closing (i + int (length hd_evs)) (Some c) else [])"
    using ni by (simp add: abs_emit_def hd_evs_def closing_def)
  show ?case
  proof (cases "finishes c")
    case True
    then have "abs_run prev i (c # cs) = hd_evs @ closing (i + int (length hd_evs)) (find finishes (c # cs))"
      using emit by simp
    then show ?thesis using hd_ok by blast
  next
    case False
    from Cons.IH[of "co_text c" "next_index prev i c"] obtain pre where
      pre: "list_all text_chunk pre"
        "abs_run (co_text c) (next_index prev i c) cs
           = pre @ closing (next_index prev i c + int (length pre)) (find finishes cs)"
      by blast
    have "abs_run prev i (c # cs)
        = (hd_evs @ pre) @ closing (i + int (length (hd_evs @ pre))) (find finishes (c # cs))"
      using False emit pre ni by (simp add: add.assoc)
    then show ?thesis using hd_ok pre by (metis list_all_append)
  qed
qed (simp add: closing_def)

section \<open>The contract of a streaming handler\<close>

text \<open>
  A handler's step refines the abstract stream on the outputs it accepts. \<open>view\<close> reads a message as
  text, reason and index.
\<close>

definition abs_event_of :: "('c \<Rightarrow> string \<times> string \<times> int) \<Rightarrow> 'c stream_event \<Rightarrow> abs_event" where
  "abs_event_of view ev = (case ev of
     Ev_Chunk c \<Rightarrow> (case view c of (t, r, i) \<Rightarrow> A_Chunk t r i) | Ev_Trailers _ \<Rightarrow> A_Trailers)"

lemma chunky:
  assumes "list_all text_chunk (map (abs_event_of view) es)"
  shows "\<exists>pre. es = map Ev_Chunk pre \<and> list_all (\<lambda>c. fst (view c) \<noteq> [] \<and> fst (snd (view c)) = []) pre"
  using assms
proof (induction es)
  case (Cons ev es)
  then obtain pre where pre: "es = map Ev_Chunk pre"
    "list_all (\<lambda>c. fst (view c) \<noteq> [] \<and> fst (snd (view c)) = []) pre" by auto
  from Cons.prems obtain c where "ev = Ev_Chunk c" "fst (view c) \<noteq> [] \<and> fst (snd (view c)) = []"
    by (cases ev) (auto simp: abs_event_of_def text_chunk_def split: prod.splits)
  with pre show ?case by (intro exI[of _ "c # pre"]) simp
qed simp

lemma chunk_views:
  "abs_texts (map (abs_event_of view) (map Ev_Chunk pre)) = map (\<lambda>c. fst (view c)) pre"
  "abs_indices (map (abs_event_of view) (map Ev_Chunk pre)) = map (\<lambda>c. snd (snd (view c))) pre"
  by (induction pre) (auto simp: abs_event_of_def split: prod.splits)

lemma closing_views:
  "abs_texts (closing i c) = (case c of None \<Rightarrow> [] | Some _ \<Rightarrow> [[]])"
  "abs_indices (closing i c) = (case c of None \<Rightarrow> [] | Some _ \<Rightarrow> [i])"
  by (simp_all add: closing_def split: option.split)

lemma closing_events:
  assumes "map (abs_event_of view) es = closing i (Some c)"
  shows "\<exists>tr last_chunk. es = [Ev_Trailers tr, Ev_Chunk last_chunk]
     \<and> view last_chunk = ([], the (co_finish_reason c), i)"
proof -
  from assms obtain ev1 ev2 where es: "es = [ev1, ev2]" "abs_event_of view ev1 = A_Trailers"
      "abs_event_of view ev2 = A_Chunk [] (the (co_finish_reason c)) i"
    by (auto simp: closing_def map_eq_Cons_conv)
  then show ?thesis
    by (cases ev1; cases ev2) (auto simp: abs_event_of_def split: prod.splits)
qed

abbreviation completion_of :: "timed_output \<Rightarrow> completion_output" where
  "completion_of x \<equiv> hd (eo_outputs (fst x))"

locale token_stream =
  fixes step :: "timed_output \<Rightarrow> stream_state \<Rightarrow> 'c stream_event list \<times> stream_state outcome"
    and view :: "'c \<Rightarrow> string \<times> string \<times> int"
    and accepts :: "timed_output \<Rightarrow> bool"
  assumes step_refines: "accepts x \<Longrightarrow>
      \<exists>st'. map (abs_event_of view) (fst (step x st))
              = abs_emit (ss_prev_text st) (ss_token_index st) (completion_of x)
        \<and> snd (step x st) = (if finishes (completion_of x) then Finish else Go_On st')
        \<and> ss_prev_text st' = co_text (completion_of x)
        \<and> ss_token_index st' = next_index (ss_prev_text st) (ss_token_index st) (completion_of x)"
begin

lemma run_refines:
  "list_all accepts xs \<Longrightarrow>
     map (abs_event_of view) (fst (async_for step st xs e))
       = abs_run (ss_prev_text st) (ss_token_index st) (map completion_of xs)
   \<and> snd (async_for step st xs e)
       = (if list_ex (\<lambda>x. finishes (completion_of x)) xs then Stream_Returned else end_of_run e)"
proof (induction xs arbitrary: st)
  case (Cons x xs)
  then have x: "accepts x" and xs: "list_all accepts xs" by simp_all
  from step_refines[OF x, of st] obtain st' where st':
    "map (abs_event_of view) (fst (step x st))
       = abs_emit (ss_prev_text st) (ss_token_index st) (completion_of x)"
    "snd (step x st) = (if finishes (completion_of x) then Finish else Go_On st')"
    "ss_prev_text st' = co_text (completion_of x)"
    "ss_token_index st' = next_index (ss_prev_text st) (ss_token_index st) (completion_of x)"
    by blast
  obtain evs out where step: "step x st = (evs, out)" by (cases "step x st")
  from Cons.IH[OF xs, of st'] st' step show ?case
    by (auto simp: split: prod.splits)
qed simp

text \<open>The shape of a run on the wire, finished or not.\<close>

lemma run_shape:
  assumes ok: "list_all accepts xs" and st: "ss_token_index st = 0" "ss_prev_text st = []"
    and run: "async_for step st xs e = (evs, en)"
  shows "\<exists>pre. list_all (\<lambda>c. fst (view c) \<noteq> [] \<and> fst (snd (view c)) = []) pre
     \<and> map (\<lambda>c. snd (snd (view c))) pre = map int [0 ..< length pre]
     \<and> (text_grows [] (consumed (map completion_of xs)) \<longrightarrow>
          concat (map (\<lambda>c. fst (view c)) pre)
            = (if xs = [] then [] else co_text (last (consumed (map completion_of xs)))))
     \<and> (case find finishes (map completion_of xs) of
          None \<Rightarrow> evs = map Ev_Chunk pre \<and> en = end_of_run e
        | Some c \<Rightarrow> (\<exists>tr last_chunk. evs = map Ev_Chunk pre @ [Ev_Trailers tr, Ev_Chunk last_chunk]
            \<and> view last_chunk = ([], the (co_finish_reason c), int (length pre)))
            \<and> en = Stream_Returned)"
proof -
  define cs where "cs = map completion_of xs"
  have evs: "map (abs_event_of view) evs = abs_run [] 0 cs"
    and en: "en = (if list_ex (\<lambda>x. finishes (completion_of x)) xs then Stream_Returned else end_of_run e)"
    using run_refines[OF ok, of st e] run st by (simp_all add: cs_def)
  from abs_run_shape[of "[]" 0 cs] obtain apre where
    apre: "list_all text_chunk apre" "abs_run [] 0 cs = apre @ closing (int (length apre)) (find finishes cs)"
    by auto
  from evs apre(2) obtain evs1 evs2 where split: "evs = evs1 @ evs2"
      "map (abs_event_of view) evs1 = apre"
      "map (abs_event_of view) evs2 = closing (int (length apre)) (find finishes cs)"
    by (auto simp: map_eq_append_conv)
  from chunky[of view evs1] apre(1) split(2) obtain pre where
    pre: "evs1 = map Ev_Chunk pre" "list_all (\<lambda>c. fst (view c) \<noteq> [] \<and> fst (snd (view c)) = []) pre"
    by auto
  have len: "length apre = length pre" using split(2) pre(1) by auto
  have views: "abs_texts apre = map (\<lambda>c. fst (view c)) pre"
    "abs_indices apre = map (\<lambda>c. snd (snd (view c))) pre"
    using chunk_views[of view pre] split(2) pre(1) by simp_all
  have texts: "abs_texts (abs_run [] 0 cs) = map (\<lambda>c. fst (view c)) pre
      @ (case find finishes cs of None \<Rightarrow> [] | Some _ \<Rightarrow> [[]])"
    using apre(2) by (simp add: views closing_views)
  have "map (\<lambda>c. snd (snd (view c))) pre = map int [0 ..< length pre]"
  proof -
    have inds: "abs_indices (abs_run [] 0 cs) = map (\<lambda>c. snd (snd (view c))) pre
        @ (case find finishes cs of None \<Rightarrow> [] | Some _ \<Rightarrow> [int (length apre)])"
      using apre(2) by (simp add: views closing_views)
    have "take (length pre) (abs_indices (abs_run [] 0 cs)) = map int [0 ..< length pre]"
      using abs_run_indices[of "[]" 0 cs] texts
      by (simp add: take_map take_upt split: option.splits)
    then show ?thesis using inds by simp
  qed
  moreover have "text_grows [] (consumed cs) \<longrightarrow> concat (map (\<lambda>c. fst (view c)) pre)
      = (if xs = [] then [] else co_text (last (consumed cs)))"
    using abs_run_texts[of "[]" cs 0] texts by (auto simp: cs_def split: option.splits if_split_asm)
  moreover have "case find finishes cs of
          None \<Rightarrow> evs = map Ev_Chunk pre \<and> en = end_of_run e
        | Some c \<Rightarrow> (\<exists>tr last_chunk. evs = map Ev_Chunk pre @ [Ev_Trailers tr, Ev_Chunk last_chunk]
            \<and> view last_chunk = ([], the (co_finish_reason c), int (length pre)))
            \<and> en = Stream_Returned"
  proof (cases "find finishes cs")
    case None
    then have "\<not> list_ex (\<lambda>x. finishes (completion_of x)) xs"
      by (auto simp: cs_def find_None_iff list_ex_iff)
    then show ?thesis using None en split pre by (simp add: closing_def)
  next
    case (Some c)
    then have fin: "list_ex (\<lambda>x. finishes (completion_of x)) xs"
      by (auto simp: cs_def find_Some_iff list_ex_iff)
    then show ?thesis using Some en split pre(1) closing_events[of view evs2] len by auto
  qed
  ultimately show ?thesis using pre(2) by (auto simp: cs_def)
qed

end

section \<open>Prompt hashing\<close>

definition ids_fit :: "engine_output \<Rightarrow> bool" where
  "ids_fit out \<longleftrightarrow> list_all (\<lambda>t. 0 \<le> t \<and> t < 2 ^ 32) (prompt_ids out)"

lemma prompt_hash_defined: "ids_fit out \<Longrightarrow> \<exists>h. prompt_hash blake (prompt_ids out) = Inr h"
proof -
  have "\<exists>bs. map_result to_bytes4_little ids = Inr bs"
    if "list_all (\<lambda>t. 0 \<le> t \<and> t < 2 ^ 32) ids" for ids
    using that by (induction ids) (auto simp: to_bytes4_little_def)
  then show "ids_fit out \<Longrightarrow> \<exists>h. prompt_hash blake (prompt_ids out) = Inr h"
    by (fastforce simp: ids_fit_def prompt_hash_def)
qed

text \<open>Four little-endian bytes determine the token, so equal hash inputs mean equal prompts.\<close>

lemma to_bytes4_length: "to_bytes4_little t = Inr b \<Longrightarrow> length b = 4"
  by (auto simp: to_bytes4_little_def split: if_split_asm)

end
