(* ===== verification/Frontend_Chat.thy ===== *)
theory Frontend_Chat
  imports Frontend_Stream
begin

text \<open>
  \<open>chat.py\<close> of the frontend: \<open>ChatServicer.Complete\<close> and \<open>ChatServicer.CompleteStream\<close>, the latter as
  one step per engine output run by the shared loop.
\<close>

section \<open>Complete\<close>

text \<open>
  The result is what the handler sets as trailing metadata, if it gets there, and its answer or the
  exception that leaves it. \<open>finished_at\<close> is the second \<open>perf_counter\<close> reading.
\<close>

definition chat_complete ::
  "('p, 'a) frontend_env \<Rightarrow> entry_reads \<Rightarrow> real \<Rightarrow> chat_complete_request
     \<Rightarrow> (string \<times> string) list option \<times> chat_complete_response py_result" where
  "chat_complete env er finished_at req =
     (case messages_to_prompt (fe_apply_chat_template env) (cq_messages req) of
        Inl e \<Rightarrow> (None, Inl e)
      | Inr prompt \<Rightarrow>
     (case chat_proto_to_sampling_params (fe_SamplingParams env) req of
        Inl e \<Rightarrow> (None, Inl e)
      | Inr params \<Rightarrow>
     (case drain (fe_generate env (Text_Input prompt) params (fe_request_id env)) of
        Inl e \<Rightarrow> (None, Inl e)
      | Inr final \<Rightarrow>
          (Some [(''engine-forward-ms'', fmt_fixed 3 ((finished_at - er_start er) * 1000))],
           (case final of None \<Rightarrow> Inl no_output_error | Some out \<Rightarrow> request_output_to_proto out)))))"

section \<open>CompleteStream\<close>

text \<open>What the first output with new text records.\<close>

definition chat_capture_first ::
  "(string \<Rightarrow> string) \<Rightarrow> engine_output \<Rightarrow> step_reads \<Rightarrow> stream_state \<Rightarrow> stream_state py_result" where
  "chat_capture_first blake out rd st =
     (let st1 = st\<lparr>ss_first_token_at := Some (sr_now rd), ss_first_chunk_ns := Some (sr_first_ns rd),
                   ss_first_chunk_mono_ns := Some (sr_first_mono_ns rd)\<rparr>;
          ids = prompt_ids out
      in bind_result
           (if ids \<noteq> []
            then bind_result (prompt_hash blake ids) (\<lambda>h.
                   Inr (st1\<lparr>ss_tokenized_prompt_length := Some (int (length ids)),
                            ss_tokenized_prompt_hash := Some h\<rparr>))
            else Inr st1) (\<lambda>st2.
         Inr (case eo_metrics out of
                None \<Rightarrow> st2
              | Some m \<Rightarrow> st2\<lparr>ss_engine_arrival_ns := stat_ns (em_arrival_time m),
                              ss_engine_queued_ns := stat_ns (em_queued_ts m),
                              ss_engine_scheduled_ns := stat_ns (em_scheduled_ts m),
                              ss_engine_first_token_ns := stat_ns (em_first_token_ts m)\<rparr>)))"

definition chat_on_delta ::
  "(string \<Rightarrow> string) \<Rightarrow> engine_output \<Rightarrow> completion_output \<Rightarrow> step_reads \<Rightarrow> stream_state
     \<Rightarrow> stream_state py_result" where
  "chat_on_delta blake out c rd st =
     bind_result (if ss_first_token_at st = None then chat_capture_first blake out rd st else Inr st)
       (\<lambda>st'. Inr (st'\<lparr>ss_last_token_at := Some (sr_now rd),
                        ss_token_count := int (length (co_token_ids c))\<rparr>))"

definition chat_engine_ttft_ms :: "entry_reads \<Rightarrow> stream_state \<Rightarrow> real" where
  "chat_engine_ttft_ms er st = (case ss_first_token_at st of
     None \<Rightarrow> 0 | Some t \<Rightarrow> if t \<noteq> 0 then (t - er_start er) * 1000 else 0)"

definition chat_engine_tpot_ms :: "stream_state \<Rightarrow> real" where
  "chat_engine_tpot_ms st = (case (ss_last_token_at st, ss_first_token_at st) of
     (Some l, Some f) \<Rightarrow> if 1 < ss_token_count st
                        then (l - f) * 1000 / real_of_int (max (ss_token_count st - 1) 1) else 0
   | _ \<Rightarrow> 0)"

text \<open>\<open>last_token_ts\<close> is read again at the terminal emission.\<close>

definition chat_refresh_last_token :: "engine_output \<Rightarrow> stream_state \<Rightarrow> stream_state" where
  "chat_refresh_last_token out st = (case eo_metrics out of
     None \<Rightarrow> st
   | Some m \<Rightarrow> (case em_last_token_ts m of
        None \<Rightarrow> st
      | Some t \<Rightarrow> if t = 0 then st else st\<lparr>ss_engine_last_token_ns := trunc_real (t * 1000000000)\<rparr>))"

definition chat_trailers :: "entry_reads \<Rightarrow> step_reads \<Rightarrow> stream_state \<Rightarrow> (string \<times> string) list" where
  "chat_trailers er rd st =
     [(''engine-ttft-ms'', fmt_fixed 3 (chat_engine_ttft_ms er st)),
      (''engine-tpot-ms'', fmt_fixed 3 (chat_engine_tpot_ms st)),
      (''m6_1_1_t_handler_entry'', str_int (er_handler_entry_ns er)),
      (''m6_1_1_t_pre_engine'', str_int (er_pre_engine_ns er)),
      (''m6_1_1_t_first_chunk'',
         str_int (case ss_first_chunk_ns st of Some n \<Rightarrow> n | None \<Rightarrow> sr_terminal_ns rd)),
      (''m6_1_1_t_terminal_emit'', str_int (sr_terminal_ns rd)),
      (''m6_1_1_t_perturbation_audit_ns'', str_int (perturbation_audit er)),
      (''m6_1_1_t_engine_arrival_ns'', str_int (ss_engine_arrival_ns st)),
      (''m6_1_1_t_engine_queued_ns'', str_int (ss_engine_queued_ns st)),
      (''m6_1_1_t_engine_scheduled_ns'', str_int (ss_engine_scheduled_ns st)),
      (''m6_1_1_t_engine_first_token_ns'', str_int (ss_engine_first_token_ns st)),
      (''m6_1_1_t_engine_last_token_ns'', str_int (ss_engine_last_token_ns st)),
      (''m6_1_1_t_pre_engine_wall_ns'', str_int (er_pre_engine_wall_ns er)),
      (''m6_1_1_t_first_chunk_mono_ns'',
         (case ss_first_chunk_mono_ns st of Some n \<Rightarrow> str_int n | None \<Rightarrow> ''0''))]
     @ (case ss_tokenized_prompt_length st of
          Some n \<Rightarrow> [(''m6_1_3_tokenized_prompt_length'', str_int n)] | None \<Rightarrow> [])
     @ (case ss_tokenized_prompt_hash st of
          Some h \<Rightarrow> [(''m6_1_3_tokenized_prompt_hash'', h)] | None \<Rightarrow> [])"

definition chat_stream_step ::
  "(string \<Rightarrow> string) \<Rightarrow> entry_reads \<Rightarrow> timed_output \<Rightarrow> stream_state
     \<Rightarrow> chat_stream_chunk stream_event list \<times> stream_state outcome" where
  "chat_stream_step blake er x st =
     (let (out, rd) = x
      in case first_completion out of
           Inl e \<Rightarrow> ([], Fail e)
         | Inr c \<Rightarrow>
      (case output_to_stream_chunk out (ss_token_index st) (ss_prev_text st) of
           Inl e \<Rightarrow> ([], Fail e)
         | Inr chunk \<Rightarrow>
      (let st1 = st\<lparr>ss_prev_text := co_text c\<rparr>
       in case (if ck_delta_content chunk = [] then Inr ([], st1)
                else bind_result (chat_on_delta blake out c rd st1) (\<lambda>st2.
                       Inr ([Ev_Chunk chunk], st2\<lparr>ss_token_index := ss_token_index st2 + 1\<rparr>))) of
           Inl e \<Rightarrow> ([], Fail e)
         | Inr (evs, st2) \<Rightarrow>
             if truthy (co_finish_reason c)
             then (let st3 = chat_refresh_last_token out st2
                   in (evs @ [Ev_Trailers (chat_trailers er rd st3),
                              Ev_Chunk \<lparr>ck_delta_content = [],
                                        ck_finish_reason = the (co_finish_reason c),
                                        ck_token_index = ss_token_index st3\<rparr>], Finish))
             else (evs, Go_On st2))))"

definition chat_complete_stream ::
  "('p, 'a) frontend_env \<Rightarrow> entry_reads \<Rightarrow> chat_complete_request
     \<Rightarrow> chat_stream_chunk stream_event list \<times> stream_end" where
  "chat_complete_stream env er req =
     (case messages_to_prompt (fe_apply_chat_template env) (cq_messages req) of
        Inl e \<Rightarrow> ([], Stream_Raised e)
      | Inr prompt \<Rightarrow>
     (case chat_proto_to_sampling_params (fe_SamplingParams env) req of
        Inl e \<Rightarrow> ([], Stream_Raised e)
      | Inr params \<Rightarrow>
          (let (outs, end_run) = fe_generate env (Text_Input prompt) params (fe_request_id env)
           in async_for (chat_stream_step (fe_blake env) er) initial_stream_state outs end_run)))"

section \<open>The handler as a token stream\<close>

definition chat_chunk_view :: "chat_stream_chunk \<Rightarrow> string \<times> string \<times> int" where
  "chat_chunk_view ck = (ck_delta_content ck, ck_finish_reason ck, ck_token_index ck)"

definition chat_accepts :: "timed_output \<Rightarrow> bool" where
  "chat_accepts x \<longleftrightarrow> eo_outputs (fst x) \<noteq> [] \<and> ids_fit (fst x)"

lemma chat_capture_first_ok:
  assumes "ids_fit out"
  shows "\<exists>st'. chat_capture_first blake out rd st = Inr st'
     \<and> ss_prev_text st' = ss_prev_text st \<and> ss_token_index st' = ss_token_index st"
  using prompt_hash_defined[OF assms, of blake]
  by (auto simp: chat_capture_first_def Let_def split: option.splits)

lemma chat_on_delta_ok:
  assumes "ids_fit out"
  shows "\<exists>st'. chat_on_delta blake out c rd st = Inr st'
     \<and> ss_prev_text st' = ss_prev_text st \<and> ss_token_index st' = ss_token_index st"
  using chat_capture_first_ok[OF assms, of blake rd st]
  by (auto simp: chat_on_delta_def)

lemma chat_refresh_keeps [simp]:
  "ss_token_index (chat_refresh_last_token out st) = ss_token_index st"
  "ss_prev_text (chat_refresh_last_token out st) = ss_prev_text st"
  by (simp_all add: chat_refresh_last_token_def split: option.split)

lemma chat_step_refines:
  assumes "chat_accepts x"
  shows "\<exists>st'. map (abs_event_of chat_chunk_view) (fst (chat_stream_step blake er x st))
              = abs_emit (ss_prev_text st) (ss_token_index st) (completion_of x)
        \<and> snd (chat_stream_step blake er x st)
            = (if finishes (completion_of x) then Finish else Go_On st')
        \<and> ss_prev_text st' = co_text (completion_of x)
        \<and> ss_token_index st' = next_index (ss_prev_text st) (ss_token_index st) (completion_of x)"
proof -
  obtain out rd where x: "x = (out, rd)" by (cases x)
  with assms obtain c cs where out: "eo_outputs out = c # cs" "ids_fit out"
    by (cases "eo_outputs out") (auto simp: chat_accepts_def)
  have chunk: "output_to_stream_chunk out i prev = Inr \<lparr>ck_delta_content = added_text prev c,
      ck_finish_reason = [], ck_token_index = i\<rparr>" for i prev
    using out by (simp add: output_to_stream_chunk_def first_completion_def added_text_def)
  obtain st2 where st2: "chat_on_delta blake out c rd (st\<lparr>ss_prev_text := co_text c\<rparr>) = Inr st2"
      "ss_prev_text st2 = co_text c" "ss_token_index st2 = ss_token_index st"
    using chat_on_delta_ok[OF out(2), of blake c rd "st\<lparr>ss_prev_text := co_text c\<rparr>"] by auto
  show ?thesis
  proof (cases "added_text (ss_prev_text st) c = []")
    case True
    then show ?thesis using out chunk x
      by (intro exI[of _ "st\<lparr>ss_prev_text := co_text c\<rparr>"])
        (simp add: chat_stream_step_def first_completion_def abs_emit_def finishes_def next_index_def
          abs_event_of_def chat_chunk_view_def Let_def)
  next
    case False
    then show ?thesis using out chunk x st2
      by (intro exI[of _ "st2\<lparr>ss_token_index := ss_token_index st2 + 1\<rparr>"])
        (simp add: chat_stream_step_def first_completion_def abs_emit_def finishes_def next_index_def
          abs_event_of_def chat_chunk_view_def Let_def)
  qed
qed

interpretation chat_stream: token_stream "chat_stream_step blake er" chat_chunk_view chat_accepts
  for blake er
  by unfold_locales (rule chat_step_refines)

end
