(* ===== verification/Frontend_Completions.thy ===== *)
theory Frontend_Completions
  imports Frontend_Chat
begin

text \<open>
  \<open>completions.py\<close> of the frontend: the engine input of a request, \<open>CompletionsServicer.Complete\<close> and
  \<open>CompletionsServicer.CompleteStream\<close>. The instrumentation is a second copy of the chat servicer's;
  it is defined from this file's lines and then proved equal.
\<close>

section \<open>The engine input\<close>

definition prompt_embeds_to_text_digest :: "(string \<Rightarrow> string) \<Rightarrow> string \<Rightarrow> string" where
  "prompt_embeds_to_text_digest blake raw_bytes = ''embeds:'' @ blake raw_bytes"

definition TORCH_SAVE_MAGIC :: string where
  "TORCH_SAVE_MAGIC = [CHR ''P'', CHR ''K'', CHR 0x03, CHR 0x04]"

definition resolve_prompt_embeds_input ::
  "(string \<Rightarrow> string) \<Rightarrow> (string \<Rightarrow> 'a tensor py_result) \<Rightarrow> string \<Rightarrow> 'a engine_input py_result" where
  "resolve_prompt_embeds_input blake torch_load raw_bytes =
     (if take 4 raw_bytes \<noteq> TORCH_SAVE_MAGIC
      then Inr (Text_Input (prompt_embeds_to_text_digest blake raw_bytes))
      else case decode_embeds torch_load raw_bytes of
             Inl e \<Rightarrow> if isinstance e ''ValueError''
                      then Inr (Text_Input (prompt_embeds_to_text_digest blake raw_bytes)) else Inl e
           | Inr t \<Rightarrow> Inr (Tensor_Input t))"

definition input_missing :: string where
  "input_missing = ''Exactly one of prompt or prompt_embeds must be set''"

text \<open>The dispatch on \<open>WhichOneof("input")\<close>; \<open>None\<close> is the abort with \<open>INVALID_ARGUMENT\<close>.\<close>

definition select_engine_input ::
  "('p, 'a) frontend_env \<Rightarrow> completion_request \<Rightarrow> 'a engine_input py_result option" where
  "select_engine_input env req = (case nq_input req of
     Some (Prompt_Input p) \<Rightarrow> Some (Inr (Text_Input p))
   | Some (Embeds_Input b) \<Rightarrow> Some (resolve_prompt_embeds_input (fe_blake env) (fe_torch_load env) b)
   | None \<Rightarrow> None)"

section \<open>Complete\<close>

text \<open>
  The readings of the unary handler: its entry, \<open>perf_counter_ns\<close> at the first output, the second
  \<open>perf_counter\<close> and the last \<open>perf_counter_ns\<close>.
\<close>

record unary_reads =
  ur_entry :: entry_reads
  ur_finished_at :: real
  ur_terminal_ns :: int

text \<open>The first output's snapshot: first chunk time, prompt audit, engine statistics.\<close>

record unary_state =
  us_first_chunk_ns :: "int option"
  us_tokenized_prompt_length :: "int option"
  us_tokenized_prompt_hash :: "string option"
  us_engine_arrival_ns :: int
  us_engine_queued_ns :: int
  us_engine_scheduled_ns :: int
  us_engine_first_token_ns :: int
  us_engine_last_token_ns :: int

definition initial_unary_state :: unary_state where
  "initial_unary_state =
     \<lparr>us_first_chunk_ns = None, us_tokenized_prompt_length = None, us_tokenized_prompt_hash = None,
      us_engine_arrival_ns = 0, us_engine_queued_ns = 0, us_engine_scheduled_ns = 0,
      us_engine_first_token_ns = 0, us_engine_last_token_ns = 0\<rparr>"

definition unary_on_output ::
  "(string \<Rightarrow> string) \<Rightarrow> timed_output \<Rightarrow> unary_state \<Rightarrow> unary_state py_result" where
  "unary_on_output blake x st =
     (let (out, rd) = x; ids = prompt_ids out
      in if us_first_chunk_ns st \<noteq> None then Inr st
         else
           (let st1 = st\<lparr>us_first_chunk_ns := Some (sr_first_ns rd)\<rparr>
            in bind_result
                 (if ids \<noteq> []
                  then bind_result (prompt_hash blake ids) (\<lambda>h.
                         Inr (st1\<lparr>us_tokenized_prompt_length := Some (int (length ids)),
                                  us_tokenized_prompt_hash := Some h\<rparr>))
                  else Inr st1) (\<lambda>st2.
               Inr (case eo_metrics out of
                      None \<Rightarrow> st2
                    | Some m \<Rightarrow> st2\<lparr>us_engine_arrival_ns := stat_ns (em_arrival_time m),
                                    us_engine_queued_ns := stat_ns (em_queued_ts m),
                                    us_engine_scheduled_ns := stat_ns (em_scheduled_ts m),
                                    us_engine_first_token_ns := stat_ns (em_first_token_ts m)\<rparr>))))"

fun unary_drain ::
  "(string \<Rightarrow> string) \<Rightarrow> unary_state \<Rightarrow> engine_output option \<Rightarrow> timed_output list \<Rightarrow> run_end
     \<Rightarrow> (unary_state \<times> engine_output option) py_result" where
  "unary_drain blake st final [] e = (case e of
     Engine_Raised exc \<Rightarrow> Inl exc
   | Engine_Cancelled \<Rightarrow> Inl (Exn ''CancelledError'' [])
   | Engine_Exhausted \<Rightarrow> Inr (st, final))"
| "unary_drain blake st final (x # xs) e =
     bind_result (unary_on_output blake x st) (\<lambda>st'. unary_drain blake st' (Some (fst x)) xs e)"

definition unary_refresh_last_token :: "engine_output option \<Rightarrow> unary_state \<Rightarrow> unary_state" where
  "unary_refresh_last_token final st = (case Option.bind final eo_metrics of
     None \<Rightarrow> st
   | Some m \<Rightarrow> (case em_last_token_ts m of
        None \<Rightarrow> st
      | Some t \<Rightarrow> if t = 0 then st else st\<lparr>us_engine_last_token_ns := trunc_real (t * 1000000000)\<rparr>))"

definition unary_trailers :: "unary_reads \<Rightarrow> unary_state \<Rightarrow> (string \<times> string) list" where
  "unary_trailers ur st =
     (let er = ur_entry ur
      in [(''engine-forward-ms'', fmt_fixed 3 ((ur_finished_at ur - er_start er) * 1000)),
          (''m6_1_1_t_handler_entry'', str_int (er_handler_entry_ns er)),
          (''m6_1_1_t_pre_engine'', str_int (er_pre_engine_ns er)),
          (''m6_1_1_t_first_chunk'',
             str_int (case us_first_chunk_ns st of Some n \<Rightarrow> n | None \<Rightarrow> ur_terminal_ns ur)),
          (''m6_1_1_t_terminal_emit'', str_int (ur_terminal_ns ur)),
          (''m6_1_1_t_perturbation_audit_ns'', str_int (perturbation_audit er)),
          (''m6_1_1_t_engine_arrival_ns'', str_int (us_engine_arrival_ns st)),
          (''m6_1_1_t_engine_queued_ns'', str_int (us_engine_queued_ns st)),
          (''m6_1_1_t_engine_scheduled_ns'', str_int (us_engine_scheduled_ns st)),
          (''m6_1_1_t_engine_first_token_ns'', str_int (us_engine_first_token_ns st)),
          (''m6_1_1_t_engine_last_token_ns'', str_int (us_engine_last_token_ns st))]
         @ (case us_tokenized_prompt_length st of
              Some n \<Rightarrow> [(''m6_1_3_tokenized_prompt_length'', str_int n)] | None \<Rightarrow> [])
         @ (case us_tokenized_prompt_hash st of
              Some h \<Rightarrow> [(''m6_1_3_tokenized_prompt_hash'', h)] | None \<Rightarrow> []))"

definition completion_answer :: "engine_output \<Rightarrow> completion_response py_result" where
  "completion_answer final =
     bind_result (first_completion final) (\<lambda>c.
     bind_result (prompt_length final) (\<lambda>n.
       Inr \<lparr>np_generated_text = co_text c, np_finish_reason = reason_or_stop c,
            np_prompt_tokens = n, np_completion_tokens = int (length (co_token_ids c))\<rparr>))"

datatype 'r rpc_answer = Rpc_Ok 'r | Rpc_Aborted string string | Rpc_Raised py_exn

definition answer_of :: "'r py_result \<Rightarrow> 'r rpc_answer" where
  "answer_of r = (case r of Inl e \<Rightarrow> Rpc_Raised e | Inr x \<Rightarrow> Rpc_Ok x)"

definition completions_complete ::
  "('p, 'a) frontend_env \<Rightarrow> unary_reads \<Rightarrow> completion_request
     \<Rightarrow> (string \<times> string) list option \<times> completion_response rpc_answer" where
  "completions_complete env ur req =
     (case select_engine_input env req of
        None \<Rightarrow> (None, Rpc_Aborted ''INVALID_ARGUMENT'' input_missing)
      | Some (Inl e) \<Rightarrow> (None, Rpc_Raised e)
      | Some (Inr engine_input) \<Rightarrow>
     (case completion_proto_to_sampling_params (fe_SamplingParams env) req of
        Inl e \<Rightarrow> (None, Rpc_Raised e)
      | Inr params \<Rightarrow>
     (let (outs, end_run) = fe_generate env engine_input params (fe_request_id env)
      in case unary_drain (fe_blake env) initial_unary_state None outs end_run of
           Inl e \<Rightarrow> (None, Rpc_Raised e)
         | Inr (st, final) \<Rightarrow>
             (Some (unary_trailers ur (unary_refresh_last_token final st)),
              answer_of (case final of None \<Rightarrow> Inl no_output_error
                                     | Some out \<Rightarrow> completion_answer out)))))"

section \<open>CompleteStream\<close>

definition completions_capture_first ::
  "(string \<Rightarrow> string) \<Rightarrow> engine_output \<Rightarrow> step_reads \<Rightarrow> stream_state \<Rightarrow> stream_state py_result" where
  "completions_capture_first blake out rd st =
     (let st1 = st\<lparr>ss_first_token_at := Some (sr_now rd), ss_first_chunk_ns := Some (sr_first_ns rd),
                   ss_first_chunk_mono_ns := Some (sr_first_mono_ns rd)\<rparr>;
          ids = prompt_ids out
      in bind_result
           (if ids \<noteq> []
            then bind_result (prompt_hash blake ids) (\<lambda>h.
                   Inr (st1\<lparr>ss_tokenized_prompt_length := Some (int (length ids)),
                            ss_tokenized_prompt_hash := Some h\<rparr>))
            else Inr st1) (\<lambda>st2.
         Inr (case eo_metrics out of
                None \<Rightarrow> st2
              | Some m \<Rightarrow> st2\<lparr>ss_engine_arrival_ns := stat_ns (em_arrival_time m),
                              ss_engine_queued_ns := stat_ns (em_queued_ts m),
                              ss_engine_scheduled_ns := stat_ns (em_scheduled_ts m),
                              ss_engine_first_token_ns := stat_ns (em_first_token_ts m)\<rparr>)))"

definition completions_on_delta ::
  "(string \<Rightarrow> string) \<Rightarrow> engine_output \<Rightarrow> completion_output \<Rightarrow> step_reads \<Rightarrow> stream_state
     \<Rightarrow> stream_state py_result" where
  "completions_on_delta blake out c rd st =
     bind_result (if ss_first_token_at st = None then completions_capture_first blake out rd st else Inr st)
       (\<lambda>st'. Inr (st'\<lparr>ss_last_token_at := Some (sr_now rd),
                        ss_token_count := int (length (co_token_ids c))\<rparr>))"

definition completions_engine_ttft_ms :: "entry_reads \<Rightarrow> stream_state \<Rightarrow> real" where
  "completions_engine_ttft_ms er st = (case ss_first_token_at st of
     None \<Rightarrow> 0 | Some t \<Rightarrow> if t \<noteq> 0 then (t - er_start er) * 1000 else 0)"

definition completions_engine_tpot_ms :: "stream_state \<Rightarrow> real" where
  "completions_engine_tpot_ms st = (case (ss_last_token_at st, ss_first_token_at st) of
     (Some l, Some f) \<Rightarrow> if 1 < ss_token_count st
                        then (l - f) * 1000 / real_of_int (max (ss_token_count st - 1) 1) else 0
   | _ \<Rightarrow> 0)"

definition completions_refresh_last_token :: "engine_output \<Rightarrow> stream_state \<Rightarrow> stream_state" where
  "completions_refresh_last_token out st = (case eo_metrics out of
     None \<Rightarrow> st
   | Some m \<Rightarrow> (case em_last_token_ts m of
        None \<Rightarrow> st
      | Some t \<Rightarrow> if t = 0 then st else st\<lparr>ss_engine_last_token_ns := trunc_real (t * 1000000000)\<rparr>))"

definition completions_trailers :: "entry_reads \<Rightarrow> step_reads \<Rightarrow> stream_state \<Rightarrow> (string \<times> string) list" where
  "completions_trailers er rd st =
     [(''engine-ttft-ms'', fmt_fixed 3 (completions_engine_ttft_ms er st)),
      (''engine-tpot-ms'', fmt_fixed 3 (completions_engine_tpot_ms st)),
      (''m6_1_1_t_handler_entry'', str_int (er_handler_entry_ns er)),
      (''m6_1_1_t_pre_engine'', str_int (er_pre_engine_ns er)),
      (''m6_1_1_t_first_chunk'',
         str_int (case ss_first_chunk_ns st of Some n \<Rightarrow> n | None \<Rightarrow> sr_terminal_ns rd)),
      (''m6_1_1_t_terminal_emit'', str_int (sr_terminal_ns rd)),
      (''m6_1_1_t_perturbation_audit_ns'', str_int (perturbation_audit er)),
      (''m6_1_1_t_engine_arrival_ns'', str_int (ss_engine_arrival_ns st)),
      (''m6_1_1_t_engine_queued_ns'', str_int (ss_engine_queued_ns st)),
      (''m6_1_1_t_engine_scheduled_ns'', str_int (ss_engine_scheduled_ns st)),
      (''m6_1_1_t_engine_first_token_ns'', str_int (ss_engine_first_token_ns st)),
      (''m6_1_1_t_engine_last_token_ns'', str_int (ss_engine_last_token_ns st)),
      (''m6_1_1_t_pre_engine_wall_ns'', str_int (er_pre_engine_wall_ns er)),
      (''m6_1_1_t_first_chunk_mono_ns'',
         (case ss_first_chunk_mono_ns st of Some n \<Rightarrow> str_int n | None \<Rightarrow> ''0''))]
     @ (case ss_tokenized_prompt_length st of
          Some n \<Rightarrow> [(''m6_1_3_tokenized_prompt_length'', str_int n)] | None \<Rightarrow> [])
     @ (case ss_tokenized_prompt_hash st of
          Some h \<Rightarrow> [(''m6_1_3_tokenized_prompt_hash'', h)] | None \<Rightarrow> [])"

text \<open>
  The delta branch yields only while the call is active; an inactive call ends the handler there.
  \<open>is_active\<close> may itself raise, inside the same \<open>try\<close>.
\<close>

definition completions_stream_step ::
  "(string \<Rightarrow> string) \<Rightarrow> entry_reads \<Rightarrow> timed_output \<Rightarrow> stream_state
     \<Rightarrow> completion_stream_chunk stream_event list \<times> stream_state outcome" where
  "completions_stream_step blake er x st =
     (let (out, rd) = x
      in case first_completion out of
           Inl e \<Rightarrow> ([], Fail e)
         | Inr c \<Rightarrow>
      (let delta = drop (length (ss_prev_text st)) (co_text c);
           st1 = st\<lparr>ss_prev_text := co_text c\<rparr>;
           (evs, after_delta) =
             (if delta = [] then ([], Go_On st1)
              else case completions_on_delta blake out c rd st1 of
                     Inl e \<Rightarrow> ([], Fail e)
                   | Inr st2 \<Rightarrow>
                (case sr_active_chunk rd of
                     Inl e \<Rightarrow> ([], Fail e)
                   | Inr active \<Rightarrow>
                       if \<not> active then ([], Finish)
                       else ([Ev_Chunk \<lparr>nk_delta_text = delta, nk_finish_reason = [],
                                        nk_token_index = ss_token_index st2\<rparr>],
                             Go_On (st2\<lparr>ss_token_index := ss_token_index st2 + 1\<rparr>))))
       in case after_delta of
            Finish \<Rightarrow> (evs, Finish)
          | Fail e \<Rightarrow> (evs, Fail e)
          | Go_On st2 \<Rightarrow>
              if \<not> truthy (co_finish_reason c) then (evs, Go_On st2)
              else (case sr_active_final rd of
                      Inl e \<Rightarrow> (evs, Fail e)
                    | Inr active \<Rightarrow>
                        if \<not> active then (evs, Finish)
                        else (let st3 = completions_refresh_last_token out st2
                              in (evs @ [Ev_Trailers (completions_trailers er rd st3),
                                         Ev_Chunk \<lparr>nk_delta_text = [],
                                                   nk_finish_reason = reason_or_stop c,
                                                   nk_token_index = ss_token_index st3\<rparr>], Finish)))))"

definition completions_complete_stream ::
  "('p, 'a) frontend_env \<Rightarrow> entry_reads \<Rightarrow> completion_request
     \<Rightarrow> completion_stream_chunk stream_event list \<times> stream_end" where
  "completions_complete_stream env er req =
     (case select_engine_input env req of
        None \<Rightarrow> ([], Stream_Aborted ''INVALID_ARGUMENT'' input_missing)
      | Some (Inl e) \<Rightarrow> ([], Stream_Raised e)
      | Some (Inr engine_input) \<Rightarrow>
     (case completion_proto_to_sampling_params (fe_SamplingParams env) req of
        Inl e \<Rightarrow> ([], Stream_Raised e)
      | Inr params \<Rightarrow>
          (let (outs, end_run) = fe_generate env engine_input params (fe_request_id env)
           in async_for (completions_stream_step (fe_blake env) er) initial_stream_state outs end_run)))"

section \<open>Lemmas\<close>

text \<open>The two copies of the instrumentation are the same function.\<close>

lemma completions_capture_first_eq: "completions_capture_first = chat_capture_first"
  by (intro ext) (simp add: completions_capture_first_def chat_capture_first_def)

lemma completions_on_delta_eq: "completions_on_delta = chat_on_delta"
  by (intro ext) (simp add: completions_on_delta_def chat_on_delta_def completions_capture_first_eq)

lemma completions_refresh_eq: "completions_refresh_last_token = chat_refresh_last_token"
  by (intro ext) (simp add: completions_refresh_last_token_def chat_refresh_last_token_def)

lemma completions_trailers_eq: "completions_trailers = chat_trailers"
  by (intro ext) (simp add: completions_trailers_def chat_trailers_def completions_engine_ttft_ms_def
      chat_engine_ttft_ms_def completions_engine_tpot_ms_def chat_engine_tpot_ms_def)

lemmas completions_copies = completions_capture_first_eq completions_on_delta_eq
  completions_refresh_eq completions_trailers_eq

text \<open>Every payload of bytes is an input the engine can be given.\<close>

lemma resolve_total:
  "\<exists>i. resolve_prompt_embeds_input blake torch_load raw = Inr i"
  by (auto simp: resolve_prompt_embeds_input_def dest: decode_embeds_errors split: sum.splits)

lemma resolve_tensor_iff:
  "resolve_prompt_embeds_input blake torch_load raw = Inr (Tensor_Input t) \<longleftrightarrow>
     take 4 raw = TORCH_SAVE_MAGIC \<and> torch_load raw = Inr t \<and> tn_ndim t = 2
     \<and> tn_dtype t \<in> {Float32, Bfloat16, Float16}"
  using decode_embeds_ok_iff[of torch_load raw t]
  by (auto simp: resolve_prompt_embeds_input_def split: sum.splits)

lemma select_engine_input_total:
  "nq_input req \<noteq> None \<Longrightarrow> \<exists>i. select_engine_input env req = Some (Inr i)"
  using resolve_total by (auto simp: select_engine_input_def split: completion_input.splits)

section \<open>The handler as a token stream\<close>

definition completion_chunk_view :: "completion_stream_chunk \<Rightarrow> string \<times> string \<times> int" where
  "completion_chunk_view ck = (nk_delta_text ck, nk_finish_reason ck, nk_token_index ck)"

definition completions_accepts :: "timed_output \<Rightarrow> bool" where
  "completions_accepts x \<longleftrightarrow> eo_outputs (fst x) \<noteq> [] \<and> ids_fit (fst x)
     \<and> sr_active_chunk (snd x) = Inr True \<and> sr_active_final (snd x) = Inr True"

lemma completions_step_refines:
  assumes "completions_accepts x"
  shows "\<exists>st'. map (abs_event_of completion_chunk_view) (fst (completions_stream_step blake er x st))
              = abs_emit (ss_prev_text st) (ss_token_index st) (completion_of x)
        \<and> snd (completions_stream_step blake er x st)
            = (if finishes (completion_of x) then Finish else Go_On st')
        \<and> ss_prev_text st' = co_text (completion_of x)
        \<and> ss_token_index st' = next_index (ss_prev_text st) (ss_token_index st) (completion_of x)"
proof -
  obtain out rd where x: "x = (out, rd)" by (cases x)
  with assms obtain c cs where out: "eo_outputs out = c # cs" "ids_fit out"
      "sr_active_chunk rd = Inr True" "sr_active_final rd = Inr True"
    by (cases "eo_outputs out") (auto simp: completions_accepts_def)
  obtain st2 where st2: "completions_on_delta blake out c rd (st\<lparr>ss_prev_text := co_text c\<rparr>) = Inr st2"
      "ss_prev_text st2 = co_text c" "ss_token_index st2 = ss_token_index st"
    using chat_on_delta_ok[OF out(2), of blake c rd "st\<lparr>ss_prev_text := co_text c\<rparr>"]
    by (auto simp: completions_on_delta_eq)
  show ?thesis
  proof (cases "drop (length (ss_prev_text st)) (co_text c) = []")
    case True
    then show ?thesis using out x
      by (intro exI[of _ "st\<lparr>ss_prev_text := co_text c\<rparr>"])
        (simp add: completions_stream_step_def first_completion_def abs_emit_def finishes_def
          next_index_def added_text_def abs_event_of_def completion_chunk_view_def reason_or_stop_def
          completions_refresh_eq Let_def)
  next
    case False
    then show ?thesis using out x st2
      by (intro exI[of _ "st2\<lparr>ss_token_index := ss_token_index st2 + 1\<rparr>"])
        (simp add: completions_stream_step_def first_completion_def abs_emit_def finishes_def
          next_index_def added_text_def abs_event_of_def completion_chunk_view_def reason_or_stop_def
          completions_refresh_eq Let_def)
  qed
qed

interpretation completions_stream: token_stream "completions_stream_step blake er"
    completion_chunk_view completions_accepts
  for blake er
  by unfold_locales (rule completions_step_refines)

end
