(* ===== verification/Frontend_Laws.thy ===== *)
theory Frontend_Laws
  imports Frontend_Completions Timing Engine_Cost
begin

text \<open>
  What the streaming servicers publish, computed from the engine's run alone, and what the harness
  reads back from it. The deltas of a run are the outputs that add text, up to the first that finishes;
  every figure in the trailing metadata is a function of the first and the last delta and of the
  finishing output.
\<close>

section \<open>The deltas of a run\<close>

definition new_delta :: "string \<Rightarrow> timed_output \<Rightarrow> timed_output list" where
  "new_delta prev x = (if added_text prev (completion_of x) = [] then [] else [x])"

fun deltas :: "string \<Rightarrow> timed_output list \<Rightarrow> timed_output list" where
  "deltas prev [] = []"
| "deltas prev (x # xs) = new_delta prev x
     @ (if finishes (completion_of x) then [] else deltas (co_text (completion_of x)) xs)"

definition token_total :: "timed_output \<Rightarrow> int" where
  "token_total x = int (length (co_token_ids (completion_of x)))"

definition metrics_of :: "timed_output list \<Rightarrow> engine_metrics option" where
  "metrics_of ds = (if ds = [] then None else eo_metrics (fst (hd ds)))"

definition stat_of :: "timed_output list \<Rightarrow> (engine_metrics \<Rightarrow> real option) \<Rightarrow> int" where
  "stat_of ds sel = (case metrics_of ds of None \<Rightarrow> 0 | Some m \<Rightarrow> stat_ns (sel m))"

text \<open>The handler's variables after the deltas \<open>ds\<close>.\<close>

definition metered :: "timed_output list \<Rightarrow> stream_state \<Rightarrow> bool" where
  "metered ds st \<longleftrightarrow>
     ss_first_token_at st = (if ds = [] then None else Some (sr_now (snd (hd ds))))
   \<and> ss_last_token_at st = (if ds = [] then None else Some (sr_now (snd (last ds))))
   \<and> ss_token_count st = (if ds = [] then 0 else token_total (last ds))
   \<and> ss_first_chunk_ns st = (if ds = [] then None else Some (sr_first_ns (snd (hd ds))))
   \<and> ss_first_chunk_mono_ns st = (if ds = [] then None else Some (sr_first_mono_ns (snd (hd ds))))
   \<and> ss_tokenized_prompt_length st
       = (if ds = [] \<or> prompt_ids (fst (hd ds)) = [] then None
          else Some (int (length (prompt_ids (fst (hd ds))))))
   \<and> ss_engine_arrival_ns st = stat_of ds em_arrival_time
   \<and> ss_engine_queued_ns st = stat_of ds em_queued_ts
   \<and> ss_engine_scheduled_ns st = stat_of ds em_scheduled_ts
   \<and> ss_engine_first_token_ns st = stat_of ds em_first_token_ts"

lemma metered_initial [simp]: "metered [] initial_stream_state"
  by (simp add: metered_def initial_stream_state_def stat_of_def metrics_of_def)

lemma metered_prev_text [simp]: "metered ds (st\<lparr>ss_prev_text := t\<rparr>) = metered ds st"
  by (simp add: metered_def)

lemma metered_token_index [simp]: "metered ds (st\<lparr>ss_token_index := i\<rparr>) = metered ds st"
  by (simp add: metered_def)

lemma metered_refresh [simp]: "metered ds (chat_refresh_last_token out st) = metered ds st"
  by (simp add: metered_def chat_refresh_last_token_def split: option.split)

lemma capture_first_metered:
  assumes "metered [] st" "chat_capture_first blake out rd st = Inr st'"
  shows "ss_first_token_at st' = Some (sr_now rd) \<and> ss_first_chunk_ns st' = Some (sr_first_ns rd)
    \<and> ss_first_chunk_mono_ns st' = Some (sr_first_mono_ns rd)
    \<and> ss_tokenized_prompt_length st' = (if prompt_ids out = [] then None else Some (int (length (prompt_ids out))))
    \<and> ss_engine_arrival_ns st' = stat_of [(out, rd)] em_arrival_time
    \<and> ss_engine_queued_ns st' = stat_of [(out, rd)] em_queued_ts
    \<and> ss_engine_scheduled_ns st' = stat_of [(out, rd)] em_scheduled_ts
    \<and> ss_engine_first_token_ns st' = stat_of [(out, rd)] em_first_token_ts
    \<and> ss_prev_text st' = ss_prev_text st \<and> ss_token_index st' = ss_token_index st"
proof -
  let ?st1 = "st\<lparr>ss_first_token_at := Some (sr_now rd), ss_first_chunk_ns := Some (sr_first_ns rd),
    ss_first_chunk_mono_ns := Some (sr_first_mono_ns rd)\<rparr>"
  obtain st2 where st2: "st2 = ?st1 \<and> prompt_ids out = []
      \<or> prompt_ids out \<noteq> [] \<and> (\<exists>h. st2 = ?st1\<lparr>ss_tokenized_prompt_length := Some (int (length (prompt_ids out))),
          ss_tokenized_prompt_hash := Some h\<rparr>)"
    and st': "st' = (case eo_metrics out of None \<Rightarrow> st2
      | Some m \<Rightarrow> st2\<lparr>ss_engine_arrival_ns := stat_ns (em_arrival_time m),
                      ss_engine_queued_ns := stat_ns (em_queued_ts m),
                      ss_engine_scheduled_ns := stat_ns (em_scheduled_ts m),
                      ss_engine_first_token_ns := stat_ns (em_first_token_ts m)\<rparr>)"
    using assms(2) unfolding chat_capture_first_def Let_def bind_result_Inr_iff
    by (simp split: if_split_asm) (force simp: bind_result_Inr_iff)+
  have st: "ss_tokenized_prompt_length st = None" "ss_engine_arrival_ns st = 0"
    "ss_engine_queued_ns st = 0" "ss_engine_scheduled_ns st = 0" "ss_engine_first_token_ns st = 0"
    using assms(1) by (simp_all add: metered_def stat_of_def metrics_of_def)
  show ?thesis
    using st2 st by (cases "eo_metrics out") (auto simp: st' stat_of_def metrics_of_def)
qed

lemma on_delta_metered:
  assumes "metered ds st" "chat_on_delta blake out c rd st = Inr st'" "hd (eo_outputs out) = c"
  shows "metered (ds @ [(out, rd)]) st'"
    and "ss_prev_text st' = ss_prev_text st" and "ss_token_index st' = ss_token_index st"
proof -
  have "metered (ds @ [(out, rd)]) st' \<and> ss_prev_text st' = ss_prev_text st
      \<and> ss_token_index st' = ss_token_index st"
  proof (cases "ds = []")
    case True
    then obtain st1 where st1: "chat_capture_first blake out rd st = Inr st1"
      "st' = st1\<lparr>ss_last_token_at := Some (sr_now rd), ss_token_count := int (length (co_token_ids c))\<rparr>"
      using assms(1,2) by (auto simp: chat_on_delta_def metered_def bind_result_Inr_iff)
    from capture_first_metered[OF _ st1(1)] True assms(1,3) st1(2) show ?thesis
      by (simp add: metered_def token_total_def)
  next
    case False
    then have "ss_first_token_at st \<noteq> None" using assms(1) by (simp add: metered_def)
    then show ?thesis using False assms
      by (auto simp: chat_on_delta_def metered_def token_total_def stat_of_def metrics_of_def)
  qed
  then show "metered (ds @ [(out, rd)]) st'" "ss_prev_text st' = ss_prev_text st"
    "ss_token_index st' = ss_token_index st" by blast+
qed

section \<open>The contract of a metered stream\<close>

locale metered_stream =
  fixes step :: "timed_output \<Rightarrow> stream_state \<Rightarrow> 'c stream_event list \<times> stream_state outcome"
    and er :: entry_reads
  assumes step_continues: "step x st = (evs, Go_On st') \<Longrightarrow> metered ds st \<Longrightarrow>
      trailers_of evs = [] \<and> metered (ds @ new_delta (ss_prev_text st) x) st'
      \<and> ss_prev_text st' = co_text (completion_of x) \<and> \<not> finishes (completion_of x)"
    and step_publishes: "step x st = (evs, out) \<Longrightarrow> metered ds st \<Longrightarrow> tr \<in> set (trailers_of evs) \<Longrightarrow>
      finishes (completion_of x)
      \<and> (\<exists>st3. metered (ds @ new_delta (ss_prev_text st) x) st3 \<and> tr = chat_trailers er (snd x) st3)"
begin

lemma run_publishes:
  assumes "tr \<in> set (trailers_of (fst (async_for step st xs e)))" "metered ds st"
  shows "\<exists>x st3. find (\<lambda>x. finishes (completion_of x)) xs = Some x
     \<and> metered (ds @ deltas (ss_prev_text st) xs) st3 \<and> tr = chat_trailers er (snd x) st3"
  using assms
proof (induction xs arbitrary: st ds)
  case (Cons x xs)
  obtain evs out where step: "step x st = (evs, out)" by (cases "step x st")
  show ?case
  proof (cases "tr \<in> set (trailers_of evs)")
    case True
    from step_publishes[OF step Cons.prems(2) True] show ?thesis by auto
  next
    case False
    then obtain st' where go: "out = Go_On st'"
      and tr: "tr \<in> set (trailers_of (fst (async_for step st' xs e)))"
      using Cons.prems(1) step by (cases out) (auto split: prod.splits)
    from step_continues[OF step[unfolded go] Cons.prems(2)]
    have st': "metered (ds @ new_delta (ss_prev_text st) x) st'"
      "ss_prev_text st' = co_text (completion_of x)" "\<not> finishes (completion_of x)" by blast+
    from Cons.IH[OF tr st'(1)] st'(2,3) show ?thesis by auto
  qed
qed simp

text \<open>At most one metadata block is set.\<close>

lemma step_finishing_stops:
  assumes "step x st = (evs, Go_On st')" "metered ds st"
  shows "trailers_of evs = []"
  using step_continues[OF assms] by blast

end

lemma first_completion_hd: "first_completion out = Inr c \<Longrightarrow> hd (eo_outputs out) = c"
  by (auto simp: first_completion_Inr_iff)

lemma chat_step_continues:
  assumes "chat_stream_step blake er x st = (evs, Go_On st')" "metered ds st"
  shows "trailers_of evs = [] \<and> metered (ds @ new_delta (ss_prev_text st) x) st'
      \<and> ss_prev_text st' = co_text (completion_of x) \<and> \<not> finishes (completion_of x)"
proof -
  obtain out rd where x: "x = (out, rd)" by (cases x)
  from assms(1) x obtain c where c: "first_completion out = Inr c"
    by (auto simp: chat_stream_step_def split: sum.splits)
  note hd_c = first_completion_hd[OF c]
  show ?thesis
  proof (cases "added_text (ss_prev_text st) c = []")
    case True
    then show ?thesis using assms x c hd_c
      by (auto simp: chat_stream_step_def output_to_stream_chunk_def added_text_def new_delta_def
          finishes_def Let_def split: if_split_asm)
  next
    case False
    then obtain st2 where st2: "chat_on_delta blake out c rd (st\<lparr>ss_prev_text := co_text c\<rparr>) = Inr st2"
      using assms(1) x c
      by (auto simp: chat_stream_step_def output_to_stream_chunk_def added_text_def
          bind_result_def split: sum.splits)
    have "metered ds (st\<lparr>ss_prev_text := co_text c\<rparr>)" using assms(2) by simp
    from on_delta_metered[OF this st2 hd_c] show ?thesis using False assms x c hd_c st2
      by (auto simp: chat_stream_step_def output_to_stream_chunk_def added_text_def new_delta_def
          finishes_def Let_def split: if_split_asm)
  qed
qed

lemma chat_step_publishes:
  assumes "chat_stream_step blake er x st = (evs, r)" "metered ds st" "tr \<in> set (trailers_of evs)"
  shows "finishes (completion_of x)
    \<and> (\<exists>st3. metered (ds @ new_delta (ss_prev_text st) x) st3 \<and> tr = chat_trailers er (snd x) st3)"
proof -
  obtain out rd where x: "x = (out, rd)" by (cases x)
  from assms(1,3) x obtain c where c: "first_completion out = Inr c"
    by (auto simp: chat_stream_step_def split: sum.splits)
  note hd_c = first_completion_hd[OF c]
  show ?thesis
  proof (cases "added_text (ss_prev_text st) c = []")
    case True
    let ?st3 = "chat_refresh_last_token out (st\<lparr>ss_prev_text := co_text c\<rparr>)"
    have "finishes (completion_of x) \<and> tr = chat_trailers er (snd x) ?st3"
      using True assms x c hd_c
      by (auto simp: chat_stream_step_def output_to_stream_chunk_def added_text_def
          finishes_def Let_def split: if_split_asm)
    moreover have "metered (ds @ new_delta (ss_prev_text st) x) ?st3"
      using assms(2) True x hd_c by (simp add: new_delta_def)
    ultimately show ?thesis by blast
  next
    case False
    then obtain st2 where st2: "chat_on_delta blake out c rd (st\<lparr>ss_prev_text := co_text c\<rparr>) = Inr st2"
      using assms(1,3) x c
      by (auto simp: chat_stream_step_def output_to_stream_chunk_def added_text_def
          bind_result_def split: sum.splits)
    let ?st3 = "chat_refresh_last_token out (st2\<lparr>ss_token_index := ss_token_index st2 + 1\<rparr>)"
    have "finishes (completion_of x) \<and> tr = chat_trailers er (snd x) ?st3"
      using False assms x c hd_c st2
      by (auto simp: chat_stream_step_def output_to_stream_chunk_def added_text_def
          finishes_def Let_def split: if_split_asm)
    moreover have "metered ds (st\<lparr>ss_prev_text := co_text c\<rparr>)" using assms(2) by simp
    from on_delta_metered(1)[OF this st2 hd_c] have "metered (ds @ new_delta (ss_prev_text st) x) ?st3"
      using False x hd_c by (simp add: new_delta_def)
    ultimately show ?thesis by blast
  qed
qed

interpretation chat_meter: metered_stream "chat_stream_step blake er" er for blake er
  by unfold_locales (blast dest: chat_step_continues, blast dest: chat_step_publishes)

lemma completions_step_continues:
  assumes "completions_stream_step blake er x st = (evs, Go_On st')" "metered ds st"
  shows "trailers_of evs = [] \<and> metered (ds @ new_delta (ss_prev_text st) x) st'
      \<and> ss_prev_text st' = co_text (completion_of x) \<and> \<not> finishes (completion_of x)"
proof -
  obtain out rd where x: "x = (out, rd)" by (cases x)
  from assms(1) x obtain c where c: "first_completion out = Inr c"
    by (auto simp: completions_stream_step_def split: sum.splits)
  note hd_c = first_completion_hd[OF c]
  show ?thesis
  proof (cases "added_text (ss_prev_text st) c = []")
    case True
    then show ?thesis using assms x c hd_c
      by (auto simp: completions_stream_step_def added_text_def new_delta_def
          finishes_def Let_def split: if_split_asm sum.split_asm)
  next
    case False
    then obtain st2 where st2: "chat_on_delta blake out c rd (st\<lparr>ss_prev_text := co_text c\<rparr>) = Inr st2"
        "sr_active_chunk rd = Inr True"
      using assms(1) x c
      by (auto simp: completions_stream_step_def added_text_def completions_copies Let_def
          split: sum.splits if_split_asm)
    have "metered ds (st\<lparr>ss_prev_text := co_text c\<rparr>)" using assms(2) by simp
    from on_delta_metered[OF this st2(1) hd_c] show ?thesis using False assms x c hd_c st2
      by (auto simp: completions_stream_step_def added_text_def new_delta_def completions_copies
          finishes_def Let_def split: if_split_asm sum.split_asm)
  qed
qed

lemma completions_step_publishes:
  assumes "completions_stream_step blake er x st = (evs, r)" "metered ds st" "tr \<in> set (trailers_of evs)"
  shows "finishes (completion_of x)
    \<and> (\<exists>st3. metered (ds @ new_delta (ss_prev_text st) x) st3 \<and> tr = chat_trailers er (snd x) st3)"
proof -
  obtain out rd where x: "x = (out, rd)" by (cases x)
  from assms(1,3) x obtain c where c: "first_completion out = Inr c"
    by (auto simp: completions_stream_step_def split: sum.splits)
  note hd_c = first_completion_hd[OF c]
  show ?thesis
  proof (cases "added_text (ss_prev_text st) c = []")
    case True
    let ?st3 = "chat_refresh_last_token out (st\<lparr>ss_prev_text := co_text c\<rparr>)"
    have "finishes (completion_of x) \<and> tr = chat_trailers er (snd x) ?st3"
      using True assms x c hd_c
      by (auto simp: completions_stream_step_def added_text_def completions_copies
          finishes_def Let_def split: if_split_asm sum.split_asm)
    moreover have "metered (ds @ new_delta (ss_prev_text st) x) ?st3"
      using assms(2) True x hd_c by (simp add: new_delta_def)
    ultimately show ?thesis by blast
  next
    case False
    then obtain st2 where st2: "chat_on_delta blake out c rd (st\<lparr>ss_prev_text := co_text c\<rparr>) = Inr st2"
        "sr_active_chunk rd = Inr True"
      using assms(1,3) x c
      by (auto simp: completions_stream_step_def added_text_def completions_copies Let_def
          split: sum.splits if_split_asm)
    let ?st3 = "chat_refresh_last_token out (st2\<lparr>ss_token_index := ss_token_index st2 + 1\<rparr>)"
    have "finishes (completion_of x) \<and> tr = chat_trailers er (snd x) ?st3"
      using False assms x c hd_c st2
      by (auto simp: completions_stream_step_def added_text_def completions_copies
          finishes_def Let_def split: if_split_asm sum.split_asm)
    moreover have "metered ds (st\<lparr>ss_prev_text := co_text c\<rparr>)" using assms(2) by simp
    from on_delta_metered(1)[OF this st2(1) hd_c] have "metered (ds @ new_delta (ss_prev_text st) x) ?st3"
      using False x hd_c by (simp add: new_delta_def)
    ultimately show ?thesis by blast
  qed
qed

interpretation completions_meter: metered_stream "completions_stream_step blake er" er for blake er
  by unfold_locales (blast dest: completions_step_continues, blast dest: completions_step_publishes)

section \<open>Reading the metadata back\<close>

definition checkpoint_of :: "entry_reads \<Rightarrow> step_reads \<Rightarrow> stream_state \<Rightarrow> timing_checkpoint" where
  "checkpoint_of er rd st =
     \<lparr>tc_handler_entry_ns = er_handler_entry_ns er, tc_pre_engine_ns = er_pre_engine_ns er,
      tc_first_chunk_ns = (case ss_first_chunk_ns st of Some n \<Rightarrow> n | None \<Rightarrow> sr_terminal_ns rd),
      tc_terminal_emit_ns = sr_terminal_ns rd, tc_perturbation_audit_ns = perturbation_audit er,
      tc_engine_arrival_ns = ss_engine_arrival_ns st, tc_engine_queued_ns = ss_engine_queued_ns st,
      tc_engine_scheduled_ns = ss_engine_scheduled_ns st,
      tc_engine_first_token_ns = ss_engine_first_token_ns st,
      tc_engine_last_token_ns = ss_engine_last_token_ns st,
      tc_pre_engine_wall_ns = Some (er_pre_engine_wall_ns er),
      tc_first_chunk_mono_ns = Some (case ss_first_chunk_mono_ns st of Some n \<Rightarrow> n | None \<Rightarrow> 0),
      tc_tokenized_prompt_length = ss_tokenized_prompt_length st,
      tc_tokenized_prompt_hash = ss_tokenized_prompt_hash st\<rparr>"

lemma int_of_str_zero [simp]: "int_of_str ''0'' = Inr 0"
  by code_simp

lemma extract_chat_trailers: "extract_grpc_timings (chat_trailers er rd st) = Some (checkpoint_of er rd st)"
  by (simp add: extract_grpc_timings_def chat_trailers_def checkpoint_of_def md_int_def dict_item_def
      md_opt_int_def md_opt_int_or_none_def split: option.split)

lemma map_of_rev_distinct: "distinct (map fst kvs) \<Longrightarrow> map_of (rev kvs) = map_of kvs"
proof (induction kvs)
  case (Cons kv kvs)
  then have "map_of kvs (fst kv) = None" by (simp add: map_of_eq_None_iff)
  with Cons show ?case by (cases kv) (auto simp: fun_eq_iff map_add_def split: option.split)
qed simp

lemma parse_chat_trailers:
  assumes "p \<noteq> Embed"
  shows "\<exists>t q. parse_grpc_trailing_metadata (chat_trailers er rd st) p
       = Some \<lparr>engine_forward_ms = None, engine_ttft_ms = Some t, engine_tpot_ms = Some q\<rparr>
     \<and> \<bar>t - chat_engine_ttft_ms er st\<bar> \<le> 1 / 2000 \<and> \<bar>q - chat_engine_tpot_ms st\<bar> \<le> 1 / 2000"
proof -
  have read: "\<exists>y. float_of_str (fmt_fixed 3 x) = Inr y \<and> \<bar>y - x\<bar> \<le> 1 / 2000" for x
    by (rule fmt3_readable)
  from read[of "chat_engine_ttft_ms er st"] obtain t where
    t: "float_of_str (fmt_fixed 3 (chat_engine_ttft_ms er st)) = Inr t"
      "\<bar>t - chat_engine_ttft_ms er st\<bar> \<le> 1 / 2000" by blast
  from read[of "chat_engine_tpot_ms st"] obtain q where
    q: "float_of_str (fmt_fixed 3 (chat_engine_tpot_ms st)) = Inr q"
      "\<bar>q - chat_engine_tpot_ms st\<bar> \<le> 1 / 2000" by blast
  have "distinct (map fst (chat_trailers er rd st))"
    by (simp add: chat_trailers_def split: option.split)
  then have "map_of (rev (chat_trailers er rd st)) = map_of (chat_trailers er rd st)"
    by (rule map_of_rev_distinct)
  then have "dict_item (rev (chat_trailers er rd st)) k = dict_item (chat_trailers er rd st) k" for k
    by (simp add: dict_item_def)
  then have "parse_grpc_trailing_metadata (chat_trailers er rd st) p
      = Some \<lparr>engine_forward_ms = None, engine_ttft_ms = Some t, engine_tpot_ms = Some q\<rparr>"
    using assms t(1) q(1) by (simp add: parse_grpc_trailing_metadata_def chat_trailers_def Let_def)
  then show ?thesis using t(2) q(2) by blast
qed

section \<open>The figures of a run\<close>

definition ttft_of :: "entry_reads \<Rightarrow> timed_output list \<Rightarrow> real" where
  "ttft_of er ds = (if ds = [] \<or> sr_now (snd (hd ds)) = 0 then 0
                    else (sr_now (snd (hd ds)) - er_start er) * 1000)"

definition tpot_of :: "timed_output list \<Rightarrow> real" where
  "tpot_of ds = (if ds \<noteq> [] \<and> 1 < token_total (last ds)
     then (sr_now (snd (last ds)) - sr_now (snd (hd ds))) * 1000 / real_of_int (token_total (last ds) - 1)
     else 0)"

text \<open>What a metadata block must say about the run \<open>outs\<close>, as the harness reads it.\<close>

definition figures_published ::
  "entry_reads \<Rightarrow> path \<Rightarrow> timed_output list \<Rightarrow> (string \<times> string) list \<Rightarrow> bool" where
  "figures_published er p outs tr \<longleftrightarrow>
     (\<exists>x ck t q. find (\<lambda>x. finishes (completion_of x)) outs = Some x
       \<and> extract_grpc_timings tr = Some ck
       \<and> tc_handler_entry_ns ck = er_handler_entry_ns er
       \<and> tc_pre_engine_ns ck = er_pre_engine_ns er
       \<and> tc_first_chunk_ns ck = (if deltas [] outs = [] then sr_terminal_ns (snd x)
                                 else sr_first_ns (snd (hd (deltas [] outs))))
       \<and> tc_terminal_emit_ns ck = sr_terminal_ns (snd x)
       \<and> tc_perturbation_audit_ns ck = er_pa_t4 er - er_pa_t0 er
       \<and> tc_engine_arrival_ns ck = stat_of (deltas [] outs) em_arrival_time
       \<and> tc_engine_queued_ns ck = stat_of (deltas [] outs) em_queued_ts
       \<and> tc_engine_scheduled_ns ck = stat_of (deltas [] outs) em_scheduled_ts
       \<and> tc_engine_first_token_ns ck = stat_of (deltas [] outs) em_first_token_ts
       \<and> tc_pre_engine_wall_ns ck = Some (er_pre_engine_wall_ns er)
       \<and> tc_first_chunk_mono_ns ck = Some (if deltas [] outs = [] then 0
                                           else sr_first_mono_ns (snd (hd (deltas [] outs))))
       \<and> parse_grpc_trailing_metadata tr p
           = Some \<lparr>engine_forward_ms = None, engine_ttft_ms = Some t, engine_tpot_ms = Some q\<rparr>
       \<and> \<bar>t - ttft_of er (deltas [] outs)\<bar> \<le> 1 / 2000
       \<and> \<bar>q - tpot_of (deltas [] outs)\<bar> \<le> 1 / 2000)"

lemma metered_figures:
  assumes "metered ds st"
  shows "chat_engine_ttft_ms er st = ttft_of er ds" "chat_engine_tpot_ms st = tpot_of ds"
  using assms by (auto simp: metered_def chat_engine_ttft_ms_def chat_engine_tpot_ms_def ttft_of_def tpot_of_def)

lemma figures_from_state:
  assumes "find (\<lambda>x. finishes (completion_of x)) outs = Some x" "metered (deltas [] outs) st"
    and "p \<noteq> Embed"
  shows "figures_published er p outs (chat_trailers er (snd x) st)"
proof -
  from parse_chat_trailers[OF assms(3), of er "snd x" st] metered_figures[OF assms(2)]
  obtain t q where "parse_grpc_trailing_metadata (chat_trailers er (snd x) st) p
       = Some \<lparr>engine_forward_ms = None, engine_ttft_ms = Some t, engine_tpot_ms = Some q\<rparr>"
     "\<bar>t - ttft_of er (deltas [] outs)\<bar> \<le> 1 / 2000" "\<bar>q - tpot_of (deltas [] outs)\<bar> \<le> 1 / 2000"
    by auto
  moreover have "checkpoint_of er (snd x) st = checkpoint_of er (snd x) st" ..
  ultimately show ?thesis
    unfolding figures_published_def using assms(1,2) extract_chat_trailers[of er "snd x" st]
    by (intro exI[of _ x] exI[of _ "checkpoint_of er (snd x) st"] exI[of _ t] exI[of _ q])
      (simp add: checkpoint_of_def metered_def perturbation_audit_def)
qed

lemma chat_run_figures:
  assumes "tr \<in> set (trailers_of (fst (async_for (chat_stream_step blake er) initial_stream_state outs e)))"
    and "p \<noteq> Embed"
  shows "figures_published er p outs tr"
proof -
  have "ss_prev_text initial_stream_state = []" by (simp add: initial_stream_state_def)
  with chat_meter.run_publishes[OF assms(1) metered_initial] show ?thesis
    using figures_from_state[OF _ _ assms(2)] by auto
qed

lemma completions_run_figures:
  assumes "tr \<in> set (trailers_of (fst (async_for (completions_stream_step blake er) initial_stream_state outs e)))"
    and "p \<noteq> Embed"
  shows "figures_published er p outs tr"
proof -
  have "ss_prev_text initial_stream_state = []" by (simp add: initial_stream_state_def)
  with completions_meter.run_publishes[OF assms(1) metered_initial] show ?thesis
    using figures_from_state[OF _ _ assms(2)] by auto
qed

section \<open>The unary handler\<close>

definition unary_checkpoint :: "unary_reads \<Rightarrow> unary_state \<Rightarrow> timing_checkpoint" where
  "unary_checkpoint ur st =
     \<lparr>tc_handler_entry_ns = er_handler_entry_ns (ur_entry ur),
      tc_pre_engine_ns = er_pre_engine_ns (ur_entry ur),
      tc_first_chunk_ns = (case us_first_chunk_ns st of Some n \<Rightarrow> n | None \<Rightarrow> ur_terminal_ns ur),
      tc_terminal_emit_ns = ur_terminal_ns ur,
      tc_perturbation_audit_ns = perturbation_audit (ur_entry ur),
      tc_engine_arrival_ns = us_engine_arrival_ns st, tc_engine_queued_ns = us_engine_queued_ns st,
      tc_engine_scheduled_ns = us_engine_scheduled_ns st,
      tc_engine_first_token_ns = us_engine_first_token_ns st,
      tc_engine_last_token_ns = us_engine_last_token_ns st,
      tc_pre_engine_wall_ns = None, tc_first_chunk_mono_ns = None,
      tc_tokenized_prompt_length = us_tokenized_prompt_length st,
      tc_tokenized_prompt_hash = us_tokenized_prompt_hash st\<rparr>"

lemma extract_unary_trailers: "extract_grpc_timings (unary_trailers ur st) = Some (unary_checkpoint ur st)"
  by (simp add: extract_grpc_timings_def unary_trailers_def unary_checkpoint_def md_int_def dict_item_def
      md_opt_int_def md_opt_int_or_none_def Let_def split: option.split)

lemma parse_unary_trailers:
  "\<exists>f. parse_grpc_trailing_metadata (unary_trailers ur st) Embed
       = Some \<lparr>engine_forward_ms = Some f, engine_ttft_ms = None, engine_tpot_ms = None\<rparr>
     \<and> \<bar>f - (ur_finished_at ur - er_start (ur_entry ur)) * 1000\<bar> \<le> 1 / 2000"
proof -
  obtain f where f: "float_of_str (fmt_fixed 3 ((ur_finished_at ur - er_start (ur_entry ur)) * 1000)) = Inr f"
      "\<bar>f - (ur_finished_at ur - er_start (ur_entry ur)) * 1000\<bar> \<le> 1 / 2000"
    using fmt3_readable by blast
  have "distinct (map fst (unary_trailers ur st))"
    by (simp add: unary_trailers_def Let_def split: option.split)
  then have "map_of (rev (unary_trailers ur st)) = map_of (unary_trailers ur st)"
    by (rule map_of_rev_distinct)
  then have "dict_item (rev (unary_trailers ur st)) k = dict_item (unary_trailers ur st) k" for k
    by (simp add: dict_item_def)
  then show ?thesis
    using f by (simp add: parse_grpc_trailing_metadata_def unary_trailers_def Let_def)
qed

lemma unary_first_chunk_set:
  "unary_on_output blake x st = Inr st' \<Longrightarrow> us_first_chunk_ns st = None \<Longrightarrow>
     us_first_chunk_ns st' = Some (sr_first_ns (snd x))"
  by (cases x) (auto simp: unary_on_output_def bind_result_Inr_iff Let_def split: if_split_asm option.splits)

lemma unary_drain_later:
  "us_first_chunk_ns st \<noteq> None \<Longrightarrow> unary_drain blake st final xs e = Inr (st', final') \<Longrightarrow>
     st' = st \<and> final' = (if xs = [] then final else Some (fst (last xs)))"
proof (induction xs arbitrary: final)
  case (Cons x xs)
  then have "unary_drain blake st (Some (fst x)) xs e = Inr (st', final')"
    by (cases x) (simp add: unary_on_output_def)
  from Cons.IH[OF Cons.prems(1) this] show ?case by simp
qed (auto split: run_end.splits)

lemma unary_drain_exhausted: "unary_drain blake st final xs e = Inr r \<Longrightarrow> e = Engine_Exhausted"
  by (induction xs arbitrary: st final) (auto simp: bind_result_Inr_iff split: run_end.splits)

lemma unary_drain_result:
  assumes "unary_drain blake initial_unary_state None xs e = Inr (st, final)"
  shows "final = (if xs = [] then None else Some (fst (last xs)))
     \<and> us_first_chunk_ns st = (if xs = [] then None else Some (sr_first_ns (snd (hd xs))))"
proof (cases xs)
  case Nil
  then show ?thesis using assms by (auto simp: initial_unary_state_def split: run_end.splits)
next
  case (Cons x ys)
  then obtain st1 where st1: "unary_on_output blake x initial_unary_state = Inr st1"
    "unary_drain blake st1 (Some (fst x)) ys e = Inr (st, final)"
    using assms by (auto simp: bind_result_Inr_iff)
  have first: "us_first_chunk_ns st1 = Some (sr_first_ns (snd x))"
    using unary_first_chunk_set[OF st1(1)] by (simp add: initial_unary_state_def)
  then show ?thesis using unary_drain_later[OF _ st1(2)] Cons by auto
qed

section \<open>Examples\<close>

definition demo_completion :: "string \<Rightarrow> int list \<Rightarrow> string option \<Rightarrow> engine_output" where
  "demo_completion t ids r =
     \<lparr>eo_outputs = [\<lparr>co_text = t, co_token_ids = ids, co_finish_reason = r\<rparr>],
      eo_prompt_token_ids = Some [7, 300],
      eo_metrics = Some \<lparr>em_arrival_time = Some 1, em_queued_ts = Some 2, em_scheduled_ts = Some 3,
                         em_first_token_ts = Some 4, em_last_token_ts = Some 5\<rparr>\<rparr>"

definition demo_reads :: "real \<Rightarrow> int \<Rightarrow> step_reads" where
  "demo_reads now ns = \<lparr>sr_now = now, sr_first_ns = ns, sr_first_mono_ns = ns + 1, sr_terminal_ns = ns + 2,
     sr_active_chunk = Inr True, sr_active_final = Inr True\<rparr>"

definition demo_outs :: "timed_output list" where
  "demo_outs = [(demo_completion ''Hel'' [1] None, demo_reads 11 110),
                (demo_completion ''Hello'' [1, 2] (Some ''stop''), demo_reads 13 130)]"

definition demo_entry :: entry_reads where
  "demo_entry = \<lparr>er_pa_t0 = 90, er_pa_t4 = 95, er_handler_entry_ns = 96, er_pre_engine_ns = 100,
     er_pre_engine_wall_ns = 1000, er_start = 10\<rparr>"

definition demo_env :: "timed_output list \<Rightarrow> run_end \<Rightarrow> (sampling_kwargs, unit) frontend_env" where
  "demo_env outs e =
     \<lparr>fe_apply_chat_template = (\<lambda>ms. Inr (concat (map snd ms))), fe_SamplingParams = Inr,
      fe_generate = (\<lambda>i p r. (outs, e)), fe_torch_load = (\<lambda>b. Inl (value_error b)),
      fe_blake = (\<lambda>b. ''00''), fe_request_id = ''r1''\<rparr>"

definition demo_chat_req :: chat_complete_request where
  "demo_chat_req = \<lparr>cq_messages = [\<lparr>cm_role = ''user'', cm_content = ''hi''\<rparr>], cq_model = ''m'',
     cq_max_tokens = 5, cq_temperature = None, cq_top_p = None, cq_seed = Some 3, cq_ignore_eos = False\<rparr>"

definition demo_completion_req :: completion_request where
  "demo_completion_req = \<lparr>nq_model = ''m'', nq_max_tokens = 5, nq_temperature = None, nq_top_p = None,
     nq_seed = None, nq_input = Some (Prompt_Input ''hi''), nq_ignore_eos = False\<rparr>"

lemmas demo_defs = demo_completion_def demo_reads_def demo_outs_def demo_entry_def demo_env_def
  demo_chat_req_def demo_completion_req_def

lemma demo_run: "map completion_of demo_outs
    = [\<lparr>co_text = ''Hel'', co_token_ids = [1], co_finish_reason = None\<rparr>,
       \<lparr>co_text = ''Hello'', co_token_ids = [1, 2], co_finish_reason = Some ''stop''\<rparr>]"
  by (simp add: demo_defs)

lemma demo_accepts: "list_all chat_accepts demo_outs" "list_all completions_accepts demo_outs"
  by (simp_all add: demo_defs chat_accepts_def completions_accepts_def ids_fit_def prompt_ids_def)

lemma demo_grows: "text_grows [] (consumed (map completion_of demo_outs))"
  by (simp add: demo_run finishes_def truthy_def)

lemma demo_finishes: "find finishes (map completion_of demo_outs)
    = Some \<lparr>co_text = ''Hello'', co_token_ids = [1, 2], co_finish_reason = Some ''stop''\<rparr>"
  by (simp add: demo_run finishes_def truthy_def)

section \<open>Whole runs\<close>

lemma initial_fields [simp]:
  "ss_token_index initial_stream_state = 0" "ss_prev_text initial_stream_state = []"
  by (simp_all add: initial_stream_state_def)

lemma last_consumed: "find finishes cs = Some c \<Longrightarrow> last (consumed cs) = c \<and> cs \<noteq> []"
  by (induction cs) (auto split: if_split_asm)

lemma chat_chunk_of_view: "chat_chunk_view ck = (t, r, i) \<Longrightarrow>
    ck = \<lparr>ck_delta_content = t, ck_finish_reason = r, ck_token_index = i\<rparr>"
  by (cases ck) (simp add: chat_chunk_view_def)

lemma completion_chunk_of_view: "completion_chunk_view ck = (t, r, i) \<Longrightarrow>
    ck = \<lparr>nk_delta_text = t, nk_finish_reason = r, nk_token_index = i\<rparr>"
  by (cases ck) (simp add: completion_chunk_view_def)

lemma chat_run_delivers:
  assumes "list_all chat_accepts outs" "text_grows [] (consumed (map completion_of outs))"
    and "find finishes (map completion_of outs) = Some c"
  shows "\<exists>pre tr. async_for (chat_stream_step blake er) initial_stream_state outs e =
       (map Ev_Chunk pre @ [Ev_Trailers tr,
          Ev_Chunk \<lparr>ck_delta_content = [], ck_finish_reason = the (co_finish_reason c),
                    ck_token_index = int (length pre)\<rparr>], Stream_Returned)
     \<and> concat (map ck_delta_content pre) = co_text c
     \<and> map ck_token_index pre = map int [0 ..< length pre]
     \<and> list_all (\<lambda>ck. ck_delta_content ck \<noteq> [] \<and> ck_finish_reason ck = []) pre"
proof -
  obtain evs en where es: "async_for (chat_stream_step blake er) initial_stream_state outs e = (evs, en)"
    by (cases "async_for (chat_stream_step blake er) initial_stream_state outs e")
  note last = last_consumed[OF assms(3)]
  from chat_stream.run_shape[OF assms(1) initial_fields es] assms(2,3) last
  obtain pre tr last_chunk where pre:
      "list_all (\<lambda>ck. ck_delta_content ck \<noteq> [] \<and> ck_finish_reason ck = []) pre"
      "map ck_token_index pre = map int [0 ..< length pre]"
      "concat (map ck_delta_content pre) = co_text c"
      "evs = map Ev_Chunk pre @ [Ev_Trailers tr, Ev_Chunk last_chunk]"
      "chat_chunk_view last_chunk = ([], the (co_finish_reason c), int (length pre))"
      "en = Stream_Returned"
    by (auto simp: chat_chunk_view_def)
  from pre(1-4,6) chat_chunk_of_view[OF pre(5)] es show ?thesis by blast
qed

lemma completions_run_delivers:
  assumes "list_all completions_accepts outs" "text_grows [] (consumed (map completion_of outs))"
    and "find finishes (map completion_of outs) = Some c"
  shows "\<exists>pre tr. async_for (completions_stream_step blake er) initial_stream_state outs e =
       (map Ev_Chunk pre @ [Ev_Trailers tr,
          Ev_Chunk \<lparr>nk_delta_text = [], nk_finish_reason = the (co_finish_reason c),
                    nk_token_index = int (length pre)\<rparr>], Stream_Returned)
     \<and> concat (map nk_delta_text pre) = co_text c
     \<and> map nk_token_index pre = map int [0 ..< length pre]
     \<and> list_all (\<lambda>ck. nk_delta_text ck \<noteq> [] \<and> nk_finish_reason ck = []) pre"
proof -
  obtain evs en where es: "async_for (completions_stream_step blake er) initial_stream_state outs e = (evs, en)"
    by (cases "async_for (completions_stream_step blake er) initial_stream_state outs e")
  note last = last_consumed[OF assms(3)]
  from completions_stream.run_shape[OF assms(1) initial_fields es] assms(2,3) last
  obtain pre tr last_chunk where pre:
      "list_all (\<lambda>ck. nk_delta_text ck \<noteq> [] \<and> nk_finish_reason ck = []) pre"
      "map nk_token_index pre = map int [0 ..< length pre]"
      "concat (map nk_delta_text pre) = co_text c"
      "evs = map Ev_Chunk pre @ [Ev_Trailers tr, Ev_Chunk last_chunk]"
      "completion_chunk_view last_chunk = ([], the (co_finish_reason c), int (length pre))"
      "en = Stream_Returned"
    by (auto simp: completion_chunk_view_def)
  from pre(1-4,6) completion_chunk_of_view[OF pre(5)] es show ?thesis by blast
qed

text \<open>A run no output of which finishes: only deltas, and the end of the engine's run.\<close>

lemma chat_run_unfinished:
  assumes "list_all chat_accepts outs" "find finishes (map completion_of outs) = None"
  shows "\<exists>pre. async_for (chat_stream_step blake er) initial_stream_state outs e
       = (map Ev_Chunk pre, end_of_run e)
     \<and> map ck_token_index pre = map int [0 ..< length pre]
     \<and> list_all (\<lambda>ck. ck_delta_content ck \<noteq> [] \<and> ck_finish_reason ck = []) pre"
proof -
  obtain evs en where es: "async_for (chat_stream_step blake er) initial_stream_state outs e = (evs, en)"
    by (cases "async_for (chat_stream_step blake er) initial_stream_state outs e")
  from chat_stream.run_shape[OF assms(1) initial_fields es] assms(2) es
  show ?thesis by (auto simp: chat_chunk_view_def)
qed

section \<open>Properties\<close>

text \<open>
  C1. The chat stream delivers the engine's text. When the engine's texts grow and some output
  finishes, the handler yields non-empty deltas numbered from 0 that concatenate to the finished
  text, then sets the metadata once, then yields one empty chunk that alone carries the finish reason
  and the next number, and returns.
\<close>

theorem chat_stream_delivers_text:
  assumes "messages_to_prompt (fe_apply_chat_template env) (cq_messages req) = Inr prompt"
    and "chat_proto_to_sampling_params (fe_SamplingParams env) req = Inr params"
    and "fe_generate env (Text_Input prompt) params (fe_request_id env) = (outs, e)"
    and "list_all chat_accepts outs"
    and "text_grows [] (consumed (map completion_of outs))"
    and "find finishes (map completion_of outs) = Some c"
  shows "\<exists>pre tr. chat_complete_stream env er req =
       (map Ev_Chunk pre @ [Ev_Trailers tr,
          Ev_Chunk \<lparr>ck_delta_content = [], ck_finish_reason = the (co_finish_reason c),
                    ck_token_index = int (length pre)\<rparr>], Stream_Returned)
     \<and> concat (map ck_delta_content pre) = co_text c
     \<and> map ck_token_index pre = map int [0 ..< length pre]
     \<and> list_all (\<lambda>ck. ck_delta_content ck \<noteq> [] \<and> ck_finish_reason ck = []) pre"
  using chat_run_delivers[OF assms(4-6), of "fe_blake env" er e] assms(1-3)
  by (simp add: chat_complete_stream_def)

lemma demo_calls:
  "messages_to_prompt (fe_apply_chat_template (demo_env outs e)) (cq_messages demo_chat_req) = Inr ''hi''"
  "chat_proto_to_sampling_params (fe_SamplingParams (demo_env outs e)) demo_chat_req
     = Inr (chat_sampling_kwargs demo_chat_req)"
  "fe_generate (demo_env outs e) i p r = (outs, e)"
  by (simp_all add: demo_env_def demo_chat_req_def messages_to_prompt_def chat_proto_to_sampling_params_def)

theorem chat_stream_delivers_text_witness:
  "\<exists>pre tr. chat_complete_stream (demo_env demo_outs Engine_Exhausted) demo_entry demo_chat_req =
       (map Ev_Chunk pre @ [Ev_Trailers tr,
          Ev_Chunk \<lparr>ck_delta_content = [], ck_finish_reason = ''stop'',
                    ck_token_index = int (length pre)\<rparr>], Stream_Returned)
     \<and> concat (map ck_delta_content pre) = ''Hello''"
  using chat_stream_delivers_text[OF demo_calls(1) demo_calls(2) demo_calls(3) demo_accepts(1) demo_grows
      demo_finishes, of Engine_Exhausted demo_entry] by auto

text \<open>
  C3. The metadata of both streaming handlers is exact. Whenever a handler sets trailing metadata, the
  harness's two readers get from it the entry, pre-engine and terminal readings, the first-chunk
  reading of the first output that added text, the engine statistics of that output, the time to that
  first token, and the time per output token between the first and the last delta, both within half a
  microsecond of the exact value.
\<close>

theorem stream_metadata_exact:
  assumes "p \<noteq> Embed"
  shows "(tr \<in> set (trailers_of (fst (chat_complete_stream env er req))) \<longrightarrow>
      (\<exists>prompt params outs e. messages_to_prompt (fe_apply_chat_template env) (cq_messages req) = Inr prompt
         \<and> chat_proto_to_sampling_params (fe_SamplingParams env) req = Inr params
         \<and> fe_generate env (Text_Input prompt) params (fe_request_id env) = (outs, e)
         \<and> figures_published er p outs tr))
    \<and> (tr \<in> set (trailers_of (fst (completions_complete_stream env er creq))) \<longrightarrow>
      (\<exists>inp params outs e. select_engine_input env creq = Some (Inr inp)
         \<and> completion_proto_to_sampling_params (fe_SamplingParams env) creq = Inr params
         \<and> fe_generate env inp params (fe_request_id env) = (outs, e)
         \<and> figures_published er p outs tr))"
proof (intro conjI impI)
  assume tr: "tr \<in> set (trailers_of (fst (chat_complete_stream env er req)))"
  then obtain prompt params where pre:
    "messages_to_prompt (fe_apply_chat_template env) (cq_messages req) = Inr prompt"
    "chat_proto_to_sampling_params (fe_SamplingParams env) req = Inr params"
    by (auto simp: chat_complete_stream_def split: sum.splits)
  obtain outs e where gen: "fe_generate env (Text_Input prompt) params (fe_request_id env) = (outs, e)"
    by (cases "fe_generate env (Text_Input prompt) params (fe_request_id env)")
  from tr pre gen have "tr \<in> set (trailers_of (fst (async_for (chat_stream_step (fe_blake env) er)
      initial_stream_state outs e)))" by (simp add: chat_complete_stream_def)
  from chat_run_figures[OF this assms] pre gen show "\<exists>prompt params outs e.
      messages_to_prompt (fe_apply_chat_template env) (cq_messages req) = Inr prompt
      \<and> chat_proto_to_sampling_params (fe_SamplingParams env) req = Inr params
      \<and> fe_generate env (Text_Input prompt) params (fe_request_id env) = (outs, e)
      \<and> figures_published er p outs tr" by blast
next
  assume tr: "tr \<in> set (trailers_of (fst (completions_complete_stream env er creq)))"
  then obtain inp params where pre: "select_engine_input env creq = Some (Inr inp)"
    "completion_proto_to_sampling_params (fe_SamplingParams env) creq = Inr params"
    by (auto simp: completions_complete_stream_def split: sum.splits option.splits)
  obtain outs e where gen: "fe_generate env inp params (fe_request_id env) = (outs, e)"
    by (cases "fe_generate env inp params (fe_request_id env)")
  from tr pre gen have "tr \<in> set (trailers_of (fst (async_for (completions_stream_step (fe_blake env) er)
      initial_stream_state outs e)))" by (simp add: completions_complete_stream_def)
  from completions_run_figures[OF this assms] pre gen show "\<exists>inp params outs e.
      select_engine_input env creq = Some (Inr inp)
      \<and> completion_proto_to_sampling_params (fe_SamplingParams env) creq = Inr params
      \<and> fe_generate env inp params (fe_request_id env) = (outs, e)
      \<and> figures_published er p outs tr" by blast
qed

lemma demo_publishes:
  "\<exists>tr. tr \<in> set (trailers_of (fst (chat_complete_stream (demo_env demo_outs Engine_Exhausted) demo_entry
      demo_chat_req)))"
  using chat_run_delivers[OF demo_accepts(1) demo_grows demo_finishes,
      of "fe_blake (demo_env demo_outs Engine_Exhausted)" demo_entry Engine_Exhausted]
  by (auto simp: chat_complete_stream_def demo_calls)

theorem stream_metadata_exact_witness:
  "\<exists>tr. tr \<in> set (trailers_of (fst (chat_complete_stream (demo_env demo_outs Engine_Exhausted) demo_entry
      demo_chat_req))) \<and> figures_published demo_entry Chat_Stream demo_outs tr"
proof -
  obtain tr where tr: "tr \<in> set (trailers_of (fst (chat_complete_stream
      (demo_env demo_outs Engine_Exhausted) demo_entry demo_chat_req)))"
    using demo_publishes by blast
  have "Chat_Stream \<noteq> Embed" by simp
  from stream_metadata_exact[OF this, of tr "demo_env demo_outs Engine_Exhausted" demo_entry demo_chat_req
      demo_completion_req] tr
  have "figures_published demo_entry Chat_Stream demo_outs tr"
    by (auto simp: demo_calls)
  with tr show ?thesis by blast
qed

text \<open>
  A run no output of which finishes ends without metadata and without a finish reason: the deltas
  already yielded stay, and the call ends as the engine does, with a plain return when the engine is
  exhausted or the call cancelled, and with an \<open>INTERNAL\<close> abort carrying the exception's text when the
  engine raised.
\<close>

theorem unfinished_stream_has_no_trailers:
  assumes "messages_to_prompt (fe_apply_chat_template env) (cq_messages req) = Inr prompt"
    and "chat_proto_to_sampling_params (fe_SamplingParams env) req = Inr params"
    and "fe_generate env (Text_Input prompt) params (fe_request_id env) = (outs, e)"
    and "list_all chat_accepts outs"
    and "find finishes (map completion_of outs) = None"
  shows "\<exists>pre. chat_complete_stream env er req =
       (map Ev_Chunk pre, (case e of Engine_Raised exc \<Rightarrow> Stream_Aborted ''INTERNAL'' (exn_msg exc)
                                   | _ \<Rightarrow> Stream_Returned))
     \<and> trailers_of (fst (chat_complete_stream env er req)) = []
     \<and> map ck_token_index pre = map int [0 ..< length pre]
     \<and> list_all (\<lambda>ck. ck_finish_reason ck = []) pre"
proof -
  from chat_run_unfinished[OF assms(4,5), of "fe_blake env" er e] obtain pre where
    pre: "async_for (chat_stream_step (fe_blake env) er) initial_stream_state outs e
        = (map Ev_Chunk pre, end_of_run e)" "map ck_token_index pre = map int [0 ..< length pre]"
      "list_all (\<lambda>ck. ck_delta_content ck \<noteq> [] \<and> ck_finish_reason ck = []) pre" by blast
  have "trailers_of (map Ev_Chunk pre) = []" by (induction pre) simp_all
  moreover have "list_all (\<lambda>ck. ck_finish_reason ck = []) pre"
    using pre(3) by (simp add: list_all_iff)
  ultimately show ?thesis using pre assms(1-3)
    by (intro exI[of _ pre]) (simp add: chat_complete_stream_def end_of_run_def internal_abort_def
        split: run_end.split)
qed

definition demo_cut :: "timed_output list" where "demo_cut = take 1 demo_outs"

lemma demo_cut_ok: "list_all chat_accepts demo_cut" "find finishes (map completion_of demo_cut) = None"
  using demo_accepts(1) by (simp_all add: demo_cut_def demo_outs_def demo_completion_def finishes_def truthy_def)

theorem unfinished_stream_has_no_trailers_witness:
  "\<exists>pre. chat_complete_stream (demo_env demo_cut (Engine_Raised (value_error ''gone''))) demo_entry demo_chat_req
     = (map Ev_Chunk pre, Stream_Aborted ''INTERNAL'' ''gone'')"
  using unfinished_stream_has_no_trailers[OF demo_calls(1) demo_calls(2) demo_calls(3) demo_cut_ok(1)
      demo_cut_ok(2), of "Engine_Raised (value_error ''gone'')" demo_entry] by auto

lemma async_for_silent:
  assumes "list_all (\<lambda>x. eo_outputs (fst x) \<noteq> [] \<and> co_text (completion_of x) = []
        \<and> \<not> finishes (completion_of x)) ys" "ss_prev_text st = []"
  shows "async_for (completions_stream_step blake er) st (ys @ xs) e
       = async_for (completions_stream_step blake er) st xs e"
  using assms
proof (induction ys)
  case (Cons y ys)
  obtain out rd where y: "y = (out, rd)" by (cases y)
  with Cons.prems(1) obtain c cs where out: "eo_outputs out = c # cs" by (cases "eo_outputs out") auto
  have "st\<lparr>ss_prev_text := []\<rparr> = st" using Cons.prems(2) by simp
  then have "completions_stream_step blake er y st = ([], Go_On st)"
    using Cons.prems y out
    by (simp add: completions_stream_step_def first_completion_def finishes_def Let_def)
  then show ?case using Cons by simp
qed simp

text \<open>
  C13. The completions stream depends on \<open>context.is_active()\<close>. If it raises at the first output that
  adds text, the whole call is an \<open>INTERNAL\<close> abort and the client receives no message; if it answers
  false there, the stream ends normally, and empty.
\<close>

theorem completions_stream_needs_active:
  assumes "select_engine_input env req = Some (Inr inp)"
    and "completion_proto_to_sampling_params (fe_SamplingParams env) req = Inr params"
    and "fe_generate env inp params (fe_request_id env) = (ys @ (out, rd) # zs, e)"
    and "list_all (\<lambda>x. eo_outputs (fst x) \<noteq> [] \<and> co_text (completion_of x) = []
        \<and> \<not> finishes (completion_of x)) ys"
    and "eo_outputs out = c # cs" and "co_text c \<noteq> []" and "ids_fit out"
    and "sr_active_chunk rd \<noteq> Inr True"
  shows "completions_complete_stream env er req
       = ([], (case sr_active_chunk rd of Inl exc \<Rightarrow> Stream_Aborted ''INTERNAL'' (exn_msg exc)
                                        | Inr _ \<Rightarrow> Stream_Returned))"
proof -
  from chat_on_delta_ok[OF assms(7), of "fe_blake env" c rd "initial_stream_state\<lparr>ss_prev_text := co_text c\<rparr>"]
  obtain st2 where st2: "chat_on_delta (fe_blake env) out c rd (initial_stream_state\<lparr>ss_prev_text := co_text c\<rparr>)
      = Inr st2" by blast
  have "completions_stream_step (fe_blake env) er (out, rd) initial_stream_state
      = ([], (case sr_active_chunk rd of Inl exc \<Rightarrow> Fail exc | Inr _ \<Rightarrow> Finish))"
    using assms(5,6,8) st2
    by (auto simp: completions_stream_step_def first_completion_def completions_copies Let_def
        split: sum.splits)
  then show ?thesis
    using async_for_silent[OF assms(4) initial_fields(2), of "fe_blake env" er "(out, rd) # zs" e] assms(1-3)
    by (auto simp: completions_complete_stream_def internal_abort_def split: sum.splits)
qed

definition demo_inactive :: step_reads where
  "demo_inactive = (demo_reads 11 110)\<lparr>sr_active_chunk := Inl (Exn ''AttributeError'' ''is_active'')\<rparr>"

theorem completions_stream_needs_active_witness:
  "completions_complete_stream (demo_env [(demo_completion ''Hel'' [1] None, demo_inactive)] Engine_Exhausted)
     demo_entry demo_completion_req = ([], Stream_Aborted ''INTERNAL'' ''is_active'')"
proof -
  let ?env = "demo_env [(demo_completion ''Hel'' [1] None, demo_inactive)] Engine_Exhausted"
  have "select_engine_input ?env demo_completion_req = Some (Inr (Text_Input ''hi''))"
    "completion_proto_to_sampling_params (fe_SamplingParams ?env) demo_completion_req
       = Inr (completion_sampling_kwargs demo_completion_req)"
    "fe_generate ?env (Text_Input ''hi'') (completion_sampling_kwargs demo_completion_req) (fe_request_id ?env)
       = ([] @ (demo_completion ''Hel'' [1] None, demo_inactive) # [], Engine_Exhausted)"
    "eo_outputs (demo_completion ''Hel'' [1] None)
       = \<lparr>co_text = ''Hel'', co_token_ids = [1], co_finish_reason = None\<rparr> # []"
    "ids_fit (demo_completion ''Hel'' [1] None)" "sr_active_chunk demo_inactive \<noteq> Inr True"
    by (simp_all add: demo_env_def demo_completion_req_def select_engine_input_def demo_completion_def
        completion_proto_to_sampling_params_def ids_fit_def prompt_ids_def demo_inactive_def)
  from completions_stream_needs_active[OF this(1-3) _ this(4) _ this(5,6), of demo_entry]
  show ?thesis by (simp add: demo_inactive_def)
qed

text \<open>
  C14. The metadata of the unary completions call is exact. When the handler gets as far as setting it,
  the engine was given the request's input and parameters and ran to its end; the harness reads the engine's forward time back within half a microsecond,
  and a checkpoint whose first chunk is the first output's reading (the terminal one if there was none)
  and which has no proxy-edge probes. The call then answers with the last output's text and token
  counts, and raises exactly if there was no output or the last one lacks its completion or prompt tokens.
\<close>

theorem unary_metadata_exact:
  assumes "completions_complete env ur req = (Some tr, answer)"
  shows "\<exists>inp params outs ck f. select_engine_input env req = Some (Inr inp)
     \<and> fe_SamplingParams env (completion_sampling_kwargs req) = Inr params
     \<and> fe_generate env inp params (fe_request_id env) = (outs, Engine_Exhausted)
     \<and> extract_grpc_timings tr = Some ck \<and> \<not> has_proxy_edge_probes ck
     \<and> tc_first_chunk_ns ck = (if outs = [] then ur_terminal_ns ur else sr_first_ns (snd (hd outs)))
     \<and> tc_terminal_emit_ns ck = ur_terminal_ns ur
     \<and> tc_pre_engine_ns ck = er_pre_engine_ns (ur_entry ur)
     \<and> parse_grpc_trailing_metadata tr Embed
         = Some \<lparr>engine_forward_ms = Some f, engine_ttft_ms = None, engine_tpot_ms = None\<rparr>
     \<and> \<bar>f - (ur_finished_at ur - er_start (ur_entry ur)) * 1000\<bar> \<le> 1 / 2000
     \<and> (outs = [] \<longrightarrow> answer = Rpc_Raised no_output_error)
     \<and> ((\<exists>exc. answer = Rpc_Raised exc) \<longleftrightarrow> outs = [] \<or> eo_outputs (fst (last outs)) = []
          \<or> eo_prompt_token_ids (fst (last outs)) = None)
     \<and> (\<forall>c cs ids. outs \<noteq> [] \<longrightarrow> eo_outputs (fst (last outs)) = c # cs
          \<longrightarrow> eo_prompt_token_ids (fst (last outs)) = Some ids
          \<longrightarrow> answer = Rpc_Ok \<lparr>np_generated_text = co_text c, np_finish_reason = reason_or_stop c,
                np_prompt_tokens = int (length ids), np_completion_tokens = int (length (co_token_ids c))\<rparr>)"
proof -
  from assms obtain inp params where pre: "select_engine_input env req = Some (Inr inp)"
    "completion_proto_to_sampling_params (fe_SamplingParams env) req = Inr params"
    by (auto simp: completions_complete_def split: sum.splits option.splits)
  obtain outs e where gen: "fe_generate env inp params (fe_request_id env) = (outs, e)"
    by (cases "fe_generate env inp params (fe_request_id env)")
  from assms pre gen obtain st final where drain:
    "unary_drain (fe_blake env) initial_unary_state None outs e = Inr (st, final)"
    and tr: "tr = unary_trailers ur (unary_refresh_last_token final st)"
    and ans: "answer = answer_of (case final of None \<Rightarrow> Inl no_output_error | Some out \<Rightarrow> completion_answer out)"
    by (auto simp: completions_complete_def split: sum.splits prod.splits)
  note res = unary_drain_result[OF drain]
  have ended: "e = Engine_Exhausted" by (rule unary_drain_exhausted[OF drain])
  have raised: "(\<exists>exc. answer = Rpc_Raised exc) \<longleftrightarrow> outs = [] \<or> eo_outputs (fst (last outs)) = []
          \<or> eo_prompt_token_ids (fst (last outs)) = None"
    using res ans
    by (cases "eo_outputs (fst (last outs))"; cases "eo_prompt_token_ids (fst (last outs))")
      (simp_all add: answer_of_def completion_answer_def first_completion_def prompt_length_def)
  have params: "fe_SamplingParams env (completion_sampling_kwargs req) = Inr params"
    using pre(2) by (simp add: completion_proto_to_sampling_params_def)
  have "us_first_chunk_ns (unary_refresh_last_token final st) = us_first_chunk_ns st"
    by (simp add: unary_refresh_last_token_def split: option.split)
  with res have first: "tc_first_chunk_ns (unary_checkpoint ur (unary_refresh_last_token final st))
      = (if outs = [] then ur_terminal_ns ur else sr_first_ns (snd (hd outs)))"
    by (simp add: unary_checkpoint_def)
  obtain f where f: "parse_grpc_trailing_metadata tr Embed
      = Some \<lparr>engine_forward_ms = Some f, engine_ttft_ms = None, engine_tpot_ms = None\<rparr>"
    "\<bar>f - (ur_finished_at ur - er_start (ur_entry ur)) * 1000\<bar> \<le> 1 / 2000"
    using parse_unary_trailers tr by blast
  have answered: "outs \<noteq> [] \<Longrightarrow> eo_outputs (fst (last outs)) = c # cs \<Longrightarrow>
      eo_prompt_token_ids (fst (last outs)) = Some ids \<Longrightarrow>
      answer = Rpc_Ok \<lparr>np_generated_text = co_text c, np_finish_reason = reason_or_stop c,
        np_prompt_tokens = int (length ids), np_completion_tokens = int (length (co_token_ids c))\<rparr>" for c cs ids
    using res ans by (simp add: answer_of_def completion_answer_def first_completion_def prompt_length_def)
  show ?thesis
    by (rule exI[of _ inp], rule exI[of _ params], rule exI[of _ outs],
        rule exI[of _ "unary_checkpoint ur (unary_refresh_last_token final st)"], rule exI[of _ f])
      (use pre(1) params gen[unfolded ended] raised first f answered res ans tr extract_unary_trailers in
        \<open>simp add: unary_checkpoint_def has_proxy_edge_probes_def answer_of_def\<close>)
qed

definition demo_unary :: unary_reads where
  "demo_unary = \<lparr>ur_entry = demo_entry, ur_finished_at = 12, ur_terminal_ns = 140\<rparr>"

theorem unary_metadata_exact_witness:
  "\<exists>tr ck f. extract_grpc_timings tr = Some ck \<and> tc_first_chunk_ns ck = 110
     \<and> parse_grpc_trailing_metadata tr Embed
         = Some \<lparr>engine_forward_ms = Some f, engine_ttft_ms = None, engine_tpot_ms = None\<rparr>"
proof -
  let ?env = "demo_env demo_outs Engine_Exhausted"
  have "prompt_hash (\<lambda>b. ''00'') [7, 300] = Inr ''00''"
    by (simp add: prompt_hash_def to_bytes4_little_def)
  then obtain tr answer where run: "completions_complete ?env demo_unary demo_completion_req = (Some tr, answer)"
    by (simp add: completions_complete_def demo_calls select_engine_input_def demo_completion_req_def
        completion_proto_to_sampling_params_def demo_env_def demo_outs_def demo_completion_def demo_reads_def
        unary_on_output_def initial_unary_state_def prompt_ids_def Let_def)
  from unary_metadata_exact[OF run] obtain inp params outs ck f where
    res: "fe_generate ?env inp params (fe_request_id ?env) = (outs, Engine_Exhausted)"
      "extract_grpc_timings tr = Some ck"
      "tc_first_chunk_ns ck = (if outs = [] then ur_terminal_ns demo_unary else sr_first_ns (snd (hd outs)))"
      "parse_grpc_trailing_metadata tr Embed
         = Some \<lparr>engine_forward_ms = Some f, engine_ttft_ms = None, engine_tpot_ms = None\<rparr>"
    by blast
  then have "outs = demo_outs" by (simp add: demo_calls)
  then have "tc_first_chunk_ns ck = 110" using res(3) by (simp add: demo_outs_def demo_reads_def)
  with res show ?thesis by blast
qed

end
