(* ===== verification/Frontend_Server.thy ===== *)
theory Frontend_Server
  imports Frontend_Completions Channel_Config
begin

text \<open>
  \<open>health.py\<close> and \<open>main.py\<close> of the frontend: the health answer, the server with its three servicers
  and keyword arguments, and what \<open>serve\<close> reads from the environment. The gRPC server object is
  represented by what it was built with.
\<close>

definition health_ping :: string where
  "health_ping = ''pong''"

datatype service = Health_Service | Chat_Service | Completions_Service

record 'e grpc_server =
  sv_options :: "channel_options option"
  sv_compression :: "compression option"
  sv_services :: "service list"
  sv_engine :: 'e

definition build_server ::
  "'e \<Rightarrow> channel_options option \<Rightarrow> compression option \<Rightarrow> 'e grpc_server" where
  "build_server engine options compression =
     \<lparr>sv_options = options, sv_compression = compression,
      sv_services = [Health_Service, Chat_Service, Completions_Service], sv_engine = engine\<rparr>"

definition env_or :: "(string \<Rightarrow> string option) \<Rightarrow> string \<Rightarrow> string \<Rightarrow> string" where
  "env_or environ key fallback = (case environ key of Some v \<Rightarrow> v | None \<Rightarrow> fallback)"

text \<open>\<open>from_engine_args\<close> builds the engine of a model with prompt embeddings enabled.\<close>

definition serve ::
  "(string \<Rightarrow> bool \<Rightarrow> 'e) \<Rightarrow> (string \<Rightarrow> string option) \<Rightarrow> channel_options option \<Rightarrow> compression option
     \<Rightarrow> 'e grpc_server \<times> string" where
  "serve from_engine_args environ options compression =
     (let engine = from_engine_args (env_or environ ''MODEL_NAME'' ''Qwen/Qwen3-0.6B'') True;
          host = env_or environ ''FRONTEND_HOST'' ''0.0.0.0'';
          port = env_or environ ''FRONTEND_PORT'' ''50051''
      in (build_server engine options compression, host @ '':'' @ port))"

end
