(* ===== verification/Py_Base64.thy ===== *)
theory Py_Base64
  imports Py_Prelude
begin

text \<open>
  \<open>base64.b64encode\<close> and \<open>base64.b64decode\<close> of the standard library on ASCII text. Decoding is the
  lenient mode the proxy uses: characters outside the alphabet are skipped, a completed padding ends
  the text, and an unfinished group of characters is a \<open>binascii.Error\<close>, which is a \<open>ValueError\<close>.
\<close>

definition b64_char :: "nat \<Rightarrow> char" where
  "b64_char v = char_of (if v < 26 then 65 + v else if v < 52 then 71 + v else if v < 62 then v - 4
                         else if v = 62 then 43 else 47)"

definition b64_val :: "char \<Rightarrow> nat option" where
  "b64_val c =
     (let n = of_char c :: nat
      in if 65 \<le> n \<and> n \<le> 90 then Some (n - 65)
         else if 97 \<le> n \<and> n \<le> 122 then Some (n - 71)
         else if 48 \<le> n \<and> n \<le> 57 then Some (n + 4)
         else if n = 43 then Some 62 else if n = 47 then Some 63 else None)"

abbreviation PAD :: char where "PAD \<equiv> CHR ''=''"

fun b64_encode :: "nat list \<Rightarrow> string" where
  "b64_encode [] = []"
| "b64_encode [a] = [b64_char (a div 4), b64_char (a mod 4 * 16), PAD, PAD]"
| "b64_encode [a, b] =
     [b64_char (a div 4), b64_char (a mod 4 * 16 + b div 16), b64_char (b mod 16 * 4), PAD]"
| "b64_encode (a # b # c # rest) =
     b64_char (a div 4) # b64_char (a mod 4 * 16 + b div 16) # b64_char (b mod 16 * 4 + c div 64)
       # b64_char (c mod 64) # b64_encode rest"

definition b64encode :: "string \<Rightarrow> string" where
  "b64encode bytes = b64_encode (map of_char bytes)"

text \<open>
  The decoder's loop: \<open>q\<close> is the position in the group of four, \<open>left\<close> the bits carried over, \<open>pads\<close>
  the padding characters seen since the last data character.
\<close>

datatype b64_error = One_Character_Over | Incorrect_Padding

fun b64_decode :: "nat \<Rightarrow> nat \<Rightarrow> nat \<Rightarrow> string \<Rightarrow> b64_error + nat list" where
  "b64_decode q left pads [] =
     (if q = 0 then Inr [] else if q = 1 then Inl One_Character_Over else Inl Incorrect_Padding)"
| "b64_decode q left pads (c # cs) =
     (if c = PAD then
        (if 2 \<le> q then (if 4 \<le> q + pads + 1 then Inr [] else b64_decode q left (pads + 1) cs)
         else b64_decode q left pads cs)
      else case b64_val c of
             None \<Rightarrow> b64_decode q left pads cs
           | Some v \<Rightarrow>
               if q = 0 then b64_decode 1 v 0 cs
               else if q = 1 then map_sum id (Cons (left * 4 + v div 16)) (b64_decode 2 (v mod 16) 0 cs)
               else if q = 2 then map_sum id (Cons (left * 16 + v div 4)) (b64_decode 3 (v mod 4) 0 cs)
               else map_sum id (Cons (left * 64 + v)) (b64_decode 0 0 0 cs))"

definition b64decode :: "string \<Rightarrow> string py_result" where
  "b64decode s =
     (if \<not> list_all (\<lambda>c. (of_char c :: nat) < 128) s
      then Inl (value_error ''string argument should contain only ASCII characters'')
      else case b64_decode 0 0 0 s of
             Inl One_Character_Over \<Rightarrow>
               Inl (Lib_Exn ''Error'' ''Invalid base64-encoded string'' [''Error'', ''ValueError''] None None)
           | Inl Incorrect_Padding \<Rightarrow>
               Inl (Lib_Exn ''Error'' ''Incorrect padding'' [''Error'', ''ValueError''] None None)
           | Inr bytes \<Rightarrow> Inr (map char_of bytes))"

section \<open>Decoding undoes encoding\<close>

lemma of_char_b64_char:
  "v < 64 \<Longrightarrow> (of_char (b64_char v) :: nat)
     = (if v < 26 then 65 + v else if v < 52 then 71 + v else if v < 62 then v - 4
        else if v = 62 then 43 else 47)"
  by (simp add: b64_char_def of_char_of)

lemma b64_val_char [simp]: "v < 64 \<Longrightarrow> b64_val (b64_char v) = Some v"
  by (auto simp: b64_val_def Let_def of_char_b64_char)

lemma b64_char_not_pad [simp]: "v < 64 \<Longrightarrow> b64_char v \<noteq> PAD"
proof
  assume v: "v < 64" and "b64_char v = PAD"
  then have "(of_char (b64_char v) :: nat) = 61" by simp
  then show False using v by (auto simp: of_char_b64_char split: if_split_asm)
qed

lemma b64_char_ascii: "v < 64 \<Longrightarrow> (of_char (b64_char v) :: nat) < 128"
  by (auto simp: of_char_b64_char)

lemma b64_bounds:
  assumes "a < 256" "b < (256 :: nat)"
  shows "a div 4 < 64" "a mod 4 * 16 + b div 16 < 64" "a mod 16 * 4 + b div 64 < 64"
    "a mod 4 * 16 < 64" "a mod 16 * 4 < (64 :: nat)" "a mod 64 < 64"
proof -
  have m: "a mod 4 < 4" "a mod 16 < 16" by simp_all
  have d: "a div 4 < 64" "b div 16 < 16" "b div 64 < 4" using assms by (simp_all add: less_mult_imp_div_less)
  from m d show "a div 4 < 64" "a mod 4 * 16 + b div 16 < 64" "a mod 16 * 4 + b div 64 < 64"
    "a mod 4 * 16 < 64" "a mod 16 * 4 < 64" "a mod 64 < 64" by simp_all
qed

lemma nibble: "(x :: nat) < 16 \<Longrightarrow> (a * 16 + x) div 16 = a \<and> (a * 16 + x) mod 16 = x"
  by simp

lemma crumb: "(x :: nat) < 4 \<Longrightarrow> (a * 4 + x) div 4 = a \<and> (a * 4 + x) mod 4 = x"
  by simp

lemma b64_decode_encode:
  "list_all (\<lambda>b. b < 256) bs \<Longrightarrow> b64_decode 0 0 0 (b64_encode bs) = Inr bs"
proof (induction bs rule: b64_encode.induct)
  case (2 a)
  then have "a div 4 < 64" "a mod 4 * 16 < 64" using b64_bounds[of a a] by simp_all
  then show ?case by simp
next
  case (3 a b)
  then have "a div 4 < 64" "a mod 4 * 16 + b div 16 < 64" "b mod 16 * 4 < 64"
    using b64_bounds[of a b] b64_bounds[of b b] by simp_all
  moreover have "b div 16 < 16" using 3 by (simp add: less_mult_imp_div_less)
  moreover have "b div 16 * 16 + b mod 16 = b" by simp
  ultimately show ?case using nibble[of "b div 16" "a mod 4"] 3 by (simp del: mod_mult_self3 div_mult_self3)
next
  case (4 a b c rest)
  then have "a div 4 < 64" "a mod 4 * 16 + b div 16 < 64" "b mod 16 * 4 + c div 64 < 64" "c mod 64 < 64"
    using b64_bounds[of a b] b64_bounds[of b c] by simp_all
  moreover have "b div 16 < 16" "c div 64 < 4" using 4 by (simp_all add: less_mult_imp_div_less)
  moreover have "b div 16 * 16 + b mod 16 = b" "c div 64 * 64 + c mod 64 = c" by simp_all
  ultimately show ?case using nibble[of "b div 16" "a mod 4"] crumb[of "c div 64" "b mod 16"] 4
    by (simp del: mod_mult_self3 div_mult_self3)
qed simp

lemma b64_encode_ascii:
  "list_all (\<lambda>b. b < 256) bs \<Longrightarrow> list_all (\<lambda>c. (of_char c :: nat) < 128) (b64_encode bs)"
  by (induction bs rule: b64_encode.induct) (auto intro!: b64_char_ascii b64_bounds)

lemma of_char_lt_256 [simp]: "(of_char (c :: char) :: nat) < 256"
proof -
  have "(of_char c :: nat) mod 256 < 256" by simp
  then show ?thesis by (simp only: of_char_mod_256)
qed

theorem b64decode_b64encode [simp]: "b64decode (b64encode bytes) = Inr bytes"
proof -
  have lt: "list_all (\<lambda>b. b < 256) (map of_char bytes :: nat list)"
    by (simp add: list_all_iff)
  have "map (char_of \<circ> (of_char :: char \<Rightarrow> nat)) bytes = bytes"
    by (simp add: map_idI)
  then show ?thesis
    using b64_decode_encode[OF lt] b64_encode_ascii[OF lt]
    by (simp add: b64decode_def b64encode_def)
qed

lemma b64decode_error: "b64decode s = Inl e \<Longrightarrow> isinstance e ''ValueError''"
  by (auto simp: b64decode_def split: if_split_asm sum.split_asm b64_error.split_asm)

end
