(* ===== verification/Proxy_Translate.thy ===== *)
theory Proxy_Translate
  imports Grpc_Wire Py_Text Py_Base64
begin

text \<open>
  \<open>packages/proxy\<close>: \<open>chat_translate.py\<close> and \<open>completions_translate.py\<close>, the translation between the
  OpenAI request and response shapes and the protobuf messages. A request model is a record of the
  fields pydantic validated; its declared constraints are a predicate. A payload is a JSON value, its
  text \<open>json_dumps\<close>; no payload contains a float, so the float printer \<open>fl\<close> is never consulted.
\<close>

section \<open>chat_translate.py\<close>

record openai_chat_message =
  om_role :: string
  om_content :: string

record openai_chat_request =
  oc_model :: string
  oc_messages :: "openai_chat_message list"
  oc_max_tokens :: int
  oc_temperature :: "real option"
  oc_top_p :: "real option"
  oc_seed :: "int option"
  oc_stream :: bool

text \<open>\<open>Field(min_length=1)\<close> and \<open>Field(gt=0)\<close>.\<close>

definition openai_chat_valid :: "openai_chat_request \<Rightarrow> bool" where
  "openai_chat_valid req \<longleftrightarrow> 1 \<le> length (oc_messages req) \<and> 0 < oc_max_tokens req"

definition chat_request_to_proto ::
  "(real \<Rightarrow> real) \<Rightarrow> openai_chat_request \<Rightarrow> chat_complete_request py_result" where
  "chat_request_to_proto f32 req =
     chat_request_pb f32
       (map (\<lambda>m. \<lparr>cm_role = om_role m, cm_content = om_content m\<rparr>) (oc_messages req))
       (oc_model req) (oc_max_tokens req) (oc_temperature req) (oc_top_p req) (oc_seed req)"

definition sse_chunk_payload :: "string \<Rightarrow> int \<Rightarrow> string \<Rightarrow> json_dict \<Rightarrow> json \<Rightarrow> json" where
  "sse_chunk_payload completion_id created model delta finish_reason =
     JObj [(''id'', JStr completion_id), (''object'', JStr ''chat.completion.chunk''),
           (''created'', JInt created), (''model'', JStr model),
           (''choices'', JList [JObj [(''index'', JInt 0), (''delta'', JObj delta),
                                      (''finish_reason'', finish_reason)]])]"

definition sse_event :: "(real \<Rightarrow> string) \<Rightarrow> json \<Rightarrow> string" where
  "sse_event fl payload = sse_frame (json_dumps fl payload)"

definition role_payload :: "string \<Rightarrow> int \<Rightarrow> string \<Rightarrow> json" where
  "role_payload completion_id created model =
     sse_chunk_payload completion_id created model
       [(''role'', JStr ''assistant''), (''content'', JStr [])] JNull"

definition format_sse_role_delta :: "(real \<Rightarrow> string) \<Rightarrow> string \<Rightarrow> int \<Rightarrow> string \<Rightarrow> string" where
  "format_sse_role_delta fl completion_id created model =
     sse_event fl (role_payload completion_id created model)"

definition chat_chunk_payload :: "chat_stream_chunk \<Rightarrow> string \<Rightarrow> int \<Rightarrow> string \<Rightarrow> json" where
  "chat_chunk_payload chunk completion_id created model =
     (if ck_finish_reason chunk \<noteq> []
      then sse_chunk_payload completion_id created model [] (JStr (ck_finish_reason chunk))
      else sse_chunk_payload completion_id created model
             [(''content'', JStr (ck_delta_content chunk))] JNull)"

definition proto_chunk_to_sse_event ::
  "(real \<Rightarrow> string) \<Rightarrow> chat_stream_chunk \<Rightarrow> string \<Rightarrow> int \<Rightarrow> string \<Rightarrow> string" where
  "proto_chunk_to_sse_event fl chunk completion_id created model =
     sse_event fl (chat_chunk_payload chunk completion_id created model)"

definition format_sse_done :: string where
  "format_sse_done = sse_frame ''[DONE]''"

definition chat_error_payload :: "string \<Rightarrow> json" where
  "chat_error_payload message =
     JObj [(''error'', JObj [(''message'', JStr message), (''type'', JStr ''internal_error'')])]"

definition format_sse_error :: "(real \<Rightarrow> string) \<Rightarrow> string \<Rightarrow> string" where
  "format_sse_error fl message = sse_event fl (chat_error_payload message)"

definition usage_json :: "int \<Rightarrow> int \<Rightarrow> json" where
  "usage_json prompt_tokens completion_tokens =
     JObj [(''prompt_tokens'', JInt prompt_tokens), (''completion_tokens'', JInt completion_tokens),
           (''total_tokens'', JInt (prompt_tokens + completion_tokens))]"

text \<open>The fresh \<open>uuid4\<close> text and the \<open>int(time.time())\<close> reading are arguments.\<close>

definition proto_response_to_openai_dict ::
  "string \<Rightarrow> int \<Rightarrow> chat_complete_response \<Rightarrow> string \<Rightarrow> json" where
  "proto_response_to_openai_dict uuid now resp model =
     JObj [(''id'', JStr (''chatcmpl-'' @ uuid)), (''object'', JStr ''chat.completion''),
           (''created'', JInt now), (''model'', JStr model),
           (''choices'', JList [JObj
              [(''index'', JInt 0),
               (''message'', JObj [(''role'', JStr (cm_role (cp_message resp))),
                                   (''content'', JStr (cm_content (cp_message resp)))]),
               (''finish_reason'', JStr (cp_finish_reason resp))]]),
           (''usage'', usage_json (cp_prompt_tokens resp) (cp_completion_tokens resp))]"

section \<open>completions_translate.py\<close>

record openai_completion_request =
  on_model :: string
  on_max_tokens :: int
  on_temperature :: "real option"
  on_top_p :: "real option"
  on_seed :: "int option"
  on_stream :: bool
  on_prompt :: "string option"
  on_prompt_embeds :: "string option"

definition DEFAULT_MAX_TOKENS :: int where "DEFAULT_MAX_TOKENS = 16"

definition exactly_one_input :: "openai_completion_request \<Rightarrow> openai_completion_request py_result" where
  "exactly_one_input req =
     (let has_prompt = on_prompt req \<noteq> None; has_embeds = on_prompt_embeds req \<noteq> None
      in if has_prompt = has_embeds
         then Inl (value_error ''Exactly one of prompt or prompt_embeds must be provided'')
         else Inr req)"

definition completion_request_to_proto ::
  "(real \<Rightarrow> real) \<Rightarrow> openai_completion_request \<Rightarrow> completion_request py_result" where
  "completion_request_to_proto f32 req =
     (let build = completion_request_pb f32 (on_model req) (on_max_tokens req) (on_temperature req)
                    (on_top_p req) (on_seed req)
      in case on_prompt req of
           Some p \<Rightarrow> build (Prompt_Input p)
         | None \<Rightarrow> (case on_prompt_embeds req of
              None \<Rightarrow> Inl (Exn ''AssertionError'' [])
            | Some b64 \<Rightarrow> bind_result (b64decode b64) (\<lambda>raw. build (Embeds_Input raw))))"

definition build_completion_response :: "string \<Rightarrow> int \<Rightarrow> completion_response \<Rightarrow> string \<Rightarrow> json" where
  "build_completion_response uuid now resp model =
     JObj [(''id'', JStr (''cmpl-'' @ uuid)), (''object'', JStr ''text_completion''),
           (''created'', JInt now), (''model'', JStr model),
           (''choices'', JList [JObj
              [(''text'', JStr (np_generated_text resp)), (''index'', JInt 0), (''logprobs'', JNull),
               (''finish_reason'', JStr (np_finish_reason resp))]]),
           (''usage'', usage_json (np_prompt_tokens resp) (np_completion_tokens resp))]"

definition completion_chunk_payload :: "completion_stream_chunk \<Rightarrow> string \<Rightarrow> string \<Rightarrow> int \<Rightarrow> json" where
  "completion_chunk_payload chunk completion_id model created =
     JObj [(''id'', JStr completion_id), (''object'', JStr ''text_completion''),
           (''created'', JInt created), (''model'', JStr model),
           (''choices'', JList [JObj
              [(''text'', JStr (nk_delta_text chunk)), (''index'', JInt 0), (''logprobs'', JNull),
               (''finish_reason'', JNull)]])]"

definition format_completion_chunk ::
  "(real \<Rightarrow> string) \<Rightarrow> completion_stream_chunk \<Rightarrow> string \<Rightarrow> string \<Rightarrow> int \<Rightarrow> string" where
  "format_completion_chunk fl chunk completion_id model created =
     sse_event fl (completion_chunk_payload chunk completion_id model created)"

definition completion_final_payload :: "completion_stream_chunk \<Rightarrow> string \<Rightarrow> string \<Rightarrow> int \<Rightarrow> json" where
  "completion_final_payload chunk completion_id model created =
     JObj [(''id'', JStr completion_id), (''object'', JStr ''text_completion''),
           (''created'', JInt created), (''model'', JStr model),
           (''choices'', JList [JObj
              [(''text'', JStr []), (''index'', JInt 0), (''logprobs'', JNull),
               (''finish_reason'', JStr (nk_finish_reason chunk))]])]"

definition format_completion_final ::
  "(real \<Rightarrow> string) \<Rightarrow> completion_stream_chunk \<Rightarrow> string \<Rightarrow> string \<Rightarrow> int \<Rightarrow> string" where
  "format_completion_final fl chunk completion_id model created =
     sse_event fl (completion_final_payload chunk completion_id model created)"

definition format_done :: string where
  "format_done = sse_frame ''[DONE]''"

definition completion_error_payload :: "string \<Rightarrow> json" where
  "completion_error_payload message =
     JObj [(''error'', JObj [(''message'', JStr message), (''type'', JStr ''server_error''),
                             (''code'', JNull)])]"

definition format_completion_error :: "(real \<Rightarrow> string) \<Rightarrow> string \<Rightarrow> string" where
  "format_completion_error fl message = sse_event fl (completion_error_payload message)"

section \<open>Lemmas\<close>

lemma payloads_float_free [simp]:
  "float_free (role_payload i cr m)"
  "float_free (chat_chunk_payload ck i cr m)"
  "float_free (chat_error_payload msg)"
  "float_free (completion_chunk_payload nk i m cr)"
  "float_free (completion_final_payload nk i m cr)"
  "float_free (completion_error_payload msg)"
  by (simp_all add: role_payload_def chat_chunk_payload_def chat_error_payload_def
      sse_chunk_payload_def completion_chunk_payload_def completion_final_payload_def
      completion_error_payload_def)

lemma is_line_safe_done: "is_line_safe ''[DONE]''"
  by simp

text \<open>A validated completion request always becomes a message with its one input set.\<close>

lemma exactly_one_input_ok_iff:
  "exactly_one_input req = Inr r \<longleftrightarrow>
     r = req \<and> (on_prompt req = None) \<noteq> (on_prompt_embeds req = None)"
  by (auto simp: exactly_one_input_def)

lemma completion_request_to_proto_input:
  assumes "completion_request_to_proto f32 req = Inr preq"
  shows "nq_input preq = Some (case on_prompt req of Some p \<Rightarrow> Prompt_Input p
           | None \<Rightarrow> (case b64decode (the (on_prompt_embeds req)) of Inr raw \<Rightarrow> Embeds_Input raw))"
    and "nq_max_tokens preq = on_max_tokens req"
    and "nq_ignore_eos preq = False"
  using assms
  by (auto simp: completion_request_to_proto_def completion_request_pb_def bind_result_Inr_iff Let_def
      split: option.splits if_split_asm)

end
