(* ===== verification/Proxy_Client.thy ===== *)
theory Proxy_Client
  imports Grpc_Wire Channel_Config
begin

text \<open>
  \<open>grpc_client.py\<close> of the proxy. A call opens its own channel, gives the stub a deadline, and closes
  the channel when it is over; the stub of the gRPC runtime is an argument. What a streaming call does
  is the list of its actions, ended by the exception it raises, if any.
\<close>

definition HEALTH_DEADLINE_SECONDS :: real where "HEALTH_DEADLINE_SECONDS = 2"

definition CHAT_DEADLINE_SECONDS :: real where "CHAT_DEADLINE_SECONDS = 30"

definition channel_kwargs :: "channel_options option \<Rightarrow> compression option \<Rightarrow> client_kwargs" where
  "channel_kwargs options compression = \<lparr>kw_options = options, kw_compression = compression\<rparr>"

record grpc_client =
  gc_addr :: string
  gc_kwargs :: client_kwargs

text \<open>\<open>addr or os.environ.get("FRONTEND_ADDR", "localhost:50051")\<close>.\<close>

definition client_addr :: "(string \<Rightarrow> string option) \<Rightarrow> string option \<Rightarrow> string" where
  "client_addr environ addr =
     (if truthy addr then the addr
      else case environ ''FRONTEND_ADDR'' of Some a \<Rightarrow> a | None \<Rightarrow> ''localhost:50051'')"

definition grpc_health_client ::
  "(string \<Rightarrow> string option) \<Rightarrow> string option \<Rightarrow> channel_options option \<Rightarrow> compression option \<Rightarrow> grpc_client" where
  "grpc_health_client environ addr options compression =
     \<lparr>gc_addr = client_addr environ addr, gc_kwargs = channel_kwargs options compression\<rparr>"

definition grpc_chat_client ::
  "(string \<Rightarrow> string option) \<Rightarrow> string option \<Rightarrow> channel_options option \<Rightarrow> compression option \<Rightarrow> grpc_client" where
  "grpc_chat_client environ addr options compression =
     \<lparr>gc_addr = client_addr environ addr, gc_kwargs = channel_kwargs options compression\<rparr>"

definition grpc_completions_client ::
  "(string \<Rightarrow> string option) \<Rightarrow> string option \<Rightarrow> channel_options option \<Rightarrow> compression option \<Rightarrow> grpc_client" where
  "grpc_completions_client environ addr options compression =
     \<lparr>gc_addr = client_addr environ addr, gc_kwargs = channel_kwargs options compression\<rparr>"

text \<open>A stub: the channel's address and keywords, the request and the deadline.\<close>

type_synonym ('q, 'r) stub = "string \<Rightarrow> client_kwargs \<Rightarrow> 'q \<Rightarrow> real \<Rightarrow> 'r"

definition ping :: "(unit, string py_result) stub \<Rightarrow> grpc_client \<Rightarrow> string py_result" where
  "ping stub cl = stub (gc_addr cl) (gc_kwargs cl) () HEALTH_DEADLINE_SECONDS"

definition chat_client_complete ::
  "(chat_complete_request, chat_complete_response py_result) stub \<Rightarrow> grpc_client
     \<Rightarrow> chat_complete_request \<Rightarrow> chat_complete_response py_result" where
  "chat_client_complete stub cl req = stub (gc_addr cl) (gc_kwargs cl) req CHAT_DEADLINE_SECONDS"

definition completions_client_complete ::
  "(completion_request, completion_response py_result) stub \<Rightarrow> grpc_client
     \<Rightarrow> completion_request \<Rightarrow> completion_response py_result" where
  "completions_client_complete stub cl req = stub (gc_addr cl) (gc_kwargs cl) req CHAT_DEADLINE_SECONDS"

section \<open>Streaming calls\<close>

text \<open>
  A streaming call is an async generator. Its consumer may take every message, or close it after some:
  \<open>taken\<close> is the number it takes before closing, or \<open>None\<close>. A part of a generator maps the messages
  the consumer will still take to the actions of the part, how control leaves it, and what is left to
  take. \<open>gen_finally\<close> is \<open>try\<close> with \<open>finally\<close>: the cleanup runs however control leaves the body, by its
  end, by an exception, or by the \<open>GeneratorExit\<close> a closed generator sees at its \<open>yield\<close>.
\<close>

datatype 'c call_action = Open_Channel | Start_Call | Yield_Message 'c | Cancel_Call | Close_Channel

datatype gen_exit = Gen_End | Gen_Raised py_exn | Gen_Closed

type_synonym 'c gen_part = "nat option \<Rightarrow> 'c call_action list \<times> gen_exit \<times> nat option"

definition gen_do :: "'c call_action \<Rightarrow> 'c gen_part" where
  "gen_do act = (\<lambda>left. ([act], Gen_End, left))"

definition gen_seq :: "'c gen_part \<Rightarrow> 'c gen_part \<Rightarrow> 'c gen_part" where
  "gen_seq m1 m2 = (\<lambda>left. case m1 left of
     (acts, Gen_End, left1) \<Rightarrow> (case m2 left1 of (acts2, out, left2) \<Rightarrow> (acts @ acts2, out, left2))
   | (acts, out, left1) \<Rightarrow> (acts, out, left1))"

definition gen_finally :: "'c gen_part \<Rightarrow> 'c gen_part \<Rightarrow> 'c gen_part" where
  "gen_finally body cleanup = (\<lambda>left. case body left of
     (acts, out, left1) \<Rightarrow> (case cleanup left1 of
       (acts2, out2, left2) \<Rightarrow> (acts @ acts2, if out2 = Gen_End then out else out2, left2)))"

text \<open>A consumer that has taken its last message closes the generator there.\<close>

definition gen_yield :: "'c \<Rightarrow> 'c gen_part" where
  "gen_yield c = (\<lambda>left. case left of
     None \<Rightarrow> ([Yield_Message c], Gen_End, None)
   | Some n \<Rightarrow> ([Yield_Message c], if n \<le> 1 then Gen_Closed else Gen_End, Some (n - 1)))"

fun gen_messages :: "('m \<Rightarrow> 'c) \<Rightarrow> 'm list \<Rightarrow> 'c gen_part" where
  "gen_messages conv [] = (\<lambda>left. ([], Gen_End, left))"
| "gen_messages conv (m # ms) = gen_seq (gen_yield (conv m)) (gen_messages conv ms)"

text \<open>\<open>async for\<close> over the call: its messages, then the error it ends with, if any.\<close>

definition gen_for :: "('m \<Rightarrow> 'c) \<Rightarrow> 'm message_stream \<Rightarrow> 'c gen_part" where
  "gen_for conv stream = gen_seq (gen_messages conv (fst stream))
     (\<lambda>left. ([], case snd stream of None \<Rightarrow> Gen_End | Some exc \<Rightarrow> Gen_Raised exc, left))"

text \<open>\<open>async with insecure_channel(...)\<close>.\<close>

definition gen_channel :: "'c gen_part \<Rightarrow> 'c gen_part" where
  "gen_channel body = gen_seq (gen_do Open_Channel) (gen_finally body (gen_do Close_Channel))"

text \<open>A generator closed before its first message never ran.\<close>

definition gen_run :: "'c gen_part \<Rightarrow> nat option \<Rightarrow> 'c call_action list \<times> py_exn option" where
  "gen_run body taken =
     (if taken = Some 0 then ([], None)
      else case body taken of (acts, out, left) \<Rightarrow>
             (acts, case out of Gen_Raised exc \<Rightarrow> Some exc | _ \<Rightarrow> None))"

definition relay_stream :: "nat option \<Rightarrow> 'c message_stream \<Rightarrow> 'c call_action list \<times> py_exn option" where
  "relay_stream taken stream =
     gen_run (gen_channel (gen_seq (gen_do Start_Call)
       (gen_finally (gen_for (\<lambda>chunk. chunk) stream) (gen_do Cancel_Call)))) taken"

definition chat_client_stream ::
  "(chat_complete_request, chat_stream_chunk message_stream) stub \<Rightarrow> grpc_client \<Rightarrow> nat option
     \<Rightarrow> chat_complete_request \<Rightarrow> chat_stream_chunk call_action list \<times> py_exn option" where
  "chat_client_stream stub cl taken req =
     relay_stream taken (stub (gc_addr cl) (gc_kwargs cl) req CHAT_DEADLINE_SECONDS)"

definition completions_client_stream ::
  "(completion_request, completion_stream_chunk message_stream) stub \<Rightarrow> grpc_client \<Rightarrow> nat option
     \<Rightarrow> completion_request \<Rightarrow> completion_stream_chunk call_action list \<times> py_exn option" where
  "completions_client_stream stub cl taken req =
     relay_stream taken (stub (gc_addr cl) (gc_kwargs cl) req CHAT_DEADLINE_SECONDS)"

definition yielded :: "'c call_action list \<Rightarrow> 'c list" where
  "yielded acts = List.map_filter (\<lambda>a. case a of Yield_Message m \<Rightarrow> Some m | _ \<Rightarrow> None) acts"

section \<open>Lemmas\<close>

lemma yielded_simps [simp]:
  "yielded [] = []"
  "yielded (Yield_Message m # acts) = m # yielded acts"
  "yielded (Open_Channel # acts) = yielded acts"
  "yielded (Start_Call # acts) = yielded acts"
  "yielded (Cancel_Call # acts) = yielded acts"
  "yielded (Close_Channel # acts) = yielded acts"
  "yielded (acts @ acts') = yielded acts @ yielded acts'"
  by (simp_all add: yielded_def List.map_filter_def)

lemma yielded_map [simp]: "yielded (map Yield_Message ms) = ms"
  by (induction ms) simp_all

text \<open>What the consumer sees: the messages up to the last it takes, and the error only if it gets that far.\<close>

definition closes_early :: "nat option \<Rightarrow> 'm list \<Rightarrow> bool" where
  "closes_early taken ms = (case taken of None \<Rightarrow> False | Some n \<Rightarrow> n \<le> length ms)"

definition seen_messages :: "nat option \<Rightarrow> 'm list \<Rightarrow> 'm list" where
  "seen_messages taken ms = (case taken of None \<Rightarrow> ms | Some n \<Rightarrow> take n ms)"

lemma seen_messages_prefix: "prefix (seen_messages taken ms) ms"
  by (simp add: seen_messages_def take_is_prefix split: option.split)

lemma gen_for_run:
  assumes "taken \<noteq> Some 0"
  shows "\<exists>left. gen_for conv (ms, err) taken = (map (\<lambda>m. Yield_Message (conv m)) (seen_messages taken ms),
     if closes_early taken ms then Gen_Closed else case err of None \<Rightarrow> Gen_End | Some exc \<Rightarrow> Gen_Raised exc, left)"
  using assms
proof (induction ms arbitrary: taken)
  case Nil
  then show ?case by (cases taken) (auto simp: gen_for_def gen_seq_def seen_messages_def closes_early_def)
next
  case (Cons m ms)
  consider "taken = None" | "taken = Some 1" | k where "taken = Some (Suc (Suc k))"
    using Cons.prems by (metis One_nat_def not0_implies_Suc option.exhaust)
  then show ?case
  proof cases
    case 1
    then show ?thesis using Cons.IH[of None]
      by (auto simp: gen_for_def gen_seq_def gen_yield_def seen_messages_def closes_early_def
          split: prod.splits gen_exit.splits)
  next
    case 2
    then show ?thesis
      by (simp add: gen_for_def gen_seq_def gen_yield_def seen_messages_def closes_early_def)
  next
    case 3
    then show ?thesis using Cons.IH[of "Some (Suc k)"]
      by (auto simp: gen_for_def gen_seq_def gen_yield_def seen_messages_def closes_early_def
          split: prod.splits gen_exit.splits)
  qed
qed

text \<open>A \<open>try\<close> whose cleanup is one action ends with that action, however control leaves it.\<close>

lemma gen_finally_do:
  "gen_finally body (gen_do act) left = (case body left of (acts, out, left1) \<Rightarrow> (acts @ [act], out, left1))"
  by (simp add: gen_finally_def gen_do_def split: prod.split)

lemma relay_stream_acts:
  assumes "taken \<noteq> Some 0"
  shows "relay_stream taken (ms, err) =
    ([Open_Channel, Start_Call] @ map Yield_Message (seen_messages taken ms) @ [Cancel_Call, Close_Channel],
     if closes_early taken ms then None else err)"
proof -
  obtain left where "gen_for (\<lambda>chunk. chunk) (ms, err) taken = (map Yield_Message (seen_messages taken ms),
     if closes_early taken ms then Gen_Closed else case err of None \<Rightarrow> Gen_End | Some exc \<Rightarrow> Gen_Raised exc, left)"
    using gen_for_run[OF assms, of "\<lambda>chunk. chunk" ms err] by auto
  then show ?thesis using assms
    by (auto simp: relay_stream_def gen_run_def gen_channel_def gen_seq_def gen_do_def[of Open_Channel]
        gen_do_def[of Start_Call] gen_finally_do split: option.split)
qed

lemma yielded_relay:
  "yielded (fst (relay_stream taken (messages, err)))
     = (case taken of None \<Rightarrow> messages | Some n \<Rightarrow> take n messages)"
proof (cases "taken = Some 0")
  case False
  then show ?thesis by (simp add: relay_stream_acts seen_messages_def)
qed (simp add: relay_stream_def gen_run_def)

lemma relay_drained [simp]: "snd (relay_stream None (messages, err)) = err"
  by (simp add: relay_stream_acts closes_early_def)

section \<open>The life of a call\<close>

text \<open>
  What the runtime demands of the actions on a channel, as an automaton over them: a call starts on an
  open channel, messages come from a running call, a call is cancelled once, and the channel is closed
  only when no call is running on it.
\<close>

datatype call_phase = No_Channel | Channel_Idle | Call_Running | Call_Over

fun call_next :: "call_phase \<Rightarrow> 'c call_action \<Rightarrow> call_phase option" where
  "call_next No_Channel Open_Channel = Some Channel_Idle"
| "call_next Channel_Idle Start_Call = Some Call_Running"
| "call_next Call_Running (Yield_Message m) = Some Call_Running"
| "call_next Call_Running Cancel_Call = Some Call_Over"
| "call_next Channel_Idle Close_Channel = Some No_Channel"
| "call_next Call_Over Close_Channel = Some No_Channel"
| "call_next _ _ = None"

fun call_life :: "call_phase \<Rightarrow> 'c call_action list \<Rightarrow> call_phase option" where
  "call_life p [] = Some p"
| "call_life p (a # as) = (case call_next p a of None \<Rightarrow> None | Some q \<Rightarrow> call_life q as)"

lemma call_life_append [simp]:
  "call_life p (as @ bs) = (case call_life p as of None \<Rightarrow> None | Some q \<Rightarrow> call_life q bs)"
  by (induction as arbitrary: p) (auto split: option.split)

lemma call_life_yields [simp]: "call_life Call_Running (map (\<lambda>m. Yield_Message (conv m)) ms) = Some Call_Running"
  by (induction ms) simp_all

end
