(* ===== verification/Proxy_Router.thy ===== *)
theory Proxy_Router
  imports Proxy_Translate Proxy_Client
begin

text \<open>
  \<open>chat_router.py\<close>, \<open>completions_router.py\<close> and \<open>main.py\<close> of the proxy: the two endpoints, their
  event streams, the mapping of gRPC failures to HTTP answers, and the health endpoint. The stubs of
  the gRPC runtime are arguments; an \<open>AioRpcError\<close> always has a \<open>code()\<close> and \<open>details()\<close>. An exception
  that leaves an endpoint is the left value of its result.
\<close>

record proxy_env =
  px_f32 :: "real \<Rightarrow> real"
  px_fl :: "real \<Rightarrow> string"
  px_uuid :: string
  px_now :: int
  px_disconnected :: "nat \<Rightarrow> bool"

datatype http_reply =
    Json_Reply int json "(string \<times> string) list"
  | Stream_Reply "(string \<times> string) list" "string list \<times> py_exn option"

definition details_or :: "string \<Rightarrow> py_exn \<Rightarrow> string" where
  "details_or fallback exc =
     (let d = Option.bind (details_of exc) id in if truthy d then the d else fallback)"

definition error_json :: "string \<Rightarrow> string \<Rightarrow> json" where
  "error_json message kind =
     JObj [(''error'', JObj [(''message'', JStr message), (''type'', JStr kind)])]"

definition SSE_HEADERS :: "(string \<times> string) list" where
  "SSE_HEADERS = [(''Cache-Control'', ''no-cache''), (''X-Accel-Buffering'', ''no'')]"

text \<open>
  The loop over the messages: before the \<open>k\<close>-th is written the connection is checked, and a
  disconnected client ends the stream. The flag says whether that happened.
\<close>

fun relay_chunks :: "(nat \<Rightarrow> bool) \<Rightarrow> ('c \<Rightarrow> string) \<Rightarrow> nat \<Rightarrow> 'c list \<Rightarrow> string list \<times> bool" where
  "relay_chunks gone fmt k [] = ([], False)"
| "relay_chunks gone fmt k (c # cs) =
     (if gone k then ([], True)
      else (let (es, left) = relay_chunks gone fmt (Suc k) cs in (fmt c # es, left)))"

section \<open>chat_router.py\<close>

definition chat_stream_sse ::
  "proxy_env \<Rightarrow> (chat_complete_request \<Rightarrow> chat_stream_chunk message_stream) \<Rightarrow> openai_chat_request
     \<Rightarrow> string list \<times> py_exn option" where
  "chat_stream_sse env call req =
     (let completion_id = ''chatcmpl-'' @ px_uuid env; created = px_now env; fl = px_fl env
      in case chat_request_to_proto (px_f32 env) req of
           Inl e \<Rightarrow> ([], Some e)
         | Inr proto_req \<Rightarrow>
      (let role = format_sse_role_delta fl completion_id created (oc_model req);
           (messages, err) = call proto_req;
           (events, left) = relay_chunks (px_disconnected env)
              (\<lambda>ck. proto_chunk_to_sse_event fl ck completion_id created (oc_model req)) 0 messages
       in if left then (role # events, None)
          else case err of
                 None \<Rightarrow> (role # events @ [format_sse_done], None)
               | Some exc \<Rightarrow>
                   if isinstance exc ''AioRpcError''
                   then (role # events @ [format_sse_error fl (details_or ''Internal error'' exc)], None)
                   else (role # events, Some exc)))"

definition chat_rpc_error_reply :: "py_exn \<Rightarrow> http_reply" where
  "chat_rpc_error_reply exc =
     (let code = code_of exc
      in if code = Some ''UNAVAILABLE''
         then Json_Reply 502 (error_json ''Frontend unavailable'' ''gateway_error'') []
         else if code = Some ''DEADLINE_EXCEEDED''
         then Json_Reply 504 (error_json ''Frontend timed out'' ''gateway_error'') []
         else if code = Some ''INVALID_ARGUMENT''
         then Json_Reply 422 (error_json (details_or ''Invalid request'' exc) ''invalid_request_error'') []
         else Json_Reply 500 (error_json ''Internal server error'' ''internal_error'') [])"

text \<open>\<open>t0\<close> to \<open>t3\<close> are the four \<open>perf_counter\<close> readings of the unary path.\<close>

definition chat_completions ::
  "proxy_env \<Rightarrow> real \<times> real \<times> real \<times> real
     \<Rightarrow> (chat_complete_request \<Rightarrow> chat_complete_response py_result)
     \<Rightarrow> (chat_complete_request \<Rightarrow> chat_stream_chunk message_stream)
     \<Rightarrow> openai_chat_request \<Rightarrow> http_reply py_result" where
  "chat_completions env ts call_unary call_stream req =
     (if oc_stream req
      then Inr (Stream_Reply SSE_HEADERS (chat_stream_sse env call_stream req))
      else
     (let (t0, t1, t2, t3) = ts
      in bind_result (chat_request_to_proto (px_f32 env) req) (\<lambda>proto_req.
         case call_unary proto_req of
           Inl exc \<Rightarrow> if isinstance exc ''AioRpcError'' then Inr (chat_rpc_error_reply exc) else Inl exc
         | Inr proto_resp \<Rightarrow>
             Inr (Json_Reply 200
               (proto_response_to_openai_dict (px_uuid env) (px_now env) proto_resp (oc_model req))
               [(''X-Bench-Proxy-Ms'', fmt_fixed 3 ((t1 - t0 + t3 - t2) * 1000))]))))"

section \<open>completions_router.py\<close>

definition completions_stream_sse ::
  "proxy_env \<Rightarrow> (completion_request \<Rightarrow> completion_stream_chunk message_stream)
     \<Rightarrow> openai_completion_request \<Rightarrow> string list \<times> py_exn option" where
  "completions_stream_sse env call req =
     (let completion_id = ''cmpl-'' @ px_uuid env; created = px_now env; fl = px_fl env
      in case completion_request_to_proto (px_f32 env) req of
           Inl e \<Rightarrow> ([], Some e)
         | Inr proto_req \<Rightarrow>
      (let (messages, err) = call proto_req;
           (events, left) = relay_chunks (px_disconnected env)
              (\<lambda>ck. if nk_finish_reason ck \<noteq> []
                    then format_completion_final fl ck completion_id (on_model req) created
                    else format_completion_chunk fl ck completion_id (on_model req) created) 0 messages
       in if left then (events, None)
          else case err of
                 None \<Rightarrow> (events @ [format_done], None)
               | Some exc \<Rightarrow>
                   if isinstance exc ''AioRpcError''
                   then (events @ [format_completion_error fl (details_or ''Internal error'' exc)], None)
                   else (events, Some exc)))"

definition completions_rpc_error_reply :: "py_exn \<Rightarrow> http_reply" where
  "completions_rpc_error_reply exc =
     (let code = code_of exc
      in if code = Some ''UNAVAILABLE''
         then Json_Reply 502 (error_json ''Frontend unavailable'' ''gateway_error'') []
         else if code = Some ''DEADLINE_EXCEEDED''
         then Json_Reply 504 (error_json ''Frontend timed out'' ''gateway_error'') []
         else if code = Some ''INVALID_ARGUMENT''
         then Json_Reply 422 (error_json (details_or ''Invalid request'' exc) ''invalid_request_error'') []
         else Json_Reply 500 (error_json ''Internal server error'' ''internal_error'') [])"

definition completions ::
  "proxy_env \<Rightarrow> (completion_request \<Rightarrow> completion_response py_result)
     \<Rightarrow> (completion_request \<Rightarrow> completion_stream_chunk message_stream)
     \<Rightarrow> openai_completion_request \<Rightarrow> http_reply py_result" where
  "completions env call_unary call_stream req =
     (if on_stream req
      then Inr (Stream_Reply SSE_HEADERS (completions_stream_sse env call_stream req))
      else
      bind_result (completion_request_to_proto (px_f32 env) req) (\<lambda>proto_req.
        case call_unary proto_req of
          Inl exc \<Rightarrow> if isinstance exc ''AioRpcError'' then Inr (completions_rpc_error_reply exc) else Inl exc
        | Inr proto_resp \<Rightarrow>
            Inr (Json_Reply 200
              (build_completion_response (px_uuid env) (px_now env) proto_resp (on_model req)) [])))"

section \<open>main.py\<close>

text \<open>\<open>str(exc.details())\<close> prints \<open>None\<close> for missing details.\<close>

definition healthz :: "string py_result \<Rightarrow> http_reply" where
  "healthz ping_result = (case ping_result of
     Inr _ \<Rightarrow> Json_Reply 200 (JObj [(''status'', JStr ''ok'')]) []
   | Inl exc \<Rightarrow>
       Json_Reply 503 (JObj [(''status'', JStr ''error''),
         (''detail'', JStr (if isinstance exc ''AioRpcError''
            then (case Option.bind (details_of exc) id of Some d \<Rightarrow> d | None \<Rightarrow> ''None'')
            else exn_msg exc))]) [])"

definition proxy_bind_address :: "(string \<Rightarrow> string option) \<Rightarrow> (string \<times> int) py_result" where
  "proxy_bind_address environ =
     bind_result (int_of_str (case environ ''PROXY_PORT'' of Some p \<Rightarrow> p | None \<Rightarrow> ''8000'')) (\<lambda>port.
       Inr (case environ ''PROXY_HOST'' of Some h \<Rightarrow> h | None \<Rightarrow> ''0.0.0.0'', port))"

section \<open>Lemmas\<close>

lemma relay_chunks_connected:
  "(\<And>k. \<not> gone k) \<Longrightarrow> relay_chunks gone fmt k cs = (map fmt cs, False)"
  by (induction cs arbitrary: k) auto

text \<open>A disconnection keeps a prefix: the messages before the first failed check.\<close>

lemma relay_chunks_prefix:
  "relay_chunks gone fmt k cs = (es, left) \<Longrightarrow>
     prefix es (map fmt cs) \<and> (left \<longleftrightarrow> length es < length cs)
     \<and> (left \<longrightarrow> gone (k + length es)) \<and> (\<forall>j<length es. \<not> gone (k + j))"
proof (induction cs arbitrary: k es left)
  case (Cons c cs)
  show ?case
  proof (cases "gone k")
    case False
    with Cons.prems obtain es' where es': "relay_chunks gone fmt (Suc k) cs = (es', left)" "es = fmt c # es'"
      by (auto split: prod.splits)
    from Cons.IH[OF es'(1)] es'(2) False show ?thesis
      by (auto simp: less_Suc_eq_0_disj)
  qed (use Cons.prems in auto)
qed simp

lemma rpc_error_replies_agree: "completions_rpc_error_reply = chat_rpc_error_reply"
  by (intro ext) (simp add: completions_rpc_error_reply_def chat_rpc_error_reply_def)

fun reply_status :: "http_reply \<Rightarrow> int" where
  "reply_status (Json_Reply s b h) = s"
| "reply_status (Stream_Reply h s) = 200"

lemma error_status_range: "reply_status (chat_rpc_error_reply exc) \<in> {502, 504, 422, 500}"
  by (simp add: chat_rpc_error_reply_def Let_def)

end
