(* ===== verification/Client_Api.thy ===== *)
theory Client_Api
  imports Grpc_Wire Py_Json Channel_Config Proxy_Client
begin

text \<open>
  \<open>packages/client\<close>: \<open>chat.py\<close>, \<open>completions.py\<close> and \<open>client.py\<close>, the direct gRPC client. The stub and
  torch's \<open>save\<close> are arguments. A client object is its address, its default time-out, its channel
  keywords and the channel it holds while it is entered; the channels a program has open are the pool.
\<close>

section \<open>chat.py\<close>

record chat_complete_result =
  cr_content :: string
  cr_role :: string
  cr_finish_reason :: string
  cr_prompt_tokens :: int
  cr_completion_tokens :: int

record chat_chunk_result =
  cs_delta_content :: string
  cs_finish_reason :: "string option"
  cs_token_index :: int

definition chat_build_request ::
  "(real \<Rightarrow> real) \<Rightarrow> (string \<times> string) list list \<Rightarrow> string \<Rightarrow> int \<Rightarrow> real option \<Rightarrow> real option
     \<Rightarrow> int option \<Rightarrow> chat_complete_request py_result" where
  "chat_build_request f32 messages model max_tokens temperature top_p seed =
     bind_result
       (map_result (\<lambda>m. bind_result (dict_item m ''role'') (\<lambda>r.
                        bind_result (dict_item m ''content'') (\<lambda>c.
                          Inr \<lparr>cm_role = r, cm_content = c\<rparr>))) messages) (\<lambda>proto_messages.
       chat_request_pb f32 proto_messages model max_tokens temperature top_p seed)"

text \<open>A unary stub takes the request and the time-out, \<open>None\<close> for no deadline.\<close>

definition client_chat_complete ::
  "(real \<Rightarrow> real) \<Rightarrow> (chat_complete_request \<Rightarrow> real option \<Rightarrow> chat_complete_response py_result)
     \<Rightarrow> (string \<times> string) list list \<Rightarrow> string \<Rightarrow> int \<Rightarrow> real option \<Rightarrow> real option \<Rightarrow> int option
     \<Rightarrow> real option \<Rightarrow> chat_complete_result py_result" where
  "client_chat_complete f32 stub messages model max_tokens temperature top_p seed time_out =
     bind_result (chat_build_request f32 messages model max_tokens temperature top_p seed) (\<lambda>req.
     bind_result (stub req time_out) (\<lambda>response.
       Inr \<lparr>cr_content = cm_content (cp_message response), cr_role = cm_role (cp_message response),
            cr_finish_reason = cp_finish_reason response, cr_prompt_tokens = cp_prompt_tokens response,
            cr_completion_tokens = cp_completion_tokens response\<rparr>))"

definition chat_chunk_result_of :: "chat_stream_chunk \<Rightarrow> chat_chunk_result" where
  "chat_chunk_result_of ck =
     \<lparr>cs_delta_content = ck_delta_content ck,
      cs_finish_reason = (if ck_finish_reason ck \<noteq> [] then Some (ck_finish_reason ck) else None),
      cs_token_index = ck_token_index ck\<rparr>"

text \<open>
  A streaming call on the client's own channel: \<open>try\<close> with the \<open>finally\<close> that cancels the call; its
  \<open>except AioRpcError\<close> only raises again. \<open>taken\<close> is as for the proxy's generator.
\<close>

definition client_stream ::
  "('c \<Rightarrow> 'd) \<Rightarrow> nat option \<Rightarrow> 'c message_stream \<Rightarrow> 'd call_action list \<times> py_exn option" where
  "client_stream conv taken stream =
     gen_run (gen_seq (gen_do Start_Call) (gen_finally (gen_for conv stream) (gen_do Cancel_Call))) taken"

definition client_chat_stream ::
  "(real \<Rightarrow> real) \<Rightarrow> (chat_complete_request \<Rightarrow> real option \<Rightarrow> chat_stream_chunk message_stream)
     \<Rightarrow> nat option \<Rightarrow> (string \<times> string) list list \<Rightarrow> string \<Rightarrow> int \<Rightarrow> real option \<Rightarrow> real option
     \<Rightarrow> int option \<Rightarrow> real option \<Rightarrow> chat_chunk_result call_action list \<times> py_exn option" where
  "client_chat_stream f32 stub taken messages model max_tokens temperature top_p seed time_out =
     (if taken = Some 0 then ([], None)
      else case chat_build_request f32 messages model max_tokens temperature top_p seed of
             Inl e \<Rightarrow> ([], Some e)
           | Inr req \<Rightarrow> client_stream chat_chunk_result_of taken (stub req time_out))"

section \<open>completions.py\<close>

record completion_result =
  nr_generated_text :: string
  nr_finish_reason :: string
  nr_prompt_tokens :: int
  nr_completion_tokens :: int

record completion_chunk_result =
  ns_delta_text :: string
  ns_finish_reason :: "string option"
  ns_token_index :: int

definition completion_build_request ::
  "(real \<Rightarrow> real) \<Rightarrow> ('t \<Rightarrow> string py_result) \<Rightarrow> string \<Rightarrow> int \<Rightarrow> string option \<Rightarrow> 't option
     \<Rightarrow> real option \<Rightarrow> real option \<Rightarrow> int option \<Rightarrow> completion_request py_result" where
  "completion_build_request f32 torch_save model max_tokens prompt prompt_embeds temperature top_p seed =
     (if (prompt = None) = (case prompt_embeds of None \<Rightarrow> True | Some _ \<Rightarrow> False)
      then Inl (value_error ''Exactly one of prompt or prompt_embeds must be provided'')
      else case prompt of
             Some p \<Rightarrow> completion_request_pb f32 model max_tokens temperature top_p seed (Prompt_Input p)
           | None \<Rightarrow> bind_result (torch_save (the prompt_embeds)) (\<lambda>raw.
               completion_request_pb f32 model max_tokens temperature top_p seed (Embeds_Input raw)))"

definition completion_result_of :: "completion_response \<Rightarrow> completion_result" where
  "completion_result_of response =
     \<lparr>nr_generated_text = np_generated_text response, nr_finish_reason = np_finish_reason response,
      nr_prompt_tokens = np_prompt_tokens response,
      nr_completion_tokens = np_completion_tokens response\<rparr>"

definition client_completions_complete ::
  "(real \<Rightarrow> real) \<Rightarrow> ('t \<Rightarrow> string py_result)
     \<Rightarrow> (completion_request \<Rightarrow> real option \<Rightarrow> completion_response py_result)
     \<Rightarrow> string \<Rightarrow> int \<Rightarrow> string option \<Rightarrow> 't option \<Rightarrow> real option \<Rightarrow> real option \<Rightarrow> int option
     \<Rightarrow> real option \<Rightarrow> completion_result py_result" where
  "client_completions_complete f32 torch_save stub model max_tokens prompt prompt_embeds temperature
       top_p seed time_out =
     bind_result (completion_build_request f32 torch_save model max_tokens prompt prompt_embeds
                    temperature top_p seed) (\<lambda>req.
     bind_result (stub req time_out) (\<lambda>response. Inr (completion_result_of response)))"

definition completion_chunk_result_of :: "completion_stream_chunk \<Rightarrow> completion_chunk_result" where
  "completion_chunk_result_of nk =
     \<lparr>ns_delta_text = nk_delta_text nk,
      ns_finish_reason = (if nk_finish_reason nk \<noteq> [] then Some (nk_finish_reason nk) else None),
      ns_token_index = nk_token_index nk\<rparr>"

definition client_completions_stream ::
  "(real \<Rightarrow> real) \<Rightarrow> ('t \<Rightarrow> string py_result)
     \<Rightarrow> (completion_request \<Rightarrow> real option \<Rightarrow> completion_stream_chunk message_stream) \<Rightarrow> nat option
     \<Rightarrow> string \<Rightarrow> int \<Rightarrow> string option \<Rightarrow> 't option \<Rightarrow> real option \<Rightarrow> real option \<Rightarrow> int option
     \<Rightarrow> real option \<Rightarrow> completion_chunk_result call_action list \<times> py_exn option" where
  "client_completions_stream f32 torch_save stub taken model max_tokens prompt prompt_embeds temperature
       top_p seed time_out =
     (if taken = Some 0 then ([], None)
      else case completion_build_request f32 torch_save model max_tokens prompt prompt_embeds
                  temperature top_p seed of
             Inl e \<Rightarrow> ([], Some e)
           | Inr req \<Rightarrow> client_stream completion_chunk_result_of taken (stub req time_out))"

section \<open>client.py\<close>

type_synonym channel_id = nat

record vllm_client =
  vc_addr :: string
  vc_timeout :: real
  vc_channel :: "channel_id option"
  vc_kwargs :: client_kwargs

text \<open>The channels created so far, by number, and those not closed yet.\<close>

record channel_pool =
  pool_next :: channel_id
  pool_open :: "channel_id list"

type_synonym client_state = "vllm_client \<times> channel_pool"

definition vllm_client_init ::
  "string \<Rightarrow> real \<Rightarrow> channel_options option \<Rightarrow> compression option \<Rightarrow> vllm_client" where
  "vllm_client_init addr time_out options compression =
     \<lparr>vc_addr = addr, vc_timeout = time_out, vc_channel = None,
      vc_kwargs = \<lparr>kw_options = options, kw_compression = compression\<rparr>\<rparr>"

definition client_aenter :: "client_state \<Rightarrow> client_state" where
  "client_aenter s =
     (let (cl, pool) = s; ch = pool_next pool
      in (cl\<lparr>vc_channel := Some ch\<rparr>,
          pool\<lparr>pool_next := ch + 1, pool_open := pool_open pool @ [ch]\<rparr>))"

definition client_aexit :: "client_state \<Rightarrow> client_state" where
  "client_aexit s =
     (let (cl, pool) = s
      in case vc_channel cl of
           None \<Rightarrow> s
         | Some ch \<Rightarrow> (cl\<lparr>vc_channel := None\<rparr>, pool\<lparr>pool_open := removeAll ch (pool_open pool)\<rparr>))"

definition not_entered :: py_exn where
  "not_entered = Exn ''RuntimeError'' ''VllmGrpcClient must be used as an async context manager''"

text \<open>The two properties give a sub-client on the channel held.\<close>

definition client_chat :: "vllm_client \<Rightarrow> channel_id py_result" where
  "client_chat cl = (case vc_channel cl of None \<Rightarrow> Inl not_entered | Some ch \<Rightarrow> Inr ch)"

definition client_completions :: "vllm_client \<Rightarrow> channel_id py_result" where
  "client_completions cl = (case vc_channel cl of None \<Rightarrow> Inl not_entered | Some ch \<Rightarrow> Inr ch)"

section \<open>Sessions\<close>

datatype session_op = Enter | Leave

inductive client_step :: "client_state \<Rightarrow> session_op \<Rightarrow> client_state \<Rightarrow> bool" where
  step_enter: "client_step s Enter (client_aenter s)"
| step_leave: "client_step s Leave (client_aexit s)"

inductive_cases client_step_EnterE: "client_step s Enter s'"
inductive_cases client_step_LeaveE: "client_step s Leave s'"

text \<open>The runs of a client: its operations in order, from the state after \<open>__init__\<close>.\<close>

inductive client_run :: "client_state \<Rightarrow> session_op list \<Rightarrow> client_state \<Rightarrow> bool" for s0 where
  run_nil: "client_run s0 [] s0"
| run_step: "client_run s0 ops s \<Longrightarrow> client_step s op s' \<Longrightarrow> client_run s0 (ops @ [op]) s'"

text \<open>How many channels were dropped while open: entering an entered client forgets its channel.\<close>

fun leaked_from :: "bool \<Rightarrow> session_op list \<Rightarrow> nat" where
  "leaked_from entered [] = 0"
| "leaked_from entered (Enter # ops) = (if entered then 1 else 0) + leaked_from True ops"
| "leaked_from entered (Leave # ops) = leaked_from False ops"

definition leaked :: "session_op list \<Rightarrow> nat" where
  "leaked ops = leaked_from False ops"

definition ends_entered :: "session_op list \<Rightarrow> bool" where
  "ends_entered ops \<longleftrightarrow> ops \<noteq> [] \<and> last ops = Enter"

definition client_inv :: "session_op list \<Rightarrow> client_state \<Rightarrow> bool" where
  "client_inv ops s \<longleftrightarrow>
     (let (cl, pool) = s
      in distinct (pool_open pool) \<and> (\<forall>ch\<in>set (pool_open pool). ch < pool_next pool)
       \<and> (vc_channel cl \<noteq> None \<longleftrightarrow> ends_entered ops)
       \<and> (\<forall>ch. vc_channel cl = Some ch \<longrightarrow> ch \<in> set (pool_open pool))
       \<and> length (pool_open pool) = leaked ops + (if ends_entered ops then 1 else 0))"

lemma leaked_from_snoc:
  "leaked_from b (ops @ [Enter])
     = leaked_from b ops + (if ops = [] then (if b then 1 else 0) else if last ops = Enter then 1 else 0)"
  "leaked_from b (ops @ [Leave]) = leaked_from b ops"
  by (induction b ops rule: leaked_from.induct) auto

lemma leaked_snoc:
  "leaked (ops @ [Enter]) = leaked ops + (if ends_entered ops then 1 else 0)"
  "leaked (ops @ [Leave]) = leaked ops"
  by (simp_all add: leaked_def leaked_from_snoc ends_entered_def)

lemma ends_entered_snoc [simp]: "ends_entered (ops @ [op]) \<longleftrightarrow> op = Enter"
  by (simp add: ends_entered_def)

lemma length_removeAll_distinct:
  "distinct xs \<Longrightarrow> x \<in> set xs \<Longrightarrow> Suc (length (removeAll x xs)) = length xs"
  by (simp add: distinct_remove1_removeAll [symmetric] length_remove1)
    (metis Suc_pred length_pos_if_in_set)

lemma client_inv_step:
  assumes "client_inv ops s" "client_step s op s'"
  shows "client_inv (ops @ [op]) s'"
proof -
  obtain cl pool where s: "s = (cl, pool)" by (cases s)
  show ?thesis
  proof (cases op)
    case Enter
    then have "s' = client_aenter s" using assms(2) by (auto elim: client_step_EnterE)
    then show ?thesis using assms(1) s Enter
      by (auto simp: client_inv_def client_aenter_def Let_def leaked_snoc)
  next
    case Leave
    then have s': "s' = client_aexit s" using assms(2) by (auto elim: client_step_LeaveE)
    show ?thesis
    proof (cases "vc_channel cl")
      case None
      then show ?thesis using assms(1) s s' Leave
        by (auto simp: client_inv_def client_aexit_def Let_def leaked_snoc)
    next
      case (Some ch)
      then show ?thesis using assms(1) s s' Leave length_removeAll_distinct[of "pool_open pool" ch]
        by (auto simp: client_inv_def client_aexit_def Let_def leaked_snoc distinct_removeAll)
    qed
  qed
qed

lemma client_inv_run:
  assumes "client_run s0 ops s" "client_inv [] s0"
  shows "client_inv ops s"
  using assms by (induction rule: client_run.induct) (auto intro: client_inv_step)

lemma client_inv_init: "client_inv [] (vllm_client_init a t o' c, \<lparr>pool_next = 0, pool_open = []\<rparr>)"
  by (simp add: client_inv_def vllm_client_init_def leaked_def ends_entered_def)

section \<open>Lemmas on calls\<close>

lemma client_stream_acts:
  assumes "taken \<noteq> Some 0"
  shows "client_stream conv taken (ms, err) =
    ([Start_Call] @ map (\<lambda>m. Yield_Message (conv m)) (seen_messages taken ms) @ [Cancel_Call],
     if closes_early taken ms then None else err)"
proof -
  obtain left where "gen_for conv (ms, err) taken = (map (\<lambda>m. Yield_Message (conv m)) (seen_messages taken ms),
     if closes_early taken ms then Gen_Closed else case err of None \<Rightarrow> Gen_End | Some exc \<Rightarrow> Gen_Raised exc, left)"
    using gen_for_run[OF assms, of conv ms err] by auto
  then show ?thesis using assms
    by (auto simp: client_stream_def gen_run_def gen_seq_def gen_do_def[of Start_Call] gen_finally_do split: option.split)
qed

lemma completion_build_request_input:
  "completion_build_request f32 sv model mt prompt pe t p s = Inr req \<Longrightarrow> nq_input req \<noteq> None"
  by (auto simp: completion_build_request_def completion_request_pb_def bind_result_Inr_iff
      split: if_split_asm option.splits)

end
