(* ===== verification/Gateway.thy ===== *)
theory Gateway
  imports Frontend_Laws Frontend_Server Proxy_Router Client_Api
begin

text \<open>
  The gateway as a whole: proxy and client requests as the frontend's engine sees them, and the
  frontend's stream as a reader of the proxy's event stream sees it. The gRPC runtime in between is
  taken to deliver the messages of a call in order, which the composed statements say by feeding the
  servicer's messages to the router.
\<close>

section \<open>Requests\<close>

lemma chat_proto_fields:
  "chat_request_to_proto f32 req = Inr preq \<Longrightarrow>
     cq_messages preq = map (\<lambda>m. \<lparr>cm_role = om_role m, cm_content = om_content m\<rparr>) (oc_messages req)"
  by (auto simp: chat_request_to_proto_def chat_request_pb_def split: if_split_asm)

lemma completion_proto_sampling:
  assumes "completion_request_to_proto f32 req = Inr preq"
  shows "completion_sampling_kwargs preq =
     \<lparr>sk_max_tokens = on_max_tokens req,
      sk_temperature = (case on_temperature req of None \<Rightarrow> 1 | Some t \<Rightarrow> f32 t),
      sk_top_p = (case on_top_p req of None \<Rightarrow> 1 | Some p \<Rightarrow> f32 p),
      sk_seed = on_seed req, sk_ignore_eos = False\<rparr>"
proof -
  from assms obtain inp where "completion_request_pb f32 (on_model req) (on_max_tokens req)
      (on_temperature req) (on_top_p req) (on_seed req) inp = Inr preq"
    by (auto simp: completion_request_to_proto_def Let_def bind_result_Inr_iff split: option.splits)
  then show ?thesis by (rule completion_sampling_of_request_pb)
qed



section \<open>Event streams\<close>

definition data_line :: "string \<Rightarrow> string" where
  "data_line payload = ''data: '' @ payload"

definition content_delta :: "json_dict \<Rightarrow> proxy_env \<Rightarrow> openai_chat_request \<Rightarrow> json \<Rightarrow> string" where
  "content_delta delta env req reason =
     data_line (json_dumps (px_fl env)
       (sse_chunk_payload (''chatcmpl-'' @ px_uuid env) (px_now env) (oc_model req) delta reason))"

text \<open>The lines a reader gets from a chat stream: the role, the chunks, and the end.\<close>

lemma chat_sse_reads_back:
  assumes "chat_request_to_proto (px_f32 env) req = Inr preq" "call preq = (messages, None)"
    and "\<And>k. \<not> px_disconnected env k"
  shows "snd (chat_stream_sse env call req) = None
    \<and> sse_read (concat (fst (chat_stream_sse env call req)))
      = [content_delta [(''role'', JStr ''assistant''), (''content'', JStr [])] env req JNull]
        @ map (\<lambda>ck. data_line (json_dumps (px_fl env)
              (chat_chunk_payload ck (''chatcmpl-'' @ px_uuid env) (px_now env) (oc_model req)))) messages
        @ [data_line ''[DONE]'']"
proof -
  let ?i = "''chatcmpl-'' @ px_uuid env"
  let ?ps = "[json_dumps (px_fl env) (role_payload ?i (px_now env) (oc_model req))]
     @ map (\<lambda>ck. json_dumps (px_fl env) (chat_chunk_payload ck ?i (px_now env) (oc_model req))) messages
     @ [''[DONE]'']"
  have conn: "relay_chunks (px_disconnected env) fmt k cs = (map fmt cs, False)" for fmt k and cs :: "chat_stream_chunk list"
    by (rule relay_chunks_connected) (rule assms(3))
  have body: "chat_stream_sse env call req = (map sse_frame ?ps, None)"
    using assms(1,2)
    by (simp add: conn chat_stream_sse_def format_sse_role_delta_def proto_chunk_to_sse_event_def
        sse_event_def format_sse_done_def Let_def)
  have "\<And>p. p \<in> set ?ps \<Longrightarrow> is_line_safe p"
    using is_line_safe_done by (auto intro: json_dumps_line_safe)
  from sse_read_frames[of ?ps, OF this] show ?thesis
    unfolding body by (simp add: data_line_def content_delta_def role_payload_def)
qed

section \<open>Examples\<close>

definition demo_proxy :: proxy_env where
  "demo_proxy = \<lparr>px_f32 = (\<lambda>x. x), px_fl = (\<lambda>x. ''0.0''), px_uuid = ''u'', px_now = 17,
     px_disconnected = (\<lambda>k. False)\<rparr>"

definition demo_openai :: openai_chat_request where
  "demo_openai = \<lparr>oc_model = ''m'', oc_messages = [\<lparr>om_role = ''user'', om_content = ''hi''\<rparr>],
     oc_max_tokens = 5, oc_temperature = None, oc_top_p = None, oc_seed = Some 3, oc_stream = True\<rparr>"

definition demo_openai_completion :: openai_completion_request where
  "demo_openai_completion = \<lparr>on_model = ''m'', on_max_tokens = 5, on_temperature = Some 2, on_top_p = None,
     on_seed = None, on_stream = False, on_prompt = None, on_prompt_embeds = Some (b64encode ''raw'')\<rparr>"

lemma demo_openai_proto: "chat_request_to_proto (px_f32 demo_proxy) demo_openai = Inr demo_chat_req"
  by (simp add: demo_proxy_def demo_openai_def demo_chat_req_def chat_request_to_proto_def
      chat_request_pb_def fields_in_range_def int32_ok_def int64_ok_def)

definition demo_completion_chunk :: "int \<Rightarrow> completion_stream_chunk" where
  "demo_completion_chunk k = \<lparr>nk_delta_text = ''Hi'', nk_finish_reason = [], nk_token_index = k\<rparr>"

section \<open>Properties\<close>

text \<open>
  C2. End to end, a chat stream read from the proxy is the engine's text. For a validated request whose
  prompt and parameters the frontend accepts, and an engine run that grows and finishes, a connected
  reader that splits the body at blank lines gets the role event, one content event per delta, one
  event with the finish reason, and \<open>[DONE]\<close>; the contents concatenate to the finished text.
\<close>

theorem gateway_streams_text:
  assumes "chat_request_to_proto (px_f32 penv) req = Inr preq"
    and "messages_to_prompt (fe_apply_chat_template fenv) (cq_messages preq) = Inr prompt"
    and "chat_proto_to_sampling_params (fe_SamplingParams fenv) preq = Inr params"
    and "fe_generate fenv (Text_Input prompt) params (fe_request_id fenv) = (outs, e)"
    and "list_all chat_accepts outs"
    and "text_grows [] (consumed (map completion_of outs))"
    and "find finishes (map completion_of outs) = Some c"
    and "\<And>k. \<not> px_disconnected penv k"
  shows "\<exists>contents. concat contents = co_text c
     \<and> sse_read (concat (fst (chat_stream_sse penv
          (\<lambda>q. (chunks_of (fst (chat_complete_stream fenv er q)), None)) req)))
       = [content_delta [(''role'', JStr ''assistant''), (''content'', JStr [])] penv req JNull]
         @ map (\<lambda>d. content_delta [(''content'', JStr d)] penv req JNull) contents
         @ [content_delta [] penv req (JStr (the (co_finish_reason c))), data_line ''[DONE]'']"
proof -
  from chat_run_delivers[OF assms(5-7), of "fe_blake fenv" er e] obtain pre tr where
    run: "chat_complete_stream fenv er preq = (map Ev_Chunk pre @ [Ev_Trailers tr,
          Ev_Chunk \<lparr>ck_delta_content = [], ck_finish_reason = the (co_finish_reason c),
                    ck_token_index = int (length pre)\<rparr>], Stream_Returned)"
    and whole: "concat (map ck_delta_content pre) = co_text c"
    and blank: "list_all (\<lambda>ck. ck_delta_content ck \<noteq> [] \<and> ck_finish_reason ck = []) pre"
    using assms(2-4) by (auto simp: chat_complete_stream_def)
  have "finishes c" using assms(7) by (auto simp: find_Some_iff)
  then have reason: "the (co_finish_reason c) \<noteq> []"
    by (auto simp: finishes_def truthy_def split: option.splits)
  have chunks: "chunks_of (map Ev_Chunk ks) = ks" for ks :: "chat_stream_chunk list"
    by (induction ks) simp_all
  have pay: "map (\<lambda>ck. data_line (json_dumps (px_fl penv)
        (chat_chunk_payload ck (''chatcmpl-'' @ px_uuid penv) (px_now penv) (oc_model req)))) pre
      = map (\<lambda>d. content_delta [(''content'', JStr d)] penv req JNull) (map ck_delta_content pre)"
    using blank by (induction pre) (simp_all add: chat_chunk_payload_def content_delta_def)
  from chat_sse_reads_back[OF assms(1) _ assms(8),
      of "\<lambda>q. (chunks_of (fst (chat_complete_stream fenv er q)), None)"]
  show ?thesis using run chunks pay reason whole
    by (intro exI[of _ "map ck_delta_content pre"])
      (simp add: chat_chunk_payload_def content_delta_def)
qed

theorem gateway_streams_text_witness:
  "\<exists>contents. concat contents = ''Hello''
     \<and> sse_read (concat (fst (chat_stream_sse demo_proxy
          (\<lambda>q. (chunks_of (fst (chat_complete_stream (demo_env demo_outs Engine_Exhausted) demo_entry q)), None))
          demo_openai)))
       = [content_delta [(''role'', JStr ''assistant''), (''content'', JStr [])] demo_proxy demo_openai JNull]
         @ map (\<lambda>d. content_delta [(''content'', JStr d)] demo_proxy demo_openai JNull) contents
         @ [content_delta [] demo_proxy demo_openai (JStr ''stop''), data_line ''[DONE]'']"
proof -
  have "\<And>k. \<not> px_disconnected demo_proxy k" by (simp add: demo_proxy_def)
  from gateway_streams_text[OF demo_openai_proto demo_calls(1) demo_calls(2) demo_calls(3) demo_accepts(1)
      demo_grows demo_finishes this, of Engine_Exhausted demo_entry]
  show ?thesis by simp
qed

text \<open>What the engine is to be given for a request's parameters.\<close>

definition requested_sampling ::
  "(real \<Rightarrow> real) \<Rightarrow> int \<Rightarrow> real option \<Rightarrow> real option \<Rightarrow> int option \<Rightarrow> sampling_kwargs" where
  "requested_sampling f32 max_tokens temperature top_p seed =
     \<lparr>sk_max_tokens = max_tokens, sk_temperature = (case temperature of None \<Rightarrow> 1 | Some t \<Rightarrow> f32 t),
      sk_top_p = (case top_p of None \<Rightarrow> 1 | Some p \<Rightarrow> f32 p), sk_seed = seed, sk_ignore_eos = False\<rparr>"

lemma chat_request_pb_sampling:
  "case chat_request_pb f32 ms model mt temp top_p seed of
     Inr req \<Rightarrow> fields_in_range mt seed \<and> chat_sampling_kwargs req = requested_sampling f32 mt temp top_p seed
   | Inl e \<Rightarrow> \<not> fields_in_range mt seed"
  using chat_sampling_of_request_pb[where ?f32.0 = f32 and ms = ms and model = model and mt = mt and temp = temp
      and top_p = top_p and seed = seed]
  by (simp add: chat_request_pb_def requested_sampling_def)

lemma completion_request_pb_sampling:
  "case completion_request_pb f32 model mt temp top_p seed inp of
     Inr req \<Rightarrow> fields_in_range mt seed \<and> completion_sampling_kwargs req = requested_sampling f32 mt temp top_p seed
   | Inl e \<Rightarrow> \<not> fields_in_range mt seed"
  using completion_sampling_of_request_pb[where ?f32.0 = f32 and model = model and mt = mt and temp = temp
      and top_p = top_p and seed = seed and inp = inp]
  by (simp add: completion_request_pb_def requested_sampling_def)

lemma map_result_InlE: "map_result f xs = Inl e \<Longrightarrow> \<exists>x \<in> set xs. f x = Inl e"
  by (induction xs) (auto simp: bind_result_def split: sum.splits)

text \<open>
  C5. Sampling parameters reach the engine unchanged. For the proxy's two endpoints and the client's
  two calls alike, the engine is given the request's token limit and seed, its temperature and top-p in
  single precision with 1 for a missing one, and never \<open>ignore_eos\<close>. A message is built exactly from
  parameters within the widths of their fields; the only other reasons for none are, at the proxy's
  completions endpoint, embeds that are no base64, and in the client a chat message without role or
  content, both or none of prompt and embeds, and a tensor that cannot be saved.
\<close>

theorem sampling_parameters_preserved:
  "(case chat_request_to_proto f32 req of
      Inr preq \<Rightarrow> fields_in_range (oc_max_tokens req) (oc_seed req) \<and> chat_sampling_kwargs preq
        = requested_sampling f32 (oc_max_tokens req) (oc_temperature req) (oc_top_p req) (oc_seed req)
    | Inl e \<Rightarrow> \<not> fields_in_range (oc_max_tokens req) (oc_seed req))
   \<and> (case completion_request_to_proto f32 nreq of
      Inr npreq \<Rightarrow> fields_in_range (on_max_tokens nreq) (on_seed nreq) \<and> completion_sampling_kwargs npreq
        = requested_sampling f32 (on_max_tokens nreq) (on_temperature nreq) (on_top_p nreq) (on_seed nreq)
    | Inl e \<Rightarrow> \<not> fields_in_range (on_max_tokens nreq) (on_seed nreq) \<or> exactly_one_input nreq \<noteq> Inr nreq
        \<or> (\<exists>b64. on_prompt_embeds nreq = Some b64 \<and> b64decode b64 = Inl e))
   \<and> (case chat_build_request f32 ms model mt temp top_p seed of
      Inr cpreq \<Rightarrow> fields_in_range mt seed \<and> chat_sampling_kwargs cpreq = requested_sampling f32 mt temp top_p seed
    | Inl e \<Rightarrow> \<not> fields_in_range mt seed
        \<or> (\<exists>m \<in> set ms. map_of m ''role'' = None \<or> map_of m ''content'' = None))
   \<and> (case completion_build_request f32 torch_save model mt prompt embeds temp top_p seed of
      Inr cnpreq \<Rightarrow> fields_in_range mt seed
        \<and> completion_sampling_kwargs cnpreq = requested_sampling f32 mt temp top_p seed
    | Inl e \<Rightarrow> \<not> fields_in_range mt seed \<or> (prompt = None) = (embeds = None)
        \<or> (\<exists>t. embeds = Some t \<and> torch_save t = Inl e))"
proof (intro conjI)
  show "case chat_request_to_proto f32 req of
      Inr preq \<Rightarrow> fields_in_range (oc_max_tokens req) (oc_seed req) \<and> chat_sampling_kwargs preq
        = requested_sampling f32 (oc_max_tokens req) (oc_temperature req) (oc_top_p req) (oc_seed req)
    | Inl e \<Rightarrow> \<not> fields_in_range (oc_max_tokens req) (oc_seed req)"
    unfolding chat_request_to_proto_def by (rule chat_request_pb_sampling)
next
  note pb = completion_request_pb_sampling[where ?f32.0 = f32 and model = "on_model nreq" and mt = "on_max_tokens nreq"
      and temp = "on_temperature nreq" and top_p = "on_top_p nreq" and seed = "on_seed nreq"]
  show "case completion_request_to_proto f32 nreq of
      Inr npreq \<Rightarrow> fields_in_range (on_max_tokens nreq) (on_seed nreq) \<and> completion_sampling_kwargs npreq
        = requested_sampling f32 (on_max_tokens nreq) (on_temperature nreq) (on_top_p nreq) (on_seed nreq)
    | Inl e \<Rightarrow> \<not> fields_in_range (on_max_tokens nreq) (on_seed nreq) \<or> exactly_one_input nreq \<noteq> Inr nreq
        \<or> (\<exists>b64. on_prompt_embeds nreq = Some b64 \<and> b64decode b64 = Inl e)"
  proof (cases "on_prompt nreq")
    case (Some p)
    then show ?thesis using pb[where inp = "Prompt_Input p"]
      by (simp add: completion_request_to_proto_def split: sum.splits)
  next
    case None
    show ?thesis
    proof (cases "on_prompt_embeds nreq")
      case None
      then show ?thesis using \<open>on_prompt nreq = None\<close>
        by (simp add: completion_request_to_proto_def exactly_one_input_def)
    next
      case (Some b64)
      then show ?thesis using pb[where inp = "Embeds_Input (projr (b64decode b64))"] \<open>on_prompt nreq = None\<close>
        by (cases "b64decode b64") (auto simp: completion_request_to_proto_def split: sum.splits)
    qed
  qed
next
  let ?msgs = "map_result (\<lambda>m. bind_result (dict_item m ''role'') (\<lambda>r.
      bind_result (dict_item m ''content'') (\<lambda>c. Inr \<lparr>cm_role = r, cm_content = c\<rparr>))) ms"
  show "case chat_build_request f32 ms model mt temp top_p seed of
      Inr cpreq \<Rightarrow> fields_in_range mt seed \<and> chat_sampling_kwargs cpreq = requested_sampling f32 mt temp top_p seed
    | Inl e \<Rightarrow> \<not> fields_in_range mt seed
        \<or> (\<exists>m \<in> set ms. map_of m ''role'' = None \<or> map_of m ''content'' = None)"
  proof (cases ?msgs)
    case (Inl e)
    from map_result_InlE[OF this]
    have "\<exists>m \<in> set ms. map_of m ''role'' = None \<or> map_of m ''content'' = None"
      by (fastforce simp: dict_item_def bind_result_def split: option.splits)
    then show ?thesis using Inl by (simp add: chat_build_request_def)
  next
    case (Inr pms)
    then show ?thesis using chat_request_pb_sampling[where ?f32.0 = f32 and ms = pms and model = model and mt = mt and temp = temp
        and top_p = top_p and seed = seed]
      by (auto simp: chat_build_request_def split: sum.splits)
  qed
next
  note pb = completion_request_pb_sampling[where ?f32.0 = f32 and model = model and mt = mt and temp = temp
      and top_p = top_p and seed = seed]
  show "case completion_build_request f32 torch_save model mt prompt embeds temp top_p seed of
      Inr cnpreq \<Rightarrow> fields_in_range mt seed
        \<and> completion_sampling_kwargs cnpreq = requested_sampling f32 mt temp top_p seed
    | Inl e \<Rightarrow> \<not> fields_in_range mt seed \<or> (prompt = None) = (embeds = None)
        \<or> (\<exists>t. embeds = Some t \<and> torch_save t = Inl e)"
    using pb[where inp = "Prompt_Input (the prompt)"] pb[where inp = "Embeds_Input (projr (torch_save (the embeds)))"]
    by (auto simp: completion_build_request_def bind_result_def split: sum.splits option.splits)
qed

theorem sampling_parameters_preserved_witness:
  "chat_sampling_kwargs demo_chat_req = \<lparr>sk_max_tokens = 5, sk_temperature = 1, sk_top_p = 1,
     sk_seed = Some 3, sk_ignore_eos = False\<rparr>"
proof -
  have "case chat_request_to_proto (px_f32 demo_proxy) demo_openai of
      Inr preq \<Rightarrow> fields_in_range (oc_max_tokens demo_openai) (oc_seed demo_openai) \<and> chat_sampling_kwargs preq
        = requested_sampling (px_f32 demo_proxy) (oc_max_tokens demo_openai) (oc_temperature demo_openai)
            (oc_top_p demo_openai) (oc_seed demo_openai)
    | Inl e \<Rightarrow> \<not> fields_in_range (oc_max_tokens demo_openai) (oc_seed demo_openai)"
    by (rule sampling_parameters_preserved[THEN conjunct1])
  then show ?thesis unfolding demo_openai_proto by (simp add: demo_openai_def requested_sampling_def)
qed



text \<open>
  C6. Failures at the proxy. On the unary paths a gRPC failure becomes an HTTP answer by its code, 502,
  504, 422 with the server's details when it gave any, or 500, the same on both endpoints, and any other
  exception leaves the endpoint. On both event streams a gRPC failure becomes a last error event with the
  server's details, in place of \<open>[DONE]\<close> and after every event before it, and any other exception ends
  the stream after those events.
\<close>

theorem rpc_failures_at_the_proxy:
  assumes "chat_request_to_proto (px_f32 env) req = Inr preq" "oc_stream req = False"
    and "completion_request_to_proto (px_f32 env) nreq = Inr npreq" "on_stream nreq = False"
    and "unary preq = Inl exc" "nunary npreq = Inl exc"
    and "call preq = (messages, Some exc)" "ncall npreq = (nmessages, Some exc)"
    and "\<And>k. \<not> px_disconnected env k"
  shows "\<exists>events nevents.
       chat_stream_sse env (\<lambda>q. (messages, None)) req = (events @ [sse_frame ''[DONE]''], None)
     \<and> completions_stream_sse env (\<lambda>q. (nmessages, None)) nreq = (nevents @ [sse_frame ''[DONE]''], None)
     \<and> (if isinstance exc ''AioRpcError''
        then let said = (\<lambda>fallback. case details_of exc of Some (Some d) \<Rightarrow> if d = [] then fallback else d | _ \<Rightarrow> fallback);
                 reply = (if code_of exc = Some ''UNAVAILABLE''
                          then Json_Reply 502 (error_json ''Frontend unavailable'' ''gateway_error'') []
                          else if code_of exc = Some ''DEADLINE_EXCEEDED''
                          then Json_Reply 504 (error_json ''Frontend timed out'' ''gateway_error'') []
                          else if code_of exc = Some ''INVALID_ARGUMENT''
                          then Json_Reply 422 (error_json (said ''Invalid request'') ''invalid_request_error'') []
                          else Json_Reply 500 (error_json ''Internal server error'' ''internal_error'') [])
             in chat_completions env ts unary call req = Inr reply
              \<and> completions env nunary ncall nreq = Inr reply
              \<and> chat_stream_sse env call req
                  = (events @ [sse_event (px_fl env) (JObj [(''error'', JObj [(''message'', JStr (said ''Internal error'')),
                       (''type'', JStr ''internal_error'')])])], None)
              \<and> completions_stream_sse env ncall nreq
                  = (nevents @ [sse_event (px_fl env) (JObj [(''error'', JObj [(''message'', JStr (said ''Internal error'')),
                       (''type'', JStr ''server_error''), (''code'', JNull)])])], None)
              \<and> sse_frame ''[DONE]'' \<notin> set (fst (chat_stream_sse env call req))
              \<and> sse_frame ''[DONE]'' \<notin> set (fst (completions_stream_sse env ncall nreq))
        else chat_completions env ts unary call req = Inl exc
           \<and> completions env nunary ncall nreq = Inl exc
           \<and> chat_stream_sse env call req = (events, Some exc)
           \<and> completions_stream_sse env ncall nreq = (nevents, Some exc))"
proof -
  have conn: "relay_chunks (px_disconnected env) fmt k cs = (map fmt cs, False)"
    for fmt :: "'z \<Rightarrow> string" and k cs
    by (rule relay_chunks_connected) (rule assms(9))
  let ?i = "''chatcmpl-'' @ px_uuid env" and ?ni = "''cmpl-'' @ px_uuid env"
  define events where "events = format_sse_role_delta (px_fl env) ?i (px_now env) (oc_model req)
     # map (\<lambda>ck. proto_chunk_to_sse_event (px_fl env) ck ?i (px_now env) (oc_model req)) messages"
  define nevents where "nevents = map (\<lambda>ck. if nk_finish_reason ck \<noteq> []
      then format_completion_final (px_fl env) ck ?ni (on_model nreq) (px_now env)
      else format_completion_chunk (px_fl env) ck ?ni (on_model nreq) (px_now env)) nmessages"
  have said: "details_or fallback exc
      = (case details_of exc of Some (Some d) \<Rightarrow> if d = [] then fallback else d | _ \<Rightarrow> fallback)" for fallback
    by (auto simp: details_or_def truthy_def Let_def split: option.split)
  have streams: "chat_stream_sse env call req
      = (if isinstance exc ''AioRpcError''
         then (events @ [format_sse_error (px_fl env) (details_or ''Internal error'' exc)], None)
         else (events, Some exc))"
    "completions_stream_sse env ncall nreq
      = (if isinstance exc ''AioRpcError''
         then (nevents @ [format_completion_error (px_fl env) (details_or ''Internal error'' exc)], None)
         else (nevents, Some exc))"
    "chat_stream_sse env (\<lambda>q. (messages, None)) req = (events @ [sse_frame ''[DONE]''], None)"
    "completions_stream_sse env (\<lambda>q. (nmessages, None)) nreq = (nevents @ [sse_frame ''[DONE]''], None)"
    using assms(1,3,7,8)
    by (simp_all add: conn chat_stream_sse_def completions_stream_sse_def format_sse_done_def format_done_def
        Let_def events_def nevents_def)
  have differs: "sse_frame ''[DONE]'' \<noteq> sse_event fl (JObj kvs)" for fl kvs
    by (simp add: sse_event_def sse_frame_def)
  have "sse_frame ''[DONE]'' \<notin> set events" "sse_frame ''[DONE]'' \<notin> set nevents"
    by (auto simp: differs events_def nevents_def format_sse_role_delta_def role_payload_def proto_chunk_to_sse_event_def
        chat_chunk_payload_def sse_chunk_payload_def format_completion_final_def completion_final_payload_def
        format_completion_chunk_def completion_chunk_payload_def split: if_split_asm)
  moreover have "chat_completions env ts unary call req
      = (if isinstance exc ''AioRpcError'' then Inr (chat_rpc_error_reply exc) else Inl exc)"
    "completions env nunary ncall nreq
      = (if isinstance exc ''AioRpcError'' then Inr (chat_rpc_error_reply exc) else Inl exc)"
    using assms(1-6) by (cases ts; simp add: chat_completions_def completions_def rpc_error_replies_agree)+
  ultimately show ?thesis
    unfolding streams Let_def format_sse_error_def chat_error_payload_def format_completion_error_def
      completion_error_payload_def said chat_rpc_error_reply_def
    by (intro exI[of _ events] exI[of _ nevents]) (simp add: differs)
qed

theorem rpc_failures_at_the_proxy_witness:
  "chat_completions demo_proxy (0, 0, 0, 0) (\<lambda>q. Inl (aio_rpc_error ''INVALID_ARGUMENT'' ''too long''))
      (\<lambda>q. ([], Some (aio_rpc_error ''INVALID_ARGUMENT'' ''too long''))) (demo_openai\<lparr>oc_stream := False\<rparr>)
    = Inr (Json_Reply 422 (error_json ''too long'' ''invalid_request_error'') [])
   \<and> (\<exists>nevents. completions_stream_sse demo_proxy (\<lambda>q. ([], Some (aio_rpc_error ''INVALID_ARGUMENT'' ''too long'')))
        demo_openai_completion
      = (nevents @ [sse_event (px_fl demo_proxy) (JObj [(''error'', JObj [(''message'', JStr ''too long''),
           (''type'', JStr ''server_error''), (''code'', JNull)])])], None))"
proof -
  let ?req = "demo_openai\<lparr>oc_stream := False\<rparr>" and ?exc = "aio_rpc_error ''INVALID_ARGUMENT'' ''too long''"
  have chat: "chat_request_to_proto (px_f32 demo_proxy) ?req = Inr demo_chat_req"
    using demo_openai_proto by (simp add: chat_request_to_proto_def)
  obtain npreq where npreq: "completion_request_to_proto (px_f32 demo_proxy) demo_openai_completion = Inr npreq"
    by (simp add: completion_request_to_proto_def demo_openai_completion_def completion_request_pb_def
        fields_in_range_def int32_ok_def)
  have conn: "\<And>k. \<not> px_disconnected demo_proxy k" by (simp add: demo_proxy_def)
  have plain: "oc_stream ?req = False" "on_stream demo_openai_completion = False"
    by (simp_all add: demo_openai_completion_def)
  have fails: "(\<lambda>q. Inl ?exc) demo_chat_req = Inl ?exc" "(\<lambda>q. Inl ?exc) npreq = Inl ?exc"
    "(\<lambda>q. ([], Some ?exc)) demo_chat_req = ([], Some ?exc)" "(\<lambda>q. ([], Some ?exc)) npreq = ([], Some ?exc)"
    by simp_all
  from rpc_failures_at_the_proxy[OF chat plain(1) npreq plain(2) fails conn, of "(0, 0, 0, 0)"]
  show ?thesis by (auto simp: Let_def aio_rpc_error_def)
qed

text \<open>
  C12. The client's channels. After any sequence of entries and exits, the client holds a channel exactly
  when its last operation was an entry, and that channel is open; the channels open are that one and
  one more for every time it was entered while already holding one. A client used as an \<open>async with\<close> block
  leaves none open, and its sub-clients exist only in between.
\<close>

theorem client_channels_accounted:
  assumes "client_run (vllm_client_init addr time_out options compression,
             \<lparr>pool_next = 0, pool_open = []\<rparr>) ops (cl, pool)"
  shows "length (pool_open pool) = leaked ops + (if ends_entered ops then 1 else 0)
     \<and> (\<forall>ch. vc_channel cl = Some ch \<longrightarrow> ch \<in> set (pool_open pool))
     \<and> (client_chat cl = Inl not_entered \<longleftrightarrow> \<not> ends_entered ops)
     \<and> (client_completions cl = Inl not_entered \<longleftrightarrow> \<not> ends_entered ops)
     \<and> (ops = concat (replicate n [Enter, Leave]) \<longrightarrow> pool_open pool = [])"
proof -
  from client_inv_run[OF assms client_inv_init] have inv: "client_inv ops (cl, pool)" .
  have "leaked_from False (concat (replicate n [Enter, Leave])) = 0"
    by (induction n) simp_all
  moreover have "\<not> ends_entered (concat (replicate n [Enter, Leave]))"
    by (induction n) (auto simp: ends_entered_def)
  ultimately show ?thesis using inv
    by (auto simp: client_inv_def client_chat_def client_completions_def leaked_def split: option.splits)
qed

lemma demo_session: "client_run (vllm_client_init ''h:1'' 30 None None, \<lparr>pool_next = 0, pool_open = []\<rparr>)
    [Enter, Enter]
    (\<lparr>vc_addr = ''h:1'', vc_timeout = 30, vc_channel = Some 1,
      vc_kwargs = \<lparr>kw_options = None, kw_compression = None\<rparr>\<rparr>, \<lparr>pool_next = 2, pool_open = [0, 1]\<rparr>)"
proof -
  let ?s0 = "(vllm_client_init ''h:1'' 30 None None, \<lparr>pool_next = 0, pool_open = []\<rparr>)"
  have "client_run ?s0 ([] @ [Enter]) (client_aenter ?s0)"
    by (rule run_step[OF run_nil step_enter])
  then have "client_run ?s0 (([] @ [Enter]) @ [Enter]) (client_aenter (client_aenter ?s0))"
    by (rule run_step) (rule step_enter)
  then show ?thesis by (simp add: client_aenter_def vllm_client_init_def numeral_2_eq_2)
qed

theorem client_channels_accounted_witness:
  "length [0, 1 :: nat] = leaked [Enter, Enter] + (if ends_entered [Enter, Enter] then 1 else 0)"
  using client_channels_accounted[OF demo_session] by simp

text \<open>
  A generator over a call, as the runtime and the consumer see it: its actions lead the channel from one
  phase to another, exactly one call is started and cancelled, and the consumer sees the messages up to
  the last it takes and the call's error only if it gets that far.
\<close>

definition releases_call ::
  "call_phase \<Rightarrow> call_phase \<Rightarrow> ('m \<Rightarrow> 'c) \<Rightarrow> nat option \<Rightarrow> 'm message_stream
     \<Rightarrow> 'c call_action list \<times> py_exn option \<Rightarrow> bool" where
  "releases_call p q conv taken stream run \<longleftrightarrow>
     call_life p (fst run) = Some q
     \<and> count_list (fst run) Start_Call = 1 \<and> count_list (fst run) Cancel_Call = 1
     \<and> yielded (fst run) = map conv (seen_messages taken (fst stream))
     \<and> snd run = (if closes_early taken (fst stream) then None else snd stream)"

lemma count_yields [simp]:
  "count_list (map (\<lambda>m. Yield_Message (conv m)) ms) Start_Call = 0"
  "count_list (map (\<lambda>m. Yield_Message (conv m)) ms) Cancel_Call = 0"
  by (induction ms) simp_all

lemma yielded_conv [simp]: "yielded (map (\<lambda>m. Yield_Message (conv m)) ms) = map conv ms"
  by (induction ms) simp_all

lemma relay_releases:
  assumes "taken \<noteq> Some 0"
  shows "releases_call No_Channel No_Channel (\<lambda>m. m) taken stream (relay_stream taken stream)"
  using relay_stream_acts[OF assms, of "fst stream" "snd stream"] count_yields[of "\<lambda>m. m"]
    call_life_yields[of "\<lambda>m. m"]
  by (simp add: releases_call_def)

lemma client_stream_releases:
  assumes "taken \<noteq> Some 0"
  shows "releases_call Channel_Idle Call_Over conv taken stream (client_stream conv taken stream)"
  using client_stream_acts[OF assms, of conv "fst stream" "snd stream"]
  by (simp add: releases_call_def)

text \<open>
  C15. No call outlives its generator. However many messages the consumer takes, and however the call
  ends, each of the four streaming generators, once started, starts one call and cancels it, after the last message
  and before the channel it opened is closed; the consumer sees the call's messages up to the last it
  takes, and the call's error exactly when it took them all. A client whose message cannot be built
  raises without a call.
\<close>

theorem streaming_calls_cancelled:
  assumes "taken \<noteq> Some 0"
  shows "releases_call No_Channel No_Channel (\<lambda>m. m) taken (stub (gc_addr cl) (gc_kwargs cl) req CHAT_DEADLINE_SECONDS)
       (chat_client_stream stub cl taken req)
   \<and> releases_call No_Channel No_Channel (\<lambda>m. m) taken (nstub (gc_addr cl) (gc_kwargs cl) nreq CHAT_DEADLINE_SECONDS)
       (completions_client_stream nstub cl taken nreq)
   \<and> (case chat_build_request f32 ms model mt temp top_p seed of
        Inl e \<Rightarrow> client_chat_stream f32 cstub taken ms model mt temp top_p seed tmo = ([], Some e)
      | Inr q \<Rightarrow> releases_call Channel_Idle Call_Over chat_chunk_result_of taken (cstub q tmo)
                  (client_chat_stream f32 cstub taken ms model mt temp top_p seed tmo))
   \<and> (case completion_build_request f32 sv model mt prompt pe temp top_p seed of
        Inl e \<Rightarrow> client_completions_stream f32 sv cnstub taken model mt prompt pe temp top_p seed tmo = ([], Some e)
      | Inr q \<Rightarrow> releases_call Channel_Idle Call_Over completion_chunk_result_of taken (cnstub q tmo)
                  (client_completions_stream f32 sv cnstub taken model mt prompt pe temp top_p seed tmo))"
  using assms
  by (simp add: chat_client_stream_def completions_client_stream_def client_chat_stream_def
      client_completions_stream_def relay_releases client_stream_releases split: sum.split)

theorem streaming_calls_cancelled_witness:
  "yielded (fst (completions_client_stream
       (\<lambda>addr kw req t. ([demo_completion_chunk 0, demo_completion_chunk 1], Some (aio_rpc_error ''INTERNAL'' ''x'')))
       \<lparr>gc_addr = ''h:1'', gc_kwargs = \<lparr>kw_options = None, kw_compression = None\<rparr>\<rparr> (Some 1) demo_completion_req))
     = [demo_completion_chunk 0]"
proof -
  let ?stub = "\<lambda>(addr :: string) (kw :: client_kwargs) (req :: completion_request) (t :: real).
      ([demo_completion_chunk 0, demo_completion_chunk 1], Some (aio_rpc_error ''INTERNAL'' ''x''))"
  let ?cl = "\<lparr>gc_addr = ''h:1'', gc_kwargs = \<lparr>kw_options = None, kw_compression = None\<rparr>\<rparr>"
  have "releases_call No_Channel No_Channel (\<lambda>m. m) (Some 1)
      (?stub (gc_addr ?cl) (gc_kwargs ?cl) demo_completion_req CHAT_DEADLINE_SECONDS)
      (completions_client_stream ?stub ?cl (Some 1) demo_completion_req)"
    by (rule streaming_calls_cancelled[THEN conjunct2, THEN conjunct1]) simp
  then show ?thesis by (simp add: releases_call_def seen_messages_def)
qed

end
