(* ===== verification/Monitor.thy ===== *)
theory Monitor
  imports Topology Py_Text "HOL-Library.AList"
begin

text \<open>
  \<open>scripts/python/monitor_m6_2_sweep.py\<close>: the reader of a sweep's progress log, the snapshot it
  derives, the estimate of the remaining time, the process and network probes, the status line and the
  loop that decides when to stop. The emitter of the log lines is \<open>_progress\<close> of \<open>sweep.py\<close>.

  Text is UTF-8 bytes on which white space is ASCII; the em dash and the multiplication sign are their
  bytes. \<open>datetime.fromisoformat\<close> is an argument; the value it gives is an aware time or a naive one,
  counted in seconds. Every clock, file, process and interface reading of a tick is part of the tick.
\<close>

section \<open>Progress lines\<close>

definition DASH :: string where "DASH = [CHR 0xE2, CHR 0x80, CHR 0x94]"

definition TIMES_SIGN :: string where "TIMES_SIGN = [CHR 0xC3, CHR 0x97]"

record progress_event =
  pv_ts :: string
  pv_tag :: string
  pv_fields :: "(string \<times> string) list"

text \<open>\<open>sweep._progress\<close>: the bracketed time, the tag, and the fields in order.\<close>

definition progress_line :: "string \<Rightarrow> string \<Rightarrow> (string \<times> string) list \<Rightarrow> string" where
  "progress_line stamp tag kvs =
     join_with '' '' ((stamp @ '' [m6_2 '' @ tag @ '']'') # map (\<lambda>(k, v). k @ ''='' @ v) kvs)"

definition is_tag_char :: "char \<Rightarrow> bool" where
  "is_tag_char c = (let n = of_char c :: nat in (65 \<le> n \<and> n \<le> 90) \<or> n = 95)"

text \<open>
  The regular expression: bracketed time, white space, \<open>[m6_2\<close>, white space, tag, bracket, optional
  white space, the rest. Its pieces are delimited by disjoint classes, so one greedy pass decides it.
\<close>

definition match_progress :: "string \<Rightarrow> (string \<times> string \<times> string) option" where
  "match_progress line =
     (case line of
        [] \<Rightarrow> None
      | b # l1 \<Rightarrow>
          let ts = takeWhile (\<lambda>c. c \<noteq> CHR '']'') l1; r1 = dropWhile (\<lambda>c. c \<noteq> CHR '']'') l1
          in if b \<noteq> CHR ''['' \<or> ts = [] \<or> r1 = [] then None
             else case spaces1 (tl r1) of
                    None \<Rightarrow> None
                  | Some r2 \<Rightarrow>
                      if \<not> starts_with ''[m6_2'' r2 then None
                      else case spaces1 (drop 5 r2) of
                             None \<Rightarrow> None
                           | Some r3 \<Rightarrow>
                               let tag = takeWhile is_tag_char r3; r4 = dropWhile is_tag_char r3
                               in if tag = [] then None
                                  else case r4 of
                                         [] \<Rightarrow> None
                                       | d # r5 \<Rightarrow> if d \<noteq> CHR '']'' then None
                                                  else Some (ts, tag, dropWhile is_space r5))"

text \<open>\<open>s.split()\<close>.\<close>

fun split_ws_from :: "string \<Rightarrow> string \<Rightarrow> string list" where
  "split_ws_from cur [] = (if cur = [] then [] else [rev cur])"
| "split_ws_from cur (c # cs) =
     (if is_space c then (if cur = [] then split_ws_from [] cs else rev cur # split_ws_from [] cs)
      else split_ws_from (c # cur) cs)"

definition split_ws :: "string \<Rightarrow> string list" where
  "split_ws = split_ws_from []"

text \<open>One token of the fields, with the dictionary's last value winning.\<close>

definition add_field :: "string \<Rightarrow> (string \<times> string) list \<Rightarrow> (string \<times> string) list" where
  "add_field token d =
     (if \<not> List.member token (CHR ''='') then d
      else AList.update (before_first (CHR ''='') token) (tl (dropWhile (\<lambda>c. c \<noteq> CHR ''='') token)) d)"

definition parse_fields :: "string \<Rightarrow> (string \<times> string) list" where
  "parse_fields raw = fold add_field (split_ws (py_strip raw)) []"

definition parse_progress_line :: "string \<Rightarrow> progress_event option" where
  "parse_progress_line line = (case match_progress line of
     None \<Rightarrow> None
   | Some (ts, tag, raw) \<Rightarrow> Some \<lparr>pv_ts = ts, pv_tag = tag, pv_fields = parse_fields raw\<rparr>)"

text \<open>A log that is missing or cannot be read is \<open>None\<close>.\<close>

definition parse_progress_events :: "string option \<Rightarrow> progress_event list" where
  "parse_progress_events log_text = (case log_text of
     None \<Rightarrow> [] | Some t \<Rightarrow> List.map_filter parse_progress_line (splitlines t))"

section \<open>Times\<close>

datatype py_datetime = Aware real | Naive real

definition replace_Z :: "string \<Rightarrow> string" where
  "replace_Z s = concat (map (\<lambda>c. if c = CHR ''Z'' then ''+00:00'' else [c]) s)"

definition parse_utc :: "(string \<Rightarrow> py_datetime option) \<Rightarrow> string \<Rightarrow> py_datetime option" where
  "parse_utc fromiso ts = fromiso (replace_Z ts)"

text \<open>\<open>(now_utc - start).total_seconds()\<close> for an aware \<open>now_utc\<close>.\<close>

definition elapsed_since :: "real \<Rightarrow> py_datetime \<Rightarrow> real py_result" where
  "elapsed_since now start = (case start of
     Aware t \<Rightarrow> Inr (now - t)
   | Naive t \<Rightarrow> Inl (type_error ''can't subtract offset-naive and offset-aware datetimes''))"

text \<open>
  The artifact on disk: \<open>None\<close> when no path was given or there is no file, otherwise what \<open>stat\<close> says,
  \<open>None\<close> for an \<open>OSError\<close>. \<open>local_time\<close> gives the time stamp of a naive time.
\<close>

definition compute_artifact_present ::
  "(string \<Rightarrow> py_datetime option) \<Rightarrow> (real \<Rightarrow> real) \<Rightarrow> real option option \<Rightarrow> string option \<Rightarrow> bool" where
  "compute_artifact_present fromiso local_time artifact sweep_start_utc =
     (case artifact of
        None \<Rightarrow> False
      | Some mtime \<Rightarrow> (case sweep_start_utc of
          None \<Rightarrow> False
        | Some s \<Rightarrow> (case parse_utc fromiso s of
            None \<Rightarrow> False
          | Some start \<Rightarrow> (case mtime of
              None \<Rightarrow> False
            | Some m \<Rightarrow> m > (case start of Aware t \<Rightarrow> t | Naive t \<Rightarrow> local_time t)))))"

definition fmt_duration :: "real option \<Rightarrow> string" where
  "fmt_duration seconds = (case seconds of
     None \<Rightarrow> DASH
   | Some x \<Rightarrow>
       if x < 0 then DASH
       else (let s = trunc_real x; h = s div 3600; r = s mod 3600; m = r div 60
             in str_int h @ ''h '' @ zero_pad 2 (str_nat (nat m)) @ ''m''))"

section \<open>Process and network\<close>

definition is_process_alive :: "unit py_result \<Rightarrow> bool option py_result" where
  "is_process_alive kill_result = (case kill_result of
     Inr _ \<Rightarrow> Inr (Some True)
   | Inl e \<Rightarrow>
       if isinstance e ''ProcessLookupError'' then Inr (Some False)
       else if isinstance e ''PermissionError'' then Inr (Some True)
       else if isinstance e ''OSError'' then Inr None
       else Inl e)"

text \<open>
  What the byte counters can be read from: \<open>psutil\<close> (\<open>None\<close> when it cannot be imported) with its
  counters per interface and in all, the text of \<open>/proc/net/dev\<close> (\<open>None\<close> when the file does not exist,
  the left value when reading it is an \<open>OSError\<close>), and the output of \<open>netstat -ibn\<close> likewise.
\<close>

record net_sources =
  ne_psutil :: "((string \<times> (int \<times> int)) list \<times> (int \<times> int)) option"
  ne_proc_net :: "(unit + string) option"
  ne_netstat :: "(unit + string) option"

text \<open>\<open>if iface:\<close> is false for the empty name too.\<close>

definition iface_given :: "string option \<Rightarrow> bool" where
  "iface_given iface = truthy iface"

definition proc_net_line :: "string option \<Rightarrow> string \<Rightarrow> int py_result" where
  "proc_net_line iface line =
     (if iface_given iface \<and> \<not> starts_with (the iface @ '':'') (dropWhile is_space line) then Inr 0
      else let parts = split_ws line
           in if length parts < 10 then Inr 0
              else bind_result (int_of_str (parts ! 1)) (\<lambda>a.
                   bind_result (int_of_str (parts ! 9)) (\<lambda>b. Inr (a + b))))"

definition read_proc_net :: "string option \<Rightarrow> string \<Rightarrow> int option" where
  "read_proc_net iface content =
     or_none (bind_result (map_result (proc_net_line iface) (drop 2 (splitlines content)))
                (\<lambda>ns. Inr (sum_list ns)))"

definition netstat_line :: "string option \<Rightarrow> string \<Rightarrow> int" where
  "netstat_line iface line =
     (let parts = split_ws line
      in if length parts < 10 \<or> (iface_given iface \<and> parts ! 0 \<noteq> the iface) then 0
         else case (int_of_str (parts ! 6), int_of_str (parts ! 9)) of
                (Inr a, Inr b) \<Rightarrow> a + b | _ \<Rightarrow> 0)"

definition read_net_bytes :: "net_sources \<Rightarrow> string option \<Rightarrow> int option" where
  "read_net_bytes src iface = (case ne_psutil src of
     Some (per_nic, all_nics) \<Rightarrow>
       if iface_given iface
       then map_option (\<lambda>(sent, recv). sent + recv) (map_of per_nic (the iface))
       else Some (fst all_nics + snd all_nics)
   | None \<Rightarrow> (case ne_proc_net src of
       Some (Inl _) \<Rightarrow> None
     | Some (Inr content) \<Rightarrow> read_proc_net iface content
     | None \<Rightarrow> (case ne_netstat src of
         Some (Inr out) \<Rightarrow> Some (sum_list (map (netstat_line iface) (tl (splitlines out))))
       | _ \<Rightarrow> None)))"

section \<open>The snapshot\<close>

datatype subprobe_state = Pending | Running | Done_Probe

primrec subprobe_name :: "subprobe_state \<Rightarrow> string" where
  "subprobe_name Pending = ''pending''"
| "subprobe_name Running = ''running''"
| "subprobe_name Done_Probe = ''done''"

record sweep_state =
  st_sweep_start_utc :: "string option"
  st_sweep_end_utc :: "string option"
  st_mode :: "string option"
  st_expected_blocks :: "int option"
  st_expected_tuples :: "int option"
  st_blocks_done :: int
  st_tuple_idx :: "int option"
  st_current_cell :: "string option"
  st_current_max_tokens :: "string option"
  st_last_block_wall_p50_ms :: "real option"
  st_last_event_ts :: "string option"
  st_subprobe_state :: subprobe_state

definition initial_sweep_state :: sweep_state where
  "initial_sweep_state =
     \<lparr>st_sweep_start_utc = None, st_sweep_end_utc = None, st_mode = None, st_expected_blocks = None,
      st_expected_tuples = None, st_blocks_done = 0, st_tuple_idx = None, st_current_cell = None,
      st_current_max_tokens = None, st_last_block_wall_p50_ms = None, st_last_event_ts = None,
      st_subprobe_state = Pending\<rparr>"

definition field :: "progress_event \<Rightarrow> string \<Rightarrow> string option" where
  "field ev k = map_of (pv_fields ev) k"

definition field_or :: "progress_event \<Rightarrow> string \<Rightarrow> string \<Rightarrow> string" where
  "field_or ev k fallback = (case field ev k of Some v \<Rightarrow> v | None \<Rightarrow> fallback)"

text \<open>\<open>int(s) or None\<close>.\<close>

definition nonzero :: "int \<Rightarrow> int option" where
  "nonzero i = (if i = 0 then None else Some i)"

text \<open>The number before the slash of an \<open>i=a/b\<close> field.\<close>

definition slash_number :: "progress_event \<Rightarrow> int option" where
  "slash_number ev = (let i_field = field_or ev ''i'' []
     in if List.member i_field (CHR ''/'') then or_none (int_of_str (before_first (CHR ''/'') i_field))
        else None)"

definition on_event :: "progress_event \<Rightarrow> sweep_state \<Rightarrow> sweep_state" where
  "on_event ev st0 =
     (let st = st0\<lparr>st_last_event_ts := Some (pv_ts ev)\<rparr>; tag = pv_tag ev
      in if tag = ''SWEEP_START'' then
           (let st1 = st\<lparr>st_sweep_start_utc := or_else (field ev ''utc'') (Some (pv_ts ev)),
                         st_mode := field ev ''mode''\<rparr>
            in case int_of_str (field_or ev ''expected_blocks'' ''0'') of
                 Inl _ \<Rightarrow> st1
               | Inr b \<Rightarrow>
                   (let st2 = st1\<lparr>st_expected_blocks := nonzero b\<rparr>
                    in case int_of_str (field_or ev ''expected_tuples'' ''0'') of
                         Inl _ \<Rightarrow> st2
                       | Inr t \<Rightarrow> st2\<lparr>st_expected_tuples := nonzero t\<rparr>))
         else if tag = ''TUPLE_START'' then
           st\<lparr>st_tuple_idx := (case slash_number ev of Some n \<Rightarrow> Some n | None \<Rightarrow> st_tuple_idx st),
              st_current_cell := field ev ''cell'', st_current_max_tokens := field ev ''max_tokens''\<rparr>
         else if tag = ''BLOCK_DONE'' then
           (let st1 = (case slash_number ev of
                         Some cur \<Rightarrow> if cur > st_blocks_done st then st\<lparr>st_blocks_done := cur\<rparr> else st
                       | None \<Rightarrow> st);
                wall = field ev ''wall_p50_ms''
            in if truthy wall \<and> wall \<noteq> Some DASH
               then (case py_float (the wall) of
                       Some w \<Rightarrow> st1\<lparr>st_last_block_wall_p50_ms := Some w\<rparr> | None \<Rightarrow> st1)
               else st1)
         else if tag = ''SUBPROBE_START'' then st\<lparr>st_subprobe_state := Running\<rparr>
         else if tag = ''SUBPROBE_END'' then st\<lparr>st_subprobe_state := Done_Probe\<rparr>
         else if tag = ''SWEEP_END'' then
           st\<lparr>st_sweep_end_utc := or_else (field ev ''utc'') (Some (pv_ts ev))\<rparr>
         else st)"

definition derive_sweep_state :: "progress_event list \<Rightarrow> sweep_state" where
  "derive_sweep_state events = fold on_event events initial_sweep_state"

section \<open>The estimate and the status line\<close>

definition compute_eta_seconds ::
  "(string \<Rightarrow> py_datetime option) \<Rightarrow> sweep_state \<Rightarrow> real \<Rightarrow> real option py_result" where
  "compute_eta_seconds fromiso st now =
     (if \<not> truthy (st_sweep_start_utc st) \<or> st_blocks_done st = 0
         \<or> st_expected_blocks st = None \<or> st_expected_blocks st = Some 0 then Inr None
      else case parse_utc fromiso (the (st_sweep_start_utc st)) of
             None \<Rightarrow> Inr None
           | Some start \<Rightarrow> bind_result (elapsed_since now start) (\<lambda>elapsed.
               let expected = the (st_expected_blocks st); done_n = st_blocks_done st
               in if elapsed \<le> 0 \<or> done_n \<ge> expected then Inr (Some 0)
                  else Inr (Some (elapsed * real_of_int (expected - done_n) / real_of_int done_n))))"

text \<open>\<open>f"{x:.0f}"\<close>.\<close>

definition fmt_round :: "real \<Rightarrow> string" where
  "fmt_round x = (if x < 0 then ''-'' else []) @ str_nat (nat (round_half_even \<bar>x\<bar>))"

definition positive_int :: "int option \<Rightarrow> bool" where
  "positive_int x \<longleftrightarrow> (case x of None \<Rightarrow> False | Some n \<Rightarrow> n \<noteq> 0)"

definition format_status_line ::
  "(string \<Rightarrow> py_datetime option) \<Rightarrow> real \<Rightarrow> string \<Rightarrow> sweep_state \<Rightarrow> real option \<Rightarrow> bool option
     \<Rightarrow> bool \<Rightarrow> string py_result" where
  "format_status_line fromiso now now_text st net_rate alive artifact_present =
     bind_result
       (if truthy (st_sweep_start_utc st)
        then (case parse_utc fromiso (the (st_sweep_start_utc st)) of
                None \<Rightarrow> Inr None
              | Some start \<Rightarrow> bind_result (elapsed_since now start) (\<lambda>x. Inr (Some x)))
        else Inr None) (\<lambda>elapsed.
     bind_result (compute_eta_seconds fromiso st now) (\<lambda>eta.
       let pct = (if positive_int (st_expected_blocks st) \<and> st_blocks_done st \<noteq> 0
                  then ''('' @ fmt_round (100 * real_of_int (st_blocks_done st)
                         / real_of_int (the (st_expected_blocks st))) @ ''%)''
                  else ''('' @ DASH @ '')'');
           blocks = (if positive_int (st_expected_blocks st)
                     then str_int (st_blocks_done st) @ ''/'' @ str_int (the (st_expected_blocks st))
                     else str_int (st_blocks_done st) @ ''/'' @ DASH);
           tuple_text = (if positive_int (st_tuple_idx st) \<and> positive_int (st_expected_tuples st)
                         then str_int (the (st_tuple_idx st)) @ ''/'' @ str_int (the (st_expected_tuples st))
                         else DASH);
           cell = (if truthy (st_current_cell st) \<and> truthy (st_current_max_tokens st)
                   then the (st_current_cell st) @ TIMES_SIGN @ the (st_current_max_tokens st) else DASH);
           alive_text = (case alive of None \<Rightarrow> ''unknown'' | Some b \<Rightarrow> if b then ''yes'' else ''no'');
           net = (case net_rate of Some r \<Rightarrow> fmt_fixed 2 r @ ''MB/s'' | None \<Rightarrow> DASH);
           wall = (case st_last_block_wall_p50_ms st of Some w \<Rightarrow> fmt_round w @ ''ms'' | None \<Rightarrow> DASH)
       in Inr (''['' @ now_text @ ''] elapsed='' @ fmt_duration elapsed @ '' blocks='' @ blocks @ '' '' @ pct
           @ '' tuple='' @ tuple_text @ '' cell='' @ cell @ '' recent_wall_p50='' @ wall
           @ '' eta='' @ fmt_duration eta @ '' net_rate='' @ net
           @ '' subprobe='' @ subprobe_name (st_subprobe_state st) @ '' alive='' @ alive_text
           @ '' artifact='' @ (if artifact_present then ''yes'' else ''no''))))"

section \<open>The loop\<close>

record monitor_args =
  ma_pid :: "int option"
  ma_iface :: "string option"
  ma_once :: bool

text \<open>Everything one tick reads.\<close>

record tick =
  tk_now :: real
  tk_now_text :: string
  tk_mono :: real
  tk_log :: "string option"
  tk_net :: net_sources
  tk_kill :: "unit py_result"
  tk_artifact :: "real option option"

record monitor_env =
  me_iso :: "string \<Rightarrow> py_datetime option"
  me_local_time :: "real \<Rightarrow> real"

datatype tick_verdict = Keep_Watching | Process_Gone | Sweep_Completed

definition tick_snapshot :: "tick \<Rightarrow> sweep_state" where
  "tick_snapshot tk = derive_sweep_state (parse_progress_events (tk_log tk))"

definition tick_alive :: "monitor_args \<Rightarrow> tick \<Rightarrow> bool option py_result" where
  "tick_alive args tk =
     (case ma_pid args of
        None \<Rightarrow> Inr None
      | Some pid \<Rightarrow> if pid = 0 then Inr None else is_process_alive (tk_kill tk))"

definition tick_artifact_present :: "monitor_env \<Rightarrow> tick \<Rightarrow> bool" where
  "tick_artifact_present env tk =
     (let st = tick_snapshot tk
      in st_sweep_end_utc st \<noteq> None
         \<and> compute_artifact_present (me_iso env) (me_local_time env) (tk_artifact tk)
             (st_sweep_start_utc st))"

definition net_rate_of :: "(int option \<times> real) option \<Rightarrow> int option \<Rightarrow> real \<Rightarrow> real option" where
  "net_rate_of prior cur now = (case (prior, cur) of
     (Some (Some b0, t0), Some b1) \<Rightarrow>
       (let dt = now - t0 in if dt > 0 then Some (real_of_int (b1 - b0) / dt / 1000000) else None)
   | _ \<Rightarrow> None)"

text \<open>One tick prints its status line and, in interval mode, decides whether to stop.\<close>

definition monitor_tick ::
  "monitor_env \<Rightarrow> monitor_args \<Rightarrow> (int option \<times> real) option \<Rightarrow> tick
     \<Rightarrow> (string \<times> (int option \<times> real) \<times> tick_verdict) py_result" where
  "monitor_tick env args prior tk =
     (let st = tick_snapshot tk; cur = read_net_bytes (tk_net tk) (ma_iface args);
          rate = net_rate_of prior cur (tk_mono tk)
      in bind_result (tick_alive args tk) (\<lambda>alive.
         let present = tick_artifact_present env tk
         in bind_result (format_status_line (me_iso env) (tk_now tk) (tk_now_text tk) st rate alive present)
              (\<lambda>line.
            let verdict = (if ma_once args then Keep_Watching
                           else if alive = Some False then Process_Gone
                           else if st_sweep_end_utc st \<noteq> None \<and> present then Sweep_Completed
                           else Keep_Watching)
            in Inr (line, (cur, tk_mono tk), verdict))))"

text \<open>
  \<open>iter_ticks\<close> and the loop of \<open>main\<close>: with \<open>--once\<close> one tick, otherwise tick after tick until one
  stops it. \<open>None\<close> says that the given ticks were used up with the loop still running. The result is
  the lines printed and the exit code, 0 always.
\<close>

fun monitor_loop ::
  "monitor_env \<Rightarrow> monitor_args \<Rightarrow> (int option \<times> real) option \<Rightarrow> tick list
     \<Rightarrow> (string list \<times> int option) py_result" where
  "monitor_loop env args prior [] = Inr ([], None)"
| "monitor_loop env args prior (tk # tks) =
     bind_result (monitor_tick env args prior tk) (\<lambda>(line, prior', verdict).
       case verdict of
         Process_Gone \<Rightarrow> Inr ([line, ''['' @ tk_now_text tk @ ''] orchestrator PID '' @ str_int (the (ma_pid args))
                               @ '' no longer alive '' @ DASH @ '' exiting monitor.''], Some 0)
       | Sweep_Completed \<Rightarrow> Inr ([line, ''['' @ tk_now_text tk @ ''] sweep completed (SWEEP_END seen + artifact present) ''
                               @ DASH @ '' exiting monitor.''], Some 0)
       | Keep_Watching \<Rightarrow>
           if ma_once args then Inr ([line], Some 0)
           else bind_result (monitor_loop env args (Some prior') tks) (\<lambda>(lines, code).
                  Inr (line # lines, code)))"

definition monitor_main :: "monitor_env \<Rightarrow> monitor_args \<Rightarrow> tick list \<Rightarrow> (string list \<times> int option) py_result" where
  "monitor_main env args ticks = monitor_loop env args None ticks"

end
