(* ===== verification/Gen_Chat_Corpus.thy ===== *)
theory Gen_Chat_Corpus
  imports Prompts Py_Text
begin

text \<open>
  \<open>scripts/python/gen_chat_corpus.py\<close>: the chat corpus the harness measures with, subset from the
  pinned ShareGPT file. The disk is an explicit state, a map from paths to contents. SHA-256, the JSON
  codec (with the decoding of the file's bytes), \<open>random.Random(seed).sample\<close> and the HTTP answer are arguments. The printed progress lines
  are left out, and so is the creation of the output directories.
\<close>

type_synonym disk = "string \<Rightarrow> string option"

abbreviation runtime_error :: "string \<Rightarrow> py_exn" where
  "runtime_error m \<equiv> Exn ''RuntimeError'' m"

section \<open>The pinned source\<close>

definition SHAREGPT_REPO :: string where
  "SHAREGPT_REPO = ''anon8231489123/ShareGPT_Vicuna_unfiltered''"

definition SHAREGPT_FILE :: string where
  "SHAREGPT_FILE = ''ShareGPT_V3_unfiltered_cleaned_split.json''"

definition SHAREGPT_REVISION :: string where
  "SHAREGPT_REVISION = ''192ab2185289094fc556ec8ce5ce1e8e587154ca''"

definition SHAREGPT_URL :: string where
  "SHAREGPT_URL = ''https://huggingface.co/datasets/'' @ SHAREGPT_REPO @ ''/resolve/'' @ SHAREGPT_REVISION
     @ ''/'' @ SHAREGPT_FILE"

definition SHAREGPT_FILE_SHA256_EXPECTED :: string where
  "SHAREGPT_FILE_SHA256_EXPECTED = ''35f0e213ce091ed9b9af2a1f0755e9d39f9ccec34ab281cd4ca60d70f6479ba4''"

definition bucket_for_prompt :: "string \<Rightarrow> string" where
  "bucket_for_prompt prompt =
     (let n = length prompt in if n \<le> 100 then ''short'' else if n \<le> 500 then ''medium'' else ''long'')"

section \<open>The download\<close>

text \<open>
  The answer to the GET: what \<open>raise_for_status\<close> raises, the \<open>content-length\<close> header, the chunks the
  body iterator yields, and what it raises after them.
\<close>

record http_answer =
  ha_status_error :: "py_exn option"
  ha_content_length :: "string option"
  ha_chunks :: "string list"
  ha_broken :: "py_exn option"

text \<open>The loop over the chunks: each is appended to the open file and fed to the hasher.\<close>

fun receive :: "string \<Rightarrow> string list \<Rightarrow> disk \<times> string \<Rightarrow> disk \<times> string" where
  "receive cache [] s = s"
| "receive cache (c # cs) (d, hashed) =
     receive cache cs (d(cache \<mapsto> (case d cache of None \<Rightarrow> c | Some w \<Rightarrow> w @ c)), hashed @ c)"

definition content_length :: "http_answer \<Rightarrow> int py_result" where
  "content_length a = (case ha_content_length a of None \<Rightarrow> Inr 0 | Some s \<Rightarrow> int_of_str s)"

text \<open>
  The \<open>with\<close> block and what follows it. A failed connection (\<open>Inl\<close>) comes before the cache file is
  opened; opening it for writing empties it.
\<close>

definition fetch_sharegpt ::
  "(string \<Rightarrow> string) \<Rightarrow> bool \<Rightarrow> string \<Rightarrow> http_answer py_result \<Rightarrow> disk \<Rightarrow> string py_result \<times> disk" where
  "fetch_sharegpt sha verify cache answer d = (case answer of
     Inl exc \<Rightarrow> (Inl exc, d)
   | Inr a \<Rightarrow>
       (let opened = d(cache \<mapsto> [])
        in case ha_status_error a of
             Some exc \<Rightarrow> (Inl exc, opened)
           | None \<Rightarrow> (case content_length a of
               Inl exc \<Rightarrow> (Inl exc, opened)
             | Inr total_bytes \<Rightarrow>
                 (let (d', hashed) = receive cache (ha_chunks a) (opened, [])
                  in case ha_broken a of
                       Some exc \<Rightarrow> (Inl exc, d')
                     | None \<Rightarrow>
                         if verify \<and> SHAREGPT_FILE_SHA256_EXPECTED \<noteq> []
                              \<and> sha hashed \<noteq> SHAREGPT_FILE_SHA256_EXPECTED
                         then (Inl (runtime_error ''Downloaded ShareGPT V3 hash mismatch''), d'(cache := None))
                         else (Inr (sha hashed), d')))))"

definition download_sharegpt ::
  "(string \<Rightarrow> string) \<Rightarrow> bool \<Rightarrow> string \<Rightarrow> http_answer py_result \<Rightarrow> disk \<Rightarrow> string py_result \<times> disk" where
  "download_sharegpt sha verify cache answer d = (case d cache of
     Some bytes \<Rightarrow>
       if \<not> verify \<or> sha bytes = SHAREGPT_FILE_SHA256_EXPECTED then (Inr (sha bytes), d)
       else fetch_sharegpt sha verify cache answer d
   | None \<Rightarrow> fetch_sharegpt sha verify cache answer d)"

section \<open>Prompts\<close>

text \<open>The inner loop: the first human turn ends it, and its value counts when it is a string.\<close>

fun first_human :: "json list \<Rightarrow> string option py_result" where
  "first_human [] = Inr None"
| "first_human (turn # turns) =
     bind_result (json_get_or turn ''from'' JNull) (\<lambda>who.
       if who = JStr ''human''
       then bind_result (json_get_or turn ''value'' (JStr [])) (\<lambda>v.
              Inr (case v of JStr s \<Rightarrow> Some s | _ \<Rightarrow> None))
       else first_human turns)"

definition prompt_of_entry :: "json \<Rightarrow> string option py_result" where
  "prompt_of_entry entry =
     bind_result (json_get_or entry ''conversations'' (JList [])) (\<lambda>convs.
     bind_result (json_iter (if json_truthy convs then convs else JList [])) first_human)"

definition extract_first_user_prompts :: "json \<Rightarrow> string list py_result" where
  "extract_first_user_prompts raw =
     bind_result (json_iter raw) (\<lambda>entries.
     bind_result (map_result prompt_of_entry entries) (\<lambda>found. Inr (List.map_filter id found)))"

definition eligible_prompts :: "int \<Rightarrow> int \<Rightarrow> string list \<Rightarrow> string list" where
  "eligible_prompts min_chars max_chars prompts =
     filter (\<lambda>p. min_chars \<le> int (length p) \<and> int (length p) \<le> max_chars) prompts"

definition filter_and_sample ::
  "(int \<Rightarrow> string list \<Rightarrow> int \<Rightarrow> string list py_result) \<Rightarrow> string list \<Rightarrow> int \<Rightarrow> int \<Rightarrow> int \<Rightarrow> int
     \<Rightarrow> string list py_result" where
  "filter_and_sample sample prompts min_chars max_chars wanted seed =
     (let eligible = eligible_prompts min_chars max_chars prompts
      in if int (length eligible) < wanted then Inl (runtime_error ''Too few eligible prompts'')
         else sample seed eligible wanted)"

section \<open>Samples\<close>

definition sample_id :: "nat \<Rightarrow> string" where
  "sample_id i = ''sharegpt-'' @ zero_pad 4 (str_nat i)"

definition request_sample_json :: "int \<Rightarrow> string \<Rightarrow> nat \<times> string \<Rightarrow> json_dict" where
  "request_sample_json max_tokens model ip = (let (i, prompt) = ip in
     [(''id'', JStr (sample_id i)),
      (''messages'', JList [JObj [(''role'', JStr ''user''), (''content'', JStr prompt)]]),
      (''model'', JStr model), (''max_tokens'', JInt max_tokens), (''temperature'', JFloat 0),
      (''seed'', JInt 42), (''bucket'', JStr (bucket_for_prompt prompt))])"

definition to_request_samples :: "int \<Rightarrow> string \<Rightarrow> string list \<Rightarrow> json_dict list" where
  "to_request_samples max_tokens model prompts =
     map (request_sample_json max_tokens model) (enumerate 0 prompts)"

text \<open>\<open>counts[b] = counts.get(b, 0) + 1\<close>.\<close>

fun bump_count :: "string \<Rightarrow> (string \<times> int) list \<Rightarrow> (string \<times> int) list" where
  "bump_count b [] = [(b, 1)]"
| "bump_count b ((k, n) # d) = (if k = b then (k, n + 1) # d else (k, n) # bump_count b d)"

definition bucket_counts_of :: "string list \<Rightarrow> (string \<times> int) list" where
  "bucket_counts_of prompts = fold (\<lambda>p d. bump_count (bucket_for_prompt p) d) prompts []"

section \<open>The run\<close>

record gen_args =
  ga_count :: int
  ga_min_chars :: int
  ga_max_chars :: int
  ga_max_tokens :: int
  ga_seed :: int
  ga_out :: "string option"
  ga_skip_sha_verify :: bool

definition default_gen_args :: gen_args where
  "default_gen_args = \<lparr>ga_count = 1000, ga_min_chars = 4, ga_max_chars = 2048, ga_max_tokens = 128,
     ga_seed = 42, ga_out = None, ga_skip_sha_verify = False\<rparr>"

text \<open>
  \<open>ge_dumps\<close> is \<open>json.dumps(v, indent=2, ensure_ascii=False)\<close>, with sorted keys when its flag says so.
\<close>

record gen_env =
  ge_root :: string
  ge_sha256 :: "string \<Rightarrow> string"
  ge_loads :: "string \<Rightarrow> json py_result"
  ge_dumps :: "bool \<Rightarrow> json \<Rightarrow> string"
  ge_sample :: "int \<Rightarrow> string list \<Rightarrow> int \<Rightarrow> string list py_result"
  ge_answer :: "http_answer py_result"

text \<open>\<open>Path.relative_to\<close> and \<open>Path.with_suffix\<close> on normalised paths.\<close>

definition relative_to :: "string \<Rightarrow> string \<Rightarrow> string py_result" where
  "relative_to base p = (if p = base then Inr ''.''
     else if starts_with (base @ ''/'') p then Inr (drop (length base + 1) p)
     else Inl (value_error ''is not in the subpath of''))"

definition with_suffix :: "string \<Rightarrow> string \<Rightarrow> string" where
  "with_suffix p new_ext =
     (let name = rev (takeWhile (\<lambda>c. c \<noteq> CHR ''/'') (rev p));
          ext = rev (takeWhile (\<lambda>c. c \<noteq> CHR ''.'') (rev name));
          i = length name - length ext - 1
      in if List.member name (CHR ''.'') \<and> 0 < i \<and> i < length name - 1
         then take (length p - length ext - 1) p @ new_ext else p @ new_ext)"

definition cache_path_of :: "gen_env \<Rightarrow> string" where
  "cache_path_of env = path_join (path_join (ge_root env) ''bench-results/sharegpt-raw'') SHAREGPT_FILE"

definition out_path_of :: "gen_env \<Rightarrow> gen_args \<Rightarrow> string" where
  "out_path_of env args = (case ga_out args of
     Some p \<Rightarrow> p
   | None \<Rightarrow> path_join (path_join (ge_root env) ''tools/benchmark/corpus'')
              (''chat_sharegpt_'' @ str_int (ga_count args) @ ''.json''))"

definition MODEL_NAME :: string where "MODEL_NAME = ''Qwen/Qwen3-0.6B''"

definition provenance_json ::
  "gen_args \<Rightarrow> string \<Rightarrow> string \<Rightarrow> string \<Rightarrow> (string \<times> int) list \<Rightarrow> json_dict" where
  "provenance_json args rel out_sha file_sha counts =
     [(''corpus_path'', JStr rel), (''corpus_sha256'', JStr out_sha),
      (''source_repo'', JStr SHAREGPT_REPO), (''source_file'', JStr SHAREGPT_FILE),
      (''source_revision_sha'', JStr SHAREGPT_REVISION), (''source_url'', JStr SHAREGPT_URL),
      (''source_file_sha256'', JStr file_sha),
      (''filter'', JObj [(''first_human_turn_only'', JBool True),
         (''min_chars'', JInt (ga_min_chars args)), (''max_chars'', JInt (ga_max_chars args))]),
      (''subset'', JObj [(''count'', JInt (ga_count args)), (''random_seed'', JInt (ga_seed args))]),
      (''schema'', JObj [(''max_tokens'', JInt (ga_max_tokens args)), (''temperature'', JFloat 0),
         (''seed'', JInt 42), (''model'', JStr MODEL_NAME)]),
      (''bucket_distribution'', JObj (map (\<lambda>(b, n). (b, JInt n)) counts))]"

text \<open>From the parsed prompts on: sample, write the corpus, then its provenance.\<close>

definition write_corpus ::
  "gen_env \<Rightarrow> gen_args \<Rightarrow> string \<Rightarrow> string list \<Rightarrow> disk \<Rightarrow> int py_result \<times> disk" where
  "write_corpus env args file_sha prompts d =
     (case filter_and_sample (ge_sample env) prompts (ga_min_chars args) (ga_max_chars args)
             (ga_count args) (ga_seed args) of
        Inl exc \<Rightarrow> (Inl exc, d)
      | Inr sampled \<Rightarrow>
          (let samples = to_request_samples (ga_max_tokens args) MODEL_NAME sampled;
               out_path = out_path_of env args;
               body = ge_dumps env False (JList (map JObj samples)) @ [LF];
               d1 = d(out_path \<mapsto> body)
           in case relative_to (ge_root env) out_path of
                Inl exc \<Rightarrow> (Inl exc, d1)
              | Inr rel \<Rightarrow>
                  (Inr 0, d1(with_suffix out_path ''.provenance.json'' \<mapsto>
                     ge_dumps env True (JObj (provenance_json args rel (ge_sha256 env body) file_sha
                       (bucket_counts_of sampled))) @ [LF]))))"

definition gen_chat_corpus_main :: "gen_env \<Rightarrow> gen_args \<Rightarrow> disk \<Rightarrow> int py_result \<times> disk" where
  "gen_chat_corpus_main env args d0 =
     (let cache = cache_path_of env
      in case download_sharegpt (ge_sha256 env) (\<not> ga_skip_sha_verify args) cache (ge_answer env) d0 of
           (Inl exc, d) \<Rightarrow> (Inl exc, d)
         | (Inr file_sha, d) \<Rightarrow>
             (case bind_result (case d cache of None \<Rightarrow> Inl (file_not_found cache) | Some t \<Rightarrow> ge_loads env t)
                     extract_first_user_prompts of
                Inl exc \<Rightarrow> (Inl exc, d)
              | Inr prompts \<Rightarrow> write_corpus env args file_sha prompts d))"

section \<open>Lemmas: the download\<close>

lemma receive_body:
  "d cache = Some w \<Longrightarrow> receive cache cs (d, h) = (d(cache \<mapsto> w @ concat cs), h @ concat cs)"
  by (induction cs arbitrary: d w h) auto

lemma fetch_ok:
  "fetch_sharegpt sha verify cache answer d = (Inr h, d') \<longleftrightarrow>
     (\<exists>a n. answer = Inr a \<and> ha_status_error a = None \<and> content_length a = Inr n \<and> ha_broken a = None
        \<and> (verify \<longrightarrow> sha (concat (ha_chunks a)) = SHAREGPT_FILE_SHA256_EXPECTED)
        \<and> h = sha (concat (ha_chunks a)) \<and> d' = d(cache \<mapsto> concat (ha_chunks a)))"
  by (auto simp: fetch_sharegpt_def Let_def receive_body SHAREGPT_FILE_SHA256_EXPECTED_def
      split: sum.splits option.splits if_splits)

lemma fetch_touches_cache_only:
  "p \<noteq> cache \<Longrightarrow> snd (fetch_sharegpt sha verify cache answer d) p = d p"
  by (auto simp: fetch_sharegpt_def Let_def receive_body split: sum.splits option.splits)

lemma download_ok:
  "download_sharegpt sha verify cache answer d = (Inr h, d') \<Longrightarrow>
     \<exists>bytes. d' cache = Some bytes \<and> h = sha bytes \<and> (verify \<longrightarrow> h = SHAREGPT_FILE_SHA256_EXPECTED)"
  by (auto simp: download_sharegpt_def fetch_ok split: option.splits if_splits)

lemma download_touches_cache_only:
  "p \<noteq> cache \<Longrightarrow> snd (download_sharegpt sha verify cache answer d) p = d p"
  by (auto simp: download_sharegpt_def fetch_touches_cache_only split: option.splits)

end
