(* ===== verification/Gen_Corpus_Laws.thy ===== *)
theory Gen_Corpus_Laws
  imports Gen_Chat_Corpus
begin

text \<open>
  The corpus generators and the loaders fit: what \<open>gen_chat_corpus.py\<close> writes passes the gate and the
  parser of \<open>corpus.py\<close>. The loaders' environment is a view of the generators' disk.
\<close>

section \<open>The loaders' view of the disk\<close>

definition str_item :: "json option \<Rightarrow> string option" where
  "str_item v = (case v of Some (JStr s) \<Rightarrow> Some s | _ \<Rightarrow> None)"

definition int_item :: "json option \<Rightarrow> int option" where
  "int_item v = (case v of Some (JInt i) \<Rightarrow> Some i | _ \<Rightarrow> None)"

definition real_item :: "json option \<Rightarrow> real option" where
  "real_item v = (case v of Some (JFloat x) \<Rightarrow> Some x | Some (JInt i) \<Rightarrow> Some (real_of_int i) | _ \<Rightarrow> None)"

fun str_entries :: "json \<Rightarrow> (string \<times> string) list" where
  "str_entries (JObj kvs) = List.map_filter (\<lambda>(k, v). map_option (Pair k) (str_item (Some v))) kvs"
| "str_entries _ = []"

fun json_items :: "json \<Rightarrow> json list" where
  "json_items (JList xs) = xs"
| "json_items _ = []"

definition messages_item :: "json option \<Rightarrow> chat_message list option" where
  "messages_item v = (case v of Some (JList ms) \<Rightarrow> Some (map str_entries ms) | _ \<Rightarrow> None)"

fun chat_item_view :: "json \<Rightarrow> raw_chat_item" where
  "chat_item_view (JObj kvs) =
     \<lparr>ri_id = str_item (map_of kvs ''id''), ri_messages = messages_item (map_of kvs ''messages''),
      ri_model = str_item (map_of kvs ''model''), ri_max_tokens = int_item (map_of kvs ''max_tokens''),
      ri_temperature = real_item (map_of kvs ''temperature''), ri_seed = int_item (map_of kvs ''seed''),
      ri_bucket = str_item (map_of kvs ''bucket'')\<rparr>"
| "chat_item_view _ = \<lparr>ri_id = None, ri_messages = None, ri_model = None, ri_max_tokens = None,
      ri_temperature = None, ri_seed = None, ri_bucket = None\<rparr>"

definition corpus_view :: "gen_env \<Rightarrow> disk \<Rightarrow> corpus_env" where
  "corpus_view env d =
     \<lparr>env_read = d, env_is_dir = (\<lambda>_. True), env_sha256 = ge_sha256 env,
      env_loads_chat = (\<lambda>t. map_sum id (\<lambda>j. map chat_item_view (json_items j)) (ge_loads env t)),
      env_loads_text = (\<lambda>_. Inr []), env_loads_embeds = (\<lambda>_. Inr []),
      env_loads_manifest = (\<lambda>_. Inl (Exn ''X'' [])),
      env_loads_provenance = (\<lambda>t. map_sum id str_entries (ge_loads env t)), env_torch_resave = None\<rparr>"

text \<open>
  What is relied on outside the source: \<open>random.sample\<close> chooses without replacement, and
  \<open>json.loads\<close> undoes \<open>json.dumps\<close> on the value at hand; with sorted keys it gives the strings of the
  dict back under their keys.
\<close>

definition sampler_law :: "(int \<Rightarrow> string list \<Rightarrow> int \<Rightarrow> string list py_result) \<Rightarrow> bool" where
  "sampler_law sample \<longleftrightarrow>
     (\<forall>seed pop k xs. sample seed pop k = Inr xs \<longrightarrow> int (length xs) = k \<and> mset xs \<subseteq># mset pop)"

definition reads_back :: "gen_env \<Rightarrow> json \<Rightarrow> bool" where
  "reads_back env v \<longleftrightarrow> ge_loads env (ge_dumps env False v @ [LF]) = Inr v"

definition reads_back_sorted :: "gen_env \<Rightarrow> json_dict \<Rightarrow> bool" where
  "reads_back_sorted env kvs \<longleftrightarrow>
     (\<exists>kvs'. ge_loads env (ge_dumps env True (JObj kvs) @ [LF]) = Inr (JObj kvs')
        \<and> map_of (str_entries (JObj kvs')) = map_of (str_entries (JObj kvs)))"

section \<open>Lemmas\<close>

lemma zero_pad_inject [simp]: "zero_pad k (str_nat i) = zero_pad k (str_nat j) \<longleftrightarrow> i = j"
  by (metis digits_val_zero_pad option.inject)

lemma sample_id_inject [simp]: "sample_id i = sample_id j \<longleftrightarrow> i = j"
  by (simp add: sample_id_def)

lemma map_result_map_ok:
  "(\<And>x. x \<in> set xs \<Longrightarrow> f (g x) = Inr (h x)) \<Longrightarrow> map_result f (map g xs) = Inr (map h xs)"
  by (induction xs) auto

definition chat_sample :: "int \<Rightarrow> nat \<times> string \<Rightarrow> request_sample" where
  "chat_sample max_tokens ip =
     \<lparr>rs_id = sample_id (fst ip), rs_messages = [[(''role'', ''user''), (''content'', snd ip)]],
      rs_model = MODEL_NAME, rs_max_tokens = max_tokens, rs_temperature = 0, rs_seed = 42,
      rs_bucket = bucket_for_prompt (snd ip)\<rparr>"

lemma sample_reads_as_request:
  "request_sample_of (chat_item_view (JObj (request_sample_json mt MODEL_NAME ip))) = Inr (chat_sample mt ip)"
  by (cases ip) (simp add: request_sample_json_def request_sample_of_def chat_sample_def need_def
      str_item_def int_item_def real_item_def messages_item_def List.map_filter_simps)

lemma sum_bump_count: "sum_list (map snd (bump_count b d)) = sum_list (map snd d) + 1"
  by (induction b d rule: bump_count.induct) auto

lemma sum_bucket_counts: "sum_list (map snd (bucket_counts_of ps)) = int (length ps)"
proof -
  have "sum_list (map snd (fold (\<lambda>p. bump_count (bucket_for_prompt p)) ps d))
      = sum_list (map snd d) + int (length ps)" for d
    by (induction ps arbitrary: d) (auto simp: sum_bump_count)
  then show ?thesis by (simp add: bucket_counts_of_def)
qed

text \<open>The provenance file is never the corpus file: the extension replaced contains no dot.\<close>

lemma with_suffix_differs:
  assumes "CHR ''.'' \<in> set (tl new_ext)" and "new_ext = CHR ''.'' # rest"
  shows "with_suffix p new_ext \<noteq> p"
proof
  define name where "name = rev (takeWhile (\<lambda>c. c \<noteq> CHR ''/'') (rev p))"
  define ext where "ext = rev (takeWhile (\<lambda>c. c \<noteq> CHR ''.'') (rev name))"
  assume eq: "with_suffix p new_ext = p"
  then have eq': "take (length p - length ext - 1) p @ new_ext = p"
    using assms(2) by (auto simp: with_suffix_def Let_def name_def[symmetric] ext_def[symmetric] split: if_split_asm)
  have "suffix ext name" "suffix name p"
    unfolding ext_def name_def suffix_to_prefix by (simp_all add: takeWhile_is_prefix)
  then have suf: "suffix ext p" by (rule suffix_order.trans)
  have nodot: "CHR ''.'' \<notin> set ext"
    unfolding ext_def by (auto dest: set_takeWhileD)
  have "length ext \<noteq> length p"
  proof
    assume len: "length ext = length p"
    obtain zs where "p = zs @ ext" using suf by (auto simp: suffix_def)
    then have "ext = p" using len by simp
    moreover have "new_ext = p" using eq' len by simp
    ultimately show False using nodot assms(2) by (metis list.set_intros(1))
  qed
  then have short: "length ext < length p" using suffix_length_le[OF suf] by simp
  have "length p = (length p - length ext - 1) + Suc (length rest)"
    using arg_cong[OF eq', of length] assms(2) by (simp add: min_def split: if_split_asm)
  then have len: "length rest = length ext" using short by linarith
  obtain q where "q @ CHR ''.'' # rest = p" using eq' assms(2) by blast
  then have 1: "p = (q @ [CHR ''.'']) @ rest" by simp
  obtain zs where 2: "p = zs @ ext" using suf by (auto simp: suffix_def)
  have "(q @ [CHR ''.'']) @ rest = zs @ ext" by (rule trans[OF 1[symmetric] 2])
  then have "rest = ext" by (simp only: append_eq_append_conv[OF disjI2[OF len]])
  then show False using assms nodot by simp
qed

section \<open>Properties\<close>

lemma provenance_sha:
  "map_of (str_entries (JObj (provenance_json args rel out_sha file_sha counts))) ''corpus_sha256'' = Some out_sha"
  by (simp add: provenance_json_def str_item_def List.map_filter_simps)

lemma loaded_corpus:
  assumes "d out = Some (ge_dumps env False (JList (map JObj (to_request_samples mt MODEL_NAME ps))) @ [LF])"
    and "reads_back env (JList (map JObj (to_request_samples mt MODEL_NAME ps)))"
  shows "load_corpus (corpus_view env d) out =
     (if ps = [] then Inl (value_error ''Corpus is empty'')
      else Inr (map (chat_sample mt) (enumerate 0 ps)))"
proof -
  have "map_result request_sample_of (map (\<lambda>ip. chat_item_view (JObj (request_sample_json mt MODEL_NAME ip)))
      (enumerate 0 ps)) = Inr (map (chat_sample mt) (enumerate 0 ps))"
    by (rule map_result_map_ok) (rule sample_reads_as_request)
  moreover have "enumerate 0 ps = [] \<longleftrightarrow> ps = []" by (cases ps) simp_all
  ultimately show ?thesis using assms
    by (simp add: load_corpus_def corpus_view_def read_text_def reads_back_def to_request_samples_def o_def)
qed

text \<open>
  C29. What the chat generator writes, the harness loads. After a run, the corpus passes the gate of its
  provenance file and loads as exactly the requested number of samples, with distinct ids, each with one
  user message taken from the eligible prompts, the fixed seed and temperature, and the bucket of its
  length; the recorded buckets add up to the count. A run with count 0 succeeds too, and the loader
  rejects what it wrote.
\<close>

theorem generated_chat_corpus_loads:
  assumes download: "download_sharegpt (ge_sha256 env) (\<not> ga_skip_sha_verify args) (cache_path_of env)
        (ge_answer env) d0 = (Inr file_sha, d1)"
    and source: "d1 (cache_path_of env) = Some t" "ge_loads env t = Inr raw"
      "extract_first_user_prompts raw = Inr prompts"
    and sampled: "filter_and_sample (ge_sample env) prompts (ga_min_chars args) (ga_max_chars args)
        (ga_count args) (ga_seed args) = Inr sampled"
    and law: "sampler_law (ge_sample env)"
    and inside: "relative_to (ge_root env) (out_path_of env args) = Inr rel"
    and codec: "reads_back env (JList (map JObj (to_request_samples (ga_max_tokens args) MODEL_NAME sampled)))"
      "reads_back_sorted env (provenance_json args rel
         (ge_sha256 env (ge_dumps env False (JList (map JObj
            (to_request_samples (ga_max_tokens args) MODEL_NAME sampled))) @ [LF]))
         file_sha (bucket_counts_of sampled))"
  shows "\<exists>d. gen_chat_corpus_main env args d0 = (Inr 0, d)
    \<and> (let loaded = load_chat_corpus (corpus_view env d) (out_path_of env args)
                       (with_suffix (out_path_of env args) ''.provenance.json'')
       in if ga_count args = 0 then loaded = Inl (value_error ''Corpus is empty'')
          else \<exists>samples. loaded = Inr samples \<and> int (length samples) = ga_count args
            \<and> distinct (map rs_id samples)
            \<and> (\<forall>s\<in>set samples. \<exists>p\<in>set prompts. ga_min_chars args \<le> int (length p)
                 \<and> int (length p) \<le> ga_max_chars args
                 \<and> rs_messages s = [[(''role'', ''user''), (''content'', p)]]
                 \<and> rs_bucket s = bucket_for_prompt p \<and> rs_max_tokens s = ga_max_tokens args
                 \<and> rs_temperature s = 0 \<and> rs_seed s = 42))
    \<and> sum_list (map snd (bucket_counts_of sampled)) = ga_count args"
proof -
  define out where "out = out_path_of env args"
  define body where "body = ge_dumps env False (JList (map JObj
      (to_request_samples (ga_max_tokens args) MODEL_NAME sampled))) @ [LF]"
  define prov where "prov = provenance_json args rel (ge_sha256 env body) file_sha (bucket_counts_of sampled)"
  define d where "d = d1(out \<mapsto> body,
      with_suffix out ''.provenance.json'' \<mapsto> ge_dumps env True (JObj prov) @ [LF])"
  have differs: "with_suffix out ''.provenance.json'' \<noteq> out"
    by (rule with_suffix_differs) simp_all
  have run: "gen_chat_corpus_main env args d0 = (Inr 0, d)"
    using download source sampled inside
    by (simp add: gen_chat_corpus_main_def write_corpus_def Let_def d_def out_def body_def prov_def)
  have sample: "int (length sampled) = ga_count args"
      "mset sampled \<subseteq># mset (eligible_prompts (ga_min_chars args) (ga_max_chars args) prompts)"
    using sampled law by (auto simp: filter_and_sample_def sampler_law_def Let_def split: if_split_asm)
  have mem: "p \<in> set prompts \<and> ga_min_chars args \<le> int (length p) \<and> int (length p) \<le> ga_max_chars args"
    if "p \<in> set sampled" for p
    using that set_mset_mono[OF sample(2)] by (auto simp: eligible_prompts_def)
  have dout: "d out = Some body" using differs by (simp add: d_def)
  obtain kvs' where kvs: "ge_loads env (ge_dumps env True (JObj prov) @ [LF]) = Inr (JObj kvs')"
      "map_of (str_entries (JObj kvs')) = map_of (str_entries (JObj prov))"
    using codec(2) unfolding prov_def body_def reads_back_sorted_def by blast
  have provenance: "load_chat_corpus_provenance (corpus_view env d) (with_suffix out ''.provenance.json'')
      = Inr (str_entries (JObj kvs'))"
    using kvs(1) by (simp add: load_chat_corpus_provenance_def corpus_view_def read_text_def d_def)
  have sha: "need ''corpus_sha256'' (map_of (str_entries (JObj kvs')) ''corpus_sha256'')
      = Inr (ge_sha256 env body)"
    unfolding kvs(2) prov_def by (simp only: provenance_sha need_def option.case)
  have gate: "verify_corpus_sha (corpus_view env d) out (ge_sha256 env body) = Inr ()"
    using dout by (simp add: verify_corpus_sha_ok_iff corpus_view_def)
  have rd: "env_read (corpus_view env d) out = Some body" using dout by (simp add: corpus_view_def)
  have loaded: "load_chat_corpus (corpus_view env d) out (with_suffix out ''.provenance.json'')
      = (if sampled = [] then Inl (value_error ''Corpus is empty'')
         else Inr (map (chat_sample (ga_max_tokens args)) (enumerate 0 sampled)))"
    using loaded_corpus[where d = d and out = out and env = env and mt = "ga_max_tokens args" and ps = sampled,
      OF dout[unfolded body_def] codec(1)] rd
    by (simp add: load_chat_corpus_def provenance sha gate del: str_entries.simps)
  have ids: "map rs_id (map (chat_sample (ga_max_tokens args)) (enumerate 0 sampled))
      = map sample_id [0 ..< length sampled]"
  proof -
    have "rs_id \<circ> chat_sample (ga_max_tokens args) = sample_id \<circ> fst" by (auto simp: chat_sample_def)
    then have "map rs_id (map (chat_sample (ga_max_tokens args)) (enumerate 0 sampled))
        = map sample_id (map fst (enumerate 0 sampled))" by (simp only: map_map)
    then show ?thesis by (simp only: map_fst_enumerate add_0)
  qed
  have "distinct (map sample_id [0 ..< length sampled])"
    by (simp add: distinct_map inj_on_def)
  moreover have "\<exists>p\<in>set prompts. ga_min_chars args \<le> int (length p)
      \<and> int (length p) \<le> ga_max_chars args
      \<and> rs_messages s = [[(''role'', ''user''), (''content'', p)]]
      \<and> rs_bucket s = bucket_for_prompt p \<and> rs_max_tokens s = ga_max_tokens args
      \<and> rs_temperature s = 0 \<and> rs_seed s = 42"
    if "s \<in> set (map (chat_sample (ga_max_tokens args)) (enumerate 0 sampled))" for s
    using that mem by (fastforce simp: chat_sample_def dest: in_set_enumerate_eq[THEN iffD1])
  ultimately show ?thesis
    using run loaded ids sample(1) unfolding out_def[symmetric]
    by (auto simp: sum_bucket_counts Let_def)
qed

text \<open>A run on a cached source of two conversations, the second of which opens with the other party.\<close>

definition demo_source :: json where
  "demo_source = JList
     [JObj [(''id'', JStr ''a''), (''conversations'', JList
        [JObj [(''from'', JStr ''human''), (''value'', JStr ''Hello there'')],
         JObj [(''from'', JStr ''gpt''), (''value'', JStr ''Hi'')]])],
      JObj [(''id'', JStr ''b''), (''conversations'', JNull)]]"

definition demo_gen_args :: gen_args where
  "demo_gen_args = default_gen_args\<lparr>ga_count := 1\<rparr>"

definition demo_provenance :: json_dict where
  "demo_provenance = provenance_json demo_gen_args ''tools/benchmark/corpus/chat_sharegpt_1.json''
     SHAREGPT_FILE_SHA256_EXPECTED SHAREGPT_FILE_SHA256_EXPECTED [(''short'', 1)]"

definition demo_gen_env :: gen_env where
  "demo_gen_env = \<lparr>ge_root = ''/repo'', ge_sha256 = (\<lambda>_. SHAREGPT_FILE_SHA256_EXPECTED),
     ge_loads = (\<lambda>t. if t = ''raw'' then Inr demo_source
                      else if t = ''corpus'' @ [LF] then Inr (JList (map JObj (to_request_samples 128 MODEL_NAME [''Hello there''])))
                      else Inr (JObj demo_provenance)),
     ge_dumps = (\<lambda>srt v. if srt then ''provenance'' else ''corpus''),
     ge_sample = (\<lambda>seed pop k. if k < 0 \<or> int (length pop) < k then Inl (value_error []) else Inr (take (nat k) pop)),
     ge_answer = Inl (Exn ''ConnectError'' [])\<rparr>"

lemma demo_sampler: "sampler_law (ge_sample demo_gen_env)"
proof -
  have "mset (take n xs) \<subseteq># mset xs" for n and xs :: "string list"
    by (metis append_take_drop_id mset_append mset_subset_eq_add_left)
  then show ?thesis by (auto simp: sampler_law_def demo_gen_env_def split: if_split_asm)
qed

theorem generated_chat_corpus_loads_witness:
  "\<exists>d samples. gen_chat_corpus_main demo_gen_env demo_gen_args
        [cache_path_of demo_gen_env \<mapsto> ''raw''] = (Inr 0, d)
     \<and> load_chat_corpus (corpus_view demo_gen_env d) (out_path_of demo_gen_env demo_gen_args)
          (with_suffix (out_path_of demo_gen_env demo_gen_args) ''.provenance.json'') = Inr samples
     \<and> length samples = 1"
proof -
  have 1: "download_sharegpt (ge_sha256 demo_gen_env) (\<not> ga_skip_sha_verify demo_gen_args)
      (cache_path_of demo_gen_env) (ge_answer demo_gen_env) [cache_path_of demo_gen_env \<mapsto> ''raw'']
      = (Inr SHAREGPT_FILE_SHA256_EXPECTED, [cache_path_of demo_gen_env \<mapsto> ''raw''])"
    by (simp add: download_sharegpt_def demo_gen_env_def)
  have 2: "ge_loads demo_gen_env ''raw'' = Inr demo_source"
    by (simp add: demo_gen_env_def)
  have 3: "extract_first_user_prompts demo_source = Inr [''Hello there'']"
    by (simp add: extract_first_user_prompts_def demo_source_def prompt_of_entry_def List.map_filter_simps)
  have 4: "filter_and_sample (ge_sample demo_gen_env) [''Hello there''] (ga_min_chars demo_gen_args)
      (ga_max_chars demo_gen_args) (ga_count demo_gen_args) (ga_seed demo_gen_args) = Inr [''Hello there'']"
    by (simp add: filter_and_sample_def eligible_prompts_def demo_gen_args_def default_gen_args_def demo_gen_env_def)
  have 5: "relative_to (ge_root demo_gen_env) (out_path_of demo_gen_env demo_gen_args)
      = Inr ''tools/benchmark/corpus/chat_sharegpt_1.json''"
    by code_simp
  have 6: "reads_back demo_gen_env (JList (map JObj (to_request_samples (ga_max_tokens demo_gen_args)
      MODEL_NAME [''Hello there''])))"
    by (simp add: reads_back_def demo_gen_env_def demo_gen_args_def default_gen_args_def)
  have 7: "bucket_counts_of [''Hello there''] = [(''short'', 1)]"
    by (simp add: bucket_counts_of_def bucket_for_prompt_def)
  have 8: "reads_back_sorted demo_gen_env (provenance_json demo_gen_args
      ''tools/benchmark/corpus/chat_sharegpt_1.json''
      (ge_sha256 demo_gen_env (ge_dumps demo_gen_env False (JList (map JObj
         (to_request_samples (ga_max_tokens demo_gen_args) MODEL_NAME [''Hello there'']))) @ [LF]))
      SHAREGPT_FILE_SHA256_EXPECTED (bucket_counts_of [''Hello there'']))"
    unfolding 7 by (simp add: reads_back_sorted_def demo_gen_env_def demo_provenance_def)
  have 9: "ga_count demo_gen_args = 1" by (simp add: demo_gen_args_def)
  show ?thesis
    using generated_chat_corpus_loads[OF 1 _ 2 3 4 demo_sampler 5 6 8] unfolding 9 by (auto simp: Let_def)
qed

lemma pin_nonempty: "SHAREGPT_FILE_SHA256_EXPECTED \<noteq> []"
  by (simp add: SHAREGPT_FILE_SHA256_EXPECTED_def)

text \<open>
  A verified download is the pinned file. With verification on, a download that succeeds leaves a
  cache whose hash is the pinned one, and a later run answers from it without the network, whatever the
  answer there; one that fails had no valid cache to begin with. Nothing but the cache file changes. An
  answer with an error status leaves the cache file empty, a stale one included, and a body of the wrong
  hash leaves none.
\<close>

theorem verified_download_is_pinned:
  assumes "download_sharegpt sha True cache answer d = (r, d')"
  shows "(\<forall>h. r = Inr h \<longrightarrow> h = SHAREGPT_FILE_SHA256_EXPECTED
            \<and> (\<exists>bytes. d' cache = Some bytes \<and> sha bytes = SHAREGPT_FILE_SHA256_EXPECTED)
            \<and> (\<forall>answer'. download_sharegpt sha True cache answer' d' = (Inr h, d')))
    \<and> (\<forall>exc bytes. r = Inl exc \<longrightarrow> d cache = Some bytes \<longrightarrow> sha bytes \<noteq> SHAREGPT_FILE_SHA256_EXPECTED)
    \<and> (\<forall>p. p \<noteq> cache \<longrightarrow> d' p = d p)
    \<and> (\<forall>a exc. r = Inl exc \<longrightarrow> answer = Inr a \<longrightarrow> ha_status_error a \<noteq> None \<longrightarrow> d' cache = Some [])
    \<and> (\<forall>a n. r \<noteq> Inr SHAREGPT_FILE_SHA256_EXPECTED \<longrightarrow> answer = Inr a \<longrightarrow> ha_status_error a = None
          \<longrightarrow> content_length a = Inr n \<longrightarrow> ha_broken a = None \<longrightarrow> d' cache = None)"
proof (intro conjI)
  show "\<forall>h. r = Inr h \<longrightarrow> h = SHAREGPT_FILE_SHA256_EXPECTED
            \<and> (\<exists>bytes. d' cache = Some bytes \<and> sha bytes = SHAREGPT_FILE_SHA256_EXPECTED)
            \<and> (\<forall>answer'. download_sharegpt sha True cache answer' d' = (Inr h, d'))"
  proof (intro allI impI)
    fix h assume "r = Inr h"
    with assms obtain bytes where "d' cache = Some bytes" "h = sha bytes" "h = SHAREGPT_FILE_SHA256_EXPECTED"
      using download_ok[of sha True cache answer d h d'] by auto
    then show "h = SHAREGPT_FILE_SHA256_EXPECTED
        \<and> (\<exists>bytes. d' cache = Some bytes \<and> sha bytes = SHAREGPT_FILE_SHA256_EXPECTED)
        \<and> (\<forall>answer'. download_sharegpt sha True cache answer' d' = (Inr h, d'))"
      by (simp add: download_sharegpt_def)
  qed
  show "\<forall>exc bytes. r = Inl exc \<longrightarrow> d cache = Some bytes \<longrightarrow> sha bytes \<noteq> SHAREGPT_FILE_SHA256_EXPECTED"
    using assms by (auto simp: download_sharegpt_def)
  show "\<forall>p. p \<noteq> cache \<longrightarrow> d' p = d p"
    using download_touches_cache_only[of _ cache sha True answer d] assms by auto
  show "\<forall>a exc. r = Inl exc \<longrightarrow> answer = Inr a \<longrightarrow> ha_status_error a \<noteq> None \<longrightarrow> d' cache = Some []"
    using assms by (auto simp: download_sharegpt_def fetch_sharegpt_def split: option.splits if_splits)
  show "\<forall>a n. r \<noteq> Inr SHAREGPT_FILE_SHA256_EXPECTED \<longrightarrow> answer = Inr a \<longrightarrow> ha_status_error a = None
          \<longrightarrow> content_length a = Inr n \<longrightarrow> ha_broken a = None \<longrightarrow> d' cache = None"
    using assms by (auto simp: pin_nonempty download_sharegpt_def fetch_sharegpt_def receive_body Let_def
        split: option.splits if_splits)
qed

theorem verified_download_is_pinned_witness:
  "\<exists>d'. download_sharegpt (\<lambda>b. if b = ''good'' then SHAREGPT_FILE_SHA256_EXPECTED else b) True ''cache''
      (Inr \<lparr>ha_status_error = None, ha_content_length = Some ''4'', ha_chunks = [''go'', ''od''], ha_broken = None\<rparr>)
      [''cache'' \<mapsto> ''stale'', ''other'' \<mapsto> ''x''] = (Inr SHAREGPT_FILE_SHA256_EXPECTED, d')
    \<and> d' ''other'' = Some ''x''"
proof -
  define sha where "sha = (\<lambda>b. if b = ''good'' then SHAREGPT_FILE_SHA256_EXPECTED else b)"
  define d' where "d' = [''cache'' \<mapsto> ''good'', ''other'' \<mapsto> ''x'']"
  have four: "int_of_str ''4'' = Inr 4" by code_simp
  have run: "download_sharegpt sha True ''cache''
      (Inr \<lparr>ha_status_error = None, ha_content_length = Some ''4'', ha_chunks = [''go'', ''od''], ha_broken = None\<rparr>)
      [''cache'' \<mapsto> ''stale'', ''other'' \<mapsto> ''x''] = (Inr SHAREGPT_FILE_SHA256_EXPECTED, d')"
    by (auto simp: download_sharegpt_def fetch_sharegpt_def content_length_def four sha_def d'_def
        SHAREGPT_FILE_SHA256_EXPECTED_def)
  show ?thesis
    using run verified_download_is_pinned[OF run] unfolding sha_def by simp
qed

end
