(* ===== verification/Gen_Embed_Corpus.thy ===== *)
theory Gen_Embed_Corpus
  imports Gen_Chat_Corpus
begin

text \<open>
  \<open>scripts/python/gen_embed_corpus_qwen3_8b.py\<close> and \<open>gen_embed_corpus.py\<close>: the prompt-embedding
  corpora and their manifests. The tokenizer, the embedding layer with \<open>torch.save\<close>, SHA-256, the JSON
  codec and the clock are the record \<open>embed_env\<close>. The disk is the state of the generators; a run keeps
  the files written before an error. Progress lines are left out, and so is \<open>mkdir\<close>.
\<close>

section \<open>Environment\<close>

text \<open>
  \<open>ee_tokenize\<close> gives the ids of one prompt, or raises; \<open>ee_embed\<close> gives the rows of the tensor the
  layer returns for a list of ids and the bytes \<open>torch.save\<close> writes for it; \<open>ee_from_pretrained\<close> is the
  loaded model's hidden size, or what loading raises.
\<close>

record embed_env =
  ee_imports :: bool
  ee_from_pretrained :: "string \<Rightarrow> string \<Rightarrow> int py_result"
  ee_tokenize :: "json \<Rightarrow> int list py_result"
  ee_embed :: "int list \<Rightarrow> int \<times> string"
  ee_sha256 :: "string \<Rightarrow> string"
  ee_loads :: "string \<Rightarrow> json py_result"
  ee_dumps :: "json \<Rightarrow> string"
  ee_now_utc :: string

text \<open>\<open>xs[:k]\<close> on a list, and on a decoded JSON value.\<close>

definition slice_to :: "int \<Rightarrow> 'a list \<Rightarrow> 'a list" where
  "slice_to k xs = (if 0 \<le> k then take (nat k) xs else take (nat (int (length xs) + k)) xs)"

fun json_slice :: "int \<Rightarrow> json \<Rightarrow> json py_result" where
  "json_slice k (JList xs) = Inr (JList (slice_to k xs))"
| "json_slice k (JStr s) = Inr (JStr (slice_to k s))"
| "json_slice k (JObj kvs) = Inl (key_error ''slice'')"
| "json_slice k _ = Inl (type_error ''object is not subscriptable'')"

section \<open>The Qwen3-8B corpus\<close>

definition bucket_of :: "int \<Rightarrow> string" where
  "bucket_of seq_len =
     (if seq_len < 16 then ''short'' else if seq_len < 128 then ''medium'' else ''long'')"

record embed_args =
  ea_output_dir :: string
  ea_model_name :: string
  ea_hidden_size :: int
  ea_dtype :: string
  ea_max_tokenized_len :: int
  ea_limit :: "int option"
  ea_source_path :: string
  ea_provenance_path :: string

definition default_embed_args :: embed_args where
  "default_embed_args =
     \<lparr>ea_output_dir = ''tools/benchmark/corpus/completions_embeds_qwen3_8b'',
      ea_model_name = ''Qwen/Qwen3-8B'', ea_hidden_size = 4096, ea_dtype = ''float16'',
      ea_max_tokenized_len = 2048, ea_limit = None,
      ea_source_path = ''tools/benchmark/corpus/chat_sharegpt_1000.json'',
      ea_provenance_path = ''tools/benchmark/corpus/chat_sharegpt_1000.provenance.json''\<rparr>"

text \<open>\<open>next(m for m in entry["messages"] if m["role"] == "user")\<close>.\<close>

fun next_user :: "json list \<Rightarrow> json py_result" where
  "next_user [] = Inl (Exn ''StopIteration'' [])"
| "next_user (m # ms) =
     bind_result (json_index m ''role'') (\<lambda>r. if r = JStr ''user'' then Inr m else next_user ms)"

definition user_prompt :: "json \<Rightarrow> json py_result" where
  "user_prompt entry =
     bind_result (json_index entry ''messages'') (\<lambda>ms.
     bind_result (json_iter ms) (\<lambda>turns.
     bind_result (next_user turns) (\<lambda>m. json_index m ''content'')))"

definition truncate_ids :: "int \<Rightarrow> int list \<Rightarrow> int list" where
  "truncate_ids n ids = (if n < int (length ids) then slice_to n ids else ids)"

definition pt_name :: "nat \<Rightarrow> nat \<Rightarrow> string" where
  "pt_name w idx = zero_pad w (str_nat idx) @ ''.pt''"

definition embed_entry_json :: "embed_args \<Rightarrow> nat \<Rightarrow> json \<Rightarrow> int \<Rightarrow> string \<Rightarrow> json_dict" where
  "embed_entry_json args idx pid seq_len sha =
     [(''id'', JInt (int idx)), (''source_prompt_id'', pid), (''embed_file'', JStr (pt_name 4 idx)),
      (''seq_len'', JInt seq_len), (''shape'', JList [JInt seq_len, JInt (ea_hidden_size args)]),
      (''dtype'', JStr (ea_dtype args)), (''bucket'', JStr (bucket_of seq_len)), (''sha256'', JStr sha)]"

text \<open>
  One prompt: its tensor is saved, the file read back and hashed, and only then the entry is built, so a
  prompt without an id raises after its file is written.
\<close>

definition embed_entry ::
  "embed_env \<Rightarrow> embed_args \<Rightarrow> nat \<Rightarrow> json \<Rightarrow> disk \<Rightarrow> json_dict py_result \<times> disk" where
  "embed_entry env args idx entry d =
     (case bind_result (user_prompt entry) (ee_tokenize env) of
        Inl exc \<Rightarrow> (Inl exc, d)
      | Inr ids \<Rightarrow>
          (let (seq_len, bytes) = ee_embed env (truncate_ids (ea_max_tokenized_len args) ids);
               d' = d(path_join (ea_output_dir args) (pt_name 4 idx) \<mapsto> bytes)
           in (bind_result (json_index entry ''id'') (\<lambda>pid.
                 Inr (embed_entry_json args idx pid seq_len (ee_sha256 env bytes))), d')))"

fun embed_loop ::
  "embed_env \<Rightarrow> embed_args \<Rightarrow> nat \<Rightarrow> json list \<Rightarrow> disk \<Rightarrow> json_dict list py_result \<times> disk" where
  "embed_loop env args idx [] d = (Inr [], d)"
| "embed_loop env args idx (entry # entries) d =
     (case embed_entry env args idx entry d of
        (Inl exc, d') \<Rightarrow> (Inl exc, d')
      | (Inr e, d') \<Rightarrow> (case embed_loop env args (Suc idx) entries d' of
          (Inl exc, d'') \<Rightarrow> (Inl exc, d'')
        | (Inr es, d'') \<Rightarrow> (Inr (e # es), d'')))"

definition entry_sha :: "json_dict \<Rightarrow> string" where
  "entry_sha e = (case map_of e ''sha256'' of Some (JStr s) \<Rightarrow> s | _ \<Rightarrow> [])"

definition manifest_json :: "embed_env \<Rightarrow> embed_args \<Rightarrow> json \<Rightarrow> json_dict list \<Rightarrow> json_dict" where
  "manifest_json env args source_sha per_entry =
     [(''model'', JStr (ea_model_name args)), (''hidden_size'', JInt (ea_hidden_size args)),
      (''dtype'', JStr (ea_dtype args)), (''n_entries'', JInt (int (length per_entry))),
      (''corpus_sha256'', JStr (ee_sha256 env (join_with [LF] (sort (map entry_sha per_entry))))),
      (''source_chat_corpus_sha256'', source_sha), (''source_chat_corpus_path'', JStr (ea_source_path args)),
      (''generated_at_utc'', JStr (ee_now_utc env)), (''entries'', JList (map JObj per_entry))]"

definition checked_source_sha :: "embed_env \<Rightarrow> string \<Rightarrow> string \<Rightarrow> json py_result" where
  "checked_source_sha env corpus_bytes provenance_bytes =
     bind_result (ee_loads env provenance_bytes) (\<lambda>prov.
     bind_result (json_index prov ''corpus_sha256'') (\<lambda>expected.
       if JStr (ee_sha256 env corpus_bytes) \<noteq> expected
       then Inl (value_error ''Source corpus SHA mismatch.'') else Inr expected))"

definition checked_model :: "embed_env \<Rightarrow> embed_args \<Rightarrow> unit py_result" where
  "checked_model env args =
     bind_result (ee_from_pretrained env (ea_model_name args) (ea_dtype args)) (\<lambda>observed.
       if observed \<noteq> ea_hidden_size args then Inl (value_error ''Model hidden_size mismatch'') else Inr ())"

definition source_entries :: "embed_env \<Rightarrow> embed_args \<Rightarrow> string \<Rightarrow> json list py_result" where
  "source_entries env args corpus_bytes =
     bind_result (ee_loads env corpus_bytes) (\<lambda>corpus.
     bind_result (case ea_limit args of None \<Rightarrow> Inr corpus | Some k \<Rightarrow> json_slice k corpus) json_iter)"

definition generate_corpus ::
  "embed_env \<Rightarrow> embed_args \<Rightarrow> string \<Rightarrow> string \<Rightarrow> disk \<Rightarrow> json_dict py_result \<times> disk" where
  "generate_corpus env args corpus_bytes provenance_bytes d =
     (if \<not> ee_imports env
      then (Inl (Exn ''ImportError'' ''torch + transformers required for embed-corpus generation.''), d)
      else case bind_result (checked_source_sha env corpus_bytes provenance_bytes) (\<lambda>expected.
                bind_result (checked_model env args) (\<lambda>_.
                bind_result (source_entries env args corpus_bytes) (\<lambda>entries. Inr (expected, entries)))) of
        Inl exc \<Rightarrow> (Inl exc, d)
      | Inr (expected, entries) \<Rightarrow>
          (case embed_loop env args 0 entries d of
             (Inl exc, d') \<Rightarrow> (Inl exc, d')
           | (Inr per_entry, d') \<Rightarrow>
               (let manifest = manifest_json env args expected per_entry
                in (Inr manifest, d'(path_join (ea_output_dir args) ''manifest.json''
                                       \<mapsto> ee_dumps env (JObj manifest))))))"

text \<open>
  \<open>except (ImportError, ValueError)\<close>; a decoding error of JSON or UTF-8 is a \<open>ValueError\<close>. The exit
  code is the value.
\<close>

definition embed_error_caught :: "py_exn \<Rightarrow> bool" where
  "embed_error_caught exc \<longleftrightarrow> isinstance exc ''ImportError'' \<or> isinstance exc ''ValueError''
     \<or> List.member [''ModuleNotFoundError'', ''JSONDecodeError'', ''UnicodeDecodeError''] (exn_name exc)"

definition gen_embed_main :: "embed_env \<Rightarrow> embed_args \<Rightarrow> disk \<Rightarrow> int py_result \<times> disk" where
  "gen_embed_main env args d = (case d (ea_source_path args) of
     None \<Rightarrow> (Inr 1, d)
   | Some corpus_bytes \<Rightarrow> (case d (ea_provenance_path args) of
       None \<Rightarrow> (Inr 1, d)
     | Some provenance_bytes \<Rightarrow> (case generate_corpus env args corpus_bytes provenance_bytes d of
         (Inl exc, d') \<Rightarrow> (if embed_error_caught exc then Inr 1 else Inl exc, d')
       | (Inr manifest, d') \<Rightarrow> (Inr 0, d'))))"

section \<open>The small corpus\<close>

text \<open>
  \<open>gen_embed_corpus.py\<close>: at most five tensors in each of four length buckets, from the prompts of
  the small chat corpus. Its paths are constants of the module.
\<close>

record bucket_spec =
  bk_name :: string
  bk_min :: nat
  bk_max :: nat
  bk_count :: nat

definition BUCKETS :: "bucket_spec list" where
  "BUCKETS = [\<lparr>bk_name = ''short'', bk_min = 8, bk_max = 16, bk_count = 5\<rparr>,
              \<lparr>bk_name = ''medium'', bk_min = 32, bk_max = 48, bk_count = 5\<rparr>,
              \<lparr>bk_name = ''long'', bk_min = 96, bk_max = 128, bk_count = 5\<rparr>,
              \<lparr>bk_name = ''full'', bk_min = 192, bk_max = 256, bk_count = 5\<rparr>]"

definition CORPUS_PATH :: string where
  "CORPUS_PATH = ''tools/benchmark/corpus/chat_nonstreaming.json''"

definition OUTPUT_DIR :: string where
  "OUTPUT_DIR = ''tools/benchmark/corpus/completions_embeds''"

definition MAX_TOKENS :: int where "MAX_TOKENS = 50"

definition SEED :: int where "SEED = 42"

text \<open>The contents of the user messages, joined by a space; joining anything but strings raises.\<close>

fun user_contents :: "json list \<Rightarrow> string list py_result" where
  "user_contents [] = Inr []"
| "user_contents (m # ms) =
     bind_result (json_index m ''role'') (\<lambda>r.
       if r = JStr ''user''
       then bind_result (json_index m ''content'') (\<lambda>c. case c of
              JStr s \<Rightarrow> bind_result (user_contents ms) (\<lambda>rest. Inr (s # rest))
            | _ \<Rightarrow> Inl (type_error ''sequence item: expected str instance''))
       else user_contents ms)"

definition base_text :: "json \<Rightarrow> string py_result" where
  "base_text entry =
     bind_result (json_index entry ''messages'') (\<lambda>ms.
     bind_result (json_iter ms) (\<lambda>turns.
     bind_result (user_contents turns) (\<lambda>cs. Inr (join_with '' '' cs))))"

record small_entry =
  sm_id :: nat
  sm_prompt :: string
  sm_seq_len :: int
  sm_bucket :: string
  sm_source :: string

record small_state =
  ss_entries :: "small_entry list"
  ss_next_id :: nat
  ss_disk :: disk

text \<open>The prompt at an index, its source label, and the next index.\<close>

definition pick_prompt :: "string list \<Rightarrow> string \<Rightarrow> nat \<Rightarrow> string \<times> string \<times> nat" where
  "pick_prompt bases name idx =
     (if List.member [''short'', ''medium''] name
      then (bases ! (idx mod length bases), ''chat_corpus'', idx + 1)
      else (let n = (if name = ''long'' then 2 else 4)
            in (join_with '' '' (map (\<lambda>j. bases ! ((idx + j) mod length bases)) [0 ..< n]),
                ''concatenated'', idx + n)))"

definition small_path :: "nat \<Rightarrow> string" where
  "small_path i = path_join OUTPUT_DIR (pt_name 2 i)"

definition emit_small ::
  "embed_env \<Rightarrow> bucket_spec \<Rightarrow> string \<Rightarrow> string \<Rightarrow> int list \<Rightarrow> small_state \<Rightarrow> small_state" where
  "emit_small env bk src source ids st =
     (let (rows, bytes) = ee_embed env ids; i = ss_next_id st
      in st\<lparr>ss_disk := (ss_disk st)(small_path i \<mapsto> bytes),
            ss_entries := ss_entries st @ [\<lparr>sm_id = i, sm_prompt = take 500 src, sm_seq_len = rows,
                                           sm_bucket = bk_name bk, sm_source = source\<rparr>],
            ss_next_id := Suc i\<rparr>)"

text \<open>The while loop of one bucket: it ends when the bucket is full or ten rounds of prompts are used up.\<close>

function fill_bucket ::
  "embed_env \<Rightarrow> string list \<Rightarrow> bucket_spec \<Rightarrow> nat \<Rightarrow> nat \<Rightarrow> small_state \<Rightarrow> unit py_result \<times> small_state" where
  "fill_bucket env bases bk bucket_count idx st =
     (if bucket_count < bk_count bk \<and> idx < length bases * 10
      then (let (src, source, idx') = pick_prompt bases (bk_name bk) idx
            in case ee_tokenize env (JStr src) of
                 Inl exc \<Rightarrow> (Inl exc, st)
               | Inr ids \<Rightarrow>
                   (if bk_max bk < length ids
                    then fill_bucket env bases bk (Suc bucket_count) idx'
                           (emit_small env bk src source (take (bk_max bk) ids) st)
                    else if length ids < bk_min bk then fill_bucket env bases bk bucket_count idx' st
                    else fill_bucket env bases bk (Suc bucket_count) idx'
                           (emit_small env bk src source ids st)))
      else (Inr (), st))"
  by pat_completeness auto

lemma pick_prompt_advances: "pick_prompt bases name idx = (src, source, idx') \<Longrightarrow> idx < idx'"
  by (auto simp: pick_prompt_def Let_def split: if_split_asm)

termination fill_bucket
  by (relation "measure (\<lambda>(env, bases, bk, bucket_count, idx, st). length bases * 10 - idx)")
    (auto dest: pick_prompt_advances[OF sym])

declare fill_bucket.simps [simp del]

fun fill_buckets ::
  "embed_env \<Rightarrow> string list \<Rightarrow> bucket_spec list \<Rightarrow> small_state \<Rightarrow> unit py_result \<times> small_state" where
  "fill_buckets env bases [] st = (Inr (), st)"
| "fill_buckets env bases (bk # bks) st =
     (case fill_bucket env bases bk 0 0 st of
        (Inl exc, st') \<Rightarrow> (Inl exc, st')
      | (Inr _, st') \<Rightarrow> fill_buckets env bases bks st')"

definition small_entry_json :: "int \<Rightarrow> small_entry \<Rightarrow> json_dict" where
  "small_entry_json hidden e =
     [(''id'', JInt (int (sm_id e))), (''source_prompt'', JStr (sm_prompt e)),
      (''seq_len'', JInt (sm_seq_len e)), (''shape'', JList [JInt (sm_seq_len e), JInt hidden]),
      (''dtype'', JStr ''float32''),
      (''embed_file'', JStr (''corpus/completions_embeds/'' @ pt_name 2 (sm_id e))),
      (''max_tokens'', JInt MAX_TOKENS), (''seed'', JInt SEED), (''bucket'', JStr (sm_bucket e)),
      (''source'', JStr (sm_source e))]"

definition gen_small_main :: "embed_env \<Rightarrow> disk \<Rightarrow> int py_result \<times> disk" where
  "gen_small_main env d =
     (if \<not> ee_imports env then (Inr 1, d)
      else case ee_from_pretrained env MODEL_NAME ''float32'' of
        Inl exc \<Rightarrow> (Inl exc, d)
      | Inr hidden \<Rightarrow>
          (case bind_result (case d CORPUS_PATH of None \<Rightarrow> Inl (file_not_found CORPUS_PATH)
                                                  | Some t \<Rightarrow> ee_loads env t) (\<lambda>corpus.
                bind_result (json_iter corpus) (map_result base_text)) of
             Inl exc \<Rightarrow> (Inl exc, d)
           | Inr bases \<Rightarrow>
               (case fill_buckets env bases BUCKETS \<lparr>ss_entries = [], ss_next_id = 0, ss_disk = d\<rparr> of
                  (Inl exc, st) \<Rightarrow> (Inl exc, ss_disk st)
                | (Inr _, st) \<Rightarrow>
                    (Inr 0, (ss_disk st)
                       (path_join OUTPUT_DIR ''manifest.json''
                          \<mapsto> ee_dumps env (JList (map (\<lambda>e. JObj (small_entry_json hidden e)) (ss_entries st))),
                        path_join OUTPUT_DIR ''prompts.txt''
                          \<mapsto> join_with [LF] (map sm_prompt (ss_entries st)))))))"

end
