(* ===== verification/Gen_Embed_Laws.thy ===== *)
theory Gen_Embed_Laws
  imports Gen_Corpus_Laws Gen_Embed_Corpus
begin

text \<open>
  What the embedding generators write, the loaders of \<open>corpus.py\<close> accept: the manifest of the Qwen3-8B
  corpus passes the hash gates entry by entry, and the small corpus has the promised buckets.
\<close>

section \<open>The loaders' view\<close>

fun embed_entry_view :: "json \<Rightarrow> raw_embed_entry" where
  "embed_entry_view (JObj kvs) =
     \<lparr>re_id = int_item (map_of kvs ''id''), re_embed_file = str_item (map_of kvs ''embed_file''),
      re_sha256 = str_item (map_of kvs ''sha256''), re_max_tokens = int_item (map_of kvs ''max_tokens''),
      re_seed = int_item (map_of kvs ''seed''), re_seq_len = int_item (map_of kvs ''seq_len''),
      re_bucket = str_item (map_of kvs ''bucket'')\<rparr>"
| "embed_entry_view _ = \<lparr>re_id = None, re_embed_file = None, re_sha256 = None, re_max_tokens = None,
      re_seed = None, re_seq_len = None, re_bucket = None\<rparr>"

fun manifest_view :: "json \<Rightarrow> raw_manifest" where
  "manifest_view (JObj kvs) =
     \<lparr>rm_corpus_sha256 = str_item (map_of kvs ''corpus_sha256''),
      rm_entries = (case map_of kvs ''entries'' of Some (JList es) \<Rightarrow> Some (map embed_entry_view es) | _ \<Rightarrow> None)\<rparr>"
| "manifest_view _ = \<lparr>rm_corpus_sha256 = None, rm_entries = None\<rparr>"

definition embeds_view :: "embed_env \<Rightarrow> disk \<Rightarrow> corpus_env" where
  "embeds_view env d =
     \<lparr>env_read = d, env_is_dir = (\<lambda>_. True), env_sha256 = ee_sha256 env,
      env_loads_chat = (\<lambda>t. map_sum id (\<lambda>j. map chat_item_view (json_items j)) (ee_loads env t)),
      env_loads_text = (\<lambda>_. Inr []),
      env_loads_embeds = (\<lambda>t. map_sum id (\<lambda>j. map embed_entry_view (json_items j)) (ee_loads env t)),
      env_loads_manifest = (\<lambda>t. map_sum id manifest_view (ee_loads env t)),
      env_loads_provenance = (\<lambda>t. map_sum id str_entries (ee_loads env t)),
      env_torch_resave = Some Inr\<rparr>"

lemma need_Some: "need k (Some v) = Inr v"
  by (simp add: need_def)

section \<open>File names\<close>

lemma pt_name_inject [simp]: "pt_name w i = pt_name w j \<longleftrightarrow> i = j"
  by (simp add: pt_name_def)

lemma path_join_pt: "path_join d (pt_name w i) = d @ ''/'' @ pt_name w i"
proof -
  obtain c cs where c: "zero_pad w (str_nat i) = c # cs"
    by (cases "zero_pad w (str_nat i)") (auto simp: zero_pad_def)
  then have "is_digit c" using list_all_zero_pad[of w i] by simp
  then have "c \<noteq> CHR ''/''" by (auto simp: is_digit_def)
  then show ?thesis by (simp add: path_join_def starts_with_def pt_name_def c)
qed

lemma path_join_pt_inject [simp]: "path_join d (pt_name w i) = path_join d (pt_name w j) \<longleftrightarrow> i = j"
  by (simp add: path_join_pt)

lemma pt_name_not_json [simp]: "path_join d (pt_name w i) \<noteq> path_join d ''manifest.json''"
proof -
  have "last (pt_name w i) \<noteq> last ''manifest.json''" by (simp add: pt_name_def)
  then have "pt_name w i \<noteq> ''manifest.json''" by metis
  then show ?thesis by (simp add: path_join_pt) (simp add: path_join_def starts_with_def)
qed

lemmas pt_name_not_json' [simp] = pt_name_not_json[symmetric]

section \<open>The loop over the prompts\<close>

definition prompt_ids_of :: "embed_env \<Rightarrow> json \<Rightarrow> int list" where
  "prompt_ids_of env e = (case bind_result (user_prompt e) (ee_tokenize env) of Inr ids \<Rightarrow> ids | Inl _ \<Rightarrow> [])"

definition tensor_of :: "embed_env \<Rightarrow> embed_args \<Rightarrow> json \<Rightarrow> int \<times> string" where
  "tensor_of env args e = ee_embed env (truncate_ids (ea_max_tokenized_len args) (prompt_ids_of env e))"

definition pid_of :: "json \<Rightarrow> json" where
  "pid_of e = (case json_index e ''id'' of Inr v \<Rightarrow> v | Inl _ \<Rightarrow> JNull)"

definition entry_of :: "embed_env \<Rightarrow> embed_args \<Rightarrow> nat \<Rightarrow> json \<Rightarrow> json_dict" where
  "entry_of env args i e = embed_entry_json args i (pid_of e) (fst (tensor_of env args e))
     (ee_sha256 env (snd (tensor_of env args e)))"

lemma embed_entry_ok:
  "embed_entry env args i e d = (Inr x, d') \<longleftrightarrow>
     (\<exists>ids pid. bind_result (user_prompt e) (ee_tokenize env) = Inr ids \<and> json_index e ''id'' = Inr pid)
     \<and> x = entry_of env args i e
     \<and> d' = d(path_join (ea_output_dir args) (pt_name 4 i) \<mapsto> snd (tensor_of env args e))"
  by (auto simp: embed_entry_def entry_of_def tensor_of_def prompt_ids_of_def pid_of_def Let_def
      bind_result_Inr_iff case_prod_beta split: sum.splits)

lemma embed_loop_ok:
  assumes "embed_loop env args idx entries d = (Inr es, d')"
  shows "es = map (\<lambda>(i, e). entry_of env args i e) (enumerate idx entries)
    \<and> (\<forall>i < length entries. d' (path_join (ea_output_dir args) (pt_name 4 (idx + i)))
          = Some (snd (tensor_of env args (entries ! i))))
    \<and> (\<forall>p. (\<forall>j\<ge>idx. p \<noteq> path_join (ea_output_dir args) (pt_name 4 j)) \<longrightarrow> d' p = d p)
    \<and> (\<forall>e\<in>set entries. \<exists>ids. bind_result (user_prompt e) (ee_tokenize env) = Inr ids)"
  using assms
proof (induction entries arbitrary: idx d es)
  case Nil
  then show ?case by simp
next
  case (Cons e entries)
  from Cons.prems obtain x d1 rest where
    1: "embed_entry env args idx e d = (Inr x, d1)"
    and 2: "embed_loop env args (Suc idx) entries d1 = (Inr rest, d')" and es: "es = x # rest"
    by (auto split: prod.splits sum.splits)
  note IH = Cons.IH[OF 2]
  note head = 1[unfolded embed_entry_ok]
  have "d' (path_join (ea_output_dir args) (pt_name 4 idx))
      = d1 (path_join (ea_output_dir args) (pt_name 4 idx))"
    using IH by auto
  then have first: "d' (path_join (ea_output_dir args) (pt_name 4 idx)) = Some (snd (tensor_of env args e))"
    using head by simp
  have "d' (path_join (ea_output_dir args) (pt_name 4 (idx + i))) = Some (snd (tensor_of env args ((e # entries) ! i)))"
    if "i < length (e # entries)" for i
    using that first IH by (cases i) auto
  moreover have "d' p = d p" if "\<forall>j\<ge>idx. p \<noteq> path_join (ea_output_dir args) (pt_name 4 j)" for p
    using that IH head by auto
  ultimately show ?case using IH head es by auto
qed

section \<open>Loading it back\<close>

definition embed_sample :: "embed_env \<Rightarrow> embed_args \<Rightarrow> nat \<times> json \<Rightarrow> completion_embed_sample" where
  "embed_sample env args ie = (let (i, e) = ie; (n, bytes) = tensor_of env args e in
     \<lparr>es_id = int i, es_tensor_bytes = bytes, es_max_tokens = 0, es_seed = 0, es_seq_len = n,
      es_bucket = bucket_of n\<rparr>)"

lemma entry_view:
  "embed_entry_view (JObj (entry_of env args i e)) =
     \<lparr>re_id = Some (int i), re_embed_file = Some (pt_name 4 i),
      re_sha256 = Some (ee_sha256 env (snd (tensor_of env args e))), re_max_tokens = None, re_seed = None,
      re_seq_len = Some (fst (tensor_of env args e)), re_bucket = Some (bucket_of (fst (tensor_of env args e)))\<rparr>"
  by (simp add: entry_of_def embed_entry_json_def str_item_def int_item_def)

declare embed_entry_view.simps(1) [simp del]

lemma entry_sha_of: "entry_sha (entry_of env args i e) = ee_sha256 env (snd (tensor_of env args e))"
  by (simp add: entry_of_def embed_entry_json_def entry_sha_def)

lemma entry_loads:
  assumes "d (path_join (ea_output_dir args) (pt_name 4 i)) = Some (snd (tensor_of env args e))"
  shows "embed_sample_of (embeds_view env d) (ea_output_dir args) (embed_entry_view (JObj (entry_of env args i e)))
    = Inr (embed_sample env args (i, e))"
  using assms
  by (simp add: embed_sample_of_def entry_view need_def Let_def embeds_view_def sha256_of_file_def
      read_text_def embed_sample_def case_prod_beta)

lemma newline: "[LF] = [char_of (10::nat)]"
  by (simp add: LF_def) code_simp

lemma manifest_entries_load:
  assumes files: "\<And>i. i < length entries \<Longrightarrow> d (path_join (ea_output_dir args) (pt_name 4 i))
      = Some (snd (tensor_of env args (entries ! i)))"
  shows "map_result (embed_sample_of (embeds_view env d) (ea_output_dir args))
      (map (\<lambda>(i, e). embed_entry_view (JObj (entry_of env args i e))) (enumerate 0 entries))
    = Inr (map (embed_sample env args) (enumerate 0 entries))"
proof (rule map_result_map_ok)
  fix ie assume "ie \<in> set (enumerate 0 entries)"
  moreover obtain i e where "ie = (i, e)" by fastforce
  ultimately have "i < length entries" "ie = (i, entries ! i)"
    by (auto simp: in_set_enumerate_eq)
  then show "embed_sample_of (embeds_view env d) (ea_output_dir args)
      ((\<lambda>(i, e). embed_entry_view (JObj (entry_of env args i e))) ie) = Inr (embed_sample env args ie)"
    using entry_loads[where env = env and d = d and args = args and i = i and e = "entries ! i"] files
    by simp
qed

lemma manifest_shas:
  "map_result (\<lambda>en. need ''sha256'' (re_sha256 en))
      (map (\<lambda>(i, e). embed_entry_view (JObj (entry_of env args i e))) (enumerate 0 entries))
    = Inr (map entry_sha (map (\<lambda>(i, e). entry_of env args i e) (enumerate 0 entries)))"
proof -
  have "map_result (\<lambda>en. need ''sha256'' (re_sha256 en))
      (map (\<lambda>(i, e). embed_entry_view (JObj (entry_of env args i e))) (enumerate 0 entries))
    = Inr (map (\<lambda>(i, e). entry_sha (entry_of env args i e)) (enumerate 0 entries))"
    by (rule map_result_map_ok) (auto simp: entry_view entry_sha_of need_def)
  then show ?thesis by (simp add: case_prod_beta o_def)
qed

lemma generate_corpus_ok:
  assumes "generate_corpus env args corpus prov d = (Inr manifest, d')"
  shows "\<exists>sha entries es d1. checked_source_sha env corpus prov = Inr sha
    \<and> source_entries env args corpus = Inr entries
    \<and> embed_loop env args 0 entries d = (Inr es, d1) \<and> manifest = manifest_json env args sha es
    \<and> d' = d1(path_join (ea_output_dir args) ''manifest.json'' \<mapsto> ee_dumps env (JObj manifest))"
  using assms
  by (auto simp: generate_corpus_def bind_result_Inr_iff Let_def split: if_split_asm sum.split_asm prod.split_asm)

section \<open>Properties\<close>

text \<open>
  C30. The generated embedding corpus loads. When generation succeeds, its source passed the hash gate
  of its provenance, and the harness loads from the output directory exactly one sample per source
  prompt, in order and numbered from 0: the bytes saved for the prompt's ids cut at the length limit,
  their count, and the bucket of that count.
\<close>

theorem generated_embed_corpus_loads:
  assumes gen: "generate_corpus env args corpus prov d = (Inr manifest, d')"
    and codec: "ee_loads env (ee_dumps env (JObj manifest)) = Inr (JObj manifest)"
    and rows: "\<And>ids. fst (ee_embed env ids) = int (length ids)"
    and limit: "0 \<le> ea_max_tokenized_len args"
  shows "\<exists>entries samples. source_entries env args corpus = Inr entries
    \<and> checked_source_sha env corpus prov = Inr (JStr (ee_sha256 env corpus))
    \<and> load_completions_embeds_qwen3_8b (embeds_view env d') (ea_output_dir args) = Inr samples
    \<and> map es_id samples = map int [0 ..< length entries]
    \<and> list_all2 (\<lambda>e s. \<exists>ids. bind_result (user_prompt e) (ee_tokenize env) = Inr ids
          \<and> es_tensor_bytes s = snd (ee_embed env (take (nat (ea_max_tokenized_len args)) ids))
          \<and> es_seq_len s = min (int (length ids)) (ea_max_tokenized_len args)
          \<and> es_bucket s = bucket_of (es_seq_len s)) entries samples"
proof -
  obtain sha entries es d1 where src: "checked_source_sha env corpus prov = Inr sha"
      "source_entries env args corpus = Inr entries"
    and loop: "embed_loop env args 0 entries d = (Inr es, d1)"
    and man: "manifest = manifest_json env args sha es"
    and d': "d' = d1(path_join (ea_output_dir args) ''manifest.json'' \<mapsto> ee_dumps env (JObj manifest))"
    using generate_corpus_ok[OF gen] by blast
  define E where "E = embeds_view env d'"
  define samples where "samples = map (embed_sample env args) (enumerate 0 entries)"
  note run = embed_loop_ok[OF loop]
  have sha: "sha = JStr (ee_sha256 env corpus)"
    using src(1) by (auto simp: checked_source_sha_def bind_result_Inr_iff split: if_split_asm)
  have files: "d' (path_join (ea_output_dir args) (pt_name 4 i)) = Some (snd (tensor_of env args (entries ! i)))"
    if "i < length entries" for i
    using that run d' by simp
  have es: "map (embed_entry_view \<circ> JObj) es
      = map (\<lambda>(i, e). embed_entry_view (JObj (entry_of env args i e))) (enumerate 0 entries)"
    using run by (simp add: case_prod_beta)
  have read: "env_read E (path_join (ea_output_dir args) ''manifest.json'') = Some (ee_dumps env (JObj manifest))"
    by (simp add: E_def embeds_view_def d')
  have reads: "read_text E (path_join (ea_output_dir args) ''manifest.json'') = Inr (ee_dumps env (JObj manifest))"
    by (simp add: read)
  have man_view: "env_loads_manifest E (ee_dumps env (JObj manifest)) = Inr (manifest_view (JObj manifest))"
    using codec by (simp add: E_def embeds_view_def)
  have fields: "rm_corpus_sha256 (manifest_view (JObj manifest))
        = Some (compute_embed_corpus_sha E (map entry_sha es))"
      "rm_entries (manifest_view (JObj manifest)) = Some (map (embed_entry_view \<circ> JObj) es)"
    by (simp_all add: man manifest_json_def str_item_def E_def embeds_view_def compute_embed_corpus_sha_def
        newline o_def)
  have dir: "env_is_dir E (ea_output_dir args)" by (simp add: E_def embeds_view_def)
  have shas: "map_result (\<lambda>en. need ''sha256'' (re_sha256 en)) (map (embed_entry_view \<circ> JObj) es)
      = Inr (map entry_sha es)"
    unfolding es using manifest_shas[of env args entries] run by (simp del: map_map)
  have smp: "map_result (embed_sample_of E (ea_output_dir args)) (map (embed_entry_view \<circ> JObj) es) = Inr samples"
    unfolding es samples_def E_def by (rule manifest_entries_load) (rule files)
  have "load_completions_embeds_qwen3_8b E (ea_output_dir args) = Inr samples"
    using dir read man_view fields shas smp
    by (simp add: load_completions_embeds_qwen3_8b_def need_Some reads Let_def del: manifest_view.simps)
  moreover have "map es_id samples = map int [0 ..< length entries]"
  proof -
    have "es_id \<circ> embed_sample env args = int \<circ> fst" by (auto simp: embed_sample_def Let_def case_prod_beta)
    then have "map es_id samples = map int (map fst (enumerate 0 entries))"
      unfolding samples_def by (simp only: map_map)
    then show ?thesis by (simp only: map_fst_enumerate add_0)
  qed
  moreover have "list_all2 (\<lambda>e s. \<exists>ids. bind_result (user_prompt e) (ee_tokenize env) = Inr ids
          \<and> es_tensor_bytes s = snd (ee_embed env (take (nat (ea_max_tokenized_len args)) ids))
          \<and> es_seq_len s = min (int (length ids)) (ea_max_tokenized_len args)
          \<and> es_bucket s = bucket_of (es_seq_len s)) entries samples"
  proof (rule list_all2_all_nthI)
    fix i assume i: "i < length entries"
    then obtain ids where ids: "bind_result (user_prompt (entries ! i)) (ee_tokenize env) = Inr ids"
      using run nth_mem by blast
    have "truncate_ids (ea_max_tokenized_len args) ids = take (nat (ea_max_tokenized_len args)) ids"
      using limit by (auto simp: truncate_ids_def slice_to_def)
    then have "tensor_of env args (entries ! i) = ee_embed env (take (nat (ea_max_tokenized_len args)) ids)"
      by (simp add: tensor_of_def prompt_ids_of_def ids)
    then show "\<exists>ids. bind_result (user_prompt (entries ! i)) (ee_tokenize env) = Inr ids
          \<and> es_tensor_bytes (samples ! i) = snd (ee_embed env (take (nat (ea_max_tokenized_len args)) ids))
          \<and> es_seq_len (samples ! i) = min (int (length ids)) (ea_max_tokenized_len args)
          \<and> es_bucket (samples ! i) = bucket_of (es_seq_len (samples ! i))"
      using i ids limit rows
      by (intro exI[of _ ids]) (auto simp: samples_def embed_sample_def nth_enumerate_eq case_prod_beta min_def)
  qed (simp add: samples_def)
  ultimately show ?thesis using src sha unfolding E_def by blast
qed

definition demo_prompt_entry :: json where
  "demo_prompt_entry = JObj [(''id'', JStr ''sharegpt-0000''),
     (''messages'', JList [JObj [(''role'', JStr ''user''), (''content'', JStr ''Hello'')]])]"

definition demo_embed_args :: embed_args where
  "demo_embed_args = default_embed_args\<lparr>ea_output_dir := ''out'', ea_max_tokenized_len := 2\<rparr>"

definition demo_manifest :: json_dict where
  "demo_manifest = [(''model'', JStr ''Qwen/Qwen3-8B''), (''hidden_size'', JInt 4096), (''dtype'', JStr ''float16''),
     (''n_entries'', JInt 1), (''corpus_sha256'', JStr ''tt''), (''source_chat_corpus_sha256'', JStr ''corpus''),
     (''source_chat_corpus_path'', JStr ''tools/benchmark/corpus/chat_sharegpt_1000.json''),
     (''generated_at_utc'', JStr ''2026''),
     (''entries'', JList [JObj (embed_entry_json demo_embed_args 0 (JStr ''sharegpt-0000'') 2 ''tt'')])]"

definition demo_embed_env :: embed_env where
  "demo_embed_env = \<lparr>ee_imports = True, ee_from_pretrained = (\<lambda>_ _. Inr 4096),
     ee_tokenize = (\<lambda>_. Inr [7, 8, 9]), ee_embed = (\<lambda>ids. (int (length ids), replicate (length ids) (CHR ''t''))),
     ee_sha256 = id, ee_loads = (\<lambda>t. if t = ''corpus'' then Inr (JList [demo_prompt_entry])
       else if t = ''prov'' then Inr (JObj [(''corpus_sha256'', JStr ''corpus'')]) else Inr (JObj demo_manifest)),
     ee_dumps = (\<lambda>_. ''manifest''), ee_now_utc = ''2026''\<rparr>"

theorem generated_embed_corpus_loads_witness:
  "\<exists>d' samples. generate_corpus demo_embed_env demo_embed_args ''corpus'' ''prov'' Map.empty = (Inr demo_manifest, d')
     \<and> load_completions_embeds_qwen3_8b (embeds_view demo_embed_env d') ''out'' = Inr samples
     \<and> map es_id samples = [0]"
proof -
  have entries: "source_entries demo_embed_env demo_embed_args ''corpus'' = Inr [demo_prompt_entry]"
    by (simp add: source_entries_def demo_embed_env_def demo_embed_args_def default_embed_args_def)
  have "fst (generate_corpus demo_embed_env demo_embed_args ''corpus'' ''prov'' Map.empty) = Inr demo_manifest"
    by code_simp
  then obtain d' where gen: "generate_corpus demo_embed_env demo_embed_args ''corpus'' ''prov'' Map.empty
      = (Inr demo_manifest, d')" by (metis prod.collapse)
  have codec: "ee_loads demo_embed_env (ee_dumps demo_embed_env (JObj demo_manifest)) = Inr (JObj demo_manifest)"
    and rows: "\<And>ids. fst (ee_embed demo_embed_env ids) = int (length ids)"
    and limit: "0 \<le> ea_max_tokenized_len demo_embed_args"
    and dir: "ea_output_dir demo_embed_args = ''out''"
    by (simp_all add: demo_embed_env_def demo_embed_args_def)
  show ?thesis
    using generated_embed_corpus_loads[OF gen codec rows limit] gen entries by (auto simp: dir)
qed

section \<open>The small corpus\<close>

text \<open>
  The invariant of the bucket loops: the entries are numbered from 0, each has its tensor on disk, and
  only tensor files have changed.
\<close>

definition small_inv :: "embed_env \<Rightarrow> disk \<Rightarrow> small_state \<Rightarrow> bool" where
  "small_inv env d0 st \<longleftrightarrow>
     ss_next_id st = length (ss_entries st) \<and> map sm_id (ss_entries st) = [0 ..< length (ss_entries st)]
     \<and> (\<forall>e\<in>set (ss_entries st). \<exists>ids. sm_seq_len e = fst (ee_embed env ids)
          \<and> ss_disk st (small_path (sm_id e)) = Some (snd (ee_embed env ids)))
     \<and> (\<forall>p. (\<forall>i. p \<noteq> small_path i) \<longrightarrow> ss_disk st p = d0 p)"

definition in_bucket :: "bucket_spec \<Rightarrow> small_entry \<Rightarrow> bool" where
  "in_bucket bk e \<longleftrightarrow> sm_bucket e = bk_name bk \<and> int (bk_min bk) \<le> sm_seq_len e \<and> sm_seq_len e \<le> int (bk_max bk)"

lemma small_path_inject [simp]: "small_path i = small_path j \<longleftrightarrow> i = j"
  by (simp add: small_path_def)

lemma small_inv_emit:
  assumes "small_inv env d0 st"
  shows "small_inv env d0 (emit_small env bk src source ids st)"
proof -
  have ids: "sm_id e < ss_next_id st" if "e \<in> set (ss_entries st)" for e
  proof -
    have "sm_id e \<in> set (map sm_id (ss_entries st))" using that by simp
    then have "sm_id e \<in> set [0 ..< length (ss_entries st)]" using assms by (simp only: small_inv_def)
    then show ?thesis using assms by (simp add: small_inv_def)
  qed
  then show ?thesis
    using assms by (auto simp: small_inv_def emit_small_def case_prod_beta Let_def dest!: ids)
qed

lemma fill_bucket_appends:
  assumes "fill_bucket env bases bk bucket_count idx st = (r, st')"
    and "bk_min bk \<le> bk_max bk" and rows: "\<And>ids. fst (ee_embed env ids) = int (length ids)"
    and "small_inv env d0 st"
  shows "small_inv env d0 st' \<and> (\<exists>new. ss_entries st' = ss_entries st @ new
      \<and> length new \<le> bk_count bk - bucket_count \<and> list_all (in_bucket bk) new)"
  using assms(1,4)
proof (induction "length bases * 10 - idx" arbitrary: bucket_count idx st rule: less_induct)
  case less
  show ?case
  proof (cases "bucket_count < bk_count bk \<and> idx < length bases * 10")
    case False
    then have "st' = st" using less.prems(1) by (subst (asm) fill_bucket.simps) (simp only: if_False prod.inject)
    then show ?thesis using less.prems(2) by simp
  next
    case go: True
    obtain src source idx' where p: "pick_prompt bases (bk_name bk) idx = (src, source, idx')"
      by (cases "pick_prompt bases (bk_name bk) idx")
    note adv = pick_prompt_advances[OF p]
    note IH = less.hyps[of idx', OF diff_less_mono2[OF adv conjunct2[OF go]]]
    have unfolded: "(case ee_tokenize env (JStr src) of Inl exc \<Rightarrow> (Inl exc, st)
        | Inr ids \<Rightarrow>
            (if bk_max bk < length ids
             then fill_bucket env bases bk (Suc bucket_count) idx' (emit_small env bk src source (take (bk_max bk) ids) st)
             else if length ids < bk_min bk then fill_bucket env bases bk bucket_count idx' st
             else fill_bucket env bases bk (Suc bucket_count) idx' (emit_small env bk src source ids st))) = (r, st')"
      using less.prems(1) go p by (subst (asm) fill_bucket.simps) simp
    have emitted: ?thesis
      if "fill_bucket env bases bk (Suc bucket_count) idx' (emit_small env bk src source ids st) = (r, st')"
        and "bk_min bk \<le> length ids" "length ids \<le> bk_max bk" for ids
    proof -
      define e where "e = \<lparr>sm_id = ss_next_id st, sm_prompt = take 500 src, sm_seq_len = fst (ee_embed env ids),
                           sm_bucket = bk_name bk, sm_source = source\<rparr>"
      have "in_bucket bk e" using that(2,3) rows by (simp add: e_def in_bucket_def)
      moreover have "ss_entries (emit_small env bk src source ids st) = ss_entries st @ [e]"
        by (simp add: emit_small_def case_prod_beta Let_def e_def)
      moreover note IH[OF that(1) small_inv_emit[OF less.prems(2)]]
      ultimately obtain new where "small_inv env d0 st'" "ss_entries st' = ss_entries st @ (e # new)"
          "length (e # new) \<le> bk_count bk - bucket_count" "list_all (in_bucket bk) (e # new)"
        using go by auto
      then show ?thesis by blast
    qed
    show ?thesis
    proof (cases "ee_tokenize env (JStr src)")
      case (Inl exc)
      then show ?thesis using unfolded less.prems(2) by auto
    next
      case (Inr ids)
      consider "bk_max bk < length ids" | "length ids < bk_min bk" | "bk_min bk \<le> length ids" "length ids \<le> bk_max bk"
        by linarith
      then show ?thesis
      proof cases
        case 1
        then show ?thesis using emitted[of "take (bk_max bk) ids"] unfolded Inr assms(2) by simp
      next
        case 2
        then show ?thesis using IH[of bucket_count st] unfolded Inr assms(2) less.prems(2) by auto
      next
        case 3
        then show ?thesis using emitted[of ids] unfolded Inr by simp
      qed
    qed
  qed
qed

lemma fill_buckets_appends:
  assumes "fill_buckets env bases bks st = (Inr x, st')" and "\<forall>bk\<in>set bks. bk_min bk \<le> bk_max bk"
    and "\<And>ids. fst (ee_embed env ids) = int (length ids)" and "small_inv env d0 st"
  shows "small_inv env d0 st' \<and> (\<exists>news. ss_entries st' = ss_entries st @ concat news
      \<and> list_all2 (\<lambda>bk new. length new \<le> bk_count bk \<and> list_all (in_bucket bk) new) bks news)"
  using assms(1,2,4)
proof (induction bks arbitrary: st)
  case Nil
  then show ?case by (auto intro!: exI[of _ "[]"])
next
  case (Cons bk bks)
  from Cons.prems(1) obtain y st1 where 1: "fill_bucket env bases bk 0 0 st = (Inr y, st1)"
    and 2: "fill_buckets env bases bks st1 = (Inr x, st')"
    by (auto split: prod.splits sum.splits)
  obtain new where new: "small_inv env d0 st1" "ss_entries st1 = ss_entries st @ new"
      "length new \<le> bk_count bk" "list_all (in_bucket bk) new"
    using fill_bucket_appends[OF 1 _ assms(3) Cons.prems(3)] Cons.prems(2) by auto
  with Cons.IH[OF 2 _ new(1)] Cons.prems(2) obtain news where "small_inv env d0 st'"
      "ss_entries st' = ss_entries st1 @ concat news"
      "list_all2 (\<lambda>bk new. length new \<le> bk_count bk \<and> list_all (in_bucket bk) new) bks news" by auto
  with new show ?case by (intro conjI exI[of _ "new # news"]) simp_all
qed

lemma small_entry_loads:
  assumes "env_read E (small_path (sm_id e)) = Some bytes" "resave bytes = Inr bytes"
  shows "old_embed_sample_of E resave ''tools/benchmark'' (embed_entry_view (JObj (small_entry_json hidden e)))
    = Inr \<lparr>es_id = int (sm_id e), es_tensor_bytes = bytes, es_max_tokens = 50, es_seed = 42,
           es_seq_len = sm_seq_len e, es_bucket = sm_bucket e\<rparr>"
proof -
  define f where "f = ''corpus/completions_embeds/'' @ pt_name 2 (sm_id e)"
  have path: "path_join ''tools/benchmark'' f = small_path (sm_id e)"
    unfolding small_path_def path_join_pt f_def by (simp add: path_join_def starts_with_def OUTPUT_DIR_def)
  have view: "embed_entry_view (JObj (small_entry_json hidden e)) =
     \<lparr>re_id = Some (int (sm_id e)), re_embed_file = Some f,
      re_sha256 = None, re_max_tokens = Some 50, re_seed = Some 42, re_seq_len = Some (sm_seq_len e),
      re_bucket = Some (sm_bucket e)\<rparr>"
    by (simp add: embed_entry_view.simps(1) small_entry_json_def str_item_def int_item_def MAX_TOKENS_def SEED_def f_def)
  show ?thesis
    unfolding old_embed_sample_of_def view using assms by (simp add: need_Some path)
qed

lemma gen_small_ok:
  assumes "gen_small_main env d = (Inr 0, d')"
  shows "\<exists>hidden bases st. fill_buckets env bases BUCKETS \<lparr>ss_entries = [], ss_next_id = 0, ss_disk = d\<rparr> = (Inr (), st)
    \<and> d' = (ss_disk st)(path_join OUTPUT_DIR ''manifest.json''
          \<mapsto> ee_dumps env (JList (map (\<lambda>e. JObj (small_entry_json hidden e)) (ss_entries st))),
        path_join OUTPUT_DIR ''prompts.txt'' \<mapsto> join_with [LF] (map sm_prompt (ss_entries st)))"
  using assms by (auto simp: gen_small_main_def split: if_split_asm sum.split_asm prod.split_asm)

text \<open>
  The small corpus keeps its buckets and loads. A run that succeeds has written entries that fall,
  in this order, into the four buckets, at most five each, every length within its bucket's bounds; they
  are numbered from 0, and the loader gives each with the tensor bytes saved for it.
\<close>

theorem small_corpus_in_buckets:
  assumes gen: "gen_small_main env d = (Inr 0, d')"
    and rows: "\<And>ids. fst (ee_embed env ids) = int (length ids)"
  shows "\<exists>hidden news. let es = concat news; manifest = JList (map (\<lambda>e. JObj (small_entry_json hidden e)) es) in
    list_all2 (\<lambda>bk new. length new \<le> bk_count bk \<and> list_all (in_bucket bk) new) BUCKETS news
    \<and> map sm_id es = [0 ..< length es] \<and> length es \<le> 20
    \<and> (ee_loads env (ee_dumps env manifest) = Inr manifest \<longrightarrow>
        (\<exists>samples. load_completions_corpus (embeds_view env d') False ''tools/benchmark/corpus'' ''tools/benchmark''
            = Inr (Embed_Corpus samples)
          \<and> list_all2 (\<lambda>e s. es_id s = int (sm_id e) \<and> es_seq_len s = sm_seq_len e \<and> es_bucket s = sm_bucket e
              \<and> (\<exists>ids. es_tensor_bytes s = snd (ee_embed env ids) \<and> int (length ids) = sm_seq_len e)) es samples))"
proof -
  obtain hidden bases st where run: "fill_buckets env bases BUCKETS \<lparr>ss_entries = [], ss_next_id = 0, ss_disk = d\<rparr> = (Inr (), st)"
    and d': "d' = (ss_disk st)(path_join OUTPUT_DIR ''manifest.json''
          \<mapsto> ee_dumps env (JList (map (\<lambda>e. JObj (small_entry_json hidden e)) (ss_entries st))),
        path_join OUTPUT_DIR ''prompts.txt'' \<mapsto> join_with [LF] (map sm_prompt (ss_entries st)))"
    using gen_small_ok[OF gen] by blast
  have "small_inv env d \<lparr>ss_entries = [], ss_next_id = 0, ss_disk = d\<rparr>" by (simp add: small_inv_def)
  moreover have "\<forall>bk\<in>set BUCKETS. bk_min bk \<le> bk_max bk" by (simp add: BUCKETS_def)
  ultimately obtain news where inv: "small_inv env d st" and es: "ss_entries st = concat news"
    and fit: "list_all2 (\<lambda>bk new. length new \<le> bk_count bk \<and> list_all (in_bucket bk) new) BUCKETS news"
    using fill_buckets_appends[OF run _ rows] by auto
  define manifest where "manifest = JList (map (\<lambda>e. JObj (small_entry_json hidden e)) (concat news))"
  have few: "length (concat news) \<le> 20"
    using fit by (auto simp: BUCKETS_def list_all2_Cons1)
  have "\<exists>samples. load_completions_corpus (embeds_view env d') False ''tools/benchmark/corpus'' ''tools/benchmark''
            = Inr (Embed_Corpus samples)
          \<and> list_all2 (\<lambda>e s. es_id s = int (sm_id e) \<and> es_seq_len s = sm_seq_len e \<and> es_bucket s = sm_bucket e
              \<and> (\<exists>ids. es_tensor_bytes s = snd (ee_embed env ids) \<and> int (length ids) = sm_seq_len e)) (concat news) samples"
    if codec: "ee_loads env (ee_dumps env manifest) = Inr manifest"
  proof -
    define E where "E = embeds_view env d'"
    have names: "path_join OUTPUT_DIR ''prompts.txt'' \<noteq> path_join OUTPUT_DIR ''manifest.json''"
        "small_path i \<noteq> path_join OUTPUT_DIR ''prompts.txt''" for i
    proof -
      show "path_join OUTPUT_DIR ''prompts.txt'' \<noteq> path_join OUTPUT_DIR ''manifest.json''" by code_simp
      have "last (rev (tl (rev (pt_name 2 i)))) \<noteq> last (rev (tl (rev ''prompts.txt'')))" by (simp add: pt_name_def)
      then have "pt_name 2 i \<noteq> ''prompts.txt''" by metis
      then show "small_path i \<noteq> path_join OUTPUT_DIR ''prompts.txt''"
        unfolding small_path_def path_join_pt by (simp add: path_join_def starts_with_def)
    qed
    have "path_join (path_join ''tools/benchmark/corpus'' ''completions_embeds'') ''manifest.json''
        = path_join OUTPUT_DIR ''manifest.json''" by code_simp
    then have read: "env_read E (path_join (path_join ''tools/benchmark/corpus'' ''completions_embeds'') ''manifest.json'')
        = Some (ee_dumps env manifest)"
      using names(1)[symmetric] by (simp add: E_def embeds_view_def d' manifest_def es)
    define sample where "sample = (\<lambda>e :: small_entry. \<lparr>es_id = int (sm_id e), es_tensor_bytes = the (d' (small_path (sm_id e))),
        es_max_tokens = 50, es_seed = 42, es_seq_len = sm_seq_len e, es_bucket = sm_bucket e\<rparr>)"
    have "small_path i \<noteq> path_join OUTPUT_DIR ''manifest.json''" for i by (simp add: small_path_def)
    then have same: "d' (small_path i) = ss_disk st (small_path i)" for i by (simp add: d' names(2))
    have tensor_file: "\<exists>ids. d' (small_path (sm_id e)) = Some (snd (ee_embed env ids)) \<and> sm_seq_len e = fst (ee_embed env ids)"
      if e: "e \<in> set (concat news)" for e
    proof -
      obtain ids where "ss_disk st (small_path (sm_id e)) = Some (snd (ee_embed env ids))" "sm_seq_len e = fst (ee_embed env ids)"
        using inv[unfolded small_inv_def, THEN conjunct2, THEN conjunct2, THEN conjunct1, unfolded es, THEN bspec, OF e]
        by (elim exE conjE)
      then show ?thesis unfolding same by (intro exI[of _ ids] conjI)
    qed
    have loaded: "map_result (old_embed_sample_of E Inr ''tools/benchmark'')
        (map (\<lambda>e. embed_entry_view (JObj (small_entry_json hidden e))) (concat news)) = Inr (map sample (concat news))"
    proof (rule map_result_map_ok)
      fix e assume "e \<in> set (concat news)"
      from tensor_file[OF this] obtain bytes where "d' (small_path (sm_id e)) = Some bytes" by blast
      then show "old_embed_sample_of E Inr ''tools/benchmark'' (embed_entry_view (JObj (small_entry_json hidden e)))
          = Inr (sample e)"
        using small_entry_loads[of E e bytes Inr] by (simp add: E_def embeds_view_def sample_def)
    qed
    have views: "env_loads_embeds E (ee_dumps env manifest)
        = Inr (map (\<lambda>e. embed_entry_view (JObj (small_entry_json hidden e))) (concat news))"
      using codec by (simp add: E_def embeds_view_def manifest_def o_def)
    have resave: "env_torch_resave E = Some Inr" by (simp add: E_def embeds_view_def)
    have "load_completions_corpus E False ''tools/benchmark/corpus'' ''tools/benchmark''
        = Inr (Embed_Corpus (map sample (concat news)))"
      unfolding load_completions_corpus_def if_False Let_def
      by (simp add: read read_text_def resave views loaded)
    moreover have "list_all2 (\<lambda>e s. es_id s = int (sm_id e) \<and> es_seq_len s = sm_seq_len e \<and> es_bucket s = sm_bucket e
        \<and> (\<exists>ids. es_tensor_bytes s = snd (ee_embed env ids) \<and> int (length ids) = sm_seq_len e))
        (concat news) (map sample (concat news))"
      unfolding list_all2_map2 using tensor_file rows
      by (intro list.rel_refl_strong) (fastforce simp: sample_def)
    ultimately show ?thesis unfolding E_def by blast
  qed
  moreover have "map sm_id (concat news) = [0 ..< length (concat news)]" using inv unfolding small_inv_def es by simp
  ultimately show ?thesis using fit few unfolding Let_def manifest_def by blast
qed

definition demo_small_env :: embed_env where
  "demo_small_env = demo_embed_env\<lparr>ee_tokenize := (\<lambda>_. Inr (replicate 10 1)),
     ee_loads := (\<lambda>t. Inr (JList [demo_prompt_entry]))\<rparr>"

theorem small_corpus_in_buckets_witness:
  "\<exists>d' news. gen_small_main demo_small_env [CORPUS_PATH \<mapsto> ''corpus''] = (Inr 0, d')
     \<and> list_all2 (\<lambda>bk new. length new \<le> bk_count bk \<and> list_all (in_bucket bk) new) BUCKETS news
     \<and> map sm_id (concat news) = [0 ..< length (concat news)]"
proof -
  have "fst (gen_small_main demo_small_env [CORPUS_PATH \<mapsto> ''corpus'']) = Inr 0"
    by code_simp
  then obtain d' where gen: "gen_small_main demo_small_env [CORPUS_PATH \<mapsto> ''corpus''] = (Inr 0, d')"
    by (metis prod.collapse)
  have rows: "\<And>ids. fst (ee_embed demo_small_env ids) = int (length ids)"
    by (simp add: demo_small_env_def demo_embed_env_def)
  show ?thesis
    using small_corpus_in_buckets[OF gen rows] gen unfolding Let_def by blast
qed

end
