(* ===== verification/Modal_Serve.thy ===== *)
theory Modal_Serve
  imports Py_Text
begin

text \<open>
  \<open>scripts/python/modal_frontend_serve.py\<close> and the serve functions of \<open>bench_modal.py\<close>: a container
  that starts a server, publishes its tunnel address in a shared \<open>modal.Dict\<close> and serves until a stop
  key appears, and the local side that waits for the address. Each side is a state with one definition
  per iteration of its loops; \<open>handshake_step\<close> interleaves them over the shared dictionary and the
  clock. The subprocess, the health probe and the tunnel are readings of the environment. Calls into
  Modal do not fail in the model.
\<close>

section \<open>The shared dictionary\<close>

datatype dict_value = DV_Str string | DV_Num real | DV_Bool bool

type_synonym modal_dict = "string \<Rightarrow> dict_value option"

text \<open>\<open>if d.get(key)\<close>: a missing key is \<open>None\<close>.\<close>

definition dv_truthy :: "dict_value option \<Rightarrow> bool" where
  "dv_truthy v = (case v of None \<Rightarrow> False | Some (DV_Str s) \<Rightarrow> s \<noteq> [] | Some (DV_Num x) \<Rightarrow> x \<noteq> 0
     | Some (DV_Bool b) \<Rightarrow> b)"

lemma dv_truthy_some [dest]: "dv_truthy v \<Longrightarrow> \<exists>x. v = Some x"
  by (cases v) (auto simp: dv_truthy_def)

text \<open>\<open>for key in keys: d.pop(key, None)\<close>.\<close>

definition pop_all :: "string list \<Rightarrow> modal_dict \<Rightarrow> modal_dict" where
  "pop_all ks d = fold (\<lambda>k d. d(k := None)) ks d"

section \<open>The serve functions\<close>

text \<open>What one health probe gives, and how a serve function takes it.\<close>

datatype probe_answer = Probe_Status int | Probe_Pong | Probe_Raised py_exn

definition rest_probe :: "probe_answer \<Rightarrow> bool py_result" where
  "rest_probe a = (case a of Probe_Status s \<Rightarrow> Inr (s = 200) | Probe_Pong \<Rightarrow> Inr False | Probe_Raised exc \<Rightarrow> Inr False)"

definition grpc_probe :: "probe_answer \<Rightarrow> bool py_result" where
  "grpc_probe a = (case a of Probe_Pong \<Rightarrow> Inr True | Probe_Status s \<Rightarrow> Inr True
     | Probe_Raised exc \<Rightarrow> if isinstance exc ''RpcError'' then Inr False else Inl exc)"

record serve_spec =
  sv_addr_key :: string
  sv_cold_key :: string
  sv_stop_key :: string
  sv_startup_polls :: nat
  sv_poll_interval :: int
  sv_probe :: "probe_answer \<Rightarrow> bool py_result"
  sv_exited_error :: "string \<Rightarrow> string"
  sv_unhealthy_error :: string

definition FUNCTION_TIMEOUT_S :: real where "FUNCTION_TIMEOUT_S = 3600"

definition ADDR_POLL_TIMEOUT_S :: real where "ADDR_POLL_TIMEOUT_S = 600"

text \<open>\<open>out.decode(errors="replace")[-2000:]\<close>.\<close>

definition last_2000 :: "string \<Rightarrow> string" where
  "last_2000 out = drop (length out - 2000) out"

definition frontend_spec :: serve_spec where
  "frontend_spec =
     \<lparr>sv_addr_key = ''frontend_addr'', sv_cold_key = ''cold_start_s'', sv_stop_key = ''stop_signal'',
      sv_startup_polls = 120, sv_poll_interval = 5, sv_probe = grpc_probe,
      sv_exited_error = (\<lambda>out. ''gRPC frontend process exited unexpectedly during startup.'' @ [LF] @ last_2000 out),
      sv_unhealthy_error = ''gRPC server did not become healthy within '' @ str_int (120 * 5) @ ''s''\<rparr>"

definition rest_bench_spec :: serve_spec where
  "rest_bench_spec =
     \<lparr>sv_addr_key = ''rest_addr'', sv_cold_key = ''rest_cold_start_s'', sv_stop_key = ''rest_stop'',
      sv_startup_polls = 120, sv_poll_interval = 5, sv_probe = rest_probe,
      sv_exited_error = (\<lambda>out. ''vLLM REST server exited unexpectedly during startup''),
      sv_unhealthy_error = ''vLLM REST server did not become healthy within '' @ str_int (120 * 5) @ ''s''\<rparr>"

definition grpc_bench_spec :: serve_spec where
  "grpc_bench_spec =
     \<lparr>sv_addr_key = ''grpc_addr'', sv_cold_key = ''grpc_cold_start_s'', sv_stop_key = ''grpc_stop'',
      sv_startup_polls = 120, sv_poll_interval = 5, sv_probe = grpc_probe,
      sv_exited_error = (\<lambda>out. ''gRPC frontend exited unexpectedly during startup.'' @ [LF] @ last_2000 out),
      sv_unhealthy_error = ''gRPC server did not become healthy within '' @ str_int (120 * 5) @ ''s''\<rparr>"

record serve_result =
  sr_ok :: bool
  sr_error :: "string option"
  sr_cold_start_s :: real

text \<open>
  A container: starting, with the time the function began and the polls made; publishing, with the
  address it has put and its cold start; serving, with its deadline too; returned, with a flag that
  says whether it killed its server process if that was alive; or dead of an exception.
\<close>

datatype container =
    Starting real nat
  | Publishing string real
  | Serving string real real
  | Returned serve_result bool
  | Crashed py_exn

text \<open>
  The readings of one startup iteration: the output of the process if it has exited, the probe's
  answer, \<open>monotonic()\<close> after the probe, and the tunnel's socket.
\<close>

record startup_reading =
  su_exited :: "string option"
  su_probe :: probe_answer
  su_now :: real
  su_socket :: "string \<times> int"

definition socket_addr :: "string \<times> int \<Rightarrow> string" where
  "socket_addr hp = fst hp @ '':'' @ str_int (snd hp)"

definition startup_step ::
  "serve_spec \<Rightarrow> startup_reading \<Rightarrow> real \<Rightarrow> nat \<Rightarrow> modal_dict \<Rightarrow> container \<times> modal_dict" where
  "startup_step sv rd t_start polls d = (case su_exited rd of
     Some out \<Rightarrow> (Returned \<lparr>sr_ok = False, sr_error = Some (sv_exited_error sv out),
                           sr_cold_start_s = su_now rd - t_start\<rparr> False, d)
   | None \<Rightarrow> (case sv_probe sv (su_probe rd) of
       Inl exc \<Rightarrow> (Crashed exc, d)
     | Inr healthy \<Rightarrow>
         (let cold = su_now rd - t_start; addr = socket_addr (su_socket rd)
          in if healthy then (Publishing addr cold, d(sv_addr_key sv \<mapsto> DV_Str addr))
             else if Suc polls < sv_startup_polls sv then (Starting t_start (Suc polls), d)
             else (Returned \<lparr>sr_ok = False, sr_error = Some (sv_unhealthy_error sv),
                            sr_cold_start_s = cold\<rparr> True, d))))"

text \<open>The second put, and the deadline: 60 s of the function's time are kept for cleanup.\<close>

definition publish_step ::
  "serve_spec \<Rightarrow> real \<Rightarrow> string \<Rightarrow> real \<Rightarrow> modal_dict \<Rightarrow> container \<times> modal_dict" where
  "publish_step sv now addr cold d =
     (Serving addr cold (now + (FUNCTION_TIMEOUT_S - cold - 60)), d(sv_cold_key sv \<mapsto> DV_Num cold))"

text \<open>One test of the serving loop: past the deadline, or on a stop value, the container cleans up.\<close>

definition serve_cleanup :: "serve_spec \<Rightarrow> real \<Rightarrow> modal_dict \<Rightarrow> container \<times> modal_dict" where
  "serve_cleanup sv cold d =
     (Returned \<lparr>sr_ok = True, sr_error = None, sr_cold_start_s = cold\<rparr> True,
      pop_all [sv_addr_key sv, sv_cold_key sv, sv_stop_key sv] d)"

definition keepalive_step ::
  "serve_spec \<Rightarrow> real \<Rightarrow> string \<Rightarrow> real \<Rightarrow> real \<Rightarrow> modal_dict \<Rightarrow> container \<times> modal_dict" where
  "keepalive_step sv now addr cold deadline d =
     (if now < deadline \<and> \<not> dv_truthy (d (sv_stop_key sv)) then (Serving addr cold deadline, d)
      else serve_cleanup sv cold d)"

text \<open>
  A serve function is its specification run from its container state: one iteration under the readings
  of that iteration and the clock at its dictionary accesses.
\<close>

definition serve_function ::
  "serve_spec \<Rightarrow> startup_reading \<Rightarrow> real \<Rightarrow> container \<Rightarrow> modal_dict \<Rightarrow> container \<times> modal_dict" where
  "serve_function sv rd now c d = (case c of
     Starting t n \<Rightarrow> startup_step sv rd t n d
   | Publishing addr cold \<Rightarrow> publish_step sv now addr cold d
   | Serving addr cold deadline \<Rightarrow> keepalive_step sv now addr cold deadline d
   | Returned r killed \<Rightarrow> (c, d)
   | Crashed exc \<Rightarrow> (c, d))"

definition serve_frontend :: "startup_reading \<Rightarrow> real \<Rightarrow> container \<Rightarrow> modal_dict \<Rightarrow> container \<times> modal_dict" where
  "serve_frontend = serve_function frontend_spec"

definition serve_rest_for_bench :: "startup_reading \<Rightarrow> real \<Rightarrow> container \<Rightarrow> modal_dict \<Rightarrow> container \<times> modal_dict" where
  "serve_rest_for_bench = serve_function rest_bench_spec"

definition serve_grpc_for_bench :: "startup_reading \<Rightarrow> real \<Rightarrow> container \<Rightarrow> modal_dict \<Rightarrow> container \<times> modal_dict" where
  "serve_grpc_for_bench = serve_function grpc_bench_spec"

section \<open>The local side\<close>

text \<open>
  The local entry point of \<open>modal_frontend_serve.py\<close>: not started, polling since a time, in possession
  of an address, attached with the cold start it prints, or exited with a code.
\<close>

datatype local_side = Not_Started | Polling real | Found string | Attached string real | Exited int

definition poll_for_addr :: "real \<Rightarrow> real \<Rightarrow> dict_value option \<Rightarrow> (unit + string) option" where
  "poll_for_addr t_poll now v = (case v of
     Some (DV_Str s) \<Rightarrow> if s \<noteq> [] then Some (Inr s)
                       else if now - t_poll > ADDR_POLL_TIMEOUT_S then Some (Inl ()) else None
   | _ \<Rightarrow> if now - t_poll > ADDR_POLL_TIMEOUT_S then Some (Inl ()) else None)"

definition cold_start_of :: "dict_value option \<Rightarrow> real option" where
  "cold_start_of v = (case v of Some (DV_Num x) \<Rightarrow> Some x | Some (DV_Bool b) \<Rightarrow> Some (if b then 1 else 0)
     | _ \<Rightarrow> None)"

definition local_poll_step :: "serve_spec \<Rightarrow> real \<Rightarrow> real \<Rightarrow> modal_dict \<Rightarrow> local_side" where
  "local_poll_step sv now t_poll d = (case poll_for_addr t_poll now (d (sv_addr_key sv)) of
     None \<Rightarrow> Polling t_poll
   | Some (Inl _) \<Rightarrow> Exited 1
   | Some (Inr addr) \<Rightarrow> Found addr)"

definition local_attach_step :: "serve_spec \<Rightarrow> string \<Rightarrow> modal_dict \<Rightarrow> local_side" where
  "local_attach_step sv addr d =
     Attached addr (case cold_start_of (d (sv_cold_key sv)) of None \<Rightarrow> 0 | Some x \<Rightarrow> x)"

definition local_start :: "serve_spec \<Rightarrow> modal_dict \<Rightarrow> modal_dict" where
  "local_start sv = pop_all [sv_addr_key sv, sv_cold_key sv, sv_stop_key sv]"

definition local_interrupt :: "serve_spec \<Rightarrow> modal_dict \<Rightarrow> local_side \<times> modal_dict" where
  "local_interrupt sv d = (Exited 0, d(sv_stop_key sv \<mapsto> DV_Bool True))"

section \<open>The handshake\<close>

record handshake =
  hs_container :: "container option"
  hs_local :: local_side
  hs_dict :: modal_dict
  hs_now :: real

definition handshake_start :: "modal_dict \<Rightarrow> real \<Rightarrow> handshake" where
  "handshake_start d now = \<lparr>hs_container = None, hs_local = Not_Started, hs_dict = d, hs_now = now\<rparr>"

text \<open>
  The steps: the local side clears the keys and spawns the container; the container makes one iteration
  at the current time; the local side polls, attaches, or is interrupted while it sleeps attached, where
  its handler for Ctrl+C is; time passes. The pops of one cleanup are one step.
\<close>

inductive handshake_step :: "serve_spec \<Rightarrow> handshake \<Rightarrow> handshake \<Rightarrow> bool" for sv where
  spawn: "hs_local h = Not_Started \<Longrightarrow>
    handshake_step sv h (h\<lparr>hs_dict := local_start sv (hs_dict h),
                           hs_container := Some (Starting (hs_now h) 0), hs_local := Polling (hs_now h)\<rparr>)"
| container: "hs_container h = Some c \<Longrightarrow> su_now rd = hs_now h \<Longrightarrow>
    serve_function sv rd (hs_now h) c (hs_dict h) = (c', d) \<Longrightarrow>
    handshake_step sv h (h\<lparr>hs_container := Some c', hs_dict := d\<rparr>)"
| poll: "hs_local h = Polling t \<Longrightarrow>
    handshake_step sv h (h\<lparr>hs_local := local_poll_step sv (hs_now h) t (hs_dict h)\<rparr>)"
| attach: "hs_local h = Found addr \<Longrightarrow>
    handshake_step sv h (h\<lparr>hs_local := local_attach_step sv addr (hs_dict h)\<rparr>)"
| interrupt: "hs_local h = Attached addr cold \<Longrightarrow> local_interrupt sv (hs_dict h) = (l, d) \<Longrightarrow>
    handshake_step sv h (h\<lparr>hs_local := l, hs_dict := d\<rparr>)"
| tick: "hs_now h \<le> now \<Longrightarrow> handshake_step sv h (h\<lparr>hs_now := now\<rparr>)"

inductive handshake_run :: "serve_spec \<Rightarrow> handshake \<Rightarrow> handshake \<Rightarrow> bool" for sv where
  stay: "handshake_run sv h h"
| more: "handshake_run sv h h' \<Longrightarrow> handshake_step sv h' h'' \<Longrightarrow> handshake_run sv h h''"

inductive_cases handshake_step_cases [elim]: "handshake_step sv h h'"

section \<open>The invariant\<close>

definition keys_distinct :: "serve_spec \<Rightarrow> bool" where
  "keys_distinct sv \<longleftrightarrow> sv_addr_key sv \<noteq> sv_cold_key sv \<and> sv_addr_key sv \<noteq> sv_stop_key sv
     \<and> sv_cold_key sv \<noteq> sv_stop_key sv \<and> 0 < sv_startup_polls sv"

lemma specs_distinct:
  "keys_distinct frontend_spec" "keys_distinct rest_bench_spec" "keys_distinct grpc_bench_spec"
  by (simp_all add: keys_distinct_def frontend_spec_def rest_bench_spec_def grpc_bench_spec_def)

text \<open>The address a container stands for, and what the dictionary and the local side may show then.\<close>

definition quiet :: "serve_spec \<Rightarrow> handshake \<Rightarrow> bool" where
  "quiet sv h \<longleftrightarrow> hs_dict h (sv_addr_key sv) = None \<and> hs_dict h (sv_cold_key sv) = None"

definition stop_by_local :: "serve_spec \<Rightarrow> handshake \<Rightarrow> bool" where
  "stop_by_local sv h \<longleftrightarrow> hs_dict h (sv_stop_key sv) = None
     \<or> hs_dict h (sv_stop_key sv) = Some (DV_Bool True) \<and> hs_local h = Exited 0"

fun local_waits :: "local_side \<Rightarrow> bool" where
  "local_waits (Polling t) = True"
| "local_waits (Exited c) = (c = 1)"
| "local_waits _ = False"

fun local_knows :: "string \<Rightarrow> real \<Rightarrow> local_side \<Rightarrow> bool" where
  "local_knows a x (Found a') = (a' = a)"
| "local_knows a x (Attached a' x') = (a' = a \<and> x' \<in> {0, x})"
| "local_knows a x Not_Started = False"
| "local_knows a x _ = True"

definition handshake_inv :: "serve_spec \<Rightarrow> handshake \<Rightarrow> bool" where
  "handshake_inv sv h \<longleftrightarrow> (case hs_container h of
     None \<Rightarrow> hs_local h = Not_Started
   | Some (Starting t n) \<Rightarrow> n < sv_startup_polls sv \<and> quiet sv h \<and> local_waits (hs_local h)
       \<and> hs_dict h (sv_stop_key sv) = None
   | Some (Publishing a x) \<Rightarrow> hs_dict h (sv_addr_key sv) = Some (DV_Str a) \<and> hs_dict h (sv_cold_key sv) = None
       \<and> local_knows a 0 (hs_local h) \<and> stop_by_local sv h
   | Some (Serving a x dl) \<Rightarrow> hs_dict h (sv_addr_key sv) = Some (DV_Str a)
       \<and> hs_dict h (sv_cold_key sv) = Some (DV_Num x) \<and> local_knows a x (hs_local h) \<and> stop_by_local sv h
   | Some (Returned r k) \<Rightarrow> quiet sv h \<and> hs_local h \<noteq> Not_Started
       \<and> (if sr_ok r then (\<exists>a. local_knows a (sr_cold_start_s r) (hs_local h)) \<and> stop_by_local sv h
          else local_waits (hs_local h) \<and> hs_dict h (sv_stop_key sv) = None)
   | Some (Crashed e) \<Rightarrow> quiet sv h \<and> local_waits (hs_local h) \<and> hs_dict h (sv_stop_key sv) = None)"

lemma local_knows_zero: "local_knows a 0 l \<Longrightarrow> local_knows a x l"
  by (cases l) auto

lemma socket_addr_nonempty [simp]: "socket_addr hp \<noteq> []"
  by (simp add: socket_addr_def)

lemma pop_all_three [simp]:
  "pop_all [a, b, c] d = d(a := None, b := None, c := None)"
  by (simp add: pop_all_def)

lemmas side_defs = local_start_def local_poll_step_def local_attach_step_def local_interrupt_def
  poll_for_addr_def cold_start_of_def

lemmas container_defs = serve_function_def startup_step_def publish_step_def keepalive_step_def
  serve_cleanup_def Let_def

end
