(* ===== verification/Modal_Laws.thy ===== *)
theory Modal_Laws
  imports Modal_Serve
begin

text \<open>
  The handshake between a serve function and its local side: the invariant of every run, and the
  container nobody will stop.
\<close>

section \<open>The invariant is preserved\<close>

lemma container_step_inv:
  assumes "keys_distinct sv" and "hs_container h = Some c" and "su_now rd = hs_now h"
    and "serve_function sv rd (hs_now h) c (hs_dict h) = (c', d)" and "handshake_inv sv h"
  shows "handshake_inv sv (h\<lparr>hs_container := Some c', hs_dict := d\<rparr>)"
proof (cases c)
  case (Starting t n)
  then show ?thesis
    using assms by (cases "hs_local h")
      (auto simp: container_defs handshake_inv_def keys_distinct_def quiet_def stop_by_local_def
        split: option.split_asm sum.split_asm if_split_asm)
next
  case (Publishing a x)
  then show ?thesis
    using assms by (auto simp: container_defs handshake_inv_def keys_distinct_def stop_by_local_def
        intro: local_knows_zero)
next
  case (Serving a x dl)
  then show ?thesis
    using assms by (auto simp: container_defs handshake_inv_def keys_distinct_def quiet_def stop_by_local_def
        split: if_split_asm)
next
  case (Returned r k)
  then show ?thesis using assms by (auto simp: container_defs handshake_inv_def quiet_def stop_by_local_def)
next
  case (Crashed e)
  then show ?thesis using assms by (auto simp: container_defs handshake_inv_def quiet_def)
qed

lemma local_waits_poll:
  "hs_local h = Polling t \<Longrightarrow> hs_dict h (sv_addr_key sv) = None \<Longrightarrow>
     local_poll_step sv now t (hs_dict h) \<in> {Polling t, Exited 1}"
  by (auto simp: side_defs)

lemma poll_step_inv:
  assumes "hs_local h = Polling t" and "handshake_inv sv h"
  shows "handshake_inv sv (h\<lparr>hs_local := local_poll_step sv (hs_now h) t (hs_dict h)\<rparr>)"
  using assms local_waits_poll[of h t sv "hs_now h"]
  by (auto simp: handshake_inv_def quiet_def stop_by_local_def side_defs
      split: option.split_asm container.split_asm if_split_asm)

lemma attach_step_inv:
  assumes "hs_local h = Found a" and "handshake_inv sv h"
  shows "handshake_inv sv (h\<lparr>hs_local := local_attach_step sv a (hs_dict h)\<rparr>)"
  using assms
  by (auto simp: handshake_inv_def quiet_def stop_by_local_def side_defs
      split: option.split_asm container.split_asm if_split_asm)

lemma interrupt_step_inv:
  assumes "hs_local h = Attached a x" and "keys_distinct sv" and "handshake_inv sv h"
    and "local_interrupt sv (hs_dict h) = (l, d)"
  shows "handshake_inv sv (h\<lparr>hs_local := l, hs_dict := d\<rparr>)"
  using assms
  by (auto simp: handshake_inv_def quiet_def stop_by_local_def side_defs keys_distinct_def
      split: option.split_asm container.split_asm if_split_asm)

lemma tick_step_inv:
  assumes "handshake_inv sv h"
  shows "handshake_inv sv (h\<lparr>hs_now := now\<rparr>)"
proof (cases "hs_container h")
  case None
  then show ?thesis using assms by (simp add: handshake_inv_def)
next
  case (Some c)
  then show ?thesis
    using assms by (cases c) (auto simp: handshake_inv_def quiet_def stop_by_local_def)
qed

lemma handshake_step_inv:
  assumes "handshake_step sv h h'" and "keys_distinct sv" and "handshake_inv sv h"
  shows "handshake_inv sv h'"
  using assms(1)
proof cases
  case spawn
  then show ?thesis using assms(2) by (simp add: handshake_inv_def local_start_def quiet_def keys_distinct_def)
next
  case (container c rd c' d)
  then show ?thesis using container_step_inv assms by blast
next
  case (poll t)
  then show ?thesis using poll_step_inv assms by blast
next
  case (attach a)
  then show ?thesis using attach_step_inv assms by blast
next
  case (interrupt a x l d)
  then show ?thesis using interrupt_step_inv assms by blast
next
  case (tick now)
  then show ?thesis using tick_step_inv assms(3) by blast
qed

lemma handshake_run_inv:
  "handshake_run sv h h' \<Longrightarrow> keys_distinct sv \<Longrightarrow> handshake_inv sv h \<Longrightarrow> handshake_inv sv h'"
  by (induction rule: handshake_run.induct) (auto intro: handshake_step_inv)

lemma handshake_inv_start: "handshake_inv sv (handshake_start d now)"
  by (simp add: handshake_inv_def handshake_start_def)

section \<open>What the local side may rely on\<close>

text \<open>C26. A serve function and its local entry point stay consistent in every run from any left-over
  dictionary: an address the local side has printed is the published address of the one container,
  which is then publishing, serving that address, or has returned after serving; the cold start it
  prints is the container's, or 0 when it read the dictionary between the two puts; while the
  container starts or has failed the dictionary shows no address.\<close>
theorem handshake_consistent:
  assumes run: "handshake_run sv (handshake_start d now) h" and keys: "keys_distinct sv"
  shows "(\<forall>a x. hs_local h = Attached a x \<longrightarrow>
           (\<exists>x'. hs_container h = Some (Publishing a x') \<and> x = 0
             \<or> (\<exists>dl. hs_container h = Some (Serving a x' dl)) \<and> x \<in> {0, x'})
           \<or> (\<exists>r k. hs_container h = Some (Returned r k) \<and> sr_ok r \<and> x \<in> {0, sr_cold_start_s r}))
    \<and> (\<forall>t n. hs_container h = Some (Starting t n) \<longrightarrow> n < sv_startup_polls sv \<and> quiet sv h)
    \<and> (\<forall>a x dl. hs_container h = Some (Serving a x dl) \<longrightarrow>
           hs_dict h (sv_addr_key sv) = Some (DV_Str a) \<and> hs_dict h (sv_cold_key sv) = Some (DV_Num x)
           \<and> (dv_truthy (hs_dict h (sv_stop_key sv)) \<longrightarrow> hs_local h = Exited 0))
    \<and> (\<forall>r k. hs_container h = Some (Returned r k) \<longrightarrow> \<not> sr_ok r \<longrightarrow>
           quiet sv h \<and> (\<forall>c. hs_local h = Exited c \<longrightarrow> c = 1))"
proof -
  have "handshake_inv sv h"
    using handshake_run_inv[OF run] keys handshake_inv_start by blast
  then show ?thesis
    by (intro conjI allI impI)
      (auto simp: handshake_inv_def stop_by_local_def dv_truthy_def
        split: option.split_asm container.split_asm if_split_asm)
qed

section \<open>A container nobody will stop\<close>

text \<open>A slow start, one failed health check every \<open>51/10\<close> seconds: the sleep of 5 s and the check.\<close>

definition starting_at :: "serve_spec \<Rightarrow> modal_dict \<Rightarrow> nat \<Rightarrow> handshake" where
  "starting_at sv d n = \<lparr>hs_container = Some (Starting 0 n), hs_local = Polling 0,
     hs_dict = local_start sv d, hs_now = real n * (51/10)\<rparr>"

definition failing_check :: "real \<Rightarrow> startup_reading" where
  "failing_check now = \<lparr>su_exited = None, su_probe = Probe_Raised (Lib_Exn ''RpcError'' [] [''RpcError''] None None),
     su_now = now, su_socket = ([], 0)\<rparr>"

lemma spawn_run: "handshake_run sv (handshake_start d 0) (starting_at sv d 0)"
  using handshake_run.more[OF handshake_run.stay handshake_step.spawn[of "handshake_start d 0" sv]]
  by (simp add: handshake_start_def starting_at_def)

lemma slow_start_run:
  "n < 120 \<Longrightarrow> handshake_run frontend_spec (handshake_start d 0) (starting_at frontend_spec d n)"
proof (induction n)
  case 0
  then show ?case using spawn_run by simp
next
  case (Suc n)
  let ?h = "starting_at frontend_spec d n" and ?now = "real (Suc n) * (51/10)"
  have "handshake_step frontend_spec ?h (?h\<lparr>hs_now := ?now\<rparr>)"
    by (rule handshake_step.tick) (simp add: starting_at_def)
  moreover have "handshake_step frontend_spec (?h\<lparr>hs_now := ?now\<rparr>)
      (?h\<lparr>hs_now := ?now, hs_container := Some (Starting 0 (Suc n)), hs_dict := local_start frontend_spec d\<rparr>)"
    using Suc.prems handshake_step.container[of "?h\<lparr>hs_now := ?now\<rparr>" "Starting 0 n" "failing_check ?now"
      frontend_spec "Starting 0 (Suc n)" "local_start frontend_spec d"]
    by (simp add: starting_at_def failing_check_def container_defs frontend_spec_def grpc_probe_def)
  ultimately show ?case
    using Suc by (auto simp: starting_at_def intro: handshake_run.more)
qed

lemma handshake_run_trans:
  "handshake_run sv h' h'' \<Longrightarrow> handshake_run sv h h' \<Longrightarrow> handshake_run sv h h''"
  by (induction rule: handshake_run.induct) (auto intro: handshake_run.more)

definition unstopped :: "serve_spec \<Rightarrow> string \<Rightarrow> real \<Rightarrow> real \<Rightarrow> handshake \<Rightarrow> bool" where
  "unstopped sv a x dl h \<longleftrightarrow> dl \<le> hs_now h \<or> hs_local h = Exited 1 \<and> hs_dict h (sv_stop_key sv) = None
     \<and> hs_container h = Some (Serving a x dl)"

lemma unstopped_step: "handshake_step sv h h' \<Longrightarrow> unstopped sv a x dl h \<Longrightarrow> unstopped sv a x dl h'"
  by (auto simp: unstopped_def container_defs dv_truthy_def)

lemma unstopped_run: "handshake_run sv h h' \<Longrightarrow> unstopped sv a x dl h \<Longrightarrow> unstopped sv a x dl h'"
  by (induction rule: handshake_run.induct) (auto intro: unstopped_step)

text \<open>The run: a start of 119 failed checks, the local side giving up, then a healthy server.\<close>

definition orphan_addr :: string where "orphan_addr = ''r435.modal.host:4321''"

definition orphaned :: "modal_dict \<Rightarrow> handshake" where
  "orphaned d = \<lparr>hs_container = Some (Serving orphan_addr 612 3540), hs_local = Exited 1,
     hs_dict = (local_start frontend_spec d)(''frontend_addr'' \<mapsto> DV_Str orphan_addr, ''cold_start_s'' \<mapsto> DV_Num 612),
     hs_now = 612\<rparr>"

lemma orphaned_run: "handshake_run frontend_spec (handshake_start d 0) (orphaned d)"
proof -
  let ?d = "local_start frontend_spec d"
  define h1 where "h1 = starting_at frontend_spec d 119"
  define h2 where "h2 = h1\<lparr>hs_local := Exited 1\<rparr>"
  define h3 where "h3 = h2\<lparr>hs_now := 612\<rparr>"
  define rd where "rd = \<lparr>su_exited = None, su_probe = Probe_Pong, su_now = 612, su_socket = (''r435.modal.host'', 4321)\<rparr>"
  define h4 where "h4 = h3\<lparr>hs_container := Some (Publishing orphan_addr 612),
    hs_dict := ?d(''frontend_addr'' \<mapsto> DV_Str orphan_addr)\<rparr>"
  have addr: "socket_addr (''r435.modal.host'', 4321) = orphan_addr"
    unfolding orphan_addr_def by code_simp
  have h1: "h1 = \<lparr>hs_container = Some (Starting 0 119), hs_local = Polling 0, hs_dict = ?d, hs_now = 6069/10\<rparr>"
    by (simp add: h1_def starting_at_def)
  have no_addr: "?d ''frontend_addr'' = None"
    by (simp add: local_start_def frontend_spec_def)
  have poll: "handshake_step frontend_spec h1 h2"
    using handshake_step.poll[of h1 0 frontend_spec] no_addr
    by (simp add: h1 h2_def local_poll_step_def poll_for_addr_def ADDR_POLL_TIMEOUT_S_def frontend_spec_def)
  have wait: "handshake_step frontend_spec h2 h3"
    using handshake_step.tick[of h2 612 frontend_spec] by (simp add: h1 h2_def h3_def)
  have publish: "handshake_step frontend_spec h3 h4"
    using handshake_step.container[of h3 "Starting 0 119" rd frontend_spec "Publishing orphan_addr 612"
      "?d(''frontend_addr'' \<mapsto> DV_Str orphan_addr)"]
    by (simp add: h1 h2_def h3_def h4_def rd_def container_defs frontend_spec_def grpc_probe_def addr)
  have serve: "handshake_step frontend_spec h4 (orphaned d)"
    using handshake_step.container[of h4 "Publishing orphan_addr 612" "rd" frontend_spec "Serving orphan_addr 612 3540"
      "?d(''frontend_addr'' \<mapsto> DV_Str orphan_addr, ''cold_start_s'' \<mapsto> DV_Num 612)"]
    by (simp add: h1 h2_def h3_def h4_def rd_def orphaned_def container_defs frontend_spec_def FUNCTION_TIMEOUT_S_def)
  have "handshake_run frontend_spec (handshake_start d 0) h1"
    using slow_start_run[of 119] by (simp add: h1_def)
  from handshake_run.more[OF handshake_run.more[OF handshake_run.more[OF handshake_run.more[OF this poll] wait]
      publish] serve]
  show ?thesis .
qed

text \<open>The local side waits 600 s for an address, the container up to 120 health checks of 5 s and
  more. So a run exists in which the local side has exited with code 1 and the container then serves,
  and in every continuation it keeps serving, with nobody left to set the stop key, until its own
  deadline 2928 s later.\<close>
theorem orphaned_container:
  "\<exists>h a x dl. handshake_run frontend_spec (handshake_start d 0) h \<and> hs_local h = Exited 1
     \<and> hs_container h = Some (Serving a x dl) \<and> dl = hs_now h + 2928
     \<and> (\<forall>h'. handshake_run frontend_spec h h' \<longrightarrow> hs_now h' < dl \<longrightarrow>
          hs_container h' = Some (Serving a x dl) \<and> hs_local h' = Exited 1)"
proof (intro exI conjI allI impI)
  have start: "unstopped frontend_spec orphan_addr 612 3540 (orphaned d)"
    by (simp add: unstopped_def orphaned_def local_start_def frontend_spec_def)
  show "handshake_run frontend_spec (handshake_start d 0) (orphaned d)" by (rule orphaned_run)
  show "hs_container (orphaned d) = Some (Serving orphan_addr 612 3540)" "hs_local (orphaned d) = Exited 1"
    "3540 = hs_now (orphaned d) + 2928"
    by (simp_all add: orphaned_def)
  fix h' assume r: "handshake_run frontend_spec (orphaned d) h'" and now: "hs_now h' < 3540"
  show "hs_container h' = Some (Serving orphan_addr 612 3540)" "hs_local h' = Exited 1"
    using unstopped_run[OF r start] now by (simp_all add: unstopped_def)
qed

text \<open>Half an hour after the local side has gone the container is still serving.\<close>

theorem orphaned_container_witness:
  "\<exists>h'. handshake_run frontend_spec (handshake_start Map.empty 0) h' \<and> hs_local h' = Exited 1
     \<and> (\<exists>a x dl. hs_container h' = Some (Serving a x dl) \<and> hs_now h' + 1000 < dl)"
proof -
  obtain h a x dl where run: "handshake_run frontend_spec (handshake_start Map.empty 0) h"
    and dl: "dl = hs_now h + 2928"
    and later: "\<And>h'. handshake_run frontend_spec h h' \<Longrightarrow> hs_now h' < dl \<Longrightarrow>
          hs_container h' = Some (Serving a x dl) \<and> hs_local h' = Exited 1"
    using orphaned_container[of Map.empty] by blast
  let ?h = "h\<lparr>hs_now := hs_now h + 1800\<rparr>"
  have step: "handshake_step frontend_spec h ?h" by (rule handshake_step.tick) simp
  have "hs_container ?h = Some (Serving a x dl) \<and> hs_local ?h = Exited 1"
    by (rule later) (auto simp: dl intro: handshake_run.more[OF handshake_run.stay step])
  then show ?thesis using handshake_run.more[OF run step] dl by (intro exI[of _ ?h]) simp
qed

text \<open>The consistency theorem on a run that ends attached: the poll comes between the two puts, so the
  local side prints a cold start of 0.\<close>

theorem handshake_consistent_witness:
  "\<exists>h a x'. handshake_run frontend_spec (handshake_start Map.empty 0) h \<and> hs_local h = Attached a 0
     \<and> hs_container h = Some (Publishing a x') \<and> x' = 5"
proof -
  let ?d = "local_start frontend_spec Map.empty"
  define rd where "rd = \<lparr>su_exited = None, su_probe = Probe_Pong, su_now = 5, su_socket = (''r435.modal.host'', 4321)\<rparr>"
  define d where "d = ?d(''frontend_addr'' \<mapsto> DV_Str orphan_addr)"
  define h1 where "h1 = \<lparr>hs_container = Some (Starting 0 0), hs_local = Polling 0, hs_dict = ?d, hs_now = 5\<rparr>"
  define h2 where "h2 = h1\<lparr>hs_container := Some (Publishing orphan_addr 5), hs_dict := d\<rparr>"
  define h3 where "h3 = h2\<lparr>hs_local := Found orphan_addr\<rparr>"
  define h4 where "h4 = h3\<lparr>hs_local := Attached orphan_addr 0\<rparr>"
  have addr: "socket_addr (''r435.modal.host'', 4321) = orphan_addr"
    unfolding orphan_addr_def by code_simp
  have ne: "orphan_addr \<noteq> []" by (simp add: orphan_addr_def)
  have s1: "handshake_step frontend_spec (starting_at frontend_spec Map.empty 0) h1"
    using handshake_step.tick[of "starting_at frontend_spec Map.empty 0" 5] by (simp add: h1_def starting_at_def)
  have s2: "handshake_step frontend_spec h1 h2"
    using handshake_step.container[of h1 "Starting 0 0" rd frontend_spec "Publishing orphan_addr 5" d]
    by (simp add: h1_def h2_def rd_def d_def container_defs frontend_spec_def grpc_probe_def addr)
  have s3: "handshake_step frontend_spec h2 h3"
    using handshake_step.poll[of h2 0 frontend_spec] ne
    by (simp add: h1_def h2_def h3_def d_def side_defs frontend_spec_def)
  have s4: "handshake_step frontend_spec h3 h4"
    using handshake_step.attach[of h3 orphan_addr frontend_spec]
    by (simp add: h1_def h2_def h3_def h4_def d_def side_defs frontend_spec_def local_start_def)
  have run: "handshake_run frontend_spec (handshake_start Map.empty 0) h4"
    by (rule handshake_run.more[OF handshake_run.more[OF handshake_run.more[OF handshake_run.more[OF spawn_run s1] s2] s3] s4])
  have l: "hs_local h4 = Attached orphan_addr 0" by (simp add: h4_def)
  have c: "hs_container h4 = Some (Publishing orphan_addr 5)" by (simp add: h1_def h2_def h3_def h4_def)
  show ?thesis
    using handshake_consistent[OF run specs_distinct(1)] c run l by auto
qed

end
