(* ===== verification/Bench_Deploy.thy ===== *)
theory Bench_Deploy
  imports Modal_Serve
begin

text \<open>
  The benchmark deployments: the serve functions of \<open>scripts/python/modal_bench_grpc_server.py\<close> and
  \<open>modal_bench_rest_grpc_server.py\<close>, and the harness side of the handshake in
  \<open>tools/benchmark/src/vllm_grpc_bench/modal_endpoint.py\<close>. The two sides share a \<open>modal.Dict\<close>; each is
  a state with one definition per dictionary access or decision, and \<open>bench_step\<close> interleaves them.
  The servers a container starts, the engine it loads and the tunnels it opens are readings of the
  environment. Calls into Modal do not fail in the model.
\<close>

section \<open>The container side\<close>

text \<open>
  What a serve function does with the dictionary: the keys it clears before it loads its engine, the
  entries it puts once its tunnels are open, and the keys it pops in the end, each in order.
\<close>

record deployment =
  dp_early_clear :: "string list"
  dp_puts :: "(string \<times> dict_value) list"
  dp_cleanup :: "string list"

definition BENCH_FUNCTION_TIMEOUT_S :: real where "BENCH_FUNCTION_TIMEOUT_S = 60 * 60 * 12"

text \<open>The sockets of the plain tunnels, and what follows \<open>https://\<close> in the URL of the edge tunnel.\<close>

record bench_tunnels =
  bt_grpc :: "string \<times> int"
  bt_rest :: "string \<times> int"
  bt_edge :: string

definition handshake_keys :: "bool \<Rightarrow> string list" where
  "handshake_keys with_model =
     [''grpc'', ''rest'', ''rest_plain_tcp_url'', ''rest_https_edge_url'', ''token'', ''region'']
     @ (if with_model then [''model''] else []) @ [''ready'', ''teardown'']"

definition rest_grpc_puts :: "bench_tunnels \<Rightarrow> string \<Rightarrow> string \<Rightarrow> string option \<Rightarrow> (string \<times> dict_value) list" where
  "rest_grpc_puts tn token region effective_model =
     [(''grpc'', DV_Str (''tcp+plaintext://'' @ socket_addr (bt_grpc tn))),
      (''rest'', DV_Str (''http://'' @ socket_addr (bt_rest tn))),
      (''rest_plain_tcp_url'', DV_Str (''tcp+plaintext://'' @ socket_addr (bt_rest tn))),
      (''rest_https_edge_url'', DV_Str (''https://'' @ bt_edge tn)),
      (''token'', DV_Str token), (''region'', DV_Str region)]
     @ (case effective_model of None \<Rightarrow> [] | Some m \<Rightarrow> [(''model'', DV_Str m)])
     @ [(''ready'', DV_Bool True)]"

definition serve_bench_rest_grpc :: "bench_tunnels \<Rightarrow> string \<Rightarrow> string \<Rightarrow> deployment" where
  "serve_bench_rest_grpc tn token region =
     \<lparr>dp_early_clear = [], dp_puts = rest_grpc_puts tn token region None, dp_cleanup = handshake_keys False\<rparr>"

text \<open>\<open>os.environ.get("M6_MODEL", model_id)\<close>, and the real-engine function.\<close>

definition effective_model :: "string option \<Rightarrow> string \<Rightarrow> string" where
  "effective_model m6_model model_id = (case m6_model of None \<Rightarrow> model_id | Some m \<Rightarrow> m)"

definition serve_bench_real_engine ::
  "bench_tunnels \<Rightarrow> string \<Rightarrow> string \<Rightarrow> string option \<Rightarrow> string \<Rightarrow> deployment" where
  "serve_bench_real_engine tn token region m6_model model_id =
     \<lparr>dp_early_clear = handshake_keys True,
      dp_puts = rest_grpc_puts tn token region (Some (effective_model m6_model model_id)),
      dp_cleanup = handshake_keys True\<rparr>"

definition endpoint_keys :: "string list" where
  "endpoint_keys = [''endpoint'', ''token'', ''region'', ''ready'', ''teardown'']"

definition serve_bench_grpc :: "string \<times> int \<Rightarrow> string \<Rightarrow> string \<Rightarrow> deployment" where
  "serve_bench_grpc socket token region =
     \<lparr>dp_early_clear = [],
      dp_puts = [(''endpoint'', DV_Str (socket_addr socket)), (''token'', DV_Str token),
                 (''region'', DV_Str region), (''ready'', DV_Bool True)],
      dp_cleanup = endpoint_keys\<rparr>"

text \<open>
  A container: clearing, loading its engine and starting its servers, putting its entries, holding its
  tunnels open until a teardown value or its own time limit, popping its keys, finished with the
  wall-clock time it reports, or dead of an exception raised before its tunnels were open.
\<close>

datatype bench_server =
    S_Clear "string list"
  | S_Boot
  | S_Put real "(string \<times> dict_value) list"
  | S_Hold real
  | S_Clean real "string list"
  | S_Finished real
  | S_Died py_exn

fun bench_server_step ::
  "deployment \<Rightarrow> unit py_result \<Rightarrow> real \<Rightarrow> bench_server \<Rightarrow> modal_dict \<Rightarrow> bench_server \<times> modal_dict" where
  "bench_server_step dp boot now (S_Clear (k # ks)) d = (S_Clear ks, d(k := None))"
| "bench_server_step dp boot now (S_Clear []) d = (S_Boot, d)"
| "bench_server_step dp boot now S_Boot d =
     ((case boot of Inl exc \<Rightarrow> S_Died exc | Inr _ \<Rightarrow> S_Put now (dp_puts dp)), d)"
| "bench_server_step dp boot now (S_Put started (p # ps)) d = (S_Put started ps, d(fst p \<mapsto> snd p))"
| "bench_server_step dp boot now (S_Put started []) d = (S_Hold started, d)"
| "bench_server_step dp boot now (S_Hold started) d =
     ((if dv_truthy (d ''teardown'') \<or> now - started > BENCH_FUNCTION_TIMEOUT_S - 30
       then S_Clean started (dp_cleanup dp) else S_Hold started), d)"
| "bench_server_step dp boot now (S_Clean started (k # ks)) d = (S_Clean started ks, d(k := None))"
| "bench_server_step dp boot now (S_Clean started []) d = (S_Finished (now - started), d)"
| "bench_server_step dp boot now (S_Finished wall) d = (S_Finished wall, d)"
| "bench_server_step dp boot now (S_Died exc) d = (S_Died exc, d)"

text \<open>
  \<open>_smoke_check_engine\<close>: outside a running event loop the throwaway generation is run and what it
  raises is raised; inside one it is only scheduled, which the flag says. The real-engine function is
  a coroutine, so its loop is running.
\<close>

definition smoke_check_engine :: "bool \<Rightarrow> unit py_result \<Rightarrow> unit py_result \<times> bool" where
  "smoke_check_engine loop_running generation =
     (if loop_running then (Inr (), True) else (generation, False))"

definition use_real_engine :: "string option \<Rightarrow> bool" where
  "use_real_engine m6_use \<longleftrightarrow> str_lower (case m6_use of None \<Rightarrow> ''true'' | Some v \<Rightarrow> v) = ''true''"

text \<open>
  The boot of the real-engine function: unless \<open>M6_USE_REAL_ENGINE\<close> says otherwise the engine is loaded
  and checked; then the servers are started.
\<close>

definition real_engine_boot ::
  "string option \<Rightarrow> unit py_result \<Rightarrow> unit py_result \<Rightarrow> unit py_result \<Rightarrow> unit py_result" where
  "real_engine_boot m6_use load generation start_servers =
     (if use_real_engine m6_use
      then bind_result load (\<lambda>_. bind_result (fst (smoke_check_engine True generation)) (\<lambda>_. start_servers))
      else start_servers)"

section \<open>The bearer-token interceptor\<close>

text \<open>\<open>dict(invocation_metadata or ())\<close> keeps the last value of a key.\<close>

definition intercept_service ::
  "string \<Rightarrow> (string \<times> string) list \<Rightarrow> 'h py_result \<Rightarrow> 'h py_result" where
  "intercept_service token invocation_metadata continuation =
     (if (case map_of (rev invocation_metadata) ''authorization'' of None \<Rightarrow> [] | Some v \<Rightarrow> v) \<noteq> ''Bearer '' @ token
      then Inl (Lib_Exn ''RpcError'' ''bearer token rejected'' [''RpcError''] (Some ''UNAUTHENTICATED'')
                  (Some (Some ''bearer token rejected'')))
      else continuation)"

definition call_metadata :: "string \<Rightarrow> (string \<times> string) list" where
  "call_metadata token = [(''authorization'', ''Bearer '' @ token)]"

text \<open>The local entry points: an empty token ends them with exit code 2.\<close>

definition bench_main :: "string \<Rightarrow> string \<Rightarrow> int + (string \<times> string)" where
  "bench_main token region = (if token = [] then Inl 2 else Inr (token, region))"

section \<open>The harness side\<close>

definition modal_deploy_error :: "string \<Rightarrow> py_exn" where
  "modal_deploy_error msg = Lib_Exn ''ModalDeployError'' msg [''ModalDeployError'', ''RuntimeError''] None None"

definition strip_scheme :: "string \<Rightarrow> string" where
  "strip_scheme endpoint =
     (case find (\<lambda>p. starts_with p endpoint)
             [''tcp+plaintext://'', ''tcp://'', ''grpcs://'', ''https://'', ''grpc://''] of
        Some p \<Rightarrow> drop (length p) endpoint
      | None \<Rightarrow> endpoint)"

text \<open>
  What the harness does: the keys it clears after it has spawned the function, the keys it reads once
  \<open>ready\<close> is set, what it raises over the values read so far, and how long it polls.
\<close>

record client_spec =
  cs_clear :: "string list"
  cs_reads :: "string list"
  cs_check :: "dict_value option list \<Rightarrow> py_exn option"
  cs_timeout_s :: real
  cs_label :: string

text \<open>\<open>isinstance(url, str) and url\<close>, and \<open>d.get("token", default="")\<close>.\<close>

definition url_given :: "dict_value option \<Rightarrow> bool" where
  "url_given v = (case v of Some (DV_Str s) \<Rightarrow> s \<noteq> [] | _ \<Rightarrow> False)"

definition echoed :: "dict_value option \<Rightarrow> dict_value" where
  "echoed v = (case v of None \<Rightarrow> DV_Str [] | Some x \<Rightarrow> x)"

definition rest_grpc_check :: "string \<Rightarrow> dict_value option list \<Rightarrow> py_exn option" where
  "rest_grpc_check expected_token vals =
     (if length vals = 3 then
        (if \<not> url_given (vals ! 0)
         then Some (modal_deploy_error ''M5.1 Modal handshake completed but gRPC URL is empty'')
         else if \<not> url_given (vals ! 1)
         then Some (modal_deploy_error ''M5.1 Modal handshake completed but REST URL is empty'')
         else if echoed (vals ! 2) \<noteq> DV_Str expected_token
         then Some (modal_deploy_error (''M5.1 Modal handshake completed but bearer-token echo does not match; ''
                     @ ''another Modal app may be using the shared M5.1 handshake dict''))
         else None)
      else if length vals = 4 \<and> \<not> url_given (vals ! 3)
      then Some (modal_deploy_error (''M5.2 Modal handshake completed but rest_plain_tcp_url is empty; ''
                  @ ''is scripts/python/modal_bench_rest_grpc_server.py up to date?''))
      else if length vals = 5 \<and> \<not> url_given (vals ! 4)
      then Some (modal_deploy_error (''M5.2 Modal handshake completed but rest_https_edge_url is empty; ''
                  @ ''is scripts/python/modal_bench_rest_grpc_server.py up to date?''))
      else None)"

definition endpoint_check :: "string \<Rightarrow> dict_value option list \<Rightarrow> py_exn option" where
  "endpoint_check expected_token vals =
     (if length vals = 2 then
        (if \<not> url_given (vals ! 0)
         then Some (modal_deploy_error ''Modal handshake completed but endpoint URL is empty'')
         else if echoed (vals ! 1) \<noteq> DV_Str expected_token
         then Some (modal_deploy_error (''Modal handshake completed but bearer-token echo does not match; ''
                     @ ''another Modal app may be using the shared handshake dict''))
         else None)
      else None)"

definition rest_grpc_reads :: "bool \<Rightarrow> string list" where
  "rest_grpc_reads with_rest_plain_tcp = [''grpc'', ''rest'', ''token'']
     @ (if with_rest_plain_tcp then [''rest_plain_tcp_url'', ''rest_https_edge_url''] else [])"

definition HANDSHAKE_TIMEOUT_S :: real where "HANDSHAKE_TIMEOUT_S = 120"
definition M5_1_HANDSHAKE_TIMEOUT_S :: real where "M5_1_HANDSHAKE_TIMEOUT_S = 180"
definition M6_HANDSHAKE_TIMEOUT_S :: real where "M6_HANDSHAKE_TIMEOUT_S = 600"

definition provide_endpoint :: "string \<Rightarrow> client_spec" where
  "provide_endpoint token =
     \<lparr>cs_clear = endpoint_keys, cs_reads = [''endpoint'', ''token''], cs_check = endpoint_check token,
      cs_timeout_s = HANDSHAKE_TIMEOUT_S, cs_label = ''Modal''\<rparr>"

definition provide_rest_grpc_endpoint :: "bool \<Rightarrow> string \<Rightarrow> client_spec" where
  "provide_rest_grpc_endpoint with_rest_plain_tcp token =
     \<lparr>cs_clear = handshake_keys False, cs_reads = rest_grpc_reads with_rest_plain_tcp,
      cs_check = rest_grpc_check token, cs_timeout_s = M5_1_HANDSHAKE_TIMEOUT_S, cs_label = ''M5.1 Modal''\<rparr>"

definition provide_m6_endpoint :: "string \<Rightarrow> client_spec" where
  "provide_m6_endpoint token =
     \<lparr>cs_clear = handshake_keys True, cs_reads = rest_grpc_reads True, cs_check = rest_grpc_check token,
      cs_timeout_s = M6_HANDSHAKE_TIMEOUT_S, cs_label = ''M5.1 Modal''\<rparr>"

text \<open>
  The start of a provider: the token from the environment and the import of the deployment script. The
  two error texts end in the provider's own hints.
\<close>

definition provider_token ::
  "string \<Rightarrow> string \<Rightarrow> string \<Rightarrow> (string \<Rightarrow> string option) \<Rightarrow> string \<Rightarrow> unit py_result \<Rightarrow> string py_result" where
  "provider_token token_hint app_name import_hint environ token_env import_app =
     (let token = (case environ token_env of None \<Rightarrow> [] | Some t \<Rightarrow> t)
      in if token = []
         then Inl (modal_deploy_error (''environment variable '' @ [CHR 0x27] @ token_env @ [CHR 0x27]
                     @ '' is not set; '' @ token_hint))
         else case import_app of
                Inr _ \<Rightarrow> Inr token
              | Inl exc \<Rightarrow> if isinstance exc ''ImportError''
                           then Inl (modal_deploy_error (''failed to import '' @ app_name @ '': '' @ exn_msg exc
                                       @ ''; '' @ import_hint))
                           else Inl exc)"

text \<open>
  A provider: about to spawn, clearing its keys, polling since a deadline was set, reading, in
  possession of the values, failed, or left, when its caller's block has ended and it has put the
  teardown value.
\<close>

datatype bench_client =
    C_Spawn
  | C_Clear "string list"
  | C_Wait real "dict_value option option"
  | C_Read "dict_value option list"
  | C_Holds "dict_value option list"
  | C_Failed py_exn
  | C_Left

text \<open>\<open>last_seen\<close> holds the last falsy value of \<open>ready\<close>.\<close>

definition last_seen_repr :: "dict_value option option \<Rightarrow> string" where
  "last_seen_repr seen = (case seen of
     None \<Rightarrow> ''{}''
   | Some (Some (DV_Str s)) \<Rightarrow> ''{'' @ [CHR 0x27] @ ''ready'' @ [CHR 0x27] @ '': '' @ [CHR 0x27, CHR 0x27] @ ''}''
   | Some (Some (DV_Num x)) \<Rightarrow> ''{'' @ [CHR 0x27] @ ''ready'' @ [CHR 0x27] @ '': 0.0}''
   | Some _ \<Rightarrow> ''{'' @ [CHR 0x27] @ ''ready'' @ [CHR 0x27] @ '': False}'')"

definition handshake_timeout :: "client_spec \<Rightarrow> dict_value option option \<Rightarrow> py_exn" where
  "handshake_timeout cs seen =
     modal_deploy_error (cs_label cs @ '' handshake timed out after '' @ fmt_fixed 0 (cs_timeout_s cs)
       @ ''s; last_seen='' @ last_seen_repr seen)"

fun bench_client_step ::
  "client_spec \<Rightarrow> real \<Rightarrow> bench_client \<Rightarrow> modal_dict \<Rightarrow> bench_client \<times> modal_dict" where
  "bench_client_step cs now C_Spawn d = (C_Clear (cs_clear cs), d)"
| "bench_client_step cs now (C_Clear (k # ks)) d = (C_Clear ks, d(k := None))"
| "bench_client_step cs now (C_Clear []) d = (C_Wait (now + cs_timeout_s cs) None, d)"
| "bench_client_step cs now (C_Wait deadline seen) d =
     ((if now < deadline
       then if dv_truthy (d ''ready'') then C_Read [] else C_Wait deadline (Some (d ''ready''))
       else C_Failed (handshake_timeout cs seen)), d)"
| "bench_client_step cs now (C_Read vals) d =
     ((case cs_check cs vals of
         Some exc \<Rightarrow> C_Failed exc
       | None \<Rightarrow> if length vals < length (cs_reads cs) then C_Read (vals @ [d (cs_reads cs ! length vals)])
                 else C_Holds vals), d)"
| "bench_client_step cs now (C_Holds vals) d = (C_Left, d(''teardown'' \<mapsto> DV_Bool True))"
| "bench_client_step cs now (C_Failed exc) d = (C_Failed exc, d)"
| "bench_client_step cs now C_Left d = (C_Left, d)"

text \<open>What the provider yields.\<close>

record rest_grpc_endpoints =
  re_grpc_url :: string
  re_rest_url :: string
  re_auth_token_env_var :: string
  re_rest_plain_tcp_url :: "string option"
  re_rest_https_edge_url :: "string option"

definition str_of_value :: "dict_value option \<Rightarrow> string" where
  "str_of_value v = (case v of Some (DV_Str s) \<Rightarrow> s | _ \<Rightarrow> [])"

definition endpoints_of :: "string \<Rightarrow> dict_value option list \<Rightarrow> rest_grpc_endpoints" where
  "endpoints_of token_env vals =
     \<lparr>re_grpc_url = strip_scheme (str_of_value (vals ! 0)), re_rest_url = str_of_value (vals ! 1),
      re_auth_token_env_var = token_env,
      re_rest_plain_tcp_url = (if length vals = 5 then Some (str_of_value (vals ! 3)) else None),
      re_rest_https_edge_url = (if length vals = 5 then Some (str_of_value (vals ! 4)) else None)\<rparr>"

definition endpoint_tuple :: "string \<Rightarrow> dict_value option list \<Rightarrow> string \<times> (string \<times> string) list" where
  "endpoint_tuple token vals = (strip_scheme (str_of_value (vals ! 0)), call_metadata token)"

definition static_endpoint_provider ::
  "(string \<Rightarrow> string option) \<Rightarrow> string \<Rightarrow> string \<Rightarrow> (string \<times> (string \<times> string) list) py_result" where
  "static_endpoint_provider environ target token_env =
     bind_result
       (provider_token ''--m5-skip-deploy still requires the bearer token to be exported'' [] [] environ token_env (Inr ()))
        (\<lambda>token. Inr (strip_scheme target, call_metadata token))"

text \<open>
  \<open>refresh_rest_grpc_urls\<close>: per iteration the clock at the loop's test and what the four reads give,
  with \<open>default=""\<close> for a missing key. The readings stand for the iterations the loop has made.
\<close>

record url_reads =
  ur_grpc :: "dict_value option"
  ur_rest :: "dict_value option"
  ur_tcp :: "dict_value option"
  ur_edge :: "dict_value option"

definition str_or_missing :: "dict_value option \<Rightarrow> bool" where
  "str_or_missing v = (case v of None \<Rightarrow> True | Some (DV_Str s) \<Rightarrow> True | _ \<Rightarrow> False)"

definition some_nonempty :: "string \<Rightarrow> string option" where
  "some_nonempty s = (if s = [] then None else Some s)"

fun refresh_rest_grpc_urls ::
  "rest_grpc_endpoints \<Rightarrow> real \<Rightarrow> (real \<times> url_reads py_result) list \<Rightarrow> rest_grpc_endpoints option" where
  "refresh_rest_grpc_urls cached deadline [] = None"
| "refresh_rest_grpc_urls cached deadline ((now, r) # rs) =
     (if now < deadline then
        (case r of
           Inl exc \<Rightarrow> refresh_rest_grpc_urls cached deadline rs
         | Inr u \<Rightarrow>
             if \<not> (list_all str_or_missing [ur_grpc u, ur_rest u, ur_tcp u, ur_edge u]
                   \<and> url_given (ur_grpc u) \<and> url_given (ur_rest u))
             then refresh_rest_grpc_urls cached deadline rs
             else if strip_scheme (str_of_value (ur_grpc u)) = strip_scheme (re_grpc_url cached)
             then refresh_rest_grpc_urls cached deadline rs
             else Some \<lparr>re_grpc_url = strip_scheme (str_of_value (ur_grpc u)),
                        re_rest_url = str_of_value (ur_rest u),
                        re_auth_token_env_var = re_auth_token_env_var cached,
                        re_rest_plain_tcp_url = some_nonempty (str_of_value (ur_tcp u)),
                        re_rest_https_edge_url = some_nonempty (str_of_value (ur_edge u))\<rparr>)
      else None)"

section \<open>The two sides together\<close>

record bench_state =
  bs_server :: "bench_server option"
  bs_client :: bench_client
  bs_dict :: modal_dict
  bs_now :: real

definition bench_start :: "modal_dict \<Rightarrow> real \<Rightarrow> bench_state" where
  "bench_start d now = \<lparr>bs_server = None, bs_client = C_Spawn, bs_dict = d, bs_now = now\<rparr>"

text \<open>
  A container is punctual when its boot outlasts the provider's clearing of the keys and its time limit
  the provider's polling: then it neither publishes to a dictionary about to be cleared nor pops its
  entries while they are read.
\<close>

fun clearing :: "bench_client \<Rightarrow> bool" where
  "clearing C_Spawn = True"
| "clearing (C_Clear ks) = True"
| "clearing _ = False"

fun waiting :: "bench_client \<Rightarrow> bool" where
  "waiting (C_Wait deadline seen) = True"
| "waiting (C_Read vals) = True"
| "waiting _ = False"

definition punctual :: "bench_state \<Rightarrow> bool" where
  "punctual h = (case bs_server h of
     Some S_Boot \<Rightarrow> \<not> clearing (bs_client h)
   | Some (S_Hold started) \<Rightarrow> waiting (bs_client h) \<longrightarrow> bs_now h - started \<le> BENCH_FUNCTION_TIMEOUT_S - 30
   | _ \<Rightarrow> True)"

text \<open>The steps of the two sides and of time; \<open>only_punctual\<close> restricts the container.\<close>

inductive bench_step :: "deployment \<Rightarrow> client_spec \<Rightarrow> bool \<Rightarrow> bench_state \<Rightarrow> bench_state \<Rightarrow> bool"
  for dp cs only_punctual where
  spawn: "bs_client h = C_Spawn \<Longrightarrow> bench_client_step cs (bs_now h) C_Spawn (bs_dict h) = (c, d) \<Longrightarrow>
    bench_step dp cs only_punctual h
      (h\<lparr>bs_client := c, bs_dict := d, bs_server := Some (S_Clear (dp_early_clear dp))\<rparr>)"
| client: "bs_client h \<noteq> C_Spawn \<Longrightarrow> bench_client_step cs (bs_now h) (bs_client h) (bs_dict h) = (c, d) \<Longrightarrow>
    bench_step dp cs only_punctual h (h\<lparr>bs_client := c, bs_dict := d\<rparr>)"
| server: "bs_server h = Some s \<Longrightarrow> (only_punctual \<longrightarrow> punctual h) \<Longrightarrow>
    bench_server_step dp boot (bs_now h) s (bs_dict h) = (s', d) \<Longrightarrow>
    bench_step dp cs only_punctual h (h\<lparr>bs_server := Some s', bs_dict := d\<rparr>)"
| tick: "bs_now h \<le> now \<Longrightarrow> bench_step dp cs only_punctual h (h\<lparr>bs_now := now\<rparr>)"

inductive bench_run :: "deployment \<Rightarrow> client_spec \<Rightarrow> bool \<Rightarrow> bench_state \<Rightarrow> bench_state \<Rightarrow> bool"
  for dp cs only_punctual where
  stay: "bench_run dp cs only_punctual h h"
| more: "bench_run dp cs only_punctual h h' \<Longrightarrow> bench_step dp cs only_punctual h' h'' \<Longrightarrow>
    bench_run dp cs only_punctual h h''"

end
