(* ===== verification/Bench_Laws.thy ===== *)
theory Bench_Laws
  imports Bench_Deploy
begin

text \<open>
  The handshake of the benchmark deployments: the laws a deployment and its provider owe each other as
  a locale, what every punctual run then delivers, the interpretations on the three deployments of the
  code, and the run in which the provider clears what the container has already published.
\<close>

section \<open>The invariant\<close>

text \<open>The dictionary shows exactly the given entries, among the keys a deployment puts.\<close>

definition entries_shown :: "deployment \<Rightarrow> (string \<times> dict_value) list \<Rightarrow> modal_dict \<Rightarrow> bool" where
  "entries_shown dp ps d \<longleftrightarrow> (\<forall>k \<in> fst ` set (dp_puts dp). d k = map_of ps k)"

lemma entries_shownD: "entries_shown dp ps d \<Longrightarrow> k \<in> fst ` set (dp_puts dp) \<Longrightarrow> d k = map_of ps k"
  unfolding entries_shown_def by blast

definition server_shows :: "deployment \<Rightarrow> bench_server \<Rightarrow> modal_dict \<Rightarrow> bool" where
  "server_shows dp s d = (case s of
     S_Put started ps \<Rightarrow> (\<exists>pre. dp_puts dp = pre @ ps \<and> entries_shown dp pre d)
   | S_Hold started \<Rightarrow> entries_shown dp (dp_puts dp) d
   | S_Clean started ks \<Rightarrow> False
   | S_Finished wall \<Rightarrow> False
   | _ \<Rightarrow> entries_shown dp [] d)"

fun booting :: "bench_server \<Rightarrow> bool" where
  "booting (S_Clear ks) = True"
| "booting S_Boot = True"
| "booting (S_Died exc) = True"
| "booting _ = False"

definition values_of :: "deployment \<Rightarrow> string list \<Rightarrow> dict_value option list" where
  "values_of dp ks = map (map_of (dp_puts dp)) ks"

lemma length_values_of [simp]: "length (values_of dp ks) = length ks"
  by (simp add: values_of_def)

definition client_sees :: "deployment \<Rightarrow> client_spec \<Rightarrow> bench_client \<Rightarrow> bench_server \<Rightarrow> modal_dict \<Rightarrow> bool" where
  "client_sees dp cs c s d = (case c of
     C_Spawn \<Rightarrow> False
   | C_Clear ks \<Rightarrow> booting s \<and> (\<forall>k \<in> set (cs_clear cs) - set ks. d k = None)
   | C_Wait deadline seen \<Rightarrow> server_shows dp s d \<and> d ''teardown'' = None
   | C_Read vals \<Rightarrow> server_shows dp s d \<and> d ''teardown'' = None \<and> entries_shown dp (dp_puts dp) d
       \<and> length vals \<le> length (cs_reads cs) \<and> vals = values_of dp (take (length vals) (cs_reads cs))
   | C_Holds vals \<Rightarrow> vals = values_of dp (cs_reads cs)
   | C_Failed exc \<Rightarrow> \<exists>seen. exc = handshake_timeout cs seen
   | C_Left \<Rightarrow> True)"

definition bench_inv :: "deployment \<Rightarrow> client_spec \<Rightarrow> bench_state \<Rightarrow> bool" where
  "bench_inv dp cs h \<longleftrightarrow> (case bs_server h of
     None \<Rightarrow> bs_client h = C_Spawn
   | Some s \<Rightarrow> client_sees dp cs (bs_client h) s (bs_dict h))"

section \<open>The protocol\<close>

locale bench_protocol =
  fixes dp :: deployment and cs :: client_spec
  assumes ready_last: "\<exists>ps. dp_puts dp = ps @ [(''ready'', DV_Bool True)]"
    and keys_once: "distinct (map fst (dp_puts dp))"
    and puts_cleared: "fst ` set (dp_puts dp) \<subseteq> set (cs_clear cs)"
    and teardown_cleared: "''teardown'' \<in> set (cs_clear cs)"
    and teardown_free: "''teardown'' \<notin> fst ` set (dp_puts dp)"
    and reads_put: "set (cs_reads cs) \<subseteq> fst ` set (dp_puts dp)"
    and accepted: "n \<le> length (cs_reads cs) \<Longrightarrow> cs_check cs (values_of dp (take n (cs_reads cs))) = None"
begin

lemma ready_put: "''ready'' \<in> fst ` set (dp_puts dp)"
  using ready_last by force

lemma shown_not_empty:
  assumes "entries_shown dp (dp_puts dp) d"
  shows "\<not> entries_shown dp [] d"
proof
  assume "entries_shown dp [] d"
  then have "map_of (dp_puts dp) ''ready'' = None"
    using entries_shownD[OF _ ready_put] assms by fastforce
  then show False using ready_put by (simp add: map_of_eq_None_iff)
qed

lemma shown_put:
  assumes "dp_puts dp = pre @ p # ps" and "entries_shown dp pre d"
  shows "entries_shown dp (pre @ [p]) (d(fst p \<mapsto> snd p))"
proof -
  have "fst p \<notin> fst ` set pre" using keys_once assms(1) by auto
  then have "map_of pre (fst p) = None" by (simp add: map_of_eq_None_iff)
  then show ?thesis using assms(2) unfolding entries_shown_def
    by (auto simp: map_add_def split: option.split)
qed

lemma shown_put_again:
  assumes "p \<in> set (dp_puts dp)" and "entries_shown dp (dp_puts dp) d"
  shows "entries_shown dp (dp_puts dp) (d(fst p \<mapsto> snd p))"
  using assms keys_once by (cases p) (auto simp: entries_shown_def)

lemma ready_shown:
  assumes "server_shows dp s d" and "dv_truthy (d ''ready'')"
  shows "entries_shown dp (dp_puts dp) d"
proof -
  obtain qs where qs: "dp_puts dp = qs @ [(''ready'', DV_Bool True)]" using ready_last by blast
  then have q: "''ready'' \<notin> fst ` set qs" using keys_once by auto
  show ?thesis
  proof (cases s)
    case (S_Put started ps)
    then obtain pre where pre: "dp_puts dp = pre @ ps" "entries_shown dp pre d"
      using assms(1) by (auto simp: server_shows_def)
    have "d ''ready'' \<noteq> None" using assms(2) by auto
    then have "map_of pre ''ready'' \<noteq> None" using entries_shownD[OF pre(2) ready_put] by simp
    then have "''ready'' \<in> fst ` set pre" by (simp add: map_of_eq_None_iff)
    then have "ps = []" using pre(1) qs q by (cases ps rule: rev_cases) auto
    then show ?thesis using pre by simp
  qed (use assms entries_shownD[OF _ ready_put, of "[]" d] in \<open>auto simp: server_shows_def\<close>)
qed

lemma server_step_shows:
  assumes sh: "server_shows dp s d" and stop: "d ''teardown'' = None"
    and step: "bench_server_step dp boot now s d = (s', d')"
    and time: "\<And>started. s = S_Hold started \<Longrightarrow> now - started \<le> BENCH_FUNCTION_TIMEOUT_S - 30"
  shows "server_shows dp s' d' \<and> d' ''teardown'' = None
    \<and> (entries_shown dp (dp_puts dp) d \<longrightarrow> entries_shown dp (dp_puts dp) d')"
proof (cases s)
  case (S_Clear ks)
  have "entries_shown dp [] d" using sh S_Clear by (simp add: server_shows_def)
  moreover from this have "\<not> entries_shown dp (dp_puts dp) d" using shown_not_empty by blast
  ultimately show ?thesis using stop step S_Clear
    by (cases ks) (auto simp: server_shows_def entries_shown_def)
next
  case S_Boot
  then show ?thesis using sh stop step by (auto simp: server_shows_def split: sum.split_asm)
next
  case (S_Put started ps)
  then obtain pre where pre: "dp_puts dp = pre @ ps" "entries_shown dp pre d"
    using sh by (auto simp: server_shows_def)
  show ?thesis
  proof (cases ps)
    case Nil
    then show ?thesis using pre stop step S_Put by (auto simp: server_shows_def)
  next
    case (Cons p qs)
    then have s': "s' = S_Put started qs" "d' = d(fst p \<mapsto> snd p)" using step S_Put by auto
    have p: "p \<in> set (dp_puts dp)" and put: "dp_puts dp = pre @ p # qs" using pre Cons by auto
    have "fst p \<noteq> ''teardown''" using teardown_free p by force
    then show ?thesis
      using shown_put[OF put pre(2)] shown_put_again[OF p] put stop s'
      by (auto simp: server_shows_def intro!: exI[of _ "pre @ [p]"])
  qed
next
  case (S_Hold started)
  then show ?thesis using sh stop step time by (auto simp: server_shows_def dv_truthy_def)
qed (use sh stop step in \<open>auto simp: server_shows_def\<close>)

lemma reading_next:
  assumes "entries_shown dp (dp_puts dp) d" and "n < length (cs_reads cs)"
  shows "values_of dp (take n (cs_reads cs)) @ [d (cs_reads cs ! n)] = values_of dp (take (Suc n) (cs_reads cs))"
proof -
  have "cs_reads cs ! n \<in> fst ` set (dp_puts dp)" using reads_put assms(2) by force
  then show ?thesis using entries_shownD[OF assms(1)] assms(2)
    by (simp add: values_of_def take_Suc_conv_app_nth)
qed

lemma client_step_sees:
  assumes sees: "client_sees dp cs c s d" and step: "bench_client_step cs now c d = (c', d')"
  shows "client_sees dp cs c' s d'"
proof (cases c)
  case (C_Clear ks)
  show ?thesis
  proof (cases ks)
    case Nil
    then have none: "\<forall>k \<in> set (cs_clear cs). d k = None" and b: "booting s"
      using sees C_Clear by (auto simp: client_sees_def)
    then have "entries_shown dp [] d" using puts_cleared by (auto simp: entries_shown_def)
    then have "server_shows dp s d" using b by (cases s) (auto simp: server_shows_def)
    then show ?thesis using none teardown_cleared step C_Clear Nil by (auto simp: client_sees_def)
  next
    case (Cons k ks')
    then show ?thesis using sees step C_Clear by (auto simp: client_sees_def)
  qed
next
  case (C_Wait deadline seen)
  then show ?thesis using sees step ready_shown
    by (auto simp: client_sees_def values_of_def split: if_split_asm)
next
  case (C_Read vals)
  then have sh: "entries_shown dp (dp_puts dp) d" and n: "length vals \<le> length (cs_reads cs)"
    and vals: "vals = values_of dp (take (length vals) (cs_reads cs))"
    and rest: "server_shows dp s d" "d ''teardown'' = None"
    using sees by (auto simp: client_sees_def)
  have ok: "cs_check cs vals = None" using accepted[OF n] vals by simp
  show ?thesis
  proof (cases "length vals < length (cs_reads cs)")
    case True
    have "vals @ [d (cs_reads cs ! length vals)] = values_of dp (take (Suc (length vals)) (cs_reads cs))"
      using reading_next[OF sh True] vals by simp
    then show ?thesis using True ok step C_Read sh rest
      by (auto simp: client_sees_def simp del: take_Suc_conv_app_nth)
  next
    case False
    then have "vals = values_of dp (cs_reads cs)" using vals by simp
    then show ?thesis using False ok step C_Read by (auto simp: client_sees_def)
  qed
qed (use sees step in \<open>auto simp: client_sees_def\<close>)

lemma server_step_sees:
  assumes sees: "client_sees dp cs c s d" and step: "bench_server_step dp boot now s d = (s', d')"
    and boot: "s = S_Boot \<Longrightarrow> \<not> clearing c"
    and time: "\<And>started. s = S_Hold started \<Longrightarrow> waiting c \<Longrightarrow> now - started \<le> BENCH_FUNCTION_TIMEOUT_S - 30"
  shows "client_sees dp cs c s' d'"
proof (cases c)
  case (C_Clear ks)
  then have b: "booting s" and none: "\<forall>k \<in> set (cs_clear cs) - set ks. d k = None"
    using sees by (auto simp: client_sees_def)
  show ?thesis
  proof (cases s)
    case (S_Clear qs)
    then show ?thesis using none step C_Clear by (cases qs) (auto simp: client_sees_def)
  qed (use b none step boot C_Clear in \<open>auto simp: client_sees_def\<close>)
next
  case (C_Wait deadline seen)
  then show ?thesis using sees server_step_shows[OF _ _ step] time by (simp add: client_sees_def)
next
  case (C_Read vals)
  then show ?thesis using sees server_step_shows[OF _ _ step] time by (simp add: client_sees_def)
qed (use sees in \<open>auto simp: client_sees_def\<close>)

lemma bench_step_inv:
  assumes "bench_step dp cs True h h'" and inv: "bench_inv dp cs h"
  shows "bench_inv dp cs h'"
  using assms(1)
proof cases
  case (spawn c d)
  then show ?thesis by (auto simp: bench_inv_def client_sees_def)
next
  case (client c d)
  then show ?thesis using inv client_step_sees by (auto simp: bench_inv_def split: option.splits)
next
  case (server s boot s' d)
  have sees: "client_sees dp cs (bs_client h) s (bs_dict h)" using inv server by (simp add: bench_inv_def)
  have "client_sees dp cs (bs_client h) s' d"
    by (rule server_step_sees[OF sees]) (use server in \<open>auto simp: punctual_def\<close>)
  then show ?thesis using server by (simp add: bench_inv_def)
next
  case (tick now)
  then show ?thesis using inv by (simp add: bench_inv_def split: option.split_asm option.split)
qed

lemma bench_run_inv: "bench_run dp cs True h h' \<Longrightarrow> bench_inv dp cs h \<Longrightarrow> bench_inv dp cs h'"
  by (induction rule: bench_run.induct) (auto intro: bench_step_inv)

lemma run_delivers:
  assumes "bench_run dp cs True (bench_start d now) h"
  shows "(\<forall>vals. bs_client h = C_Holds vals \<longrightarrow> vals = values_of dp (cs_reads cs))
    \<and> (\<forall>exc. bs_client h = C_Failed exc \<longrightarrow> (\<exists>seen. exc = handshake_timeout cs seen))"
proof -
  have "bench_inv dp cs h"
    using bench_run_inv[OF assms] by (simp add: bench_inv_def bench_start_def)
  then show ?thesis by (auto simp: bench_inv_def client_sees_def split: option.split_asm)
qed

end

section \<open>The deployments of the code\<close>

lemma less_five: "n \<le> (5::nat) \<Longrightarrow> n \<in> {0, 1, 2, 3, 4, 5}"
  by auto

lemma rest_grpc_accepted:
  assumes "n \<le> length (rest_grpc_reads tcp)"
    and "f ''grpc'' = Some (DV_Str g)" "f ''rest'' = Some (DV_Str r)" "f ''token'' = Some (DV_Str t)"
      "f ''rest_plain_tcp_url'' = Some (DV_Str p)" "f ''rest_https_edge_url'' = Some (DV_Str e)"
    and "g \<noteq> []" "r \<noteq> []" "p \<noteq> []" "e \<noteq> []"
  shows "rest_grpc_check t (map f (take n (rest_grpc_reads tcp))) = None"
proof -
  have "n \<le> 5" using assms(1) by (cases tcp) (simp_all add: rest_grpc_reads_def)
  then have "n \<in> {0, 1, 2, 3, 4, 5}" by (rule less_five)
  then show ?thesis using assms
    by (cases tcp) (auto simp: rest_grpc_check_def rest_grpc_reads_def url_given_def echoed_def)
qed

lemmas rest_grpc_defs = rest_grpc_puts_def rest_grpc_reads_def handshake_keys_def

lemma rest_grpc_protocol:
  assumes puts: "dp_puts dp = rest_grpc_puts tn token region m" and "cs_reads cs = rest_grpc_reads tcp"
    and check: "cs_check cs = rest_grpc_check token" and clear: "cs_clear cs = handshake_keys (m \<noteq> None)"
  shows "bench_protocol dp cs"
proof
  show "\<exists>ps. dp_puts dp = ps @ [(''ready'', DV_Bool True)]"
    unfolding puts rest_grpc_puts_def by (simp only: append_assoc[symmetric]) blast
  show "distinct (map fst (dp_puts dp))" "fst ` set (dp_puts dp) \<subseteq> set (cs_clear cs)"
    "''teardown'' \<in> set (cs_clear cs)" "''teardown'' \<notin> fst ` set (dp_puts dp)"
    "set (cs_reads cs) \<subseteq> fst ` set (dp_puts dp)"
    using assms by (cases m; cases tcp; simp add: rest_grpc_defs)+
  show "cs_check cs (values_of dp (take n (cs_reads cs))) = None" if "n \<le> length (cs_reads cs)" for n
    unfolding values_of_def check assms(2) puts
    by (rule rest_grpc_accepted[where g = "''tcp+plaintext://'' @ socket_addr (bt_grpc tn)"
          and r = "''http://'' @ socket_addr (bt_rest tn)" and p = "''tcp+plaintext://'' @ socket_addr (bt_rest tn)"
          and e = "''https://'' @ bt_edge tn"])
      (use that assms(2) in \<open>simp_all add: rest_grpc_puts_def\<close>)
qed

interpretation m5_1: bench_protocol "serve_bench_rest_grpc tn token region" "provide_rest_grpc_endpoint tcp token"
  for tn token region tcp
  by (rule rest_grpc_protocol[where m = None and tcp = tcp])
    (simp_all add: serve_bench_rest_grpc_def provide_rest_grpc_endpoint_def)

interpretation m6: bench_protocol "serve_bench_real_engine tn token region m6_model model_id" "provide_m6_endpoint token"
  for tn token region m6_model model_id
  by (rule rest_grpc_protocol[where m = "Some (effective_model m6_model model_id)" and tcp = True])
    (simp_all add: serve_bench_real_engine_def provide_m6_endpoint_def)

interpretation m5: bench_protocol "serve_bench_grpc socket token region" "provide_endpoint token"
  for socket token region
proof
  show "\<exists>ps. dp_puts (serve_bench_grpc socket token region) = ps @ [(''ready'', DV_Bool True)]"
    by (rule exI[of _ "butlast (dp_puts (serve_bench_grpc socket token region))"]) (simp add: serve_bench_grpc_def)
  show "cs_check (provide_endpoint token)
      (values_of (serve_bench_grpc socket token region) (take n (cs_reads (provide_endpoint token)))) = None"
    if "n \<le> length (cs_reads (provide_endpoint token))" for n
  proof -
    have "n \<in> {0, 1, 2}" using that by (auto simp: provide_endpoint_def)
    then show ?thesis
      by (auto simp: provide_endpoint_def serve_bench_grpc_def values_of_def endpoint_check_def url_given_def echoed_def)
  qed
qed (auto simp: serve_bench_grpc_def provide_endpoint_def endpoint_keys_def)

section \<open>Tokens, checks and fresh addresses\<close>

lemma bearer_accepts:
  "intercept_service token (call_metadata token') k = k \<longleftrightarrow> token' = token
     \<or> k = Inl (Lib_Exn ''RpcError'' ''bearer token rejected'' [''RpcError''] (Some ''UNAUTHENTICATED'')
                  (Some (Some ''bearer token rejected'')))"
  by (auto simp: intercept_service_def call_metadata_def)

text \<open>The outcome of the throwaway generation does not reach the boot of the real-engine container.\<close>

theorem smoke_check_unheeded:
  "real_engine_boot m6_use load generation start_servers = real_engine_boot m6_use load generation' start_servers"
  by (simp add: real_engine_boot_def smoke_check_engine_def)

lemma refresh_step:
  "refresh_rest_grpc_urls cached deadline ((now, r) # rs) = Some e \<Longrightarrow>
     refresh_rest_grpc_urls cached deadline rs = Some e
     \<or> (\<exists>u. r = Inr u \<and> now < deadline \<and> url_given (ur_rest u)
          \<and> re_grpc_url e = strip_scheme (str_of_value (ur_grpc u)) \<and> re_rest_url e = str_of_value (ur_rest u)
          \<and> re_auth_token_env_var e = re_auth_token_env_var cached
          \<and> re_grpc_url e \<noteq> strip_scheme (re_grpc_url cached))"
  by (cases r) (auto split: if_split_asm)

lemma url_given_nonempty: "url_given v \<Longrightarrow> str_of_value v \<noteq> []"
  by (auto simp: url_given_def str_of_value_def split: option.split_asm dict_value.split_asm)

lemma refreshed_is_fresh:
  "refresh_rest_grpc_urls cached deadline rs = Some e \<Longrightarrow>
     re_grpc_url e \<noteq> strip_scheme (re_grpc_url cached)
     \<and> re_auth_token_env_var e = re_auth_token_env_var cached \<and> re_rest_url e \<noteq> []
     \<and> (\<exists>now u. (now, Inr u) \<in> set rs \<and> now < deadline \<and> re_grpc_url e = strip_scheme (str_of_value (ur_grpc u)))"
proof (induction rs)
  case (Cons x rs)
  obtain now r where x: "x = (now, r)" by (cases x)
  from refresh_step[OF Cons.prems[unfolded x]] show ?case
  proof (elim disjE exE conjE)
    assume "refresh_rest_grpc_urls cached deadline rs = Some e"
    from Cons.IH[OF this] show ?thesis by auto
  next
    fix u assume "r = Inr u" "now < deadline" "url_given (ur_rest u)"
      "re_grpc_url e = strip_scheme (str_of_value (ur_grpc u))" "re_rest_url e = str_of_value (ur_rest u)"
      "re_auth_token_env_var e = re_auth_token_env_var cached" "re_grpc_url e \<noteq> strip_scheme (re_grpc_url cached)"
    then show ?thesis using x url_given_nonempty[of "ur_rest u"] by auto
  qed
qed simp

section \<open>Played schedules\<close>

text \<open>One event of a schedule: the provider, the container with what its boot gives, or time.\<close>

datatype bench_event = By_Client | By_Server "unit py_result" | Pause real

definition server_moves ::
  "deployment \<Rightarrow> unit py_result \<Rightarrow> bench_state \<Rightarrow> bench_server \<Rightarrow> bench_state" where
  "server_moves dp boot h s =
     (let (s', d) = bench_server_step dp boot (bs_now h) s (bs_dict h) in h\<lparr>bs_server := Some s', bs_dict := d\<rparr>)"

definition client_moves :: "deployment \<Rightarrow> client_spec \<Rightarrow> bench_state \<Rightarrow> bench_state" where
  "client_moves dp cs h =
     (let (c, d) = bench_client_step cs (bs_now h) (bs_client h) (bs_dict h)
      in if bs_client h = C_Spawn
         then h\<lparr>bs_client := c, bs_dict := d, bs_server := Some (S_Clear (dp_early_clear dp))\<rparr>
         else h\<lparr>bs_client := c, bs_dict := d\<rparr>)"

fun bench_play :: "deployment \<Rightarrow> client_spec \<Rightarrow> bool \<Rightarrow> bench_event list \<Rightarrow> bench_state \<Rightarrow> bench_state option" where
  "bench_play dp cs only_punctual [] h = Some h"
| "bench_play dp cs only_punctual (By_Client # evs) h = bench_play dp cs only_punctual evs (client_moves dp cs h)"
| "bench_play dp cs only_punctual (By_Server boot # evs) h = (case bs_server h of
     None \<Rightarrow> None
   | Some s \<Rightarrow> if only_punctual \<and> \<not> punctual h then None
               else bench_play dp cs only_punctual evs (server_moves dp boot h s))"
| "bench_play dp cs only_punctual (Pause x # evs) h =
     (if 0 \<le> x then bench_play dp cs only_punctual evs (h\<lparr>bs_now := bs_now h + x\<rparr>) else None)"

lemma client_moves_step: "bench_step dp cs op h (client_moves dp cs h)"
  using bench_step.spawn[of h cs _ _ dp op] bench_step.client[of h cs _ _ dp op]
  by (cases "bs_client h = C_Spawn") (auto simp: client_moves_def split: prod.split)

lemma server_moves_step:
  "bs_server h = Some s \<Longrightarrow> (op \<longrightarrow> punctual h) \<Longrightarrow> bench_step dp cs op h (server_moves dp boot h s)"
  by (auto simp: server_moves_def intro: bench_step.server split: prod.split)

lemma bench_play_run:
  "bench_play dp cs op evs h = Some h' \<Longrightarrow> bench_run dp cs op h0 h \<Longrightarrow> bench_run dp cs op h0 h'"
proof (induction dp cs op evs h rule: bench_play.induct)
  case (2 dp cs op evs h)
  then show ?case using bench_run.more[OF _ client_moves_step] by simp
next
  case (3 dp cs op boot evs h)
  then show ?case using bench_run.more[OF _ server_moves_step]
    by (auto split: option.split_asm if_split_asm)
next
  case (4 dp cs op x evs h)
  then show ?case using bench_run.more[OF _ bench_step.tick, of dp cs op h0 h "bs_now h + x"]
    by (simp split: if_split_asm)
qed simp

lemmas play_defs = server_moves_def client_moves_def bench_start_def punctual_def

section \<open>Properties\<close>

text \<open>C27. The handshake of the real-engine deployment. Whatever a crashed run has left in the shared
  dictionary, in every run whose container is punctual the provider that gets past its polling yields
  exactly the addresses the container has published, the gRPC one without its scheme; and the only
  error it ends with is its timeout: never an empty URL, a token that does not match, or a stale entry.\<close>
theorem bench_handshake_delivers:
  assumes "bench_run (serve_bench_real_engine tn token region m6_model model_id) (provide_m6_endpoint token) True
             (bench_start d now) h"
  shows "(\<forall>vals. bs_client h = C_Holds vals \<longrightarrow>
           endpoints_of token_env vals =
             \<lparr>re_grpc_url = socket_addr (bt_grpc tn), re_rest_url = ''http://'' @ socket_addr (bt_rest tn),
              re_auth_token_env_var = token_env,
              re_rest_plain_tcp_url = Some (''tcp+plaintext://'' @ socket_addr (bt_rest tn)),
              re_rest_https_edge_url = Some (''https://'' @ bt_edge tn)\<rparr>)
    \<and> (\<forall>exc. bs_client h = C_Failed exc \<longrightarrow> (\<exists>seen. exc = handshake_timeout (provide_m6_endpoint token) seen))"
proof -
  have "endpoints_of token_env
      (values_of (serve_bench_real_engine tn token region m6_model model_id) (cs_reads (provide_m6_endpoint token)))
    = \<lparr>re_grpc_url = socket_addr (bt_grpc tn), re_rest_url = ''http://'' @ socket_addr (bt_rest tn),
       re_auth_token_env_var = token_env,
       re_rest_plain_tcp_url = Some (''tcp+plaintext://'' @ socket_addr (bt_rest tn)),
       re_rest_https_edge_url = Some (''https://'' @ bt_edge tn)\<rparr>"
    by (simp add: endpoints_of_def values_of_def provide_m6_endpoint_def rest_grpc_defs serve_bench_real_engine_def
        str_of_value_def strip_scheme_def starts_with_def)
  then show ?thesis using m6.run_delivers[OF assms] by metis
qed

text \<open>The providers spawn the container before they clear the dictionary. A container that boots
  before the clearing is over loses what it has put: a run of the dual-protocol deployment exists in
  which the container holds its tunnels open with every entry published, and the provider fails over an
  empty gRPC URL.\<close>
theorem early_publication_lost:
  "\<exists>h. bench_run (serve_bench_rest_grpc tn token region) (provide_rest_grpc_endpoint tcp token) False
        (bench_start Map.empty 0) h
     \<and> bs_server h = Some (S_Hold 0)
     \<and> bs_client h = C_Failed (modal_deploy_error ''M5.1 Modal handshake completed but gRPC URL is empty'')"
proof -
  let ?s = "By_Server (Inr ())"
  let ?evs = "[By_Client, ?s, ?s, ?s] @ replicate 9 By_Client @ replicate 7 ?s @ replicate 5 By_Client"
  have "\<exists>h. bench_play (serve_bench_rest_grpc tn token region) (provide_rest_grpc_endpoint tcp token) False ?evs
          (bench_start Map.empty 0) = Some h
     \<and> bs_server h = Some (S_Hold 0)
     \<and> bs_client h = C_Failed (modal_deploy_error ''M5.1 Modal handshake completed but gRPC URL is empty'')"
    by (simp add: numeral_eq_Suc play_defs serve_bench_rest_grpc_def provide_rest_grpc_endpoint_def rest_grpc_defs
        rest_grpc_check_def url_given_def M5_1_HANDSHAKE_TIMEOUT_S_def dv_truthy_def)
  then show ?thesis using bench_play_run[OF _ bench_run.stay] by blast
qed

text \<open>A provider that finds the entries of a crashed run, and gets the addresses of its own container.\<close>

definition demo_tunnels :: bench_tunnels where
  "demo_tunnels = \<lparr>bt_grpc = (''r1.modal.host'', 4000), bt_rest = (''r2.modal.host'', 4001), bt_edge = ''x.modal.run''\<rparr>"

definition stale_dict :: modal_dict where
  "stale_dict = [''ready'' \<mapsto> DV_Bool True, ''token'' \<mapsto> DV_Str ''old'', ''teardown'' \<mapsto> DV_Bool True]"

definition holds_values :: "bench_state option \<Rightarrow> bool" where
  "holds_values r = (case r of Some h \<Rightarrow> (case bs_client h of C_Holds vals \<Rightarrow> True | _ \<Rightarrow> False) | None \<Rightarrow> False)"

lemma holds_valuesD: "holds_values r \<Longrightarrow> \<exists>h vals. r = Some h \<and> bs_client h = C_Holds vals"
  by (auto simp: holds_values_def split: option.split_asm bench_client.split_asm)

lemma clear_play [simp]:
  assumes "bs_client h = C_Clear ks"
  shows "bench_play dp cs op (replicate (length ks) By_Client @ evs) h
    = bench_play dp cs op evs (h\<lparr>bs_client := C_Clear [], bs_dict := pop_all ks (bs_dict h)\<rparr>)"
  using assms
proof (induction ks arbitrary: h)
  case (Cons k ks)
  then show ?case by (simp add: client_moves_def pop_all_def)
next
  case Nil
  then show ?case by (cases h) (simp add: pop_all_def)
qed

lemma early_clear_play [simp]:
  assumes "bs_server h = Some (S_Clear ks)"
  shows "bench_play dp cs op (replicate (length ks) (By_Server boot) @ evs) h
    = bench_play dp cs op evs (h\<lparr>bs_server := Some (S_Clear []), bs_dict := pop_all ks (bs_dict h)\<rparr>)"
  using assms
proof (induction ks arbitrary: h)
  case (Cons k ks)
  then show ?case by (simp add: server_moves_def pop_all_def punctual_def)
next
  case Nil
  then show ?case by (cases h) (simp add: pop_all_def)
qed

lemma put_play [simp]:
  assumes "bs_server h = Some (S_Put started ps)"
  shows "bench_play dp cs op (replicate (length ps) (By_Server boot) @ evs) h
    = bench_play dp cs op evs (h\<lparr>bs_server := Some (S_Put started []),
        bs_dict := fold (\<lambda>p d. d(fst p \<mapsto> snd p)) ps (bs_dict h)\<rparr>)"
  using assms
proof (induction ps arbitrary: h)
  case (Cons p ps)
  then show ?case by (simp add: server_moves_def punctual_def)
next
  case Nil
  then show ?case by (cases h) simp
qed

definition demo_schedule :: "bench_tunnels \<Rightarrow> string \<Rightarrow> string \<Rightarrow> string \<Rightarrow> bench_event list" where
  "demo_schedule tn token region m =
     [By_Client] @ replicate (length (handshake_keys True)) (By_Server (Inr ()))
      @ replicate (length (handshake_keys True)) By_Client @ [By_Client, By_Server (Inr ()), By_Server (Inr ())]
      @ replicate (length (rest_grpc_puts tn token region (Some m))) (By_Server (Inr ())) @ replicate 7 By_Client"

lemma demo_play:
  shows "holds_values (bench_play (serve_bench_real_engine tn token region None m) (provide_m6_endpoint token) True
    (demo_schedule tn token region m) (bench_start d 0))"
proof -
  let ?dp = "serve_bench_real_engine tn token region None m" and ?cs = "provide_m6_endpoint token"
  define ks where "ks = handshake_keys True"
  define ps where "ps = rest_grpc_puts tn token region (Some m)"
  have f: "dp_early_clear ?dp = ks" "dp_puts ?dp = ps" "cs_clear ?cs = ks"
    by (simp_all add: ks_def ps_def serve_bench_real_engine_def effective_model_def provide_m6_endpoint_def)
  have "bench_play ?dp ?cs True ([By_Client] @ replicate (length ks) (By_Server (Inr ()))
      @ replicate (length ks) By_Client @ [By_Client, By_Server (Inr ()), By_Server (Inr ())]
      @ replicate (length ps) (By_Server (Inr ())) @ replicate 7 By_Client) (bench_start d 0)
    = bench_play ?dp ?cs True (replicate 7 By_Client)
        \<lparr>bs_server = Some (S_Put 0 []), bs_client = C_Wait (cs_timeout_s ?cs) None,
         bs_dict = fold (\<lambda>p d. d(fst p \<mapsto> snd p)) ps (pop_all ks (pop_all ks d)), bs_now = 0\<rparr>"
    by (simp add: play_defs f)
  then show ?thesis
    by (simp add: demo_schedule_def ks_def[symmetric] ps_def[symmetric])
      (simp add: numeral_eq_Suc play_defs ps_def holds_values_def provide_m6_endpoint_def rest_grpc_defs
        rest_grpc_check_def url_given_def echoed_def M6_HANDSHAKE_TIMEOUT_S_def dv_truthy_def)
qed

theorem bench_handshake_delivers_witness:
  "\<exists>h vals. bench_run (serve_bench_real_engine demo_tunnels ''tok'' ''eu'' None ''m'') (provide_m6_endpoint ''tok'') True
        (bench_start stale_dict 0) h
     \<and> bs_client h = C_Holds vals
     \<and> re_grpc_url (endpoints_of ''T'' vals) = socket_addr (bt_grpc demo_tunnels)"
proof -
  obtain h vals where play: "bench_play (serve_bench_real_engine demo_tunnels ''tok'' ''eu'' None ''m'')
      (provide_m6_endpoint ''tok'') True (demo_schedule demo_tunnels ''tok'' ''eu'' ''m'') (bench_start stale_dict 0) = Some h"
    and c: "bs_client h = C_Holds vals"
    using holds_valuesD[OF demo_play[of demo_tunnels "''tok''" "''eu''" "''m''" stale_dict]] by blast
  note run = bench_play_run[OF play bench_run.stay]
  have "re_grpc_url (endpoints_of ''T'' vals) = socket_addr (bt_grpc demo_tunnels)"
    using bench_handshake_delivers[OF run, of "''T''"] c by simp
  then show ?thesis using run c by blast
qed

end
