(* ===== verification/Bench_Runs.thy ===== *)
theory Bench_Runs
  imports Stats Py_Json "HOL-Library.Product_Lexorder"
begin

text \<open>
  Benchmark runs of the harness: the records of \<open>metrics.py\<close> and its summaries, the comparisons of
  \<open>compare.py\<close>, and the JSON form of a run that \<open>io.load_run\<close> reads back.
\<close>

section \<open>Results, summaries and runs\<close>

text \<open>The literals, in the alphabetical order the summaries are sorted by.\<close>

datatype run_target = Grpc_Direct | Native | Proxy

datatype request_type = Chat | Completion_Embeds | Completion_Text

primrec target_name :: "run_target \<Rightarrow> string" where
  "target_name Grpc_Direct = ''grpc-direct''"
| "target_name Native = ''native''"
| "target_name Proxy = ''proxy''"

primrec request_type_name :: "request_type \<Rightarrow> string" where
  "request_type_name Chat = ''chat''"
| "request_type_name Completion_Embeds = ''completion-embeds''"
| "request_type_name Completion_Text = ''completion-text''"

primrec target_rank :: "run_target \<Rightarrow> nat" where
  "target_rank Grpc_Direct = 0"
| "target_rank Native = 1"
| "target_rank Proxy = 2"

primrec request_type_rank :: "request_type \<Rightarrow> nat" where
  "request_type_rank Chat = 0"
| "request_type_rank Completion_Embeds = 1"
| "request_type_rank Completion_Text = 2"

lemma target_rank_eq: "target_rank a = target_rank b \<longleftrightarrow> a = b"
  by (cases a; cases b) simp_all

lemma request_type_rank_eq: "request_type_rank a = request_type_rank b \<longleftrightarrow> a = b"
  by (cases a; cases b) simp_all

instantiation run_target :: linorder
begin

definition less_eq_run_target :: "run_target \<Rightarrow> run_target \<Rightarrow> bool" where
  "a \<le> b \<longleftrightarrow> target_rank a \<le> target_rank b"

definition less_run_target :: "run_target \<Rightarrow> run_target \<Rightarrow> bool" where
  "a < b \<longleftrightarrow> target_rank a < target_rank b"

instance
  by standard (auto simp: less_eq_run_target_def less_run_target_def target_rank_eq[symmetric])

end

instantiation request_type :: linorder
begin

definition less_eq_request_type :: "request_type \<Rightarrow> request_type \<Rightarrow> bool" where
  "a \<le> b \<longleftrightarrow> request_type_rank a \<le> request_type_rank b"

definition less_request_type :: "request_type \<Rightarrow> request_type \<Rightarrow> bool" where
  "a < b \<longleftrightarrow> request_type_rank a < request_type_rank b"

instance
  by standard (auto simp: less_eq_request_type_def less_request_type_def request_type_rank_eq[symmetric])

end

record request_result =
  rq_sample_id :: string
  rq_target :: run_target
  rq_concurrency :: int
  rq_latency_ms :: "real option"
  rq_request_bytes :: int
  rq_response_bytes :: "int option"
  rq_proxy_ms :: "real option"
  rq_success :: bool
  rq_error :: "string option"
  rq_ttft_ms :: "real option"
  rq_tpot_ms :: "real option"
  rq_token_count :: "int option"
  rq_request_type :: request_type

record run_summary =
  su_target :: run_target
  su_concurrency :: int
  su_n_requests :: int
  su_n_errors :: int
  su_latency_p50_ms :: "real option"
  su_latency_p95_ms :: "real option"
  su_latency_p99_ms :: "real option"
  su_throughput_rps :: "real option"
  su_request_bytes_mean :: real
  su_response_bytes_mean :: "real option"
  su_proxy_ms_p50 :: "real option"
  su_proxy_ms_p95 :: "real option"
  su_proxy_ms_p99 :: "real option"
  su_ttft_p50_ms :: "real option"
  su_ttft_p95_ms :: "real option"
  su_ttft_p99_ms :: "real option"
  su_tpot_p50_ms :: "real option"
  su_tpot_p95_ms :: "real option"
  su_tpot_p99_ms :: "real option"
  su_request_type :: request_type

record bench_run_meta =
  bm_timestamp :: string
  bm_git_sha :: string
  bm_hostname :: string
  bm_corpus_path :: string
  bm_concurrency_levels :: "int list"
  bm_proxy_url :: string
  bm_native_url :: string
  bm_modal_function_id :: "string option"
  bm_gpu_type :: "string option"
  bm_cold_start_s :: "real option"

record benchmark_run =
  br_meta :: bench_run_meta
  br_summaries :: "run_summary list"
  br_raw_results :: "request_result list"

section \<open>Summaries\<close>

definition present :: "('r \<Rightarrow> 'a option) \<Rightarrow> 'r list \<Rightarrow> 'a list" where
  "present f rs = List.map_filter f rs"

definition mean_of :: "real list \<Rightarrow> real" where
  "mean_of xs = sum_list xs / real (length xs)"

type_synonym group_key = "run_target \<times> int \<times> request_type"

definition group_key_of :: "request_result \<Rightarrow> group_key" where
  "group_key_of r = (rq_target r, rq_concurrency r, rq_request_type r)"

definition throughput_of :: "request_result list \<Rightarrow> real list \<Rightarrow> real option" where
  "throughput_of successful latencies =
     (if latencies = [] \<or> sum_list latencies = 0 then None
      else Some (real (length successful) / (sum_list latencies / 1000)))"

definition summarize :: "group_key \<Rightarrow> request_result list \<Rightarrow> run_summary" where
  "summarize key grp =
     (let (target, concurrency, rtype) = key;
          successful = filter rq_success grp;
          latencies = present rq_latency_ms successful;
          proxy_times = present rq_proxy_ms successful;
          resp_bytes = map real_of_int (present rq_response_bytes successful);
          ttft_times = present rq_ttft_ms successful;
          tpot_times = present rq_tpot_ms successful
      in \<lparr>su_target = target, su_concurrency = concurrency,
          su_n_requests = int (length grp), su_n_errors = int (length grp) - int (length successful),
          su_latency_p50_ms = metrics_percentile latencies 50,
          su_latency_p95_ms = metrics_percentile latencies 95,
          su_latency_p99_ms = metrics_percentile latencies 99,
          su_throughput_rps = throughput_of successful latencies,
          su_request_bytes_mean = mean_of (map (\<lambda>r. real_of_int (rq_request_bytes r)) grp),
          su_response_bytes_mean = (if resp_bytes = [] then None else Some (mean_of resp_bytes)),
          su_proxy_ms_p50 = metrics_percentile proxy_times 50,
          su_proxy_ms_p95 = metrics_percentile proxy_times 95,
          su_proxy_ms_p99 = metrics_percentile proxy_times 99,
          su_ttft_p50_ms = metrics_percentile ttft_times 50,
          su_ttft_p95_ms = metrics_percentile ttft_times 95,
          su_ttft_p99_ms = metrics_percentile ttft_times 99,
          su_tpot_p50_ms = metrics_percentile tpot_times 50,
          su_tpot_p95_ms = metrics_percentile tpot_times 95,
          su_tpot_p99_ms = metrics_percentile tpot_times 99,
          su_request_type = rq_request_type (hd grp)\<rparr>)"

definition group_results :: "request_result list \<Rightarrow> (group_key \<times> request_result list) list" where
  "group_results results = fold (\<lambda>r. dict_append (group_key_of r) r) results []"

definition compute_summaries :: "request_result list \<Rightarrow> run_summary list" where
  "compute_summaries results =
     map (\<lambda>(key, grp). summarize key grp) (sort_key fst (group_results results))"

section \<open>Comparisons\<close>

definition METRIC_FIELDS :: "((run_summary \<Rightarrow> real option) \<times> string) list" where
  "METRIC_FIELDS =
     [(su_latency_p50_ms, ''latency_p50''), (su_latency_p95_ms, ''latency_p95''),
      (su_latency_p99_ms, ''latency_p99''), (su_throughput_rps, ''throughput_rps''),
      (su_response_bytes_mean, ''response_bytes_mean''), (su_proxy_ms_p50, ''proxy_ms_p50''),
      (su_proxy_ms_p95, ''proxy_ms_p95''), (su_proxy_ms_p99, ''proxy_ms_p99'')]"

record regression_entry =
  rg_metric :: string
  rg_target :: run_target
  rg_concurrency :: int
  rg_baseline_value :: real
  rg_new_value :: real
  rg_delta_pct :: real

record comparison_report =
  cr_baseline_path :: string
  cr_new_run_path :: string
  cr_regressions :: "regression_entry list"
  cr_has_regression :: bool
  cr_threshold :: real

text \<open>A dict built from pairs in order: the last value of a key stays.\<close>

definition summary_index :: "run_summary list \<Rightarrow> run_target \<times> int \<Rightarrow> run_summary option" where
  "summary_index ss = map_of (rev (map (\<lambda>s. ((su_target s, su_concurrency s), s)) ss))"

definition metric_regression ::
  "real \<Rightarrow> run_summary \<Rightarrow> run_summary \<Rightarrow> (run_summary \<Rightarrow> real option) \<times> string \<Rightarrow> regression_entry option" where
  "metric_regression threshold base_s new_s fl =
     (case (fst fl base_s, fst fl new_s) of
        (Some base_val, Some new_val) \<Rightarrow>
          if base_val = 0 then None
          else let delta_pct = (new_val - base_val) / base_val
               in if delta_pct > threshold
                  then Some \<lparr>rg_metric = target_name (su_target new_s) @ '' '' @ snd fl @ '' @ concurrency=''
                                         @ str_int (su_concurrency new_s),
                             rg_target = su_target new_s, rg_concurrency = su_concurrency new_s,
                             rg_baseline_value = base_val, rg_new_value = new_val, rg_delta_pct = delta_pct\<rparr>
                  else None
      | _ \<Rightarrow> None)"

definition compare_runs :: "benchmark_run \<Rightarrow> benchmark_run \<Rightarrow> real \<Rightarrow> comparison_report" where
  "compare_runs baseline new_run threshold =
     (let index = summary_index (br_summaries baseline);
          regressions = concat (map (\<lambda>new_s. case index (su_target new_s, su_concurrency new_s) of
              None \<Rightarrow> []
            | Some base_s \<Rightarrow> List.map_filter (metric_regression threshold base_s new_s) METRIC_FIELDS)
            (br_summaries new_run))
      in \<lparr>cr_baseline_path = [], cr_new_run_path = [], cr_regressions = regressions,
          cr_has_regression = (length regressions > 0), cr_threshold = threshold\<rparr>)"

definition CROSS_METRIC_FIELDS :: "((run_summary \<Rightarrow> real option) \<times> string) list" where
  "CROSS_METRIC_FIELDS =
     [(su_latency_p50_ms, ''latency_p50_ms''), (su_latency_p95_ms, ''latency_p95_ms''),
      (su_latency_p99_ms, ''latency_p99_ms''), (su_throughput_rps, ''throughput_rps''),
      (su_ttft_p50_ms, ''ttft_p50_ms''), (su_ttft_p95_ms, ''ttft_p95_ms''), (su_ttft_p99_ms, ''ttft_p99_ms''),
      (su_tpot_p50_ms, ''tpot_p50_ms''), (su_tpot_p95_ms, ''tpot_p95_ms''), (su_tpot_p99_ms, ''tpot_p99_ms''),
      ((\<lambda>s. Some (su_request_bytes_mean s)), ''request_bytes_mean''),
      (su_response_bytes_mean, ''response_bytes_mean'')]"

record cross_run_row =
  xr_metric :: string
  xr_concurrency :: int
  xr_value_a :: "real option"
  xr_value_b :: "real option"
  xr_delta_pct :: "real option"

record cross_run_report =
  xp_label_a :: string
  xp_label_b :: string
  xp_rows :: "cross_run_row list"
  xp_meta_a :: bench_run_meta
  xp_meta_b :: bench_run_meta

record three_way_row =
  tr_metric :: string
  tr_concurrency :: int
  tr_value_a :: "real option"
  tr_value_b :: "real option"
  tr_value_c :: "real option"
  tr_delta_pct_b :: "real option"
  tr_delta_pct_c :: "real option"

record three_way_report =
  tp_label_a :: string
  tp_label_b :: string
  tp_label_c :: string
  tp_rows :: "three_way_row list"
  tp_meta_a :: bench_run_meta
  tp_meta_b :: bench_run_meta
  tp_meta_c :: bench_run_meta

text \<open>The summaries of one target, indexed by concurrency; the last one of a concurrency stays.\<close>

definition target_index :: "run_target \<Rightarrow> run_summary list \<Rightarrow> (int \<times> run_summary) list" where
  "target_index target ss = rev (map (\<lambda>s. (su_concurrency s, s)) (filter (\<lambda>s. su_target s = target) ss))"

definition delta_of :: "real \<Rightarrow> real option \<Rightarrow> real option \<Rightarrow> real option" where
  "delta_of scale a b = (case (a, b) of
     (Some x, Some y) \<Rightarrow> if x = 0 then None else Some ((y - x) / x * scale)
   | _ \<Rightarrow> None)"

definition field_at :: "(run_summary \<Rightarrow> real option) \<Rightarrow> (int \<times> run_summary) list \<Rightarrow> int \<Rightarrow> real option" where
  "field_at fl index conc = (case map_of index conc of None \<Rightarrow> None | Some s \<Rightarrow> fl s)"

definition cross_row ::
  "(int \<times> run_summary) list \<Rightarrow> (int \<times> run_summary) list \<Rightarrow> int \<Rightarrow> (run_summary \<Rightarrow> real option) \<times> string
     \<Rightarrow> cross_run_row" where
  "cross_row index_a index_b conc fl =
     (let a = field_at (fst fl) index_a conc; b = field_at (fst fl) index_b conc
      in \<lparr>xr_metric = snd fl, xr_concurrency = conc, xr_value_a = a, xr_value_b = b, xr_delta_pct = delta_of 1 a b\<rparr>)"

definition compare_cross :: "benchmark_run \<Rightarrow> benchmark_run \<Rightarrow> string \<Rightarrow> string \<Rightarrow> cross_run_report" where
  "compare_cross run_a run_b label_a label_b =
     (let index_a = target_index Native (br_summaries run_a);
          index_b = target_index Proxy (br_summaries run_b);
          all_concurrencies = sorted_list_of_set (set (map fst index_a) \<union> set (map fst index_b))
      in \<lparr>xp_label_a = label_a, xp_label_b = label_b,
          xp_rows = concat (map (\<lambda>conc. map (cross_row index_a index_b conc) CROSS_METRIC_FIELDS) all_concurrencies),
          xp_meta_a = br_meta run_a, xp_meta_b = br_meta run_b\<rparr>)"

definition three_way_row_of ::
  "(int \<times> run_summary) list \<Rightarrow> (int \<times> run_summary) list \<Rightarrow> (int \<times> run_summary) list \<Rightarrow> int
     \<Rightarrow> (run_summary \<Rightarrow> real option) \<times> string \<Rightarrow> three_way_row" where
  "three_way_row_of index_a index_b index_c conc fl =
     (let a = field_at (fst fl) index_a conc; b = field_at (fst fl) index_b conc; c = field_at (fst fl) index_c conc
      in \<lparr>tr_metric = snd fl, tr_concurrency = conc, tr_value_a = a, tr_value_b = b, tr_value_c = c,
          tr_delta_pct_b = delta_of 100 a b, tr_delta_pct_c = delta_of 100 a c\<rparr>)"

definition compare_three_way ::
  "benchmark_run \<Rightarrow> benchmark_run \<Rightarrow> benchmark_run \<Rightarrow> string \<Rightarrow> string \<Rightarrow> string \<Rightarrow> three_way_report" where
  "compare_three_way run_a run_b run_c label_a label_b label_c =
     (let index_a = target_index Native (br_summaries run_a);
          index_b = target_index Proxy (br_summaries run_b);
          index_c = target_index Grpc_Direct (br_summaries run_c);
          all_concurrencies =
            sorted_list_of_set (set (map fst index_a) \<union> set (map fst index_b) \<union> set (map fst index_c))
      in \<lparr>tp_label_a = label_a, tp_label_b = label_b, tp_label_c = label_c,
          tp_rows = concat (map (\<lambda>conc. map (three_way_row_of index_a index_b index_c conc) CROSS_METRIC_FIELDS)
                      all_concurrencies),
          tp_meta_a = br_meta run_a, tp_meta_b = br_meta run_b, tp_meta_c = br_meta run_c\<rparr>)"

section \<open>The JSON form of a run\<close>

definition opt_json :: "('a \<Rightarrow> json) \<Rightarrow> 'a option \<Rightarrow> json" where
  "opt_json f v = (case v of None \<Rightarrow> JNull | Some x \<Rightarrow> f x)"

text \<open>\<open>dataclasses.asdict\<close>, field by field.\<close>

definition meta_json :: "bench_run_meta \<Rightarrow> json" where
  "meta_json m = JObj
     [(''timestamp'', JStr (bm_timestamp m)), (''git_sha'', JStr (bm_git_sha m)),
      (''hostname'', JStr (bm_hostname m)), (''corpus_path'', JStr (bm_corpus_path m)),
      (''concurrency_levels'', JList (map JInt (bm_concurrency_levels m))),
      (''proxy_url'', JStr (bm_proxy_url m)), (''native_url'', JStr (bm_native_url m)),
      (''modal_function_id'', opt_json JStr (bm_modal_function_id m)),
      (''gpu_type'', opt_json JStr (bm_gpu_type m)), (''cold_start_s'', opt_json JFloat (bm_cold_start_s m))]"

definition summary_json :: "run_summary \<Rightarrow> json" where
  "summary_json s = JObj
     [(''target'', JStr (target_name (su_target s))), (''concurrency'', JInt (su_concurrency s)),
      (''n_requests'', JInt (su_n_requests s)), (''n_errors'', JInt (su_n_errors s)),
      (''latency_p50_ms'', opt_json JFloat (su_latency_p50_ms s)),
      (''latency_p95_ms'', opt_json JFloat (su_latency_p95_ms s)),
      (''latency_p99_ms'', opt_json JFloat (su_latency_p99_ms s)),
      (''throughput_rps'', opt_json JFloat (su_throughput_rps s)),
      (''request_bytes_mean'', JFloat (su_request_bytes_mean s)),
      (''response_bytes_mean'', opt_json JFloat (su_response_bytes_mean s)),
      (''proxy_ms_p50'', opt_json JFloat (su_proxy_ms_p50 s)), (''proxy_ms_p95'', opt_json JFloat (su_proxy_ms_p95 s)),
      (''proxy_ms_p99'', opt_json JFloat (su_proxy_ms_p99 s)), (''ttft_p50_ms'', opt_json JFloat (su_ttft_p50_ms s)),
      (''ttft_p95_ms'', opt_json JFloat (su_ttft_p95_ms s)), (''ttft_p99_ms'', opt_json JFloat (su_ttft_p99_ms s)),
      (''tpot_p50_ms'', opt_json JFloat (su_tpot_p50_ms s)), (''tpot_p95_ms'', opt_json JFloat (su_tpot_p95_ms s)),
      (''tpot_p99_ms'', opt_json JFloat (su_tpot_p99_ms s)),
      (''request_type'', JStr (request_type_name (su_request_type s)))]"

definition result_json :: "request_result \<Rightarrow> json" where
  "result_json r = JObj
     [(''sample_id'', JStr (rq_sample_id r)), (''target'', JStr (target_name (rq_target r))),
      (''concurrency'', JInt (rq_concurrency r)), (''latency_ms'', opt_json JFloat (rq_latency_ms r)),
      (''request_bytes'', JInt (rq_request_bytes r)), (''response_bytes'', opt_json JInt (rq_response_bytes r)),
      (''proxy_ms'', opt_json JFloat (rq_proxy_ms r)), (''success'', JBool (rq_success r)),
      (''error'', opt_json JStr (rq_error r)), (''ttft_ms'', opt_json JFloat (rq_ttft_ms r)),
      (''tpot_ms'', opt_json JFloat (rq_tpot_ms r)), (''token_count'', opt_json JInt (rq_token_count r)),
      (''request_type'', JStr (request_type_name (rq_request_type r)))]"

definition run_json :: "benchmark_run \<Rightarrow> json" where
  "run_json b = JObj [(''meta'', meta_json (br_meta b)), (''summaries'', JList (map summary_json (br_summaries b))),
     (''raw_results'', JList (map result_json (br_raw_results b)))]"

text \<open>\<open>f(v) if v is not None else None\<close>, and \<open>str(v) if v else None\<close>.\<close>

definition if_given :: "(json \<Rightarrow> 'a py_result) \<Rightarrow> json \<Rightarrow> 'a option py_result" where
  "if_given f v = (if v = JNull then Inr None else bind_result (f v) (\<lambda>x. Inr (Some x)))"

definition if_truthy :: "(json \<Rightarrow> string) \<Rightarrow> json \<Rightarrow> string option" where
  "if_truthy f v = (if json_truthy v then Some (f v) else None)"

text \<open>
  The target of a summary or a result is taken as it stands; a text outside the literal has no value in
  the model and is an error here.
\<close>

definition target_of_json :: "json \<Rightarrow> run_target py_result" where
  "target_of_json v = (if v = JStr ''grpc-direct'' then Inr Grpc_Direct else if v = JStr ''native'' then Inr Native
     else if v = JStr ''proxy'' then Inr Proxy else Inl (value_error ''target outside the literal''))"

definition item_with :: "json \<Rightarrow> string \<Rightarrow> (json \<Rightarrow> 'a py_result) \<Rightarrow> 'a py_result" where
  "item_with v k f = bind_result (json_index v k) f"

definition float_entry :: "json \<Rightarrow> string \<Rightarrow> real option py_result" where
  "float_entry v k = bind_result (json_get_or v k JNull) (if_given json_float)"

definition load_meta :: "(json \<Rightarrow> string) \<Rightarrow> json \<Rightarrow> bench_run_meta py_result" where
  "load_meta other d =
     bind_result (float_entry d ''cold_start_s'') (\<lambda>cold.
     item_with d ''timestamp'' (\<lambda>timestamp.
     item_with d ''git_sha'' (\<lambda>git_sha.
     item_with d ''hostname'' (\<lambda>hostname.
     item_with d ''corpus_path'' (\<lambda>corpus_path.
     item_with d ''concurrency_levels'' (\<lambda>levels. bind_result (json_iter levels) (\<lambda>vs.
       bind_result (map_result json_int vs) (\<lambda>concurrency_levels.
     item_with d ''proxy_url'' (\<lambda>proxy_url.
     item_with d ''native_url'' (\<lambda>native_url.
     bind_result (json_get_or d ''modal_function_id'' JNull) (\<lambda>fid.
     bind_result (json_get_or d ''gpu_type'' JNull) (\<lambda>gpu.
     Inr \<lparr>bm_timestamp = json_str other timestamp, bm_git_sha = json_str other git_sha,
          bm_hostname = json_str other hostname, bm_corpus_path = json_str other corpus_path,
          bm_concurrency_levels = concurrency_levels, bm_proxy_url = json_str other proxy_url,
          bm_native_url = json_str other native_url, bm_modal_function_id = if_truthy (json_str other) fid,
          bm_gpu_type = if_truthy (json_str other) gpu, bm_cold_start_s = cold\<rparr>))))))))))))"

definition load_summary :: "json \<Rightarrow> run_summary py_result" where
  "load_summary s =
     item_with s ''target'' (\<lambda>t. bind_result (target_of_json t) (\<lambda>target.
     item_with s ''concurrency'' (\<lambda>c. bind_result (json_int c) (\<lambda>concurrency.
     item_with s ''n_requests'' (\<lambda>n. bind_result (json_int n) (\<lambda>n_requests.
     item_with s ''n_errors'' (\<lambda>e. bind_result (json_int e) (\<lambda>n_errors.
     bind_result (map_result (float_entry s) [''latency_p50_ms'', ''latency_p95_ms'', ''latency_p99_ms'', ''throughput_rps'']) (\<lambda>lat.
     item_with s ''request_bytes_mean'' (\<lambda>b. bind_result (json_float b) (\<lambda>request_bytes_mean.
     bind_result (map_result (float_entry s)
       [''response_bytes_mean'', ''proxy_ms_p50'', ''proxy_ms_p95'', ''proxy_ms_p99'', ''ttft_p50_ms'', ''ttft_p95_ms'',
        ''ttft_p99_ms'', ''tpot_p50_ms'', ''tpot_p95_ms'', ''tpot_p99_ms'']) (\<lambda>rest.
     Inr \<lparr>su_target = target, su_concurrency = concurrency, su_n_requests = n_requests, su_n_errors = n_errors,
          su_latency_p50_ms = lat ! 0, su_latency_p95_ms = lat ! 1, su_latency_p99_ms = lat ! 2,
          su_throughput_rps = lat ! 3, su_request_bytes_mean = request_bytes_mean,
          su_response_bytes_mean = rest ! 0, su_proxy_ms_p50 = rest ! 1, su_proxy_ms_p95 = rest ! 2,
          su_proxy_ms_p99 = rest ! 3, su_ttft_p50_ms = rest ! 4, su_ttft_p95_ms = rest ! 5,
          su_ttft_p99_ms = rest ! 6, su_tpot_p50_ms = rest ! 7, su_tpot_p95_ms = rest ! 8,
          su_tpot_p99_ms = rest ! 9, su_request_type = Chat\<rparr>))))))))))))"

definition load_result :: "(json \<Rightarrow> string) \<Rightarrow> json \<Rightarrow> request_result py_result" where
  "load_result other r =
     item_with r ''sample_id'' (\<lambda>sid.
     item_with r ''target'' (\<lambda>t. bind_result (target_of_json t) (\<lambda>target.
     item_with r ''concurrency'' (\<lambda>c. bind_result (json_int c) (\<lambda>concurrency.
     bind_result (float_entry r ''latency_ms'') (\<lambda>latency.
     item_with r ''request_bytes'' (\<lambda>b. bind_result (json_int b) (\<lambda>request_bytes.
     bind_result (bind_result (json_get_or r ''response_bytes'' JNull) (if_given json_int)) (\<lambda>response_bytes.
     bind_result (float_entry r ''proxy_ms'') (\<lambda>proxy_ms.
     item_with r ''success'' (\<lambda>success.
     bind_result (bind_result (json_get_or r ''error'' JNull) (if_given (Inr \<circ> json_str other))) (\<lambda>error.
     bind_result (float_entry r ''ttft_ms'') (\<lambda>ttft.
     bind_result (float_entry r ''tpot_ms'') (\<lambda>tpot.
     bind_result (bind_result (json_get_or r ''token_count'' JNull) (if_given json_int)) (\<lambda>token_count.
     Inr \<lparr>rq_sample_id = json_str other sid, rq_target = target, rq_concurrency = concurrency,
          rq_latency_ms = latency, rq_request_bytes = request_bytes, rq_response_bytes = response_bytes,
          rq_proxy_ms = proxy_ms, rq_success = json_truthy success, rq_error = error, rq_ttft_ms = ttft,
          rq_tpot_ms = tpot, rq_token_count = token_count, rq_request_type = Chat\<rparr>)))))))))))))))"

definition load_run :: "(json \<Rightarrow> string) \<Rightarrow> json \<Rightarrow> benchmark_run py_result" where
  "load_run other data =
     item_with data ''meta'' (\<lambda>m. bind_result (load_meta other m) (\<lambda>meta.
     item_with data ''summaries'' (\<lambda>ss. bind_result (json_iter ss) (\<lambda>sl. bind_result (map_result load_summary sl) (\<lambda>summaries.
     bind_result (json_get_or data ''raw_results'' (JList [])) (\<lambda>rr. bind_result (json_iter rr) (\<lambda>rl.
     bind_result (map_result (load_result other) rl) (\<lambda>raw.
     Inr \<lparr>br_meta = meta, br_summaries = summaries, br_raw_results = raw\<rparr>))))))))"

end
