(* ===== verification/Bench_Main.thy ===== *)
theory Bench_Main
  imports Bench_Runs Modal_Serve
begin

text \<open>
  The local entry point of \<open>scripts/python/bench_modal.py\<close> and \<open>regen_bench_reports.py\<close>, as actions that
  leave a trace of effects: accesses to the shared dictionary, spawned functions, the local proxy, files
  copied and written. What the harness subprocess, the drivers of \<open>runner.py\<close>, git, the clock and
  the file system give is read from the environment; the text of the Markdown files is not modelled.
\<close>

section \<open>Actions\<close>

datatype bench_file =
    File_Run benchmark_run
  | File_Summary benchmark_run
  | File_Cross cross_run_report
  | File_Three_Way three_way_report
  | File_Wire_Size "run_summary list"

datatype main_effect =
    Dict_Pop string
  | Dict_Put string dict_value
  | Spawned string
  | Copied string string
  | Proxy_Started string
  | Proxy_Terminated
  | Proxy_Killed
  | Wrote string bench_file

type_synonym 'a act = "main_effect list \<Rightarrow> 'a py_result \<times> main_effect list"

definition act_return :: "'a \<Rightarrow> 'a act" where
  "act_return x tr = (Inr x, tr)"

definition act_result :: "'a py_result \<Rightarrow> 'a act" where
  "act_result r tr = (r, tr)"

definition act_emit :: "main_effect list \<Rightarrow> unit act" where
  "act_emit es tr = (Inr (), tr @ es)"

definition act_bind :: "'a act \<Rightarrow> ('a \<Rightarrow> 'b act) \<Rightarrow> 'b act" where
  "act_bind m f tr = (case m tr of (Inl e, tr') \<Rightarrow> (Inl e, tr') | (Inr x, tr') \<Rightarrow> f x tr')"

definition act_then :: "main_effect list \<Rightarrow> 'b act \<Rightarrow> 'b act" where
  "act_then es m = act_bind (act_emit es) (\<lambda>_. m)"

text \<open>\<open>try: m finally: c\<close>, for a clean-up that only has effects.\<close>

definition act_finally :: "'a act \<Rightarrow> main_effect list \<Rightarrow> 'a act" where
  "act_finally m es tr = (let (r, tr') = m tr in (r, tr' @ es))"

definition system_exit :: "int \<Rightarrow> py_exn" where
  "system_exit code = Lib_Exn ''SystemExit'' (str_int code) [''SystemExit''] None None"

section \<open>The environment\<close>

record harness_answer =
  ha_returncode :: int
  ha_results_exist :: bool

datatype runner =
    Grpc_Target | Target_Streaming string | Grpc_Target_Streaming
  | Completions_Native_Text | Completions_Proxy_Text | Completions_Grpc_Direct
  | Completions_Native_Embeds | Completions_Proxy_Embeds | Completions_Grpc_Direct_Embeds

text \<open>
  The addresses are what \<open>_poll_for_addr\<close> returns, \<open>None\<close> for its exit; the probes are what the
  requests to the proxy's \<open>healthz\<close> give, one per poll.
\<close>

record ('s, 'c) bench_env =
  be_rest_addr :: "string option"
  be_rest_cold :: "dict_value option"
  be_rest_harness :: harness_answer
  be_grpc_addr :: "string option"
  be_grpc_cold :: "dict_value option"
  be_proxy_probes :: "probe_answer list"
  be_corpus :: "'s list py_result"
  be_git_head :: "string py_result"
  be_grpc_harness :: harness_answer
  be_run_chat :: "runner \<Rightarrow> string \<Rightarrow> 's list \<Rightarrow> int \<Rightarrow> request_result list py_result"
  be_reporter_names :: "string list"
  be_completions_corpus :: "string \<Rightarrow> 'c list py_result"
  be_run_completions :: "runner \<Rightarrow> string \<Rightarrow> 'c list \<Rightarrow> int \<Rightarrow> request_result list py_result"
  be_hostname :: string
  be_direct_ts :: string
  be_completions_ts :: string
  be_stream_ts :: string
  be_proxy_slow :: bool
  be_saved_run :: "string \<Rightarrow> benchmark_run py_result"
  be_file_exists :: "string \<Rightarrow> bool"

definition PROXY_READY_POLLS :: nat where "PROXY_READY_POLLS = 20"
definition CHAT_CORPUS_PATH :: string where "CHAT_CORPUS_PATH = ''tools/benchmark/corpus/chat_nonstreaming.json''"
definition CONCURRENCY_LEVELS :: "int list" where "CONCURRENCY_LEVELS = [1, 4, 8]"
definition proxy_url :: string where "proxy_url = ''http://localhost:8000''"

definition results_path :: "string \<Rightarrow> string" where "results_path f = ''bench-results/'' @ f"
definition docs_path :: "string \<Rightarrow> string" where "docs_path f = ''docs/benchmarks/'' @ f"

text \<open>The names of the module \<open>reporter.py\<close>: its imports, constants and functions.\<close>

definition REPORTER_NAMES :: "string list" where
  "REPORTER_NAMES =
     [''annotations'', ''csv'', ''dataclasses'', ''json'', ''Iterable'', ''Path'', ''Any'',
      ''compute_insufficient_snapshots_header_fired'', ''compute_intra_sweep_drift_header_fired'',
      ''BenchmarkRun'', ''CrossRunReport'', ''RunMeta'', ''RunSummary'', ''ThreeWayReport'',
      ''compute_null_anchor_drift_header_fired'', ''compute_failure_summary_header_fired'',
      ''INTERIOR_CAP_MAX_TOKENS'', ''VALIDATE_MAX_TOKENS_AXIS'', ''AnchorLatencyTrajectory'',
      ''MeasurementPoint'', ''PromptSource'', ''SweepArtifact'', ''SweepMode'', ''CELLS'', ''CohortKind'',
      ''TopologyPath'', ''TopologyPathError'', ''_to_dict'', ''write_json'', ''write_csv'', ''_fmt_legacy'',
      ''_delta'', ''_row'', ''_SINGLE_TARGET_METRICS'', ''_TARGET_DISPLAY_NAMES'', ''write_summary_md'',
      ''_meta_section'', ''_CROSS_METRIC_LABELS'', ''write_cross_run_md'', ''write_three_way_md'',
      ''__all__'', ''INTEGRITY_CHANNELS'', ''NOT_VALIDATED_MARKER'',
      ''SC011_CLOCK_ANOMALY_FRACTION_THRESHOLD'', ''EARLY_EOS_RATIO_THRESHOLD'',
      ''EARLY_EOS_AUDIT_MIN_MAX_TOKENS'', ''_fmt'', ''compute_implied_output_tokens'',
      ''_flatten_measurements'', ''_iter_cell_ids'', ''fill_validate_mode_placeholders'',
      ''compute_clock_anomaly_fraction'', ''_has_cohort_csp_mismatch'', ''build_integrity_warnings'',
      ''_sanitize_for_json'', ''render_json'', ''_CHANNEL_DESCRIPTIONS'',
      ''_render_leading_integrity_headers'', ''_render_run_meta'', ''_render_method_background'',
      ''_row_status'', ''_render_production_latency_budget'', ''_render_early_eos_audit'',
      ''_render_tpot_curves'', ''_render_engine_cost_decomposition'', ''_render_protocol_crossover'',
      ''_render_kv_pressure'', ''_render_null_anchor_validation'', ''_render_anchor_latency_trajectory'',
      ''_render_failure_summary'', ''_render_sweep_wall_clock_timeline'', ''_duration_minutes'',
      ''_render_network_paths'', ''render_markdown'', ''write_m6_2_report'']"

definition import_name :: "string list \<Rightarrow> string \<Rightarrow> unit py_result" where
  "import_name names n =
     (if List.member names n then Inr ()
      else Inl (Exn ''ImportError'' (''cannot import name '' @ [CHR 0x27] @ n @ [CHR 0x27])))"

section \<open>The two deployments\<close>

definition run_harness :: "harness_answer \<Rightarrow> unit py_result" where
  "run_harness ans =
     (if ha_returncode ans \<noteq> 0 then Inl (system_exit 1)
      else if \<not> ha_results_exist ans then Inl (system_exit 1) else Inr ())"

definition stale_keys :: "string list" where
  "stale_keys = [''rest_addr'', ''rest_cold_start_s'', ''rest_stop'', ''grpc_addr'', ''grpc_cold_start_s'', ''grpc_stop'']"

definition addr_or_exit :: "string option \<Rightarrow> string py_result" where
  "addr_or_exit a = (case a of None \<Rightarrow> Inl (system_exit 1) | Some s \<Rightarrow> Inr s)"

text \<open>The REST phase: the address with its scheme and the cold start.\<close>

definition rest_phase :: "('s, 'c) bench_env \<Rightarrow> (string \<times> real option) act" where
  "rest_phase env =
     act_then (map Dict_Pop stale_keys @ [Spawned ''serve_rest_for_bench''])
     (act_bind (act_result (addr_or_exit (be_rest_addr env))) (\<lambda>rest_addr.
      act_bind (act_result (run_harness (be_rest_harness env))) (\<lambda>_.
      act_then [Copied ''results.json'' (results_path ''results-rest.json'')]
      (act_return (''http://'' @ rest_addr, cold_start_of (be_rest_cold env))))))"

definition probe_ok :: "probe_answer \<Rightarrow> bool" where
  "probe_ok a \<longleftrightarrow> a = Probe_Status 200"

definition grpc_up :: "('s, 'c) bench_env \<Rightarrow> (string \<times> real option) act" where
  "grpc_up env =
     act_then [Spawned ''serve_grpc_for_bench'']
     (act_bind (act_result (addr_or_exit (be_grpc_addr env))) (\<lambda>grpc_addr.
      act_then [Proxy_Started grpc_addr]
      (if list_ex probe_ok (take PROXY_READY_POLLS (be_proxy_probes env))
       then act_return (grpc_addr, cold_start_of (be_grpc_cold env))
       else act_then [Proxy_Terminated, Dict_Put ''grpc_stop'' (DV_Bool True)]
              (act_result (Inl (system_exit 1))))))"

definition git_sha_of :: "string py_result \<Rightarrow> string" where
  "git_sha_of r = (case r of Inl e \<Rightarrow> ''unknown'' | Inr s \<Rightarrow> py_strip s)"

section \<open>The benchmark phases\<close>

text \<open>Runs in a row into one list: what they gave before the first exception, and the exception.\<close>

fun collect_runs :: "request_result list py_result list \<Rightarrow> request_result list \<times> py_exn option" where
  "collect_runs [] = ([], None)"
| "collect_runs (Inl e # rs) = ([], Some e)"
| "collect_runs (Inr xs # rs) = (let (ys, err) = collect_runs rs in (xs @ ys, err))"

definition all_runs :: "request_result list py_result list \<Rightarrow> request_result list py_result" where
  "all_runs rs = (case collect_runs rs of (xs, None) \<Rightarrow> Inr xs | (xs, Some e) \<Rightarrow> Inl e)"

definition modal_meta :: "('s, 'c) bench_env \<Rightarrow> string \<Rightarrow> string \<Rightarrow> string \<Rightarrow> string \<Rightarrow> bench_run_meta" where
  "modal_meta env ts corpus proxy native =
     \<lparr>bm_timestamp = ts, bm_git_sha = git_sha_of (be_git_head env), bm_hostname = be_hostname env,
      bm_corpus_path = corpus, bm_concurrency_levels = CONCURRENCY_LEVELS, bm_proxy_url = proxy,
      bm_native_url = native, bm_modal_function_id = None, bm_gpu_type = Some ''A10G'', bm_cold_start_s = None\<rparr>"

definition run_of_results :: "bench_run_meta \<Rightarrow> request_result list \<Rightarrow> benchmark_run" where
  "run_of_results meta results =
     \<lparr>br_meta = meta, br_summaries = compute_summaries results, br_raw_results = results\<rparr>"

definition grpc_direct_phase :: "('s, 'c) bench_env \<Rightarrow> string \<Rightarrow> real option \<Rightarrow> 's list \<Rightarrow> benchmark_run act" where
  "grpc_direct_phase env grpc_addr cold samples =
     act_bind (act_result (all_runs (map (be_run_chat env Grpc_Target grpc_addr samples) CONCURRENCY_LEVELS))) (\<lambda>results.
       let direct = run_of_results ((modal_meta env (be_direct_ts env) CHAT_CORPUS_PATH ''N/A'' grpc_addr)\<lparr>bm_cold_start_s := cold\<rparr>) results
       in act_then [Wrote (results_path ''results-grpc-direct.json'') (File_Run direct)] (act_return direct))"

text \<open>Per concurrency the REST, the proxy and the direct target, each into its own list.\<close>

fun streaming_runs ::
  "(int \<Rightarrow> request_result list py_result) \<Rightarrow> (int \<Rightarrow> request_result list py_result)
     \<Rightarrow> (int \<Rightarrow> request_result list py_result) \<Rightarrow> int list
     \<Rightarrow> (request_result list \<times> request_result list \<times> request_result list) py_result" where
  "streaming_runs rest px direct [] = Inr ([], [], [])"
| "streaming_runs rest px direct (conc # cs) =
     bind_result (rest conc) (\<lambda>a. bind_result (px conc) (\<lambda>b. bind_result (direct conc) (\<lambda>c.
       bind_result (streaming_runs rest px direct cs) (\<lambda>(as, bs, ds). Inr (a @ as, b @ bs, c @ ds)))))"

definition streaming_phase ::
  "('s, 'c) bench_env \<Rightarrow> string \<Rightarrow> string \<Rightarrow> 's list
     \<Rightarrow> (request_result list \<times> request_result list \<times> request_result list) py_result" where
  "streaming_phase env rest_url grpc_addr samples =
     streaming_runs (be_run_chat env (Target_Streaming ''native'') rest_url samples)
       (be_run_chat env (Target_Streaming ''proxy'') proxy_url samples)
       (be_run_chat env Grpc_Target_Streaming grpc_addr samples) CONCURRENCY_LEVELS"

text \<open>
  The completions benchmark: a corpus that is missing, or whose reader cannot be imported, ends its part,
  which keeps what it has collected.
\<close>

definition completions_part ::
  "('s, 'c) bench_env \<Rightarrow> string \<Rightarrow> (runner \<times> string) list \<Rightarrow> string list \<Rightarrow> request_result list py_result" where
  "completions_part env kind targets caught =
     (let (results, err) = (case be_completions_corpus env kind of
            Inl e \<Rightarrow> ([], Some e)
          | Inr samples \<Rightarrow> collect_runs (concat (map (\<lambda>(r, url).
              map (be_run_completions env r url samples) CONCURRENCY_LEVELS) targets)))
      in case err of
           None \<Rightarrow> Inr results
         | Some e \<Rightarrow> if list_ex (isinstance e) caught then Inr results else Inl e)"

definition completions_results :: "('s, 'c) bench_env \<Rightarrow> string \<Rightarrow> string \<Rightarrow> request_result list py_result" where
  "completions_results env rest_url grpc_addr =
     bind_result (completions_part env ''text''
         [(Completions_Native_Text, rest_url), (Completions_Proxy_Text, proxy_url), (Completions_Grpc_Direct, grpc_addr)]
         [''FileNotFoundError'']) (\<lambda>text_results.
     bind_result (completions_part env ''embeds''
         [(Completions_Native_Embeds, rest_url), (Completions_Proxy_Embeds, proxy_url),
          (Completions_Grpc_Direct_Embeds, grpc_addr)]
         [''FileNotFoundError'', ''ImportError'']) (\<lambda>embed_results.
     Inr (text_results @ embed_results)))"

definition SLUGS :: "run_target list" where "SLUGS = [Native, Proxy, Grpc_Direct]"

definition completions_path :: "run_target \<Rightarrow> string" where
  "completions_path target = docs_path (''phase-6-completions-'' @ target_name target @ ''.json'')"

definition completions_comparison_path :: string where
  "completions_comparison_path = docs_path ''phase-6-completions-comparison.md''"

definition completions_file :: "('s, 'c) bench_env \<Rightarrow> request_result list \<Rightarrow> run_target \<Rightarrow> main_effect list" where
  "completions_file env results target =
     (let target_results = filter (\<lambda>r. rq_target r = target) results
      in if target_results = [] then []
         else [Wrote (completions_path target) (File_Run (run_of_results
                (modal_meta env (be_completions_ts env) ''tools/benchmark/corpus/completions_*.json'' ''N/A'' ''N/A'')
                target_results))])"

definition completions_files :: "('s, 'c) bench_env \<Rightarrow> request_result list \<Rightarrow> string option act" where
  "completions_files env results =
     (if results = [] then act_return None
      else act_then (concat (map (completions_file env results) SLUGS)
               @ [Wrote completions_comparison_path (File_Wire_Size (compute_summaries results))])
             (act_return (Some completions_comparison_path)))"

definition completions_phase :: "('s, 'c) bench_env \<Rightarrow> string \<Rightarrow> string \<Rightarrow> string option act" where
  "completions_phase env rest_url grpc_addr =
     act_bind (act_result (import_name (be_reporter_names env) ''write_wire_size_comparison_md'')) (\<lambda>_.
     act_bind (act_result (completions_results env rest_url grpc_addr)) (\<lambda>results.
     completions_files env results))"

text \<open>The body of the \<open>try\<close>, and its \<open>finally\<close>.\<close>

record phase_results =
  pr_direct :: benchmark_run
  pr_stream_rest :: "request_result list"
  pr_stream_proxy :: "request_result list"
  pr_stream_direct :: "request_result list"
  pr_comparison :: "string option"

definition measured_phases ::
  "('s, 'c) bench_env \<Rightarrow> string \<Rightarrow> string \<Rightarrow> real option \<Rightarrow> 's list \<Rightarrow> phase_results act" where
  "measured_phases env rest_url grpc_addr grpc_cold samples =
     act_bind (act_result (run_harness (be_grpc_harness env))) (\<lambda>_.
     act_then [Copied ''results.json'' (results_path ''results-grpc.json'')]
     (act_bind (grpc_direct_phase env grpc_addr grpc_cold samples) (\<lambda>direct.
     act_bind (act_result (streaming_phase env rest_url grpc_addr samples)) (\<lambda>(sr, sp, sd).
     act_bind (completions_phase env rest_url grpc_addr) (\<lambda>comparison.
     act_return \<lparr>pr_direct = direct, pr_stream_rest = sr, pr_stream_proxy = sp, pr_stream_direct = sd,
                 pr_comparison = comparison\<rparr>)))))"

definition stop_proxy :: "('s, 'c) bench_env \<Rightarrow> main_effect list" where
  "stop_proxy env = Proxy_Terminated # (if be_proxy_slow env then [Proxy_Killed] else [])"

section \<open>The output files\<close>

definition stream_run :: "('s, 'c) bench_env \<Rightarrow> request_result list \<Rightarrow> string \<Rightarrow> benchmark_run" where
  "stream_run env results url =
     run_of_results (modal_meta env (be_stream_ts env) CHAT_CORPUS_PATH url url) results"

definition with_modal_meta :: "real option \<Rightarrow> benchmark_run \<Rightarrow> benchmark_run" where
  "with_modal_meta cold b =
     b\<lparr>br_meta := (br_meta b)\<lparr>bm_cold_start_s := cold, bm_gpu_type := Some ''A10G''\<rparr>\<rparr>"

definition output_effects ::
  "('s, 'c) bench_env \<Rightarrow> string \<Rightarrow> string \<Rightarrow> benchmark_run \<Rightarrow> benchmark_run \<Rightarrow> phase_results \<Rightarrow> main_effect list" where
  "output_effects env rest_url grpc_addr rest_run grpc_run pr =
     (let direct = pr_direct pr;
          s_rest = stream_run env (pr_stream_rest pr) rest_url;
          s_proxy = stream_run env (pr_stream_proxy pr) proxy_url;
          s_direct = stream_run env (pr_stream_direct pr) grpc_addr
      in [Wrote (docs_path ''phase-3-modal-rest-baseline.json'') (File_Run rest_run),
          Wrote (results_path ''rest/summary.md'') (File_Summary rest_run),
          Copied (results_path ''rest/summary.md'') (docs_path ''phase-3-modal-rest-baseline.md''),
          Wrote (docs_path ''phase-3-modal-grpc-baseline.json'') (File_Run grpc_run),
          Wrote (results_path ''grpc/summary.md'') (File_Summary grpc_run),
          Copied (results_path ''grpc/summary.md'') (docs_path ''phase-3-modal-grpc-baseline.md''),
          Wrote (docs_path ''phase-3-modal-comparison.md'') (File_Cross (compare_cross rest_run grpc_run ''REST'' ''gRPC'')),
          Wrote (docs_path ''phase-4.2-rest-baseline.json'') (File_Run rest_run),
          Wrote (docs_path ''phase-4.2-grpc-proxy-baseline.json'') (File_Run grpc_run),
          Wrote (docs_path ''phase-4.2-grpc-direct-baseline.json'') (File_Run direct),
          Wrote (results_path ''grpc-direct/summary.md'') (File_Summary direct),
          Copied (results_path ''grpc-direct/summary.md'') (docs_path ''phase-4.2-grpc-direct-baseline.md''),
          Wrote (docs_path ''phase-4.2-three-way-comparison.md'')
            (File_Three_Way (compare_three_way rest_run grpc_run direct ''REST'' ''gRPC-proxy'' ''gRPC-direct'')),
          Wrote (docs_path ''phase-5-streaming-comparison.md'')
            (File_Three_Way (compare_three_way s_rest s_proxy s_direct ''REST'' ''gRPC-proxy'' ''gRPC-direct'')),
          Wrote (docs_path ''phase-5-rest-streaming.json'') (File_Run s_rest),
          Wrote (docs_path ''phase-5-grpc-proxy-streaming.json'') (File_Run s_proxy),
          Wrote (docs_path ''phase-5-grpc-direct-streaming.json'') (File_Run s_direct)])"

definition is_written :: "string \<Rightarrow> main_effect \<Rightarrow> bool" where
  "is_written p e = (case e of Wrote q c \<Rightarrow> q = p | Copied src q \<Rightarrow> q = p | _ \<Rightarrow> False)"

definition DOCS_REPORTS :: "string list" where
  "DOCS_REPORTS =
    [''phase-3-modal-rest-baseline.json'', ''phase-3-modal-rest-baseline.md'',
     ''phase-3-modal-grpc-baseline.json'', ''phase-3-modal-grpc-baseline.md'', ''phase-3-modal-comparison.md'',
     ''phase-4.2-rest-baseline.json'', ''phase-4.2-grpc-proxy-baseline.json'',
     ''phase-4.2-grpc-direct-baseline.json'', ''phase-4.2-grpc-direct-baseline.md'',
     ''phase-4.2-three-way-comparison.md'', ''phase-5-rest-streaming.json'',
     ''phase-5-grpc-proxy-streaming.json'', ''phase-5-grpc-direct-streaming.json'',
     ''phase-5-streaming-comparison.md'']"

text \<open>The paths the run prints in the end.\<close>

definition output_paths :: "('s, 'c) bench_env \<Rightarrow> string option \<Rightarrow> main_effect list \<Rightarrow> string list" where
  "output_paths env comparison tr =
     [results_path ''results-rest.json'', results_path ''results-grpc.json'', results_path ''results-grpc-direct.json'']
     @ map docs_path DOCS_REPORTS
     @ filter (\<lambda>p. be_file_exists env p \<or> list_ex (is_written p) tr) (map completions_path SLUGS)
     @ (case comparison of None \<Rightarrow> [] | Some p \<Rightarrow> [p])"

section \<open>The run\<close>

definition stop_signals :: "main_effect list" where
  "stop_signals = [Dict_Put ''rest_stop'' (DV_Bool True), Dict_Put ''grpc_stop'' (DV_Bool True)]"

definition final_outputs ::
  "('s, 'c) bench_env \<Rightarrow> string \<Rightarrow> real option \<Rightarrow> string \<Rightarrow> real option \<Rightarrow> phase_results \<Rightarrow> string list act" where
  "final_outputs env rest_url rest_cold grpc_addr grpc_cold pr =
     act_bind (act_result (be_saved_run env (results_path ''results-rest.json''))) (\<lambda>rest_run.
     act_bind (act_result (be_saved_run env (results_path ''results-grpc.json''))) (\<lambda>grpc_run.
     act_then (output_effects env rest_url grpc_addr (with_modal_meta rest_cold rest_run)
                 (with_modal_meta grpc_cold grpc_run) pr)
     (\<lambda>tr. (Inr (output_paths env (pr_comparison pr) tr), tr))))"

definition bench_modal_main :: "('s, 'c) bench_env \<Rightarrow> string list act" where
  "bench_modal_main env =
     act_bind (rest_phase env) (\<lambda>(rest_url, rest_cold).
     act_bind (grpc_up env) (\<lambda>(grpc_addr, grpc_cold).
     act_bind (act_result (be_corpus env)) (\<lambda>samples.
     act_bind (act_finally (measured_phases env rest_url grpc_addr grpc_cold samples) (stop_proxy env)) (\<lambda>pr.
     act_then stop_signals (final_outputs env rest_url rest_cold grpc_addr grpc_cold pr)))))"

section \<open>Regenerating the reports\<close>

record regen_args =
  ra_rest :: string
  ra_grpc_proxy :: string
  ra_grpc_direct :: string
  ra_phase5_rest :: string
  ra_phase5_proxy :: string
  ra_phase5_direct :: string

definition default_regen_args :: regen_args where
  "default_regen_args =
     \<lparr>ra_rest = docs_path ''phase-4.2-rest-baseline.json'',
      ra_grpc_proxy = docs_path ''phase-4.2-grpc-proxy-baseline.json'',
      ra_grpc_direct = docs_path ''phase-4.2-grpc-direct-baseline.json'',
      ra_phase5_rest = docs_path ''phase-5-rest-streaming.json'',
      ra_phase5_proxy = docs_path ''phase-5-grpc-proxy-streaming.json'',
      ra_phase5_direct = docs_path ''phase-5-grpc-direct-streaming.json''\<rparr>"

definition regen_phase5 ::
  "(string \<Rightarrow> bool) \<Rightarrow> (string \<Rightarrow> benchmark_run py_result) \<Rightarrow> regen_args \<Rightarrow> unit act" where
  "regen_phase5 exists load args =
     (if \<not> list_all exists [ra_phase5_rest args, ra_phase5_proxy args, ra_phase5_direct args] then act_return ()
      else act_bind (act_result (load (ra_phase5_rest args))) (\<lambda>a.
           act_bind (act_result (load (ra_phase5_proxy args))) (\<lambda>b.
           act_bind (act_result (load (ra_phase5_direct args))) (\<lambda>c.
           act_emit [Wrote (docs_path ''phase-5-streaming-comparison.md'')
             (File_Three_Way (compare_three_way a b c ''REST'' ''gRPC-proxy'' ''gRPC-direct''))]))))"

definition regen_main ::
  "(string \<Rightarrow> bool) \<Rightarrow> (string \<Rightarrow> benchmark_run py_result) \<Rightarrow> regen_args \<Rightarrow> unit act" where
  "regen_main exists load args =
     (if \<not> list_all exists [ra_rest args, ra_grpc_proxy args, ra_grpc_direct args]
      then act_result (Inl (system_exit 1))
      else act_bind (act_result (load (ra_rest args))) (\<lambda>rest_run.
           act_bind (act_result (load (ra_grpc_proxy args))) (\<lambda>proxy_run.
           act_bind (act_result (load (ra_grpc_direct args))) (\<lambda>direct_run.
           act_then
             [Wrote (docs_path ''phase-3-modal-rest-baseline.md'') (File_Summary rest_run),
              Wrote (docs_path ''phase-3-modal-grpc-baseline.md'') (File_Summary proxy_run),
              Wrote (docs_path ''phase-3-modal-comparison.md'')
                (File_Cross (compare_cross rest_run proxy_run ''REST'' ''gRPC'')),
              Wrote (docs_path ''phase-4.2-grpc-direct-baseline.md'') (File_Summary direct_run),
              Wrote (docs_path ''phase-4.2-three-way-comparison.md'')
                (File_Three_Way (compare_three_way rest_run proxy_run direct_run ''REST'' ''gRPC-proxy'' ''gRPC-direct''))]
             (regen_phase5 exists load args)))))"

end
