(* ===== verification/Bench_Run_Laws.thy ===== *)
theory Bench_Run_Laws
  imports Bench_Runs
begin

text \<open>
  What the summaries and the comparisons of a benchmark run show, and what of a run survives the JSON
  file.
\<close>

section \<open>Summaries\<close>

lemma fold_dict_append_keys:
  "set (map fst (fold (\<lambda>r. dict_append (k r) r) rs d)) = set (map fst d) \<union> k ` set rs"
proof (induction rs arbitrary: d)
  case (Cons r rs)
  have "set (map fst (dict_append (k r) r d)) = insert (k r) (set (map fst d))"
    by (induction "k r" r d rule: dict_append.induct) auto
  then show ?case using Cons by auto
qed simp

lemma distinct_dict_append: "distinct (map fst d) \<Longrightarrow> distinct (map fst (dict_append k v d))"
proof (induction k v d rule: dict_append.induct)
  case (2 k v k' vs d)
  have "set (map fst (dict_append k v d)) = insert k (set (map fst d))"
    by (induction k v d rule: dict_append.induct) auto
  then show ?case using 2 by auto
qed simp

lemma fold_dict_append_distinct:
  "distinct (map fst d) \<Longrightarrow> distinct (map fst (fold (\<lambda>r. dict_append (k r) r) rs d))"
  by (induction rs arbitrary: d) (auto intro: distinct_dict_append)

lemma fold_dict_append_get:
  "dict_get_list (fold (\<lambda>r. dict_append (k r) r) rs d) x = dict_get_list d x @ filter (\<lambda>r. k r = x) rs"
  by (induction rs arbitrary: d) auto

lemma group_results_distinct: "distinct (map fst (group_results rs))"
  unfolding group_results_def by (rule fold_dict_append_distinct) simp

lemma group_results_member:
  assumes "(key, grp) \<in> set (group_results rs)"
  shows "grp = filter (\<lambda>r. group_key_of r = key) rs"
proof -
  have "map_of (group_results rs) key = Some grp"
    using assms group_results_distinct by simp
  moreover have "dict_get_list (group_results rs) key = filter (\<lambda>r. group_key_of r = key) rs"
    unfolding group_results_def fold_dict_append_get by (simp add: dict_get_list_def)
  ultimately show ?thesis by (simp add: dict_get_list_def)
qed

lemma group_results_keys: "set (map fst (group_results rs)) = group_key_of ` set rs"
  by (simp only: group_results_def fold_dict_append_keys) simp

lemma sorted_groups:
  "sort_key fst (group_results rs)
     = map (\<lambda>k. (k, filter (\<lambda>r. group_key_of r = k) rs)) (sorted_list_of_set (group_key_of ` set rs))"
proof -
  let ?g = "sort_key fst (group_results rs)"
  have "sorted (map fst ?g)" "distinct (map fst ?g)"
    using group_results_distinct by (simp_all add: distinct_map) 
  moreover have "set (map fst ?g) = group_key_of ` set rs" using group_results_keys by simp
  ultimately have keys: "map fst ?g = sorted_list_of_set (group_key_of ` set rs)"
    by (metis sorted_list_of_set.idem_if_sorted_distinct)
  have "?g = map (\<lambda>p. (fst p, filter (\<lambda>r. group_key_of r = fst p) rs)) ?g"
    by (rule map_idI[symmetric]) (use group_results_member in force)
  also have "\<dots> = map (\<lambda>k. (k, filter (\<lambda>r. group_key_of r = k) rs)) (map fst ?g)"
    by (simp add: comp_def)
  finally show ?thesis unfolding keys .
qed

lemma group_counts:
  "finite K \<Longrightarrow> f ` set rs \<subseteq> K \<Longrightarrow>
     (\<Sum>k \<in> K. length (filter (\<lambda>r. f r = k \<and> P r) rs)) = length (filter P rs)"
proof (induction rs)
  case (Cons r rs)
  have "(\<Sum>k \<in> K. length (filter (\<lambda>r. f r = k \<and> P r) (r # rs)))
      = (\<Sum>k \<in> K. (if f r = k \<and> P r then 1 else 0) + length (filter (\<lambda>r. f r = k \<and> P r) rs))"
    by (rule sum.cong) auto
  also have "\<dots> = (\<Sum>k \<in> K. if f r = k then if P r then 1 else 0 else 0) + length (filter P rs)"
    using Cons by (simp add: sum.distrib)
  finally show ?case using Cons.prems by (simp add: sum.delta')
qed simp

text \<open>C31. The summaries of a run are one per target, concurrency and request type that occurs, in
  increasing order, each the summary of exactly the results of its group in their order; together they
  count every result once and every failure once.\<close>
theorem summaries_account_for_results:
  "compute_summaries rs =
     map (\<lambda>k. summarize k (filter (\<lambda>r. group_key_of r = k) rs)) (sorted_list_of_set (group_key_of ` set rs))
   \<and> sum_list (map su_n_requests (compute_summaries rs)) = int (length rs)
   \<and> sum_list (map su_n_errors (compute_summaries rs)) = int (length (filter (\<lambda>r. \<not> rq_success r) rs))"
proof -
  let ?K = "group_key_of ` set rs"
  have s: "compute_summaries rs =
     map (\<lambda>k. summarize k (filter (\<lambda>r. group_key_of r = k) rs)) (sorted_list_of_set ?K)"
    by (simp add: compute_summaries_def sorted_groups comp_def)
  have fin: "finite ?K" by simp
  have n: "(\<Sum>k \<in> ?K. length (filter (\<lambda>r. group_key_of r = k \<and> P r) rs)) = length (filter P rs)" for P
    using group_counts[OF fin order_refl] .
  have requests: "sum_list (map su_n_requests (compute_summaries rs)) = int (length rs)"
    using n[of "\<lambda>r. True"]
    by (simp add: s summarize_def Let_def comp_def case_prod_beta sum_list_distinct_conv_sum_set flip: of_nat_sum)
  have failed: "int (length (filter (\<lambda>r. group_key_of r = k) rs))
      - int (length (filter rq_success (filter (\<lambda>r. group_key_of r = k) rs)))
    = int (length (filter (\<lambda>r. group_key_of r = k \<and> \<not> rq_success r) rs))" for k
    by (induction rs) auto
  have "sum_list (map su_n_errors (compute_summaries rs))
      = (\<Sum>k \<in> ?K. int (length (filter (\<lambda>r. group_key_of r = k \<and> \<not> rq_success r) rs)))"
    by (simp add: s summarize_def Let_def comp_def case_prod_beta sum_list_distinct_conv_sum_set failed del: filter_filter)
  then show ?thesis using s requests n[of "\<lambda>r. \<not> rq_success r"] by (simp flip: of_nat_sum)
qed

section \<open>Comparisons\<close>

text \<open>A metric that grows is a regression, the throughput too: against a baseline of positive
  throughput a summary is reported for its throughput exactly when it is faster by more than the
  threshold, and then the report as a whole has a regression; a loss of throughput is never reported.\<close>
theorem throughput_gain_is_regression:
  assumes new: "s \<in> set (br_summaries new_run)"
    and base: "summary_index (br_summaries baseline) (su_target s, su_concurrency s) = Some b"
    and x: "su_throughput_rps b = Some x" "0 < x" and y: "su_throughput_rps s = Some y"
  shows "(metric_regression t b s (su_throughput_rps, ''throughput_rps'') \<noteq> None \<longleftrightarrow> x * (1 + t) < y)
    \<and> (x * (1 + t) < y \<longrightarrow> cr_has_regression (compare_runs baseline new_run t))"
proof -
  have gain: "t < (y - x) / x \<longleftrightarrow> x * (1 + t) < y" using x(2) by (simp add: field_simps)
  have iff: "metric_regression t b s (su_throughput_rps, ''throughput_rps'') \<noteq> None \<longleftrightarrow> x * (1 + t) < y"
    using x y by (simp add: metric_regression_def Let_def gain)
  have "cr_has_regression (compare_runs baseline new_run t)" if "x * (1 + t) < y"
  proof -
    obtain e where e: "metric_regression t b s (su_throughput_rps, ''throughput_rps'') = Some e"
      using iff \<open>x * (1 + t) < y\<close> by blast
    have "(su_throughput_rps, ''throughput_rps'') \<in> set METRIC_FIELDS" by (simp add: METRIC_FIELDS_def)
    then have "e \<in> set (List.map_filter (metric_regression t b s) METRIC_FIELDS)"
      using e by (force simp: List.map_filter_def)
    then have "e \<in> set (cr_regressions (compare_runs baseline new_run t))"
      using new base by (force simp: compare_runs_def Let_def)
    then have "cr_regressions (compare_runs baseline new_run t) \<noteq> []" by auto
    then show ?thesis unfolding compare_runs_def Let_def by simp
  qed
  then show ?thesis using iff by blast
qed

definition demo_summary :: "real \<Rightarrow> run_summary" where
  "demo_summary rps = \<lparr>su_target = Proxy, su_concurrency = 4, su_n_requests = 1, su_n_errors = 0,
     su_latency_p50_ms = None, su_latency_p95_ms = None, su_latency_p99_ms = None, su_throughput_rps = Some rps,
     su_request_bytes_mean = 1, su_response_bytes_mean = None, su_proxy_ms_p50 = None, su_proxy_ms_p95 = None,
     su_proxy_ms_p99 = None, su_ttft_p50_ms = None, su_ttft_p95_ms = None, su_ttft_p99_ms = None,
     su_tpot_p50_ms = None, su_tpot_p95_ms = None, su_tpot_p99_ms = None, su_request_type = Completion_Text\<rparr>"

definition demo_run :: "real \<Rightarrow> benchmark_run" where
  "demo_run rps = \<lparr>br_meta = \<lparr>bm_timestamp = ''t'', bm_git_sha = ''s'', bm_hostname = ''h'', bm_corpus_path = ''c'',
       bm_concurrency_levels = [4], bm_proxy_url = ''p'', bm_native_url = ''n'', bm_modal_function_id = None,
       bm_gpu_type = None, bm_cold_start_s = None\<rparr>,
     br_summaries = [demo_summary rps], br_raw_results = []\<rparr>"

theorem throughput_gain_is_regression_witness:
  "cr_has_regression (compare_runs (demo_run 10) (demo_run 20) (1/10))"
  using throughput_gain_is_regression[of "demo_summary 20" "demo_run 20" "demo_run 10" "demo_summary 10" 10 20 "1/10"]
  by (simp add: demo_run_def demo_summary_def summary_index_def)

definition two_way :: "three_way_row \<Rightarrow> cross_run_row" where
  "two_way r = \<lparr>xr_metric = tr_metric r, xr_concurrency = tr_concurrency r, xr_value_a = tr_value_a r,
     xr_value_b = tr_value_b r, xr_delta_pct = map_option (\<lambda>x. x / 100) (tr_delta_pct_b r)\<rparr>"

lemma delta_scaled: "map_option (\<lambda>x. x / 100) (delta_of 100 a b) = delta_of 1 a b"
  by (auto simp: delta_of_def field_simps split: option.split)

text \<open>The three-way comparison contains the two-way one: where the third run has no concurrency of
  its own, its rows without their third column are those of \<open>compare_cross\<close>, in the same order, with
  the difference given in percent instead of as a fraction.\<close>
theorem cross_within_three_way:
  assumes "fst ` set (target_index Grpc_Direct (br_summaries c))
     \<subseteq> fst ` set (target_index Native (br_summaries a)) \<union> fst ` set (target_index Proxy (br_summaries b))"
  shows "map two_way (tp_rows (compare_three_way a b c la lb lc)) = xp_rows (compare_cross a b la lb)"
proof -
  have row: "two_way (three_way_row_of ia ib ic conc fl) = cross_row ia ib conc fl" for ia ib ic conc fl
    by (simp add: two_way_def three_way_row_of_def cross_row_def Let_def delta_scaled)
  have "fst ` set (target_index Native (br_summaries a)) \<union> fst ` set (target_index Proxy (br_summaries b))
      \<union> fst ` set (target_index Grpc_Direct (br_summaries c))
    = fst ` set (target_index Native (br_summaries a)) \<union> fst ` set (target_index Proxy (br_summaries b))"
    using assms by blast
  then show ?thesis
    by (simp add: compare_three_way_def compare_cross_def Let_def map_concat comp_def row)
qed

theorem cross_within_three_way_witness:
  "map two_way (tp_rows (compare_three_way (demo_run 1) (demo_run 2) (demo_run 3) ''a'' ''b'' ''c''))
     = xp_rows (compare_cross (demo_run 1) (demo_run 2) ''a'' ''b'')"
  by (rule cross_within_three_way) (simp add: demo_run_def demo_summary_def target_index_def)

section \<open>The JSON file\<close>

text \<open>What \<open>load_run\<close> makes of a run: request types are lost, and an empty text is no text.\<close>

definition as_loaded :: "benchmark_run \<Rightarrow> benchmark_run" where
  "as_loaded b =
     \<lparr>br_meta = (br_meta b)\<lparr>bm_modal_function_id := (if bm_modal_function_id (br_meta b) = Some [] then None
                                                     else bm_modal_function_id (br_meta b)),
                           bm_gpu_type := (if bm_gpu_type (br_meta b) = Some [] then None else bm_gpu_type (br_meta b))\<rparr>,
      br_summaries = map (\<lambda>s. s\<lparr>su_request_type := Chat\<rparr>) (br_summaries b),
      br_raw_results = map (\<lambda>r. r\<lparr>rq_request_type := Chat\<rparr>) (br_raw_results b)\<rparr>"

lemma map_result_map: "(\<And>x. x \<in> set xs \<Longrightarrow> f (g x) = Inr (h x)) \<Longrightarrow> map_result f (map g xs) = Inr (map h xs)"
  by (induction xs) auto

lemma if_given_opt [simp]:
  "if_given json_float (opt_json JFloat v) = Inr v" "if_given json_int (opt_json JInt n) = Inr n"
  "if_given (Inr \<circ> json_str other) (opt_json JStr s) = Inr s"
  by (cases v; cases n; cases s; simp add: if_given_def opt_json_def)+

lemma if_truthy_opt [simp]: "if_truthy (json_str other) (opt_json JStr v) = (if v = Some [] then None else v)"
  by (cases v) (auto simp: if_truthy_def opt_json_def)

lemma target_of_name [simp]: "target_of_json (JStr (target_name t)) = Inr t"
  by (cases t) (simp_all add: target_of_json_def)

lemmas load_defs = item_with_def float_entry_def dict_item_def json_get_def

lemma load_summary_json: "load_summary (summary_json s) = Inr (s\<lparr>su_request_type := Chat\<rparr>)"
  by (simp add: load_summary_def summary_json_def load_defs)

lemma load_result_json: "load_result other (result_json r) = Inr (r\<lparr>rq_request_type := Chat\<rparr>)"
  by (simp add: load_result_def result_json_def load_defs)

lemma load_meta_json: "load_meta other (meta_json m) = Inr
    (m\<lparr>bm_modal_function_id := (if bm_modal_function_id m = Some [] then None else bm_modal_function_id m),
       bm_gpu_type := (if bm_gpu_type m = Some [] then None else bm_gpu_type m)\<rparr>)"
  using map_result_map[of "bm_concurrency_levels m" json_int JInt "\<lambda>x. x"]
  by (simp add: load_meta_def meta_json_def load_defs)

lemma load_run_of_json: "load_run other (run_json b) = Inr (as_loaded b)"
proof -
  have "map_result load_summary (map summary_json (br_summaries b))
      = Inr (map (\<lambda>s. s\<lparr>su_request_type := Chat\<rparr>) (br_summaries b))"
    "map_result (load_result other) (map result_json (br_raw_results b))
      = Inr (map (\<lambda>r. r\<lparr>rq_request_type := Chat\<rparr>) (br_raw_results b))"
    by (rule map_result_map, simp add: load_summary_json load_result_json)+
  then show ?thesis by (simp add: load_run_def run_json_def load_defs load_meta_json as_loaded_def)
qed

text \<open>A run read back from its JSON form is the run that was written, but for the request type of
  every summary and result, which comes back as a chat request, and for empty texts in the metadata; a
  second round changes nothing more.\<close>
theorem run_json_roundtrip:
  "load_run other (run_json b) = Inr (as_loaded b) \<and> load_run other (run_json (as_loaded b)) = Inr (as_loaded b)
   \<and> map (\<lambda>s. s\<lparr>su_request_type := Chat\<rparr>) (br_summaries b) = br_summaries (as_loaded b)
   \<and> map (\<lambda>r. r\<lparr>rq_request_type := Chat\<rparr>) (br_raw_results b) = br_raw_results (as_loaded b)
   \<and> (bm_gpu_type (br_meta b) \<noteq> Some [] \<and> bm_modal_function_id (br_meta b) \<noteq> Some []
       \<longleftrightarrow> br_meta (as_loaded b) = br_meta b)"
proof -
  have "as_loaded (as_loaded b) = as_loaded b" by (simp add: as_loaded_def comp_def)
  moreover have "br_meta (as_loaded b) = br_meta b \<longleftrightarrow>
      bm_gpu_type (br_meta b) \<noteq> Some [] \<and> bm_modal_function_id (br_meta b) \<noteq> Some []"
    by (cases "br_meta b") (auto simp: as_loaded_def)
  ultimately show ?thesis by (simp add: load_run_of_json) (simp add: as_loaded_def)
qed

end
