(* ===== verification/Bench_Main_Laws.thy ===== *)
theory Bench_Main_Laws
  imports Bench_Main Bench_Run_Laws
begin

text \<open>
  What a run of \<open>bench_modal.py\<close> leaves behind: its stop signals, that the runs of the repository fail,
  and the reports that can be regenerated from the files of a run.
\<close>

section \<open>Traces and failures of actions\<close>

named_theorems act_rules \<open>the effects an action may append\<close>

definition appends :: "(main_effect \<Rightarrow> bool) \<Rightarrow> 'a act \<Rightarrow> bool" where
  "appends P m \<longleftrightarrow> (\<forall>tr. \<exists>es. snd (m tr) = tr @ es \<and> list_all P es)"

definition fails :: "'a act \<Rightarrow> bool" where
  "fails m \<longleftrightarrow> (\<forall>tr. isl (fst (m tr)))"

lemma appends_return [act_rules]: "appends P (act_return x)"
  by (simp add: appends_def act_return_def)

lemma appends_result [act_rules]: "appends P (act_result r)"
  by (simp add: appends_def act_result_def)

lemma appends_emit [act_rules]: "list_all P es \<Longrightarrow> appends P (act_emit es)"
  by (simp add: appends_def act_emit_def)

lemma appends_bind [act_rules]:
  assumes "appends P m" and "\<And>x. appends P (f x)"
  shows "appends P (act_bind m f)"
  unfolding appends_def
proof
  fix tr
  obtain r tr' where m: "m tr = (r, tr')" by (cases "m tr")
  obtain es where es: "tr' = tr @ es" "list_all P es" using assms(1) m by (metis appends_def snd_conv)
  show "\<exists>es. snd (act_bind m f tr) = tr @ es \<and> list_all P es"
  proof (cases r)
    case (Inr x)
    obtain es' where "snd (f x tr') = tr' @ es'" "list_all P es'" using assms(2) by (metis appends_def)
    then show ?thesis using m es Inr by (auto simp: act_bind_def)
  qed (use m es in \<open>auto simp: act_bind_def\<close>)
qed

lemma appends_then [act_rules]: "list_all P es \<Longrightarrow> appends P m \<Longrightarrow> appends P (act_then es m)"
  unfolding act_then_def by (intro act_rules)

lemma appends_finally [act_rules]: "appends P m \<Longrightarrow> list_all P es \<Longrightarrow> appends P (act_finally m es)"
  unfolding appends_def act_finally_def by (auto simp: case_prod_beta) (metis append_assoc list_all_append)

lemma appends_if [act_rules]: "(b \<Longrightarrow> appends P m) \<Longrightarrow> (\<not> b \<Longrightarrow> appends P n) \<Longrightarrow> appends P (if b then m else n)"
  by simp

lemma appends_prod [act_rules]: "(\<And>x y. appends P (f x y)) \<Longrightarrow> appends P (case p of (x, y) \<Rightarrow> f x y)"
  by (cases p) simp

lemma appends_let [act_rules]: "appends P (f x) \<Longrightarrow> appends P (let y = x in f y)"
  by simp

lemma act_then_apply [simp]: "act_then es m tr = m (tr @ es)"
  by (simp add: act_then_def act_bind_def act_emit_def)

lemma act_finally_apply: "act_finally m es tr = (fst (m tr), snd (m tr) @ es)"
  by (simp add: act_finally_def case_prod_beta)

lemma act_bind_Inr: "m tr = (Inr x, tr') \<Longrightarrow> act_bind m f tr = f x tr'"
  by (simp add: act_bind_def)

lemma act_bind_Inl: "m tr = (Inl e, tr') \<Longrightarrow> act_bind m f tr = (Inl e, tr')"
  by (simp add: act_bind_def)

section \<open>Which phase may do what\<close>

text \<open>The effects of the phases before the stop signals.\<close>

fun quiet_effect :: "main_effect \<Rightarrow> bool" where
  "quiet_effect (Dict_Put k v) = (k = ''grpc_stop'')"
| "quiet_effect (Wrote p c) = (\<not> starts_with ''docs/benchmarks/phase-3'' p \<and> \<not> starts_with ''docs/benchmarks/phase-4.2'' p
     \<and> \<not> starts_with ''docs/benchmarks/phase-5'' p)"
| "quiet_effect (Copied s p) = (\<not> starts_with ''docs/benchmarks/'' p)"
| "quiet_effect _ = True"

lemma quiet_completions: "list_all quiet_effect (concat (map (completions_file env rs) ts))"
proof (induction ts)
  case (Cons t ts)
  then show ?case by (cases t)
    (simp_all add: completions_file_def completions_path_def docs_path_def starts_with_def Let_def)
qed simp

lemma quiet_phases:
  "appends quiet_effect (rest_phase env)" "appends quiet_effect (grpc_up env)"
  "appends quiet_effect (measured_phases env rest_url grpc_addr cold samples)"
  unfolding rest_phase_def grpc_up_def measured_phases_def grpc_direct_phase_def completions_phase_def
    completions_files_def
  by (intro act_rules; simp add: stale_keys_def results_path_def starts_with_def quiet_completions
      completions_comparison_path_def docs_path_def)+

section \<open>Before and after the stop signals\<close>

definition before_stop ::
  "('s, 'c) bench_env \<Rightarrow> (string \<times> real option \<times> string \<times> real option \<times> phase_results) act" where
  "before_stop env =
     act_bind (rest_phase env) (\<lambda>(rest_url, rest_cold).
     act_bind (grpc_up env) (\<lambda>(grpc_addr, grpc_cold).
     act_bind (act_result (be_corpus env)) (\<lambda>samples.
     act_bind (act_finally (measured_phases env rest_url grpc_addr grpc_cold samples) (stop_proxy env)) (\<lambda>pr.
     act_return (rest_url, rest_cold, grpc_addr, grpc_cold, pr)))))"

lemma act_bind_assoc: "act_bind (act_bind m f) g = act_bind m (\<lambda>x. act_bind (f x) g)"
  by (rule ext) (simp add: act_bind_def split: prod.split sum.split)

lemma act_bind_return [simp]: "act_bind (act_return x) f = f x"
  by (rule ext) (simp add: act_bind_def act_return_def)

lemma act_bind_case_prod: "act_bind (case p of (x, y) \<Rightarrow> f x y) g = (case p of (x, y) \<Rightarrow> act_bind (f x y) g)"
  by (cases p) simp

lemma main_split:
  "bench_modal_main env = act_bind (before_stop env) (\<lambda>(rest_url, rest_cold, grpc_addr, grpc_cold, pr).
     act_then stop_signals (final_outputs env rest_url rest_cold grpc_addr grpc_cold pr))"
  by (simp add: bench_modal_main_def before_stop_def act_bind_assoc act_bind_case_prod del: act_then_apply)

lemma before_stop_quiet: "appends quiet_effect (before_stop env)"
  unfolding before_stop_def by (intro act_rules quiet_phases) (simp add: stop_proxy_def)

lemma appends_set: "appends P m \<Longrightarrow> set tr \<subseteq> set (snd (m tr))"
  by (metis Un_upper1 appends_def set_append)

lemma appends_all: "appends P m \<Longrightarrow> list_all P (snd (m []))"
  by (metis append_Nil appends_def)

lemma no_rest_stop: "list_all quiet_effect tr \<Longrightarrow> Dict_Put ''rest_stop'' v \<notin> set tr"
  by (auto simp: list_all_iff dest: bspec)

lemma rest_spawned: "Spawned ''serve_rest_for_bench'' \<in> set (snd (before_stop env []))"
proof -
  have "\<exists>m. appends quiet_effect m
      \<and> rest_phase env = act_then (map Dict_Pop stale_keys @ [Spawned ''serve_rest_for_bench'']) m"
    unfolding rest_phase_def
    by (rule exI, rule conjI[OF _ refl]) (intro act_rules; simp add: results_path_def starts_with_def)
  then obtain m where m: "appends quiet_effect m"
    "rest_phase env = act_then (map Dict_Pop stale_keys @ [Spawned ''serve_rest_for_bench'']) m" by blast
  let ?tr = "map Dict_Pop stale_keys @ [Spawned ''serve_rest_for_bench'']"
  obtain r tr where r: "rest_phase env [] = (r, tr)" by (cases "rest_phase env []")
  then have in_tr: "Spawned ''serve_rest_for_bench'' \<in> set tr" using m appends_set[of quiet_effect m ?tr] by auto
  show ?thesis
  proof (cases r)
    case (Inl e)
    then show ?thesis using in_tr r by (simp add: before_stop_def act_bind_def)
  next
    case (Inr x)
    have "appends quiet_effect (case x of (rest_url, rest_cold) \<Rightarrow>
       act_bind (grpc_up env) (\<lambda>(grpc_addr, grpc_cold).
       act_bind (act_result (be_corpus env)) (\<lambda>samples.
       act_bind (act_finally (measured_phases env rest_url grpc_addr grpc_cold samples) (stop_proxy env)) (\<lambda>pr.
       act_return (rest_url, rest_cold, grpc_addr, grpc_cold, pr)))))"
      by (intro act_rules quiet_phases) (simp add: stop_proxy_def)
    then show ?thesis using in_tr r Inr appends_set by (fastforce simp: before_stop_def act_bind_def)
  qed
qed

text \<open>A run that fails before it has written its reports leaves its REST deployment up: whatever the
  exception, other than one of reading the saved runs back, the REST function has been spawned and its
  stop key is never put. Only the gRPC deployment may have been told to stop.\<close>
theorem failed_run_leaves_rest_up:
  assumes "fst (bench_modal_main env []) = Inl e" and "\<And>p. be_saved_run env p \<noteq> Inl e"
  shows "Spawned ''serve_rest_for_bench'' \<in> set (snd (bench_modal_main env []))
    \<and> Dict_Put ''rest_stop'' v \<notin> set (snd (bench_modal_main env []))"
proof -
  obtain r tr where b: "before_stop env [] = (r, tr)" by (cases "before_stop env []")
  show ?thesis
  proof (cases r)
    case (Inl e')
    then have "bench_modal_main env [] = (Inl e', tr)" using b by (simp add: main_split act_bind_def)
    then show ?thesis
      using b rest_spawned[of env] no_rest_stop[OF appends_all[OF before_stop_quiet[of env]]] by simp
  next
    case (Inr x)
    obtain ru rc ga gc pr where x: "x = (ru, rc, ga, gc, pr)" by (cases x)
    have "bench_modal_main env [] = final_outputs env ru rc ga gc pr (tr @ stop_signals)"
      using b Inr x by (simp add: main_split act_bind_def)
    then have False using assms
      by (auto simp: final_outputs_def act_bind_def act_result_def split: sum.split_asm prod.split_asm)
    then show ?thesis ..
  qed
qed

text \<open>C25. The run of the repository never succeeds: the completions phase imports a name that
  \<open>reporter.py\<close> does not have. With the names of that module every run fails, without a stop signal to
  its REST deployment and without a report of the phases 3, 4.2 and 5.\<close>
theorem repository_run_fails:
  assumes "be_reporter_names env = REPORTER_NAMES"
  shows "\<exists>e. fst (bench_modal_main env []) = Inl e \<and> list_all quiet_effect (snd (bench_modal_main env []))"
proof -
  have missing: "import_name REPORTER_NAMES ''write_wire_size_comparison_md''
      = Inl (Exn ''ImportError'' (''cannot import name '' @ [CHR 0x27] @ ''write_wire_size_comparison_md'' @ [CHR 0x27]))"
    by code_simp
  have compl: "isl (fst (completions_phase env ru ga tr))" for ru ga tr
    by (simp add: completions_phase_def assms missing act_bind_def act_result_def)
  have meas: "isl (fst (measured_phases env ru ga gc ss tr))" for ru ga gc ss tr
    using compl by (auto simp: measured_phases_def act_bind_def split: sum.split prod.split) (metis fst_conv sum.disc(2))
  have "isl (fst (before_stop env []))"
    using meas by (auto simp: before_stop_def act_bind_def act_finally_apply split: sum.split prod.split)
      (metis fst_conv sum.disc(2))
  then obtain e where "fst (before_stop env []) = Inl e" by (auto simp: isl_def)
  then have "bench_modal_main env [] = (Inl e, snd (before_stop env []))"
    by (cases "before_stop env []") (simp add: main_split act_bind_def)
  then show ?thesis using appends_all[OF before_stop_quiet[of env]] by simp
qed

section \<open>Regenerated reports\<close>

lemma path_eq [simp]: "docs_path f = docs_path g \<longleftrightarrow> f = g" "results_path f = results_path g \<longleftrightarrow> f = g"
  by (simp_all add: docs_path_def results_path_def)

lemma docs_not_results [simp]: "docs_path f \<noteq> results_path g" "results_path g \<noteq> docs_path f"
  by (simp_all add: docs_path_def results_path_def)

text \<open>A loaded run compares like the one that was written, when its metadata has no empty text.\<close>

definition plain_meta :: "benchmark_run \<Rightarrow> bool" where
  "plain_meta b \<longleftrightarrow> bm_modal_function_id (br_meta b) \<noteq> Some [] \<and> bm_gpu_type (br_meta b) \<noteq> Some []"

lemma as_loaded_meta [simp]: "plain_meta b \<Longrightarrow> br_meta (as_loaded b) = br_meta b"
  by (simp add: as_loaded_def plain_meta_def)

lemma target_index_as_loaded:
  "target_index t (br_summaries (as_loaded b))
     = map (\<lambda>(c, s). (c, s\<lparr>su_request_type := Chat\<rparr>)) (target_index t (br_summaries b))"
  by (simp add: target_index_def as_loaded_def filter_map comp_def rev_map)

lemma field_as_loaded:
  assumes "(fl, nm) \<in> set CROSS_METRIC_FIELDS"
  shows "field_at fl (map (\<lambda>(c, s). (c, s\<lparr>su_request_type := Chat\<rparr>)) ix) conc = field_at fl ix conc"
proof -
  have "fl (s\<lparr>su_request_type := Chat\<rparr>) = fl s" for s
    using assms by (auto simp: CROSS_METRIC_FIELDS_def)
  then show ?thesis by (simp add: field_at_def map_of_map split: option.split)
qed

lemma keys_as_loaded [simp]: "map fst (map (\<lambda>(c, s). (c, s\<lparr>su_request_type := Chat\<rparr>)) ix) = map fst ix"
  by (induction ix) auto

lemma compare_cross_as_loaded:
  assumes "plain_meta a" "plain_meta b"
  shows "compare_cross (as_loaded a) (as_loaded b) la lb = compare_cross a b la lb"
proof -
  have "map (cross_row (target_index Native (br_summaries (as_loaded a))) (target_index Proxy (br_summaries (as_loaded b))) conc)
          CROSS_METRIC_FIELDS
      = map (cross_row (target_index Native (br_summaries a)) (target_index Proxy (br_summaries b)) conc) CROSS_METRIC_FIELDS" for conc
    by (rule map_cong[OF refl]) (auto simp: cross_row_def Let_def target_index_as_loaded field_as_loaded)
  then show ?thesis using assms
    by (simp only: compare_cross_def Let_def as_loaded_meta target_index_as_loaded keys_as_loaded)
qed

lemma compare_three_way_as_loaded:
  assumes "plain_meta a" "plain_meta b" "plain_meta c"
  shows "compare_three_way (as_loaded a) (as_loaded b) (as_loaded c) la lb lc = compare_three_way a b c la lb lc"
proof -
  have "map (three_way_row_of (target_index Native (br_summaries (as_loaded a)))
            (target_index Proxy (br_summaries (as_loaded b))) (target_index Grpc_Direct (br_summaries (as_loaded c))) conc)
          CROSS_METRIC_FIELDS
      = map (three_way_row_of (target_index Native (br_summaries a)) (target_index Proxy (br_summaries b))
            (target_index Grpc_Direct (br_summaries c)) conc) CROSS_METRIC_FIELDS" for conc
    by (rule map_cong[OF refl]) (auto simp: three_way_row_of_def Let_def target_index_as_loaded field_as_loaded)
  then show ?thesis using assms
    by (simp only: compare_three_way_def Let_def as_loaded_meta target_index_as_loaded keys_as_loaded)
qed

text \<open>The reports can be regenerated from the files of a run: \<open>regen_bench_reports\<close>, reading back the
  JSON baselines the run has written, succeeds and writes the two-way, the three-way and the streaming
  comparison exactly as the run did.\<close>
theorem regenerated_comparisons_agree:
  assumes load: "\<And>p r. Wrote p (File_Run r) \<in> set (output_effects env ru ga rest_run grpc_run pr) \<Longrightarrow>
      load p = load_run other (run_json r)"
    and plain: "plain_meta rest_run" "plain_meta grpc_run" "plain_meta (pr_direct pr)"
  shows "\<exists>tr. regen_main (\<lambda>p. True) load default_regen_args [] = (Inr (), tr)
    \<and> (\<forall>p rep. Wrote p (File_Cross rep) \<in> set tr \<longleftrightarrow> Wrote p (File_Cross rep) \<in> set (output_effects env ru ga rest_run grpc_run pr))
    \<and> (\<forall>p rep. Wrote p (File_Three_Way rep) \<in> set tr
          \<longleftrightarrow> Wrote p (File_Three_Way rep) \<in> set (output_effects env ru ga rest_run grpc_run pr))"
proof -
  let ?sr = "stream_run env (pr_stream_rest pr) ru" and ?sp = "stream_run env (pr_stream_proxy pr) proxy_url"
    and ?sd = "stream_run env (pr_stream_direct pr) ga"
  have files: "load (docs_path ''phase-4.2-rest-baseline.json'') = Inr (as_loaded rest_run)"
    "load (docs_path ''phase-4.2-grpc-proxy-baseline.json'') = Inr (as_loaded grpc_run)"
    "load (docs_path ''phase-4.2-grpc-direct-baseline.json'') = Inr (as_loaded (pr_direct pr))"
    "load (docs_path ''phase-5-rest-streaming.json'') = Inr (as_loaded ?sr)"
    "load (docs_path ''phase-5-grpc-proxy-streaming.json'') = Inr (as_loaded ?sp)"
    "load (docs_path ''phase-5-grpc-direct-streaming.json'') = Inr (as_loaded ?sd)"
    by (simp_all add: output_effects_def Let_def load_run_of_json load[of _ rest_run] load[of _ grpc_run]
        load[of _ "pr_direct pr"] load[of _ ?sr] load[of _ ?sp] load[of _ ?sd])
  have stream: "plain_meta ?sr" "plain_meta ?sp" "plain_meta ?sd"
    by (simp_all add: plain_meta_def stream_run_def run_of_results_def modal_meta_def)
  show ?thesis
    by (simp add: regen_main_def regen_phase5_def default_regen_args_def files act_bind_def act_result_def act_emit_def
        compare_cross_as_loaded compare_three_way_as_loaded plain stream output_effects_def Let_def)
qed

section \<open>Runs\<close>

text \<open>An environment in which everything answers, with the names of a reporter module.\<close>

definition demo_env :: "string list \<Rightarrow> (unit, unit) bench_env" where
  "demo_env names =
     \<lparr>be_rest_addr = Some ''r:1'', be_rest_cold = Some (DV_Num 30),
      be_rest_harness = \<lparr>ha_returncode = 0, ha_results_exist = True\<rparr>,
      be_grpc_addr = Some ''g:1'', be_grpc_cold = None, be_proxy_probes = [Probe_Status 200],
      be_corpus = Inr [], be_git_head = Inr ''abc'',
      be_grpc_harness = \<lparr>ha_returncode = 0, ha_results_exist = True\<rparr>,
      be_run_chat = (\<lambda>r url samples conc. Inr []), be_reporter_names = names,
      be_completions_corpus = (\<lambda>kind. Inl (Exn ''FileNotFoundError'' kind)),
      be_run_completions = (\<lambda>r url samples conc. Inr []), be_hostname = ''h'', be_direct_ts = ''t1'',
      be_completions_ts = ''t2'', be_stream_ts = ''t3'', be_proxy_slow = False,
      be_saved_run = (\<lambda>p. Inr (demo_run 1)), be_file_exists = (\<lambda>p. False)\<rparr>"

lemmas main_defs = bench_modal_main_def rest_phase_def grpc_up_def measured_phases_def grpc_direct_phase_def
  completions_phase_def completions_files_def completions_results_def completions_part_def streaming_phase_def
  final_outputs_def act_bind_def act_result_def act_return_def act_finally_def addr_or_exit_def run_harness_def
  import_name_def all_runs_def CONCURRENCY_LEVELS_def PROXY_READY_POLLS_def probe_ok_def Let_def

theorem repository_run_fails_witness:
  "\<exists>e. fst (bench_modal_main (demo_env REPORTER_NAMES) []) = Inl e"
  using repository_run_fails[of "demo_env REPORTER_NAMES"] by (auto simp: demo_env_def)

text \<open>A harness that fails on the gRPC side.\<close>

theorem failed_run_leaves_rest_up_witness:
  "Dict_Put ''rest_stop'' (DV_Bool True) \<notin>
     set (snd (bench_modal_main ((demo_env [])\<lparr>be_grpc_harness := \<lparr>ha_returncode = 2, ha_results_exist = False\<rparr>\<rparr>) []))"
proof -
  let ?env = "(demo_env [])\<lparr>be_grpc_harness := \<lparr>ha_returncode = 2, ha_results_exist = False\<rparr>\<rparr>"
  have "fst (bench_modal_main ?env []) = Inl (system_exit 1)"
    by (simp add: main_defs demo_env_def)
  moreover have "be_saved_run ?env p \<noteq> Inl (system_exit 1)" for p by (simp add: demo_env_def)
  ultimately show ?thesis using failed_run_leaves_rest_up by blast
qed

theorem regenerated_comparisons_agree_witness:
  "\<exists>load tr. regen_main (\<lambda>p. True) load default_regen_args [] = (Inr (), tr)
     \<and> (\<exists>p rep. Wrote p (File_Cross rep) \<in> set tr)"
proof -
  define pr where "pr = \<lparr>pr_direct = demo_run 3, pr_stream_rest = [], pr_stream_proxy = [], pr_stream_direct = [],
    pr_comparison = None\<rparr>"
  define es where "es = output_effects (demo_env []) ''r'' ''g'' (demo_run 1) (demo_run 2) pr"
  define load where "load = (\<lambda>p. case map_of (List.map_filter
      (\<lambda>e. case e of Wrote q (File_Run r) \<Rightarrow> Some (q, load_run (\<lambda>v. []) (run_json r)) | _ \<Rightarrow> None) es) p of
        Some r \<Rightarrow> r | None \<Rightarrow> Inl (Exn ''FileNotFoundError'' p))"
  have "load p = load_run (\<lambda>v. []) (run_json r)" if "Wrote p (File_Run r) \<in> set es" for p r
    using that by (auto simp: load_def es_def output_effects_def Let_def)
  then obtain tr where "regen_main (\<lambda>p. True) load default_regen_args [] = (Inr (), tr)"
    and "\<forall>p rep. Wrote p (File_Cross rep) \<in> set tr \<longleftrightarrow> Wrote p (File_Cross rep) \<in> set es"
    using regenerated_comparisons_agree[of "demo_env []" "''r''" "''g''" "demo_run 1" "demo_run 2" pr load "\<lambda>v. []"]
    unfolding es_def by (auto simp: plain_meta_def demo_run_def pr_def)
  then have "regen_main (\<lambda>p. True) load default_regen_args [] = (Inr (), tr) \<and> (\<exists>p rep. Wrote p (File_Cross rep) \<in> set tr)"
    by (simp add: es_def output_effects_def Let_def)
  then show ?thesis by blast
qed

end
