(* ===== verification/Smoke_Tests.thy ===== *)
theory Smoke_Tests
  imports Proxy_Router Modal_Serve
begin

text \<open>
  The smoke tests: \<open>scripts/python/modal_frontend_smoke.py\<close> (frontend and proxy in one container),
  \<open>modal_vllm_rest.py\<close> (the REST server alone), and the two checks that a server accepts prompt
  embeddings, \<open>verify_prompt_embeds.py\<close> and \<open>verify_prompt_embeds_modal.py\<close>. The subprocesses, their
  probes, the clock and the HTTP answer are readings; a started process that has neither exited nor been
  killed is in the list of those left running.
\<close>

section \<open>Startup\<close>

text \<open>
  What one iteration of a polling loop reads: the output of the process if it has exited, and the probe.
  A loop reads iteration \<open>i\<close> from a function, and ends ready, on an exited process, on an exception the
  probe does not catch, or without an answer.
\<close>

type_synonym poll_readings = "nat \<Rightarrow> string option \<times> probe_answer"

datatype startup_outcome = Became_Ready | Process_Exited string | Gave_Up | Probe_Failed py_exn

fun poll_startup ::
  "(probe_answer \<Rightarrow> bool py_result) \<Rightarrow> poll_readings \<Rightarrow> nat \<Rightarrow> nat \<Rightarrow> startup_outcome" where
  "poll_startup probe reads i 0 = Gave_Up"
| "poll_startup probe reads i (Suc n) = (case reads i of
     (Some out, a) \<Rightarrow> Process_Exited out
   | (None, a) \<Rightarrow> (case probe a of
       Inl exc \<Rightarrow> Probe_Failed exc
     | Inr healthy \<Rightarrow> if healthy then Became_Ready else poll_startup probe reads (Suc i) n))"

definition SMOKE_STARTUP_POLLS :: nat where "SMOKE_STARTUP_POLLS = 120"
definition PROXY_STARTUP_POLLS :: nat where "PROXY_STARTUP_POLLS = 30"
definition SMOKE_POLL_INTERVAL_S :: int where "SMOKE_POLL_INTERVAL_S = 5"
definition PROXY_POLL_INTERVAL_S :: int where "PROXY_POLL_INTERVAL_S = 1"

section \<open>The answer and the result\<close>

record http_response =
  hr_status :: int
  hr_text :: string
  hr_json :: "json py_result"

record smoke_result =
  sm_ok :: bool
  sm_error :: "string option"
  sm_cold_start_s :: real
  sm_request_latency_s :: real
  sm_completion_text :: "string option"
  sm_model :: string
  sm_seed :: int
  sm_max_tokens :: int

definition MODEL_PATH :: string where "MODEL_PATH = ''/mnt/weights''"

definition smoke_failure :: "string \<Rightarrow> real \<Rightarrow> real \<Rightarrow> smoke_result" where
  "smoke_failure msg cold latency =
     \<lparr>sm_ok = False, sm_error = Some msg, sm_cold_start_s = cold, sm_request_latency_s = latency,
      sm_completion_text = None, sm_model = MODEL_PATH, sm_seed = 42, sm_max_tokens = 20\<rparr>"

text \<open>The content of the first choice's message, where every level has the type the script asks for.\<close>

definition obj_get :: "json \<Rightarrow> string \<Rightarrow> json option" where
  "obj_get v k = (case v of JObj d \<Rightarrow> Some (json_get d k) | _ \<Rightarrow> None)"

definition completion_text_of :: "json_dict \<Rightarrow> string option" where
  "completion_text_of data = (case json_get data ''choices'' of
     JList (first # rest) \<Rightarrow>
       (case Option.bind (obj_get first ''message'') (\<lambda>msg. obj_get msg ''content'') of
          Some (JStr content) \<Rightarrow> if content \<noteq> [] then Some content else None
        | _ \<Rightarrow> None)
   | _ \<Rightarrow> None)"

text \<open>
  Step 6 of the container: the status, then the shape of the answer. An answer whose JSON is no object
  has no \<open>get\<close>. The text of \<open>str(data)\<close> is the argument \<open>show\<close>.
\<close>

definition judge_response ::
  "(json \<Rightarrow> string) \<Rightarrow> real \<Rightarrow> real \<Rightarrow> http_response \<Rightarrow> smoke_result py_result" where
  "judge_response show cold latency resp =
     (if hr_status resp \<noteq> 200
      then Inr (smoke_failure (''HTTP '' @ str_int (hr_status resp) @ '': '' @ take 500 (hr_text resp)) cold latency)
      else bind_result (hr_json resp) (\<lambda>data.
        case data of
          JObj d \<Rightarrow>
            (case completion_text_of d of
               None \<Rightarrow> Inr (smoke_failure (''Unexpected response shape: '' @ take 200 (show data)) cold latency)
             | Some text_value \<Rightarrow>
                 Inr \<lparr>sm_ok = True, sm_error = None, sm_cold_start_s = cold, sm_request_latency_s = latency,
                      sm_completion_text = Some text_value, sm_model = MODEL_PATH, sm_seed = 42, sm_max_tokens = 20\<rparr>)
        | _ \<Rightarrow> Inl (Exn ''AttributeError'' ''no attribute get'')))"

section \<open>The containers\<close>

record smoke_env =
  se_frontend :: poll_readings
  se_proxy :: poll_readings
  se_exit_s :: real
  se_cold_s :: real
  se_latency_s :: real
  se_post :: "http_response py_result"
  se_show :: "json \<Rightarrow> string"
  se_exn_text :: "py_exn \<Rightarrow> string"

text \<open>The messages of the request; the frontend's test asks for the model by name, with seed 42.\<close>

definition SMOKE_MESSAGES :: "openai_chat_message list" where
  "SMOKE_MESSAGES =
     [\<lparr>om_role = ''system'', om_content = ''You are a helpful assistant.''\<rparr>,
      \<lparr>om_role = ''user'', om_content = ''What is 2 + 2?''\<rparr>]"

definition smoke_openai :: openai_chat_request where
  "smoke_openai = \<lparr>oc_model = ''Qwen/Qwen3-0.6B'', oc_messages = SMOKE_MESSAGES, oc_max_tokens = 20,
     oc_temperature = None, oc_top_p = None, oc_seed = Some 42, oc_stream = False\<rparr>"

text \<open>What \<open>httpx\<close> makes of a reply: the body is the text \<open>dumps\<close> writes, \<open>json\<close> decodes it again.\<close>

definition received :: "(json \<Rightarrow> string) \<Rightarrow> (string \<Rightarrow> json py_result) \<Rightarrow> http_reply \<Rightarrow> http_response" where
  "received dumps loads reply = (case reply of
     Json_Reply status body hs \<Rightarrow> \<lparr>hr_status = status, hr_text = dumps body, hr_json = loads (dumps body)\<rparr>
   | Stream_Reply hs (events, err) \<Rightarrow>
       \<lparr>hr_status = 200, hr_text = concat events, hr_json = loads (concat events)\<rparr>)"

text \<open>The request and what follows it, once the server is up.\<close>

definition smoke_request :: "smoke_env \<Rightarrow> smoke_result py_result" where
  "smoke_request env = (case se_post env of
     Inl exc \<Rightarrow> Inr (smoke_failure (''Request failed: '' @ se_exn_text env exc) (se_cold_s env) (se_latency_s env))
   | Inr resp \<Rightarrow> judge_response (se_show env) (se_cold_s env) (se_latency_s env) resp)"

text \<open>
  \<open>modal_frontend_smoke.smoke_test\<close>. Its two health checks differ: a gRPC error counts as not yet
  healthy and any other exception leaves the function; the proxy's check catches every exception.
\<close>

definition frontend_smoke_test :: "smoke_env \<Rightarrow> smoke_result py_result \<times> string list" where
  "frontend_smoke_test env =
     (case poll_startup grpc_probe (se_frontend env) 0 SMOKE_STARTUP_POLLS of
        Process_Exited out \<Rightarrow>
          (Inr (smoke_failure (''gRPC frontend process exited unexpectedly during startup.'' @ [LF] @ last_2000 out)
                 (se_exit_s env) 0), [])
      | Probe_Failed exc \<Rightarrow> (Inl exc, [''frontend''])
      | Gave_Up \<Rightarrow>
          (Inr (smoke_failure (''gRPC server did not become healthy within ''
                 @ str_int (int SMOKE_STARTUP_POLLS * SMOKE_POLL_INTERVAL_S) @ ''s'') (se_cold_s env) 0), [])
      | Became_Ready \<Rightarrow>
          (case poll_startup rest_probe (se_proxy env) 0 PROXY_STARTUP_POLLS of
             Process_Exited out \<Rightarrow>
               (Inr (smoke_failure ''Proxy process exited unexpectedly during startup'' (se_cold_s env) 0), [])
           | Probe_Failed exc \<Rightarrow> (Inl exc, [''frontend'', ''proxy''])
           | Gave_Up \<Rightarrow>
               (Inr (smoke_failure (''Proxy did not become healthy within ''
                      @ str_int (int PROXY_STARTUP_POLLS * PROXY_POLL_INTERVAL_S) @ ''s'') (se_cold_s env) 0), [])
           | Became_Ready \<Rightarrow> (smoke_request env, [])))"

definition rest_smoke_test :: "smoke_env \<Rightarrow> smoke_result py_result \<times> string list" where
  "rest_smoke_test env =
     (case poll_startup rest_probe (se_frontend env) 0 SMOKE_STARTUP_POLLS of
        Process_Exited out \<Rightarrow>
          (Inr (smoke_failure ''vLLM REST server process exited unexpectedly during startup'' (se_exit_s env) 0), [])
      | Probe_Failed exc \<Rightarrow> (Inl exc, [''server''])
      | Gave_Up \<Rightarrow>
          (Inr (smoke_failure (''vLLM REST server did not become healthy within ''
                 @ str_int (int SMOKE_STARTUP_POLLS * SMOKE_POLL_INTERVAL_S) @ ''s'') (se_cold_s env) 0), [])
      | Became_Ready \<Rightarrow> (smoke_request env, []))"

text \<open>The local entry points: exit code 1 unless the result is ok.\<close>

definition smoke_main :: "smoke_result py_result \<Rightarrow> int py_result" where
  "smoke_main r = bind_result r (\<lambda>sm. Inr (if sm_ok sm then 0 else 1))"

section \<open>Prompt embeddings\<close>

definition ZERO_HIDDEN_SIZE :: int where "ZERO_HIDDEN_SIZE = 1024"

text \<open>\<open>torch.save\<close> of the zero tensor of a shape is the argument \<open>save_zeros\<close>.\<close>

definition build_prompt_embeds :: "(int \<Rightarrow> int \<Rightarrow> string) \<Rightarrow> int \<Rightarrow> string" where
  "build_prompt_embeds save_zeros seq_len = b64encode (save_zeros seq_len ZERO_HIDDEN_SIZE)"

definition embeds_payload :: "(int \<Rightarrow> int \<Rightarrow> string) \<Rightarrow> string \<Rightarrow> int \<Rightarrow> int \<Rightarrow> json" where
  "embeds_payload save_zeros model seq_len max_tokens =
     JObj [(''model'', JStr model), (''prompt_embeds'', JStr (build_prompt_embeds save_zeros seq_len)),
           (''max_tokens'', JInt max_tokens)]"

definition run_verification :: "(json \<Rightarrow> http_response py_result) \<Rightarrow> json \<Rightarrow> int py_result" where
  "run_verification post payload = (case post payload of
     Inl exc \<Rightarrow> if isinstance exc ''ConnectError'' \<or> isinstance exc ''TimeoutException'' then Inr 1 else Inl exc
   | Inr resp \<Rightarrow>
       if hr_status resp \<noteq> 200 then Inr 1
       else bind_result (hr_json resp) (\<lambda>data. case data of
              JObj d \<Rightarrow> Inr (if json_truthy (json_get d ''choices'') then 0 else 1)
            | _ \<Rightarrow> Inl (Exn ''AttributeError'' ''no attribute get'')))"

text \<open>The parsed arguments of the local check, with their defaults, and its exit code.\<close>

record verify_args =
  va_base_url :: string
  va_model :: string
  va_seq_len :: int
  va_max_tokens :: int

definition verify_defaults :: verify_args where
  "verify_defaults = \<lparr>va_base_url = ''http://localhost:8000'', va_model = ''Qwen/Qwen3-0.6B'', va_seq_len = 8,
     va_max_tokens = 50\<rparr>"

definition verify_main ::
  "(string \<Rightarrow> json \<Rightarrow> http_response py_result) \<Rightarrow> (int \<Rightarrow> int \<Rightarrow> string) \<Rightarrow> verify_args \<Rightarrow> int py_result" where
  "verify_main post save_zeros args =
     run_verification (post (va_base_url args @ ''/v1/completions''))
       (embeds_payload save_zeros (va_model args) (va_seq_len args) (va_max_tokens args))"

record gpu_check =
  gc_ok :: bool
  gc_error :: string
  gc_tokens_generated :: json

text \<open>
  \<open>_verify_on_gpu\<close>: the polls only probe; whether the server process still runs is not asked. The flag
  says whether the server was killed.
\<close>

definition VERIFY_MAX_POLLS :: nat where "VERIFY_MAX_POLLS = 120"

definition verify_on_gpu ::
  "(nat \<Rightarrow> probe_answer) \<Rightarrow> (py_exn \<Rightarrow> string) \<Rightarrow> (json \<Rightarrow> http_response py_result) \<Rightarrow> json
     \<Rightarrow> gpu_check py_result \<times> bool" where
  "verify_on_gpu probes exn_text post payload =
     (if poll_startup rest_probe (\<lambda>i. (None, probes i)) 0 VERIFY_MAX_POLLS \<noteq> Became_Ready
      then (Inr \<lparr>gc_ok = False, gc_error = ''vLLM server did not become healthy within 600s'',
                 gc_tokens_generated = JNull\<rparr>, True)
      else (case post payload of
        Inl exc \<Rightarrow> (Inr \<lparr>gc_ok = False, gc_error = exn_text exc, gc_tokens_generated = JNull\<rparr>, True)
      | Inr resp \<Rightarrow>
          (if hr_status resp \<noteq> 200
           then Inr \<lparr>gc_ok = False, gc_error = ''HTTP '' @ str_int (hr_status resp) @ '': '' @ take 500 (hr_text resp),
                     gc_tokens_generated = JNull\<rparr>
           else bind_result (hr_json resp) (\<lambda>data. case data of
                  JObj d \<Rightarrow> Inr \<lparr>gc_ok = True, gc_error = [], gc_tokens_generated =
                    (case json_get d ''usage'' of
                       JObj u \<Rightarrow> (case map_of u ''completion_tokens'' of None \<Rightarrow> JStr ''?'' | Some n \<Rightarrow> n)
                     | _ \<Rightarrow> JStr ''?'')\<rparr>
                | _ \<Rightarrow> Inl (Exn ''AttributeError'' ''no attribute get'')), True)))"

text \<open>The entry point of the container check exits with 0 or 1 by the result.\<close>

definition verify_gpu_main :: "gpu_check py_result \<Rightarrow> int py_result" where
  "verify_gpu_main r = bind_result r (\<lambda>gc. Inr (if gc_ok gc then 0 else 1))"

end
