(* ===== verification/Smoke_Laws.thy ===== *)
theory Smoke_Laws
  imports Gateway Smoke_Tests
begin

text \<open>
  What the smoke tests show: no process is left behind, what a passing test says of the gateway it ran
  against, and how the two checks of prompt embeddings differ.
\<close>

section \<open>Startup\<close>

lemma rest_probe_total: "\<exists>healthy. rest_probe a = Inr healthy"
  by (cases a) (auto simp: rest_probe_def)

lemma rest_never_raises [simp]: "poll_startup rest_probe reads i n \<noteq> Probe_Failed exc"
proof (induction n arbitrary: i)
  case (Suc n)
  obtain ex a where r: "reads i = (ex, a)" by (cases "reads i")
  obtain healthy where "rest_probe a = Inr healthy" using rest_probe_total by blast
  with Suc r show ?case by (cases ex) simp_all
qed simp

lemma grpc_raises:
  "poll_startup grpc_probe reads i n = Probe_Failed exc \<Longrightarrow> \<not> isinstance exc ''RpcError''"
proof (induction n arbitrary: i)
  case (Suc n)
  obtain ex a where r: "reads i = (ex, a)" by (cases "reads i")
  from Suc r show ?case
    by (cases ex; cases a) (auto simp: grpc_probe_def split: if_split_asm)
qed simp

section \<open>The frontend's smoke test\<close>

definition smoke_ready :: "smoke_env \<Rightarrow> bool" where
  "smoke_ready env \<longleftrightarrow> poll_startup grpc_probe (se_frontend env) 0 SMOKE_STARTUP_POLLS = Became_Ready
     \<and> poll_startup rest_probe (se_proxy env) 0 PROXY_STARTUP_POLLS = Became_Ready"

definition smoke_proto :: chat_complete_request where
  "smoke_proto = \<lparr>cq_messages = map (\<lambda>m. \<lparr>cm_role = om_role m, cm_content = om_content m\<rparr>) SMOKE_MESSAGES,
     cq_model = ''Qwen/Qwen3-0.6B'', cq_max_tokens = 20, cq_temperature = None, cq_top_p = None,
     cq_seed = Some 42, cq_ignore_eos = False\<rparr>"

lemma smoke_openai_proto: "chat_request_to_proto f32 smoke_openai = Inr smoke_proto"
  by (simp add: smoke_openai_def smoke_proto_def chat_request_to_proto_def chat_request_pb_def
      fields_in_range_def int32_ok_def int64_ok_def)

lemma smoke_openai_unary [simp]: "oc_stream smoke_openai = False"
  by (simp add: smoke_openai_def)

lemma smoke_openai_model [simp]: "oc_model smoke_openai = ''Qwen/Qwen3-0.6B''"
  by (simp add: smoke_openai_def)

lemma completion_text_of_reply:
  "proto_response_to_openai_dict uuid now resp model = JObj d \<Longrightarrow>
     completion_text_of d = (let c = cm_content (cp_message resp) in if c \<noteq> [] then Some c else None)"
  by (auto simp: proto_response_to_openai_dict_def completion_text_of_def json_get_def obj_get_def Let_def)

lemma smoke_request_ok_reply:
  assumes "se_post env = Inr (received dumps loads (Json_Reply 200 (proto_response_to_openai_dict u t resp m) hs))"
    and "loads (dumps (proto_response_to_openai_dict u t resp m)) = Inr (proto_response_to_openai_dict u t resp m)"
  shows "\<exists>sm. smoke_request env = Inr sm \<and> (sm_ok sm \<longleftrightarrow> cm_content (cp_message resp) \<noteq> [])
     \<and> (sm_ok sm \<longrightarrow> sm_completion_text sm = Some (cm_content (cp_message resp)))"
proof -
  obtain d where d: "proto_response_to_openai_dict u t resp m = JObj d"
    by (simp add: proto_response_to_openai_dict_def)
  show ?thesis using assms completion_text_of_reply[OF d]
    by (simp add: smoke_request_def received_def judge_response_def d smoke_failure_def Let_def)
qed

lemma smoke_request_error_reply:
  assumes "se_post env = Inr (received dumps loads (Json_Reply status body hs))" and "status \<noteq> 200"
  shows "\<exists>sm. smoke_request env = Inr sm \<and> \<not> sm_ok sm
     \<and> sm_error sm = Some (''HTTP '' @ str_int status @ '': '' @ take 500 (dumps body))"
  using assms by (simp add: smoke_request_def received_def judge_response_def smoke_failure_def)

lemma chat_rpc_error_status:
  "\<exists>status body. chat_rpc_error_reply exc = Json_Reply status body [] \<and> status \<noteq> 200"
  by (simp add: chat_rpc_error_reply_def Let_def)

text \<open>
  C28. A smoke test that passes has run the whole gateway. When both servers come up and the
  frontend's answer or failure reaches the proxy by gRPC, the container's test is ok exactly when the
  servicer answered the smoke messages with a nonempty text, and reports that text; no server is left
  running.
\<close>

theorem smoke_test_over_gateway:
  assumes "smoke_ready env"
    and "unary smoke_proto = map_sum rpc id (snd (chat_complete fenv er finished smoke_proto))"
    and "\<And>exc. isinstance (rpc exc) ''AioRpcError''"
    and "chat_completions px ts unary call smoke_openai = Inr reply"
    and "se_post env = Inr (received dumps loads reply)"
    and "\<And>status body hs. reply = Json_Reply status body hs \<Longrightarrow> loads (dumps body) = Inr body"
  shows "\<exists>sm. frontend_smoke_test env = (Inr sm, [])
     \<and> (sm_ok sm \<longleftrightarrow> (\<exists>resp. snd (chat_complete fenv er finished smoke_proto) = Inr resp
                          \<and> cm_content (cp_message resp) \<noteq> []))
     \<and> (\<forall>resp. snd (chat_complete fenv er finished smoke_proto) = Inr resp \<longrightarrow> sm_ok sm
          \<longrightarrow> sm_completion_text sm = Some (cm_content (cp_message resp)))"
proof -
  have run: "frontend_smoke_test env = (smoke_request env, [])"
    using assms(1) by (simp add: frontend_smoke_test_def smoke_ready_def)
  show ?thesis
  proof (cases "snd (chat_complete fenv er finished smoke_proto)")
    case (Inl exc)
    then have "reply = chat_rpc_error_reply (rpc exc)"
      using assms(2-4) by (cases ts) (simp add: chat_completions_def smoke_openai_proto)
    with chat_rpc_error_status obtain status body where "reply = Json_Reply status body []" "status \<noteq> 200"
      by metis
    with smoke_request_error_reply assms(5) run Inl show ?thesis by fastforce
  next
    case (Inr resp)
    then obtain u t m hs where reply: "reply = Json_Reply 200 (proto_response_to_openai_dict u t resp m) hs"
      using assms(2,4) by (cases ts) (auto simp: chat_completions_def smoke_openai_proto)
    from smoke_request_ok_reply[OF assms(5)[unfolded reply] assms(6)[OF reply]] run Inr
    show ?thesis by auto
  qed
qed

definition demo_smoke_reply :: json where
  "demo_smoke_reply = proto_response_to_openai_dict ''u'' 17
     \<lparr>cp_message = \<lparr>cm_role = ''assistant'', cm_content = ''Hello''\<rparr>, cp_finish_reason = ''stop'',
      cp_prompt_tokens = 2, cp_completion_tokens = 2\<rparr> ''Qwen/Qwen3-0.6B''"

definition demo_smoke :: smoke_env where
  "demo_smoke = \<lparr>se_frontend = (\<lambda>i. (None, if i = 0 then Probe_Raised (Exn ''RpcError'' []) else Probe_Pong)),
     se_proxy = (\<lambda>i. (None, Probe_Status 200)), se_exit_s = 0, se_cold_s = 12, se_latency_s = 1,
     se_post = Inr (received (\<lambda>v. []) (\<lambda>s. Inr demo_smoke_reply)
       (Json_Reply 200 demo_smoke_reply [(''X-Bench-Proxy-Ms'', fmt_fixed 3 2000)])),
     se_show = (\<lambda>v. []), se_exn_text = exn_name\<rparr>"

theorem smoke_test_over_gateway_witness:
  "\<exists>sm. frontend_smoke_test demo_smoke = (Inr sm, []) \<and> sm_ok sm \<and> sm_completion_text sm = Some ''Hello''"
proof -
  let ?run = "snd (chat_complete (demo_env demo_outs Engine_Exhausted) demo_entry 12 smoke_proto)"
  let ?unary = "\<lambda>q. map_sum (\<lambda>e. aio_rpc_error ''UNKNOWN'' []) id ?run"
  have ready: "smoke_ready demo_smoke"
    by (simp add: smoke_ready_def demo_smoke_def SMOKE_STARTUP_POLLS_def PROXY_STARTUP_POLLS_def grpc_probe_def
        rest_probe_def numeral_eq_Suc isinstance_def)
  have run: "?run = Inr \<lparr>cp_message = \<lparr>cm_role = ''assistant'', cm_content = ''Hello''\<rparr>,
      cp_finish_reason = ''stop'', cp_prompt_tokens = 2, cp_completion_tokens = 2\<rparr>"
    by (simp add: chat_complete_def smoke_proto_def SMOKE_MESSAGES_def demo_env_def demo_outs_def drain_def
        demo_completion_def demo_reads_def messages_to_prompt_def chat_proto_to_sampling_params_def
        request_output_to_proto_def first_completion_def prompt_length_def reason_or_stop_def truthy_def)
  have reply: "chat_completions demo_proxy (0, 1, 2, 3) ?unary (\<lambda>q. ([], None)) smoke_openai
      = Inr (Json_Reply 200 demo_smoke_reply [(''X-Bench-Proxy-Ms'', fmt_fixed 3 2000)])"
    by (simp add: chat_completions_def smoke_openai_proto run demo_smoke_reply_def demo_proxy_def smoke_openai_model)
  have relayed: "?unary smoke_proto = map_sum (\<lambda>e. aio_rpc_error ''UNKNOWN'' []) id ?run"
    "\<And>exc. isinstance ((\<lambda>e. aio_rpc_error ''UNKNOWN'' []) exc) ''AioRpcError''"
    "se_post demo_smoke = Inr (received (\<lambda>v. []) (\<lambda>s. Inr demo_smoke_reply)
       (Json_Reply 200 demo_smoke_reply [(''X-Bench-Proxy-Ms'', fmt_fixed 3 2000)]))"
    by (simp_all add: demo_smoke_def aio_rpc_error_def isinstance_def)
  from smoke_test_over_gateway[OF ready relayed(1,2) reply relayed(3)] run show ?thesis by auto
qed

text \<open>
  The smoke containers leave no server running, except that an exception other than a gRPC
  error from the health check of the frontend leaves the function without killing it.
\<close>

theorem smoke_cleans_up:
  "snd (rest_smoke_test env) = []
   \<and> (case frontend_smoke_test env of
        (r, left) \<Rightarrow> left = [] \<or> left = [''frontend''] \<and> (\<exists>exc. r = Inl exc \<and> \<not> isinstance exc ''RpcError''))
   \<and> (poll_startup grpc_probe (se_frontend env) 0 SMOKE_STARTUP_POLLS = Probe_Failed exc
        \<longleftrightarrow> frontend_smoke_test env = (Inl exc, [''frontend'']))"
  using grpc_raises
  by (auto simp: rest_smoke_test_def frontend_smoke_test_def split: startup_outcome.splits)

section \<open>Prompt embeddings\<close>

text \<open>
  The check in the container accepts more than the local one. Once the server is healthy, a local
  check that succeeds on an answer is one the container's check also accepts; on a 200 without
  choices the container's check reports success where the local one fails.
\<close>

theorem embeds_checks_compared:
  assumes "poll_startup rest_probe (\<lambda>i. (None, probes i)) 0 VERIFY_MAX_POLLS = Became_Ready"
    and "post payload = Inr resp" and "hr_json resp = Inr (JObj d)"
  shows "\<exists>gc. verify_on_gpu probes exn_text post payload = (Inr gc, True)
     \<and> (gc_ok gc \<longleftrightarrow> hr_status resp = 200)
     \<and> run_verification post payload = Inr (if gc_ok gc \<and> json_truthy (json_get d ''choices'') then 0 else 1)"
  using assms by (simp add: verify_on_gpu_def run_verification_def)

definition no_choices :: http_response where
  "no_choices = \<lparr>hr_status = 200, hr_text = [], hr_json = Inr (JObj [])\<rparr>"

definition warming_up :: "nat \<Rightarrow> probe_answer" where
  "warming_up i = Probe_Status (if i = 0 then 503 else 200)"

theorem embeds_checks_compared_witness:
  "\<exists>gc. verify_on_gpu warming_up exn_name (\<lambda>p. Inr no_choices) JNull = (Inr gc, True) \<and> gc_ok gc
     \<and> run_verification (\<lambda>p. Inr no_choices) JNull = Inr 1"
proof -
  have "poll_startup rest_probe (\<lambda>i. (None, warming_up i)) 0 VERIFY_MAX_POLLS = Became_Ready"
    by (simp add: VERIFY_MAX_POLLS_def rest_probe_def warming_up_def numeral_eq_Suc)
  from embeds_checks_compared[OF this, where post = "\<lambda>p. Inr no_choices" and payload = JNull
      and resp = no_choices and d = "[]" and exn_text = exn_name]
  show ?thesis by (auto simp: json_get_def no_choices_def)
qed

end
