(* ===== verification/Modal_Embed.thy ===== *)
theory Modal_Embed
  imports Gen_Embed_Laws
begin

text \<open>
  \<open>scripts/python/modal_gen_embed_corpus_qwen3_8b.py\<close>: the embedding corpus generated in a container with
  a volume, mirrored into the local corpus directory by the \<open>modal\<close> command, and counted. The volume is
  the state of the container, the files of the local directory are a list of names and bytes; the
  command is a parameter. The lemmas show what the mirrored corpus holds: exactly the files of the run that
  generated it, whatever an earlier run left in the volume or the local directory.
\<close>

section \<open>The container\<close>

definition REMOTE_OUTPUT_DIR :: string where "REMOTE_OUTPUT_DIR = ''/mnt/out''"

definition OUTPUT_VOLUME_NAME :: string where "OUTPUT_VOLUME_NAME = ''vllm-grpc-m6-2-embed-corpus''"

text \<open>\<open>iterdir\<close> with \<open>is_file\<close>: the files directly in a directory, not those of its subdirectories.\<close>

definition directly_in :: "string \<Rightarrow> string \<Rightarrow> bool" where
  "directly_in dir p \<longleftrightarrow> starts_with (dir @ ''/'') p \<and> \<not> List.member (drop (length dir + 1) p) CHR 0x2F"

definition unlink_files :: "string \<Rightarrow> disk \<Rightarrow> disk" where
  "unlink_files dir d = (\<lambda>p. if directly_in dir p then None else d p)"

definition remote_args :: "string \<Rightarrow> int \<Rightarrow> string \<Rightarrow> int \<Rightarrow> int option \<Rightarrow> embed_args" where
  "remote_args model_name hidden_size dtype max_tokenized_len limit =
     default_embed_args\<lparr>ea_output_dir := REMOTE_OUTPUT_DIR, ea_model_name := model_name,
       ea_hidden_size := hidden_size, ea_dtype := dtype, ea_max_tokenized_len := max_tokenized_len,
       ea_limit := limit\<rparr>"

text \<open>The volume is committed only when the generator has returned; the flag says whether it was.\<close>

definition generate_remote ::
  "embed_env \<Rightarrow> embed_args \<Rightarrow> string \<Rightarrow> string \<Rightarrow> disk \<Rightarrow> json_dict py_result \<times> disk \<times> bool" where
  "generate_remote env args corpus_bytes provenance_bytes d =
     (case generate_corpus env args corpus_bytes provenance_bytes (unlink_files REMOTE_OUTPUT_DIR d) of
        (Inl exc, d') \<Rightarrow> (Inl exc, d', False)
      | (Inr manifest, d') \<Rightarrow> (Inr manifest, d', True))"

section \<open>The mirror\<close>

text \<open>
  The local side: whether the \<open>modal\<close> command is on the path, and what \<open>modal volume get\<close> makes of the
  local directory's files, with its exit code and its two outputs.
\<close>

type_synonym file_list = "(string \<times> string) list"

record mirror_env =
  mi_which_modal :: bool
  mi_volume_get :: "string list \<Rightarrow> file_list \<Rightarrow> int \<times> string \<times> string \<times> file_list"
  mi_local_dir :: string

definition mirror_command :: "string \<Rightarrow> string \<Rightarrow> string list" where
  "mirror_command volume_name local_dir =
     [''modal'', ''volume'', ''get'', volume_name, ''/'', local_dir, ''--force'']"

definition mirror_failed :: "int \<Rightarrow> string \<Rightarrow> string \<Rightarrow> py_exn" where
  "mirror_failed code out err = Exn ''RuntimeError'' (''`modal volume get` failed (exit '' @ str_int code @ ''):''
     @ [LF] @ ''  stdout: '' @ out @ [LF] @ ''  stderr: '' @ err)"

text \<open>Every file and directory of the local directory is removed before the command runs.\<close>

definition mirror_volume_to_local :: "mirror_env \<Rightarrow> string \<Rightarrow> file_list \<Rightarrow> int py_result \<times> file_list" where
  "mirror_volume_to_local me volume_name before =
     (if \<not> mi_which_modal me then (Inl (Exn ''RuntimeError'' ''modal CLI not found on PATH.''), before)
      else (case mi_volume_get me (mirror_command volume_name (mi_local_dir me)) [] of
        (code, out, err, files) \<Rightarrow>
          (if code \<noteq> 0 then Inl (mirror_failed code out err) else Inr (int (length files)), files)))"

section \<open>The entry point\<close>

text \<open>
  The exit code, when no exception leaves. The source bytes are \<open>None\<close> for a missing file. The mirror is
  a parameter here, as a function of the volume the container leaves.
\<close>

definition modal_embed_main ::
  "embed_env \<Rightarrow> (disk \<Rightarrow> mirror_env) \<Rightarrow> string option \<Rightarrow> string option \<Rightarrow> int option \<Rightarrow> disk \<Rightarrow> file_list
     \<Rightarrow> int py_result \<times> disk \<times> file_list" where
  "modal_embed_main env me corpus provenance limit volume local_files =
     (case (corpus, provenance) of
        (Some corpus_bytes, Some provenance_bytes) \<Rightarrow>
          (case generate_remote env (remote_args ''Qwen/Qwen3-8B'' 4096 ''float16'' 2048 limit)
                  corpus_bytes provenance_bytes volume of
             (Inl exc, volume', committed) \<Rightarrow> (Inl exc, volume', local_files)
           | (Inr manifest, volume', committed) \<Rightarrow>
               (case mirror_volume_to_local (me volume') OUTPUT_VOLUME_NAME local_files of
                  (Inl exc, files) \<Rightarrow> (Inl exc, volume', files)
                | (Inr n_written, files) \<Rightarrow>
                    (bind_result (json_index (JObj manifest) ''n_entries'') (\<lambda>n. case n of
                       JInt n_entries \<Rightarrow> Inr (if n_written \<noteq> n_entries + 1 then 2 else 0)
                     | _ \<Rightarrow> Inl (type_error ''n_entries'')), volume', files)))
      | _ \<Rightarrow> (Inr 1, volume, local_files))"

section \<open>The files of a run\<close>

definition corpus_names :: "nat \<Rightarrow> string set" where
  "corpus_names n = insert ''manifest.json'' (pt_name 4 ` {..< n})"

lemma card_corpus_names: "card (corpus_names n) = n + 1"
proof -
  have "''manifest.json'' \<noteq> pt_name 4 i" for i
    using pt_name_not_json[of "[]" 4 i] by metis
  moreover have "inj (pt_name 4)" by (rule injI) simp
  ultimately show ?thesis
    by (auto simp: corpus_names_def card_insert_if card_image inj_on_subset)
qed

lemma directly_in_dir:
  "directly_in dir p \<longleftrightarrow> (\<exists>name. p = dir @ ''/'' @ name \<and> CHR 0x2F \<notin> set name)"
proof -
  have "starts_with q p \<longleftrightarrow> (\<exists>r. p = q @ r)" for q
    by (metis append_eq_conv_conj append_take_drop_id starts_with_def)
  then show ?thesis by (auto simp: directly_in_def)
qed

lemma embed_loop_files:
  assumes "embed_loop env args idx entries d = (Inr es, d')"
  shows "length es = length entries
    \<and> (d' p \<noteq> None \<longleftrightarrow> d p \<noteq> None \<or> (\<exists>i < length entries. p = path_join (ea_output_dir args) (pt_name 4 (idx + i))))"
  using assms
proof (induction entries arbitrary: idx d es)
  case (Cons e entries)
  from Cons.prems obtain x d1 rest where
    1: "embed_entry env args idx e d = (Inr x, d1)"
    and 2: "embed_loop env args (Suc idx) entries d1 = (Inr rest, d')" and es: "es = x # rest"
    by (auto split: prod.splits sum.splits)
  have "d1 p \<noteq> None \<longleftrightarrow> d p \<noteq> None \<or> p = path_join (ea_output_dir args) (pt_name 4 idx)"
    using 1[unfolded embed_entry_ok] by auto
  then show ?case using Cons.IH[OF 2] es by (auto simp: Ex_less_Suc2)
qed simp

lemma generated_files:
  assumes "generate_corpus env args corpus prov d = (Inr manifest, d')"
    and "ea_output_dir args = REMOTE_OUTPUT_DIR"
    and "\<And>name. d (REMOTE_OUTPUT_DIR @ ''/'' @ name) = None"
  shows "\<exists>n. json_index (JObj manifest) ''n_entries'' = Inr (JInt (int n))
    \<and> {name. d' (REMOTE_OUTPUT_DIR @ ''/'' @ name) \<noteq> None} = corpus_names n"
proof -
  obtain sha entries es d1 where run: "embed_loop env args 0 entries d = (Inr es, d1)"
    and manifest: "manifest = manifest_json env args sha es"
    and d': "d' = d1(path_join (ea_output_dir args) ''manifest.json'' \<mapsto> ee_dumps env (JObj manifest))"
    using generate_corpus_ok[OF assms(1)] by blast
  note files = embed_loop_files[OF run]
  have "path_join REMOTE_OUTPUT_DIR ''manifest.json'' = REMOTE_OUTPUT_DIR @ ''/'' @ ''manifest.json''"
    by (simp add: path_join_def starts_with_def)
  then have "d' (REMOTE_OUTPUT_DIR @ ''/'' @ name) \<noteq> None \<longleftrightarrow> name \<in> corpus_names (length entries)" for name
    using files[of "REMOTE_OUTPUT_DIR @ ''/'' @ name"] assms(2,3)
    by (auto simp: d' corpus_names_def path_join_pt)
  moreover have "json_index (JObj manifest) ''n_entries'' = Inr (JInt (int (length entries)))"
    using files by (simp add: manifest manifest_json_def)
  ultimately show ?thesis by blast
qed

section \<open>Properties\<close>

text \<open>
  A mirrored corpus holds one run. If the generator returns in a container whose volume had no
  subdirectories, and the \<open>modal\<close> command copies the volume into the emptied local directory, then the entry
  point exits with 0, and the local directory holds exactly the manifest and the tensors of this run,
  as the container wrote them, whatever earlier runs had left on either side.
\<close>

theorem mirrored_corpus_is_one_run:
  assumes gen: "generate_remote env (remote_args ''Qwen/Qwen3-8B'' 4096 ''float16'' 2048 limit) corpus prov volume
      = (Inr manifest, volume', committed)"
    and flat: "\<And>name. CHR 0x2F \<in> set name \<Longrightarrow> volume (REMOTE_OUTPUT_DIR @ ''/'' @ name) = None"
    and modal: "mi_which_modal (me volume')"
    and got: "mi_volume_get (me volume') (mirror_command OUTPUT_VOLUME_NAME (mi_local_dir (me volume'))) []
      = (0, out, err, files)"
    and copied: "distinct (map fst files)" "\<And>name. map_of files name = volume' (REMOTE_OUTPUT_DIR @ ''/'' @ name)"
  shows "\<exists>n. json_index (JObj manifest) ''n_entries'' = Inr (JInt (int n))
    \<and> modal_embed_main env me (Some corpus) (Some prov) limit volume before = (Inr 0, volume', files)
    \<and> set (map fst files) = corpus_names n \<and> length files = n + 1"
proof -
  let ?args = "remote_args ''Qwen/Qwen3-8B'' 4096 ''float16'' 2048 limit"
  have run: "generate_corpus env ?args corpus prov (unlink_files REMOTE_OUTPUT_DIR volume) = (Inr manifest, volume')"
    using gen by (auto simp: generate_remote_def split: prod.splits sum.splits)
  have "unlink_files REMOTE_OUTPUT_DIR volume (REMOTE_OUTPUT_DIR @ ''/'' @ name) = None" for name
    using flat[of name] by (auto simp: unlink_files_def directly_in_dir)
  then obtain n where n: "json_index (JObj manifest) ''n_entries'' = Inr (JInt (int n))"
    and names: "{name. volume' (REMOTE_OUTPUT_DIR @ ''/'' @ name) \<noteq> None} = corpus_names n"
    using generated_files[OF run] by (auto simp: remote_args_def default_embed_args_def)
  have "set (map fst files) = {name. map_of files name \<noteq> None}" by (auto simp: map_of_eq_None_iff)
  then have set: "set (map fst files) = corpus_names n" using names copied(2) by simp
  then have "length files = n + 1"
    using distinct_card[OF copied(1)] card_corpus_names by simp
  with n set gen modal got show ?thesis
    by (simp add: modal_embed_main_def mirror_volume_to_local_def)
qed

definition remote_demo_env :: embed_env where
  "remote_demo_env = demo_embed_env\<lparr>ee_loads := (\<lambda>t. if t = ''corpus'' then Inr (JList [demo_prompt_entry])
     else Inr (JObj [(''corpus_sha256'', JStr ''corpus'')]))\<rparr>"

text \<open>A volume in which an earlier run left two tensors.\<close>

definition stale_volume :: disk where
  "stale_volume = Map.empty(''/mnt/out/0000.pt'' \<mapsto> ''old'', ''/mnt/out/0001.pt'' \<mapsto> ''old'')"

definition copying :: "disk \<Rightarrow> mirror_env" where
  "copying vol = \<lparr>mi_which_modal = True, mi_volume_get = (\<lambda>cmd before. (0, [], [],
     map (\<lambda>name. (name, the (vol (REMOTE_OUTPUT_DIR @ ''/'' @ name)))) [''manifest.json'', pt_name 4 0])),
     mi_local_dir = ''corpus''\<rparr>"

theorem mirrored_corpus_is_one_run_witness:
  "\<exists>volume' files. modal_embed_main remote_demo_env copying (Some ''corpus'') (Some ''prov'') None stale_volume []
     = (Inr 0, volume', files) \<and> length files = 2"
proof -
  let ?args = "remote_args ''Qwen/Qwen3-8B'' 4096 ''float16'' 2048 None"
  let ?clean = "unlink_files REMOTE_OUTPUT_DIR stale_volume"
  have "(case fst (generate_corpus remote_demo_env ?args ''corpus'' ''prov'' ?clean) of
      Inl exc \<Rightarrow> False | Inr m \<Rightarrow> json_index (JObj m) ''n_entries'' = Inr (JInt 1))"
    by code_simp
  then obtain manifest volume' where run: "generate_corpus remote_demo_env ?args ''corpus'' ''prov'' ?clean = (Inr manifest, volume')"
    and one: "json_index (JObj manifest) ''n_entries'' = Inr (JInt 1)"
    by (cases "generate_corpus remote_demo_env ?args ''corpus'' ''prov'' ?clean") (auto split: sum.splits)
  have gen: "generate_remote remote_demo_env ?args ''corpus'' ''prov'' stale_volume = (Inr manifest, volume', True)"
    by (simp add: generate_remote_def run)
  have flat: "\<And>name. CHR 0x2F \<in> set name \<Longrightarrow> stale_volume (REMOTE_OUTPUT_DIR @ ''/'' @ name) = None"
    by (auto simp: stale_volume_def REMOTE_OUTPUT_DIR_def)
  then have "?clean (REMOTE_OUTPUT_DIR @ ''/'' @ name) = None" for name
    by (auto simp: unlink_files_def directly_in_dir)
  then obtain n where n: "json_index (JObj manifest) ''n_entries'' = Inr (JInt (int n))"
    and names: "{name. volume' (REMOTE_OUTPUT_DIR @ ''/'' @ name) \<noteq> None} = corpus_names n"
    using generated_files[OF run] by (auto simp: remote_args_def default_embed_args_def)
  then have "n = 1" using one by simp
  then have exact: "volume' (REMOTE_OUTPUT_DIR @ ''/'' @ name) \<noteq> None \<longleftrightarrow> name = ''manifest.json'' \<or> name = pt_name 4 0" for name
    using names by (auto simp: corpus_names_def)
  let ?files = "map (\<lambda>name. (name, the (volume' (REMOTE_OUTPUT_DIR @ ''/'' @ name)))) [''manifest.json'', pt_name 4 0]"
  have got: "mi_volume_get (copying volume') (mirror_command OUTPUT_VOLUME_NAME (mi_local_dir (copying volume'))) []
      = (0, [], [], ?files)" and modal: "mi_which_modal (copying volume')"
    by (simp_all add: copying_def)
  have differ: "''manifest.json'' \<noteq> pt_name 4 0" by code_simp
  have copied: "distinct (map fst ?files)" "\<And>name. map_of ?files name = volume' (REMOTE_OUTPUT_DIR @ ''/'' @ name)"
  proof -
    show "distinct (map fst ?files)" using differ by simp
    fix name
    show "map_of ?files name = volume' (REMOTE_OUTPUT_DIR @ ''/'' @ name)"
      using exact[of name] differ by (cases "volume' (REMOTE_OUTPUT_DIR @ ''/'' @ name)") auto
  qed
  from mirrored_corpus_is_one_run[where me = copying, OF gen flat modal got copied] one show ?thesis by auto
qed

end
