(* ===== verification/Setup_Scripts.thy ===== *)
theory Setup_Scripts
  imports Modal_Serve Topology Gen_Chat_Corpus
begin

text \<open>
  Scripts that prepare a run: the download of the weights into the volume
  (\<open>scripts/python/modal_download_weights.py\<close>), the build hook that generates the stubs
  (\<open>packages/gen/hatch_build.py\<close>), and the one-shot traceroute probe of a deployment
  (\<open>docs/spikes/m6-1-roadmap-additions/traceroute_probe.py\<close>). The download, the compiler, the traceroute
  command and the deployment are parameters.
\<close>

section \<open>Weights\<close>

record weights_result =
  wr_ok :: bool
  wr_skipped :: bool
  wr_elapsed_s :: real

definition WEIGHTS_SENTINEL :: string where "WEIGHTS_SENTINEL = ''/mnt/weights/config.json''"

text \<open>
  \<open>fetch repo dir\<close> is \<open>snapshot_download\<close>, which may raise after writing some files. The result is the
  container's view of the volume, and whether it was committed.
\<close>

definition download_weights ::
  "(string \<Rightarrow> string \<Rightarrow> disk \<Rightarrow> unit py_result \<times> disk) \<Rightarrow> real \<Rightarrow> disk
     \<Rightarrow> weights_result py_result \<times> disk \<times> bool" where
  "download_weights fetch elapsed d =
     (if d WEIGHTS_SENTINEL \<noteq> None
      then (Inr \<lparr>wr_ok = True, wr_skipped = True, wr_elapsed_s = 0\<rparr>, d, False)
      else (case fetch ''Qwen/Qwen3-0.6B'' ''/mnt/weights'' d of
        (Inl exc, d') \<Rightarrow> (Inl exc, d', False)
      | (Inr _, d') \<Rightarrow> (Inr \<lparr>wr_ok = True, wr_skipped = False, wr_elapsed_s = elapsed\<rparr>, d', True)))"

definition download_main :: "weights_result py_result \<Rightarrow> int py_result" where
  "download_main r = bind_result r (\<lambda>w. Inr (if wr_skipped w \<or> wr_ok w then 0 else 1))"

section \<open>Stubs\<close>

definition PROTOS :: "string list" where
  "PROTOS = [''vllm_grpc/v1/health.proto'', ''vllm_grpc/v1/chat.proto'', ''vllm_grpc/v1/completions.proto'']"

text \<open>\<open>root\<close> and \<open>up\<close> are the package's directory and the directory two levels up.\<close>

definition find_proto_root :: "disk \<Rightarrow> string \<Rightarrow> string \<Rightarrow> string option" where
  "find_proto_root d pkg up =
     find (\<lambda>c. d (c @ ''/vllm_grpc/v1/health.proto'') \<noteq> None) [pkg @ ''/proto'', up @ ''/proto'']"

definition protoc_command :: "string \<Rightarrow> string \<Rightarrow> string list" where
  "protoc_command proto_root out =
     [''-m'', ''grpc_tools.protoc'', ''-I'' @ proto_root, ''--python_out='' @ out, ''--grpc_python_out='' @ out]
     @ map (\<lambda>proto. proto_root @ ''/'' @ proto) PROTOS"

text \<open>\<open>subprocess.run(..., check=True)\<close> raises for a nonzero exit code.\<close>

definition build_hook ::
  "(string list \<Rightarrow> disk \<Rightarrow> int \<times> disk) \<Rightarrow> string \<Rightarrow> string \<Rightarrow> disk \<Rightarrow> unit py_result \<times> disk" where
  "build_hook protoc pkg up d =
     (case find_proto_root d pkg up of
        None \<Rightarrow>
          (if d (pkg @ ''/src/vllm_grpc/v1/chat_pb2.py'') \<noteq> None then (Inr (), d)
           else (Inl (runtime_error (''vllm-grpc-gen build hook: proto/ sources not found and no ''
                       @ ''pre-generated stubs present; cannot build.'')), d))
      | Some proto_root \<Rightarrow>
          (case protoc (protoc_command proto_root (pkg @ ''/src'')) d of
             (code, d') \<Rightarrow> (if code \<noteq> 0 then Inl (Exn ''CalledProcessError'' []) else Inr (), d')))"

section \<open>The traceroute probe\<close>

text \<open>Its own \<open>_parse_url\<close>, which keeps a path, unlike the harness's.\<close>

definition last_colon :: "string \<Rightarrow> (string \<times> int option) py_result" where
  "last_colon rest =
     (if List.member rest (CHR '':'')
      then (let (host, port_s) = rsplit1 (CHR '':'') rest
            in bind_result (int_of_str port_s) (\<lambda>p. Inr (host, Some p)))
      else Inr (rest, None))"

definition trace_parse_url :: "string \<Rightarrow> (string \<times> int option) py_result" where
  "trace_parse_url url =
     (if starts_with ''tcp+plaintext://'' url then last_colon (strip_prefix ''tcp+plaintext://'' url)
      else if starts_with ''http://'' url then last_colon (strip_prefix ''http://'' url)
      else if starts_with ''https://'' url then
        (let rest = strip_prefix ''https://'' url
         in if \<not> List.member rest (CHR '':'') then Inr (rest, Some 443) else last_colon rest)
      else last_colon url)"

definition traceroute_command :: "string \<Rightarrow> string list" where
  "traceroute_command host = [''traceroute'', ''-n'', ''-w'', ''2'', ''-q'', ''1'', ''-m'', ''18'', host]"

text \<open>
  The wait for the deployment: the readings of the clock before each look, and the dictionary then. A
  look at or after the deadline ends it.
\<close>

fun wait_for_ready :: "real \<Rightarrow> (real \<times> modal_dict) list \<Rightarrow> bool option" where
  "wait_for_ready deadline [] = None"
| "wait_for_ready deadline ((now, d) # looks) =
     (if now < deadline then (if dv_truthy (d ''ready'') then Some True else wait_for_ready deadline looks)
      else Some False)"

definition trace_keys :: "(string \<times> string) list" where
  "trace_keys = [(''rest_https_edge'', ''rest_https_edge_url''), (''rest_plain_tcp'', ''rest_plain_tcp_url''),
     (''grpc'', ''grpc'')]"

text \<open>
  The hosts the probe traces, from \<open>str(await d.get(key, default=""))\<close>; a missing or empty URL is left
  out. \<open>str\<close> of a value is the argument \<open>show\<close>.
\<close>

definition trace_hosts ::
  "(dict_value \<Rightarrow> string) \<Rightarrow> modal_dict \<Rightarrow> (string \<times> string \<times> int option) list py_result" where
  "trace_hosts show d =
     map_result (\<lambda>(cohort, url). bind_result (trace_parse_url url) (\<lambda>(host, port). Inr (cohort, host, port)))
       (filter (\<lambda>(cohort, url). url \<noteq> [])
         (map (\<lambda>(cohort, key). (cohort, case d key of None \<Rightarrow> [] | Some v \<Rightarrow> show v)) trace_keys))"

text \<open>
  The probe: the exit code with the dictionary it leaves. It fails when a URL does not parse or a
  traceroute raises, and then, as on a timeout, it does not put the teardown value.
\<close>

definition trace_main ::
  "(dict_value \<Rightarrow> string) \<Rightarrow> (string list \<Rightarrow> string py_result) \<Rightarrow> bool \<Rightarrow> modal_dict \<Rightarrow> int py_result \<times> modal_dict" where
  "trace_main show traceroute ready d =
     (if \<not> ready then (Inr 1, d)
      else (case bind_result (trace_hosts show d) (\<lambda>hosts.
                map_result (\<lambda>(cohort, host, port). traceroute (traceroute_command host)) hosts) of
        Inl exc \<Rightarrow> (Inl exc, d)
      | Inr outputs \<Rightarrow> (Inr 0, d(''teardown'' \<mapsto> DV_Bool True))))"

section \<open>What they show\<close>

lemma last_colon_is_host_and_port: "CHR ''/'' \<notin> set rest \<Longrightarrow> last_colon rest = host_and_port rest"
  by (simp add: last_colon_def host_and_port_def Let_def)

text \<open>Where the rest of a URL has no path, the probe's parser is the harness's.\<close>

definition after_scheme :: "string \<Rightarrow> string" where
  "after_scheme url =
     (if starts_with ''tcp+plaintext://'' url then strip_prefix ''tcp+plaintext://'' url
      else if starts_with ''http://'' url then strip_prefix ''http://'' url
      else if starts_with ''https://'' url then strip_prefix ''https://'' url
      else url)"

text \<open>
  The probe's URL parser is the harness's on a URL whose rest after the scheme has no slash, which
  holds of every address the deployments publish.
\<close>

theorem trace_parser_agrees:
  assumes "CHR ''/'' \<notin> set (after_scheme url)"
  shows "trace_parse_url url = parse_url url"
  using assms unfolding trace_parse_url_def parse_url_def after_scheme_def Let_def
  by (cases "starts_with ''tcp+plaintext://'' url"; cases "starts_with ''http://'' url";
      cases "starts_with ''https://'' url") (simp_all only: if_True if_False last_colon_is_host_and_port)

lemmas url_defs = trace_parse_url_def parse_url_def after_scheme_def starts_with_def strip_prefix_def
  last_colon_def host_and_port_def before_first_def

theorem trace_parser_agrees_witness:
  "trace_parse_url ''https://x.modal.run'' = Inr (''x.modal.run'', Some 443)
   \<and> parse_url ''https://x.modal.run'' = Inr (''x.modal.run'', Some 443)"
proof -
  have "CHR ''/'' \<notin> set (after_scheme ''https://x.modal.run'')" by (simp add: url_defs)
  from trace_parser_agrees[OF this] show ?thesis by (simp add: url_defs)
qed

text \<open>With a path they differ: the harness drops it, the probe asks traceroute for it.\<close>

lemma trace_parser_keeps_path:
  "parse_url ''http://h/x'' = Inr (''h'', None)" "trace_parse_url ''http://h/x'' = Inr (''h/x'', None)"
  by (simp_all add: url_defs Let_def)

text \<open>
  The probe signals teardown exactly when it exits with 0; a timeout, a URL without a numeric
  port, or a traceroute that raises leaves the deployment's dictionary as it was.
\<close>

theorem trace_tears_down_on_success:
  "case trace_main show traceroute ready d of (r, d') \<Rightarrow>
     (r = Inr 0 \<longleftrightarrow> ready \<and> (\<exists>hosts outputs. trace_hosts show d = Inr hosts
        \<and> map_result (\<lambda>(cohort, host, port). traceroute (traceroute_command host)) hosts = Inr outputs))
     \<and> d' = (if r = Inr 0 then d(''teardown'' \<mapsto> DV_Bool True) else d)"
proof (cases ready)
  case True
  then show ?thesis
    by (cases "bind_result (trace_hosts show d) (\<lambda>hosts.
                map_result (\<lambda>(cohort, host, port). traceroute (traceroute_command host)) hosts)")
      (auto simp: trace_main_def bind_result_Inr_iff dest: sym)
qed (simp add: trace_main_def)

text \<open>A build that returns had a proto source and a compiler that exited with 0, or the stubs already.\<close>

lemma build_hook_ok:
  "fst (build_hook protoc pkg up d) = Inr () \<longleftrightarrow>
     (case find_proto_root d pkg up of
        None \<Rightarrow> d (pkg @ ''/src/vllm_grpc/v1/chat_pb2.py'') \<noteq> None
      | Some src \<Rightarrow> fst (protoc (protoc_command src (pkg @ ''/src'')) d) = 0)"
  by (simp add: build_hook_def split: prod.split option.split)

text \<open>
  A download that succeeded is not repeated, and one that raised is taken for complete as soon as its
  first files include the sentinel, if the volume keeps them.
\<close>

theorem sentinel_decides:
  assumes "download_weights fetch t d = (r, d', committed)"
  shows "(committed \<longleftrightarrow> d WEIGHTS_SENTINEL = None \<and> (\<exists>w. r = Inr w))
    \<and> (d' WEIGHTS_SENTINEL \<noteq> None \<longrightarrow>
         download_weights fetch2 t2 d' = (Inr \<lparr>wr_ok = True, wr_skipped = True, wr_elapsed_s = 0\<rparr>, d', False))"
  using assms by (auto simp: download_weights_def split: if_split_asm prod.split_asm sum.split_asm)

end
