(* ===== verification/Mock_Engine.thy ===== *)
theory Mock_Engine
  imports Frontend_Stream
begin

text \<open>
  \<open>tools/benchmark/src/vllm_grpc_bench/mock_engine.py\<close>: the engine the deployments without a GPU serve
  with. A call to \<open>generate\<close> is the check of the request against those in flight and then a fixed list of
  outputs; the sleep between two outputs is left out. BLAKE2b and \<open>numpy\<close>'s generator are arguments.
\<close>

section \<open>Configuration\<close>

definition TOKEN_FRAGMENTS :: "string list" where
  "TOKEN_FRAGMENTS =
     ['' the'', '' a'', '' of'', '' and'', '' to'', '' in'', '' that'', '' is'', '' for'', '' on'', '' with'', '' as'',
      '' was'', '' at'', '' by'', '' from'', ''ing'', ''tion'', ''ed'', ''es'', ''Hello'', ''world'', ''model'',
      ''gRPC'', ''channel'', ''stream'', ''token'', ''embed'', ''M3'', ''bench'']"

record mock_config =
  mk_hidden_size :: int
  mk_seed :: int
  mk_tokens_per_second :: real
  mk_max_tokens_per_stream :: int
  mk_pace_tokens :: bool

text \<open>\<open>MockEngineConfig(...)\<close> with its \<open>__post_init__\<close>.\<close>

definition mk_mock_config :: "int \<Rightarrow> int \<Rightarrow> real \<Rightarrow> int \<Rightarrow> bool \<Rightarrow> mock_config py_result" where
  "mk_mock_config hidden_size seed tokens_per_second max_tokens_per_stream pace_tokens =
     (if hidden_size \<le> 0 then Inl (value_error ''MockEngineConfig.hidden_size must be > 0'')
      else if pace_tokens \<and> tokens_per_second \<le> 0
      then Inl (value_error ''MockEngineConfig.tokens_per_second must be > 0 when pace_tokens=True'')
      else if max_tokens_per_stream < 1
      then Inl (value_error ''MockEngineConfig.max_tokens_per_stream must be >= 1'')
      else if seed < 0 then Inl (value_error ''MockEngineConfig.seed must be >= 0'')
      else Inr \<lparr>mk_hidden_size = hidden_size, mk_seed = seed, mk_tokens_per_second = tokens_per_second,
                mk_max_tokens_per_stream = max_tokens_per_stream, mk_pace_tokens = pace_tokens\<rparr>)"

section \<open>Tokens\<close>

text \<open>
  The hash of the prompt and the seed: \<open>mo_blake\<close> is BLAKE2b with an 8-byte digest, given the bytes of
  both updates. \<open>mo_integers seed n\<close> is \<open>default_rng(seed).integers(0, 30, size=n)\<close>, \<open>mo_normal\<close> the
  draw of an embedding.
\<close>

record mock_env =
  mo_blake :: "string \<Rightarrow> nat list"
  mo_integers :: "nat \<Rightarrow> int \<Rightarrow> nat list"
  mo_normal :: "nat \<Rightarrow> int \<Rightarrow> real list"

definition bytes8_little :: "int \<Rightarrow> string py_result" where
  "bytes8_little t =
     (if 0 \<le> t \<and> t < 2 ^ 64
      then Inr (map (\<lambda>k. char_of (nat (t div 256 ^ k mod 256))) [0, 1, 2, 3, 4, 5, 6, 7])
      else Inl (Exn ''OverflowError'' ''int too big to convert''))"

definition from_bytes_little :: "nat list \<Rightarrow> nat" where
  "from_bytes_little bs = foldr (\<lambda>b acc. b + 256 * acc) bs 0"

definition mock_prompt_hash :: "mock_env \<Rightarrow> string \<Rightarrow> int \<Rightarrow> nat py_result" where
  "mock_prompt_hash me prompt seed =
     bind_result (bytes8_little seed) (\<lambda>s. Inr (from_bytes_little (mo_blake me (prompt @ s))))"

text \<open>\<open>s.find(sub)\<close>, and the digits right after the needle.\<close>

fun find_after :: "string \<Rightarrow> string \<Rightarrow> string option" where
  "find_after sub [] = (if sub = [] then Some [] else None)"
| "find_after sub (c # cs) =
     (if starts_with sub (c # cs) then Some (drop (length sub) (c # cs)) else find_after sub cs)"

definition MIN_TOKENS_HINT :: string where "MIN_TOKENS_HINT = ''min_tokens=''"

definition derive_token_count :: "string \<Rightarrow> int \<Rightarrow> int \<Rightarrow> int" where
  "derive_token_count prompt requested_max cap =
     (case find_after MIN_TOKENS_HINT prompt of
        None \<Rightarrow> min requested_max cap
      | Some rest \<Rightarrow>
          (case digits_val 0 False (takeWhile is_digit rest) of
             None \<Rightarrow> min requested_max cap
           | Some requested \<Rightarrow> min (max requested_max (int requested)) cap))"

text \<open>The eight prompt token ids are 16-bit windows of the hash, four bits apart.\<close>

definition mock_prompt_ids :: "nat \<Rightarrow> int list" where
  "mock_prompt_ids seed = map (\<lambda>i. int (seed div 2 ^ (i * 4) mod 65536)) [0 ..< 8]"

section \<open>generate\<close>

definition mock_requested_max :: "mock_config \<Rightarrow> int option \<Rightarrow> int" where
  "mock_requested_max cfg max_tokens =
     (let m = (case max_tokens of None \<Rightarrow> 0 | Some m \<Rightarrow> m)
      in if m \<le> 0 then mk_max_tokens_per_stream cfg else m)"

definition mock_token_count :: "mock_config \<Rightarrow> string \<Rightarrow> int option \<Rightarrow> int" where
  "mock_token_count cfg prompt max_tokens =
     derive_token_count prompt (mock_requested_max cfg max_tokens) (mk_max_tokens_per_stream cfg * 64)"

definition mock_finish_reason :: "mock_config \<Rightarrow> int \<Rightarrow> nat \<Rightarrow> string" where
  "mock_finish_reason cfg n_tokens i =
     (if int i = n_tokens - 1
      then (if mk_max_tokens_per_stream cfg \<le> n_tokens then ''length'' else ''stop'') else [])"

text \<open>The output at index \<open>i\<close>: the text and the ids so far.\<close>

definition mock_output :: "mock_config \<Rightarrow> nat \<Rightarrow> nat list \<Rightarrow> int \<Rightarrow> nat \<Rightarrow> engine_output" where
  "mock_output cfg seed fragments n_tokens i =
     (let so_far = take (Suc i) fragments
      in \<lparr>eo_outputs = [\<lparr>co_text = concat (map (\<lambda>f. TOKEN_FRAGMENTS ! f) so_far),
                         co_token_ids = map int so_far,
                         co_finish_reason = Some (mock_finish_reason cfg n_tokens i)\<rparr>],
          eo_prompt_token_ids = Some (mock_prompt_ids seed), eo_metrics = None\<rparr>)"

definition mock_outputs :: "mock_env \<Rightarrow> mock_config \<Rightarrow> string \<Rightarrow> int option \<Rightarrow> engine_output list py_result" where
  "mock_outputs me cfg prompt max_tokens =
     (let n_tokens = mock_token_count cfg prompt max_tokens
      in bind_result (mock_prompt_hash me prompt (mk_seed cfg)) (\<lambda>seed.
         let fragments = mo_integers me seed n_tokens
         in Inr (map (mock_output cfg seed fragments n_tokens) [0 ..< length fragments])))"

text \<open>
  The requests in flight: \<open>mock_enter\<close> is what the first \<open>__anext__\<close> does, \<open>mock_leave\<close> the \<open>finally\<close>.
\<close>

definition mock_enter :: "string \<Rightarrow> string \<Rightarrow> string list \<Rightarrow> unit py_result \<times> string list" where
  "mock_enter prompt request_id inflight =
     (if prompt = [] then (Inl (value_error ''MockEngine: empty prompt''), inflight)
      else if List.member inflight request_id
      then (Inl (Exn ''RuntimeError'' (''duplicate request_id: '' @ request_id)), inflight)
      else (Inr (), request_id # inflight))"

definition mock_leave :: "string \<Rightarrow> string list \<Rightarrow> string list" where
  "mock_leave request_id inflight = removeAll request_id inflight"

definition mock_generate ::
  "mock_env \<Rightarrow> mock_config \<Rightarrow> string \<Rightarrow> int option \<Rightarrow> string \<Rightarrow> string list
     \<Rightarrow> engine_output list py_result \<times> string list" where
  "mock_generate me cfg prompt max_tokens request_id inflight =
     (case mock_enter prompt request_id inflight of
        (Inl exc, fl) \<Rightarrow> (Inl exc, fl)
      | (Inr _, fl) \<Rightarrow> (mock_outputs me cfg prompt max_tokens, mock_leave request_id fl))"

text \<open>\<open>encode\<close>: one output with an embedding of the configured width.\<close>

definition mock_encode ::
  "mock_env \<Rightarrow> mock_config \<Rightarrow> string \<Rightarrow> string \<Rightarrow> string list
     \<Rightarrow> (int list \<times> real list) py_result \<times> string list" where
  "mock_encode me cfg prompt request_id inflight =
     (case mock_enter prompt request_id inflight of
        (Inl exc, fl) \<Rightarrow> (Inl exc, fl)
      | (Inr _, fl) \<Rightarrow>
          (bind_result (mock_prompt_hash me prompt (mk_seed cfg)) (\<lambda>seed.
             Inr (mock_prompt_ids seed, mo_normal me seed (mk_hidden_size cfg))), mock_leave request_id fl))"

end
