(* ===== verification/Bench_Servicers.thy ===== *)
theory Bench_Servicers
  imports Mock_Engine Frontend_Completions Channel_Config
begin

text \<open>
  \<open>tools/benchmark/src/vllm_grpc_bench/grpc_servicers.py\<close>: the servicers of the benchmark deployments,
  which have the shape of the frontend's and none of its metadata, and the options of the in-process
  server. The engine is an argument: its outputs and the exception that ended it, if any. An exception
  leaves a handler after the messages it has sent.
\<close>

section \<open>Requests\<close>

definition request_prompt_text :: "chat_complete_request \<Rightarrow> string" where
  "request_prompt_text req =
     (let parts = filter (\<lambda>s. s \<noteq> []) (map cm_content (cq_messages req))
      in if parts \<noteq> [] then join_with [LF] parts else ''default'')"

definition completion_prompt :: "(string \<Rightarrow> string) \<Rightarrow> completion_request \<Rightarrow> string" where
  "completion_prompt blake req = (case nq_input req of
     Some (Embeds_Input raw) \<Rightarrow> ''embeds:'' @ blake raw
   | Some (Prompt_Input prompt) \<Rightarrow> if prompt \<noteq> [] then prompt else ''default''
   | None \<Rightarrow> ''default'')"

definition max_tokens_or :: "int \<Rightarrow> int \<Rightarrow> int" where
  "max_tokens_or fallback m = (if m = 0 then fallback else m)"

section \<open>Unary calls\<close>

type_synonym bench_run = "engine_output list \<times> py_exn option"

type_synonym bench_engine = "string \<Rightarrow> int \<Rightarrow> bench_run"

definition drained :: "bench_run \<Rightarrow> engine_output py_result" where
  "drained run = (case run of
     (outs, Some exc) \<Rightarrow> Inl exc
   | (outs, None) \<Rightarrow> if outs = [] then Inl (Exn ''AssertionError'' []) else Inr (last outs))"

text \<open>Their two constructors are those of the frontend's translation.\<close>

definition bench_chat_complete ::
  "bench_engine \<Rightarrow> chat_complete_request \<Rightarrow> chat_complete_response py_result" where
  "bench_chat_complete engine req =
     bind_result (drained (engine (request_prompt_text req) (max_tokens_or 64 (cq_max_tokens req))))
       request_output_to_proto"

definition bench_complete ::
  "(string \<Rightarrow> string) \<Rightarrow> bench_engine \<Rightarrow> completion_request \<Rightarrow> completion_response py_result" where
  "bench_complete blake engine req =
     bind_result (drained (engine (completion_prompt blake req) (max_tokens_or 10 (nq_max_tokens req)))) (\<lambda>out.
     bind_result (first_completion out) (\<lambda>c.
     bind_result (prompt_length out) (\<lambda>n.
       Inr \<lparr>np_generated_text = co_text c, np_finish_reason = reason_or_stop c, np_prompt_tokens = n,
            np_completion_tokens = int (length (co_token_ids c))\<rparr>)))"

section \<open>The stream\<close>

text \<open>The loop over the outputs, with \<open>prev\<close> and \<open>idx\<close>; it returns at the first finish reason.\<close>

fun bench_chat_loop ::
  "string \<Rightarrow> int \<Rightarrow> engine_output list \<Rightarrow> py_exn option \<Rightarrow> chat_stream_chunk list \<times> py_exn option" where
  "bench_chat_loop prev idx [] err = ([], err)"
| "bench_chat_loop prev idx (out # outs) err =
     (case first_completion out of
        Inl exc \<Rightarrow> ([], Some exc)
      | Inr c \<Rightarrow>
          (let delta = drop (length prev) (co_text c);
               sent = (if delta \<noteq> []
                       then [\<lparr>ck_delta_content = delta, ck_finish_reason = [], ck_token_index = idx\<rparr>] else []);
               idx' = (if delta \<noteq> [] then idx + 1 else idx)
           in if truthy (co_finish_reason c)
              then (sent @ [\<lparr>ck_delta_content = [], ck_finish_reason = the (co_finish_reason c),
                             ck_token_index = idx'\<rparr>], None)
              else (let (rest, en) = bench_chat_loop (co_text c) idx' outs err in (sent @ rest, en))))"

definition bench_chat_stream ::
  "bench_engine \<Rightarrow> chat_complete_request \<Rightarrow> chat_stream_chunk list \<times> py_exn option" where
  "bench_chat_stream engine req =
     (let (outs, err) = engine (request_prompt_text req) (max_tokens_or 64 (cq_max_tokens req))
      in bench_chat_loop [] 0 outs err)"

text \<open>\<open>_BenchHealthServicer.Ping\<close>.\<close>

definition bench_ping :: string where "bench_ping = ''ok''"

text \<open>The keywords of \<open>serve_in_process\<close> for \<open>grpc.aio.server\<close>, and the address it yields.\<close>

definition server_kwargs_of :: "channel_config \<Rightarrow> client_kwargs" where
  "server_kwargs_of cfg =
     \<lparr>kw_options = (if cfg_server_options cfg \<noteq> [] then Some (cfg_server_options cfg) else None),
      kw_compression =
        (if cfg_compression cfg \<noteq> NoCompression then Some (cfg_compression cfg) else None)\<rparr>"

definition in_process_address :: "int \<Rightarrow> string" where
  "in_process_address port = ''127.0.0.1:'' @ str_int port"

end
