(* ===== verification/Bench_Servicer_Laws.thy ===== *)
theory Bench_Servicer_Laws
  imports Bench_Servicers Frontend_Laws
begin

text \<open>
  What the mock engine promises its servicers, what a stream over it delivers, and that the benchmark's
  chat servicer sends the messages the frontend's does.
\<close>

section \<open>The mock engine\<close>

lemma mk_mock_config_ok:
  "mk_mock_config h s t m p = Inr cfg \<Longrightarrow>
     1 \<le> mk_max_tokens_per_stream cfg \<and> 0 \<le> mk_seed cfg \<and> 0 < mk_hidden_size cfg
     \<and> mk_max_tokens_per_stream cfg = m \<and> mk_seed cfg = s"
  by (auto simp: mk_mock_config_def split: if_split_asm)

lemma derive_token_count_bounds:
  assumes "1 \<le> r" "1 \<le> cap"
  shows "1 \<le> derive_token_count p r cap \<and> derive_token_count p r cap \<le> cap"
  using assms by (auto simp: derive_token_count_def split: option.split)

lemma mock_token_count_bounds:
  assumes "1 \<le> mk_max_tokens_per_stream cfg"
  shows "1 \<le> mock_token_count cfg p mt \<and> mock_token_count cfg p mt \<le> mk_max_tokens_per_stream cfg * 64"
  unfolding mock_token_count_def
  by (rule derive_token_count_bounds) (use assms in \<open>auto simp: mock_requested_max_def Let_def\<close>)

text \<open>A prompt without the hint gets what was asked for, up to the cap.\<close>

lemma mock_token_count_plain:
  assumes "find_after MIN_TOKENS_HINT p = None" "0 < m"
  shows "mock_token_count cfg p (Some m) = min m (mk_max_tokens_per_stream cfg * 64)"
  using assms by (simp add: mock_token_count_def derive_token_count_def mock_requested_max_def)

definition numpy_integers :: "mock_env \<Rightarrow> bool" where
  "numpy_integers me \<longleftrightarrow> (\<forall>seed n. 0 \<le> n \<longrightarrow> length (mo_integers me seed n) = nat n
     \<and> (\<forall>f \<in> set (mo_integers me seed n). f < length TOKEN_FRAGMENTS))"

abbreviation mock_completion :: "engine_output \<Rightarrow> completion_output" where
  "mock_completion out \<equiv> hd (eo_outputs out)"

lemma fragments_nonempty: "f < length TOKEN_FRAGMENTS \<Longrightarrow> TOKEN_FRAGMENTS ! f \<noteq> []"
proof -
  have "list_all (\<lambda>s. s \<noteq> []) TOKEN_FRAGMENTS" by (simp add: TOKEN_FRAGMENTS_def)
  then show "f < length TOKEN_FRAGMENTS \<Longrightarrow> TOKEN_FRAGMENTS ! f \<noteq> []" by (simp add: list_all_length)
qed

lemma mock_outputs_Inr:
  "mock_outputs me cfg p mt = Inr outs \<Longrightarrow> \<exists>seed. outs = map (mock_output cfg seed
      (mo_integers me seed (mock_token_count cfg p mt)) (mock_token_count cfg p mt))
      [0 ..< length (mo_integers me seed (mock_token_count cfg p mt))]"
  by (auto simp: mock_outputs_def Let_def bind_result_Inr_iff)

definition fragment_text :: "nat list \<Rightarrow> string" where
  "fragment_text fs = concat (map (\<lambda>f. TOKEN_FRAGMENTS ! f) fs)"

lemma mock_completion_output [simp]:
  "mock_completion (mock_output cfg seed fs n i) =
     \<lparr>co_text = fragment_text (take (Suc i) fs), co_token_ids = map int (take (Suc i) fs),
      co_finish_reason = Some (mock_finish_reason cfg n i)\<rparr>"
  by (simp add: mock_output_def fragment_text_def Let_def)

lemma first_completion_mock [simp]:
  "first_completion (mock_output cfg seed fs n i) = Inr (mock_completion (mock_output cfg seed fs n i))"
  by (simp add: mock_output_def first_completion_def Let_def fragment_text_def)

lemma mock_finishes [simp]:
  "finishes \<lparr>co_text = t, co_token_ids = ids, co_finish_reason = Some (mock_finish_reason cfg n i)\<rparr>
     \<longleftrightarrow> int i = n - 1"
  by (simp add: finishes_def truthy_def mock_finish_reason_def)

text \<open>The text of one output extends that of the one before by a fragment.\<close>

lemma fragment_text_Suc:
  "i < length fs \<Longrightarrow> fragment_text (take (Suc i) fs) = fragment_text (take i fs) @ TOKEN_FRAGMENTS ! (fs ! i)"
  by (simp add: fragment_text_def take_Suc_conv_app_nth)

lemma mock_grows_from:
  "k \<le> length fs \<Longrightarrow> text_grows (fragment_text (take k fs))
     (map (mock_completion \<circ> mock_output cfg seed fs n) [k ..< length fs])"
proof (induction "length fs - k" arbitrary: k)
  case (Suc d)
  then have k: "k < length fs" by simp
  then have "[k ..< length fs] = k # [Suc k ..< length fs]" by (simp add: upt_rec)
  moreover have "text_grows (fragment_text (take (Suc k) fs))
      (map (mock_completion \<circ> mock_output cfg seed fs n) [Suc k ..< length fs])"
    using Suc.hyps(2) k by (intro Suc.hyps(1)) simp_all
  ultimately show ?case using fragment_text_Suc[OF k] by simp
qed simp

lemma mock_prompt_ids_16bit: "t \<in> set (mock_prompt_ids seed) \<Longrightarrow> 0 \<le> t \<and> t < 65536"
  by (auto simp: mock_prompt_ids_def)

text \<open>
  C21. Bounds of the mock engine. Under a configuration its constructor accepts, a generation has between
  1 and 64 times \<open>max_tokens_per_stream\<close> tokens, and exactly the requested number up to that cap when
  the prompt has no \<open>min_tokens=\<close> hint; it gives one output per token, the text only grows, the
  \<open>i\<close>-th output has \<open>i + 1\<close> token ids and exactly the last output finishes. Every output has the same
  eight prompt ids of 16 bits.
\<close>

theorem mock_engine_contract:
  assumes "mk_mock_config h s tps m pace = Inr cfg" and "numpy_integers me"
    and "mock_outputs me cfg prompt mt = Inr outs"
  shows "1 \<le> mock_token_count cfg prompt mt \<and> mock_token_count cfg prompt mt \<le> m * 64
    \<and> (find_after MIN_TOKENS_HINT prompt = None \<and> 0 < (case mt of None \<Rightarrow> 0 | Some k \<Rightarrow> k)
         \<longrightarrow> mock_token_count cfg prompt mt = min (the mt) (m * 64))
    \<and> int (length outs) = mock_token_count cfg prompt mt
    \<and> text_grows [] (map mock_completion outs)
    \<and> (\<forall>i < length outs. length (co_token_ids (mock_completion (outs ! i))) = i + 1
         \<and> (finishes (mock_completion (outs ! i)) \<longleftrightarrow> i = length outs - 1))
    \<and> (\<exists>ids. length ids = 8 \<and> set ids \<subseteq> {0 ..< 2 ^ 16}
         \<and> (\<forall>out \<in> set outs. eo_prompt_token_ids out = Some ids))"
proof -
  define n where "n = mock_token_count cfg prompt mt"
  have cfg: "1 \<le> mk_max_tokens_per_stream cfg" "mk_max_tokens_per_stream cfg = m"
    using mk_mock_config_ok[OF assms(1)] by simp_all
  have n: "1 \<le> n" "n \<le> m * 64" using mock_token_count_bounds[OF cfg(1)] cfg(2) by (simp_all add: n_def)
  obtain seed where outs: "outs = map (mock_output cfg seed (mo_integers me seed n) n)
      [0 ..< length (mo_integers me seed n)]"
    using mock_outputs_Inr[OF assms(3)] by (auto simp: n_def)
  define fs where "fs = mo_integers me seed n"
  have len: "int (length fs) = n" using assms(2) n by (simp add: numpy_integers_def fs_def)
  have "text_grows [] (map mock_completion outs)"
    using mock_grows_from[of 0 fs cfg seed n] by (simp add: outs fs_def[symmetric] fragment_text_def comp_def)
  moreover have "find_after MIN_TOKENS_HINT prompt = None \<and> 0 < (case mt of None \<Rightarrow> 0 | Some k \<Rightarrow> k)
      \<longrightarrow> n = min (the mt) (m * 64)"
    using mock_token_count_plain cfg(2) by (auto simp: n_def split: option.splits)
  moreover have "length (mock_prompt_ids seed) = 8 \<and> set (mock_prompt_ids seed) \<subseteq> {0 ..< 2 ^ 16}
      \<and> (\<forall>out \<in> set outs. eo_prompt_token_ids out = Some (mock_prompt_ids seed))"
    by (auto simp: outs mock_output_def Let_def mock_prompt_ids_def)
  ultimately show ?thesis using n len
    by (auto simp: outs fs_def[symmetric] n_def[symmetric])
qed

definition demo_mock :: mock_env where
  "demo_mock = \<lparr>mo_blake = (\<lambda>bs. [1]), mo_integers = (\<lambda>seed n. replicate (nat n) 20),
     mo_normal = (\<lambda>seed h. replicate (nat h) 0)\<rparr>"

definition demo_mock_config :: mock_config where
  "demo_mock_config = \<lparr>mk_hidden_size = 8, mk_seed = 0, mk_tokens_per_second = 20,
     mk_max_tokens_per_stream = 4, mk_pace_tokens = False\<rparr>"

lemma demo_mock_ok: "mk_mock_config 8 0 20 4 False = Inr demo_mock_config" "numpy_integers demo_mock"
  by (simp_all add: mk_mock_config_def demo_mock_config_def numpy_integers_def demo_mock_def TOKEN_FRAGMENTS_def)

theorem mock_engine_contract_witness:
  "\<exists>outs. mock_outputs demo_mock demo_mock_config ''hi'' (Some 2) = Inr outs \<and> length outs = 2
     \<and> finishes (mock_completion (outs ! 1)) \<and> \<not> finishes (mock_completion (outs ! 0))"
proof -
  obtain outs where outs: "mock_outputs demo_mock demo_mock_config ''hi'' (Some 2) = Inr outs"
    by (simp add: mock_outputs_def mock_prompt_hash_def bytes8_little_def demo_mock_config_def Let_def)
  have "find_after MIN_TOKENS_HINT ''hi'' = None" by (simp add: MIN_TOKENS_HINT_def starts_with_def)
  with mock_engine_contract[OF demo_mock_ok outs] have "int (length outs) = 2" by simp
  then have "length outs = 2" by simp
  with mock_engine_contract[OF demo_mock_ok outs] outs show ?thesis by auto
qed

section \<open>The servicer and the frontend's\<close>

definition chunk_event :: "chat_stream_chunk \<Rightarrow> abs_event" where
  "chunk_event ck = A_Chunk (ck_delta_content ck) (ck_finish_reason ck) (ck_token_index ck)"

lemma chunk_event_inject [simp]: "chunk_event a = chunk_event b \<longleftrightarrow> a = b"
  by (cases a; cases b) (simp add: chunk_event_def)

text \<open>The loop sends the abstract stream, less the metadata.\<close>

lemma bench_loop_abs:
  assumes "list_all (\<lambda>out. eo_outputs out \<noteq> []) outs"
  shows "map chunk_event (fst (bench_chat_loop prev i outs err))
      = filter (\<lambda>ev. ev \<noteq> A_Trailers) (abs_run prev i (map mock_completion outs))
    \<and> snd (bench_chat_loop prev i outs err)
      = (if list_ex (\<lambda>out. finishes (mock_completion out)) outs then None else err)"
  using assms
proof (induction outs arbitrary: prev i)
  case (Cons out outs)
  then obtain c cs where out: "eo_outputs out = c # cs" by (cases "eo_outputs out") auto
  then have c: "first_completion out = Inr c" "mock_completion out = c"
    by (simp_all add: first_completion_def)
  have "list_all (\<lambda>out. eo_outputs out \<noteq> []) outs" using Cons.prems by simp
  note IH = Cons.IH[OF this, of "co_text c" "next_index prev i c"]
  show ?case using c IH
    by (auto simp: abs_emit_def next_index_def added_text_def finishes_def chunk_event_def Let_def split: prod.splits)
qed simp

lemma chunk_event_of [simp]:
  "abs_event_of chat_chunk_view (Ev_Chunk ck) = chunk_event ck"
  "abs_event_of chat_chunk_view (Ev_Trailers t) = A_Trailers"
  by (simp_all add: abs_event_of_def chat_chunk_view_def chunk_event_def)

lemma chunk_event_text [simp]: "chunk_event ck \<noteq> A_Trailers"
  by (simp add: chunk_event_def)

lemma chunks_as_events:
  "map chunk_event (chunks_of evs) = filter (\<lambda>ev. ev \<noteq> A_Trailers) (map (abs_event_of chat_chunk_view) evs)"
proof (induction evs)
  case (Cons ev evs)
  then show ?case by (cases ev) simp_all
qed simp

text \<open>
  C20. The benchmark's chat servicer sends the frontend's messages. Over the same outputs of the engine,
  timed or not, the two handlers yield the same chunks; they differ in the metadata, which only the
  frontend sends, and in an engine that fails, whose exception the benchmark's handler lets through and
  the frontend's turns into an abort.
\<close>

theorem bench_stream_is_frontend_stream:
  assumes "list_all chat_accepts outs"
  shows "fst (bench_chat_loop [] 0 (map fst outs) err)
      = chunks_of (fst (async_for (chat_stream_step blake er) initial_stream_state outs e))
    \<and> (list_ex (\<lambda>x. finishes (completion_of x)) outs \<longrightarrow>
         snd (bench_chat_loop [] 0 (map fst outs) err) = None
         \<and> snd (async_for (chat_stream_step blake er) initial_stream_state outs e) = Stream_Returned)
    \<and> (\<not> list_ex (\<lambda>x. finishes (completion_of x)) outs \<longrightarrow>
         snd (bench_chat_loop [] 0 (map fst outs) err) = err
         \<and> snd (async_for (chat_stream_step blake er) initial_stream_state outs e) = end_of_run e)"
proof -
  have "list_all (\<lambda>out. eo_outputs out \<noteq> []) (map fst outs)"
    using assms by (auto simp: list_all_iff chat_accepts_def)
  note bench = bench_loop_abs[OF this, of "[]" 0 err]
  note front = chat_stream.run_refines[OF assms, of blake er initial_stream_state e]
  have "map chunk_event (fst (bench_chat_loop [] 0 (map fst outs) err))
      = map chunk_event (chunks_of (fst (async_for (chat_stream_step blake er) initial_stream_state outs e)))"
    using bench front by (simp add: chunks_as_events initial_stream_state_def comp_def)
  then have "fst (bench_chat_loop [] 0 (map fst outs) err)
      = chunks_of (fst (async_for (chat_stream_step blake er) initial_stream_state outs e))"
    using inj_map_eq_map[of chunk_event] by (simp add: inj_def)
  moreover have "list_ex (\<lambda>out. finishes (mock_completion out)) (map fst outs)
      \<longleftrightarrow> list_ex (\<lambda>x. finishes (completion_of x)) outs"
    by (simp add: list_ex_iff)
  ultimately show ?thesis using bench front by (simp add: initial_stream_state_def)
qed

theorem bench_stream_is_frontend_stream_witness:
  "map ck_delta_content (chunks_of (fst (async_for (chat_stream_step (\<lambda>b. ''00'') demo_entry)
      initial_stream_state demo_outs Engine_Exhausted))) = [''Hel'', ''lo'', []]"
proof -
  have sent: "fst (bench_chat_loop [] 0 (map fst demo_outs) None)
      = [\<lparr>ck_delta_content = ''Hel'', ck_finish_reason = [], ck_token_index = 0\<rparr>,
         \<lparr>ck_delta_content = ''lo'', ck_finish_reason = [], ck_token_index = 1\<rparr>,
         \<lparr>ck_delta_content = [], ck_finish_reason = ''stop'', ck_token_index = 2\<rparr>]"
    by (simp add: demo_outs_def demo_completion_def first_completion_def truthy_def)
  note same = bench_stream_is_frontend_stream[OF demo_accepts(1), of None "\<lambda>b. ''00''" demo_entry Engine_Exhausted,
      THEN conjunct1]
  show ?thesis unfolding same[symmetric] sent by (simp only: list.map chat_stream_chunk.select_convs)
qed

definition mock_chunk :: "nat list \<Rightarrow> nat \<Rightarrow> chat_stream_chunk" where
  "mock_chunk fs i = \<lparr>ck_delta_content = TOKEN_FRAGMENTS ! (fs ! i), ck_finish_reason = [], ck_token_index = int i\<rparr>"

definition mock_last_chunk :: "mock_config \<Rightarrow> nat \<Rightarrow> chat_stream_chunk" where
  "mock_last_chunk cfg n = \<lparr>ck_delta_content = [],
     ck_finish_reason = (if mk_max_tokens_per_stream cfg \<le> int n then ''length'' else ''stop''), ck_token_index = int n\<rparr>"

lemma mock_loop:
  assumes "\<forall>f \<in> set fs. f < length TOKEN_FRAGMENTS" and "k < length fs"
  shows "bench_chat_loop (fragment_text (take k fs)) (int k)
      (map (mock_output cfg seed fs (int (length fs))) [k ..< length fs]) err
    = (map (mock_chunk fs) [k ..< length fs] @ [mock_last_chunk cfg (length fs)], None)"
  using assms(2)
proof (induction "length fs - k" arbitrary: k)
  case (Suc d)
  then have k: "k < length fs" by simp
  have upt: "[k ..< length fs] = k # [Suc k ..< length fs]" using k by (simp add: upt_rec)
  have delta: "drop (length (fragment_text (take k fs))) (fragment_text (take (Suc k) fs)) = TOKEN_FRAGMENTS ! (fs ! k)"
    using fragment_text_Suc[OF k] by simp
  have ne: "TOKEN_FRAGMENTS ! (fs ! k) \<noteq> []" using assms(1) k fragments_nonempty by simp
  show ?case
  proof (cases "Suc k = length fs")
    case True
    then have "mock_finish_reason cfg (int (length fs)) k
        = (if mk_max_tokens_per_stream cfg \<le> int (length fs) then ''length'' else ''stop'')"
      by (simp add: mock_finish_reason_def)
    then show ?thesis using True upt delta ne
      by (simp add: mock_chunk_def mock_last_chunk_def truthy_def Let_def)
  next
    case False
    then have "mock_finish_reason cfg (int (length fs)) k = []"
      by (simp add: mock_finish_reason_def)
    moreover have "bench_chat_loop (fragment_text (take (Suc k) fs)) (int (Suc k))
        (map (mock_output cfg seed fs (int (length fs))) [Suc k ..< length fs]) err
      = (map (mock_chunk fs) [Suc k ..< length fs] @ [mock_last_chunk cfg (length fs)], None)"
      using False k Suc.hyps(2) by (intro Suc.hyps(1)) simp_all
    ultimately show ?thesis using upt delta ne by (simp add: mock_chunk_def truthy_def Let_def add.commute)
  qed
qed simp

text \<open>
  A stream over the mock engine. For a generation the engine performs, the benchmark's chat stream
  sends one chunk with text per token, numbered from 0, whose texts make up the final text, and one
  empty chunk with the finish reason, \<open>length\<close> exactly when the count reached \<open>max_tokens_per_stream\<close>.
\<close>

theorem mock_stream_delivers:
  assumes "mk_mock_config h s tps m pace = Inr cfg" and "numpy_integers me"
    and "mock_outputs me cfg (request_prompt_text req) (Some (max_tokens_or 64 (cq_max_tokens req))) = Inr outs"
    and "engine (request_prompt_text req) (max_tokens_or 64 (cq_max_tokens req)) = (outs, err)"
  shows "\<exists>pre. bench_chat_stream engine req =
      (pre @ [\<lparr>ck_delta_content = [], ck_finish_reason = (if m \<le> int (length outs) then ''length'' else ''stop''),
               ck_token_index = int (length pre)\<rparr>], None)
    \<and> length pre = length outs \<and> map ck_token_index pre = map int [0 ..< length pre]
    \<and> list_all (\<lambda>ck. ck_delta_content ck \<noteq> [] \<and> ck_finish_reason ck = []) pre
    \<and> concat (map ck_delta_content pre) = co_text (mock_completion (last outs))"
proof -
  define n where "n = mock_token_count cfg (request_prompt_text req) (Some (max_tokens_or 64 (cq_max_tokens req)))"
  have cfg: "1 \<le> mk_max_tokens_per_stream cfg" "mk_max_tokens_per_stream cfg = m"
    using mk_mock_config_ok[OF assms(1)] by simp_all
  have n: "1 \<le> n" using mock_token_count_bounds[OF cfg(1)] by (simp add: n_def)
  obtain seed where outs: "outs = map (mock_output cfg seed (mo_integers me seed n) n)
      [0 ..< length (mo_integers me seed n)]"
    using mock_outputs_Inr[OF assms(3)] by (auto simp: n_def)
  define fs where "fs = mo_integers me seed n"
  have "0 \<le> n" using n by simp
  with assms(2) have fs: "int (length fs) = n" "\<forall>f \<in> set fs. f < length TOKEN_FRAGMENTS"
    unfolding numpy_integers_def fs_def by auto
  then have pos: "0 < length fs" using n by auto
  have outs': "outs = map (mock_output cfg seed fs (int (length fs))) [0 ..< length fs]"
    using outs fs(1) by (simp add: fs_def)
  have run: "bench_chat_stream engine req
      = (map (mock_chunk fs) [0 ..< length fs] @ [mock_last_chunk cfg (length fs)], None)"
    using mock_loop[OF fs(2) pos, of cfg seed err] assms(4)
    by (simp add: bench_chat_stream_def outs' fragment_text_def)
  have "map (\<lambda>i. TOKEN_FRAGMENTS ! (fs ! i)) [0 ..< length fs] = map (\<lambda>f. TOKEN_FRAGMENTS ! f) fs"
    by (rule nth_equalityI) simp_all
  then have whole: "concat (map ck_delta_content (map (mock_chunk fs) [0 ..< length fs])) = fragment_text fs"
    by (simp add: comp_def mock_chunk_def fragment_text_def)
  have final: "co_text (mock_completion (last outs)) = fragment_text fs"
    using pos by (simp add: outs' last_map)
  have "TOKEN_FRAGMENTS ! (fs ! i) \<noteq> []" if "i < length fs" for i
    using that fs(2) fragments_nonempty by simp
  then have "list_all (\<lambda>ck. ck_delta_content ck \<noteq> [] \<and> ck_finish_reason ck = []) (map (mock_chunk fs) [0 ..< length fs])"
    by (auto simp: list_all_iff mock_chunk_def)
  then show ?thesis using run whole final cfg(2)
    by (intro exI[of _ "map (mock_chunk fs) [0 ..< length fs]"])
      (simp add: outs' mock_last_chunk_def mock_chunk_def comp_def)
qed

theorem mock_stream_delivers_witness:
  "\<exists>pre outs. mock_outputs demo_mock demo_mock_config ''hi'' (Some 5) = Inr outs
     \<and> bench_chat_stream (\<lambda>p mt. (outs, None)) demo_chat_req
         = (pre @ [\<lparr>ck_delta_content = [], ck_finish_reason = ''length'', ck_token_index = 5\<rparr>], None) \<and> length pre = 5"
proof -
  have req: "request_prompt_text demo_chat_req = ''hi''" "max_tokens_or 64 (cq_max_tokens demo_chat_req) = 5"
    by (simp_all add: demo_chat_req_def request_prompt_text_def max_tokens_or_def join_with_def)
  obtain outs where outs: "mock_outputs demo_mock demo_mock_config ''hi'' (Some 5) = Inr outs"
    by (simp add: mock_outputs_def mock_prompt_hash_def bytes8_little_def demo_mock_config_def Let_def)
  then have len: "length outs = 5"
    by (auto simp: mock_outputs_def Let_def bind_result_Inr_iff mock_token_count_def derive_token_count_def
        MIN_TOKENS_HINT_def starts_with_def mock_requested_max_def demo_mock_config_def demo_mock_def)
  have gen: "mock_outputs demo_mock demo_mock_config (request_prompt_text demo_chat_req)
      (Some (max_tokens_or 64 (cq_max_tokens demo_chat_req))) = Inr outs" using outs req by simp
  from mock_stream_delivers[OF demo_mock_ok gen, of "\<lambda>p mt. (outs, None)" None] len outs
  show ?thesis by auto
qed

end
