(* ===== verification/Rest_Shim.thy ===== *)
theory Rest_Shim
  imports Frontend_Completions Proxy_Router Py_Base64
begin

text \<open>
  \<open>tools/benchmark/src/vllm_grpc_bench/rest_shim.py\<close>: the REST server of the benchmark deployments, which
  calls the engine without a gRPC hop. pydantic gives a handler the validated request; the engine,
  \<open>SamplingParams\<close>, torch and BLAKE2b are the record \<open>shim_env\<close>, clock readings are arguments. The
  variables of the streaming handler are those of \<open>stream_state\<close>, of which it leaves the last two alone.
\<close>

section \<open>Requests\<close>

record shim_message =
  hm_role :: string
  hm_content :: string

record shim_chat_request =
  hc_model :: string
  hc_messages :: "shim_message list"
  hc_stream :: bool
  hc_max_tokens :: int
  hc_temperature :: real
  hc_seed :: "int option"

record shim_embed_request =
  he_model :: string
  he_input_kind :: string
  he_input :: string
  he_hidden_size :: int
  he_max_tokens :: int
  he_seed :: "int option"

text \<open>
  The fields the classes declare, read from a JSON object whose values have the declared types, with the
  declared defaults; a key the class does not declare is ignored.
\<close>

definition field_or :: "(json \<Rightarrow> 'a option) \<Rightarrow> 'a option \<Rightarrow> json_dict \<Rightarrow> string \<Rightarrow> 'a option" where
  "field_or get fallback d k = (case map_of d k of None \<Rightarrow> fallback | Some v \<Rightarrow> get v)"

definition as_str :: "json \<Rightarrow> string option" where
  "as_str v = (case v of JStr s \<Rightarrow> Some s | _ \<Rightarrow> None)"

definition as_int :: "json \<Rightarrow> int option" where
  "as_int v = (case v of JInt i \<Rightarrow> Some i | _ \<Rightarrow> None)"

definition as_bool :: "json \<Rightarrow> bool option" where
  "as_bool v = (case v of JBool b \<Rightarrow> Some b | _ \<Rightarrow> None)"

definition as_float :: "json \<Rightarrow> real option" where
  "as_float v = (case v of JFloat x \<Rightarrow> Some x | JInt i \<Rightarrow> Some (real_of_int i) | _ \<Rightarrow> None)"

definition as_opt_int :: "json \<Rightarrow> int option option" where
  "as_opt_int v = (case v of JNull \<Rightarrow> Some None | JInt i \<Rightarrow> Some (Some i) | _ \<Rightarrow> None)"

definition as_message :: "json \<Rightarrow> shim_message option" where
  "as_message v = (case v of
     JObj d \<Rightarrow> (case (field_or as_str None d ''role'', field_or as_str None d ''content'') of
        (Some r, Some c) \<Rightarrow> Some \<lparr>hm_role = r, hm_content = c\<rparr> | _ \<Rightarrow> None)
   | _ \<Rightarrow> None)"

fun all_some :: "'a option list \<Rightarrow> 'a list option" where
  "all_some [] = Some []"
| "all_some (x # xs) = (case (x, all_some xs) of (Some y, Some ys) \<Rightarrow> Some (y # ys) | _ \<Rightarrow> None)"

definition as_messages :: "json \<Rightarrow> shim_message list option" where
  "as_messages v = (case v of JList xs \<Rightarrow> all_some (map as_message xs) | _ \<Rightarrow> None)"

definition chat_fields :: "json_dict \<Rightarrow> shim_chat_request option" where
  "chat_fields d =
     (case (field_or as_str (Some ''mock'') d ''model'', field_or as_messages None d ''messages'',
            field_or as_bool (Some True) d ''stream'', field_or as_int (Some 512) d ''max_tokens'',
            field_or as_float (Some 1) d ''temperature'', field_or as_opt_int (Some None) d ''seed'') of
        (Some m, Some ms, Some st, Some mt, Some t, Some sd) \<Rightarrow>
          Some \<lparr>hc_model = m, hc_messages = ms, hc_stream = st, hc_max_tokens = mt, hc_temperature = t,
                hc_seed = sd\<rparr>
      | _ \<Rightarrow> None)"

definition embed_fields :: "json_dict \<Rightarrow> shim_embed_request option" where
  "embed_fields d =
     (case (field_or as_str (Some ''mock'') d ''model'',
            field_or as_str (Some ''prompt_embedding_b64'') d ''input_kind'', field_or as_str None d ''input'',
            field_or as_int None d ''hidden_size'', field_or as_int (Some 10) d ''max_tokens'',
            field_or as_opt_int (Some None) d ''seed'') of
        (Some m, Some k, Some i, Some h, Some mt, Some sd) \<Rightarrow>
          Some \<lparr>he_model = m, he_input_kind = k, he_input = i, he_hidden_size = h, he_max_tokens = mt,
                he_seed = sd\<rparr>
      | _ \<Rightarrow> None)"

section \<open>Environment\<close>

text \<open>
  \<open>sh_SamplingParams\<close> is given the two keywords of \<open>_build_sampling_params\<close>; the duck-typed class it
  falls back to holds the same two.
\<close>

record ('p, 'a) shim_env =
  sh_SamplingParams :: "int \<Rightarrow> int option \<Rightarrow> 'p py_result"
  sh_generate :: "'a engine_input \<Rightarrow> 'p \<Rightarrow> string \<Rightarrow> timed_output list \<times> run_end"
  sh_torch_load :: "string \<Rightarrow> 'a tensor py_result"
  sh_blake :: "string \<Rightarrow> string"
  sh_fl :: "real \<Rightarrow> string"
  sh_uuid :: string

text \<open>
  The clock readings of a call: the five of the calibration and the entry, \<open>pre_engine\<close>, the two
  \<open>perf_counter\<close> readings at the entry and for the overhead, that at the engine's start, and the last
  checkpoint.
\<close>

record shim_reads =
  hr_entry :: entry_reads
  hr_handler_entry :: real
  hr_overhead_at :: real
  hr_finished_at :: real
  hr_terminal_ns :: int

definition overhead_header :: "shim_reads \<Rightarrow> string \<times> string" where
  "overhead_header hr =
     (''X-Shim-Overhead-Ms'', fmt_fixed 6 ((hr_overhead_at hr - hr_handler_entry hr) * 1000))"

section \<open>The bearer check\<close>

definition shim_authorized :: "string \<Rightarrow> string \<Rightarrow> string option \<Rightarrow> bool" where
  "shim_authorized expected_token path authorization \<longleftrightarrow>
     path = ''/healthz'' \<or> (case authorization of None \<Rightarrow> [] | Some a \<Rightarrow> a) = ''Bearer '' @ expected_token"

definition unauthorized_reply :: http_reply where
  "unauthorized_reply = Json_Reply 401 (JObj [(''error'', JStr ''unauthorized'')]) []"

definition shim_healthz :: http_reply where
  "shim_healthz = Json_Reply 200 (JObj [(''ok'', JBool True)]) []"

section \<open>Instrumentation\<close>

text \<open>What the first output with text records, on both of its code paths.\<close>

definition shim_capture_first ::
  "(string \<Rightarrow> string) \<Rightarrow> engine_output \<Rightarrow> step_reads \<Rightarrow> stream_state \<Rightarrow> stream_state py_result" where
  "shim_capture_first blake out rd st =
     (let st1 = st\<lparr>ss_first_token_at := Some (sr_now rd), ss_first_chunk_ns := Some (sr_first_ns rd),
                   ss_first_chunk_mono_ns := Some (sr_first_mono_ns rd)\<rparr>
      in bind_result
           (if prompt_ids out \<noteq> []
            then bind_result (prompt_hash blake (prompt_ids out)) (\<lambda>h.
                   Inr (st1\<lparr>ss_tokenized_prompt_length := Some (int (length (prompt_ids out))),
                            ss_tokenized_prompt_hash := Some h\<rparr>))
            else Inr st1) (\<lambda>st2.
         Inr (case eo_metrics out of
                None \<Rightarrow> st2
              | Some m \<Rightarrow> st2\<lparr>ss_engine_arrival_ns := stat_ns (em_arrival_time m),
                              ss_engine_queued_ns := stat_ns (em_queued_ts m),
                              ss_engine_scheduled_ns := stat_ns (em_scheduled_ts m),
                              ss_engine_first_token_ns := stat_ns (em_first_token_ts m)\<rparr>)))"

definition shim_observe ::
  "(string \<Rightarrow> string) \<Rightarrow> engine_output \<Rightarrow> step_reads \<Rightarrow> stream_state \<Rightarrow> stream_state py_result" where
  "shim_observe blake out rd st = (case eo_outputs out of
     [] \<Rightarrow> Inr st
   | c # _ \<Rightarrow>
       if co_text c = [] then Inr st
       else bind_result (if ss_first_token_at st = None then shim_capture_first blake out rd st else Inr st)
              (\<lambda>st1. Inr (st1\<lparr>ss_last_token_at := Some (sr_now rd),
                              ss_token_count := int (length (co_token_ids c))\<rparr>)))"

definition shim_ttft_ms :: "entry_reads \<Rightarrow> stream_state \<Rightarrow> real" where
  "shim_ttft_ms er st = (case ss_first_token_at st of
     None \<Rightarrow> 0 | Some t \<Rightarrow> if t \<noteq> 0 then (t - er_start er) * 1000 else 0)"

definition shim_tpot_ms :: "stream_state \<Rightarrow> real" where
  "shim_tpot_ms st =
     (if 1 < ss_token_count st
      then (case (ss_last_token_at st, ss_first_token_at st) of
              (Some l, Some f) \<Rightarrow> (l - f) * 1000 / real_of_int (max (ss_token_count st - 1) 1)
            | _ \<Rightarrow> 0)
      else 0)"

definition shim_refresh_last_token :: "engine_output option \<Rightarrow> stream_state \<Rightarrow> stream_state" where
  "shim_refresh_last_token out st = (case Option.bind out eo_metrics of
     None \<Rightarrow> st
   | Some m \<Rightarrow> (case em_last_token_ts m of
        None \<Rightarrow> st
      | Some t \<Rightarrow> if t = 0 then st else st\<lparr>ss_engine_last_token_ns := trunc_real (t * 1000000000)\<rparr>))"

section \<open>The stream\<close>

definition opt_json_int :: "int option \<Rightarrow> json" where
  "opt_json_int x = (case x of None \<Rightarrow> JNull | Some i \<Rightarrow> JInt i)"

definition opt_json_str :: "string option \<Rightarrow> json" where
  "opt_json_str x = (case x of None \<Rightarrow> JNull | Some s \<Rightarrow> JStr s)"

definition shim_timings :: "shim_reads \<Rightarrow> stream_state \<Rightarrow> json_dict" where
  "shim_timings hr st =
     [(''handler_entry_ns'', JInt (er_handler_entry_ns (hr_entry hr))),
      (''pre_engine_ns'', JInt (er_pre_engine_ns (hr_entry hr))),
      (''first_chunk_ns'', JInt (case ss_first_chunk_ns st of Some n \<Rightarrow> n | None \<Rightarrow> hr_terminal_ns hr)),
      (''terminal_emit_ns'', JInt (hr_terminal_ns hr)),
      (''perturbation_audit_ns'', JInt (perturbation_audit (hr_entry hr))),
      (''engine_arrival_ns'', JInt (ss_engine_arrival_ns st)),
      (''engine_queued_ns'', JInt (ss_engine_queued_ns st)),
      (''engine_scheduled_ns'', JInt (ss_engine_scheduled_ns st)),
      (''engine_first_token_ns'', JInt (ss_engine_first_token_ns st)),
      (''engine_last_token_ns'', JInt (ss_engine_last_token_ns st))]"

text \<open>The four probes follow in the stream, the last two of them in the unary answer.\<close>

definition shim_prompt_audit :: "stream_state \<Rightarrow> json_dict" where
  "shim_prompt_audit st =
     [(''tokenized_prompt_length'', opt_json_int (ss_tokenized_prompt_length st)),
      (''tokenized_prompt_hash'', opt_json_str (ss_tokenized_prompt_hash st))]"

definition shim_edge_probes :: "shim_reads \<Rightarrow> stream_state \<Rightarrow> json_dict" where
  "shim_edge_probes hr st =
     [(''pre_engine_wall_ns'', JInt (er_pre_engine_wall_ns (hr_entry hr))),
      (''first_chunk_mono_ns'', opt_json_int (ss_first_chunk_mono_ns st))]"

definition shim_terminal :: "string \<Rightarrow> shim_reads \<Rightarrow> stream_state \<Rightarrow> json_dict" where
  "shim_terminal completion_id hr st =
     [(''id'', JStr completion_id),
      (''choices'', JList [JObj [(''delta'', JObj []), (''index'', JInt 0), (''finish_reason'', JStr ''stop'')]]),
      (''engine_cost'', JObj [(''engine_ttft_ms'', JFloat (shim_ttft_ms (hr_entry hr) st)),
                              (''engine_tpot_ms'', JFloat (shim_tpot_ms st))]),
      (''m6_1_1_timings'', JObj (shim_timings hr st @ shim_edge_probes hr st @ shim_prompt_audit st))]"

text \<open>An output's event holds its whole text; an output without completions has none.\<close>

definition shim_chunk_json :: "string \<Rightarrow> completion_output \<Rightarrow> json" where
  "shim_chunk_json completion_id c =
     JObj [(''id'', JStr completion_id),
           (''choices'', JList [JObj [(''delta'', JObj [(''content'', JStr (co_text c))]), (''index'', JInt 0)]])]"

definition format_shim_chunk :: "(real \<Rightarrow> string) \<Rightarrow> string \<Rightarrow> engine_output \<Rightarrow> string list" where
  "format_shim_chunk fl completion_id out = (case eo_outputs out of
     [] \<Rightarrow> [] | c # _ \<Rightarrow> [sse_event fl (shim_chunk_json completion_id c)])"

text \<open>
  The body: the first output, taken before the headers were sent, and the others run through the same
  code. The result is the events and the state, or what ended it.
\<close>

fun shim_loop ::
  "(string \<Rightarrow> string) \<Rightarrow> (real \<Rightarrow> string) \<Rightarrow> string \<Rightarrow> stream_state \<Rightarrow> timed_output list \<Rightarrow> run_end
     \<Rightarrow> string list \<times> stream_state py_result" where
  "shim_loop blake fl cid st [] e = ([], case e of
     Engine_Exhausted \<Rightarrow> Inr st | Engine_Raised exc \<Rightarrow> Inl exc
   | Engine_Cancelled \<Rightarrow> Inl (Exn ''CancelledError'' []))"
| "shim_loop blake fl cid st ((out, rd) # xs) e =
     (case shim_observe blake out rd st of
        Inl exc \<Rightarrow> ([], Inl exc)
      | Inr st' \<Rightarrow> (let (evs, r) = shim_loop blake fl cid st' xs e
                    in (format_shim_chunk fl cid out @ evs, r)))"

definition last_output :: "timed_output list \<Rightarrow> engine_output option" where
  "last_output xs = (if xs = [] then None else Some (fst (last xs)))"

definition shim_body ::
  "('p, 'a) shim_env \<Rightarrow> shim_reads \<Rightarrow> timed_output list \<Rightarrow> run_end \<Rightarrow> string list \<times> py_exn option" where
  "shim_body env hr xs e =
     (let cid = ''chatcmpl-'' @ sh_uuid env;
          (evs, r) = shim_loop (sh_blake env) (sh_fl env) cid initial_stream_state xs e
      in case r of
           Inl exc \<Rightarrow> (evs, Some exc)
         | Inr st \<Rightarrow>
             (evs @ [sse_event (sh_fl env)
                       (JObj (shim_terminal cid hr (shim_refresh_last_token (last_output xs) st))),
                     format_sse_done], None))"

text \<open>The first output is pulled before the response starts, so an engine that raises there is no stream.\<close>

definition raised_first :: "timed_output list \<Rightarrow> run_end \<Rightarrow> py_exn option" where
  "raised_first xs e = (if xs \<noteq> [] then None else case e of
     Engine_Exhausted \<Rightarrow> None | Engine_Raised exc \<Rightarrow> Some exc | Engine_Cancelled \<Rightarrow> Some (Exn ''CancelledError'' []))"

definition full_text :: "timed_output list \<Rightarrow> string" where
  "full_text xs = fold (\<lambda>x t. case eo_outputs (fst x) of [] \<Rightarrow> t | c # _ \<Rightarrow> co_text c) xs []"

definition run_error :: "run_end \<Rightarrow> py_exn option" where
  "run_error e = (case e of
     Engine_Exhausted \<Rightarrow> None | Engine_Raised exc \<Rightarrow> Some exc | Engine_Cancelled \<Rightarrow> Some (Exn ''CancelledError'' []))"

definition shim_chat_completions ::
  "('p, 'a) shim_env \<Rightarrow> shim_reads \<Rightarrow> shim_chat_request \<Rightarrow> http_reply py_result" where
  "shim_chat_completions env hr req =
     bind_result (sh_SamplingParams env (hc_max_tokens req) (hc_seed req)) (\<lambda>sampling.
       let (xs, e) = sh_generate env (Text_Input (concat (map hm_content (hc_messages req)))) sampling
                       (''rest-chat-'' @ sh_uuid env)
       in if hc_stream req
          then (case raised_first xs e of
                  Some exc \<Rightarrow> Inl exc
                | None \<Rightarrow> Inr (Stream_Reply [overhead_header hr, (''Cache-Control'', ''no-cache'')]
                                 (shim_body env hr xs e)))
          else (case run_error e of
                  Some exc \<Rightarrow> Inl exc
                | None \<Rightarrow> Inr (Json_Reply 200
                    (JObj [(''id'', JStr (''chatcmpl-'' @ sh_uuid env)),
                           (''choices'', JList [JObj
                              [(''message'', JObj [(''role'', JStr ''assistant''), (''content'', JStr (full_text xs))]),
                               (''index'', JInt 0), (''finish_reason'', JStr ''stop'')]])]) [overhead_header hr])))"

section \<open>The embeddings endpoint\<close>

text \<open>\<open>base64.b64decode(s, validate=True)\<close>: only the alphabet, and padding only where a group needs it.\<close>

definition strict_b64 :: "string \<Rightarrow> bool" where
  "strict_b64 s =
     (let body = takeWhile (\<lambda>c. b64_val c \<noteq> None) s; pads = drop (length body) s
      in list_all (\<lambda>c. c = PAD) pads \<and> length pads \<le> 2 \<and> length s mod 4 = 0)"

definition b64decode_strict :: "string \<Rightarrow> string py_result" where
  "b64decode_strict s =
     (if strict_b64 s then b64decode s
      else Inl (Lib_Exn ''Error'' ''Only base64 data is allowed'' [''Error'', ''ValueError''] None None))"

definition INPUT_KINDS :: "string list" where
  "INPUT_KINDS = [''prompt_embedding_b64'', ''prompt_embedding_torch_b64'', ''text'']"

definition error_reply :: "int \<Rightarrow> string \<Rightarrow> http_reply" where
  "error_reply status msg = Json_Reply status (JObj [(''error'', JStr msg)]) []"

text \<open>The engine's input, or the reply that refuses the request; the checks are in the code's order.\<close>

definition embed_prompt ::
  "('p, 'a) shim_env \<Rightarrow> shim_embed_request \<Rightarrow> http_reply + 'a engine_input" where
  "embed_prompt env req =
     (if \<not> List.member INPUT_KINDS (he_input_kind req) then Inl (error_reply 422 ''unsupported input_kind'')
      else if \<not> List.member [2048, 4096, 8192] (he_hidden_size req)
      then Inl (error_reply 422 ''hidden_size must be 2048/4096/8192'')
      else if he_input_kind req = ''text'' then Inr (Text_Input (he_input req))
      else case b64decode_strict (he_input req) of
             Inl _ \<Rightarrow> Inl (error_reply 400 ''input not valid base64'')
           | Inr raw \<Rightarrow>
               if he_input_kind req = ''prompt_embedding_torch_b64''
               then (case decode_embeds (sh_torch_load env) raw of
                       Inl exc \<Rightarrow> Inl (error_reply 422 (''decode_embeds failed: '' @ exn_msg exc))
                     | Inr t \<Rightarrow> Inr (Tensor_Input t))
               else Inr (Text_Input (''embeds:'' @ sh_blake env raw)))"

text \<open>What the loop over the outputs keeps: the snapshot of the first, the last, its text and reason.\<close>

record embed_run =
  eu_state :: unary_state
  eu_final_output :: "engine_output option"
  eu_final_text :: string
  eu_final_finish :: string

definition initial_embed_run :: embed_run where
  "initial_embed_run =
     \<lparr>eu_state = initial_unary_state, eu_final_output = None, eu_final_text = [], eu_final_finish = ''stop''\<rparr>"

definition embed_snapshot ::
  "(string \<Rightarrow> string) \<Rightarrow> timed_output \<Rightarrow> unary_state \<Rightarrow> unary_state py_result" where
  "embed_snapshot blake x st =
     (let (out, rd) = x
      in if us_first_chunk_ns st \<noteq> None then Inr st
         else
           (let st1 = st\<lparr>us_first_chunk_ns := Some (sr_first_ns rd)\<rparr>
            in bind_result
                 (if prompt_ids out \<noteq> []
                  then bind_result (prompt_hash blake (prompt_ids out)) (\<lambda>h.
                         Inr (st1\<lparr>us_tokenized_prompt_length := Some (int (length (prompt_ids out))),
                                  us_tokenized_prompt_hash := Some h\<rparr>))
                  else Inr st1) (\<lambda>st2.
               Inr (case eo_metrics out of
                      None \<Rightarrow> st2
                    | Some m \<Rightarrow> st2\<lparr>us_engine_arrival_ns := stat_ns (em_arrival_time m),
                                    us_engine_queued_ns := stat_ns (em_queued_ts m),
                                    us_engine_scheduled_ns := stat_ns (em_scheduled_ts m),
                                    us_engine_first_token_ns := stat_ns (em_first_token_ts m)\<rparr>))))"

definition embed_on_output ::
  "(string \<Rightarrow> string) \<Rightarrow> timed_output \<Rightarrow> embed_run \<Rightarrow> embed_run py_result" where
  "embed_on_output blake x u =
     bind_result (embed_snapshot blake x (eu_state u)) (\<lambda>st.
       let u1 = u\<lparr>eu_state := st, eu_final_output := Some (fst x)\<rparr>
       in Inr (case eo_outputs (fst x) of
                 [] \<Rightarrow> u1
               | c # _ \<Rightarrow> u1\<lparr>eu_final_text := co_text c, eu_final_finish := reason_or_stop c\<rparr>))"

fun embed_drain ::
  "(string \<Rightarrow> string) \<Rightarrow> embed_run \<Rightarrow> timed_output list \<Rightarrow> run_end \<Rightarrow> embed_run py_result" where
  "embed_drain blake u [] e = (case run_error e of None \<Rightarrow> Inr u | Some exc \<Rightarrow> Inl exc)"
| "embed_drain blake u (x # xs) e =
     bind_result (embed_on_output blake x u) (\<lambda>u'. embed_drain blake u' xs e)"

definition embed_refresh_last_token :: "engine_output option \<Rightarrow> unary_state \<Rightarrow> unary_state" where
  "embed_refresh_last_token final st = (case Option.bind final eo_metrics of
     None \<Rightarrow> st
   | Some m \<Rightarrow> (case em_last_token_ts m of
        None \<Rightarrow> st
      | Some t \<Rightarrow> if t = 0 then st else st\<lparr>us_engine_last_token_ns := trunc_real (t * 1000000000)\<rparr>))"

definition embed_timings :: "shim_reads \<Rightarrow> unary_state \<Rightarrow> json_dict" where
  "embed_timings hr st =
     [(''handler_entry_ns'', JInt (er_handler_entry_ns (hr_entry hr))),
      (''pre_engine_ns'', JInt (er_pre_engine_ns (hr_entry hr))),
      (''first_chunk_ns'', JInt (case us_first_chunk_ns st of Some n \<Rightarrow> n | None \<Rightarrow> hr_terminal_ns hr)),
      (''terminal_emit_ns'', JInt (hr_terminal_ns hr)),
      (''perturbation_audit_ns'', JInt (perturbation_audit (hr_entry hr))),
      (''engine_arrival_ns'', JInt (us_engine_arrival_ns st)),
      (''engine_queued_ns'', JInt (us_engine_queued_ns st)),
      (''engine_scheduled_ns'', JInt (us_engine_scheduled_ns st)),
      (''engine_first_token_ns'', JInt (us_engine_first_token_ns st)),
      (''engine_last_token_ns'', JInt (us_engine_last_token_ns st)),
      (''tokenized_prompt_length'', opt_json_int (us_tokenized_prompt_length st)),
      (''tokenized_prompt_hash'', opt_json_str (us_tokenized_prompt_hash st))]"

definition embed_body :: "shim_reads \<Rightarrow> embed_run \<Rightarrow> json_dict" where
  "embed_body hr u =
     [(''model'', JStr ''mock''), (''generated_text'', JStr (eu_final_text u)),
      (''finish_reason'', JStr (eu_final_finish u)),
      (''engine_cost'', JObj [(''engine_forward_ms'',
         JFloat ((hr_finished_at hr - er_start (hr_entry hr)) * 1000))]),
      (''m6_1_1_timings'',
         JObj (embed_timings hr (embed_refresh_last_token (eu_final_output u) (eu_state u))))]"

definition shim_embeddings ::
  "('p, 'a) shim_env \<Rightarrow> shim_reads \<Rightarrow> shim_embed_request \<Rightarrow> http_reply py_result" where
  "shim_embeddings env hr req =
     (case embed_prompt env req of
        Inl reply \<Rightarrow> Inr reply
      | Inr engine_input \<Rightarrow>
          bind_result (sh_SamplingParams env (he_max_tokens req) (he_seed req)) (\<lambda>sampling.
            let (xs, e) = sh_generate env engine_input sampling (''rest-embed-'' @ sh_uuid env)
            in bind_result (embed_drain (sh_blake env) initial_embed_run xs e) (\<lambda>u.
                 Inr (Json_Reply 200 (JObj (embed_body hr u)) [overhead_header hr]))))"

section \<open>The application\<close>

text \<open>
  A call after pydantic's validation: the path with the parsed body. A body the classes refuse, and a
  path no route has, are answered by FastAPI and are not calls of the program.
\<close>

datatype shim_call = Shim_Healthz | Shim_Chat shim_chat_request | Shim_Embed shim_embed_request

definition shim_path :: "shim_call \<Rightarrow> string" where
  "shim_path call = (case call of
     Shim_Healthz \<Rightarrow> ''/healthz'' | Shim_Chat _ \<Rightarrow> ''/v1/chat/completions'' | Shim_Embed _ \<Rightarrow> ''/v1/embeddings'')"

definition rest_shim ::
  "('p, 'a) shim_env \<Rightarrow> string \<Rightarrow> shim_reads \<Rightarrow> string option \<Rightarrow> shim_call \<Rightarrow> http_reply py_result" where
  "rest_shim env expected_token hr authorization call =
     (if \<not> shim_authorized expected_token (shim_path call) authorization then Inr unauthorized_reply
      else case call of
             Shim_Healthz \<Rightarrow> Inr shim_healthz
           | Shim_Chat req \<Rightarrow> shim_chat_completions env hr req
           | Shim_Embed req \<Rightarrow> shim_embeddings env hr req)"

section \<open>Lemmas\<close>

text \<open>The instrumentation is the frontend's.\<close>

lemma shim_capture_first_eq: "shim_capture_first = chat_capture_first"
  by (intro ext) (simp add: shim_capture_first_def chat_capture_first_def Let_def)

lemma embed_snapshot_eq: "embed_snapshot = unary_on_output"
  by (intro ext) (simp add: embed_snapshot_def unary_on_output_def Let_def split: prod.split)

lemma embed_refresh_eq: "embed_refresh_last_token = unary_refresh_last_token"
  by (intro ext) (simp add: embed_refresh_last_token_def unary_refresh_last_token_def)

lemma shim_ttft_eq: "shim_ttft_ms = completions_engine_ttft_ms"
  by (intro ext) (simp add: shim_ttft_ms_def completions_engine_ttft_ms_def)

lemmas shim_copies = shim_capture_first_eq embed_snapshot_eq embed_refresh_eq shim_ttft_eq

text \<open>What the standard encoder writes passes the strict check.\<close>

lemma b64_val_pad: "b64_val PAD = None"
  by (simp add: b64_val_def)

lemma strict_b64_group:
  "v1 < 64 \<Longrightarrow> v2 < 64 \<Longrightarrow> v3 < 64 \<Longrightarrow> v4 < 64
   \<Longrightarrow> strict_b64 (b64_char v1 # b64_char v2 # b64_char v3 # b64_char v4 # s) = strict_b64 s"
  by (simp add: strict_b64_def Let_def)

lemma strict_b64_end:
  "strict_b64 []"
  "v1 < 64 \<Longrightarrow> v2 < 64 \<Longrightarrow> strict_b64 [b64_char v1, b64_char v2, PAD, PAD]"
  "v1 < 64 \<Longrightarrow> v2 < 64 \<Longrightarrow> v3 < 64 \<Longrightarrow> strict_b64 [b64_char v1, b64_char v2, b64_char v3, PAD]"
  by (simp_all add: strict_b64_def Let_def b64_val_pad)

lemma b64_encode_strict:
  "list_all (\<lambda>b. b < 256) bs \<Longrightarrow> strict_b64 (b64_encode bs)"
  by (induction bs rule: b64_encode.induct)
    (auto intro!: strict_b64_end strict_b64_group[THEN iffD2] b64_bounds)

lemma b64decode_strict_encode [simp]: "b64decode_strict (b64encode bytes) = Inr bytes"
  using b64_encode_strict[of "map of_char bytes"]
  by (simp add: b64decode_strict_def b64encode_def[symmetric] list_all_iff)

end
