(* ===== verification/Rpc_Driver.thy ===== *)
theory Rpc_Driver
  imports Dispatch Engine_Cost Timing Grpc_Wire Py_Text Bench_Deploy Channel_Config Prompts Py_Base64
begin

text \<open>
  \<open>tools/benchmark/src/vllm_grpc_bench/rpc_driver.py\<close> and the probe of \<open>rtt_probe.py\<close>: the driver a
  Modal-backed sweep calls for every RPC. What grpcio and httpx do with one call is a field of \<open>rpc_net\<close>:
  it is given the request that goes out and returns what the code reads of the call, with the clock
  readings the code takes; the world is threaded through. torch and the JSON reader are fields of
  \<open>driver_env\<close>.
\<close>

record driver_env =
  dv_digest :: "string \<Rightarrow> string"
  dv_randn_saved :: "int \<Rightarrow> int \<Rightarrow> int \<Rightarrow> string"
  dv_fl :: "real \<Rightarrow> string"
  dv_loads :: "string \<Rightarrow> json py_result"
  dv_other :: "json \<Rightarrow> string"

section \<open>Seeds, tensors and URLs\<close>

text \<open>
  \<open>dv_randn_saved seq_len hidden_size seed\<close> is \<open>torch.save\<close> of a half-precision \<open>torch.randn\<close> drawn
  from a generator with that seed.
\<close>

definition torch_generator_seed :: "int \<Rightarrow> int \<Rightarrow> int py_result" where
  "torch_generator_seed rpc_index base_seed =
     (if rpc_index < 0 then Inl (value_error (''rpc_index must be >= 0, got '' @ str_int rpc_index))
      else Inr (base_seed + rpc_index))"

definition build_torch_save_bytes :: "driver_env \<Rightarrow> int \<Rightarrow> int \<Rightarrow> int \<Rightarrow> int \<Rightarrow> string py_result" where
  "build_torch_save_bytes env seq_len hidden_size rpc_index base_seed =
     bind_result (torch_generator_seed rpc_index base_seed)
       (\<lambda>seed. Inr (dv_randn_saved env seq_len hidden_size seed))"

definition resolve_rpc_index :: "int \<Rightarrow> int \<Rightarrow> int" where
  "resolve_rpc_index seed base_seed = max 0 (seed - base_seed)"

definition normalize_rest_url_for_httpx :: "string \<Rightarrow> string" where
  "normalize_rest_url_for_httpx url =
     (if starts_with ''tcp+plaintext://'' url then ''http://'' @ drop (length ''tcp+plaintext://'') url
      else if starts_with ''http://'' url \<or> starts_with ''https://'' url then url
      else ''http://'' @ url)"

section \<open>Request builders\<close>

definition probe_prompt :: "driver_env \<Rightarrow> int \<Rightarrow> string option \<Rightarrow> string" where
  "probe_prompt env seed prompt =
     (case prompt of Some p \<Rightarrow> p | None \<Rightarrow> build_chat_prompt (dv_digest env) seed)"

text \<open>The generated constructors raise for a number outside its field.\<close>

definition build_chat_grpc_request ::
  "driver_env \<Rightarrow> int \<Rightarrow> int \<Rightarrow> bool \<Rightarrow> string option \<Rightarrow> chat_complete_request py_result" where
  "build_chat_grpc_request env seed max_tokens ignore_eos prompt =
     (if fields_in_range max_tokens (Some seed)
      then Inr \<lparr>cq_messages = [\<lparr>cm_role = ''user'', cm_content = probe_prompt env seed prompt\<rparr>],
                cq_model = ''mock-engine'', cq_max_tokens = max_tokens, cq_temperature = None,
                cq_top_p = None, cq_seed = Some seed, cq_ignore_eos = ignore_eos\<rparr>
      else Inl (value_error ''Value out of range''))"

definition ignore_eos_entry :: "bool \<Rightarrow> json_dict" where
  "ignore_eos_entry ignore_eos = (if ignore_eos then [(''ignore_eos'', JBool True)] else [])"

definition build_chat_rest_payload ::
  "driver_env \<Rightarrow> int \<Rightarrow> int \<Rightarrow> bool \<Rightarrow> string option \<Rightarrow> json_dict" where
  "build_chat_rest_payload env seed max_tokens ignore_eos prompt =
     [(''model'', JStr ''mock''),
      (''messages'', JList [JObj [(''role'', JStr ''user''),
                                  (''content'', JStr (probe_prompt env seed prompt))]]),
      (''stream'', JBool True), (''max_tokens'', JInt max_tokens), (''temperature'', JFloat 1),
      (''seed'', JInt seed)] @ ignore_eos_entry ignore_eos"

definition embed_bytes ::
  "driver_env \<Rightarrow> int \<Rightarrow> int \<Rightarrow> int \<Rightarrow> int \<Rightarrow> string option \<Rightarrow> string py_result" where
  "embed_bytes env seq_len hidden_size rpc_index base_seed override =
     (case override of Some b \<Rightarrow> Inr b
                     | None \<Rightarrow> build_torch_save_bytes env seq_len hidden_size rpc_index base_seed)"

definition sampling_seed :: "int \<Rightarrow> int \<Rightarrow> int option \<Rightarrow> int" where
  "sampling_seed rpc_index base_seed seed = (case seed of Some s \<Rightarrow> s | None \<Rightarrow> base_seed + rpc_index)"

definition build_embed_grpc_request ::
  "driver_env \<Rightarrow> int \<Rightarrow> int \<Rightarrow> int \<Rightarrow> int \<Rightarrow> int \<Rightarrow> bool \<Rightarrow> string option \<Rightarrow> int option
     \<Rightarrow> completion_request py_result" where
  "build_embed_grpc_request env seq_len hidden_size rpc_index base_seed max_tokens ignore_eos override seed =
     bind_result (embed_bytes env seq_len hidden_size rpc_index base_seed override) (\<lambda>payload.
       let sd = sampling_seed rpc_index base_seed seed
       in if fields_in_range max_tokens (Some sd)
          then Inr \<lparr>nq_model = [], nq_max_tokens = max_tokens, nq_temperature = None, nq_top_p = None,
                    nq_seed = Some sd, nq_input = Some (Embeds_Input payload), nq_ignore_eos = ignore_eos\<rparr>
          else Inl (value_error ''Value out of range''))"

definition build_embed_rest_payload ::
  "driver_env \<Rightarrow> int \<Rightarrow> int \<Rightarrow> int \<Rightarrow> int \<Rightarrow> int \<Rightarrow> bool \<Rightarrow> string option \<Rightarrow> int option
     \<Rightarrow> json_dict py_result" where
  "build_embed_rest_payload env seq_len hidden_size rpc_index base_seed max_tokens ignore_eos override seed =
     bind_result (embed_bytes env seq_len hidden_size rpc_index base_seed override) (\<lambda>raw.
       Inr ([(''model'', JStr ''mock''), (''input_kind'', JStr ''prompt_embedding_torch_b64''),
             (''input'', JStr (b64encode raw)), (''hidden_size'', JInt hidden_size),
             (''max_tokens'', JInt max_tokens), (''seed'', JInt (sampling_seed rpc_index base_seed seed))]
            @ ignore_eos_entry ignore_eos))"

section \<open>One call on the wire\<close>

text \<open>A channel, as its target and options.\<close>

record grpc_channel =
  gc_target :: string
  gc_kwargs :: client_kwargs

definition open_grpc_channel :: "string \<Rightarrow> channel_config \<Rightarrow> grpc_channel" where
  "open_grpc_channel target cfg = \<lparr>gc_target = target, gc_kwargs = client_kwargs_of cfg\<rparr>"

text \<open>
  The chunks of a stream each with the reading taken when it has come, what ended it early, the reading
  after it, and what \<open>trailing_metadata()\<close> gives.
\<close>

record grpc_stream_run =
  gs_t0 :: real
  gs_chunks :: "(chat_stream_chunk \<times> real) list"
  gs_error :: "py_exn option"
  gs_done_at :: real
  gs_trailers :: "str_dict option py_result"

record grpc_unary_run =
  gu_t0 :: real
  gu_error :: "py_exn option"
  gu_done_at :: real
  gu_trailers :: "str_dict option py_result"

record http_stream_run =
  hs_t0 :: real
  hs_open :: "int py_result"
  hs_lines :: "(string \<times> real) list"
  hs_error :: "py_exn option"
  hs_done_at :: real

record http_post_run =
  hp_t0 :: real
  hp_answer :: "(int \<times> string) py_result"
  hp_done_at :: real

record 'w rpc_net =
  rn_chat_stream :: "grpc_channel \<Rightarrow> str_dict \<Rightarrow> real \<Rightarrow> chat_complete_request \<Rightarrow> 'w \<Rightarrow> grpc_stream_run \<times> 'w"
  rn_complete :: "grpc_channel \<Rightarrow> str_dict \<Rightarrow> real \<Rightarrow> completion_request \<Rightarrow> 'w \<Rightarrow> grpc_unary_run \<times> 'w"
  rn_ping :: "grpc_channel \<Rightarrow> str_dict \<Rightarrow> real \<Rightarrow> 'w \<Rightarrow> (real \<times> real) py_result \<times> 'w"
  rn_stream :: "string \<Rightarrow> str_dict \<Rightarrow> string \<Rightarrow> real \<Rightarrow> 'w \<Rightarrow> http_stream_run \<times> 'w"
  rn_post :: "string \<Rightarrow> str_dict \<Rightarrow> string \<Rightarrow> real \<Rightarrow> 'w \<Rightarrow> http_post_run \<times> 'w"
  rn_get :: "string \<Rightarrow> real \<Rightarrow> 'w \<Rightarrow> ((real \<times> real) \<times> int \<times> string) py_result \<times> 'w"
  rn_close_channel :: "grpc_channel \<Rightarrow> 'w \<Rightarrow> 'w"
  rn_close_client :: "'w \<Rightarrow> 'w"

section \<open>What a call becomes\<close>

definition failed_rpc :: "string \<Rightarrow> rpc_result" where
  "failed_rpc reason =
     \<lparr>rr_success = False, rr_wall_clock_ms = None, rr_ttft_ms = None, rr_engine_cost = None,
      rr_failure_reason = Some (take 120 reason), rr_timing_payload = None\<rparr>"

definition succeeded_rpc ::
  "real \<Rightarrow> real option \<Rightarrow> engine_cost_span option \<Rightarrow> timing_checkpoint option \<Rightarrow> rpc_result" where
  "succeeded_rpc wall_ms ttft_ms cost ckpt =
     \<lparr>rr_success = True, rr_wall_clock_ms = Some wall_ms, rr_ttft_ms = ttft_ms, rr_engine_cost = cost,
      rr_failure_reason = None, rr_timing_payload = timing_checkpoint_to_payload ckpt\<rparr>"

text \<open>
  \<open>except grpc.RpcError\<close> and \<open>except httpx.HTTPError\<close>; any other exception leaves the driver, as does
  the \<open>AttributeError\<close> of an \<open>RpcError\<close> without \<open>code()\<close> or \<open>details()\<close>.
\<close>

definition grpc_failure :: "string \<Rightarrow> py_exn \<Rightarrow> rpc_outcome" where
  "grpc_failure label exc =
     (if \<not> isinstance exc ''grpc.RpcError'' then Inl exc
      else case (code_of exc, details_of exc) of
             (Some code, Some details) \<Rightarrow>
               Inr (failed_rpc (label @ '': StatusCode.'' @ code @ '' ''
                                @ (case details of None \<Rightarrow> ''None'' | Some d \<Rightarrow> d)))
           | _ \<Rightarrow> Inl (Exn ''AttributeError'' ''object has no attribute''))"

definition http_failure :: "string \<Rightarrow> py_exn \<Rightarrow> rpc_outcome" where
  "http_failure label exc =
     (if isinstance exc ''httpx.HTTPError''
      then Inr (failed_rpc (label @ '': '' @ exn_name exc @ '': '' @ exn_msg exc)) else Inl exc)"

definition elapsed_ms :: "real \<Rightarrow> real \<Rightarrow> real" where
  "elapsed_ms t0 t = (t - t0) * 1000"

definition driver_ttft_ms :: "real \<Rightarrow> real option \<Rightarrow> real option" where
  "driver_ttft_ms t0 first_at = (case first_at of
     None \<Rightarrow> None | Some t \<Rightarrow> if t \<noteq> 0 then Some (elapsed_ms t0 t) else None)"

text \<open>\<open>except Exception: md = None\<close>; a cancellation is no \<open>Exception\<close>.\<close>

definition trailers_or_none :: "str_dict option py_result \<Rightarrow> str_dict option py_result" where
  "trailers_or_none r = (case r of
     Inr md \<Rightarrow> Inr md
   | Inl exc \<Rightarrow> if isinstance exc ''CancelledError'' then Inl exc else Inr None)"

text \<open>The dict of the metadata keeps the last value of a repeated key.\<close>

definition grpc_success ::
  "path \<Rightarrow> real \<Rightarrow> real option \<Rightarrow> str_dict option py_result \<Rightarrow> rpc_outcome" where
  "grpc_success p wall_ms ttft_ms trailers =
     bind_result (trailers_or_none trailers) (\<lambda>md.
       Inr (succeeded_rpc wall_ms ttft_ms
              (Option.bind md (\<lambda>kvs. parse_grpc_trailing_metadata kvs p))
              (Option.bind md (\<lambda>kvs. extract_grpc_timings (rev kvs)))))"

definition first_content_at :: "(chat_stream_chunk \<times> real) list \<Rightarrow> real option" where
  "first_content_at cs = map_option snd (find (\<lambda>c. ck_delta_content (fst c) \<noteq> []) cs)"

definition drive_grpc_chat_stream ::
  "driver_env \<Rightarrow> 'w rpc_net \<Rightarrow> grpc_channel \<Rightarrow> int \<Rightarrow> str_dict \<Rightarrow> real \<Rightarrow> int \<Rightarrow> bool \<Rightarrow> string option
     \<Rightarrow> 'w \<Rightarrow> rpc_outcome \<times> 'w" where
  "drive_grpc_chat_stream env net channel seed metadata timeout_s max_tokens ignore_eos prompt w =
     (case build_chat_grpc_request env seed max_tokens ignore_eos prompt of
        Inl exc \<Rightarrow> (Inl exc, w)
      | Inr req \<Rightarrow>
          (let (run, w') = rn_chat_stream net channel metadata timeout_s req w
           in (case gs_error run of
                 Some exc \<Rightarrow> grpc_failure ''grpc chat'' exc
               | None \<Rightarrow> grpc_success Chat_Stream (elapsed_ms (gs_t0 run) (gs_done_at run))
                          (driver_ttft_ms (gs_t0 run) (first_content_at (gs_chunks run))) (gs_trailers run), w')))"

definition drive_grpc_embed ::
  "driver_env \<Rightarrow> 'w rpc_net \<Rightarrow> grpc_channel \<Rightarrow> cell \<Rightarrow> int \<Rightarrow> int \<Rightarrow> int \<Rightarrow> str_dict \<Rightarrow> real \<Rightarrow> int \<Rightarrow> bool
     \<Rightarrow> string option \<Rightarrow> 'w \<Rightarrow> rpc_outcome \<times> 'w" where
  "drive_grpc_embed env net channel cell seq_len rpc_index base_seed metadata timeout_s max_tokens
       ignore_eos override w =
     (case build_embed_grpc_request env seq_len (cell_hidden_size cell) rpc_index base_seed max_tokens
             ignore_eos override None of
        Inl exc \<Rightarrow> (Inl exc, w)
      | Inr req \<Rightarrow>
          (let (run, w') = rn_complete net channel metadata timeout_s req w
           in (case gu_error run of
                 Some exc \<Rightarrow> grpc_failure ''grpc embed'' exc
               | None \<Rightarrow> grpc_success Embed (elapsed_ms (gu_t0 run) (gu_done_at run)) None (gu_trailers run),
               w')))"

section \<open>The REST dispatchers\<close>

definition rest_line ::
  "string \<times> real \<Rightarrow> real option \<times> string option \<Rightarrow> real option \<times> string option" where
  "rest_line = (\<lambda>(line, arrived) (first_at, last_payload).
     if \<not> starts_with ''data:'' line \<or> has_substring ''[DONE]'' line then (first_at, last_payload)
     else (if first_at = None then Some arrived else first_at, Some (py_strip (drop (length ''data:'') line))))"

text \<open>\<open>json.loads\<close> under \<open>except (ValueError, json.JSONDecodeError)\<close>.\<close>

definition loads_or :: "driver_env \<Rightarrow> json \<Rightarrow> string \<Rightarrow> json py_result" where
  "loads_or env fallback s = (case dv_loads env s of
     Inr v \<Rightarrow> Inr v
   | Inl exc \<Rightarrow> if isinstance exc ''ValueError'' then Inr fallback else Inl exc)"

definition cost_and_timings ::
  "driver_env \<Rightarrow> path \<Rightarrow> json \<Rightarrow> engine_cost_span option \<times> timing_checkpoint option" where
  "cost_and_timings env p v = (case v of
     JObj d \<Rightarrow> (parse_rest_response d p, extract_rest_timings (dv_other env) d) | _ \<Rightarrow> (None, None))"

definition rest_stream_success :: "driver_env \<Rightarrow> http_stream_run \<Rightarrow> rpc_outcome" where
  "rest_stream_success env run =
     (let (first_at, last_payload) = fold rest_line (hs_lines run) (None, None)
      in bind_result (if truthy last_payload then loads_or env JNull (the last_payload) else Inr JNull)
           (\<lambda>terminal. let (cost, ckpt) = cost_and_timings env Chat_Stream terminal
                       in Inr (succeeded_rpc (elapsed_ms (hs_t0 run) (hs_done_at run))
                                 (driver_ttft_ms (hs_t0 run) first_at) cost ckpt)))"

definition json_headers :: "str_dict \<Rightarrow> str_dict" where
  "json_headers auth = AList.update ''content-type'' ''application/json'' auth"

definition drive_rest_chat_stream ::
  "driver_env \<Rightarrow> 'w rpc_net \<Rightarrow> string \<Rightarrow> str_dict \<Rightarrow> int \<Rightarrow> real \<Rightarrow> int \<Rightarrow> bool \<Rightarrow> string option
     \<Rightarrow> 'w \<Rightarrow> rpc_outcome \<times> 'w" where
  "drive_rest_chat_stream env net base_url auth seed timeout_s max_tokens ignore_eos prompt w =
     (let body = json_dumps (dv_fl env) (JObj (build_chat_rest_payload env seed max_tokens ignore_eos prompt));
          (run, w') = rn_stream net (base_url @ ''/v1/chat/completions'') (json_headers auth) body timeout_s w
      in (case hs_open run of
            Inl exc \<Rightarrow> http_failure ''rest chat'' exc
          | Inr status \<Rightarrow>
              if status \<noteq> 200 then Inr (failed_rpc (''rest chat: '' @ str_int status))
              else (case hs_error run of
                      Some exc \<Rightarrow> http_failure ''rest chat'' exc
                    | None \<Rightarrow> rest_stream_success env run), w'))"

definition rest_embed_success :: "driver_env \<Rightarrow> real \<Rightarrow> string \<Rightarrow> rpc_outcome" where
  "rest_embed_success env wall_ms body =
     bind_result (loads_or env (JObj []) body) (\<lambda>payload.
       let (cost, ckpt) = cost_and_timings env Embed payload
       in Inr (succeeded_rpc wall_ms None cost ckpt))"

definition drive_rest_embed ::
  "driver_env \<Rightarrow> 'w rpc_net \<Rightarrow> string \<Rightarrow> str_dict \<Rightarrow> cell \<Rightarrow> int \<Rightarrow> int \<Rightarrow> int \<Rightarrow> real \<Rightarrow> int \<Rightarrow> bool
     \<Rightarrow> string option \<Rightarrow> 'w \<Rightarrow> rpc_outcome \<times> 'w" where
  "drive_rest_embed env net base_url auth cell seq_len rpc_index base_seed timeout_s max_tokens
       ignore_eos override w =
     (case build_embed_rest_payload env seq_len (cell_hidden_size cell) rpc_index base_seed max_tokens
             ignore_eos override None of
        Inl exc \<Rightarrow> (Inl exc, w)
      | Inr body \<Rightarrow>
          (let (run, w') = rn_post net (base_url @ ''/v1/embeddings'') (json_headers auth)
                             (json_dumps (dv_fl env) (JObj body)) timeout_s w
           in (case hp_answer run of
                 Inl exc \<Rightarrow> http_failure ''rest embed'' exc
               | Inr (status, answer) \<Rightarrow>
                   if status \<noteq> 200 then Inr (failed_rpc (''rest embed: '' @ str_int status))
                   else rest_embed_success env (elapsed_ms (hp_t0 run) (hp_done_at run)) answer, w')))"

section \<open>Round-trip probes\<close>

text \<open>\<open>n\<close> calls one after the other; the first that raises ends the probe.\<close>

fun probe_loop :: "nat \<Rightarrow> ('w \<Rightarrow> real py_result \<times> 'w) \<Rightarrow> 'w \<Rightarrow> real list py_result \<times> 'w" where
  "probe_loop 0 call w = (Inr [], w)"
| "probe_loop (Suc n) call w =
     (case call w of
        (Inl exc, w1) \<Rightarrow> (Inl exc, w1)
      | (Inr x, w1) \<Rightarrow> (let (r, w2) = probe_loop n call w1
                        in (bind_result r (\<lambda>xs. Inr (x # xs)), w2)))"

definition ping_once :: "'w rpc_net \<Rightarrow> grpc_channel \<Rightarrow> str_dict \<Rightarrow> 'w \<Rightarrow> real py_result \<times> 'w" where
  "ping_once net channel metadata w =
     (let (r, w') = rn_ping net channel metadata 5 w in (bind_result r (\<lambda>(t0, t1). Inr (t1 - t0)), w'))"

definition rtt_of_pings :: "int \<Rightarrow> real list \<Rightarrow> rtt_record py_result" where
  "rtt_of_pings n samples_seconds =
     (let samples_ms = map (\<lambda>s. s * 1000) samples_seconds
      in bind_result (rtt_percentile samples_ms 95) (\<lambda>p95.
           mk_rtt_record n (median_of samples_ms) p95 samples_ms))"

definition measure_rtt ::
  "'w rpc_net \<Rightarrow> grpc_channel \<Rightarrow> int \<Rightarrow> str_dict \<Rightarrow> 'w \<Rightarrow> rtt_record py_result \<times> 'w" where
  "measure_rtt net channel n metadata w =
     (if n < 1 then (Inl (value_error (''measure_rtt: n must be >= 1 (got '' @ str_int n @ '')'')), w)
      else (let (r, w') = probe_loop (nat n) (ping_once net channel metadata) w
            in (bind_result r (rtt_of_pings n), w')))"

definition is_below_threshold :: "rtt_record \<Rightarrow> real \<Rightarrow> bool" where
  "is_below_threshold record threshold_ms \<longleftrightarrow> rtt_median_ms record < threshold_ms"

definition healthz_once :: "'w rpc_net \<Rightarrow> string \<Rightarrow> 'w \<Rightarrow> real py_result \<times> 'w" where
  "healthz_once net base_url w =
     (let (r, w') = rn_get net (base_url @ ''/healthz'') 5 w
      in (bind_result r (\<lambda>((t0, t1), status, body).
            if status \<noteq> 200 then Inl (Exn ''RuntimeError'' (''REST /healthz returned '' @ str_int status))
            else Inr (elapsed_ms t0 t1)), w'))"

text \<open>The median is the upper one; \<open>sorted_samples[0]\<close> of no sample is an \<open>IndexError\<close>.\<close>

definition rtt_of_gets :: "real list \<Rightarrow> rtt_record py_result" where
  "rtt_of_gets samples_ms =
     (let s = sort samples_ms
      in if s = [] then Inl (Exn ''IndexError'' ''list index out of range'')
         else mk_rtt_record (int (length samples_ms)) (s ! (length s div 2))
                (s ! nat (max 0 (trunc_real ((95 / 100) * real_of_int (int (length s) - 1))))) samples_ms)"

definition rest_rtt_probe :: "'w rpc_net \<Rightarrow> string \<Rightarrow> int \<Rightarrow> 'w \<Rightarrow> rtt_record py_result \<times> 'w" where
  "rest_rtt_probe net base_url n w =
     (let (r, w') = probe_loop (nat n) (healthz_once net base_url) w
      in (bind_result r rtt_of_gets, w'))"

section \<open>The driver\<close>

definition DEFAULT_RTT_PROBE_N :: int where "DEFAULT_RTT_PROBE_N = 32"

record driver_ctx =
  dc_seq_len :: int
  dc_base_seed :: int
  dc_timeout_s :: real
  dc_grpc_metadata :: str_dict
  dc_rest_auth :: str_dict
  dc_edge_base :: string
  dc_tcp_base :: string
  dc_default_channel :: grpc_channel
  dc_tuned_channel :: grpc_channel

definition rpc_driver_of :: "driver_env \<Rightarrow> 'w rpc_net \<Rightarrow> driver_ctx \<Rightarrow> 'w rpc_driver" where
  "rpc_driver_of env net ctx cohort cell seed max_tokens ignore_eos prompt override =
     (let rpc_index = resolve_rpc_index seed (dc_base_seed ctx)
      in if cohort = Rest_Https_Edge \<or> cohort = Rest_Plain_Tcp then
           (let rest_base = (if cohort = Rest_Https_Edge then dc_edge_base ctx else dc_tcp_base ctx)
            in if cell_path cell = Embed
               then drive_rest_embed env net rest_base (dc_rest_auth ctx) cell (dc_seq_len ctx) rpc_index
                      (dc_base_seed ctx) (dc_timeout_s ctx) max_tokens ignore_eos override
               else drive_rest_chat_stream env net rest_base (dc_rest_auth ctx) seed (dc_timeout_s ctx)
                      max_tokens ignore_eos prompt)
         else
           (let channel = (if cohort = Default_Grpc then dc_default_channel ctx else dc_tuned_channel ctx)
            in if cell_path cell = Embed
               then drive_grpc_embed env net channel cell (dc_seq_len ctx) rpc_index (dc_base_seed ctx)
                      (dc_grpc_metadata ctx) (dc_timeout_s ctx) max_tokens ignore_eos override
               else drive_grpc_chat_stream env net channel seed (dc_grpc_metadata ctx) (dc_timeout_s ctx)
                      max_tokens ignore_eos prompt))"

text \<open>What the context manager closes over, or the error that stops it before anything is opened.\<close>

definition driver_context ::
  "(string \<Rightarrow> string option) \<Rightarrow> rest_grpc_endpoints \<Rightarrow> int \<Rightarrow> int \<Rightarrow> real \<Rightarrow> driver_ctx py_result" where
  "driver_context environ endpoints seq_len base_seed rpc_timeout_s =
     (let token = or_empty (environ (re_auth_token_env_var endpoints))
      in if token = [] then Inl (Exn ''RuntimeError''
           (''environment variable '' @ re_auth_token_env_var endpoints @ '' is not set''))
         else case re_rest_https_edge_url endpoints of
           None \<Rightarrow> Inl (Exn ''RuntimeError'' ''M6.2 RPC driver requires endpoints.rest_https_edge_url'')
         | Some edge \<Rightarrow>
        (case re_rest_plain_tcp_url endpoints of
           None \<Rightarrow> Inl (Exn ''RuntimeError'' ''M6.2 RPC driver requires endpoints.rest_plain_tcp_url'')
         | Some tcp \<Rightarrow>
             Inr \<lparr>dc_seq_len = seq_len, dc_base_seed = base_seed, dc_timeout_s = rpc_timeout_s,
                  dc_grpc_metadata = [(''authorization'', ''Bearer '' @ token)],
                  dc_rest_auth = [(''authorization'', ''Bearer '' @ token)],
                  dc_edge_base = normalize_rest_url_for_httpx edge,
                  dc_tcp_base = normalize_rest_url_for_httpx tcp,
                  dc_default_channel = open_grpc_channel (re_grpc_url endpoints) BASELINE,
                  dc_tuned_channel = open_grpc_channel (re_grpc_url endpoints) MAX_MSG_16MIB\<rparr>))"

text \<open>The four probes, in the order of the dict display.\<close>

definition probe_all ::
  "'w rpc_net \<Rightarrow> driver_ctx \<Rightarrow> int \<Rightarrow> 'w \<Rightarrow> (cohort \<times> rtt_record) list py_result \<times> 'w" where
  "probe_all net ctx n w =
     (let (r1, w1) = measure_rtt net (dc_default_channel ctx) n (dc_grpc_metadata ctx) w
      in case r1 of Inl exc \<Rightarrow> (Inl exc, w1) | Inr a \<Rightarrow>
      (let (r2, w2) = measure_rtt net (dc_tuned_channel ctx) n (dc_grpc_metadata ctx) w1
       in case r2 of Inl exc \<Rightarrow> (Inl exc, w2) | Inr b \<Rightarrow>
      (let (r3, w3) = rest_rtt_probe net (dc_edge_base ctx) n w2
       in case r3 of Inl exc \<Rightarrow> (Inl exc, w3) | Inr c \<Rightarrow>
      (let (r4, w4) = rest_rtt_probe net (dc_tcp_base ctx) n w3
       in case r4 of Inl exc \<Rightarrow> (Inl exc, w4) | Inr d \<Rightarrow>
         (Inr [(Default_Grpc, a), (Tuned_Grpc_Multiplexed, b), (Rest_Https_Edge, c), (Rest_Plain_Tcp, d)],
          w4)))))"

definition close_all :: "'w rpc_net \<Rightarrow> driver_ctx \<Rightarrow> 'w \<Rightarrow> 'w" where
  "close_all net ctx w =
     rn_close_channel net (dc_tuned_channel ctx)
       (rn_close_channel net (dc_default_channel ctx) (rn_close_client net w))"

text \<open>The whole of \<open>async with provide_m6_2_rpc_driver(...) as (driver, rtt): body\<close>.\<close>

definition provide_m6_2_rpc_driver ::
  "driver_env \<Rightarrow> 'w rpc_net \<Rightarrow> (string \<Rightarrow> string option) \<Rightarrow> rest_grpc_endpoints \<Rightarrow> int \<Rightarrow> int \<Rightarrow> int \<Rightarrow> real
     \<Rightarrow> ('w rpc_driver \<Rightarrow> (cohort \<times> rtt_record) list \<Rightarrow> 'w \<Rightarrow> 'b py_result \<times> 'w)
     \<Rightarrow> 'w \<Rightarrow> 'b py_result \<times> 'w" where
  "provide_m6_2_rpc_driver env net environ endpoints seq_len base_seed n rpc_timeout_s body w =
     (case driver_context environ endpoints seq_len base_seed rpc_timeout_s of
        Inl exc \<Rightarrow> (Inl exc, w)
      | Inr ctx \<Rightarrow>
          (let (r, w1) = probe_all net ctx n w;
               (res, w2) = (case r of Inl exc \<Rightarrow> (Inl exc, w1)
                            | Inr rtt \<Rightarrow> body (rpc_driver_of env net ctx) rtt w1)
           in (res, close_all net ctx w2)))"

end
