(* ===== verification/Rpc_Laws.thy ===== *)
theory Rpc_Laws
  imports Rest_Shim Rpc_Driver Frontend_Laws Dispatch_Laws
begin

text \<open>
  What the RPC driver measures over the REST shim and over the frontend, and what the sweep makes of its
  failures: the text of a response as the lines the driver reads, the figures of a shim stream, the
  requests the two transports send for one RPC, and the classification of a failed one.
\<close>

section \<open>Lines of a response\<close>

text \<open>The lines of a text, as \<open>aiter_lines\<close> gives them when no character but the line feed ends a line.\<close>

fun text_lines :: "string \<Rightarrow> string \<Rightarrow> string list" where
  "text_lines cur [] = (if cur = [] then [] else [rev cur])"
| "text_lines cur (c # cs) = (if c = LF then rev cur # text_lines [] cs else text_lines (c # cur) cs)"

lemma text_lines_append_LF:
  "text_lines cur (s @ LF # rest) = text_lines cur (s @ [LF]) @ text_lines [] rest"
  by (induction s arbitrary: cur) simp_all

lemma text_lines_line: "LF \<notin> set s \<Longrightarrow> text_lines cur (s @ LF # rest) = (rev cur @ s) # text_lines [] rest"
  by (induction s arbitrary: cur) auto

lemma text_lines_frame:
  "is_line_safe p \<Longrightarrow> text_lines [] (sse_frame p @ rest) = (''data: '' @ p) # [] # text_lines [] rest"
  using text_lines_line[of "''data: '' @ p" "[]" "LF # rest"] line_safe_no_LF[of p]
  by (simp add: sse_frame_def LF_def)

text \<open>Frames end with a line feed, so the lines of what follows them are lines of their own.\<close>

lemma text_lines_frames:
  "text_lines [] (concat (map sse_frame ps) @ rest)
     = text_lines [] (concat (map sse_frame ps)) @ text_lines [] rest"
proof (cases ps rule: rev_cases)
  case (snoc qs q)
  let ?s = "concat (map sse_frame qs) @ ''data: '' @ q @ [LF]"
  have "concat (map sse_frame ps) @ rest = ?s @ LF # rest" "concat (map sse_frame ps) = ?s @ [LF]"
    using snoc by (simp_all add: sse_frame_def)
  then show ?thesis using text_lines_append_LF[of "[]" ?s rest] by simp
qed simp

lemma json_text_line_safe:
  assumes "\<And>x. is_line_safe (fl x)" shows "is_line_safe (json_dumps fl v)"
  using assms
proof (induction fl v rule: json_dumps.induct)
  case (6 fl vs)
  then show ?case by (auto intro!: is_line_safe_join)
next
  case (7 fl kvs)
  then show ?case by (fastforce intro!: is_line_safe_join)
qed simp_all

section \<open>What the driver keeps of the lines\<close>

definition counted :: "string \<Rightarrow> bool" where
  "counted line \<longleftrightarrow> starts_with ''data:'' line \<and> \<not> has_substring ''[DONE]'' line"

definition first_counted_at :: "(string \<times> real) list \<Rightarrow> real option" where
  "first_counted_at ls = map_option snd (find (\<lambda>l. counted (fst l)) ls)"

definition last_counted :: "(string \<times> real) list \<Rightarrow> string option" where
  "last_counted ls = (let cs = filter counted (map fst ls)
     in if cs = [] then None else Some (py_strip (drop (length ''data:'') (last cs))))"

lemma fold_rest_line:
  "fold rest_line ls (fa, lp) =
     (if fa = None then first_counted_at ls else fa,
      case last_counted ls of None \<Rightarrow> lp | Some p \<Rightarrow> Some p)"
proof (induction ls arbitrary: fa lp)
  case Nil
  then show ?case by (simp add: first_counted_at_def last_counted_def)
next
  case (Cons l ls)
  show ?case
    using Cons by (cases l)
      (auto simp: rest_line_def first_counted_at_def last_counted_def counted_def Let_def)
qed

text \<open>The line of an event whose text starts and ends with a brace.\<close>

lemma py_strip_braces:
  "py_strip (CHR '' '' # CHR ''{'' # s @ ''}'') = CHR ''{'' # s @ ''}''"
  by (simp add: py_strip_def is_space_def Let_def)

lemma event_line:
  "starts_with ''data:'' (''data: '' @ json_dumps fl (JObj d))"
  "py_strip (drop (length ''data:'') (''data: '' @ json_dumps fl (JObj d))) = json_dumps fl (JObj d)"
  using py_strip_braces by (simp_all add: starts_with_def)

lemma last_counted_event:
  assumes "map fst ls = pre @ [''data: '' @ json_dumps fl (JObj d), [], ''data: [DONE]'', []]"
    and "\<not> has_substring ''[DONE]'' (''data: '' @ json_dumps fl (JObj d))"
  shows "last_counted ls = Some (json_dumps fl (JObj d))"
proof -
  have c: "counted (''data: '' @ json_dumps fl (JObj d))" "\<not> counted []" "\<not> counted ''data: [DONE]''"
    using assms(2) event_line(1) by (simp_all add: counted_def starts_with_def)
  have "filter counted (map fst ls) = filter counted pre @ [''data: '' @ json_dumps fl (JObj d)]"
    unfolding assms(1) using c by simp
  then show ?thesis
    using event_line(2)[of fl d] by (simp only: last_counted_def Let_def last_snoc) simp
qed

section \<open>The shim's stream\<close>

definition has_text :: "timed_output \<Rightarrow> bool" where
  "has_text x = (case eo_outputs (fst x) of [] \<Rightarrow> False | c # _ \<Rightarrow> co_text c \<noteq> [])"

lemma shim_observe_cases:
  "shim_observe blake out rd st =
     (if has_text (out, rd) then chat_on_delta blake out (hd (eo_outputs out)) rd st else Inr st)"
  by (auto simp: shim_observe_def has_text_def chat_on_delta_def shim_copies split: list.split)

lemma shim_loop_metered:
  assumes "shim_loop blake fl cid st xs e = (evs, Inr st')" "metered ds st"
  shows "metered (ds @ filter has_text xs) st'"
  using assms
proof (induction xs arbitrary: st ds evs)
  case Nil
  then show ?case by (cases e) auto
next
  case (Cons x xs)
  obtain out rd where x: "x = (out, rd)" by (cases x)
  from Cons.prems(1) x obtain st1 evs1 where st1: "shim_observe blake out rd st = Inr st1"
    and rest: "shim_loop blake fl cid st1 xs e = (evs1, Inr st')"
    by (auto split: sum.splits prod.splits)
  have "metered (ds @ filter has_text [x]) st1"
    using st1 on_delta_metered(1)[OF Cons.prems(2), of blake out "hd (eo_outputs out)" rd st1] Cons.prems(2) x
    by (simp add: shim_observe_cases split: if_split_asm)
  from Cons.IH[OF rest this] show ?case by (simp split: if_split_asm)
qed

definition shim_payloads :: "(real \<Rightarrow> string) \<Rightarrow> string \<Rightarrow> timed_output list \<Rightarrow> string list" where
  "shim_payloads fl cid xs = concat (map (\<lambda>x. case eo_outputs (fst x) of
     [] \<Rightarrow> [] | c # _ \<Rightarrow> [json_dumps fl (shim_chunk_json cid c)]) xs)"

lemma shim_loop_runs:
  assumes "list_all (\<lambda>x. ids_fit (fst x)) xs"
  shows "\<exists>st'. shim_loop blake fl cid st xs Engine_Exhausted
      = (map sse_frame (shim_payloads fl cid xs), Inr st')"
  using assms
proof (induction xs arbitrary: st)
  case (Cons x xs)
  obtain out rd where x: "x = (out, rd)" by (cases x)
  have "\<exists>st1. shim_observe blake out rd st = Inr st1"
    using chat_on_delta_ok[of out blake "hd (eo_outputs out)" rd st] Cons.prems x
    by (auto simp: shim_observe_cases)
  then obtain st1 where st1: "shim_observe blake out rd st = Inr st1" by blast
  obtain st' where "shim_loop blake fl cid st1 xs Engine_Exhausted
      = (map sse_frame (shim_payloads fl cid xs), Inr st')"
    using Cons.IH[of st1] Cons.prems by auto
  then show ?case using x st1
    by (auto simp: shim_payloads_def format_shim_chunk_def sse_event_def split: list.split)
qed (simp add: shim_payloads_def)

text \<open>The object of the last event of a run that ends by itself.\<close>

definition shim_final :: "('p, 'a) shim_env \<Rightarrow> shim_reads \<Rightarrow> timed_output list \<Rightarrow> json_dict" where
  "shim_final env hr xs =
     (let cid = ''chatcmpl-'' @ sh_uuid env
      in case snd (shim_loop (sh_blake env) (sh_fl env) cid initial_stream_state xs Engine_Exhausted) of
           Inl _ \<Rightarrow> [] | Inr st \<Rightarrow> shim_terminal cid hr (shim_refresh_last_token (last_output xs) st))"

lemma shim_body_frames:
  assumes "list_all (\<lambda>x. ids_fit (fst x)) xs"
  shows "shim_body env hr xs Engine_Exhausted =
    (map sse_frame (shim_payloads (sh_fl env) (''chatcmpl-'' @ sh_uuid env) xs)
       @ [sse_frame (json_dumps (sh_fl env) (JObj (shim_final env hr xs))), sse_frame ''[DONE]''], None)"
  using shim_loop_runs[OF assms, of "sh_blake env" "sh_fl env" "''chatcmpl-'' @ sh_uuid env" initial_stream_state]
  by (auto simp: shim_body_def shim_final_def sse_event_def format_sse_done_def Let_def)

lemma metered_shim_refresh [simp]: "metered ds (shim_refresh_last_token out st) = metered ds st"
  by (simp add: metered_def shim_refresh_last_token_def split: option.split)

lemma shim_final_state:
  assumes "list_all (\<lambda>x. ids_fit (fst x)) xs"
  shows "\<exists>st. metered (filter has_text xs) st
    \<and> shim_final env hr xs = shim_terminal (''chatcmpl-'' @ sh_uuid env) hr st"
proof -
  let ?cid = "''chatcmpl-'' @ sh_uuid env"
  from shim_loop_runs[OF assms] obtain st where
    st: "shim_loop (sh_blake env) (sh_fl env) ?cid initial_stream_state xs Engine_Exhausted
      = (map sse_frame (shim_payloads (sh_fl env) ?cid xs), Inr st)" by blast
  from shim_loop_metered[OF st metered_initial] st show ?thesis
    by (intro exI[of _ "shim_refresh_last_token (last_output xs) st"]) (simp add: shim_final_def Let_def)
qed

section \<open>Reading the last event\<close>

definition shim_checkpoint :: "shim_reads \<Rightarrow> stream_state \<Rightarrow> timing_checkpoint" where
  "shim_checkpoint hr st =
     \<lparr>tc_handler_entry_ns = er_handler_entry_ns (hr_entry hr),
      tc_pre_engine_ns = er_pre_engine_ns (hr_entry hr),
      tc_first_chunk_ns = (case ss_first_chunk_ns st of Some n \<Rightarrow> n | None \<Rightarrow> hr_terminal_ns hr),
      tc_terminal_emit_ns = hr_terminal_ns hr,
      tc_perturbation_audit_ns = perturbation_audit (hr_entry hr),
      tc_engine_arrival_ns = ss_engine_arrival_ns st, tc_engine_queued_ns = ss_engine_queued_ns st,
      tc_engine_scheduled_ns = ss_engine_scheduled_ns st,
      tc_engine_first_token_ns = ss_engine_first_token_ns st,
      tc_engine_last_token_ns = ss_engine_last_token_ns st,
      tc_pre_engine_wall_ns = Some (er_pre_engine_wall_ns (hr_entry hr)),
      tc_first_chunk_mono_ns = ss_first_chunk_mono_ns st,
      tc_tokenized_prompt_length = ss_tokenized_prompt_length st,
      tc_tokenized_prompt_hash = ss_tokenized_prompt_hash st\<rparr>"

lemma opt_json_simps:
  "(let v = opt_json_int x in if v = JNull then None else or_none (json_int v)) = x"
  "(let v = opt_json_str y in if v = JNull then None else Some (json_str other v)) = y"
  by (cases x; simp add: opt_json_int_def) (cases y; simp add: opt_json_str_def)

lemma extract_shim_terminal:
  "extract_rest_timings other (shim_terminal cid hr st) = Some (shim_checkpoint hr st)"
  by (simp add: extract_rest_timings_def shim_terminal_def shim_timings_def shim_edge_probes_def
      shim_prompt_audit_def shim_checkpoint_def opt_int_or_none_def opt_str_or_none_def dict_item_def
      opt_json_simps)

lemma parse_shim_terminal:
  assumes "p \<noteq> Embed"
  shows "parse_rest_response (shim_terminal cid hr st) p
    = Some \<lparr>engine_forward_ms = None, engine_ttft_ms = Some (shim_ttft_ms (hr_entry hr) st),
           engine_tpot_ms = Some (shim_tpot_ms st)\<rparr>"
  using assms by (simp add: parse_rest_response_def shim_terminal_def dict_item_def Let_def)

lemma metered_shim_figures:
  assumes "metered ds st"
  shows "shim_ttft_ms er st = ttft_of er ds" "shim_tpot_ms st = tpot_of ds"
  using assms by (auto simp: metered_def shim_ttft_ms_def shim_tpot_ms_def ttft_of_def tpot_of_def)

text \<open>What a result must say about the run \<open>outs\<close>: no figure is rounded on this transport.\<close>

definition rest_figures :: "shim_reads \<Rightarrow> timed_output list \<Rightarrow> engine_cost_span option \<Rightarrow> timing_checkpoint option \<Rightarrow> bool" where
  "rest_figures hr outs cost ckpt \<longleftrightarrow>
     (let ts = filter has_text outs; er = hr_entry hr
      in cost = Some \<lparr>engine_forward_ms = None, engine_ttft_ms = Some (ttft_of er ts),
                     engine_tpot_ms = Some (tpot_of ts)\<rparr>
       \<and> (\<exists>ck. ckpt = Some ck
           \<and> tc_handler_entry_ns ck = er_handler_entry_ns er \<and> tc_pre_engine_ns ck = er_pre_engine_ns er
           \<and> tc_first_chunk_ns ck = (if ts = [] then hr_terminal_ns hr else sr_first_ns (snd (hd ts)))
           \<and> tc_terminal_emit_ns ck = hr_terminal_ns hr
           \<and> tc_perturbation_audit_ns ck = er_pa_t4 er - er_pa_t0 er
           \<and> tc_engine_arrival_ns ck = stat_of ts em_arrival_time
           \<and> tc_engine_queued_ns ck = stat_of ts em_queued_ts
           \<and> tc_engine_scheduled_ns ck = stat_of ts em_scheduled_ts
           \<and> tc_engine_first_token_ns ck = stat_of ts em_first_token_ts
           \<and> tc_pre_engine_wall_ns ck = Some (er_pre_engine_wall_ns er)
           \<and> tc_first_chunk_mono_ns ck = (if ts = [] then None else Some (sr_first_mono_ns (snd (hd ts))))))"

lemma shim_final_figures:
  assumes "list_all (\<lambda>x. ids_fit (fst x)) outs" "p \<noteq> Embed"
  shows "rest_figures hr outs (parse_rest_response (shim_final env hr outs) p)
    (extract_rest_timings other (shim_final env hr outs))"
proof -
  obtain st where st: "metered (filter has_text outs) st"
    "shim_final env hr outs = shim_terminal (''chatcmpl-'' @ sh_uuid env) hr st"
    using shim_final_state[OF assms(1)] by blast
  show ?thesis
    unfolding st(2) extract_shim_terminal parse_shim_terminal[OF assms(2)] metered_shim_figures[OF st(1)]
    using st(1) by (simp add: rest_figures_def shim_checkpoint_def metered_def perturbation_audit_def Let_def)
qed

end
