(* ===== verification/Rpc_Transport.thy ===== *)
theory Rpc_Transport
  imports Rpc_Laws
begin

text \<open>
  The two transports side by side: an RPC of the driver against the REST shim, the metrics of one engine
  run on both of them, and the engine calls one embed RPC leads to.
\<close>

section \<open>A chat RPC over REST\<close>

lemma chat_fields_payload:
  "chat_fields (build_chat_rest_payload env seed max_tokens ignore_eos prompt)
     = Some \<lparr>hc_model = ''mock'',
             hc_messages = [\<lparr>hm_role = ''user'', hm_content = probe_prompt env seed prompt\<rparr>],
             hc_stream = True, hc_max_tokens = max_tokens, hc_temperature = 1, hc_seed = Some seed\<rparr>"
  by (simp add: chat_fields_def build_chat_rest_payload_def field_or_def as_str_def as_messages_def
      as_message_def as_bool_def as_int_def as_float_def as_opt_int_def)

text \<open>The whole body of a stream arrives and the connection ends without an error.\<close>

definition complete_response :: "string list \<Rightarrow> http_stream_run \<Rightarrow> bool" where
  "complete_response body run \<longleftrightarrow> hs_open run = Inr 200 \<and> hs_error run = None
     \<and> map fst (hs_lines run) = text_lines [] (concat body)"

lemma done_line: "text_lines [] (sse_frame ''[DONE]'') = [''data: [DONE]'', []]"
  using text_lines_frame[of "''[DONE]''" "[]"] by simp

lemma driver_reads_shim:
  assumes fit: "list_all (\<lambda>x. ids_fit (fst x)) outs" and safe: "\<And>x. is_line_safe (sh_fl senv x)"
    and resp: "complete_response (fst (shim_body senv hr outs Engine_Exhausted)) run"
    and loads: "dv_loads env (json_dumps (sh_fl senv) (JObj (shim_final senv hr outs)))
      = Inr (JObj (shim_final senv hr outs))"
    and no_end: "\<not> has_substring ''[DONE]'' (json_dumps (sh_fl senv) (JObj (shim_final senv hr outs)))"
  shows "rest_stream_success env run =
    Inr (succeeded_rpc (elapsed_ms (hs_t0 run) (hs_done_at run))
      (driver_ttft_ms (hs_t0 run) (first_counted_at (hs_lines run)))
      (parse_rest_response (shim_final senv hr outs) Chat_Stream)
      (extract_rest_timings (dv_other env) (shim_final senv hr outs)))"
proof -
  let ?fin = "json_dumps (sh_fl senv) (JObj (shim_final senv hr outs))"
  let ?pre = "concat (map sse_frame (shim_payloads (sh_fl senv) (''chatcmpl-'' @ sh_uuid senv) outs))"
  have body: "concat (fst (shim_body senv hr outs Engine_Exhausted))
      = ?pre @ sse_frame ?fin @ sse_frame ''[DONE]''"
    by (simp add: shim_body_frames[OF fit])
  have "is_line_safe ?fin" by (rule json_text_line_safe) (rule safe)
  then have "text_lines [] (concat (fst (shim_body senv hr outs Engine_Exhausted)))
      = text_lines [] ?pre @ [''data: '' @ ?fin, [], ''data: [DONE]'', []]"
    unfolding body text_lines_frames by (simp only: text_lines_frame done_line)
  with resp have lines: "map fst (hs_lines run) = text_lines [] ?pre
      @ [''data: '' @ ?fin, [], ''data: [DONE]'', []]"
    by (simp add: complete_response_def)
  have "\<not> has_substring ''[DONE]'' (''data: '' @ ?fin)"
    using no_end by (simp add: starts_with_def)
  from last_counted_event[OF lines this] have lc: "last_counted (hs_lines run) = Some ?fin" .
  have "truthy (Some ?fin)" by (simp add: truthy_def)
  with lc show ?thesis
    by (simp add: rest_stream_success_def fold_rest_line loads_or_def loads cost_and_timings_def del: json_dumps.simps)
qed

text \<open>
  C9. A REST chat RPC measures the shim's run. When the driver's request reaches the shim, the engine runs
  to its end and the response arrives whole, the RPC succeeds; its engine cost and its timing payload are,
  without rounding, the time to the first output with text, the time per token from there to the last,
  the readings of the handler and the engine statistics of that first output; whatever the prompt, the
  outputs and the flags are.
\<close>

theorem rest_rpc_measures_shim:
  assumes "sh_SamplingParams senv max_tokens (Some seed) = Inr sp"
    and "sh_generate senv (Text_Input (probe_prompt env seed prompt)) sp (''rest-chat-'' @ sh_uuid senv)
      = (outs, Engine_Exhausted)"
    and "list_all (\<lambda>x. ids_fit (fst x)) outs" and "\<And>x. is_line_safe (sh_fl senv x)"
    and "rn_stream net (base_url @ ''/v1/chat/completions'') (json_headers auth)
      (json_dumps (dv_fl env) (JObj (build_chat_rest_payload env seed max_tokens ignore_eos prompt))) timeout w
      = (run, w')"
    and "\<And>req hs body. chat_fields (build_chat_rest_payload env seed max_tokens ignore_eos prompt) = Some req
      \<Longrightarrow> shim_chat_completions senv hr req = Inr (Stream_Reply hs (body, None)) \<Longrightarrow> complete_response body run"
    and "dv_loads env (json_dumps (sh_fl senv) (JObj (shim_final senv hr outs)))
      = Inr (JObj (shim_final senv hr outs))"
    and "\<not> has_substring ''[DONE]'' (json_dumps (sh_fl senv) (JObj (shim_final senv hr outs)))"
  shows "\<exists>cost ckpt. drive_rest_chat_stream env net base_url auth seed timeout max_tokens ignore_eos prompt w
      = (Inr (succeeded_rpc (elapsed_ms (hs_t0 run) (hs_done_at run))
           (driver_ttft_ms (hs_t0 run) (first_counted_at (hs_lines run))) cost ckpt), w')
    \<and> rest_figures hr outs cost ckpt"
proof -
  obtain body where sb: "shim_body senv hr outs Engine_Exhausted = (body, None)"
    using shim_body_frames[OF assms(3)] by blast
  have "shim_chat_completions senv hr \<lparr>hc_model = ''mock'',
      hc_messages = [\<lparr>hm_role = ''user'', hm_content = probe_prompt env seed prompt\<rparr>], hc_stream = True,
      hc_max_tokens = max_tokens, hc_temperature = 1, hc_seed = Some seed\<rparr>
    = Inr (Stream_Reply [overhead_header hr, (''Cache-Control'', ''no-cache'')] (body, None))"
    using assms(1,2) sb by (auto simp: shim_chat_completions_def raised_first_def)
  from assms(6)[OF chat_fields_payload this]
  have "complete_response (fst (shim_body senv hr outs Engine_Exhausted)) run" by (simp add: sb)
  then have resp: "rest_stream_success env run = Inr (succeeded_rpc (elapsed_ms (hs_t0 run) (hs_done_at run))
      (driver_ttft_ms (hs_t0 run) (first_counted_at (hs_lines run)))
      (parse_rest_response (shim_final senv hr outs) Chat_Stream)
      (extract_rest_timings (dv_other env) (shim_final senv hr outs)))"
    and open_ok: "hs_open run = Inr 200" "hs_error run = None"
    using driver_reads_shim[OF assms(3,4) _ assms(7,8)] by (simp_all add: complete_response_def)
  have "drive_rest_chat_stream env net base_url auth seed timeout max_tokens ignore_eos prompt w
      = (rest_stream_success env run, w')"
    unfolding drive_rest_chat_stream_def using assms(5) open_ok by (simp del: json_dumps.simps)
  moreover have "rest_figures hr outs (parse_rest_response (shim_final senv hr outs) Chat_Stream)
      (extract_rest_timings (dv_other env) (shim_final senv hr outs))"
    by (rule shim_final_figures[OF assms(3)]) simp
  ultimately show ?thesis unfolding resp by blast
qed

definition demo_rest_outs :: "timed_output list" where
  "demo_rest_outs = [(\<lparr>eo_outputs = [\<lparr>co_text = ''Hi'', co_token_ids = [1], co_finish_reason = Some ''stop''\<rparr>],
     eo_prompt_token_ids = None, eo_metrics = None\<rparr>, demo_reads 11 110)]"

definition demo_shim :: "(unit, unit) shim_env" where
  "demo_shim = \<lparr>sh_SamplingParams = (\<lambda>m s. Inr ()),
     sh_generate = (\<lambda>i p r. (demo_rest_outs, Engine_Exhausted)), sh_torch_load = (\<lambda>b. Inl (value_error b)),
     sh_blake = (\<lambda>b. ''00''), sh_fl = (\<lambda>x. ''0.0''), sh_uuid = ''u''\<rparr>"

definition demo_hr :: shim_reads where
  "demo_hr = \<lparr>hr_entry = demo_entry, hr_handler_entry = 9, hr_overhead_at = 12, hr_finished_at = 13,
     hr_terminal_ns = 150\<rparr>"

definition demo_driver_env :: driver_env where
  "demo_driver_env = \<lparr>dv_digest = (\<lambda>s. ''d''), dv_randn_saved = (\<lambda>s h i. ''tensor''), dv_fl = (\<lambda>x. ''1.0''),
     dv_loads = (\<lambda>t. Inr (JObj (shim_final demo_shim demo_hr demo_rest_outs))), dv_other = (\<lambda>v. [])\<rparr>"

definition demo_stream_run :: http_stream_run where
  "demo_stream_run = \<lparr>hs_t0 = 1, hs_open = Inr 200,
     hs_lines = map (\<lambda>l. (l, 2)) (text_lines [] (concat (fst (shim_body demo_shim demo_hr demo_rest_outs Engine_Exhausted)))),
     hs_error = None, hs_done_at = 4\<rparr>"

definition demo_net :: "unit rpc_net" where
  "demo_net = \<lparr>rn_chat_stream = (\<lambda>c m t r w. (\<lparr>gs_t0 = 1, gs_chunks = [], gs_error = None, gs_done_at = 2,
       gs_trailers = Inr None\<rparr>, w)),
     rn_complete = (\<lambda>c m t r w. (\<lparr>gu_t0 = 1, gu_error = None, gu_done_at = 2, gu_trailers = Inr None\<rparr>, w)),
     rn_ping = (\<lambda>c m t w. (Inr (1, 2), w)), rn_stream = (\<lambda>u h b t w. (demo_stream_run, w)),
     rn_post = (\<lambda>u h b t w. (\<lparr>hp_t0 = 1, hp_answer = Inr (200, ''{}''), hp_done_at = 2\<rparr>, w)),
     rn_get = (\<lambda>u t w. (Inr ((1, 2), 200, []), w)), rn_close_channel = (\<lambda>c w. w), rn_close_client = (\<lambda>w. w)\<rparr>"

text \<open>A letter no key has is in the text only if a string of the value has it.\<close>

fun letter_free :: "char \<Rightarrow> (real \<Rightarrow> string) \<Rightarrow> json \<Rightarrow> bool" where
  "letter_free c fl (JFloat x) \<longleftrightarrow> c \<notin> set (fl x)"
| "letter_free c fl (JStr s) \<longleftrightarrow> c \<notin> set s"
| "letter_free c fl (JList vs) \<longleftrightarrow> list_all (letter_free c fl) vs"
| "letter_free c fl (JObj kvs) \<longleftrightarrow> list_all (\<lambda>(k, v). c \<notin> set k \<and> letter_free c fl v) kvs"
| "letter_free c fl _ \<longleftrightarrow> True"

lemma of_char_hex: "d < 16 \<Longrightarrow> (of_char (hex_digit d) :: nat) \<in> {48..57} \<union> {97..102}"
  by (auto simp: hex_digit_def of_char_of)

lemma hex_no_D: "d < 16 \<Longrightarrow> hex_digit d \<noteq> CHR ''D''"
  using of_char_hex[of d] by auto

lemma not_in_if: "c \<notin> set s \<Longrightarrow> c \<notin> set t \<Longrightarrow> c \<notin> set (if b then s else t)"
  by simp

lemma esc_no_D:
  assumes c: "c \<noteq> CHR ''D''" shows "CHR ''D'' \<notin> set (esc_char c)"
proof -
  have "(of_char c :: nat) div 16 < 16" using of_char_lt_256[of c] by linarith
  then have h: "CHR ''D'' \<noteq> hex_digit (of_char c div 16)" "CHR ''D'' \<noteq> hex_digit (of_char c mod 16)"
    using hex_no_D[of "of_char c div 16"] hex_no_D[of "of_char c mod 16"] by simp_all
  have t: "CHR ''D'' \<notin> set [CHR 0x5C, CHR ''u'', CHR ''0'', CHR ''0'', hex_digit (of_char c div 16),
      hex_digit (of_char c mod 16)]"
    using h by simp
  have s: "CHR ''D'' \<notin> set [c]" using c by simp
  show ?thesis unfolding esc_char_def Let_def by (intro not_in_if s t) simp_all
qed

lemma quote_no_D:
  assumes "CHR ''D'' \<notin> set s" shows "CHR ''D'' \<notin> set (json_quote s)"
proof -
  have "CHR ''D'' \<notin> set (esc_char c)" if "c \<in> set s" for c
    using that assms by (intro esc_no_D) auto
  then show ?thesis by (auto simp: json_quote_def)
qed

lemma join_no_char: "c \<notin> set sep \<Longrightarrow> (\<And>s. s \<in> set ss \<Longrightarrow> c \<notin> set s) \<Longrightarrow> c \<notin> set (join_with sep ss)"
  by (cases ss) (auto simp: join_with_def split: if_split_asm)

lemma digits_no_D: "CHR ''D'' \<notin> set (str_int i)"
proof -
  have "\<not> is_digit (CHR ''D'')" by (simp add: is_digit_def Let_def)
  then show ?thesis using str_nat_digits by (auto simp: str_int_def)
qed

lemma dumps_no_D: "letter_free (CHR ''D'') fl v \<Longrightarrow> CHR ''D'' \<notin> set (json_dumps fl v)"
proof (induction fl v rule: json_dumps.induct)
  case (6 fl vs)
  then have "CHR ''D'' \<notin> set (join_with '', '' (map (json_dumps fl) vs))"
    by (intro join_no_char) (auto simp: list_all_iff)
  then show ?case by simp
next
  case (7 fl kvs)
  then have "CHR ''D'' \<notin> set (join_with '', '' (map (\<lambda>(k, v). json_quote k @ '': '' @ json_dumps fl v) kvs))"
    by (intro join_no_char) (fastforce simp: list_all_iff dest: quote_no_D)+
  then show ?case by simp
qed (simp_all add: quote_no_D digits_no_D)

lemma has_substring_letters: "has_substring p s \<Longrightarrow> set p \<subseteq> set s"
proof (induction s)
  case (Cons c s)
  show ?case
  proof (cases "starts_with p (c # s)")
    case True
    then show ?thesis unfolding starts_with_def by (metis set_take_subset)
  next
    case False
    then show ?thesis using Cons by auto
  qed
qed simp

lemma demo_final_no_done:
  "\<not> has_substring ''[DONE]'' (json_dumps (sh_fl demo_shim) (JObj (shim_final demo_shim demo_hr demo_rest_outs)))"
proof -
  have "letter_free (CHR ''D'') (sh_fl demo_shim) (JObj (shim_final demo_shim demo_hr demo_rest_outs))"
    by (simp add: shim_final_def demo_shim_def demo_rest_outs_def demo_hr_def shim_observe_def
        shim_capture_first_def prompt_ids_def initial_stream_state_def last_output_def
        shim_refresh_last_token_def shim_terminal_def shim_timings_def shim_edge_probes_def
        shim_prompt_audit_def opt_json_int_def opt_json_str_def Let_def)
  from dumps_no_D[OF this] show ?thesis
    using has_substring_letters[of "''[DONE]''"
        "json_dumps (sh_fl demo_shim) (JObj (shim_final demo_shim demo_hr demo_rest_outs))"]
    by (auto simp del: json_dumps.simps has_substring.simps)
qed

theorem rest_rpc_measures_shim_witness:
  "\<exists>cost ckpt. drive_rest_chat_stream demo_driver_env demo_net ''http://h'' [(''authorization'', ''Bearer t'')] 42 120 5 True
       (Some ''hi'') () = (Inr (succeeded_rpc 3000
         (driver_ttft_ms 1 (first_counted_at (hs_lines demo_stream_run))) cost ckpt), ())
     \<and> rest_figures demo_hr demo_rest_outs cost ckpt"
proof -
  have fit: "list_all (\<lambda>x. ids_fit (fst x)) demo_rest_outs"
    by (simp add: demo_rest_outs_def ids_fit_def prompt_ids_def)
  from shim_body_frames[OF fit] obtain b where
    body: "shim_body demo_shim demo_hr demo_rest_outs Engine_Exhausted = (b, None)" by blast
  have served: "complete_response b' demo_stream_run"
    if "chat_fields (build_chat_rest_payload demo_driver_env 42 5 True (Some ''hi'')) = Some req"
      and "shim_chat_completions demo_shim demo_hr req = Inr (Stream_Reply hs (b', None))" for req hs b'
  proof -
    have "hc_stream req" using that(1) by (auto simp: chat_fields_payload)
    then have "b' = b" using that(2) body
      by (auto simp: shim_chat_completions_def demo_shim_def raised_first_def demo_rest_outs_def)
    then show ?thesis by (simp add: complete_response_def demo_stream_run_def body comp_def)
  qed
  have figures: "elapsed_ms (hs_t0 demo_stream_run) (hs_done_at demo_stream_run) = 3000"
    "hs_t0 demo_stream_run = 1"
    by (simp_all add: elapsed_ms_def demo_stream_run_def)
  have "sh_SamplingParams demo_shim 5 (Some 42) = Inr ()" "sh_generate demo_shim i p r = (demo_rest_outs, Engine_Exhausted)"
    "rn_stream demo_net u h b t () = (demo_stream_run, ())" "is_line_safe (sh_fl demo_shim x)"
    "dv_loads demo_driver_env t' = Inr (JObj (shim_final demo_shim demo_hr demo_rest_outs))" for i p r u h b t t' x
    by (simp_all add: demo_shim_def demo_net_def demo_driver_env_def)
  note facts = this
  have "elapsed_ms 1 (hs_done_at demo_stream_run) = 3000"
    using figures by simp
  note shown = rest_rpc_measures_shim[where senv = demo_shim and net = demo_net and env = demo_driver_env
      and hr = demo_hr and seed = 42 and max_tokens = 5 and prompt = "Some ''hi''" and ignore_eos = True,
      OF facts(1,2) fit facts(4,3) _ facts(5) demo_final_no_done, unfolded figures this]
  show ?thesis by (rule shown) (rule served)
qed

section \<open>One run, two transports\<close>

text \<open>Every output adds text, and the last one alone finishes.\<close>

fun each_adds :: "string \<Rightarrow> timed_output list \<Rightarrow> bool" where
  "each_adds prev [] \<longleftrightarrow> True"
| "each_adds prev (x # xs) \<longleftrightarrow> eo_outputs (fst x) \<noteq> [] \<and> added_text prev (completion_of x) \<noteq> []
     \<and> (finishes (completion_of x) \<longleftrightarrow> xs = []) \<and> each_adds (co_text (completion_of x)) xs"

lemma each_adds_deltas:
  "each_adds prev xs \<Longrightarrow> deltas prev xs = xs \<and> filter has_text xs = xs
     \<and> (xs \<noteq> [] \<longrightarrow> find (\<lambda>x. finishes (completion_of x)) xs = Some (last xs))"
proof (induction xs arbitrary: prev)
  case (Cons x xs)
  obtain c cs where c: "eo_outputs (fst x) = c # cs" using Cons.prems by (cases "eo_outputs (fst x)") auto
  have "co_text c \<noteq> []" using Cons.prems c by (auto simp: added_text_def)
  then have "has_text x" by (simp add: has_text_def c)
  moreover from Cons.prems have "each_adds (co_text (completion_of x)) xs" by simp
  note Cons.IH[OF this]
  ultimately show ?case using Cons.prems by (cases "xs = []") (simp_all add: new_delta_def)
qed simp

text \<open>
  C10. Both transports report the same measurement of one engine run. If every output of the engine adds
  text and only the last finishes, then what the frontend's trailing metadata says of the run and what
  the shim's last event says of it, read by the harness, differ in the time to the first token and in the
  time per token by at most half a microsecond, and the three segments of the handler's time are equal.
\<close>

theorem transports_measure_alike:
  assumes "each_adds [] outs" "list_all (\<lambda>x. ids_fit (fst x)) outs"
    and "tr \<in> set (trailers_of (fst (async_for (chat_stream_step blake er) initial_stream_state outs e)))"
    and "hr_entry hr = er" "hr_terminal_ns hr = sr_terminal_ns (snd (last outs))"
  shows "\<exists>t q t' q' ck ck'.
      parse_grpc_trailing_metadata tr Chat_Stream
        = Some \<lparr>engine_forward_ms = None, engine_ttft_ms = Some t, engine_tpot_ms = Some q\<rparr>
    \<and> parse_rest_response (shim_final senv hr outs) Chat_Stream
        = Some \<lparr>engine_forward_ms = None, engine_ttft_ms = Some t', engine_tpot_ms = Some q'\<rparr>
    \<and> \<bar>t - t'\<bar> \<le> 1 / 2000 \<and> \<bar>q - q'\<bar> \<le> 1 / 2000
    \<and> extract_grpc_timings tr = Some ck
    \<and> extract_rest_timings other (shim_final senv hr outs) = Some ck'
    \<and> (let d = compute_per_segment_delta ck; d' = compute_per_segment_delta ck'
       in sd_ab_ms d = sd_ab_ms d' \<and> sd_bc_ms d = sd_bc_ms d' \<and> sd_cd_ms d = sd_cd_ms d')"
proof -
  have p: "Chat_Stream \<noteq> Embed" by simp
  note grpc = chat_run_figures[OF assms(3) p, unfolded figures_published_def]
  note rest = shim_final_figures[OF assms(2) p, of hr senv other, unfolded rest_figures_def]
  from grpc have "outs \<noteq> []" by auto
  with each_adds_deltas[OF assms(1)] have d: "deltas [] outs = outs" "filter has_text outs = outs"
    "find (\<lambda>x. finishes (completion_of x)) outs = Some (last outs)" by blast+
  from grpc obtain ck t q where g: "extract_grpc_timings tr = Some ck"
    "tc_handler_entry_ns ck = er_handler_entry_ns er" "tc_pre_engine_ns ck = er_pre_engine_ns er"
    "tc_first_chunk_ns ck = sr_first_ns (snd (hd outs))" "tc_terminal_emit_ns ck = sr_terminal_ns (snd (last outs))"
    "parse_grpc_trailing_metadata tr Chat_Stream
      = Some \<lparr>engine_forward_ms = None, engine_ttft_ms = Some t, engine_tpot_ms = Some q\<rparr>"
    "\<bar>t - ttft_of er outs\<bar> \<le> 1 / 2000" "\<bar>q - tpot_of outs\<bar> \<le> 1 / 2000"
    unfolding d using \<open>outs \<noteq> []\<close> by auto
  from rest obtain ck' where r: "extract_rest_timings other (shim_final senv hr outs) = Some ck'"
    "tc_handler_entry_ns ck' = er_handler_entry_ns er" "tc_pre_engine_ns ck' = er_pre_engine_ns er"
    "tc_first_chunk_ns ck' = sr_first_ns (snd (hd outs))" "tc_terminal_emit_ns ck' = sr_terminal_ns (snd (last outs))"
    "parse_rest_response (shim_final senv hr outs) Chat_Stream
      = Some \<lparr>engine_forward_ms = None, engine_ttft_ms = Some (ttft_of er outs), engine_tpot_ms = Some (tpot_of outs)\<rparr>"
    unfolding d Let_def using \<open>outs \<noteq> []\<close> assms(4,5) by auto
  have "(let d = compute_per_segment_delta ck; d' = compute_per_segment_delta ck'
       in sd_ab_ms d = sd_ab_ms d' \<and> sd_bc_ms d = sd_bc_ms d' \<and> sd_cd_ms d = sd_cd_ms d')"
    using g(2-5) r(2-5) by (simp add: compute_per_segment_delta_def delta_from_checkpoint_def Let_def)
  with g(1,6-8) r(1,6) show ?thesis by blast
qed

theorem transports_measure_alike_witness:
  "\<exists>tr \<in> set (trailers_of (fst (async_for (chat_stream_step (\<lambda>b. ''00'') demo_entry) initial_stream_state
       demo_outs Engine_Exhausted))). \<exists>t q t' q'.
      parse_grpc_trailing_metadata tr Chat_Stream
        = Some \<lparr>engine_forward_ms = None, engine_ttft_ms = Some t, engine_tpot_ms = Some q\<rparr>
    \<and> parse_rest_response (shim_final demo_shim (demo_hr\<lparr>hr_terminal_ns := 132\<rparr>) demo_outs) Chat_Stream
        = Some \<lparr>engine_forward_ms = None, engine_ttft_ms = Some t', engine_tpot_ms = Some q'\<rparr>
    \<and> \<bar>t - t'\<bar> \<le> 1 / 2000 \<and> \<bar>q - q'\<bar> \<le> 1 / 2000"
proof -
  have "\<exists>tr. tr \<in> set (trailers_of (fst (async_for (chat_stream_step (\<lambda>b. ''00'') demo_entry)
      initial_stream_state demo_outs Engine_Exhausted)))"
    using chat_run_delivers[OF demo_accepts(1) demo_grows demo_finishes, of "\<lambda>b. ''00''" demo_entry Engine_Exhausted]
    by auto
  then obtain tr where tr: "tr \<in> set (trailers_of (fst (async_for (chat_stream_step (\<lambda>b. ''00'') demo_entry)
      initial_stream_state demo_outs Engine_Exhausted)))" by blast
  have adds: "each_adds [] demo_outs"
    by (simp add: demo_outs_def demo_completion_def added_text_def finishes_def truthy_def)
  have fit: "list_all (\<lambda>x. ids_fit (fst x)) demo_outs"
    by (simp add: demo_defs ids_fit_def prompt_ids_def)
  have "hr_entry (demo_hr\<lparr>hr_terminal_ns := 132\<rparr>) = demo_entry"
    "hr_terminal_ns (demo_hr\<lparr>hr_terminal_ns := 132\<rparr>) = sr_terminal_ns (snd (last demo_outs))"
    by (simp_all add: demo_hr_def demo_outs_def demo_reads_def)
  from transports_measure_alike[OF adds fit tr this, of demo_shim "\<lambda>v. []"] tr show ?thesis by blast
qed

section \<open>The engine calls of one RPC\<close>

lemma embed_fields_payload:
  assumes "embed_bytes env seq_len hidden_size rpc_index base_seed override = Inr raw"
  shows "\<exists>body. build_embed_rest_payload env seq_len hidden_size rpc_index base_seed max_tokens ignore_eos override seed
      = Inr body
    \<and> embed_fields body = Some \<lparr>he_model = ''mock'', he_input_kind = ''prompt_embedding_torch_b64'',
        he_input = b64encode raw, he_hidden_size = hidden_size, he_max_tokens = max_tokens,
        he_seed = Some (sampling_seed rpc_index base_seed seed)\<rparr>"
  using assms
  by (simp add: build_embed_rest_payload_def embed_fields_def field_or_def as_str_def as_int_def as_opt_int_def)

text \<open>
  An engine that raises what it is given: with it in place of the engine, the outcome of a handler names
  the engine call the handler makes.
\<close>

definition telling_frontend ::
  "('a engine_input \<Rightarrow> 'p \<Rightarrow> py_exn) \<Rightarrow> ('p, 'a) frontend_env \<Rightarrow> ('p, 'a) frontend_env" where
  "telling_frontend tell env = env\<lparr>fe_generate := \<lambda>i p r. ([], Engine_Raised (tell i p))\<rparr>"

definition telling_shim :: "('a engine_input \<Rightarrow> 'p \<Rightarrow> py_exn) \<Rightarrow> ('p, 'a) shim_env \<Rightarrow> ('p, 'a) shim_env" where
  "telling_shim tell env = env\<lparr>sh_generate := \<lambda>i p r. ([], Engine_Raised (tell i p))\<rparr>"

lemma telling_fields:
  "fe_torch_load (telling_frontend tell env) = fe_torch_load env" "fe_blake (telling_frontend tell env) = fe_blake env"
  "fe_SamplingParams (telling_frontend tell env) = fe_SamplingParams env"
  "fe_request_id (telling_frontend tell env) = fe_request_id env"
  "fe_generate (telling_frontend tell env) i p r = ([], Engine_Raised (tell i p))"
  "sh_torch_load (telling_shim stell senv) = sh_torch_load senv" "sh_blake (telling_shim stell senv) = sh_blake senv"
  "sh_SamplingParams (telling_shim stell senv) = sh_SamplingParams senv"
  "sh_generate (telling_shim stell senv) i' p' r = ([], Engine_Raised (stell i' p'))"
  by (simp_all add: telling_frontend_def telling_shim_def)

lemma completions_complete_tells:
  assumes "select_engine_input env req = Some (Inr i)"
    and "fe_SamplingParams env (completion_sampling_kwargs req) = Inr params"
  shows "completions_complete (telling_frontend tell env) ur req = (None, Rpc_Raised (tell i params))"
  unfolding completions_complete_def select_engine_input_def telling_fields
  using assms by (simp add: select_engine_input_def completion_proto_to_sampling_params_def)

lemma shim_embeddings_tells:
  assumes "embed_prompt env req = Inr i" and "sh_SamplingParams env (he_max_tokens req) (he_seed req) = Inr params"
  shows "shim_embeddings (telling_shim tell env) hr req = Inl (tell i params)"
  unfolding shim_embeddings_def embed_prompt_def telling_fields
  using assms by (simp add: embed_prompt_def run_error_def)

text \<open>
  C16. An embed RPC gives the engine the same tensor over both transports. When its bytes are a saved tensor
  the decoder accepts, at a width the shim serves, the frontend's handler and the shim's endpoint both call
  the engine with that tensor, under sampling parameters made from the same token limit and the same seed;
  only over gRPC are they also made from the flag to ignore the end of a sequence.
\<close>

theorem embed_cohorts_same_input:
  assumes "embed_bytes env seq_len hidden_size rpc_index base_seed override = Inr raw"
    and "take 4 raw = TORCH_SAVE_MAGIC" "hidden_size \<in> {2048, 4096, 8192}"
    and "fe_torch_load fenv = sh_torch_load senv" "decode_embeds (sh_torch_load senv) raw = Inr t"
    and "fields_in_range max_tokens (Some (base_seed + rpc_index))"
    and "fe_SamplingParams fenv \<lparr>sk_max_tokens = max_tokens, sk_temperature = 1, sk_top_p = 1,
           sk_seed = Some (base_seed + rpc_index), sk_ignore_eos = ignore_eos\<rparr> = Inr fparams"
    and "sh_SamplingParams senv max_tokens (Some (base_seed + rpc_index)) = Inr sparams"
  shows "\<exists>req body sreq.
      build_embed_grpc_request env seq_len hidden_size rpc_index base_seed max_tokens ignore_eos override None = Inr req
    \<and> build_embed_rest_payload env seq_len hidden_size rpc_index base_seed max_tokens ignore_eos override None = Inr body
    \<and> embed_fields body = Some sreq
    \<and> completions_complete (telling_frontend tell fenv) ur req = (None, Rpc_Raised (tell (Tensor_Input t) fparams))
    \<and> shim_embeddings (telling_shim stell senv) hr sreq = Inl (stell (Tensor_Input t) sparams)"
proof -
  obtain req where req: "build_embed_grpc_request env seq_len hidden_size rpc_index base_seed max_tokens
      ignore_eos override None = Inr req" "nq_input req = Some (Embeds_Input raw)"
    "completion_sampling_kwargs req = \<lparr>sk_max_tokens = max_tokens, sk_temperature = 1, sk_top_p = 1,
           sk_seed = Some (base_seed + rpc_index), sk_ignore_eos = ignore_eos\<rparr>"
    using assms(1,6) by (simp add: build_embed_grpc_request_def sampling_seed_def completion_sampling_kwargs_def Let_def)
  have "select_engine_input fenv req = Some (Inr (Tensor_Input t))"
    using assms(2,4,5) req(2) by (simp add: select_engine_input_def resolve_prompt_embeds_input_def)
  note grpc = completions_complete_tells[OF this, unfolded req(3), OF assms(7)]
  let ?sreq = "\<lparr>he_model = ''mock'', he_input_kind = ''prompt_embedding_torch_b64'',
        he_input = b64encode raw, he_hidden_size = hidden_size, he_max_tokens = max_tokens,
        he_seed = Some (sampling_seed rpc_index base_seed None)\<rparr>"
  have "List.member INPUT_KINDS ''prompt_embedding_torch_b64''" "List.member [2048, 4096, 8192] hidden_size"
    using assms(3) by (auto simp: INPUT_KINDS_def)
  then have "embed_prompt senv ?sreq = Inr (Tensor_Input t)"
    using assms(5) by (simp add: embed_prompt_def del: List.member_iff)
  from shim_embeddings_tells[OF this] assms(8)
  have rest: "shim_embeddings (telling_shim stell senv) hr ?sreq = Inl (stell (Tensor_Input t) sparams)"
    by (simp add: sampling_seed_def)
  from embed_fields_payload[OF assms(1), of max_tokens ignore_eos None] grpc rest req(1) show ?thesis by blast
qed

theorem embed_cohorts_same_input_witness:
  "\<exists>req body sreq.
      build_embed_grpc_request demo_driver_env 16 4096 0 42 10 True (Some (TORCH_SAVE_MAGIC @ ''x'')) None = Inr req
    \<and> build_embed_rest_payload demo_driver_env 16 4096 0 42 10 True (Some (TORCH_SAVE_MAGIC @ ''x'')) None = Inr body
    \<and> embed_fields body = Some sreq
    \<and> shim_embeddings (telling_shim (\<lambda>i p. if i = Tensor_Input \<lparr>tn_dtype = Float16, tn_ndim = 2, tn_data = ()\<rparr>
            then value_error ''tensor'' else value_error ''other'')
          (demo_shim\<lparr>sh_torch_load := \<lambda>b. Inr \<lparr>tn_dtype = Float16, tn_ndim = 2, tn_data = ()\<rparr>\<rparr>)) demo_hr sreq
        = Inl (value_error ''tensor'')"
proof -
  let ?t = "\<lparr>tn_dtype = Float16, tn_ndim = 2, tn_data = ()\<rparr>"
  let ?senv = "demo_shim\<lparr>sh_torch_load := \<lambda>b. Inr ?t\<rparr>"
  let ?fenv = "(demo_env [] Engine_Exhausted)\<lparr>fe_torch_load := \<lambda>b. Inr ?t\<rparr>"
  let ?tell = "\<lambda>(i :: unit engine_input) p. if i = Tensor_Input ?t then value_error ''tensor'' else value_error ''other''"
  have input: "embed_bytes demo_driver_env 16 4096 0 42 (Some (TORCH_SAVE_MAGIC @ ''x'')) = Inr (TORCH_SAVE_MAGIC @ ''x'')"
    "take 4 (TORCH_SAVE_MAGIC @ ''x'') = TORCH_SAVE_MAGIC" "(4096 :: int) \<in> {2048, 4096, 8192}"
    "fe_torch_load ?fenv = sh_torch_load ?senv"
    "decode_embeds (sh_torch_load ?senv) (TORCH_SAVE_MAGIC @ ''x'') = Inr ?t"
    "fields_in_range 10 (Some (42 + 0))"
    by (simp_all add: embed_bytes_def TORCH_SAVE_MAGIC_def decode_embeds_def fields_in_range_def int32_ok_def int64_ok_def)
  have params: "fe_SamplingParams ?fenv \<lparr>sk_max_tokens = 10, sk_temperature = 1, sk_top_p = 1,
           sk_seed = Some (42 + 0), sk_ignore_eos = True\<rparr>
      = Inr \<lparr>sk_max_tokens = 10, sk_temperature = 1, sk_top_p = 1, sk_seed = Some (42 + 0), sk_ignore_eos = True\<rparr>"
    "sh_SamplingParams ?senv 10 (Some (42 + 0)) = Inr ()"
    by (simp_all add: demo_env_def demo_shim_def)
  from embed_cohorts_same_input[where stell = ?tell and hr = demo_hr and tell = "\<lambda>i p. value_error []"
      and ur = demo_unary, OF input params]
  obtain req body sreq where
    "build_embed_grpc_request demo_driver_env 16 4096 0 42 10 True (Some (TORCH_SAVE_MAGIC @ ''x'')) None = Inr req"
    "build_embed_rest_payload demo_driver_env 16 4096 0 42 10 True (Some (TORCH_SAVE_MAGIC @ ''x'')) None = Inr body"
    "embed_fields body = Some sreq"
    and told: "shim_embeddings (telling_shim ?tell ?senv) demo_hr sreq = Inl (?tell (Tensor_Input ?t) ())"
    by (elim exE conjE) (rule that)
  moreover from told have "shim_embeddings (telling_shim ?tell ?senv) demo_hr sreq = Inl (value_error ''tensor'')"
    by (simp only: simp_thms if_True)
  ultimately show ?thesis by blast
qed

text \<open>
  C17. The REST transport loses the flag that forces a block to its token limit. The request the shim builds
  is the same whether or not the driver sets \<open>ignore_eos\<close>, for chat and for embed RPCs; over gRPC
  the frontend translates the request of either kind to sampling parameters that have the flag.
\<close>

theorem rest_ignore_eos_lost:
  assumes "fields_in_range max_tokens (Some seed)" "fields_in_range max_tokens (Some (sampling_seed idx base sd))"
  shows "chat_fields (build_chat_rest_payload env seed max_tokens True prompt)
      = chat_fields (build_chat_rest_payload env seed max_tokens False prompt)
    \<and> map_sum id embed_fields (build_embed_rest_payload env sl hs idx base max_tokens True override sd)
      = map_sum id embed_fields (build_embed_rest_payload env sl hs idx base max_tokens False override sd)
    \<and> bind_result (build_chat_grpc_request env seed max_tokens ignore_eos prompt)
        (chat_proto_to_sampling_params SamplingParams)
      = SamplingParams \<lparr>sk_max_tokens = max_tokens, sk_temperature = 1, sk_top_p = 1, sk_seed = Some seed,
          sk_ignore_eos = ignore_eos\<rparr>
    \<and> bind_result (build_embed_grpc_request env sl hs idx base max_tokens ignore_eos override sd)
        (completion_proto_to_sampling_params SamplingParams)
      = bind_result (embed_bytes env sl hs idx base override)
          (\<lambda>raw. SamplingParams \<lparr>sk_max_tokens = max_tokens, sk_temperature = 1, sk_top_p = 1,
             sk_seed = Some (sampling_seed idx base sd), sk_ignore_eos = ignore_eos\<rparr>)"
proof -
  have "map_sum id embed_fields (build_embed_rest_payload env sl hs idx base max_tokens True override sd)
      = map_sum id embed_fields (build_embed_rest_payload env sl hs idx base max_tokens False override sd)"
  proof (cases "embed_bytes env sl hs idx base override")
    case (Inl exc)
    then show ?thesis by (simp add: build_embed_rest_payload_def)
  next
    case (Inr raw)
    from embed_fields_payload[OF this, of max_tokens True sd] embed_fields_payload[OF this, of max_tokens False sd]
    show ?thesis by auto
  qed
  then show ?thesis
    using assms
    by (cases "embed_bytes env sl hs idx base override")
      (simp_all add: chat_fields_payload build_chat_grpc_request_def build_embed_grpc_request_def Let_def
        chat_proto_to_sampling_params_def completion_proto_to_sampling_params_def chat_sampling_kwargs_def
        completion_sampling_kwargs_def)
qed

theorem rest_ignore_eos_lost_witness:
  "chat_fields (build_chat_rest_payload demo_driver_env 42 2048 True (Some ''hi''))
      = chat_fields (build_chat_rest_payload demo_driver_env 42 2048 False (Some ''hi''))
    \<and> bind_result (build_embed_grpc_request demo_driver_env 16 4096 0 42 2048 True (Some ''x'') None)
        (completion_proto_to_sampling_params (\<lambda>k. Inr (sk_ignore_eos k))) = Inr True"
proof -
  have "fields_in_range 2048 (Some 42)" "fields_in_range 2048 (Some (sampling_seed 0 42 None))"
    by (simp_all add: fields_in_range_def int32_ok_def int64_ok_def sampling_seed_def)
  from rest_ignore_eos_lost[OF this, of demo_driver_env "Some ''hi''" 16 4096 "Some ''x''" True
      "\<lambda>k. Inr (sk_ignore_eos k)"]
  show ?thesis by (simp add: embed_bytes_def)
qed

end
