(* ===== verification/Rpc_Results.thy ===== *)
theory Rpc_Results
  imports Rpc_Transport
begin

text \<open>
  What the driver's callers may rely on whatever the network does: the form of every result it returns, and
  the figures of its round-trip probes.
\<close>

section \<open>The form of a result\<close>

text \<open>
  A success has a time and no reason, its cost is the cell's kind of cost and its payload the fields of a
  checkpoint; a failure has a reason of at most 120 characters and nothing else.
\<close>

definition rpc_result_ok :: "path \<Rightarrow> rpc_result \<Rightarrow> bool" where
  "rpc_result_ok p r \<longleftrightarrow>
     (if rr_success r
      then rr_wall_clock_ms r \<noteq> None \<and> rr_failure_reason r = None
         \<and> (p = Embed \<longrightarrow> rr_ttft_ms r = None)
         \<and> (case rr_engine_cost r of None \<Rightarrow> True | Some s \<Rightarrow> span_ok p s)
         \<and> (case rr_timing_payload r of None \<Rightarrow> True | Some kvs \<Rightarrow> \<exists>ck. kvs = checkpoint_fields ck)
      else rr_wall_clock_ms r = None \<and> rr_ttft_ms r = None \<and> rr_engine_cost r = None
         \<and> rr_timing_payload r = None
         \<and> (case rr_failure_reason r of None \<Rightarrow> False | Some s \<Rightarrow> s \<noteq> [] \<and> length s \<le> 120))"

lemma failed_rpc_ok: "reason \<noteq> [] \<Longrightarrow> rpc_result_ok p (failed_rpc reason)"
  by (simp add: rpc_result_ok_def failed_rpc_def)

lemma succeeded_rpc_ok:
  assumes "p = Embed \<Longrightarrow> ttft = None" "\<And>s. cost = Some s \<Longrightarrow> span_ok p s"
  shows "rpc_result_ok p (succeeded_rpc wall ttft cost ckpt)"
  using assms by (auto simp: rpc_result_ok_def succeeded_rpc_def timing_checkpoint_to_payload_def split: option.split)

lemma grpc_failure_ok: "grpc_failure label e = Inr r \<Longrightarrow> rpc_result_ok p r"
  by (auto simp: grpc_failure_def intro!: failed_rpc_ok split: if_splits option.splits)

lemma http_failure_ok: "http_failure label e = Inr r \<Longrightarrow> rpc_result_ok p r"
  by (auto simp: http_failure_def intro!: failed_rpc_ok split: if_splits)

lemma grpc_success_ok:
  assumes "grpc_success p wall ttft md = Inr r" "p = Embed \<Longrightarrow> ttft = None"
  shows "rpc_result_ok p r"
  using assms
  by (auto simp: grpc_success_def bind_result_Inr_iff bind_eq_Some_conv intro!: succeeded_rpc_ok dest: parsed_span_ok(1))

lemma cost_span_ok: "fst (cost_and_timings env p v) = Some s \<Longrightarrow> span_ok p s"
  by (auto simp: cost_and_timings_def split: json.splits dest: parsed_span_ok(2))

lemma rest_stream_success_ok: "rest_stream_success env run = Inr r \<Longrightarrow> rpc_result_ok Chat_Stream r"
  by (auto simp: rest_stream_success_def bind_result_Inr_iff case_prod_beta intro!: succeeded_rpc_ok dest: cost_span_ok)

lemma rest_embed_success_ok: "rest_embed_success env wall body = Inr r \<Longrightarrow> rpc_result_ok Embed r"
  by (auto simp: rest_embed_success_def bind_result_Inr_iff case_prod_beta intro!: succeeded_rpc_ok dest: cost_span_ok)

lemma dispatchers_ok:
  "fst (drive_grpc_chat_stream env net ch seed md to mt ig p w) = Inr r \<Longrightarrow> rpc_result_ok Chat_Stream r"
  "fst (drive_grpc_embed env net ch cell sl idx base md to mt ig ov w) = Inr r \<Longrightarrow> rpc_result_ok Embed r"
  "fst (drive_rest_chat_stream env net url auth seed to mt ig p w) = Inr r \<Longrightarrow> rpc_result_ok Chat_Stream r"
  "fst (drive_rest_embed env net url auth cell sl idx base to mt ig ov w) = Inr r \<Longrightarrow> rpc_result_ok Embed r"
proof -
  show "fst (drive_grpc_chat_stream env net ch seed md to mt ig p w) = Inr r \<Longrightarrow> rpc_result_ok Chat_Stream r"
    by (auto simp: drive_grpc_chat_stream_def Let_def split: sum.splits option.splits prod.splits
        dest: grpc_failure_ok intro: grpc_success_ok)
  show "fst (drive_grpc_embed env net ch cell sl idx base md to mt ig ov w) = Inr r \<Longrightarrow> rpc_result_ok Embed r"
    by (auto simp: drive_grpc_embed_def Let_def split: sum.splits option.splits prod.splits
        dest: grpc_failure_ok intro: grpc_success_ok)
  show "fst (drive_rest_chat_stream env net url auth seed to mt ig p w) = Inr r \<Longrightarrow> rpc_result_ok Chat_Stream r"
    by (auto simp: drive_rest_chat_stream_def Let_def simp del: json_dumps.simps
        split: sum.splits option.splits prod.splits if_splits
        dest: http_failure_ok rest_stream_success_ok intro!: failed_rpc_ok)
  show "fst (drive_rest_embed env net url auth cell sl idx base to mt ig ov w) = Inr r \<Longrightarrow> rpc_result_ok Embed r"
    by (auto simp: drive_rest_embed_def Let_def simp del: json_dumps.simps
        split: sum.splits option.splits prod.splits if_splits
        dest: http_failure_ok rest_embed_success_ok intro!: failed_rpc_ok)
qed

section \<open>What a success reports\<close>

text \<open>
  What a call came back with: the metadata of a gRPC call, as far as it could be read, or the JSON value of
  the last counted line of a REST stream or of a REST body. The cost and the timings are read from it.
\<close>

datatype wire_reply = Trailers "str_dict option" | Json_Reply_Value json

fun reply_cost :: "path \<Rightarrow> wire_reply \<Rightarrow> engine_cost_span option" where
  "reply_cost p (Trailers (Some md)) = parse_grpc_trailing_metadata md p"
| "reply_cost p (Json_Reply_Value (JObj d)) = parse_rest_response d p"
| "reply_cost p _ = None"

fun reply_timings :: "(json \<Rightarrow> string) \<Rightarrow> wire_reply \<Rightarrow> timing_checkpoint option" where
  "reply_timings other (Trailers (Some md)) = extract_grpc_timings (rev md)"
| "reply_timings other (Json_Reply_Value (JObj d)) = extract_rest_timings other d"
| "reply_timings other _ = None"

definition read_trailers :: "str_dict option py_result \<Rightarrow> wire_reply" where
  "read_trailers r = Trailers (case r of Inr md \<Rightarrow> md | Inl _ \<Rightarrow> None)"

definition read_json :: "driver_env \<Rightarrow> json \<Rightarrow> string \<Rightarrow> wire_reply" where
  "read_json env fallback s = Json_Reply_Value (case dv_loads env s of Inr v \<Rightarrow> v | Inl _ \<Rightarrow> fallback)"

definition read_stream :: "driver_env \<Rightarrow> (string \<times> real) list \<Rightarrow> wire_reply" where
  "read_stream env ls = (case last_counted ls of
     Some (c # cs) \<Rightarrow> read_json env JNull (c # cs) | _ \<Rightarrow> Json_Reply_Value JNull)"

text \<open>The network's answer to a call of the cohort's transport in this world: its duration and reply.\<close>

definition rest_cohort :: "cohort \<Rightarrow> bool" where
  "rest_cohort c \<longleftrightarrow> c = Rest_Https_Edge \<or> c = Rest_Plain_Tcp"

definition network_answers ::
  "driver_env \<Rightarrow> 'w rpc_net \<Rightarrow> bool \<Rightarrow> path \<Rightarrow> 'w \<Rightarrow> real \<Rightarrow> wire_reply \<Rightarrow> bool" where
  "network_answers env net rest p w wall reply \<longleftrightarrow>
     (if rest
      then if p = Embed
           then \<exists>url h b t run body. fst (rn_post net url h b t w) = run \<and> hp_answer run = Inr (200, body)
             \<and> wall = elapsed_ms (hp_t0 run) (hp_done_at run) \<and> reply = read_json env (JObj []) body
           else \<exists>url h b t run. fst (rn_stream net url h b t w) = run \<and> hs_open run = Inr 200 \<and> hs_error run = None
             \<and> wall = elapsed_ms (hs_t0 run) (hs_done_at run) \<and> reply = read_stream env (hs_lines run)
      else if p = Embed
           then \<exists>ch md t q run. fst (rn_complete net ch md t q w) = run \<and> gu_error run = None
             \<and> wall = elapsed_ms (gu_t0 run) (gu_done_at run) \<and> reply = read_trailers (gu_trailers run)
           else \<exists>ch md t q run. fst (rn_chat_stream net ch md t q w) = run \<and> gs_error run = None
             \<and> wall = elapsed_ms (gs_t0 run) (gs_done_at run) \<and> reply = read_trailers (gs_trailers run))"

definition rpc_reports :: "driver_env \<Rightarrow> 'w rpc_net \<Rightarrow> bool \<Rightarrow> path \<Rightarrow> 'w \<Rightarrow> rpc_result \<Rightarrow> bool" where
  "rpc_reports env net rest p w r \<longleftrightarrow>
     (rr_success r \<longrightarrow> (\<exists>wall reply. network_answers env net rest p w wall reply
        \<and> rr_wall_clock_ms r = Some wall \<and> rr_engine_cost r = reply_cost p reply
        \<and> rr_timing_payload r = map_option checkpoint_fields (reply_timings (dv_other env) reply)))"

lemma failed_rpc_reports [simp]: "rpc_reports env net rest p w (failed_rpc reason)"
  by (simp add: rpc_reports_def failed_rpc_def)

lemma failures_report:
  "grpc_failure label e = Inr r \<Longrightarrow> rpc_reports env net rest p w r"
  "http_failure label e = Inr r \<Longrightarrow> rpc_reports env net rest p w r"
  by (auto simp: grpc_failure_def http_failure_def split: if_splits option.splits)

lemma succeeded_reports:
  assumes "network_answers env net rest p w wall reply"
    and "cost = reply_cost p reply" "ckpt = reply_timings (dv_other env) reply"
  shows "rpc_reports env net rest p w (succeeded_rpc wall ttft cost ckpt)"
  using assms
  by (auto simp: rpc_reports_def succeeded_rpc_def timing_checkpoint_to_payload_def split: option.split)

lemma grpc_success_reports:
  assumes "grpc_success p wall ttft tr = Inr r" "network_answers env net False p w wall (read_trailers tr)"
  shows "rpc_reports env net False p w r"
proof -
  from assms(1) obtain md where md: "trailers_or_none tr = Inr md"
    and r: "r = succeeded_rpc wall ttft (Option.bind md (\<lambda>kvs. parse_grpc_trailing_metadata kvs p))
              (Option.bind md (\<lambda>kvs. extract_grpc_timings (rev kvs)))"
    by (auto simp: grpc_success_def bind_result_Inr_iff)
  from md have "read_trailers tr = Trailers md"
    by (auto simp: trailers_or_none_def read_trailers_def split: sum.splits if_splits)
  with assms(2) show ?thesis unfolding r
    by (intro succeeded_reports[where reply = "Trailers md"]) (cases md; simp)+
qed

lemma cost_and_timings_reply:
  "cost_and_timings env p v = (reply_cost p (Json_Reply_Value v), reply_timings (dv_other env) (Json_Reply_Value v))"
  by (cases v) (simp_all add: cost_and_timings_def)

lemma loads_or_reply: "loads_or env fallback s = Inr v \<Longrightarrow> read_json env fallback s = Json_Reply_Value v"
  by (auto simp: loads_or_def read_json_def split: sum.splits if_splits)

lemma fold_rest_line_none: "fold rest_line ls (None, None) = (first_counted_at ls, last_counted ls)"
  by (simp add: fold_rest_line split: option.split)

lemma rest_stream_success_reports:
  assumes "rest_stream_success env run = Inr r"
    and "network_answers env net True Chat_Stream w (elapsed_ms (hs_t0 run) (hs_done_at run)) (read_stream env (hs_lines run))"
  shows "rpc_reports env net True Chat_Stream w r"
proof -
  from assms(1) obtain v where v: "(if truthy (last_counted (hs_lines run))
      then loads_or env JNull (the (last_counted (hs_lines run))) else Inr JNull) = Inr v"
    and r: "r = succeeded_rpc (elapsed_ms (hs_t0 run) (hs_done_at run))
      (driver_ttft_ms (hs_t0 run) (first_counted_at (hs_lines run)))
      (fst (cost_and_timings env Chat_Stream v)) (snd (cost_and_timings env Chat_Stream v))"
    by (auto simp: rest_stream_success_def fold_rest_line_none bind_result_Inr_iff case_prod_beta)
  have "read_stream env (hs_lines run) = Json_Reply_Value v"
    using v loads_or_reply[of env JNull]
    by (auto simp: read_stream_def truthy_def split: option.splits list.splits)
  with assms(2) show ?thesis unfolding r cost_and_timings_reply
    by (intro succeeded_reports[where reply = "Json_Reply_Value v"]) simp_all
qed

lemma rest_embed_success_reports:
  assumes "rest_embed_success env wall body = Inr r"
    and "network_answers env net True Embed w wall (read_json env (JObj []) body)"
  shows "rpc_reports env net True Embed w r"
proof -
  from assms(1) obtain v where v: "loads_or env (JObj []) body = Inr v"
    and r: "r = succeeded_rpc wall None (fst (cost_and_timings env Embed v)) (snd (cost_and_timings env Embed v))"
    by (auto simp: rest_embed_success_def bind_result_Inr_iff case_prod_beta)
  with assms(2) loads_or_reply[OF v] show ?thesis unfolding r cost_and_timings_reply
    by (intro succeeded_reports[where reply = "Json_Reply_Value v"]) simp_all
qed

lemma network_answersI:
  "rn_chat_stream net ch md t q w = (srun, w1) \<Longrightarrow> gs_error srun = None \<Longrightarrow>
     network_answers env net False Chat_Stream w (elapsed_ms (gs_t0 srun) (gs_done_at srun)) (read_trailers (gs_trailers srun))"
  "rn_complete net ch md t nq w = (urun, w1) \<Longrightarrow> gu_error urun = None \<Longrightarrow>
     network_answers env net False Embed w (elapsed_ms (gu_t0 urun) (gu_done_at urun)) (read_trailers (gu_trailers urun))"
  "rn_stream net url h b t w = (hrun, w1) \<Longrightarrow> hs_open hrun = Inr 200 \<Longrightarrow> hs_error hrun = None \<Longrightarrow>
     network_answers env net True Chat_Stream w (elapsed_ms (hs_t0 hrun) (hs_done_at hrun)) (read_stream env (hs_lines hrun))"
  "rn_post net url h b t w = (prun, w1) \<Longrightarrow> hp_answer prun = Inr (200, body) \<Longrightarrow>
     network_answers env net True Embed w (elapsed_ms (hp_t0 prun) (hp_done_at prun)) (read_json env (JObj []) body)"
proof -
  show "rn_chat_stream net ch md t q w = (srun, w1) \<Longrightarrow> gs_error srun = None \<Longrightarrow>
     network_answers env net False Chat_Stream w (elapsed_ms (gs_t0 srun) (gs_done_at srun)) (read_trailers (gs_trailers srun))"
    by (simp add: network_answers_def) (metis fst_conv)
  show "rn_complete net ch md t nq w = (urun, w1) \<Longrightarrow> gu_error urun = None \<Longrightarrow>
     network_answers env net False Embed w (elapsed_ms (gu_t0 urun) (gu_done_at urun)) (read_trailers (gu_trailers urun))"
    by (simp add: network_answers_def) (metis fst_conv)
  show "rn_stream net url h b t w = (hrun, w1) \<Longrightarrow> hs_open hrun = Inr 200 \<Longrightarrow> hs_error hrun = None \<Longrightarrow>
     network_answers env net True Chat_Stream w (elapsed_ms (hs_t0 hrun) (hs_done_at hrun)) (read_stream env (hs_lines hrun))"
    by (simp add: network_answers_def) (metis fst_conv)
  show "rn_post net url h b t w = (prun, w1) \<Longrightarrow> hp_answer prun = Inr (200, body) \<Longrightarrow>
     network_answers env net True Embed w (elapsed_ms (hp_t0 prun) (hp_done_at prun)) (read_json env (JObj []) body)"
    by (simp add: network_answers_def) (metis fst_conv)
qed

lemma dispatchers_report:
  "fst (drive_grpc_chat_stream env net ch seed md to mt ig p w) = Inr r \<Longrightarrow> rpc_reports env net False Chat_Stream w r"
  "fst (drive_grpc_embed env net ch cell sl idx base md to mt ig ov w) = Inr r \<Longrightarrow> rpc_reports env net False Embed w r"
  "fst (drive_rest_chat_stream env net url auth seed to mt ig p w) = Inr r \<Longrightarrow> rpc_reports env net True Chat_Stream w r"
  "fst (drive_rest_embed env net url auth cell sl idx base to mt ig ov w) = Inr r \<Longrightarrow> rpc_reports env net True Embed w r"
proof -
  show "fst (drive_grpc_chat_stream env net ch seed md to mt ig p w) = Inr r \<Longrightarrow> rpc_reports env net False Chat_Stream w r"
    by (auto simp: drive_grpc_chat_stream_def Let_def split: sum.splits option.splits prod.splits
        dest: failures_report elim!: grpc_success_reports intro: network_answersI)
  show "fst (drive_grpc_embed env net ch cell sl idx base md to mt ig ov w) = Inr r \<Longrightarrow> rpc_reports env net False Embed w r"
    by (auto simp: drive_grpc_embed_def Let_def split: sum.splits option.splits prod.splits
        dest: failures_report elim!: grpc_success_reports intro: network_answersI)
  show "fst (drive_rest_chat_stream env net url auth seed to mt ig p w) = Inr r \<Longrightarrow> rpc_reports env net True Chat_Stream w r"
    by (auto simp: drive_rest_chat_stream_def Let_def simp del: json_dumps.simps
        split: sum.splits option.splits prod.splits if_splits
        dest: failures_report elim!: rest_stream_success_reports intro: network_answersI)
  show "fst (drive_rest_embed env net url auth cell sl idx base to mt ig ov w) = Inr r \<Longrightarrow> rpc_reports env net True Embed w r"
    by (auto simp: drive_rest_embed_def Let_def simp del: json_dumps.simps
        split: sum.splits option.splits prod.splits if_splits
        dest: failures_report elim!: rest_embed_success_reports intro: network_answersI)
qed

section \<open>Round-trip probes\<close>

lemma probe_loop_length: "fst (probe_loop n call w) = Inr xs \<Longrightarrow> length xs = n"
proof (induction n arbitrary: w xs)
  case (Suc n)
  obtain r w1 where c: "call w = (r, w1)" by fastforce
  with Suc.prems obtain x where "r = Inr x" by (cases r) auto
  moreover obtain q w2 where q: "probe_loop n call w1 = (q, w2)" by fastforce
  ultimately obtain ys where "q = Inr ys" "xs = x # ys" using Suc.prems c by (auto simp: bind_result_Inr_iff)
  with Suc.IH[of w1 ys] q show ?case by simp
qed simp

lemma median_is_percentile:
  assumes "xs \<noteq> []" shows "median_of xs = percentile_of xs 50"
proof (cases "even (length xs)")
  case True
  then obtain k where "length xs = 2 * k" by (auto elim!: evenE)
  with assms obtain j where j: "length xs = 2 * Suc j" by (cases k) auto
  then have r: "rank_of (sort xs) 50 = real j + 1 / 2" by (simp add: rank_of_def)
  have f: "nat \<lfloor>real j + 1 / 2\<rfloor> = j" by linarith
  show ?thesis
    unfolding percentile_of_def r interp_def f using j by (simp add: median_of_def Let_def add_divide_distrib)
next
  case False
  then obtain k where k: "length xs = 2 * k + 1" by (auto elim!: oddE)
  then have r: "rank_of (sort xs) 50 = real k" by (simp add: rank_of_def)
  then show ?thesis using k by (simp add: median_of_def percentile_of_def interp_def Let_def)
qed

definition probe_ok :: "int \<Rightarrow> rtt_record \<Rightarrow> bool" where
  "probe_ok n r \<longleftrightarrow> 1 \<le> n \<and> rtt_n r = n \<and> int (length (rtt_samples_ms r)) = n
     \<and> (\<forall>x \<in> set (rtt_samples_ms r). 0 \<le> x)
     \<and> Min (set (rtt_samples_ms r)) \<le> rtt_median_ms r \<and> rtt_median_ms r \<le> Max (set (rtt_samples_ms r))
     \<and> Min (set (rtt_samples_ms r)) \<le> rtt_p95_ms r \<and> rtt_p95_ms r \<le> Max (set (rtt_samples_ms r))"

lemma mk_rtt_record_Inr:
  "mk_rtt_record n med p95 xs = Inr r \<longleftrightarrow> 1 \<le> n \<and> (\<forall>x \<in> set xs. 0 \<le> x)
     \<and> r = \<lparr>rtt_n = n, rtt_median_ms = med, rtt_p95_ms = p95, rtt_samples_ms = xs\<rparr>"
  by (auto simp: mk_rtt_record_def list_ex_iff not_less dest: leD)

lemma rtt_of_pings_ok:
  assumes "rtt_of_pings n xs = Inr r" "int (length xs) = n"
  shows "probe_ok n r \<and> rtt_median_ms r \<le> rtt_p95_ms r"
proof -
  let ?ms = "map (\<lambda>s. s * 1000) xs"
  from assms(1) have ne: "?ms \<noteq> []" by (auto simp: rtt_of_pings_def rtt_percentile_def)
  from rtt_percentile_interp[of 95 ?ms] ne have "rtt_percentile ?ms 95 = Inr (percentile_of ?ms 95)"
    by (simp add: percentile_of_def)
  with assms(1) have r: "1 \<le> n" "\<forall>x \<in> set ?ms. 0 \<le> x"
    "r = \<lparr>rtt_n = n, rtt_median_ms = percentile_of ?ms 50, rtt_p95_ms = percentile_of ?ms 95, rtt_samples_ms = ?ms\<rparr>"
    using median_is_percentile[OF ne] by (auto simp: rtt_of_pings_def mk_rtt_record_Inr Let_def simp del: set_map)
  have "percentile_of ?ms 50 \<le> percentile_of ?ms 95" by (rule percentile_of_mono[OF ne]) auto
  moreover have "Min (set ?ms) \<le> percentile_of ?ms p \<and> percentile_of ?ms p \<le> Max (set ?ms)"
    if "0 \<le> p" "p \<le> 100" for p
    using percentile_of_range(3,4)[OF ne that] by (meson List.finite_set Max_ge Min_le)
  ultimately show ?thesis using r assms(2) by (simp add: probe_ok_def del: set_map)
qed

lemma rtt_of_gets_ok:
  assumes "rtt_of_gets xs = Inr r"
  shows "probe_ok (int (length xs)) r \<and> (length xs \<noteq> 2 \<longrightarrow> rtt_median_ms r \<le> rtt_p95_ms r)"
proof -
  let ?s = "sort xs" and ?n = "length xs"
  let ?q = "\<lfloor>(95 / 100) * (real ?n - 1)\<rfloor>"
  from assms have ne: "xs \<noteq> []" by (auto simp: rtt_of_gets_def)
  then have n: "1 \<le> ?n" by (cases xs) auto
  then have m: "0 \<le> real ?n - 1" by simp
  have q: "0 \<le> ?q" using m by simp
  have q2: "?q < int ?n" using m by (simp add: floor_less_iff)
  have idx: "nat (max 0 (trunc_real ((95 / 100) * real_of_int (int (length ?s) - 1)))) = nat ?q"
    using m q by (simp add: trunc_real_def)
  from assms ne idx have r: "\<forall>x \<in> set xs. 0 \<le> x" "r = \<lparr>rtt_n = int ?n, rtt_median_ms = ?s ! (?n div 2),
      rtt_p95_ms = ?s ! nat ?q, rtt_samples_ms = xs\<rparr>"
    by (auto simp: rtt_of_gets_def mk_rtt_record_Inr Let_def)
  have mem: "?s ! i \<in> set xs" if "i < ?n" for i using that nth_mem[of i ?s] by simp
  have "?n div 2 < ?n" "nat ?q < ?n" using n q q2 by linarith+
  note in_set = mem[OF this(1)] mem[OF this(2)]
  moreover have "?s ! (?n div 2) \<le> ?s ! nat ?q" if "?n \<noteq> 2"
  proof (rule sorted_nth_mono)
    show "?n div 2 \<le> nat ?q"
    proof (cases "?n = 1")
      case False
      with that n have "3 \<le> ?n" by linarith
      then have "3 \<le> real ?n" by simp
      moreover have "real (?n div 2) \<le> real ?n / 2" by linarith
      ultimately have "real (?n div 2) \<le> (95 / 100) * (real ?n - 1)" by simp
      then show ?thesis by (rule le_nat_floor)
    qed simp
    show "nat ?q < length ?s" using \<open>nat ?q < ?n\<close> by simp
  qed simp
  ultimately show ?thesis using r n by (simp add: probe_ok_def)
qed

section \<open>Properties\<close>

text \<open>
  C18. Every result of the driver is well formed, and a success reports what the network answered. For
  every cohort, cell and flag, a failure carries a reason of 1 to 120 characters and nothing else. A
  success has no reason; its time is the duration of the call the cohort's transport made, its cost and
  its payload are the cost and the checkpoint in the metadata of that call, or in the last event or the body
  of its answer, missing only if they are missing there, and a cost is of its cell's kind.
\<close>

theorem driver_results_well_formed:
  assumes "rpc_driver_of env net ctx cohort cell seed max_tokens ignore_eos prompt override w = (Inr r, w')"
  shows "rpc_result_ok (cell_path cell) r
    \<and> (rr_success r \<longrightarrow> (\<exists>wall reply. network_answers env net (rest_cohort cohort) (cell_path cell) w wall reply
        \<and> rr_wall_clock_ms r = Some wall \<and> rr_engine_cost r = reply_cost (cell_path cell) reply
        \<and> rr_timing_payload r = map_option checkpoint_fields (reply_timings (dv_other env) reply)))"
proof -
  from assms have "fst (rpc_driver_of env net ctx cohort cell seed max_tokens ignore_eos prompt override w) = Inr r"
    by simp
  note r = this[unfolded rpc_driver_of_def Let_def]
  have "rpc_result_ok (cell_path cell) r \<and> rpc_reports env net (rest_cohort cohort) (cell_path cell) w r"
  proof (cases "cell_path cell")
    case Embed
    show ?thesis using r unfolding Embed
      by (cases cohort; simp add: rest_cohort_def; blast dest: dispatchers_ok dispatchers_report)
  next
    case Chat_Stream
    show ?thesis using r unfolding Chat_Stream
      by (cases cohort; simp add: rest_cohort_def; blast dest: dispatchers_ok dispatchers_report)
  qed
  then show ?thesis by (simp add: rpc_reports_def)
qed

definition demo_ctx :: driver_ctx where
  "demo_ctx = \<lparr>dc_seq_len = 16, dc_base_seed = 42, dc_timeout_s = 120,
     dc_grpc_metadata = [(''authorization'', ''Bearer t'')], dc_rest_auth = [(''authorization'', ''Bearer t'')],
     dc_edge_base = ''https://e'', dc_tcp_base = ''http://t'',
     dc_default_channel = open_grpc_channel ''g:1'' BASELINE, dc_tuned_channel = open_grpc_channel ''g:1'' MAX_MSG_16MIB\<rparr>"

definition demo_cost_net :: "unit rpc_net" where
  "demo_cost_net = demo_net\<lparr>rn_chat_stream := \<lambda>c m t r w. (\<lparr>gs_t0 = 1, gs_chunks = [], gs_error = None,
     gs_done_at = 2, gs_trailers = Inr (Some [(''engine-ttft-ms'', ''5''), (''engine-tpot-ms'', ''2'')])\<rparr>, w)\<rparr>"

lemma demo_cost: "parse_grpc_trailing_metadata [(''engine-ttft-ms'', ''5''), (''engine-tpot-ms'', ''2'')] Chat_Stream
    = Some \<lparr>engine_forward_ms = None, engine_ttft_ms = Some 5, engine_tpot_ms = Some 2\<rparr>"
  by (simp add: parse_grpc_trailing_metadata_def dict_item_def or_none_def Let_def) code_simp

theorem driver_results_well_formed_witness:
  "\<exists>r. rpc_driver_of demo_driver_env demo_cost_net demo_ctx Default_Grpc
        \<lparr>cell_path = Chat_Stream, cell_hidden_size = 4096, cell_concurrency = 1\<rparr> 42 10 False (Some ''hi'') None ()
      = (Inr r, ()) \<and> rpc_result_ok Chat_Stream r
      \<and> rr_engine_cost r = Some \<lparr>engine_forward_ms = None, engine_ttft_ms = Some 5, engine_tpot_ms = Some 2\<rparr>"
proof -
  let ?cell = "\<lparr>cell_path = Chat_Stream, cell_hidden_size = 4096, cell_concurrency = 1\<rparr>"
  obtain r where run: "rpc_driver_of demo_driver_env demo_cost_net demo_ctx Default_Grpc ?cell 42 10 False (Some ''hi'') None ()
      = (Inr r, ())" and "rr_success r"
    by (simp add: rpc_driver_of_def drive_grpc_chat_stream_def build_chat_grpc_request_def fields_in_range_def
        int32_ok_def int64_ok_def demo_cost_net_def grpc_success_def trailers_or_none_def succeeded_rpc_def)
  with driver_results_well_formed[OF run] obtain wall reply where
    ok: "rpc_result_ok Chat_Stream r" "network_answers demo_driver_env demo_cost_net False Chat_Stream () wall reply"
      "rr_engine_cost r = reply_cost Chat_Stream reply"
    by (auto simp: rest_cohort_def)
  then have "reply = Trailers (Some [(''engine-ttft-ms'', ''5''), (''engine-tpot-ms'', ''2'')])"
    by (auto simp: network_answers_def demo_cost_net_def read_trailers_def)
  with ok run show ?thesis by (simp add: demo_cost)
qed

text \<open>
  C19. The figures of the two round-trip probes are within their samples. A probe that returns has made
  its n calls, n at least 1, kept n samples, none negative, and its median and 95th percentile lie between
  the least and the greatest; the median is at most the percentile over gRPC always, and over REST, which
  takes the upper median, unless there are exactly two samples.
\<close>

theorem rtt_probes_bounded:
  "(case measure_rtt net channel n metadata w of
      (Inr r, w') \<Rightarrow> probe_ok n r \<and> rtt_median_ms r \<le> rtt_p95_ms r | (Inl e, w') \<Rightarrow> True)
   \<and> (case rest_rtt_probe net base_url n w of
      (Inr r, w') \<Rightarrow> probe_ok n r \<and> (n = 2 \<or> rtt_median_ms r \<le> rtt_p95_ms r) | (Inl e, w') \<Rightarrow> True)"
proof
  show "case measure_rtt net channel n metadata w of
      (Inr r, w') \<Rightarrow> probe_ok n r \<and> rtt_median_ms r \<le> rtt_p95_ms r | (Inl e, w') \<Rightarrow> True"
  proof (cases "n < 1")
    case False
    obtain q w1 where q: "probe_loop (nat n) (ping_once net channel metadata) w = (q, w1)" by fastforce
    show ?thesis
    proof (cases q)
      case (Inr xs)
      with q probe_loop_length[of "nat n" "ping_once net channel metadata" w xs] False have "int (length xs) = n" by simp
      then show ?thesis using False q Inr rtt_of_pings_ok[of n xs]
        by (auto simp: measure_rtt_def split: sum.split)
    qed (use False q in \<open>simp add: measure_rtt_def\<close>)
  qed (simp add: measure_rtt_def)
  obtain q w1 where q: "probe_loop (nat n) (healthz_once net base_url) w = (q, w1)" by fastforce
  show "case rest_rtt_probe net base_url n w of
      (Inr r, w') \<Rightarrow> probe_ok n r \<and> (n = 2 \<or> rtt_median_ms r \<le> rtt_p95_ms r) | (Inl e, w') \<Rightarrow> True"
  proof (cases q)
    case (Inr xs)
    with q probe_loop_length[of "nat n" "healthz_once net base_url" w xs] have len: "length xs = nat n" by simp
    show ?thesis
    proof (cases "rtt_of_gets xs")
      case r: (Inr r)
      then have "xs \<noteq> []" by (auto simp: rtt_of_gets_def)
      with len have "int (length xs) = n" "length xs = 2 \<longleftrightarrow> n = 2"
        by (cases "0 \<le> n"; auto)+
      with rtt_of_gets_ok[OF r] show ?thesis using q Inr r by (auto simp: rest_rtt_probe_def)
    qed (use q Inr in \<open>simp add: rest_rtt_probe_def\<close>)
  qed (use q in \<open>simp add: rest_rtt_probe_def\<close>)
qed

text \<open>Two samples of 1 and 3 milliseconds have the median 3 and the 95th percentile 1.\<close>

lemma upper_median_above_p95:
  "rtt_of_gets [3, 1] = Inr \<lparr>rtt_n = 2, rtt_median_ms = 3, rtt_p95_ms = 1, rtt_samples_ms = [3, 1]\<rparr>"
  by (simp add: rtt_of_gets_def mk_rtt_record_def trunc_real_def)

end
