(* ===== verification/Rpc_Retry.thy ===== *)
theory Rpc_Retry
  imports Rpc_Results
begin

text \<open>
  What the retry of the sweep sees of the production driver: every failed call has become a result with a
  reason of its own, and no such reason is one of the transient ones.
\<close>

section \<open>What the libraries raise\<close>

text \<open>
  grpcio's calls raise \<open>RpcError\<close>s that have a code and details, httpx's raise \<open>HTTPError\<close>s, and
  \<open>json.loads\<close> raises \<open>ValueError\<close>s; the trailing metadata of a call that has ended is not cancelled.
\<close>

definition rpc_error :: "py_exn \<Rightarrow> bool" where
  "rpc_error e \<longleftrightarrow> isinstance e ''grpc.RpcError'' \<and> code_of e \<noteq> None \<and> details_of e \<noteq> None"

definition http_error :: "py_exn \<Rightarrow> bool" where
  "http_error e \<longleftrightarrow> isinstance e ''httpx.HTTPError''"

definition trailers_arrive :: "str_dict option py_result \<Rightarrow> bool" where
  "trailers_arrive r \<longleftrightarrow> (case r of Inr _ \<Rightarrow> True | Inl e \<Rightarrow> \<not> isinstance e ''CancelledError'')"

definition chat_run_ok :: "grpc_stream_run \<Rightarrow> bool" where
  "chat_run_ok run \<longleftrightarrow> (case gs_error run of Some e \<Rightarrow> rpc_error e | None \<Rightarrow> trailers_arrive (gs_trailers run))"

definition unary_run_ok :: "grpc_unary_run \<Rightarrow> bool" where
  "unary_run_ok run \<longleftrightarrow> (case gu_error run of Some e \<Rightarrow> rpc_error e | None \<Rightarrow> trailers_arrive (gu_trailers run))"

definition stream_run_ok :: "http_stream_run \<Rightarrow> bool" where
  "stream_run_ok run \<longleftrightarrow> (case hs_open run of Inl e \<Rightarrow> http_error e | Inr _ \<Rightarrow> True)
     \<and> (case hs_error run of Some e \<Rightarrow> http_error e | None \<Rightarrow> True)"

definition post_run_ok :: "http_post_run \<Rightarrow> bool" where
  "post_run_ok run \<longleftrightarrow> (case hp_answer run of Inl e \<Rightarrow> http_error e | Inr _ \<Rightarrow> True)"

definition documented :: "driver_env \<Rightarrow> 'w rpc_net \<Rightarrow> bool" where
  "documented env net \<longleftrightarrow>
     (\<forall>c m t r w. chat_run_ok (fst (rn_chat_stream net c m t r w)))
   \<and> (\<forall>c m t r w. unary_run_ok (fst (rn_complete net c m t r w)))
   \<and> (\<forall>u h b t w. stream_run_ok (fst (rn_stream net u h b t w)))
   \<and> (\<forall>u h b t w. post_run_ok (fst (rn_post net u h b t w)))
   \<and> (\<forall>s e. dv_loads env s = Inl e \<longrightarrow> isinstance e ''ValueError'')"

section \<open>Outcomes no retry looks at\<close>

definition settled :: "rpc_outcome \<Rightarrow> bool" where
  "settled r \<longleftrightarrow> (case r of
     Inl e \<Rightarrow> exn_name e = ''ValueError'' \<and> e = value_error (exn_msg e)
   | Inr x \<Rightarrow> if rr_success x then rr_wall_clock_ms x \<noteq> None
             else (case rr_failure_reason x of None \<Rightarrow> False
                   | Some s \<Rightarrow> s \<noteq> [] \<and> \<not> List.member TRANSIENT_FAILURE_REASONS s))"

lemma settled_value_error [simp]: "settled (Inl (value_error m))"
  by (simp add: settled_def)

lemma settled_succeeded [simp]: "settled (Inr (succeeded_rpc wall ttft cost ckpt))"
  by (simp add: settled_def succeeded_rpc_def)

text \<open>Every reason of the driver has a blank where a transient reason has an underscore.\<close>

lemma settled_failed:
  "settled (Inr (failed_rpc (''grpc chat: '' @ s)))" "settled (Inr (failed_rpc (''grpc embed: '' @ s)))"
  "settled (Inr (failed_rpc (''rest chat: '' @ s)))" "settled (Inr (failed_rpc (''rest embed: '' @ s)))"
  by (simp_all add: settled_def failed_rpc_def TRANSIENT_FAILURE_REASONS_def)

lemma settled_grpc_failure:
  "rpc_error e \<Longrightarrow> settled (grpc_failure ''grpc chat'' e)" "rpc_error e \<Longrightarrow> settled (grpc_failure ''grpc embed'' e)"
  using settled_failed(1,2) by (auto simp: rpc_error_def grpc_failure_def)

lemma settled_http_failure:
  "http_error e \<Longrightarrow> settled (http_failure ''rest chat'' e)" "http_error e \<Longrightarrow> settled (http_failure ''rest embed'' e)"
  using settled_failed(3,4) by (auto simp: http_error_def http_failure_def)

lemma settled_grpc_success: "trailers_arrive r \<Longrightarrow> settled (grpc_success p wall ttft r)"
  by (auto simp: trailers_arrive_def grpc_success_def trailers_or_none_def split: sum.splits)

lemma embed_bytes_error: "embed_bytes env sl hs idx base ov = Inl e \<Longrightarrow> \<exists>m. e = value_error m"
  by (auto simp: embed_bytes_def build_torch_save_bytes_def torch_generator_seed_def split: option.splits if_splits)

lemma loads_or_total:
  "documented env net \<Longrightarrow> \<exists>v. loads_or env fallback s = Inr v"
  by (cases "dv_loads env s") (auto simp: documented_def loads_or_def)

section \<open>The four dispatchers\<close>

lemma settled_grpc_chat:
  assumes "documented env net"
  shows "settled (fst (drive_grpc_chat_stream env net ch seed md to mt ig p w))"
proof -
  have "settled (Inl e)" if "build_chat_grpc_request env seed mt ig p = Inl e" for e
    using that by (auto simp: build_chat_grpc_request_def split: if_splits)
  moreover have "chat_run_ok (fst (rn_chat_stream net ch md to req w))" for req
    using assms by (simp add: documented_def)
  ultimately show ?thesis
    by (auto simp: drive_grpc_chat_stream_def chat_run_ok_def Let_def
        split: sum.splits option.splits prod.splits
        intro: settled_grpc_failure settled_grpc_success)
      (metis fst_conv option.simps(4,5) settled_grpc_failure(1) settled_grpc_success)+
qed

lemma settled_grpc_embed:
  assumes "documented env net"
  shows "settled (fst (drive_grpc_embed env net ch cell sl idx base md to mt ig ov w))"
proof -
  have err: "settled (Inl e)"
    if "build_embed_grpc_request env sl (cell_hidden_size cell) idx base mt ig ov None = Inl e" for e
    using that embed_bytes_error[of env sl "cell_hidden_size cell" idx base ov]
    by (cases "embed_bytes env sl (cell_hidden_size cell) idx base ov")
      (auto simp: build_embed_grpc_request_def Let_def split: if_splits)
  show ?thesis
  proof (cases "build_embed_grpc_request env sl (cell_hidden_size cell) idx base mt ig ov None")
    case (Inl e)
    then show ?thesis using err by (simp add: drive_grpc_embed_def)
  next
    case (Inr req)
    obtain run w' where run: "rn_complete net ch md to req w = (run, w')" by fastforce
    have "unary_run_ok (fst (rn_complete net ch md to req w))" using assms by (simp add: documented_def)
    then show ?thesis using Inr run
      by (cases "gu_error run")
        (auto simp: drive_grpc_embed_def unary_run_ok_def intro: settled_grpc_failure settled_grpc_success)
  qed
qed

lemma settled_rest_chat:
  assumes "documented env net"
  shows "settled (fst (drive_rest_chat_stream env net url auth seed to mt ig p w))"
proof -
  let ?body = "json_dumps (dv_fl env) (JObj (build_chat_rest_payload env seed mt ig p))"
  obtain run w' where run: "rn_stream net (url @ ''/v1/chat/completions'') (json_headers auth) ?body to w = (run, w')"
    by fastforce
  have "stream_run_ok (fst (rn_stream net (url @ ''/v1/chat/completions'') (json_headers auth) ?body to w))"
    using assms unfolding documented_def by blast
  then have ok: "stream_run_ok run" unfolding run by simp
  have drv: "fst (drive_rest_chat_stream env net url auth seed to mt ig p w) = (case hs_open run of
      Inl exc \<Rightarrow> http_failure ''rest chat'' exc
    | Inr status \<Rightarrow> if status \<noteq> 200 then Inr (failed_rpc (''rest chat: '' @ str_int status))
        else (case hs_error run of Some exc \<Rightarrow> http_failure ''rest chat'' exc | None \<Rightarrow> rest_stream_success env run))"
    unfolding drive_rest_chat_stream_def Let_def run by simp
  obtain fa lp where ls: "fold rest_line (hs_lines run) (None, None) = (fa, lp)" by fastforce
  have "\<exists>v. (if truthy lp then loads_or env JNull (the lp) else Inr JNull) = Inr v"
    using loads_or_total[OF assms] by simp
  then have "settled (rest_stream_success env run)"
    by (auto simp: rest_stream_success_def ls split: prod.split)
  then show ?thesis
    unfolding drv using ok settled_http_failure(1) settled_failed(3)
    by (cases "hs_open run"; cases "hs_error run") (simp_all add: stream_run_ok_def)
qed

lemma settled_rest_embed:
  assumes "documented env net"
  shows "settled (fst (drive_rest_embed env net url auth cell sl idx base to mt ig ov w))"
proof -
  have err: "settled (Inl e)"
    if "build_embed_rest_payload env sl (cell_hidden_size cell) idx base mt ig ov None = Inl e" for e
    using that embed_bytes_error[of env sl "cell_hidden_size cell" idx base ov]
    by (cases "embed_bytes env sl (cell_hidden_size cell) idx base ov")
      (auto simp: build_embed_rest_payload_def)
  show ?thesis
  proof (cases "build_embed_rest_payload env sl (cell_hidden_size cell) idx base mt ig ov None")
    case (Inl e)
    then show ?thesis using err by (simp add: drive_rest_embed_def)
  next
    case (Inr body)
    let ?body = "json_dumps (dv_fl env) (JObj body)"
    obtain run w' where run: "rn_post net (url @ ''/v1/embeddings'') (json_headers auth) ?body to w = (run, w')"
      by fastforce
    have "post_run_ok (fst (rn_post net (url @ ''/v1/embeddings'') (json_headers auth) ?body to w))"
      using assms unfolding documented_def by blast
    then have ok: "post_run_ok run" unfolding run by simp
    have drv: "fst (drive_rest_embed env net url auth cell sl idx base to mt ig ov w) = (case hp_answer run of
        Inl exc \<Rightarrow> http_failure ''rest embed'' exc
      | Inr (status, answer) \<Rightarrow> if status \<noteq> 200 then Inr (failed_rpc (''rest embed: '' @ str_int status))
          else rest_embed_success env (elapsed_ms (hp_t0 run) (hp_done_at run)) answer)"
      unfolding drive_rest_embed_def Inr Let_def sum.case run by simp
    have "settled (rest_embed_success env wall answer)" for wall answer
      using loads_or_total[OF assms, of "JObj []" answer]
      by (auto simp: rest_embed_success_def split: prod.split)
    then show ?thesis
      unfolding drv using ok settled_http_failure(2) settled_failed(4)
      by (cases "hp_answer run") (simp_all add: post_run_ok_def split: prod.split)
  qed
qed

definition settles :: "'w rpc_driver \<Rightarrow> bool" where
  "settles d \<longleftrightarrow> (\<forall>co cell seed mt ig p ov w. settled (fst (d co cell seed mt ig p ov w)))"

lemma production_driver_settles:
  assumes "documented env net" shows "settles (rpc_driver_of env net ctx)"
  using settled_grpc_chat[OF assms] settled_grpc_embed[OF assms] settled_rest_chat[OF assms]
    settled_rest_embed[OF assms]
  by (simp add: settles_def rpc_driver_of_def Let_def)

section \<open>From the driver to the retry\<close>

lemma settled_gather:
  "settles d \<Longrightarrow> list_all settled (fst (gather_block d q seeds w))"
proof (induction seeds arbitrary: w)
  case (Cons s ss)
  obtain r w1 where r: "call_driver d q s w = (r, w1)" by fastforce
  have "settled r" using Cons.prems r unfolding settles_def call_driver_def by (metis fst_conv)
  with Cons.IH[OF Cons.prems, of w1] r show ?case by (auto split: prod.split)
qed simp

lemma settled_recovery:
  assumes "recovery_loop a rs st w = (r, st', w')" "list_all settled rs"
    and "\<And>u d u'. ra_make_driver a u = (Inr d, u') \<Longrightarrow> settles d"
    and "\<And>d u rs' u'. settles d \<Longrightarrow> ra_gather a d u = (Inr rs', u') \<Longrightarrow> list_all settled rs'"
  shows "\<forall>rs'. r = Inr rs' \<longrightarrow> list_all settled rs'"
  using assms(1,2)
  by (induction rule: recovery_loop_run_induct) (auto dest: assms(3) assms(4))

lemma classify_value_error: "classify_dispatcher_exc (value_error m) = ''valueerror''"
proof -
  have "str_lower ''ValueError'' = ''valueerror''" by code_simp
  then show ?thesis by (simp add: classify_dispatcher_exc_def lower_name_def)
qed

lemma settled_outcome_failure:
  assumes "settled r" "outcome_failure r = Some s"
  shows "s \<noteq> [] \<and> \<not> List.member TRANSIENT_FAILURE_REASONS s"
proof (cases r)
  case (Inl e)
  then obtain m where "e = value_error m" using assms(1) by (auto simp: settled_def)
  then have "s = ''valueerror''" using assms(2) Inl classify_value_error[of m] by (simp add: outcome_failure_def)
  then show ?thesis by (simp add: TRANSIENT_FAILURE_REASONS_def)
next
  case (Inr x)
  with assms show ?thesis
    by (auto simp: settled_def outcome_failure_def rpc_failure_text_def split: if_splits option.splits
        simp del: List.member_iff)
qed

lemma settled_collect:
  assumes "list_all settled rs" shows "\<not> transient_result (collect_results f rs)"
proof (cases "List.map_filter outcome_failure rs")
  case Nil
  then show ?thesis
    by (simp add: transient_result_def collect_results_eq first_of_def reason_or_default_def TRANSIENT_FAILURE_REASONS_def)
next
  case (Cons s ss)
  have "s \<in> set (List.map_filter outcome_failure rs)" by (simp add: Cons)
  then obtain r where "r \<in> set rs" "outcome_failure r = Some s" by (auto simp: map_filter_def)
  with settled_outcome_failure assms have "s \<noteq> [] \<and> \<not> List.member TRANSIENT_FAILURE_REASONS s"
    by (auto simp: list_all_iff)
  then show ?thesis
    by (simp add: transient_result_def collect_results_eq Cons first_of_def reason_or_default_def)
qed

lemma settled_dispatch:
  assumes "settles (ps_driver (mw_block mw))"
    and "\<And>mk u d u'. mc_make_driver cfg = Some mk \<Longrightarrow> mk u = (Inr d, u') \<Longrightarrow> settles d"
    and "modal_block_dispatcher cfg call mw = (r, mw')"
  shows "case r of Inl e \<Rightarrow> \<not> is_transient_modal_error e | Inr res \<Rightarrow> \<not> transient_result res"
proof (cases "cell_from_cell_id (bcall_cell_id call)")
  case (Inl e)
  then have "r = Inl e" using assms(3) by (simp add: modal_block_dispatcher_def)
  moreover obtain m where "e = value_error m" using Inl by (auto simp: cell_from_cell_id_def split: option.splits)
  then have "\<not> is_transient_modal_error e" by simp
  ultimately show ?thesis by simp
next
  case (Inr cell)
  let ?q = "block_rpc_args call cell" and ?seeds = "rpc_seeds (mc_base_seed cfg) (bcall_n call)"
  obtain rs w1 where g: "gather_block (ps_driver (mw_block mw)) ?q ?seeds (mw_world mw) = (rs, w1)" by fastforce
  have rs: "list_all settled rs" using settled_gather[OF assms(1), of ?q ?seeds "mw_world mw"] g by simp
  show ?thesis
  proof (cases "mc_make_driver cfg")
    case None
    then have "r = Inr (collect_results (mc_fstr cfg) rs)"
      using assms(3) Inr g by (simp add: modal_block_dispatcher_def)
    then show ?thesis using settled_collect[OF rs] by simp
  next
    case (Some mk)
    let ?a = "block_recovery_args cfg call cell mk"
    obtain x st w2 where rec: "recovery_loop ?a rs (mw_block mw) w1 = (x, st, w2)"
      by (cases "recovery_loop ?a rs (mw_block mw) w1") auto
    have gather: "list_all settled rs'" if "settles d" "ra_gather ?a d u = (Inr rs', u')" for d u rs' u'
      using that settled_gather[of d ?q ?seeds u] by (auto simp: block_recovery_args_def split: prod.splits)
    have mk: "settles d" if "ra_make_driver ?a u = (Inr d, u')" for u d u'
      using that assms(2)[OF Some] by (auto simp: block_recovery_args_def)
    have ok: "\<forall>rs'. x = Inr rs' \<longrightarrow> list_all settled rs'"
      by (rule settled_recovery[OF rec rs]) (auto intro: mk gather)
    have r: "r = (case x of Inl e \<Rightarrow> Inl e | Inr rs' \<Rightarrow> Inr (collect_results (mc_fstr cfg) rs'))"
      using assms(3) Inr g Some rec by (auto simp: modal_block_dispatcher_def split: sum.splits)
    show ?thesis
    proof (cases x)
      case (Inr rs')
      then show ?thesis using r ok settled_collect by simp
    next
      case (Inl e)
      have "ra_gather ?a d u \<noteq> (Inl e, u')" for d u u'
        by (auto simp: block_recovery_args_def split: prod.splits)
      with recovery_loop_error[OF rec[unfolded Inl]] have "(\<exists>m. e = Exn ''PreemptionBudgetExhausted'' m)
          \<or> (\<exists>m. e = Exn ''PreemptionRecoveryFailed'' m)"
        by (auto simp: block_recovery_args_def block_exhausted_def block_recovery_failed_def)
      then show ?thesis using r Inl by auto
    qed
  qed
qed

section \<open>Property\<close>

text \<open>
  C11. The retry of a block never runs with the production driver. As long as grpcio and httpx raise their
  own errors, whatever they do with the calls of a block, the block is dispatched once, its failure
  reason is none of the transient ones and no transient exception leaves the dispatcher: the driver has
  already turned every transport error into a result with a reason of its own.
\<close>

theorem production_driver_never_retried:
  assumes "documented env net" "ps_driver (mw_block (snd (now mw))) = rpc_driver_of env net ctx"
    and "\<And>mk u d u'. mc_make_driver cfg = Some mk \<Longrightarrow> mk u = (Inr d, u') \<Longrightarrow> \<exists>ctx'. d = rpc_driver_of env net ctx'"
  shows "dispatch_count call (modal_block_dispatcher cfg) is_transient_modal_error now mw = 1
    \<and> (case fst (modal_block_dispatcher cfg call (snd (now mw))) of
         Inl e \<Rightarrow> \<not> is_transient_modal_error e | Inr res \<Rightarrow> \<not> transient_result res)"
proof -
  obtain t mw1 where n: "now mw = (t, mw1)" by fastforce
  obtain r mw2 where d: "modal_block_dispatcher cfg call mw1 = (r, mw2)" by fastforce
  have "settles (ps_driver (mw_block mw1))" using assms(1,2) n by (simp add: production_driver_settles)
  moreover have mk: "settles d" if "mc_make_driver cfg = Some mk" "mk u = (Inr d, u')" for mk u d u'
    using assms(3)[OF that] production_driver_settles[OF assms(1)] by auto
  ultimately have r: "case r of Inl e \<Rightarrow> \<not> is_transient_modal_error e | Inr res \<Rightarrow> \<not> transient_result res"
    using settled_dispatch[of mw1 cfg call r mw2] d by blast
  have "dispatch_count call (modal_block_dispatcher cfg) is_transient_modal_error now mw = 1"
    unfolding dispatch_count_cases[where now = now and d = "modal_block_dispatcher cfg" and call = call, OF n d]
    using r by (auto split: sum.splits)
  with r n d show ?thesis by simp
qed

definition unavailable :: py_exn where
  "unavailable = Lib_Exn ''AioRpcError'' ''unavailable'' [''AioRpcError'', ''grpc.RpcError'']
     (Some ''UNAVAILABLE'') (Some (Some ''try again''))"

definition connect_error :: py_exn where
  "connect_error = Lib_Exn ''ConnectTimeout'' ''timed out''
     [''httpx.TimeoutException'', ''httpx.TransportError'', ''httpx.HTTPError''] None None"

text \<open>A network on which every call fails in a transient way.\<close>

definition flaky_net :: "unit rpc_net" where
  "flaky_net = demo_net\<lparr>
     rn_chat_stream := (\<lambda>c m t r w. (\<lparr>gs_t0 = 1, gs_chunks = [], gs_error = Some unavailable, gs_done_at = 2,
       gs_trailers = Inr None\<rparr>, w)),
     rn_complete := (\<lambda>c m t r w. (\<lparr>gu_t0 = 1, gu_error = Some unavailable, gu_done_at = 2, gu_trailers = Inr None\<rparr>, w)),
     rn_stream := (\<lambda>u h b t w. (\<lparr>hs_t0 = 1, hs_open = Inl connect_error, hs_lines = [], hs_error = None,
       hs_done_at = 2\<rparr>, w)),
     rn_post := (\<lambda>u h b t w. (\<lparr>hp_t0 = 1, hp_answer = Inl connect_error, hp_done_at = 2\<rparr>, w))\<rparr>"

definition flaky_world :: "unit modal_world" where
  "flaky_world = (let st = fresh_state (rpc_driver_of demo_driver_env flaky_net demo_ctx)
     in \<lparr>mw_world = (), mw_block = st, mw_anchor = st\<rparr>)"

definition flaky_config :: "unit modal_config" where
  "flaky_config = \<lparr>mc_base_seed = 42, mc_make_driver = None, mc_budget = 2, mc_threshold = 2,
     mc_fstr = (\<lambda>x. []), mc_anchor_cell = default_anchor_cell, mc_anchor_max_tokens = 50\<rparr>"

theorem production_driver_never_retried_witness:
  "is_transient_modal_error unavailable \<and> is_transient_modal_error connect_error
    \<and> (\<forall>co inputs. dispatch_count \<lparr>bcall_cell_id = cell_id_of Chat_Stream 1, bcall_cohort = co, bcall_max_tokens = 10,
        bcall_n = 1, bcall_inputs = inputs\<rparr> (modal_block_dispatcher flaky_config) is_transient_modal_error
        (\<lambda>w. (''t'', w)) flaky_world = 1)"
proof -
  have doc: "documented demo_driver_env flaky_net"
    by (simp add: documented_def flaky_net_def chat_run_ok_def unary_run_ok_def stream_run_ok_def post_run_ok_def
        rpc_error_def http_error_def unavailable_def connect_error_def demo_driver_env_def)
  have drv: "ps_driver (mw_block (snd (''t'', flaky_world))) = rpc_driver_of demo_driver_env flaky_net demo_ctx"
    by (simp add: flaky_world_def fresh_state_def Let_def)
  have "is_transient_modal_error unavailable \<and> is_transient_modal_error connect_error"
    by (simp add: is_transient_modal_error_def unavailable_def connect_error_def in_codes_def GRPC_TRANSIENT_CODES_def)
  moreover have none: "mc_make_driver flaky_config = None" by (simp add: flaky_config_def)
  ultimately show ?thesis
    using production_driver_never_retried[where now = "\<lambda>w. (''t'', w)" and mw = flaky_world and cfg = flaky_config,
        OF doc drv] by simp
qed

end
