(* ===== verification/Bench_Serve.thy ===== *)
theory Bench_Serve
  imports Bench_Servicer_Laws Bench_Laws Rest_Shim Frontend_Server
begin

text \<open>
  What the containers of \<open>scripts/python/modal_bench_grpc_server.py\<close> and
  \<open>modal_bench_rest_grpc_server.py\<close> serve: the engine they choose, the servers they start and the answer
  of each surface to a call. The handshake around it is \<open>Bench_Deploy\<close>. A gRPC method the servicers do
  not define is answered by generated code and is not a call of the model.
\<close>

section \<open>Engines\<close>

text \<open>The configuration the three serve functions write out.\<close>

definition deployed_mock_config :: "mock_config py_result" where
  "deployed_mock_config = mk_mock_config 4096 0 200 2048 False"

text \<open>The arguments of the real engine, the choice between the two, and the tokenizer that goes with it.\<close>

record engine_args =
  ea_model :: string
  ea_dtype :: string
  ea_enable_prompt_embeds :: bool
  ea_max_model_len :: int
  ea_gpu_memory_utilization :: real

definition m6_engine_args :: "string \<Rightarrow> engine_args" where
  "m6_engine_args model =
     \<lparr>ea_model = model, ea_dtype = ''float16'', ea_enable_prompt_embeds = True, ea_max_model_len = 2048,
      ea_gpu_memory_utilization = 92 / 100\<rparr>"

datatype 'e m6_engine = Real_Engine 'e | Mock_Engine_Of mock_config

type_synonym chat_template = "(string \<times> string) list \<Rightarrow> string py_result"

definition m6_engine ::
  "(engine_args \<Rightarrow> ('e \<times> chat_template) py_result) \<Rightarrow> string option \<Rightarrow> string
     \<Rightarrow> ('e m6_engine \<times> chat_template option) py_result" where
  "m6_engine from_engine_args m6_use model =
     (if use_real_engine m6_use
      then bind_result (from_engine_args (m6_engine_args model)) (\<lambda>(e, tokenizer). Inr (Real_Engine e, Some tokenizer))
      else bind_result deployed_mock_config (\<lambda>cfg. Inr (Mock_Engine_Of cfg, None)))"

section \<open>Servers\<close>

definition GRPC_PORT :: int where "GRPC_PORT = 50051"
definition REST_PORT :: int where "REST_PORT = 8000"
definition REST_HTTPS_EDGE_PORT :: int where "REST_HTTPS_EDGE_PORT = 8001"

record uvicorn_config =
  uv_host :: string
  uv_port :: int
  uv_workers :: int
  uv_log_level :: string
  uv_loop :: string

definition shim_uvicorn :: "int \<Rightarrow> uvicorn_config" where
  "shim_uvicorn port =
     \<lparr>uv_host = ''0.0.0.0'', uv_port = port, uv_workers = 1, uv_log_level = ''warning'', uv_loop = ''asyncio''\<rparr>"

text \<open>
  The gRPC server with its interceptor's token, the services registered on it and its address, and the
  HTTP servers, all of which wrap one shim built with the same token.
\<close>

record 'e bench_servers =
  bv_engine :: 'e
  bv_interceptor_token :: string
  bv_services :: "service list"
  bv_grpc_address :: string
  bv_shim_token :: "string option"
  bv_uvicorn :: "uvicorn_config list"

definition grpc_surface :: "'e \<Rightarrow> string \<Rightarrow> 'e bench_servers" where
  "grpc_surface engine token =
     \<lparr>bv_engine = engine, bv_interceptor_token = token,
      bv_services = [Chat_Service, Completions_Service, Health_Service],
      bv_grpc_address = ''[::]:'' @ str_int GRPC_PORT, bv_shim_token = None, bv_uvicorn = []\<rparr>"

definition both_surfaces :: "'e \<Rightarrow> string \<Rightarrow> 'e bench_servers" where
  "both_surfaces engine token =
     (grpc_surface engine token)
       \<lparr>bv_shim_token := Some token, bv_uvicorn := [shim_uvicorn REST_PORT, shim_uvicorn REST_HTTPS_EDGE_PORT]\<rparr>"

definition grpc_bench_servers :: "string \<Rightarrow> mock_config bench_servers py_result" where
  "grpc_bench_servers token = bind_result deployed_mock_config (\<lambda>cfg. Inr (grpc_surface cfg token))"

definition rest_grpc_bench_servers :: "string \<Rightarrow> mock_config bench_servers py_result" where
  "rest_grpc_bench_servers token = bind_result deployed_mock_config (\<lambda>cfg. Inr (both_surfaces cfg token))"

definition real_engine_bench_servers ::
  "(engine_args \<Rightarrow> ('e \<times> chat_template) py_result) \<Rightarrow> string option \<Rightarrow> string option \<Rightarrow> string \<Rightarrow> string
     \<Rightarrow> ('e m6_engine \<times> chat_template option) bench_servers py_result" where
  "real_engine_bench_servers from_engine_args m6_use m6_model model_id token =
     bind_result (m6_engine from_engine_args m6_use (effective_model m6_model model_id))
       (\<lambda>e. Inr (both_surfaces e token))"

text \<open>The entry point of the real-engine deployment: exit code 2, or the arguments of the remote call.\<close>

definition m6_main :: "string \<Rightarrow> string \<Rightarrow> string \<Rightarrow> int + (string \<times> string \<times> string)" where
  "m6_main token region model_id = (if token = [] then Inl 2 else Inr (token, region, model_id))"

section \<open>Calls to the mock deployments\<close>

datatype bench_call = Ping_Call | Chat_Call chat_complete_request | Stream_Call chat_complete_request
  | Completion_Call completion_request

datatype bench_answer = Ping_Answer string | Chat_Answer chat_complete_response
  | Chunks_Answer "chat_stream_chunk list" "py_exn option" | Completion_Answer completion_response

definition bench_servicers ::
  "(string \<Rightarrow> string) \<Rightarrow> bench_engine \<Rightarrow> bench_call \<Rightarrow> bench_answer py_result" where
  "bench_servicers blake engine call = (case call of
     Ping_Call \<Rightarrow> Inr (Ping_Answer bench_ping)
   | Chat_Call req \<Rightarrow> bind_result (bench_chat_complete engine req) (\<lambda>r. Inr (Chat_Answer r))
   | Stream_Call req \<Rightarrow> (let (chunks, err) = bench_chat_stream engine req in Inr (Chunks_Answer chunks err))
   | Completion_Call req \<Rightarrow> bind_result (bench_complete blake engine req) (\<lambda>r. Inr (Completion_Answer r)))"

text \<open>
  A call to the engine of a container: the ids in flight are those of the other calls. The outputs of a
  REST call are stamped with the readings of its handler.
\<close>

definition mock_call ::
  "mock_env \<Rightarrow> mock_config \<Rightarrow> string list \<Rightarrow> string \<Rightarrow> bench_engine" where
  "mock_call me cfg inflight request_id prompt max_tokens =
     (case fst (mock_generate me cfg prompt (Some max_tokens) request_id inflight) of
        Inl exc \<Rightarrow> ([], Some exc)
      | Inr outs \<Rightarrow> (outs, None))"

definition grpc_bench_call ::
  "(string \<Rightarrow> string) \<Rightarrow> mock_env \<Rightarrow> mock_config bench_servers \<Rightarrow> string list \<Rightarrow> string
     \<Rightarrow> (string \<times> string) list \<Rightarrow> bench_call \<Rightarrow> bench_answer py_result" where
  "grpc_bench_call blake me sv inflight request_id metadata call =
     intercept_service (bv_interceptor_token sv) metadata
       (bench_servicers blake (mock_call me (bv_engine sv) inflight request_id) call)"

text \<open>\<open>repr\<close> of the dictionary with a tensor is an argument.\<close>

definition mock_prompt_str :: "('a tensor \<Rightarrow> string) \<Rightarrow> 'a engine_input \<Rightarrow> string" where
  "mock_prompt_str repr_embeds engine_input = (case engine_input of
     Text_Input p \<Rightarrow> p | Tensor_Input t \<Rightarrow> repr_embeds t)"

record 'a shim_host =
  so_torch_load :: "string \<Rightarrow> 'a tensor py_result"
  so_repr_embeds :: "'a tensor \<Rightarrow> string"
  so_blake :: "string \<Rightarrow> string"
  so_fl :: "real \<Rightarrow> string"
  so_uuid :: string
  so_reads :: "nat \<Rightarrow> step_reads"

definition timed_run :: "(nat \<Rightarrow> step_reads) \<Rightarrow> bench_run \<Rightarrow> timed_output list \<times> run_end" where
  "timed_run reads run =
     (zip (fst run) (map reads [0 ..< length (fst run)]),
      case snd run of None \<Rightarrow> Engine_Exhausted | Some exc \<Rightarrow> Engine_Raised exc)"

text \<open>The shim over the container's mock engine, with the parameter class it falls back to.\<close>

definition mock_shim_env ::
  "'a shim_host \<Rightarrow> mock_env \<Rightarrow> mock_config \<Rightarrow> string list \<Rightarrow> (int \<times> int option, 'a) shim_env" where
  "mock_shim_env so me cfg inflight =
     \<lparr>sh_SamplingParams = (\<lambda>max_tokens seed. Inr (max_tokens, seed)),
      sh_generate = (\<lambda>engine_input params request_id.
        timed_run (so_reads so)
          (mock_call me cfg inflight request_id (mock_prompt_str (so_repr_embeds so) engine_input) (fst params))),
      sh_torch_load = so_torch_load so, sh_blake = so_blake so, sh_fl = so_fl so, sh_uuid = so_uuid so\<rparr>"

definition rest_bench_call ::
  "'a shim_host \<Rightarrow> mock_env \<Rightarrow> mock_config bench_servers \<Rightarrow> string list \<Rightarrow> shim_reads \<Rightarrow> string option
     \<Rightarrow> shim_call \<Rightarrow> http_reply py_result option" where
  "rest_bench_call so me sv inflight hr authorization call =
     map_option (\<lambda>token. rest_shim (mock_shim_env so me (bv_engine sv) inflight) token hr authorization call)
       (bv_shim_token sv)"

section \<open>Calls to the real-engine deployment\<close>

text \<open>\<open>tokenizer.apply_chat_template\<close> of the tokenizer the container holds, which may be \<open>None\<close>.\<close>

definition template_of :: "chat_template option \<Rightarrow> chat_template" where
  "template_of tokenizer = (case tokenizer of
     Some apply_chat_template \<Rightarrow> apply_chat_template
   | None \<Rightarrow> (\<lambda>messages. Inl (Exn ''AttributeError''
       ([CHR 0x27] @ ''NoneType'' @ [CHR 0x27] @ '' object has no attribute '' @ [CHR 0x27]
         @ ''apply_chat_template'' @ [CHR 0x27]))))"

datatype m6_call = Bench_Call bench_call | Completion_Stream_Call completion_request

datatype m6_answer =
    M6_Ping string
  | M6_Chat "(string \<times> string) list option" "chat_complete_response py_result"
  | M6_Stream "chat_stream_chunk stream_event list" stream_end
  | M6_Completion "(string \<times> string) list option" "completion_response rpc_answer"
  | M6_Completion_Stream "completion_stream_chunk stream_event list" stream_end

text \<open>The frontend's servicers over the chosen engine; \<open>env\<close> is their environment but for the tokenizer.\<close>

definition m6_servicers ::
  "('p, 'a) frontend_env \<Rightarrow> chat_template option \<Rightarrow> entry_reads \<Rightarrow> real \<Rightarrow> unary_reads \<Rightarrow> m6_call \<Rightarrow> m6_answer" where
  "m6_servicers env tokenizer er finished_at ur call =
     (let env' = env\<lparr>fe_apply_chat_template := template_of tokenizer\<rparr>
      in case call of
           Bench_Call Ping_Call \<Rightarrow> M6_Ping bench_ping
         | Bench_Call (Chat_Call req) \<Rightarrow> (let (md, r) = chat_complete env' er finished_at req in M6_Chat md r)
         | Bench_Call (Stream_Call req) \<Rightarrow> (let (evs, e) = chat_complete_stream env' er req in M6_Stream evs e)
         | Bench_Call (Completion_Call req) \<Rightarrow>
             (let (md, r) = completions_complete env' ur req in M6_Completion md r)
         | Completion_Stream_Call req \<Rightarrow>
             (let (evs, e) = completions_complete_stream env' er req in M6_Completion_Stream evs e))"

definition m6_grpc_call ::
  "('e m6_engine \<Rightarrow> ('p, 'a) frontend_env) \<Rightarrow> ('e m6_engine \<times> chat_template option) bench_servers
     \<Rightarrow> entry_reads \<Rightarrow> real \<Rightarrow> unary_reads \<Rightarrow> (string \<times> string) list \<Rightarrow> m6_call \<Rightarrow> m6_answer py_result" where
  "m6_grpc_call env_of sv er finished_at ur metadata call =
     intercept_service (bv_interceptor_token sv) metadata
       (Inr (m6_servicers (env_of (fst (bv_engine sv))) (snd (bv_engine sv)) er finished_at ur call))"

definition m6_rest_call ::
  "('e m6_engine \<Rightarrow> ('p, 'a) shim_env) \<Rightarrow> ('e m6_engine \<times> chat_template option) bench_servers
     \<Rightarrow> shim_reads \<Rightarrow> string option \<Rightarrow> shim_call \<Rightarrow> http_reply py_result option" where
  "m6_rest_call env_of sv hr authorization call =
     map_option (\<lambda>token. rest_shim (env_of (fst (bv_engine sv))) token hr authorization call) (bv_shim_token sv)"

end
