(* ===== verification/Bench_Serve_Laws.thy ===== *)
theory Bench_Serve_Laws
  imports Bench_Serve
begin

text \<open>
  The two surfaces of a benchmark deployment: whom they let in, when they give the mock engine the same
  prompt, that they then answer with the same text, and what the real-engine deployment does when an
  operator asks it for the mock engine.
\<close>

section \<open>The mock engine of a deployment\<close>

lemma deployed_mock_config_Inr [simp]:
  "deployed_mock_config = Inr \<lparr>mk_hidden_size = 4096, mk_seed = 0, mk_tokens_per_second = 200,
     mk_max_tokens_per_stream = 2048, mk_pace_tokens = False\<rparr>"
  by (simp add: deployed_mock_config_def mk_mock_config_def)

lemma deployed_bounds:
  assumes "mk_max_tokens_per_stream cfg = 2048" "mk_seed cfg = 0"
  shows "1 \<le> mk_max_tokens_per_stream cfg" "0 \<le> mk_seed cfg" "mk_seed cfg < 2 ^ 64"
  using assms by simp_all

abbreviation mock_reason :: "mock_config \<Rightarrow> int \<Rightarrow> string" where
  "mock_reason cfg n \<equiv> (if mk_max_tokens_per_stream cfg \<le> n then ''length'' else ''stop'')"

text \<open>The fragments of a generation, and the call that gives them; neither depends on the caller.\<close>

definition mock_answers :: "mock_env \<Rightarrow> mock_config \<Rightarrow> string \<Rightarrow> int \<Rightarrow> nat \<Rightarrow> nat list \<Rightarrow> bool" where
  "mock_answers me cfg prompt m seed fs \<longleftrightarrow> fs \<noteq> [] \<and> (\<forall>f \<in> set fs. f < length TOKEN_FRAGMENTS)
     \<and> (\<forall>rid fl. \<not> List.member fl rid \<longrightarrow> mock_call me cfg fl rid prompt m
          = (map (mock_output cfg seed fs (int (length fs))) [0 ..< length fs], None))"

lemma mock_answers_exist:
  assumes "1 \<le> mk_max_tokens_per_stream cfg" "0 \<le> mk_seed cfg" "mk_seed cfg < 2 ^ 64"
    and "numpy_integers me" "prompt \<noteq> []"
  shows "\<exists>seed fs. mock_answers me cfg prompt m seed fs
    \<and> int (length fs) = mock_token_count cfg prompt (Some m)"
proof -
  define n where "n = mock_token_count cfg prompt (Some m)"
  have n: "1 \<le> n" using mock_token_count_bounds[OF assms(1)] by (simp add: n_def)
  obtain outs where outs: "mock_outputs me cfg prompt (Some m) = Inr outs"
    using assms(2,3) by (simp add: mock_outputs_def mock_prompt_hash_def bytes8_little_def Let_def)
  obtain seed where shape: "outs = map (mock_output cfg seed (mo_integers me seed n) n)
      [0 ..< length (mo_integers me seed n)]"
    using mock_outputs_Inr[OF outs] by (auto simp: n_def)
  define fs where "fs = mo_integers me seed n"
  have "0 \<le> n" using n by simp
  with assms(4) have fs: "int (length fs) = n" "\<forall>f \<in> set fs. f < length TOKEN_FRAGMENTS"
    unfolding numpy_integers_def fs_def by auto
  have "mock_call me cfg fl rid prompt m = (map (mock_output cfg seed fs (int (length fs))) [0 ..< length fs], None)"
    if "\<not> List.member fl rid" for rid fl
    using that assms(5) outs shape fs(1)
    by (simp add: mock_call_def mock_generate_def mock_enter_def fs_def)
  then have "mock_answers me cfg prompt m seed fs" using fs n by (auto simp: mock_answers_def)
  then show ?thesis using fs(1) n_def by blast
qed

lemma mock_last_output:
  assumes "mock_answers me cfg prompt m seed fs"
  shows "last (map (mock_output cfg seed fs (int (length fs))) [0 ..< length fs])
    = mock_output cfg seed fs (int (length fs)) (length fs - 1)"
    "co_text (mock_completion (mock_output cfg seed fs (int (length fs)) (length fs - 1))) = fragment_text fs"
    "reason_or_stop (mock_completion (mock_output cfg seed fs (int (length fs)) (length fs - 1)))
      = mock_reason cfg (int (length fs))"
proof -
  have ne: "fs \<noteq> []" using assms by (simp add: mock_answers_def)
  then have "1 \<le> length fs" by (cases fs) simp_all
  then have "int (length fs - 1) = int (length fs) - 1" by (simp add: of_nat_diff)
  then show "last (map (mock_output cfg seed fs (int (length fs))) [0 ..< length fs])
      = mock_output cfg seed fs (int (length fs)) (length fs - 1)"
    "co_text (mock_completion (mock_output cfg seed fs (int (length fs)) (length fs - 1))) = fragment_text fs"
    "reason_or_stop (mock_completion (mock_output cfg seed fs (int (length fs)) (length fs - 1)))
      = mock_reason cfg (int (length fs))"
    using ne by (simp_all add: last_map reason_or_stop_def truthy_def mock_finish_reason_def)
qed

section \<open>gRPC\<close>

lemma bench_chat_answers:
  assumes "mock_answers me cfg (request_prompt_text req) (max_tokens_or 64 (cq_max_tokens req)) seed fs"
    and "\<not> List.member fl rid"
  shows "\<exists>r. bench_chat_complete (mock_call me cfg fl rid) req = Inr r \<and> cm_content (cp_message r) = fragment_text fs
    \<and> cp_finish_reason r = mock_reason cfg (int (length fs)) \<and> cp_completion_tokens r = int (length fs)"
proof -
  have run: "mock_call me cfg fl rid (request_prompt_text req) (max_tokens_or 64 (cq_max_tokens req))
      = (map (mock_output cfg seed fs (int (length fs))) [0 ..< length fs], None)" and ne: "fs \<noteq> []"
    using assms by (auto simp: mock_answers_def)
  have "prompt_length (mock_output cfg seed fs n i) = Inr 8" for n i
    by (simp add: prompt_length_def mock_output_def mock_prompt_ids_def Let_def)
  then show ?thesis using mock_last_output[OF assms(1)] ne
    by (simp add: bench_chat_complete_def run drained_def request_output_to_proto_def)
qed

lemma bench_stream_answers:
  assumes "mock_answers me cfg (request_prompt_text req) (max_tokens_or 64 (cq_max_tokens req)) seed fs"
    and "\<not> List.member fl rid"
  shows "\<exists>chunks. bench_chat_stream (mock_call me cfg fl rid) req = (chunks, None)
    \<and> concat (map ck_delta_content chunks) = fragment_text fs"
proof -
  have run: "mock_call me cfg fl rid (request_prompt_text req) (max_tokens_or 64 (cq_max_tokens req))
      = (map (mock_output cfg seed fs (int (length fs))) [0 ..< length fs], None)"
    and fs: "0 < length fs" "\<forall>f \<in> set fs. f < length TOKEN_FRAGMENTS"
    using assms by (auto simp: mock_answers_def)
  have "map (\<lambda>i. TOKEN_FRAGMENTS ! (fs ! i)) [0 ..< length fs] = map (\<lambda>f. TOKEN_FRAGMENTS ! f) fs"
    by (rule nth_equalityI) simp_all
  then have "concat (map ck_delta_content (map (mock_chunk fs) [0 ..< length fs] @ [mock_last_chunk cfg (length fs)]))
      = fragment_text fs"
    by (simp add: comp_def mock_chunk_def mock_last_chunk_def fragment_text_def)
  then show ?thesis using mock_loop[OF fs(2,1), of cfg seed None]
    by (simp add: bench_chat_stream_def run fragment_text_def)
qed

lemma bench_complete_answers:
  assumes "mock_answers me cfg (completion_prompt blake req) (max_tokens_or 10 (nq_max_tokens req)) seed fs"
    and "\<not> List.member fl rid"
  shows "\<exists>r. bench_complete blake (mock_call me cfg fl rid) req = Inr r \<and> np_generated_text r = fragment_text fs
    \<and> np_finish_reason r = mock_reason cfg (int (length fs))"
proof -
  have run: "mock_call me cfg fl rid (completion_prompt blake req) (max_tokens_or 10 (nq_max_tokens req))
      = (map (mock_output cfg seed fs (int (length fs))) [0 ..< length fs], None)" and ne: "fs \<noteq> []"
    using assms by (auto simp: mock_answers_def)
  have "prompt_length (mock_output cfg seed fs n i) = Inr 8" for n i
    by (simp add: prompt_length_def mock_output_def mock_prompt_ids_def Let_def)
  then show ?thesis using mock_last_output[OF assms(1)] ne
    by (simp add: bench_complete_def run drained_def)
qed

section \<open>REST\<close>

lemma full_text_last:
  "list_all (\<lambda>x. eo_outputs (fst x) \<noteq> []) xs \<Longrightarrow> xs \<noteq> []
     \<Longrightarrow> full_text xs = co_text (mock_completion (fst (last xs)))"
  by (induction xs rule: rev_induct) (auto simp: full_text_def split: list.split)

text \<open>Draining outputs that fit keeps the text and the reason of the last one.\<close>

lemma embed_drain_last:
  assumes "list_all (\<lambda>x. eo_outputs (fst x) \<noteq> [] \<and> ids_fit (fst x)) xs"
  shows "\<exists>u'. embed_drain blake u xs Engine_Exhausted = Inr u'
    \<and> eu_final_text u' = (if xs = [] then eu_final_text u else co_text (mock_completion (fst (last xs))))
    \<and> eu_final_finish u' = (if xs = [] then eu_final_finish u else reason_or_stop (mock_completion (fst (last xs))))"
  using assms
proof (induction xs arbitrary: u)
  case Nil
  then show ?case by (simp add: run_error_def)
next
  case (Cons x xs)
  obtain out rd where x: "x = (out, rd)" by (cases x)
  obtain c cs where out: "eo_outputs out = c # cs" using Cons.prems by (auto simp: x neq_Nil_conv)
  obtain h where "prompt_hash blake (prompt_ids out) = Inr h"
    using prompt_hash_defined[of out blake] Cons.prems by (auto simp: x)
  then have "\<exists>st. embed_snapshot blake x (eu_state u) = Inr st"
    by (cases "us_first_chunk_ns (eu_state u)"; cases "prompt_ids out = []")
      (simp_all add: embed_snapshot_def x Let_def)
  then obtain st where "embed_snapshot blake x (eu_state u) = Inr st" by blast
  then have "embed_on_output blake x u = Inr (u\<lparr>eu_state := st, eu_final_output := Some out,
      eu_final_text := co_text c, eu_final_finish := reason_or_stop c\<rparr>)"
    by (simp add: embed_on_output_def x out Let_def)
  moreover note Cons.IH[of "u\<lparr>eu_state := st, eu_final_output := Some out,
      eu_final_text := co_text c, eu_final_finish := reason_or_stop c\<rparr>"]
  ultimately show ?case using Cons.prems by (auto simp: x out)
qed

lemma mock_output_fits: "eo_outputs (mock_output cfg seed fs n i) \<noteq> [] \<and> ids_fit (mock_output cfg seed fs n i)"
  using mock_prompt_ids_16bit[of _ seed]
  by (fastforce simp: ids_fit_def prompt_ids_def mock_output_def Let_def list_all_iff)

lemma timed_mock_run:
  assumes "mock_answers me cfg prompt m seed fs" and "\<not> List.member fl rid"
  shows "\<exists>xs. timed_run reads (mock_call me cfg fl rid prompt m) = (xs, Engine_Exhausted) \<and> xs \<noteq> []
    \<and> list_all (\<lambda>x. eo_outputs (fst x) \<noteq> [] \<and> ids_fit (fst x)) xs
    \<and> fst (last xs) = mock_output cfg seed fs (int (length fs)) (length fs - 1)"
proof -
  let ?outs = "map (mock_output cfg seed fs (int (length fs))) [0 ..< length fs]"
  let ?xs = "zip ?outs (map reads [0 ..< length fs])"
  have run: "mock_call me cfg fl rid prompt m = (?outs, None)" and ne: "fs \<noteq> []"
    using assms by (auto simp: mock_answers_def)
  have "list_all (\<lambda>x. eo_outputs (fst x) \<noteq> [] \<and> ids_fit (fst x)) ?xs"
    using mock_output_fits by (auto simp: list_all_iff set_zip)
  moreover have "fst (last ?xs) = mock_output cfg seed fs (int (length fs)) (length fs - 1)"
    using ne by (simp add: last_zip last_map)
  moreover have "?xs \<noteq> []" using ne by (simp add: zip_eq_Nil_iff)
  ultimately show ?thesis by (simp add: timed_run_def run)
qed

text \<open>The text of a chat reply, and the text and the reason of an embedding reply.\<close>

definition chat_reply_text :: "http_reply \<Rightarrow> string option" where
  "chat_reply_text reply = (case reply of
     Json_Reply s (JObj d) hs \<Rightarrow> (case map_of d ''choices'' of
       Some (JList (JObj c # cs)) \<Rightarrow> (case map_of c ''message'' of
         Some (JObj m) \<Rightarrow> (case map_of m ''content'' of Some (JStr t) \<Rightarrow> Some t | _ \<Rightarrow> None)
       | _ \<Rightarrow> None)
     | _ \<Rightarrow> None)
   | _ \<Rightarrow> None)"

definition embed_reply_text :: "http_reply \<Rightarrow> (string \<times> string) option" where
  "embed_reply_text reply = (case reply of
     Json_Reply s (JObj d) hs \<Rightarrow> (case (map_of d ''generated_text'', map_of d ''finish_reason'') of
       (Some (JStr t), Some (JStr r)) \<Rightarrow> Some (t, r) | _ \<Rightarrow> None)
   | _ \<Rightarrow> None)"

abbreviation shim_chat_prompt :: "shim_chat_request \<Rightarrow> string" where
  "shim_chat_prompt hreq \<equiv> concat (map hm_content (hc_messages hreq))"

lemma shim_chat_answers:
  assumes "mock_answers me cfg (shim_chat_prompt hreq) (hc_max_tokens hreq) seed fs"
    and "\<not> List.member fl (''rest-chat-'' @ so_uuid so)" and "\<not> hc_stream hreq"
  shows "\<exists>reply. shim_chat_completions (mock_shim_env so me cfg fl) hr hreq = Inr reply
    \<and> chat_reply_text reply = Some (fragment_text fs)"
proof -
  obtain xs where xs: "timed_run (so_reads so) (mock_call me cfg fl (''rest-chat-'' @ so_uuid so)
        (shim_chat_prompt hreq) (hc_max_tokens hreq)) = (xs, Engine_Exhausted)" "xs \<noteq> []"
      "list_all (\<lambda>x. eo_outputs (fst x) \<noteq> [] \<and> ids_fit (fst x)) xs"
      "fst (last xs) = mock_output cfg seed fs (int (length fs)) (length fs - 1)"
    using timed_mock_run[OF assms(1,2)] by blast
  have "list_all (\<lambda>x. eo_outputs (fst x) \<noteq> []) xs" using xs(3) by (simp add: list_all_iff)
  from full_text_last[OF this xs(2)] have "full_text xs = fragment_text fs"
    using mock_last_output(2)[OF assms(1)] xs(4) by simp
  then show ?thesis using xs(1) assms(3)
    by (simp add: shim_chat_completions_def mock_shim_env_def mock_prompt_str_def run_error_def chat_reply_text_def)
qed

lemma shim_embed_answers:
  assumes "embed_prompt (mock_shim_env so me cfg fl) hreq = Inr (Text_Input prompt)"
    and "mock_answers me cfg prompt (he_max_tokens hreq) seed fs"
    and "\<not> List.member fl (''rest-embed-'' @ so_uuid so)"
  shows "\<exists>reply. shim_embeddings (mock_shim_env so me cfg fl) hr hreq = Inr reply
    \<and> embed_reply_text reply = Some (fragment_text fs, mock_reason cfg (int (length fs)))"
proof -
  obtain xs where xs: "timed_run (so_reads so) (mock_call me cfg fl (''rest-embed-'' @ so_uuid so)
        prompt (he_max_tokens hreq)) = (xs, Engine_Exhausted)" "xs \<noteq> []"
      "list_all (\<lambda>x. eo_outputs (fst x) \<noteq> [] \<and> ids_fit (fst x)) xs"
      "fst (last xs) = mock_output cfg seed fs (int (length fs)) (length fs - 1)"
    using timed_mock_run[OF assms(2,3)] by blast
  obtain u where u: "embed_drain (so_blake so) initial_embed_run xs Engine_Exhausted = Inr u"
      "eu_final_text u = fragment_text fs" "eu_final_finish u = mock_reason cfg (int (length fs))"
    using embed_drain_last[OF xs(3), of "so_blake so" initial_embed_run] mock_last_output[OF assms(2)] xs(2,4) by auto
  have sh: "sh_SamplingParams (mock_shim_env so me cfg fl) (he_max_tokens hreq) (he_seed hreq)
        = Inr (he_max_tokens hreq, he_seed hreq)"
      "sh_generate (mock_shim_env so me cfg fl) (Text_Input prompt) (he_max_tokens hreq, he_seed hreq)
        (''rest-embed-'' @ sh_uuid (mock_shim_env so me cfg fl)) = (xs, Engine_Exhausted)"
      "sh_blake (mock_shim_env so me cfg fl) = so_blake so"
    using xs(1) by (simp_all add: mock_shim_env_def mock_prompt_str_def)
  have "shim_embeddings (mock_shim_env so me cfg fl) hr hreq
      = Inr (Json_Reply 200 (JObj (embed_body hr u)) [overhead_header hr])"
    by (simp only: shim_embeddings_def assms(1) sum.case sh bind_result_simps Let_def prod.case u(1))
  then show ?thesis using u(2,3) by (simp add: embed_reply_text_def embed_body_def)
qed

section \<open>Who is let in\<close>

abbreviation token_rejected :: py_exn where
  "token_rejected \<equiv> Lib_Exn ''RpcError'' ''bearer token rejected'' [''RpcError''] (Some ''UNAUTHENTICATED'')
     (Some (Some ''bearer token rejected''))"

lemma rest_grpc_servers_Inr:
  "rest_grpc_bench_servers token = Inr sv \<longleftrightarrow> sv = both_surfaces \<lparr>mk_hidden_size = 4096, mk_seed = 0,
     mk_tokens_per_second = 200, mk_max_tokens_per_stream = 2048, mk_pace_tokens = False\<rparr> token"
  by (auto simp: rest_grpc_bench_servers_def)

lemma both_surfaces_tokens [simp]:
  "bv_engine (both_surfaces e token) = e" "bv_interceptor_token (both_surfaces e token) = token"
  "bv_shim_token (both_surfaces e token) = Some token"
  by (simp_all add: both_surfaces_def grpc_surface_def)

lemma grpc_admits [simp]: "intercept_service token (call_metadata token) k = k"
  by (simp add: bearer_accepts)

lemma grpc_refuses: "tok \<noteq> token \<Longrightarrow> intercept_service token (call_metadata tok) k = Inl token_rejected"
  by (simp add: intercept_service_def call_metadata_def)

text \<open>
  The gate. The two surfaces of a deployment refuse the same callers, before the engine sees them: one
  with another token gets UNAUTHENTICATED over gRPC, also for \<open>Ping\<close>, and 401 over REST, where only
  \<open>/healthz\<close> is open.
\<close>

theorem bench_surfaces_gate:
  assumes "rest_grpc_bench_servers token = Inr sv" and "tok \<noteq> token"
  shows "grpc_bench_call blake me sv fl rid (call_metadata tok) call = Inl token_rejected
    \<and> rest_bench_call so me sv fl hr (Some (''Bearer '' @ tok)) hcall
        = Some (Inr (if hcall = Shim_Healthz then shim_healthz else unauthorized_reply))"
  using assms by (cases hcall) (auto simp: rest_grpc_servers_Inr grpc_bench_call_def grpc_refuses rest_bench_call_def
      rest_shim_def shim_authorized_def shim_path_def)

section \<open>Chat\<close>

lemma concat_nonempty: "concat (filter (\<lambda>s. s \<noteq> []) xs) = concat xs"
  by (induction xs) auto

lemma join_with_length:
  "length (join_with sep (x # xs)) = length (concat (x # xs)) + length sep * length xs"
  by (induction xs arbitrary: x) (simp_all add: join_with_def)

lemma same_prompt_iff:
  assumes "map cm_content (cq_messages req) = map hm_content (hc_messages hreq)"
  shows "request_prompt_text req = shim_chat_prompt hreq
    \<longleftrightarrow> length (filter (\<lambda>s. s \<noteq> []) (map hm_content (hc_messages hreq))) = 1"
proof -
  define parts where "parts = filter (\<lambda>s. s \<noteq> []) (map hm_content (hc_messages hreq))"
  have rest: "shim_chat_prompt hreq = concat parts" by (simp add: parts_def concat_nonempty)
  have grpc: "request_prompt_text req = (if parts \<noteq> [] then join_with [LF] parts else ''default'')"
    by (simp add: request_prompt_text_def assms parts_def Let_def)
  show ?thesis unfolding parts_def[symmetric] rest grpc
  proof (cases parts)
    case (Cons x xs)
    then show "((if parts \<noteq> [] then join_with [LF] parts else ''default'') = concat parts) = (length parts = 1)"
      using join_with_length[of "[LF]" x xs]
      by (cases xs) (auto simp: join_with_def dest: arg_cong[of _ _ length])
  qed simp
qed

lemma same_prompt_nonempty:
  assumes "map cm_content (cq_messages req) = map hm_content (hc_messages hreq)"
    and "request_prompt_text req = shim_chat_prompt hreq"
  shows "shim_chat_prompt hreq \<noteq> []"
proof -
  let ?parts = "filter (\<lambda>s. s \<noteq> []) (map hm_content (hc_messages hreq))"
  have "length ?parts = 1" using same_prompt_iff[OF assms(1)] assms(2) by blast
  then obtain c where c: "?parts = [c]" by (cases ?parts) auto
  then have "c \<in> set ?parts" by simp
  then have "c \<noteq> []" by simp
  moreover have "shim_chat_prompt hreq = concat ?parts" by (rule concat_nonempty[symmetric])
  ultimately show ?thesis unfolding c by simp
qed

text \<open>
  C22. One engine behind two surfaces. For the same messages and the same nonzero token limit, the chat servicer
  and the shim of a mock deployment give the engine the same prompt exactly when one message has text: the
  servicer joins the texts by line feeds and has a default, the shim concatenates. When they agree, an
  authorized caller gets the same text from the unary call, from the deltas of the stream and from the
  REST answer that is no stream; the unary call reports as many tokens as the engine generates for that
  prompt and limit, and the reason \<open>length\<close> exactly from 2048 of them on.
\<close>

theorem bench_surfaces_agree:
  assumes "rest_grpc_bench_servers token = Inr sv" and "numpy_integers me"
    and "map cm_content (cq_messages req) = map hm_content (hc_messages hreq)"
    and "cq_max_tokens req = hc_max_tokens hreq" "hc_max_tokens hreq \<noteq> 0" "\<not> hc_stream hreq"
    and "\<not> List.member fl rid" "\<not> List.member fl (''rest-chat-'' @ so_uuid so)"
  shows "(request_prompt_text req = shim_chat_prompt hreq
        \<longleftrightarrow> length (filter (\<lambda>s. s \<noteq> []) (map hm_content (hc_messages hreq))) = 1)
    \<and> (request_prompt_text req = shim_chat_prompt hreq \<longrightarrow> (\<exists>r chunks reply.
        grpc_bench_call blake me sv fl rid (call_metadata token) (Chat_Call req) = Inr (Chat_Answer r)
      \<and> grpc_bench_call blake me sv fl rid (call_metadata token) (Stream_Call req) = Inr (Chunks_Answer chunks None)
      \<and> rest_bench_call so me sv fl hr (Some (''Bearer '' @ token)) (Shim_Chat hreq) = Some (Inr reply)
      \<and> concat (map ck_delta_content chunks) = cm_content (cp_message r)
      \<and> chat_reply_text reply = Some (cm_content (cp_message r))
      \<and> (\<exists>cfg. deployed_mock_config = Inr cfg \<and> cp_completion_tokens r
            = mock_token_count cfg (shim_chat_prompt hreq) (Some (hc_max_tokens hreq)))
      \<and> (cp_finish_reason r = ''length'' \<longleftrightarrow> 2048 \<le> cp_completion_tokens r)))"
proof (intro conjI impI)
  show "request_prompt_text req = shim_chat_prompt hreq
      \<longleftrightarrow> length (filter (\<lambda>s. s \<noteq> []) (map hm_content (hc_messages hreq))) = 1"
    by (rule same_prompt_iff[OF assms(3)])
  assume same: "request_prompt_text req = shim_chat_prompt hreq"
  obtain cfg where sv: "sv = both_surfaces cfg token" and cfg: "mk_max_tokens_per_stream cfg = 2048" "mk_seed cfg = 0"
    and deployed: "deployed_mock_config = Inr cfg"
    by (rule that[of "\<lparr>mk_hidden_size = 4096, mk_seed = 0, mk_tokens_per_second = 200,
        mk_max_tokens_per_stream = 2048, mk_pace_tokens = False\<rparr>"]) (use assms(1) in \<open>simp_all add: rest_grpc_servers_Inr\<close>)
  have ne: "shim_chat_prompt hreq \<noteq> []" by (rule same_prompt_nonempty[OF assms(3) same])
  obtain seed fs where ans: "mock_answers me cfg (shim_chat_prompt hreq) (hc_max_tokens hreq) seed fs"
    and generated: "int (length fs) = mock_token_count cfg (shim_chat_prompt hreq) (Some (hc_max_tokens hreq))"
    using mock_answers_exist[OF deployed_bounds[OF cfg] assms(2) ne] by blast
  have req: "mock_answers me cfg (request_prompt_text req) (max_tokens_or 64 (cq_max_tokens req)) seed fs"
    using ans assms(4,5) by (simp add: same max_tokens_or_def)
  obtain r where r: "bench_chat_complete (mock_call me cfg fl rid) req = Inr r"
      "cm_content (cp_message r) = fragment_text fs" "cp_finish_reason r = mock_reason cfg (int (length fs))"
      "cp_completion_tokens r = int (length fs)"
    using bench_chat_answers[OF req assms(7)] by blast
  obtain chunks where ck: "bench_chat_stream (mock_call me cfg fl rid) req = (chunks, None)"
      "concat (map ck_delta_content chunks) = fragment_text fs"
    using bench_stream_answers[OF req assms(7)] by blast
  obtain reply where reply: "shim_chat_completions (mock_shim_env so me cfg fl) hr hreq = Inr reply"
      "chat_reply_text reply = Some (fragment_text fs)"
    using shim_chat_answers[OF ans assms(8,6)] by blast
  have "rest_bench_call so me sv fl hr (Some (''Bearer '' @ token)) (Shim_Chat hreq) = Some (Inr reply)"
    by (simp add: rest_bench_call_def sv rest_shim_def shim_authorized_def reply)
  moreover have "grpc_bench_call blake me sv fl rid (call_metadata token) (Chat_Call req) = Inr (Chat_Answer r)"
    "grpc_bench_call blake me sv fl rid (call_metadata token) (Stream_Call req) = Inr (Chunks_Answer chunks None)"
    by (simp_all add: grpc_bench_call_def sv bench_servicers_def r ck)
  moreover have "\<exists>cfg. deployed_mock_config = Inr cfg \<and> cp_completion_tokens r
      = mock_token_count cfg (shim_chat_prompt hreq) (Some (hc_max_tokens hreq))"
    using deployed generated by (simp add: r(4))
  moreover have "cp_finish_reason r = ''length'' \<longleftrightarrow> 2048 \<le> cp_completion_tokens r" by (simp add: r cfg)
  ultimately show "\<exists>r chunks reply.
        grpc_bench_call blake me sv fl rid (call_metadata token) (Chat_Call req) = Inr (Chat_Answer r)
      \<and> grpc_bench_call blake me sv fl rid (call_metadata token) (Stream_Call req) = Inr (Chunks_Answer chunks None)
      \<and> rest_bench_call so me sv fl hr (Some (''Bearer '' @ token)) (Shim_Chat hreq) = Some (Inr reply)
      \<and> concat (map ck_delta_content chunks) = cm_content (cp_message r)
      \<and> chat_reply_text reply = Some (cm_content (cp_message r))
      \<and> (\<exists>cfg. deployed_mock_config = Inr cfg \<and> cp_completion_tokens r
            = mock_token_count cfg (shim_chat_prompt hreq) (Some (hc_max_tokens hreq)))
      \<and> (cp_finish_reason r = ''length'' \<longleftrightarrow> 2048 \<le> cp_completion_tokens r)"
    unfolding r(2)[symmetric]
    by (intro exI[of _ r] exI[of _ chunks] exI[of _ reply] conjI) (simp_all only: r(2) ck(2) reply(2))
qed

definition demo_shim_host :: "unit shim_host" where
  "demo_shim_host = \<lparr>so_torch_load = (\<lambda>b. Inl (value_error b)), so_repr_embeds = (\<lambda>t. ''tensor''),
     so_blake = (\<lambda>b. ''ab''), so_fl = (\<lambda>x. ''0.0''), so_uuid = ''u'', so_reads = (\<lambda>i. demo_reads 11 110)\<rparr>"

definition demo_hello :: shim_chat_request where
  "demo_hello = \<lparr>hc_model = ''mock'', hc_messages = [\<lparr>hm_role = ''system'', hm_content = []\<rparr>,
     \<lparr>hm_role = ''user'', hm_content = ''hello''\<rparr>], hc_stream = False, hc_max_tokens = 3, hc_temperature = 1,
     hc_seed = None\<rparr>"

definition demo_hello_pb :: chat_complete_request where
  "demo_hello_pb = \<lparr>cq_messages = [\<lparr>cm_role = ''system'', cm_content = []\<rparr>, \<lparr>cm_role = ''user'', cm_content = ''hello''\<rparr>],
     cq_model = ''mock'', cq_max_tokens = 3, cq_temperature = None, cq_top_p = None, cq_seed = None,
     cq_ignore_eos = False\<rparr>"

definition demo_shim_reads :: shim_reads where
  "demo_shim_reads = \<lparr>hr_entry = demo_entry, hr_handler_entry = 9, hr_overhead_at = 12, hr_finished_at = 13,
     hr_terminal_ns = 150\<rparr>"

theorem bench_surfaces_agree_witness:
  "\<exists>sv r reply. rest_grpc_bench_servers ''t'' = Inr sv
    \<and> grpc_bench_call (\<lambda>b. ''ab'') demo_mock sv [] ''g'' (call_metadata ''t'') (Chat_Call demo_hello_pb) = Inr (Chat_Answer r)
    \<and> rest_bench_call demo_shim_host demo_mock sv [] demo_shim_reads (Some (''Bearer '' @ ''t'')) (Shim_Chat demo_hello)
        = Some (Inr reply)
    \<and> chat_reply_text reply = Some (cm_content (cp_message r)) \<and> cp_completion_tokens r = 3"
proof -
  obtain sv where sv: "rest_grpc_bench_servers ''t'' = Inr sv" by (simp add: rest_grpc_servers_Inr)
  have msgs: "map cm_content (cq_messages demo_hello_pb) = map hm_content (hc_messages demo_hello)"
    "cq_max_tokens demo_hello_pb = hc_max_tokens demo_hello" "hc_max_tokens demo_hello \<noteq> 0" "\<not> hc_stream demo_hello"
    by (simp_all add: demo_hello_def demo_hello_pb_def)
  have fresh: "\<not> List.member [] ''g''" "\<not> List.member [] (''rest-chat-'' @ so_uuid demo_shim_host)" by simp_all
  note agree = bench_surfaces_agree[OF sv demo_mock_ok(2) msgs fresh, of "\<lambda>b. ''ab''" demo_shim_reads]
  have one: "length (filter (\<lambda>s. s \<noteq> []) (map hm_content (hc_messages demo_hello))) = 1"
    by (simp add: demo_hello_def)
  have "mock_token_count cfg (shim_chat_prompt demo_hello) (Some (hc_max_tokens demo_hello)) = 3"
    if "deployed_mock_config = Inr cfg" for cfg
  proof -
    have "find_after MIN_TOKENS_HINT (shim_chat_prompt demo_hello) = None"
      by (simp add: MIN_TOKENS_HINT_def starts_with_def demo_hello_def)
    then show ?thesis using that by (auto simp: mock_token_count_plain demo_hello_def)
  qed
  then show ?thesis using agree one sv by metis
qed

section \<open>Embeddings\<close>

text \<open>
  A raw embedding of a width the shim serves gets the same text and the same finish reason from the
  completions servicer and from the shim: both hash its bytes into the prompt.
\<close>

theorem bench_embeds_agree:
  assumes "rest_grpc_bench_servers token = Inr sv" and "numpy_integers me"
    and "nq_input req = Some (Embeds_Input raw)" "nq_max_tokens req = he_max_tokens hreq" "he_max_tokens hreq \<noteq> 0"
    and "he_input_kind hreq = ''prompt_embedding_b64''" "he_input hreq = b64encode raw"
    and "List.member [2048, 4096, 8192] (he_hidden_size hreq)"
    and "\<not> List.member fl rid" "\<not> List.member fl (''rest-embed-'' @ so_uuid so)"
  shows "\<exists>r reply.
      grpc_bench_call (so_blake so) me sv fl rid (call_metadata token) (Completion_Call req) = Inr (Completion_Answer r)
    \<and> rest_bench_call so me sv fl hr (Some (''Bearer '' @ token)) (Shim_Embed hreq) = Some (Inr reply)
    \<and> embed_reply_text reply = Some (np_generated_text r, np_finish_reason r)"
proof -
  obtain cfg where sv: "sv = both_surfaces cfg token" and cfg: "mk_max_tokens_per_stream cfg = 2048" "mk_seed cfg = 0"
    using assms(1) by (auto simp: rest_grpc_servers_Inr)
  define prompt where "prompt = ''embeds:'' @ so_blake so raw"
  have "prompt \<noteq> []" by (simp add: prompt_def)
  then obtain seed fs where ans: "mock_answers me cfg prompt (he_max_tokens hreq) seed fs"
    using mock_answers_exist[OF deployed_bounds[OF cfg] assms(2)] by blast
  have req: "mock_answers me cfg (completion_prompt (so_blake so) req) (max_tokens_or 10 (nq_max_tokens req)) seed fs"
    using ans assms(3-5) by (simp add: completion_prompt_def max_tokens_or_def prompt_def)
  have emb: "embed_prompt (mock_shim_env so me cfg fl) hreq = Inr (Text_Input prompt)"
    using assms(6-8) by (simp add: embed_prompt_def INPUT_KINDS_def prompt_def mock_shim_env_def)
  obtain r where r: "bench_complete (so_blake so) (mock_call me cfg fl rid) req = Inr r"
      "np_generated_text r = fragment_text fs" "np_finish_reason r = mock_reason cfg (int (length fs))"
    using bench_complete_answers[OF req assms(9)] by blast
  obtain reply where reply: "shim_embeddings (mock_shim_env so me cfg fl) hr hreq = Inr reply"
      "embed_reply_text reply = Some (fragment_text fs, mock_reason cfg (int (length fs)))"
    using shim_embed_answers[OF emb ans assms(10)] by blast
  have "rest_bench_call so me sv fl hr (Some (''Bearer '' @ token)) (Shim_Embed hreq) = Some (Inr reply)"
    by (simp add: rest_bench_call_def sv rest_shim_def shim_authorized_def reply)
  moreover have "grpc_bench_call (so_blake so) me sv fl rid (call_metadata token) (Completion_Call req)
      = Inr (Completion_Answer r)"
    by (simp add: grpc_bench_call_def sv bench_servicers_def r)
  moreover have "embed_reply_text reply = Some (np_generated_text r, np_finish_reason r)"
    unfolding r(2,3) by (rule reply(2))
  ultimately show ?thesis by blast
qed

section \<open>The real-engine deployment without its engine\<close>

abbreviation no_template :: py_exn where
  "no_template \<equiv> Exn ''AttributeError''
     ([CHR 0x27] @ ''NoneType'' @ [CHR 0x27] @ '' object has no attribute '' @ [CHR 0x27]
        @ ''apply_chat_template'' @ [CHR 0x27])"

lemma template_apart:
  "fe_SamplingParams (env\<lparr>fe_apply_chat_template := t\<rparr>) = fe_SamplingParams env"
  "fe_generate (env\<lparr>fe_apply_chat_template := t\<rparr>) = fe_generate env"
  "fe_torch_load (env\<lparr>fe_apply_chat_template := t\<rparr>) = fe_torch_load env"
  "fe_blake (env\<lparr>fe_apply_chat_template := t\<rparr>) = fe_blake env"
  "fe_request_id (env\<lparr>fe_apply_chat_template := t\<rparr>) = fe_request_id env"
  by simp_all

lemma completions_ignore_template:
  "completions_complete (env\<lparr>fe_apply_chat_template := t\<rparr>) ur req = completions_complete env ur req"
  "completions_complete_stream (env\<lparr>fe_apply_chat_template := t\<rparr>) er req = completions_complete_stream env er req"
  unfolding completions_complete_def completions_complete_stream_def select_engine_input_def template_apart by (rule refl)+

lemma real_engine_servers_mock:
  assumes "real_engine_bench_servers from_engine_args m6_use m6_model model_id token = Inr sv"
    and "\<not> use_real_engine m6_use"
  shows "\<exists>cfg. deployed_mock_config = Inr cfg \<and> sv = both_surfaces (Mock_Engine_Of cfg, None) token"
  using assms by (auto simp: real_engine_bench_servers_def m6_engine_def)

text \<open>
  C23. The override of the real-engine deployment serves no chat over gRPC. When \<open>M6_USE_REAL_ENGINE\<close> asks
  for the mock engine, the servers come up without a tokenizer: every authorized chat call, unary or
  streaming, raises an AttributeError before the engine is called, without a chunk and without metadata,
  while completions, unary and streaming, and the REST surface, chat and embeddings alike, answer as the
  handlers over that engine do.
\<close>

theorem mock_override_has_no_chat:
  assumes "real_engine_bench_servers from_engine_args m6_use m6_model model_id token = Inr sv"
    and "\<not> use_real_engine m6_use"
  shows "m6_grpc_call env_of sv er finished_at ur (call_metadata token) (Bench_Call (Chat_Call req))
        = Inr (M6_Chat None (Inl no_template))
    \<and> m6_grpc_call env_of sv er finished_at ur (call_metadata token) (Bench_Call (Stream_Call req))
        = Inr (M6_Stream [] (Stream_Raised no_template))
    \<and> (\<exists>cfg. deployed_mock_config = Inr cfg
      \<and> m6_grpc_call env_of sv er finished_at ur (call_metadata token) (Bench_Call (Completion_Call creq))
          = Inr (case completions_complete (env_of (Mock_Engine_Of cfg)) ur creq of (md, r) \<Rightarrow> M6_Completion md r)
      \<and> m6_grpc_call env_of sv er finished_at ur (call_metadata token) (Completion_Stream_Call creq)
          = Inr (case completions_complete_stream (env_of (Mock_Engine_Of cfg)) er creq of
                   (evs, e) \<Rightarrow> M6_Completion_Stream evs e)
      \<and> m6_rest_call shim_of sv hr (Some (''Bearer '' @ token)) (Shim_Chat hreq)
          = Some (shim_chat_completions (shim_of (Mock_Engine_Of cfg)) hr hreq)
      \<and> m6_rest_call shim_of sv hr (Some (''Bearer '' @ token)) (Shim_Embed ereq)
          = Some (shim_embeddings (shim_of (Mock_Engine_Of cfg)) hr ereq))"
proof -
  obtain cfg where cfg: "deployed_mock_config = Inr cfg" and sv: "sv = both_surfaces (Mock_Engine_Of cfg, None) token"
    using real_engine_servers_mock[OF assms] by blast
  note call = m6_grpc_call_def m6_servicers_def template_of_def Let_def
  have "m6_grpc_call env_of sv er finished_at ur (call_metadata token) (Bench_Call (Chat_Call req))
      = Inr (M6_Chat None (Inl no_template))"
    by (simp add: sv call chat_complete_def messages_to_prompt_def)
  moreover have "m6_grpc_call env_of sv er finished_at ur (call_metadata token) (Bench_Call (Stream_Call req))
      = Inr (M6_Stream [] (Stream_Raised no_template))"
    by (simp add: sv call chat_complete_stream_def messages_to_prompt_def)
  moreover have "m6_grpc_call env_of sv er finished_at ur (call_metadata token) (Bench_Call (Completion_Call creq))
      = Inr (case completions_complete (env_of (Mock_Engine_Of cfg)) ur creq of (md, r) \<Rightarrow> M6_Completion md r)"
    by (simp add: sv call completions_ignore_template)
  moreover have "m6_rest_call shim_of sv hr (Some (''Bearer '' @ token)) (Shim_Chat hreq)
      = Some (shim_chat_completions (shim_of (Mock_Engine_Of cfg)) hr hreq)"
    "m6_rest_call shim_of sv hr (Some (''Bearer '' @ token)) (Shim_Embed ereq)
      = Some (shim_embeddings (shim_of (Mock_Engine_Of cfg)) hr ereq)"
    by (simp_all add: sv m6_rest_call_def rest_shim_def shim_authorized_def)
  moreover have "m6_grpc_call env_of sv er finished_at ur (call_metadata token) (Completion_Stream_Call creq)
      = Inr (case completions_complete_stream (env_of (Mock_Engine_Of cfg)) er creq of
               (evs, e) \<Rightarrow> M6_Completion_Stream evs e)"
    by (simp add: sv call completions_ignore_template)
  ultimately show ?thesis using cfg by blast
qed

definition no_gpu :: "engine_args \<Rightarrow> (unit \<times> chat_template) py_result" where
  "no_gpu args = Inl (value_error ''no GPU'')"

theorem mock_override_has_no_chat_witness:
  "\<exists>sv. real_engine_bench_servers no_gpu (Some ''false'') None ''m'' ''t'' = Inr sv
    \<and> m6_grpc_call (\<lambda>e. demo_env [] Engine_Exhausted) sv demo_entry 2 demo_unary (call_metadata ''t'')
          (Bench_Call (Chat_Call demo_hello_pb)) = Inr (M6_Chat None (Inl no_template))"
proof -
  have off: "\<not> use_real_engine (Some ''false'')" by (simp add: use_real_engine_def str_lower_def)
  obtain sv where sv: "real_engine_bench_servers no_gpu (Some ''false'') None ''m'' ''t'' = Inr sv"
    by (simp add: real_engine_bench_servers_def m6_engine_def off)
  from mock_override_has_no_chat[OF sv off, THEN conjunct1, of "\<lambda>e. demo_env [] Engine_Exhausted" demo_entry 2
      demo_unary demo_hello_pb] sv
  show ?thesis by blast
qed

end
