(* ===== verification/Modal_Images.thy ===== *)
theory Modal_Images
  imports Setup_Scripts
begin

text \<open>
  The images of the Modal scripts: what each installs, copies and runs while it is built, and what the
  containers then find. The compiler of the protos is a parameter; a local package is built in its place,
  and the one of \<open>packages/gen\<close> runs the hook of \<open>hatch_build.py\<close>.
\<close>

section \<open>Images\<close>

datatype image_command =
    Run_Protoc string string "string list"
  | Pip_Install bool string

record modal_image =
  im_python :: string
  im_pip :: "string list"
  im_dirs :: "(string \<times> string) list"
  im_files :: "(string \<times> string) list"
  im_commands :: "image_command list"

definition pip_image :: "string list \<Rightarrow> modal_image" where
  "pip_image packages =
     \<lparr>im_python = ''3.12'', im_pip = packages, im_dirs = [], im_files = [], im_commands = []\<rparr>"

definition PROTO_DIR :: "string \<times> string" where "PROTO_DIR = (''proto'', ''/build/proto'')"
definition GEN_DIR :: "string \<times> string" where "GEN_DIR = (''packages/gen'', ''/build/packages/gen'')"
definition FRONTEND_DIR :: "string \<times> string" where
  "FRONTEND_DIR = (''packages/frontend'', ''/build/packages/frontend'')"
definition PROXY_DIR :: "string \<times> string" where "PROXY_DIR = (''packages/proxy'', ''/build/packages/proxy'')"
definition BENCH_DIR :: "string \<times> string" where "BENCH_DIR = (''tools/benchmark'', ''/build/tools/benchmark'')"

text \<open>The images of the REST baseline, of the checks and of the generators.\<close>

definition bench_rest_image :: modal_image where
  "bench_rest_image = pip_image [''vllm==0.20.0'', ''httpx>=0.27'']"

definition vllm_rest_image :: modal_image where
  "vllm_rest_image = pip_image [''vllm==0.20.0'', ''httpx>=0.27'']"

definition verify_embeds_image :: modal_image where
  "verify_embeds_image = pip_image [''vllm==0.20.0'', ''httpx'', ''torch'']"

definition download_image :: modal_image where
  "download_image = pip_image [''huggingface_hub>=0.23'']"

definition embed_generator_image :: "string \<Rightarrow> modal_image" where
  "embed_generator_image scripts_dir =
     (pip_image [''torch==2.11.0'', ''transformers==5.7.0'', ''huggingface_hub>=0.23'', ''safetensors>=0.4'',
                 ''accelerate>=0.34'', ''sentencepiece>=0.2''])
       \<lparr>im_files := [(scripts_dir @ ''/gen_embed_corpus_qwen3_8b.py'', ''/root/gen_embed_corpus_qwen3_8b.py'')]\<rparr>"

text \<open>The images of the gRPC frontend, which run the compiler over two of the protos themselves.\<close>

definition explicit_protoc :: image_command where
  "explicit_protoc = Run_Protoc ''/build/proto'' ''/build/packages/gen/src''
     [''vllm_grpc/v1/health.proto'', ''vllm_grpc/v1/chat.proto'']"

definition bench_grpc_image :: modal_image where
  "bench_grpc_image =
     (pip_image [''vllm==0.20.0'', ''grpcio>=1.65'', ''grpcio-tools>=1.65''])
       \<lparr>im_dirs := [PROTO_DIR, GEN_DIR, FRONTEND_DIR],
        im_commands := [explicit_protoc, Pip_Install False (snd GEN_DIR), Pip_Install False (snd FRONTEND_DIR)]\<rparr>"

definition frontend_serve_image :: modal_image where
  "frontend_serve_image =
     (pip_image [''vllm==0.20.0'', ''grpcio>=1.65'', ''grpcio-tools>=1.65''])
       \<lparr>im_dirs := [PROTO_DIR, GEN_DIR, FRONTEND_DIR],
        im_commands := [explicit_protoc, Pip_Install False (snd GEN_DIR), Pip_Install False (snd FRONTEND_DIR)]\<rparr>"

definition frontend_smoke_image :: modal_image where
  "frontend_smoke_image =
     (pip_image [''vllm==0.20.0'', ''grpcio>=1.65'', ''grpcio-tools>=1.65'', ''fastapi>=0.115'',
                 ''uvicorn[standard]>=0.30'', ''httpx>=0.27''])
       \<lparr>im_dirs := [PROTO_DIR, GEN_DIR, FRONTEND_DIR, PROXY_DIR],
        im_commands := [explicit_protoc, Pip_Install False (snd GEN_DIR), Pip_Install False (snd FRONTEND_DIR),
                        Pip_Install False (snd PROXY_DIR)]\<rparr>"

text \<open>The images of the benchmark deployments, which leave the stubs to the build hook.\<close>

definition mock_grpc_image :: modal_image where
  "mock_grpc_image =
     (pip_image [''grpcio==1.80.0'', ''grpcio-tools'', ''numpy'', ''protobuf''])
       \<lparr>im_dirs := [PROTO_DIR, GEN_DIR, BENCH_DIR],
        im_commands := [Pip_Install True (snd GEN_DIR), Pip_Install True (snd BENCH_DIR)]\<rparr>"

definition mock_rest_grpc_image :: modal_image where
  "mock_rest_grpc_image =
     (pip_image [''grpcio==1.80.0'', ''grpcio-tools'', ''numpy'', ''protobuf'', ''fastapi'', ''uvicorn[standard]''])
       \<lparr>im_dirs := [PROTO_DIR, GEN_DIR, BENCH_DIR],
        im_commands := [Pip_Install True (snd GEN_DIR), Pip_Install True (snd BENCH_DIR)]\<rparr>"

definition real_engine_image :: modal_image where
  "real_engine_image =
     (pip_image [''grpcio==1.80.0'', ''grpcio-tools'', ''numpy'', ''protobuf'', ''fastapi'', ''uvicorn[standard]'',
                 ''vllm==0.20.1'', ''torch'', ''transformers''])
       \<lparr>im_dirs := [PROTO_DIR, GEN_DIR, FRONTEND_DIR, BENCH_DIR],
        im_commands := [Pip_Install True (snd GEN_DIR), Pip_Install True (snd FRONTEND_DIR),
                        Pip_Install True (snd BENCH_DIR)]\<rparr>"

section \<open>Building an image\<close>

text \<open>\<open>add_local_dir(src, dst, copy=True)\<close>: a path below a copied directory is that file of the repository.\<close>

definition image_disk :: "disk \<Rightarrow> modal_image \<Rightarrow> disk" where
  "image_disk repo im path =
     (case find (\<lambda>(src, dst). starts_with (dst @ ''/'') path) (im_dirs im) of
        Some (src, dst) \<Rightarrow> repo (src @ drop (length dst) path)
      | None \<Rightarrow> None)"

definition shell_protoc :: "string \<Rightarrow> string \<Rightarrow> string list \<Rightarrow> string list" where
  "shell_protoc proto_root out protos =
     [''-m'', ''grpc_tools.protoc'', ''-I'', proto_root, ''--python_out='' @ out, ''--grpc_python_out='' @ out]
     @ map (\<lambda>p. proto_root @ ''/'' @ p) protos"

text \<open>
  One command over the files and the packages installed so far; a nonzero exit ends the build, and so does
  an installation from a directory that is not there.
\<close>

definition image_step ::
  "(string list \<Rightarrow> disk \<Rightarrow> int \<times> disk) \<Rightarrow> modal_image \<Rightarrow> image_command \<Rightarrow> disk \<times> string list
     \<Rightarrow> (disk \<times> string list) py_result" where
  "image_step protoc im cmd st = (case (cmd, st) of
     (Run_Protoc proto_root out protos, d, installed) \<Rightarrow>
       (case protoc (shell_protoc proto_root out protos) d of
          (code, d') \<Rightarrow> if code \<noteq> 0 then Inl (Exn ''BuildError'' ''protoc'') else Inr (d', installed))
   | (Pip_Install no_deps path, d, installed) \<Rightarrow>
       if \<not> List.member (map snd (im_dirs im)) path then Inl (Exn ''BuildError'' path)
       else if path = snd GEN_DIR
       then (case build_hook protoc path ''/build'' d of
               (Inl exc, d') \<Rightarrow> Inl exc
             | (Inr _, d') \<Rightarrow> Inr (d', installed @ [path]))
       else Inr (d, installed @ [path]))"

fun run_image_commands ::
  "(string list \<Rightarrow> disk \<Rightarrow> int \<times> disk) \<Rightarrow> modal_image \<Rightarrow> image_command list \<Rightarrow> disk \<times> string list
     \<Rightarrow> (disk \<times> string list) py_result" where
  "run_image_commands protoc im [] st = Inr st"
| "run_image_commands protoc im (cmd # cmds) st =
     bind_result (image_step protoc im cmd st) (run_image_commands protoc im cmds)"

definition build_image ::
  "(string list \<Rightarrow> disk \<Rightarrow> int \<times> disk) \<Rightarrow> disk \<Rightarrow> modal_image \<Rightarrow> (disk \<times> string list) py_result" where
  "build_image protoc repo im = run_image_commands protoc im (im_commands im) (image_disk repo im, [])"

section \<open>What the containers find\<close>

text \<open>
  The compiler: given protos that are there, it exits with 0, writes a module per proto below the output
  directory, and touches nothing outside it.
\<close>

definition stub_of :: "string \<Rightarrow> string" where
  "stub_of proto = take (length proto - length ''.proto'') proto @ ''_pb2.py''"

definition protoc_works :: "(string list \<Rightarrow> disk \<Rightarrow> int \<times> disk) \<Rightarrow> string \<Rightarrow> string \<Rightarrow> bool" where
  "protoc_works protoc proto_root out \<longleftrightarrow> (\<forall>protos d. (\<forall>p \<in> set protos. d (proto_root @ ''/'' @ p) \<noteq> None) \<longrightarrow>
     (\<forall>args. args = shell_protoc proto_root out protos \<or> (args = protoc_command proto_root out \<and> protos = PROTOS) \<longrightarrow>
       fst (protoc args d) = 0
     \<and> (\<forall>p \<in> set protos. snd (protoc args d) (out @ ''/'' @ stub_of p) \<noteq> None)
     \<and> (\<forall>q. \<not> starts_with (out @ ''/'') q \<longrightarrow> snd (protoc args d) q = d q)))"

abbreviation STUBS_OUT :: string where "STUBS_OUT \<equiv> ''/build/packages/gen/src''"
abbreviation GEN_PROTO :: string where "GEN_PROTO \<equiv> ''/build/packages/gen/proto/vllm_grpc/v1/health.proto''"

definition serving_images :: "modal_image list" where
  "serving_images = [bench_grpc_image, frontend_serve_image, frontend_smoke_image, mock_grpc_image,
     mock_rest_grpc_image, real_engine_image]"

text \<open>The copied protos, and their absence from the package itself, which a build keeps.\<close>

definition protos_at_build :: "disk \<Rightarrow> bool" where
  "protos_at_build d \<longleftrightarrow> (\<forall>p \<in> set PROTOS. d (''/build/proto/'' @ p) \<noteq> None) \<and> d GEN_PROTO = None"

lemma copied_protos:
  assumes "im_dirs im = PROTO_DIR # GEN_DIR # ds"
    and "\<forall>p \<in> set PROTOS. repo (''proto/'' @ p) \<noteq> None"
    and "repo ''packages/gen/proto/vllm_grpc/v1/health.proto'' = None"
  shows "protos_at_build (image_disk repo im)"
proof -
  have "image_disk repo im (''/build/proto/'' @ p) = repo (''proto/'' @ p)" for p
    by (simp add: image_disk_def assms(1) PROTO_DIR_def starts_with_def)
  moreover have "image_disk repo im GEN_PROTO = repo ''packages/gen/proto/vllm_grpc/v1/health.proto''"
    by (simp add: image_disk_def assms(1) PROTO_DIR_def GEN_DIR_def starts_with_def)
  ultimately show ?thesis using assms(2,3) by (simp add: protos_at_build_def)
qed

lemma protoc_worksD:
  assumes "protoc_works protoc proto_root out" and "\<forall>p \<in> set protos. d (proto_root @ ''/'' @ p) \<noteq> None"
    and "args = shell_protoc proto_root out protos \<or> (args = protoc_command proto_root out \<and> protos = PROTOS)"
  shows "fst (protoc args d) = 0"
    "p \<in> set protos \<Longrightarrow> snd (protoc args d) (out @ ''/'' @ stub_of p) \<noteq> None"
    "\<not> starts_with (out @ ''/'') q \<Longrightarrow> snd (protoc args d) q = d q"
  using assms unfolding protoc_works_def by blast+

lemma explicit_protoc_keeps:
  assumes "protoc_works protoc ''/build/proto'' STUBS_OUT" and "protos_at_build d"
  shows "\<exists>d'. image_step protoc im explicit_protoc (d, ins) = Inr (d', ins) \<and> protos_at_build d'"
proof -
  let ?protos = "[''vllm_grpc/v1/health.proto'', ''vllm_grpc/v1/chat.proto'']"
  let ?r = "protoc (shell_protoc ''/build/proto'' STUBS_OUT ?protos) d"
  have "set ?protos \<subseteq> set PROTOS" by (simp add: PROTOS_def)
  then have there: "\<forall>p \<in> set ?protos. d (''/build/proto'' @ ''/'' @ p) \<noteq> None"
    using assms(2) by (auto simp: protos_at_build_def)
  note ran = protoc_worksD[OF assms(1) there disjI1[OF refl]]
  have "\<not> starts_with (STUBS_OUT @ ''/'') (''/build/proto/'' @ p)" "\<not> starts_with (STUBS_OUT @ ''/'') GEN_PROTO" for p
    by (simp_all add: starts_with_def)
  with ran(3) assms(2) have "protos_at_build (snd ?r)" by (simp add: protos_at_build_def)
  moreover have "image_step protoc im explicit_protoc (d, ins) = Inr (snd ?r, ins)"
    using ran(1) by (cases ?r) (simp add: image_step_def explicit_protoc_def)
  ultimately show ?thesis by blast
qed

lemma hook_finds_protos:
  assumes "protos_at_build d"
  shows "find_proto_root d (snd GEN_DIR) ''/build'' = Some ''/build/proto''"
  using assms by (simp add: find_proto_root_def protos_at_build_def GEN_DIR_def PROTOS_def)

text \<open>Whatever the image has compiled before, the hook compiles all three protos.\<close>

definition stubs_at_build :: "disk \<Rightarrow> bool" where
  "stubs_at_build d \<longleftrightarrow> (\<forall>p \<in> set PROTOS. d (STUBS_OUT @ ''/'' @ stub_of p) \<noteq> None)"

lemma gen_install_compiles:
  assumes "protoc_works protoc ''/build/proto'' STUBS_OUT" and "protos_at_build d"
    and "List.member (map snd (im_dirs im)) (snd GEN_DIR)"
  shows "\<exists>d'. image_step protoc im (Pip_Install nd (snd GEN_DIR)) (d, ins) = Inr (d', ins @ [snd GEN_DIR])
    \<and> stubs_at_build d'"
proof -
  let ?r = "protoc (protoc_command ''/build/proto'' STUBS_OUT) d"
  have there: "\<forall>p \<in> set PROTOS. d (''/build/proto'' @ ''/'' @ p) \<noteq> None"
    using assms(2) by (auto simp: protos_at_build_def)
  note hook = protoc_worksD[OF assms(1) there disjI2[OF conjI[OF refl refl]]]
  have ran: "fst ?r = 0" by (rule hook(1))
  have stubs: "stubs_at_build (snd ?r)" unfolding stubs_at_build_def using hook(2) by blast
  have out: "snd GEN_DIR @ ''/src'' = STUBS_OUT" by (simp add: GEN_DIR_def)
  have "build_hook protoc (snd GEN_DIR) ''/build'' d = (Inr (), snd ?r)"
    unfolding build_hook_def hook_finds_protos[OF assms(2)] out option.case using ran by (cases ?r) simp
  then have "image_step protoc im (Pip_Install nd (snd GEN_DIR)) (d, ins) = Inr (snd ?r, ins @ [snd GEN_DIR])"
    unfolding image_step_def using assms(3) by simp
  then show ?thesis using stubs by blast
qed

fun other_install :: "modal_image \<Rightarrow> image_command \<Rightarrow> bool" where
  "other_install im (Pip_Install nd path) \<longleftrightarrow> List.member (map snd (im_dirs im)) path \<and> path \<noteq> snd GEN_DIR"
| "other_install im (Run_Protoc r out protos) \<longleftrightarrow> False"

fun installs :: "image_command list \<Rightarrow> string list" where
  "installs [] = []"
| "installs (Pip_Install nd path # cmds) = path # installs cmds"
| "installs (Run_Protoc r out protos # cmds) = installs cmds"

lemma other_installs_run:
  "list_all (other_install im) cmds \<Longrightarrow> run_image_commands protoc im cmds (d, ins) = Inr (d, ins @ installs cmds)"
proof (induction cmds arbitrary: ins)
  case (Cons cmd cmds)
  then obtain nd path where cmd: "cmd = Pip_Install nd path" by (cases cmd) auto
  have "image_step protoc im cmd (d, ins) = Inr (d, ins @ [path])"
    using Cons.prems unfolding image_step_def cmd by simp
  then show ?case using Cons by (simp add: cmd)
qed simp

lemma gen_image_builds:
  assumes "protoc_works protoc ''/build/proto'' STUBS_OUT" and "protos_at_build d"
    and "List.member (map snd (im_dirs im)) (snd GEN_DIR)" and "list_all (other_install im) cmds"
  shows "\<exists>d'. run_image_commands protoc im (Pip_Install nd (snd GEN_DIR) # cmds) (d, [])
      = Inr (d', snd GEN_DIR # installs cmds) \<and> stubs_at_build d'"
proof -
  obtain d' where "image_step protoc im (Pip_Install nd (snd GEN_DIR)) (d, []) = Inr (d', [] @ [snd GEN_DIR])"
      "stubs_at_build d'"
    using gen_install_compiles[OF assms(1-3)] by blast
  then show ?thesis using other_installs_run[OF assms(4), of protoc d' "[snd GEN_DIR]"] by auto
qed

text \<open>The shape the six images share.\<close>

definition serving_shape :: "modal_image \<Rightarrow> bool" where
  "serving_shape im \<longleftrightarrow> take 2 (im_dirs im) = [PROTO_DIR, GEN_DIR]
     \<and> (case dropWhile (\<lambda>c. c = explicit_protoc) (take 1 (im_commands im)) @ drop 1 (im_commands im) of
          Pip_Install nd path # cmds \<Rightarrow> path = snd GEN_DIR \<and> list_all (other_install im) cmds
        | _ \<Rightarrow> False)"

lemma serving_shapeD:
  assumes "serving_shape im"
  shows "\<exists>ds. im_dirs im = PROTO_DIR # GEN_DIR # ds"
    "\<exists>nd cmds. list_all (other_install im) cmds
       \<and> (im_commands im = Pip_Install nd (snd GEN_DIR) # cmds
          \<or> im_commands im = explicit_protoc # Pip_Install nd (snd GEN_DIR) # cmds)"
proof -
  show "\<exists>ds. im_dirs im = PROTO_DIR # GEN_DIR # ds"
    using assms append_take_drop_id[of 2 "im_dirs im"] by (metis append_Cons append_Nil serving_shape_def)
  show "\<exists>nd cmds. list_all (other_install im) cmds
       \<and> (im_commands im = Pip_Install nd (snd GEN_DIR) # cmds
          \<or> im_commands im = explicit_protoc # Pip_Install nd (snd GEN_DIR) # cmds)"
    using assms by (cases "im_commands im")
      (auto simp: serving_shape_def split: if_split_asm list.split_asm image_command.split_asm)
qed

lemmas dir_defs = PROTO_DIR_def GEN_DIR_def FRONTEND_DIR_def PROXY_DIR_def BENCH_DIR_def

lemmas image_defs = bench_grpc_image_def frontend_serve_image_def frontend_smoke_image_def mock_grpc_image_def
  mock_rest_grpc_image_def real_engine_image_def pip_image_def

lemma dirs_apart [simp]:
  "snd FRONTEND_DIR \<noteq> snd GEN_DIR" "snd PROXY_DIR \<noteq> snd GEN_DIR" "snd BENCH_DIR \<noteq> snd GEN_DIR"
  "snd FRONTEND_DIR \<noteq> snd BENCH_DIR" "snd FRONTEND_DIR \<noteq> snd PROXY_DIR" "snd GEN_DIR \<noteq> snd FRONTEND_DIR"
  by (simp_all add: dir_defs)

lemma serving_images_shape: "im \<in> set serving_images \<Longrightarrow> serving_shape im"
  by (auto simp: serving_images_def serving_shape_def image_defs explicit_protoc_def)

lemma serving_shape_builds:
  assumes "serving_shape im" and "protoc_works protoc ''/build/proto'' STUBS_OUT"
    and "protos_at_build (image_disk repo im)"
  shows "\<exists>d. build_image protoc repo im = Inr (d, installs (im_commands im)) \<and> stubs_at_build d"
proof -
  obtain ds nd cmds where dirs: "im_dirs im = PROTO_DIR # GEN_DIR # ds" and others: "list_all (other_install im) cmds"
      and cmds: "im_commands im = Pip_Install nd (snd GEN_DIR) # cmds
        \<or> im_commands im = explicit_protoc # Pip_Install nd (snd GEN_DIR) # cmds"
    using serving_shapeD[OF assms(1)] by blast
  have gen: "List.member (map snd (im_dirs im)) (snd GEN_DIR)" by (simp add: dirs)
  from cmds show ?thesis
  proof
    assume c: "im_commands im = Pip_Install nd (snd GEN_DIR) # cmds"
    show ?thesis using gen_image_builds[OF assms(2,3) gen others, of nd] by (auto simp: build_image_def c)
  next
    assume c: "im_commands im = explicit_protoc # Pip_Install nd (snd GEN_DIR) # cmds"
    obtain d where d: "image_step protoc im explicit_protoc (image_disk repo im, []) = Inr (d, [])" "protos_at_build d"
      using explicit_protoc_keeps[OF assms(2,3)] by blast
    have "installs (explicit_protoc # cs) = installs cs" for cs by (simp add: explicit_protoc_def)
    then show ?thesis using gen_image_builds[OF assms(2) d(2) gen others, of nd]
      by (auto simp: build_image_def c d(1))
  qed
qed

lemma frontend_installed:
  assumes "im \<in> set serving_images"
  shows "snd FRONTEND_DIR \<in> set (installs (im_commands im)) \<longleftrightarrow> im \<noteq> mock_grpc_image \<and> im \<noteq> mock_rest_grpc_image"
proof -
  define has where "has x \<longleftrightarrow> snd FRONTEND_DIR \<in> set (installs (im_commands x))" for x :: modal_image
  have "has bench_grpc_image" "has frontend_serve_image" "has frontend_smoke_image" "has real_engine_image"
    "\<not> has mock_grpc_image" "\<not> has mock_rest_grpc_image"
    by (simp_all add: has_def image_defs explicit_protoc_def)
  moreover have "im = bench_grpc_image \<or> im = frontend_serve_image \<or> im = frontend_smoke_image
      \<or> im = mock_grpc_image \<or> im = mock_rest_grpc_image \<or> im = real_engine_image"
    using assms by (simp add: serving_images_def)
  ultimately show ?thesis unfolding has_def[symmetric] by blast
qed

text \<open>
  The images of the deployments serve all three services. For every image whose container starts a gRPC
  server, if the protos are in the repository, the build succeeds and leaves the stubs of health, chat and
  completions, although three of the images ask the compiler for the first two only: the hook of the
  generated package finds the copied protos and compiles the third. Only the mock deployments go without
  the frontend's package.
\<close>

theorem serving_images_have_stubs:
  assumes "im \<in> set serving_images" and "protoc_works protoc ''/build/proto'' STUBS_OUT"
    and "\<forall>p \<in> set PROTOS. repo (''proto/'' @ p) \<noteq> None"
    and "repo ''packages/gen/proto/vllm_grpc/v1/health.proto'' = None"
  shows "\<exists>d installed. build_image protoc repo im = Inr (d, installed)
    \<and> (\<forall>p \<in> set PROTOS. d (STUBS_OUT @ ''/'' @ stub_of p) \<noteq> None)
    \<and> (snd FRONTEND_DIR \<in> set installed \<longleftrightarrow> im \<noteq> mock_grpc_image \<and> im \<noteq> mock_rest_grpc_image)"
proof -
  obtain ds where "im_dirs im = PROTO_DIR # GEN_DIR # ds"
    using serving_shapeD(1)[OF serving_images_shape[OF assms(1)]] by blast
  from copied_protos[OF this assms(3,4)] obtain d where
      "build_image protoc repo im = Inr (d, installs (im_commands im))" "stubs_at_build d"
    using serving_shape_builds[OF serving_images_shape[OF assms(1)] assms(2)] by blast
  moreover have "snd FRONTEND_DIR \<in> set (installs (im_commands im))
      \<longleftrightarrow> im \<noteq> mock_grpc_image \<and> im \<noteq> mock_rest_grpc_image"
    by (rule frontend_installed[OF assms(1)])
  ultimately show ?thesis unfolding stubs_at_build_def by blast
qed

definition demo_protoc :: "string list \<Rightarrow> disk \<Rightarrow> int \<times> disk" where
  "demo_protoc args d = (0, \<lambda>q. if starts_with (STUBS_OUT @ ''/'') q then Some [] else d q)"

lemma demo_protoc_works: "protoc_works demo_protoc ''/build/proto'' STUBS_OUT"
  by (auto simp: protoc_works_def demo_protoc_def starts_with_def)

definition demo_repo :: disk where
  "demo_repo q = (if starts_with ''proto/'' q then Some [] else None)"

theorem serving_images_have_stubs_witness:
  "\<exists>d installed. build_image demo_protoc demo_repo bench_grpc_image = Inr (d, installed)
    \<and> d ''/build/packages/gen/src/vllm_grpc/v1/completions_pb2.py'' \<noteq> None"
proof -
  have "bench_grpc_image \<in> set serving_images" by (simp add: serving_images_def)
  moreover have "\<forall>p \<in> set PROTOS. demo_repo (''proto/'' @ p) \<noteq> None" by (simp add: demo_repo_def starts_with_def)
  moreover have "demo_repo ''packages/gen/proto/vllm_grpc/v1/health.proto'' = None"
    by (simp add: demo_repo_def starts_with_def)
  ultimately obtain d installed where b: "build_image demo_protoc demo_repo bench_grpc_image = Inr (d, installed)"
      and stubs: "\<forall>p \<in> set PROTOS. d (STUBS_OUT @ ''/'' @ stub_of p) \<noteq> None"
    using serving_images_have_stubs[OF _ demo_protoc_works] by blast
  have "''vllm_grpc/v1/completions.proto'' \<in> set PROTOS" by (simp add: PROTOS_def)
  with stubs have "d (STUBS_OUT @ ''/'' @ stub_of ''vllm_grpc/v1/completions.proto'') \<noteq> None" by blast
  then have "d ''/build/packages/gen/src/vllm_grpc/v1/completions_pb2.py'' \<noteq> None" by (simp add: stub_of_def)
  with b show ?thesis by blast
qed

end
