(* ===== verification/Demos.thy ===== *)
theory Demos
  imports Gateway
begin

text \<open>
  The demo programs: \<open>demo/streaming.py\<close>, \<open>openai-sdk.py\<close>, \<open>grpc-direct.py\<close> and
  \<open>scripts/python/chat-nonstreaming.py\<close>. Each makes one chat call, three of them through the openai
  package and the proxy, one through the client. The package is a parameter: the body it reads from an
  answer, or the exception it raises.
\<close>

section \<open>The programs\<close>

text \<open>What a program has printed, and its exit code or the exception that leaves it.\<close>

record demo_run =
  dr_stdout :: string
  dr_stderr :: string
  dr_exit :: "int py_result"

definition demo_base_url :: "(string \<Rightarrow> string option) \<Rightarrow> string" where
  "demo_base_url environ = env_or environ ''PROXY_BASE_URL'' ''http://localhost:8000/v1''"

definition user_message :: "string \<Rightarrow> openai_chat_message" where
  "user_message content = \<lparr>om_role = ''user'', om_content = content\<rparr>"

definition demo_chat :: "openai_chat_message list \<Rightarrow> bool \<Rightarrow> openai_chat_request" where
  "demo_chat messages stream =
     \<lparr>oc_model = ''Qwen/Qwen3-0.6B'', oc_messages = messages, oc_max_tokens = 64, oc_temperature = None,
      oc_top_p = None, oc_seed = Some 42, oc_stream = stream\<rparr>"

text \<open>An \<open>openai.APIError\<close>, or the direct demo's \<open>grpc.RpcError\<close>, ends a program with exit code 1.\<close>

definition demo_failure :: "string \<Rightarrow> string \<Rightarrow> string \<Rightarrow> py_exn \<Rightarrow> demo_run" where
  "demo_failure caught prefix_text printed exc =
     (if isinstance exc caught
      then \<lparr>dr_stdout = printed, dr_stderr = prefix_text @ exn_msg exc @ [LF], dr_exit = Inr 1\<rparr>
      else \<lparr>dr_stdout = printed, dr_stderr = [], dr_exit = Inl exc\<rparr>)"

definition demo_success :: "string \<Rightarrow> demo_run" where
  "demo_success printed = \<lparr>dr_stdout = printed, dr_stderr = [], dr_exit = Inr 0\<rparr>"

text \<open>\<open>response.choices[0].message.content\<close> as the package gives it; \<open>print\<close> shows \<open>None\<close> for none.\<close>

definition sdk_content :: "json \<Rightarrow> string option" where
  "sdk_content body = (case body of
     JObj d \<Rightarrow> (case map_of d ''choices'' of
       Some (JList (JObj c # cs)) \<Rightarrow> (case map_of c ''message'' of
         Some (JObj m) \<Rightarrow> (case map_of m ''content'' of Some (JStr t) \<Rightarrow> Some t | _ \<Rightarrow> None)
       | _ \<Rightarrow> None)
     | _ \<Rightarrow> None)
   | _ \<Rightarrow> None)"

definition shown :: "string option \<Rightarrow> string" where
  "shown content = (case content of None \<Rightarrow> ''None'' | Some t \<Rightarrow> t) @ [LF]"

definition openai_sdk_demo :: "(openai_chat_request \<Rightarrow> json py_result) \<Rightarrow> demo_run" where
  "openai_sdk_demo create = (case create (demo_chat [user_message ''What is 2+2?''] False) of
     Inl exc \<Rightarrow> demo_failure ''APIError'' ''ERROR: '' [] exc
   | Inr body \<Rightarrow> demo_success (shown (sdk_content body)))"

definition chat_nonstreaming :: "(openai_chat_request \<Rightarrow> json py_result) \<Rightarrow> (json \<Rightarrow> string) \<Rightarrow> demo_run" where
  "chat_nonstreaming create show_usage =
     (case create (demo_chat [\<lparr>om_role = ''system'', om_content = ''You are a helpful assistant.''\<rparr>,
                              user_message ''What is 2 + 2?''] False) of
        Inl exc \<Rightarrow> demo_failure ''APIError'' ''API error: '' [] exc
      | Inr body \<Rightarrow> demo_success (shown (sdk_content body) @ show_usage body @ [LF]))"

text \<open>The contents of the chunks the package yields, and what ended the iteration.\<close>

definition streaming_demo :: "(openai_chat_request \<Rightarrow> (string option list \<times> py_exn option) py_result) \<Rightarrow> demo_run" where
  "streaming_demo create = (case create (demo_chat [user_message ''Count to five.''] True) of
     Inl exc \<Rightarrow> demo_failure ''APIError'' ''ERROR: '' [] exc
   | Inr (contents, err) \<Rightarrow>
       (let printed = concat (map (\<lambda>d. case d of None \<Rightarrow> [] | Some t \<Rightarrow> t) contents)
        in case err of None \<Rightarrow> demo_success (printed @ [LF])
                     | Some exc \<Rightarrow> demo_failure ''APIError'' ''ERROR: '' printed exc))"

text \<open>The client is entered, used and left, whatever the call does.\<close>

definition FRONTEND_ADDR :: "(string \<Rightarrow> string option) \<Rightarrow> string" where
  "FRONTEND_ADDR environ = env_or environ ''FRONTEND_ADDR'' ''localhost:50051''"

definition grpc_direct_demo ::
  "(string \<Rightarrow> string option) \<Rightarrow> (real \<Rightarrow> real) \<Rightarrow> (chat_complete_request \<Rightarrow> real option \<Rightarrow> chat_complete_response py_result)
     \<Rightarrow> channel_pool \<Rightarrow> demo_run \<times> channel_pool" where
  "grpc_direct_demo environ f32 stub pool =
     (let addr = FRONTEND_ADDR environ;
          entered = client_aenter (vllm_client_init addr 30 None None, pool);
          r = bind_result (client_chat (fst entered)) (\<lambda>ch.
                client_chat_complete f32 stub [[(''role'', ''user''), (''content'', ''What is 2+2?'')]]
                  ''Qwen/Qwen3-0.6B'' 64 None None (Some 42) None)
      in (case r of
            Inl exc \<Rightarrow> demo_failure ''RpcError'' (''ERROR: gRPC error connecting to '' @ addr @ '': '') [] exc
          | Inr response \<Rightarrow> demo_success (cr_content response @ [LF]),
          snd (client_aexit entered)))"

section \<open>The two paths\<close>

text \<open>The two programs build the same message for the frontend.\<close>

definition demo_proto :: chat_complete_request where
  "demo_proto = \<lparr>cq_messages = [\<lparr>cm_role = ''user'', cm_content = ''What is 2+2?''\<rparr>], cq_model = ''Qwen/Qwen3-0.6B'',
     cq_max_tokens = 64, cq_temperature = None, cq_top_p = None, cq_seed = Some 42, cq_ignore_eos = False\<rparr>"

lemma demo_requests:
  "chat_request_to_proto f32 (demo_chat [user_message ''What is 2+2?''] False) = Inr demo_proto"
  "chat_build_request f32 [[(''role'', ''user''), (''content'', ''What is 2+2?'')]] ''Qwen/Qwen3-0.6B'' 64 None None
     (Some 42) = Inr demo_proto"
  by (simp_all add: chat_request_to_proto_def chat_build_request_def chat_request_pb_def demo_chat_def
      user_message_def demo_proto_def fields_in_range_def int32_ok_def int64_ok_def dict_item_def)

lemma sdk_content_of_reply [simp]:
  "sdk_content (proto_response_to_openai_dict u now resp model) = Some (cm_content (cp_message resp))"
  by (simp add: sdk_content_def proto_response_to_openai_dict_def)

lemma direct_demo_run:
  assumes "pool_next pool \<notin> set (pool_open pool)"
  shows "grpc_direct_demo environ f32 stub pool =
    ((case stub demo_proto None of
        Inl exc \<Rightarrow> demo_failure ''RpcError'' (''ERROR: gRPC error connecting to '' @ FRONTEND_ADDR environ @ '': '') [] exc
      | Inr resp \<Rightarrow> demo_success (cm_content (cp_message resp) @ [LF])),
     pool\<lparr>pool_next := pool_next pool + 1\<rparr>)"
proof -
  have "removeAll (pool_next pool) (pool_open pool) = pool_open pool" using assms by simp
  then show ?thesis
    by (simp add: grpc_direct_demo_def client_aenter_def client_aexit_def client_chat_def vllm_client_init_def
        client_chat_complete_def demo_requests Let_def split: sum.split)
qed

lemma error_status_not_200: "\<exists>st body. chat_rpc_error_reply exc = Json_Reply st body [] \<and> st \<noteq> 200"
  by (simp add: chat_rpc_error_reply_def Let_def)

text \<open>
  Both ways to the frontend give the same output. Whatever the frontend's unary call does, the demo through
  the proxy and the openai package and the demo through the client send it the same message; they print the
  same text and exit with 0 when it answers, print nothing and exit with 1 when it fails with a gRPC
  error, and the client's channel is closed again either way.
\<close>

theorem demos_agree:
  assumes "\<And>body hs. sdk (Inr (Json_Reply 200 body hs)) = Inr body"
    and "\<And>st body hs. st \<noteq> 200 \<Longrightarrow> \<exists>e. sdk (Inr (Json_Reply st body hs)) = Inl e \<and> isinstance e ''APIError''"
    and "\<And>exc. call demo_proto = Inl exc \<Longrightarrow> isinstance exc ''AioRpcError'' \<and> isinstance exc ''RpcError''"
    and "pool_next pool \<notin> set (pool_open pool)"
  shows "\<exists>a b pool'. openai_sdk_demo (\<lambda>req. sdk (chat_completions penv ts call call_stream req)) = a
    \<and> grpc_direct_demo environ f32 (\<lambda>req t. call req) pool = (b, pool')
    \<and> dr_stdout a = dr_stdout b \<and> dr_exit a = dr_exit b \<and> pool_open pool' = pool_open pool
    \<and> (case call demo_proto of
         Inl exc \<Rightarrow> dr_stdout b = [] \<and> dr_exit b = Inr 1
       | Inr resp \<Rightarrow> dr_stdout b = cm_content (cp_message resp) @ [LF] \<and> dr_exit b = Inr 0)"
proof -
  obtain t0 t1 t2 t3 where ts: "ts = (t0, t1, t2, t3)" by (cases ts)
  let ?req = "demo_chat [user_message ''What is 2+2?''] False"
  have unary: "\<not> oc_stream ?req" by (simp add: demo_chat_def)
  show ?thesis
  proof (cases "call demo_proto")
    case (Inl exc)
    note rpc = assms(3)[OF Inl]
    obtain st body where reply: "chat_rpc_error_reply exc = Json_Reply st body []" "st \<noteq> 200"
      using error_status_not_200 by blast
    obtain e where e: "sdk (Inr (Json_Reply st body [])) = Inl e" "isinstance e ''APIError''"
      using assms(2)[OF reply(2)] by blast
    have "chat_completions penv ts call call_stream ?req = Inr (Json_Reply st body [])"
      using unary rpc by (simp add: chat_completions_def ts demo_requests Inl reply(1))
    then have "openai_sdk_demo (\<lambda>req. sdk (chat_completions penv ts call call_stream req))
        = demo_failure ''APIError'' ''ERROR: '' [] e"
      by (simp only: openai_sdk_demo_def e(1) sum.case)
    then show ?thesis using e(2) rpc by (simp add: direct_demo_run[OF assms(4)] Inl demo_failure_def)
  next
    case (Inr resp)
    then have "\<exists>hs. chat_completions penv ts call call_stream ?req = Inr (Json_Reply 200
        (proto_response_to_openai_dict (px_uuid penv) (px_now penv) resp (oc_model ?req)) hs)"
      using unary by (simp add: chat_completions_def ts demo_requests)
    then obtain hs where "chat_completions penv ts call call_stream ?req = Inr (Json_Reply 200
        (proto_response_to_openai_dict (px_uuid penv) (px_now penv) resp (oc_model ?req)) hs)" by blast
    then have "openai_sdk_demo (\<lambda>req. sdk (chat_completions penv ts call call_stream req))
        = demo_success (cm_content (cp_message resp) @ [LF])"
      by (simp only: openai_sdk_demo_def assms(1) sum.case sdk_content_of_reply shown_def option.case)
    then show ?thesis by (simp add: direct_demo_run[OF assms(4)] Inr demo_success_def)
  qed
qed

definition demo_sdk :: "http_reply py_result \<Rightarrow> json py_result" where
  "demo_sdk r = (case r of
     Inr (Json_Reply st body hs) \<Rightarrow>
       if st = 200 then Inr body else Inl (Lib_Exn ''APIStatusError'' [] [''APIStatusError'', ''APIError''] None None)
   | _ \<Rightarrow> Inl (Lib_Exn ''APIConnectionError'' [] [''APIConnectionError'', ''APIError''] None None))"

definition demo_down :: "chat_complete_request \<Rightarrow> chat_complete_response py_result" where
  "demo_down req = Inl (Lib_Exn ''AioRpcError'' ''down'' [''AioRpcError'', ''RpcError''] (Some ''UNAVAILABLE'') None)"

theorem demos_agree_witness:
  "dr_exit (openai_sdk_demo (\<lambda>req. demo_sdk (chat_completions demo_proxy (0, 1, 2, 3) demo_down (\<lambda>q. ([], None)) req)))
     = Inr 1
   \<and> dr_exit (fst (grpc_direct_demo (\<lambda>k. None) (\<lambda>x. x) (\<lambda>req t. demo_down req) \<lparr>pool_next = 0, pool_open = []\<rparr>)) = Inr 1"
proof -
  have sdk: "\<And>body hs. demo_sdk (Inr (Json_Reply 200 body hs)) = Inr body"
    "\<And>st body hs. st \<noteq> 200 \<Longrightarrow> \<exists>e. demo_sdk (Inr (Json_Reply st body hs)) = Inl e \<and> isinstance e ''APIError''"
    by (simp_all add: demo_sdk_def)
  have down: "\<And>exc. demo_down demo_proto = Inl exc \<Longrightarrow> isinstance exc ''AioRpcError'' \<and> isinstance exc ''RpcError''"
    by (auto simp: demo_down_def)
  have pool: "pool_next \<lparr>pool_next = 0, pool_open = []\<rparr> \<notin> set (pool_open \<lparr>pool_next = 0, pool_open = []\<rparr>)" by simp
  from demos_agree[where sdk = demo_sdk and call = demo_down and pool = "\<lparr>pool_next = 0, pool_open = []\<rparr>"
      and penv = demo_proxy and ts = "(0, 1, 2, 3)" and call_stream = "\<lambda>q. ([], None)"
      and environ = "\<lambda>k. None" and ?f32.0 = "\<lambda>x. x", OF sdk down pool]
  show ?thesis by (auto simp: demo_down_def)
qed

end
