(* ===== verification/Runner.thy ===== *)
theory Runner
  imports Bench_Runs Rpc_Driver Client_Api Corpus
begin

text \<open>
  \<open>tools/benchmark/src/vllm_grpc_bench/runner.py\<close>: the requests of a benchmark run against the proxy, the
  native server and the frontend, and the result each of them becomes. What the network does with a call is
  a reading: its two clock readings and its answer. The exceptions of a reading are those of
  \<open>except Exception\<close>; the cancellation of a whole run is not modelled. The semaphore around the calls is not
  part of this model: \<open>gather\<close> gives the results in the order of the samples whatever the order of the calls.
\<close>

section \<open>Environment\<close>

text \<open>
  JSON text, \<open>str(exc)\<close>, \<open>torch\<close> and the sizes of serialized messages are arguments.
\<close>

record 't runner_env =
  ru_f32 :: "real \<Rightarrow> real"
  ru_fl :: "real \<Rightarrow> string"
  ru_loads :: "string \<Rightarrow> json py_result"
  ru_exn_text :: "py_exn \<Rightarrow> string"
  ru_torch_load :: "string \<Rightarrow> 't py_result"
  ru_torch_save :: "'t \<Rightarrow> string py_result"
  ru_chat_request_size :: "chat_complete_request \<Rightarrow> int"
  ru_chat_response_size :: "chat_complete_response \<Rightarrow> int"
  ru_completion_request_size :: "completion_request \<Rightarrow> int"
  ru_completion_response_size :: "completion_response \<Rightarrow> int"

text \<open>A POST: its status, body and \<open>x-bench-proxy-ms\<close> header, or what it raised. A unary call likewise.\<close>

record runner_post =
  rp_t0 :: real
  rp_answer :: "(int \<times> string \<times> string option) py_result"
  rp_t1 :: real

record 'r runner_call =
  rc_t0 :: real
  rc_answer :: "'r py_result"
  rc_t1 :: real

section \<open>Results\<close>

definition ok_status :: "int \<Rightarrow> bool" where
  "ok_status status \<longleftrightarrow> 200 \<le> status \<and> status < 300"

definition http_error :: "int \<Rightarrow> string option" where
  "http_error status = (if ok_status status then None else Some (''HTTP '' @ str_int status))"

text \<open>The result a branch starts from; each sets the fields it knows.\<close>

definition base_result :: "string \<Rightarrow> run_target \<Rightarrow> int \<Rightarrow> request_type \<Rightarrow> int \<Rightarrow> request_result" where
  "base_result sample_id target concurrency rtype request_bytes =
     \<lparr>rq_sample_id = sample_id, rq_target = target, rq_concurrency = concurrency, rq_latency_ms = None,
      rq_request_bytes = request_bytes, rq_response_bytes = None, rq_proxy_ms = None, rq_success = False,
      rq_error = None, rq_ttft_ms = None, rq_tpot_ms = None, rq_token_count = None, rq_request_type = rtype\<rparr>"

definition failed_result :: "request_result \<Rightarrow> real option \<Rightarrow> string \<Rightarrow> request_result" where
  "failed_result r latency reason = r\<lparr>rq_latency_ms := latency, rq_error := Some reason\<rparr>"

section \<open>Unary chat\<close>

definition messages_json :: "chat_message list \<Rightarrow> json" where
  "messages_json ms = JList (map (\<lambda>m. JObj (map (\<lambda>(k, v). (k, JStr v)) m)) ms)"

definition chat_body :: "request_sample \<Rightarrow> json_dict" where
  "chat_body s =
     [(''model'', JStr (rs_model s)), (''messages'', messages_json (rs_messages s)),
      (''max_tokens'', JInt (rs_max_tokens s)), (''temperature'', JFloat (rs_temperature s)),
      (''seed'', JInt (rs_seed s))]"

definition body_bytes :: "'t runner_env \<Rightarrow> json_dict \<Rightarrow> int" where
  "body_bytes env body = int (length (json_dumps (ru_fl env) (JObj body)))"

text \<open>A failed POST has no latency; a header that is no number makes the call a failed one.\<close>

definition send_one ::
  "'t runner_env \<Rightarrow> run_target \<Rightarrow> int \<Rightarrow> request_sample \<Rightarrow> runner_post \<Rightarrow> request_result" where
  "send_one env target concurrency s post =
     (let r = base_result (rs_id s) target concurrency Chat (body_bytes env (chat_body s))
      in case bind_result (rp_answer post) (\<lambda>(status, body, header). case header of
                 None \<Rightarrow> Inr (status, body, None)
               | Some h \<Rightarrow> bind_result (float_of_str h) (\<lambda>x. Inr (status, body, Some x))) of
           Inl exc \<Rightarrow> failed_result r None (ru_exn_text env exc)
         | Inr (status, body, proxy_ms) \<Rightarrow>
             r\<lparr>rq_latency_ms := Some (elapsed_ms (rp_t0 post) (rp_t1 post)),
               rq_response_bytes := Some (int (length body)), rq_proxy_ms := proxy_ms,
               rq_success := ok_status status, rq_error := http_error status\<rparr>)"

definition run_target ::
  "'t runner_env \<Rightarrow> run_target \<Rightarrow> int \<Rightarrow> request_sample list \<Rightarrow> (nat \<Rightarrow> runner_post) \<Rightarrow> request_result list" where
  "run_target env target concurrency samples net =
     map (\<lambda>i. send_one env target concurrency (samples ! i) (net i)) [0 ..< length samples]"

text \<open>The proto is built for its size before the clock starts; the client builds its own.\<close>

definition build_request_proto :: "'t runner_env \<Rightarrow> request_sample \<Rightarrow> chat_complete_request py_result" where
  "build_request_proto env s =
     chat_build_request (ru_f32 env) (rs_messages s) (rs_model s) (rs_max_tokens s) (Some (rs_temperature s)) None
       (Some (rs_seed s))"

definition rebuilt_chat_response :: "chat_complete_result \<Rightarrow> chat_complete_response" where
  "rebuilt_chat_response r =
     \<lparr>cp_message = \<lparr>cm_role = cr_role r, cm_content = cr_content r\<rparr>, cp_finish_reason = cr_finish_reason r,
      cp_prompt_tokens = cr_prompt_tokens r, cp_completion_tokens = cr_completion_tokens r\<rparr>"

definition send_one_grpc ::
  "'t runner_env \<Rightarrow> int \<Rightarrow> real \<Rightarrow> request_sample \<Rightarrow> chat_complete_response runner_call \<Rightarrow> request_result py_result" where
  "send_one_grpc env concurrency time_out s call =
     bind_result (build_request_proto env s) (\<lambda>req_proto.
       let r = base_result (rs_id s) Grpc_Direct concurrency Chat (ru_chat_request_size env req_proto);
           latency = Some (elapsed_ms (rc_t0 call) (rc_t1 call))
       in Inr (case client_chat_complete (ru_f32 env) (\<lambda>req t. rc_answer call) (rs_messages s) (rs_model s)
                      (rs_max_tokens s) (Some (rs_temperature s)) None (Some (rs_seed s)) (Some time_out) of
                 Inl exc \<Rightarrow> failed_result r latency (ru_exn_text env exc)
               | Inr answer \<Rightarrow>
                   r\<lparr>rq_latency_ms := latency,
                     rq_response_bytes := Some (ru_chat_response_size env (rebuilt_chat_response answer)),
                     rq_success := True\<rparr>))"

definition run_grpc_target ::
  "'t runner_env \<Rightarrow> int \<Rightarrow> real \<Rightarrow> request_sample list \<Rightarrow> (nat \<Rightarrow> chat_complete_response runner_call)
     \<Rightarrow> request_result list py_result" where
  "run_grpc_target env concurrency time_out samples net =
     map_result (\<lambda>i. send_one_grpc env concurrency time_out (samples ! i) (net i)) [0 ..< length samples]"

section \<open>Streams\<close>

text \<open>The first and the last time a token arrived, and how many did.\<close>

record token_clock =
  tk_first :: "real option"
  tk_last :: "real option"
  tk_count :: int

definition no_tokens :: token_clock where
  "no_tokens = \<lparr>tk_first = None, tk_last = None, tk_count = 0\<rparr>"

definition count_token :: "real \<Rightarrow> token_clock \<Rightarrow> token_clock" where
  "count_token now tk =
     \<lparr>tk_first = (case tk_first tk of None \<Rightarrow> Some now | Some t \<Rightarrow> Some t), tk_last = Some now,
      tk_count = tk_count tk + 1\<rparr>"

definition runner_ttft_ms :: "real \<Rightarrow> token_clock \<Rightarrow> real option" where
  "runner_ttft_ms t0 tk = map_option (elapsed_ms t0) (tk_first tk)"

definition runner_tpot_ms :: "token_clock \<Rightarrow> real option" where
  "runner_tpot_ms tk = (case (tk_last tk, tk_first tk) of
     (Some l, Some f) \<Rightarrow> if 1 < tk_count tk then Some ((l - f) * 1000 / real_of_int (tk_count tk - 1)) else None
   | _ \<Rightarrow> None)"

definition with_tokens :: "real \<Rightarrow> token_clock \<Rightarrow> request_result \<Rightarrow> request_result" where
  "with_tokens t0 tk r =
     r\<lparr>rq_ttft_ms := runner_ttft_ms t0 tk, rq_tpot_ms := runner_tpot_ms tk,
       rq_token_count := (if 0 < tk_count tk then Some (tk_count tk) else None)\<rparr>"

text \<open>\<open>payload["choices"][0]["delta"].get("content", "")\<close>.\<close>

fun json_first :: "json \<Rightarrow> json py_result" where
  "json_first (JList (x # xs)) = Inr x"
| "json_first (JList []) = Inl (Exn ''IndexError'' ''list index out of range'')"
| "json_first (JStr (c # cs)) = Inr (JStr [c])"
| "json_first (JStr []) = Inl (Exn ''IndexError'' ''string index out of range'')"
| "json_first (JObj kvs) = Inl (key_error ''0'')"
| "json_first _ = Inl (type_error ''object is not subscriptable'')"

definition chunk_content :: "json \<Rightarrow> json py_result" where
  "chunk_content payload =
     bind_result (json_index payload ''choices'') (\<lambda>choices.
     bind_result (json_first choices) (\<lambda>choice.
     bind_result (json_index choice ''delta'') (\<lambda>delta. json_get_or delta ''content'' (JStr []))))"

definition stream_line :: "'t runner_env \<Rightarrow> string \<times> real \<Rightarrow> token_clock \<Rightarrow> token_clock py_result" where
  "stream_line env l tk =
     (let (line, now) = l
      in if \<not> starts_with ''data: '' line \<or> line = ''data: [DONE]'' then Inr tk
         else case bind_result (ru_loads env (drop 6 line)) chunk_content of
                Inl exc \<Rightarrow> if isinstance exc ''KeyError'' \<or> isinstance exc ''JSONDecodeError'' then Inr tk else Inl exc
              | Inr content \<Rightarrow> Inr (if json_truthy content then count_token now tk else tk))"

fun stream_lines :: "'t runner_env \<Rightarrow> (string \<times> real) list \<Rightarrow> token_clock \<Rightarrow> token_clock py_result" where
  "stream_lines env [] tk = Inr tk"
| "stream_lines env (l # ls) tk = bind_result (stream_line env l tk) (stream_lines env ls)"

definition streaming_body :: "request_sample \<Rightarrow> json_dict" where
  "streaming_body s = chat_body s @ [(''stream'', JBool True)]"

text \<open>The status decides about success, whatever the events of the stream say.\<close>

definition send_one_streaming ::
  "'t runner_env \<Rightarrow> run_target \<Rightarrow> int \<Rightarrow> request_sample \<Rightarrow> http_stream_run \<Rightarrow> request_result" where
  "send_one_streaming env target concurrency s run =
     (let r = base_result (rs_id s) target concurrency Chat (body_bytes env (streaming_body s));
          latency = Some (elapsed_ms (hs_t0 run) (hs_done_at run))
      in case bind_result (hs_open run) (\<lambda>status.
                bind_result (stream_lines env (hs_lines run) no_tokens) (\<lambda>tk.
                  case hs_error run of None \<Rightarrow> Inr (status, tk) | Some exc \<Rightarrow> Inl exc)) of
           Inl exc \<Rightarrow> failed_result r latency (ru_exn_text env exc)
         | Inr (status, tk) \<Rightarrow>
             with_tokens (hs_t0 run) tk
               (r\<lparr>rq_latency_ms := latency, rq_success := ok_status status, rq_error := http_error status\<rparr>))"

definition run_target_streaming ::
  "'t runner_env \<Rightarrow> run_target \<Rightarrow> int \<Rightarrow> request_sample list \<Rightarrow> (nat \<Rightarrow> http_stream_run) \<Rightarrow> request_result list" where
  "run_target_streaming env target concurrency samples net =
     map (\<lambda>i. send_one_streaming env target concurrency (samples ! i) (net i)) [0 ..< length samples]"

text \<open>The chunks as the client's \<open>complete_stream\<close> yields them, each with the time it is looked at.\<close>

definition count_chunk :: "chat_chunk_result \<times> real \<Rightarrow> token_clock \<Rightarrow> token_clock" where
  "count_chunk c tk = (if cs_delta_content (fst c) \<noteq> [] then count_token (snd c) tk else tk)"

definition client_chunks :: "grpc_stream_run \<Rightarrow> (chat_chunk_result \<times> real) list" where
  "client_chunks run = map (\<lambda>(ck, t). (chat_chunk_result_of ck, t)) (gs_chunks run)"

definition send_one_grpc_stream ::
  "'t runner_env \<Rightarrow> int \<Rightarrow> request_sample \<Rightarrow> grpc_stream_run \<Rightarrow> request_result py_result" where
  "send_one_grpc_stream env concurrency s run =
     bind_result (build_request_proto env s) (\<lambda>req_proto.
       let r = base_result (rs_id s) Grpc_Direct concurrency Chat (ru_chat_request_size env req_proto);
           latency = Some (elapsed_ms (gs_t0 run) (gs_done_at run))
       in Inr (case gs_error run of
                 Some exc \<Rightarrow> failed_result r latency (ru_exn_text env exc)
               | None \<Rightarrow> with_tokens (gs_t0 run) (fold count_chunk (client_chunks run) no_tokens)
                           (r\<lparr>rq_latency_ms := latency, rq_success := True\<rparr>)))"

definition run_grpc_target_streaming ::
  "'t runner_env \<Rightarrow> int \<Rightarrow> request_sample list \<Rightarrow> (nat \<Rightarrow> grpc_stream_run) \<Rightarrow> request_result list py_result" where
  "run_grpc_target_streaming env concurrency samples net =
     map_result (\<lambda>i. send_one_grpc_stream env concurrency (samples ! i) (net i)) [0 ..< length samples]"

section \<open>Completions\<close>

definition completion_text_body :: "completion_text_sample \<Rightarrow> json_dict" where
  "completion_text_body s =
     [(''model'', JStr (ts_model s)), (''prompt'', JStr (ts_prompt s)), (''max_tokens'', JInt (ts_max_tokens s)),
      (''seed'', JInt (ts_seed s))]"

definition completion_embed_body :: "completion_embed_sample \<Rightarrow> json_dict" where
  "completion_embed_body s =
     [(''model'', JStr ''Qwen/Qwen3-0.6B''), (''prompt_embeds'', JStr (b64encode (es_tensor_bytes s))),
      (''max_tokens'', JInt (es_max_tokens s)), (''seed'', JInt (es_seed s))]"

text \<open>The four senders over HTTP differ in the target, the body and the request type.\<close>

definition send_completion ::
  "'t runner_env \<Rightarrow> run_target \<Rightarrow> int \<Rightarrow> request_type \<Rightarrow> string \<Rightarrow> json_dict \<Rightarrow> runner_post \<Rightarrow> request_result" where
  "send_completion env target concurrency rtype sample_id body post =
     (let r = base_result sample_id target concurrency rtype (body_bytes env body);
          latency = Some (elapsed_ms (rp_t0 post) (rp_t1 post))
      in case rp_answer post of
           Inl exc \<Rightarrow> failed_result r latency (ru_exn_text env exc)
         | Inr (status, text, header) \<Rightarrow>
             r\<lparr>rq_latency_ms := latency, rq_response_bytes := Some (int (length text)),
               rq_success := ok_status status, rq_error := http_error status\<rparr>)"

definition run_completions_text ::
  "'t runner_env \<Rightarrow> run_target \<Rightarrow> int \<Rightarrow> completion_text_sample list \<Rightarrow> (nat \<Rightarrow> runner_post) \<Rightarrow> request_result list" where
  "run_completions_text env target concurrency samples net =
     map (\<lambda>i. let s = samples ! i in
            send_completion env target concurrency Completion_Text (ts_id s) (completion_text_body s) (net i))
       [0 ..< length samples]"

definition run_completions_embeds ::
  "'t runner_env \<Rightarrow> run_target \<Rightarrow> int \<Rightarrow> completion_embed_sample list \<Rightarrow> (nat \<Rightarrow> runner_post) \<Rightarrow> request_result list" where
  "run_completions_embeds env target concurrency samples net =
     map (\<lambda>i. let s = samples ! i in
            send_completion env target concurrency Completion_Embeds (str_int (es_id s)) (completion_embed_body s) (net i))
       [0 ..< length samples]"

definition rebuilt_completion_response :: "completion_result \<Rightarrow> completion_response" where
  "rebuilt_completion_response r =
     \<lparr>np_generated_text = nr_generated_text r, np_finish_reason = nr_finish_reason r,
      np_prompt_tokens = nr_prompt_tokens r, np_completion_tokens = nr_completion_tokens r\<rparr>"

definition completion_outcome ::
  "'t runner_env \<Rightarrow> request_result \<Rightarrow> real option \<Rightarrow> completion_result py_result \<Rightarrow> request_result" where
  "completion_outcome env r latency answer = (case answer of
     Inl exc \<Rightarrow> failed_result r latency (ru_exn_text env exc)
   | Inr a \<Rightarrow> r\<lparr>rq_latency_ms := latency,
               rq_response_bytes := Some (ru_completion_response_size env (rebuilt_completion_response a)),
               rq_success := True\<rparr>)"

definition send_grpc_completion ::
  "'t runner_env \<Rightarrow> int \<Rightarrow> real \<Rightarrow> completion_text_sample \<Rightarrow> completion_response runner_call
     \<Rightarrow> request_result py_result" where
  "send_grpc_completion env concurrency time_out s call =
     bind_result (completion_request_pb (ru_f32 env) (ts_model s) (ts_max_tokens s) None None (Some (ts_seed s))
                    (Prompt_Input (ts_prompt s))) (\<lambda>proto_req.
       Inr (completion_outcome env
              (base_result (ts_id s) Grpc_Direct concurrency Completion_Text (ru_completion_request_size env proto_req))
              (Some (elapsed_ms (rc_t0 call) (rc_t1 call)))
              (client_completions_complete (ru_f32 env) (ru_torch_save env) (\<lambda>req t. rc_answer call) (ts_model s)
                 (ts_max_tokens s) (Some (ts_prompt s)) None None None (Some (ts_seed s)) (Some time_out))))"

definition run_completions_grpc_direct ::
  "'t runner_env \<Rightarrow> int \<Rightarrow> real \<Rightarrow> completion_text_sample list \<Rightarrow> (nat \<Rightarrow> completion_response runner_call)
     \<Rightarrow> request_result list py_result" where
  "run_completions_grpc_direct env concurrency time_out samples net =
     map_result (\<lambda>i. send_grpc_completion env concurrency time_out (samples ! i) (net i)) [0 ..< length samples]"

text \<open>The tensor is loaded before the clock starts, outside the \<open>try\<close>.\<close>

definition send_grpc_embeds ::
  "'t runner_env \<Rightarrow> int \<Rightarrow> real \<Rightarrow> completion_embed_sample \<Rightarrow> completion_response runner_call
     \<Rightarrow> request_result py_result" where
  "send_grpc_embeds env concurrency time_out s call =
     bind_result (ru_torch_load env (es_tensor_bytes s)) (\<lambda>tensor.
     bind_result (completion_request_pb (ru_f32 env) [] (es_max_tokens s) None None (Some (es_seed s))
                    (Embeds_Input (es_tensor_bytes s))) (\<lambda>proto_req.
       Inr (completion_outcome env
              (base_result (str_int (es_id s)) Grpc_Direct concurrency Completion_Embeds
                 (ru_completion_request_size env proto_req))
              (Some (elapsed_ms (rc_t0 call) (rc_t1 call)))
              (client_completions_complete (ru_f32 env) (ru_torch_save env) (\<lambda>req t. rc_answer call) []
                 (es_max_tokens s) None (Some tensor) None None (Some (es_seed s)) (Some time_out)))))"

definition run_completions_grpc_direct_embeds ::
  "'t runner_env \<Rightarrow> int \<Rightarrow> real \<Rightarrow> completion_embed_sample list \<Rightarrow> (nat \<Rightarrow> completion_response runner_call)
     \<Rightarrow> request_result list py_result" where
  "run_completions_grpc_direct_embeds env concurrency time_out samples net =
     map_result (\<lambda>i. send_grpc_embeds env concurrency time_out (samples ! i) (net i)) [0 ..< length samples]"

end
