(* ===== verification/Runner_Laws.thy ===== *)
theory Runner_Laws
  imports Runner Rpc_Laws Gateway
begin

text \<open>
  What the runner's results say: their form and order, and what a chat stream counts as when it is read
  from the proxy and when it is read by the client.
\<close>

section \<open>The token clock\<close>

definition clock_ok :: "token_clock \<Rightarrow> bool" where
  "clock_ok tk \<longleftrightarrow> 0 \<le> tk_count tk \<and> (tk_first tk \<noteq> None \<longleftrightarrow> 0 < tk_count tk) \<and> (tk_last tk \<noteq> None \<longleftrightarrow> 0 < tk_count tk)"

lemma clock_ok_no_tokens [simp]: "clock_ok no_tokens" "tk_count no_tokens = 0"
  by (simp_all add: clock_ok_def no_tokens_def)

lemma clock_ok_count [simp]:
  "clock_ok tk \<Longrightarrow> clock_ok (count_token now tk)" "tk_count (count_token now tk) = tk_count tk + 1"
  by (auto simp: clock_ok_def count_token_def split: option.split)

text \<open>Whether a line counts as a token, apart from the clock.\<close>

definition line_token :: "'t runner_env \<Rightarrow> string \<Rightarrow> bool py_result" where
  "line_token env line =
     (if \<not> starts_with ''data: '' line \<or> line = ''data: [DONE]'' then Inr False
      else case bind_result (ru_loads env (drop 6 line)) chunk_content of
             Inl exc \<Rightarrow> if isinstance exc ''KeyError'' \<or> isinstance exc ''JSONDecodeError'' then Inr False else Inl exc
           | Inr content \<Rightarrow> Inr (json_truthy content))"

lemma stream_line_token:
  "stream_line env (line, now) tk = bind_result (line_token env line) (\<lambda>b. Inr (if b then count_token now tk else tk))"
  by (auto simp: stream_line_def line_token_def split: sum.split)

lemma stream_lines_ok: "stream_lines env ls tk = Inr tk' \<Longrightarrow> clock_ok tk \<Longrightarrow> clock_ok tk'"
proof (induction ls arbitrary: tk)
  case (Cons l ls)
  then show ?case by (cases l) (auto simp: stream_line_token bind_result_Inr_iff split: if_split_asm)
qed simp

lemma stream_lines_count:
  assumes "list_all (\<lambda>l. \<exists>b. line_token env l = Inr b) (map fst ls)"
  shows "\<exists>tk'. stream_lines env ls tk = Inr tk'
    \<and> tk_count tk' = tk_count tk + int (length (filter (\<lambda>l. line_token env l = Inr True) (map fst ls)))"
  using assms
proof (induction ls arbitrary: tk)
  case (Cons l ls)
  obtain line now where l: "l = (line, now)" by (cases l)
  then obtain b where b: "line_token env line = Inr b" using Cons.prems by auto
  show ?case using Cons.IH[of "if b then count_token now tk else tk"] Cons.prems
    by (auto simp: l b stream_line_token)
qed simp

lemma count_chunks_ok: "clock_ok tk \<Longrightarrow> clock_ok (fold count_chunk cs tk)"
  by (induction cs arbitrary: tk) (auto simp: count_chunk_def)

lemma count_chunks_count:
  "tk_count (fold count_chunk cs tk) = tk_count tk + int (length (filter (\<lambda>c. cs_delta_content (fst c) \<noteq> []) cs))"
  by (induction cs arbitrary: tk) (auto simp: count_chunk_def)

section \<open>The form of a result\<close>

definition runner_wf :: "request_result \<Rightarrow> bool" where
  "runner_wf r \<longleftrightarrow> (rq_success r \<longleftrightarrow> rq_error r = None) \<and> (rq_success r \<longrightarrow> rq_latency_ms r \<noteq> None)
     \<and> (case rq_token_count r of None \<Rightarrow> rq_ttft_ms r = None \<and> rq_tpot_ms r = None
        | Some n \<Rightarrow> 0 < n \<and> rq_ttft_ms r \<noteq> None \<and> (rq_tpot_ms r \<noteq> None \<longleftrightarrow> 1 < n))"

lemma runner_wf_failed [simp]:
  "runner_wf (failed_result (base_result i t c ty n) latency reason)"
  by (simp add: runner_wf_def failed_result_def base_result_def)

lemma runner_wf_tokens:
  assumes "clock_ok tk" and "rq_success r \<longleftrightarrow> rq_error r = None" and "rq_latency_ms r \<noteq> None"
  shows "runner_wf (with_tokens t0 tk r)"
  using assms by (auto simp: runner_wf_def with_tokens_def runner_ttft_ms_def runner_tpot_ms_def clock_ok_def
      split: option.split)

lemma http_error_iff: "(http_error status = None) = ok_status status"
  by (simp add: http_error_def)

lemma send_one_wf:
  "runner_wf (send_one env t c s post) \<and> rq_sample_id (send_one env t c s post) = rs_id s"
  by (auto simp: send_one_def Let_def runner_wf_def base_result_def failed_result_def http_error_def
      split: sum.split prod.split)

lemma send_streaming_wf:
  "runner_wf (send_one_streaming env t c s run) \<and> rq_sample_id (send_one_streaming env t c s run) = rs_id s"
proof (cases "bind_result (hs_open run) (\<lambda>status. bind_result (stream_lines env (hs_lines run) no_tokens) (\<lambda>tk.
    case hs_error run of None \<Rightarrow> Inr (status, tk) | Some exc \<Rightarrow> Inl exc))")
  case (Inl exc)
  then show ?thesis
    by (simp add: send_one_streaming_def Let_def) (simp add: failed_result_def base_result_def)
next
  case (Inr st)
  obtain status tk where st: "st = (status, tk)" by (cases st)
  then have "stream_lines env (hs_lines run) no_tokens = Inr tk"
    using Inr by (auto simp: bind_result_Inr_iff split: option.splits)
  then have "clock_ok tk" using stream_lines_ok by fastforce
  then show ?thesis using Inr st
    by (auto simp: send_one_streaming_def Let_def http_error_iff intro!: runner_wf_tokens)
      (simp add: with_tokens_def base_result_def)
qed

lemma send_grpc_stream_wf:
  assumes "send_one_grpc_stream env c s run = Inr r"
  shows "runner_wf r \<and> rq_sample_id r = rs_id s"
proof -
  obtain q where r: "r = (let b = base_result (rs_id s) Grpc_Direct c Chat (ru_chat_request_size env q);
        latency = Some (elapsed_ms (gs_t0 run) (gs_done_at run))
      in case gs_error run of
           Some exc \<Rightarrow> failed_result b latency (ru_exn_text env exc)
         | None \<Rightarrow> with_tokens (gs_t0 run) (fold count_chunk (client_chunks run) no_tokens)
                     (b\<lparr>rq_latency_ms := latency, rq_success := True\<rparr>))"
    using assms by (auto simp: send_one_grpc_stream_def bind_result_Inr_iff Let_def)
  have "clock_ok (fold count_chunk (client_chunks run) no_tokens)" by (rule count_chunks_ok) simp
  then have "runner_wf r" unfolding r by (auto simp: Let_def base_result_def split: option.split intro!: runner_wf_tokens)
      (simp add: runner_wf_def failed_result_def)
  moreover have "rq_sample_id r = rs_id s"
    unfolding r by (simp add: Let_def base_result_def failed_result_def with_tokens_def split: option.split)
  ultimately show ?thesis by blast
qed

lemma send_grpc_wf:
  assumes "send_one_grpc env c time_out s call = Inr r"
  shows "runner_wf r \<and> rq_sample_id r = rs_id s"
  using assms
  by (auto simp: send_one_grpc_def bind_result_Inr_iff Let_def runner_wf_def failed_result_def base_result_def
      split: sum.split)

lemma gathered_wf:
  assumes "map_result f [0 ..< length samples] = Inr rs"
    and "\<And>i r. i < length samples \<Longrightarrow> f i = Inr r \<Longrightarrow> runner_wf r \<and> rq_sample_id r = rs_id (samples ! i)"
  shows "list_all runner_wf rs \<and> map rq_sample_id rs = map rs_id samples"
proof -
  have len: "length rs = length samples" using map_result_length[OF assms(1)] by simp
  have nth: "f i = Inr (rs ! i)" if "i < length samples" for i
    using assms(1) that by (auto simp: map_result_Inr_iff list_all2_conv_all_nth)
  have each: "runner_wf (rs ! i) \<and> rq_sample_id (rs ! i) = rs_id (samples ! i)" if "i < length samples" for i
    by (rule assms(2)[OF that nth[OF that]])
  then have "map rq_sample_id rs = map rs_id samples" by (intro nth_equalityI) (simp_all add: len)
  then show ?thesis using each by (simp add: list_all_length len)
qed

text \<open>
  Every chat run of the runner gives one result per sample, in the order of the samples, and every
  result is well formed: a success has a latency and no error, a failure a reason, the time to the first
  token is there exactly when tokens were counted, and the time per token exactly when there were two. The
  runs over gRPC raise only for a sample whose message cannot be built.
\<close>

theorem runner_results_well_formed:
  "list_all runner_wf (run_target env t c samples posts)
   \<and> map rq_sample_id (run_target env t c samples posts) = map rs_id samples
   \<and> list_all runner_wf (run_target_streaming env t c samples streams)
   \<and> map rq_sample_id (run_target_streaming env t c samples streams) = map rs_id samples
   \<and> (case run_grpc_target env c time_out samples calls of
        Inl exc \<Rightarrow> \<exists>s \<in> set samples. build_request_proto env s = Inl exc
      | Inr rs \<Rightarrow> list_all runner_wf rs \<and> map rq_sample_id rs = map rs_id samples)
   \<and> (case run_grpc_target_streaming env c samples gstreams of
        Inl exc \<Rightarrow> \<exists>s \<in> set samples. build_request_proto env s = Inl exc
      | Inr rs \<Rightarrow> list_all runner_wf rs \<and> map rq_sample_id rs = map rs_id samples)"
proof -
  have raised: "\<exists>i < length samples. f i = Inl exc" if "map_result f [0 ..< length samples] = Inl exc"
    for f :: "nat \<Rightarrow> request_result py_result" and exc
  proof -
    have "\<exists>x \<in> set xs. f x = Inl exc" if "map_result f xs = Inl exc" for xs
      using that by (induction xs) (auto simp: bind_result_def split: sum.splits)
    from this[OF that] show ?thesis by auto
  qed
  have "list_all runner_wf (run_target env t c samples posts)"
    "map rq_sample_id (run_target env t c samples posts) = map rs_id samples"
    by (simp add: run_target_def list_all_iff send_one_wf)
      (rule nth_equalityI; simp add: run_target_def send_one_wf)
  moreover have "list_all runner_wf (run_target_streaming env t c samples streams)"
    "map rq_sample_id (run_target_streaming env t c samples streams) = map rs_id samples"
    by (simp add: run_target_streaming_def list_all_iff send_streaming_wf)
      (rule nth_equalityI; simp add: run_target_streaming_def send_streaming_wf)
  moreover have "case run_grpc_target env c time_out samples calls of
        Inl exc \<Rightarrow> \<exists>s \<in> set samples. build_request_proto env s = Inl exc
      | Inr rs \<Rightarrow> list_all runner_wf rs \<and> map rq_sample_id rs = map rs_id samples"
  proof (cases "run_grpc_target env c time_out samples calls")
    case (Inl exc)
    then obtain i where "i < length samples" "send_one_grpc env c time_out (samples ! i) (calls i) = Inl exc"
      unfolding run_grpc_target_def using raised by blast
    then have "build_request_proto env (samples ! i) = Inl exc \<and> samples ! i \<in> set samples"
      by (simp add: send_one_grpc_def bind_result_def Let_def split: sum.split_asm)
    then show ?thesis using Inl by auto
  next
    case (Inr rs)
    have "list_all runner_wf rs \<and> map rq_sample_id rs = map rs_id samples"
      by (rule gathered_wf[OF Inr[unfolded run_grpc_target_def]]) (rule send_grpc_wf)
    then show ?thesis by (simp add: Inr)
  qed
  moreover have "case run_grpc_target_streaming env c samples gstreams of
        Inl exc \<Rightarrow> \<exists>s \<in> set samples. build_request_proto env s = Inl exc
      | Inr rs \<Rightarrow> list_all runner_wf rs \<and> map rq_sample_id rs = map rs_id samples"
  proof (cases "run_grpc_target_streaming env c samples gstreams")
    case (Inl exc)
    then obtain i where "i < length samples" "send_one_grpc_stream env c (samples ! i) (gstreams i) = Inl exc"
      unfolding run_grpc_target_streaming_def using raised by blast
    then have "build_request_proto env (samples ! i) = Inl exc \<and> samples ! i \<in> set samples"
      by (simp add: send_one_grpc_stream_def bind_result_def Let_def split: sum.split_asm)
    then show ?thesis using Inl by auto
  next
    case (Inr rs)
    have "list_all runner_wf rs \<and> map rq_sample_id rs = map rs_id samples"
      by (rule gathered_wf[OF Inr[unfolded run_grpc_target_streaming_def]]) (rule send_grpc_stream_wf)
    then show ?thesis by (simp add: Inr)
  qed
  ultimately show ?thesis by blast
qed

section \<open>The proxy's stream and the client's\<close>

lemma text_lines_all_frames:
  "list_all is_line_safe ps \<Longrightarrow> text_lines [] (concat (map sse_frame ps)) = concat (map (\<lambda>p. [''data: '' @ p, []]) ps)"
  by (induction ps) (simp_all add: text_lines_frame)

lemma line_token_blank [simp]: "line_token env [] = Inr False"
  by (simp add: line_token_def starts_with_def)

lemma line_token_done [simp]: "line_token env ''data: [DONE]'' = Inr False"
  by (simp add: line_token_def)

text \<open>An event is read back as its payload; one with no \<open>choices\<close> is passed over.\<close>

lemma line_token_payload:
  assumes "ru_loads env (json_dumps fl (JObj kvs)) = Inr (JObj kvs)"
  shows "line_token env (''data: '' @ json_dumps fl (JObj kvs)) =
     (case chunk_content (JObj kvs) of
        Inl exc \<Rightarrow> if isinstance exc ''KeyError'' \<or> isinstance exc ''JSONDecodeError'' then Inr False else Inl exc
      | Inr content \<Rightarrow> Inr (json_truthy content))"
  using assms by (simp add: line_token_def starts_with_def)

lemma chunk_content_payload:
  "chunk_content (sse_chunk_payload i now m [] reason) = Inr (JStr [])"
  "chunk_content (sse_chunk_payload i now m [(''content'', v)] reason) = Inr v"
  "chunk_content (sse_chunk_payload i now m [(''role'', w), (''content'', v)] reason) = Inr v"
  by (simp_all add: chunk_content_def sse_chunk_payload_def)

definition chunk_counts :: "chat_stream_chunk \<Rightarrow> bool" where
  "chunk_counts ck \<longleftrightarrow> ck_delta_content ck \<noteq> []"

text \<open>The payloads of the events the proxy writes for a stream.\<close>

definition stream_payloads ::
  "proxy_env \<Rightarrow> openai_chat_request \<Rightarrow> chat_stream_chunk list \<Rightarrow> py_exn option \<Rightarrow> json list" where
  "stream_payloads penv req messages err =
     (let i = ''chatcmpl-'' @ px_uuid penv; now = px_now penv
      in role_payload i now (oc_model req) # map (\<lambda>ck. chat_chunk_payload ck i now (oc_model req)) messages
         @ (case err of None \<Rightarrow> [] | Some exc \<Rightarrow> [chat_error_payload (details_or ''Internal error'' exc)]))"

text \<open>What each line of the proxy's stream counts as: only a chunk with text is a token.\<close>

lemma proxied_line_tokens:
  fixes penv req
  defines "i \<equiv> ''chatcmpl-'' @ px_uuid penv" and "now \<equiv> px_now penv" and "dump \<equiv> json_dumps (px_fl penv)"
  assumes loads: "\<forall>v \<in> set (stream_payloads penv req messages err). ru_loads env (dump v) = Inr v"
    and last: "list_all (\<lambda>ck. ck_finish_reason ck = [] \<or> \<not> chunk_counts ck) messages"
  shows "line_token env (''data: '' @ dump (role_payload i now (oc_model req))) = Inr False"
    and "ck \<in> set messages \<Longrightarrow>
      line_token env (''data: '' @ dump (chat_chunk_payload ck i now (oc_model req))) = Inr (chunk_counts ck)"
    and "err = Some exc \<Longrightarrow>
      line_token env (''data: '' @ dump (chat_error_payload (details_or ''Internal error'' exc))) = Inr False"
proof -
  have token: "line_token env (''data: '' @ dump v) =
     (case chunk_content v of
        Inl exc \<Rightarrow> if isinstance exc ''KeyError'' \<or> isinstance exc ''JSONDecodeError'' then Inr False else Inl exc
      | Inr content \<Rightarrow> Inr (json_truthy content))"
    if "v \<in> set (stream_payloads penv req messages err)" "\<exists>kvs. v = JObj kvs" for v
    using that loads line_token_payload[of env "px_fl penv"] unfolding dump_def by blast
  show "line_token env (''data: '' @ dump (role_payload i now (oc_model req))) = Inr False"
    by (subst token) (simp_all add: stream_payloads_def i_def now_def Let_def role_payload_def chunk_content_payload,
        simp add: sse_chunk_payload_def)
  show "line_token env (''data: '' @ dump (chat_chunk_payload ck i now (oc_model req))) = Inr (chunk_counts ck)"
    if ck: "ck \<in> set messages"
  proof (subst token)
    show "chat_chunk_payload ck i now (oc_model req) \<in> set (stream_payloads penv req messages err)"
      using ck by (simp add: stream_payloads_def i_def now_def Let_def)
    show "\<exists>kvs. chat_chunk_payload ck i now (oc_model req) = JObj kvs"
      by (simp add: chat_chunk_payload_def sse_chunk_payload_def)
    have "ck_finish_reason ck = [] \<or> \<not> chunk_counts ck" using last ck by (auto simp: list_all_iff)
    then show "(case chunk_content (chat_chunk_payload ck i now (oc_model req)) of
        Inl exc \<Rightarrow> if isinstance exc ''KeyError'' \<or> isinstance exc ''JSONDecodeError'' then Inr False else Inl exc
      | Inr content \<Rightarrow> Inr (json_truthy content)) = Inr (chunk_counts ck)"
      by (auto simp: chat_chunk_payload_def chunk_content_payload chunk_counts_def)
  qed
  show "line_token env (''data: '' @ dump (chat_error_payload (details_or ''Internal error'' exc))) = Inr False"
    if "err = Some exc"
    using that by (subst token)
      (simp_all add: stream_payloads_def Let_def chat_error_payload_def chunk_content_def dict_item_def)
qed

lemma http_stream_counts:
  assumes "hs_open run = Inr status" "hs_error run = None" "ok_status status"
    and "map fst (hs_lines run) = concat (map (\<lambda>p. [''data: '' @ p, []]) ps)"
    and "list_all2 (\<lambda>p b. line_token env (''data: '' @ p) = Inr b) ps bs"
  shows "\<exists>tk r. send_one_streaming env target c s run = with_tokens (hs_t0 run) tk r
    \<and> rq_success r \<and> rq_error r = None \<and> tk_count tk = int (length (filter id bs))"
proof -
  have "list_all (\<lambda>l. \<exists>b. line_token env l = Inr b) (concat (map (\<lambda>p. [''data: '' @ p, []]) ps))
    \<and> length (filter (\<lambda>l. line_token env l = Inr True) (concat (map (\<lambda>p. [''data: '' @ p, []]) ps)))
      = length (filter id bs)"
    using assms(5) by (induction rule: list_all2_induct) auto
  with stream_lines_count[of env "hs_lines run" no_tokens] obtain tk where
    "stream_lines env (hs_lines run) no_tokens = Inr tk" "tk_count tk = int (length (filter id bs))"
    by (auto simp: assms(4))
  then show ?thesis using assms(1-3)
    by (intro exI[of _ tk] exI[of _ "base_result (rs_id s) target c Chat (body_bytes env (streaming_body s))
          \<lparr>rq_latency_ms := Some (elapsed_ms (hs_t0 run) (hs_done_at run)), rq_success := True, rq_error := None\<rparr>"])
      (simp add: send_one_streaming_def Let_def http_error_def)
qed

lemma with_tokens_fields [simp]:
  "rq_success (with_tokens t0 tk r) = rq_success r" "rq_error (with_tokens t0 tk r) = rq_error r"
  "rq_token_count (with_tokens t0 tk r) = (if 0 < tk_count tk then Some (tk_count tk) else None)"
  by (simp_all add: with_tokens_def)

text \<open>The body of the proxy's stream: its frames, one per payload, and the end marker of a stream that ended.\<close>

lemma proxied_body:
  fixes penv req
  defines "i \<equiv> ''chatcmpl-'' @ px_uuid penv" and "now \<equiv> px_now penv" and "dump \<equiv> json_dumps (px_fl penv)"
  assumes "chat_request_to_proto (px_f32 penv) req = Inr preq" "call preq = (messages, err)"
    and "\<And>k. \<not> px_disconnected penv k" and "\<And>exc. err = Some exc \<Longrightarrow> isinstance exc ''AioRpcError''"
  shows "text_lines [] (concat (fst (chat_stream_sse penv call req))) = concat (map (\<lambda>p. [''data: '' @ p, []])
    (dump (role_payload i now (oc_model req))
      # map (\<lambda>ck. dump (chat_chunk_payload ck i now (oc_model req))) messages
      @ [case err of None \<Rightarrow> ''[DONE]'' | Some exc \<Rightarrow> dump (chat_error_payload (details_or ''Internal error'' exc))]))"
    (is "_ = concat (map _ ?ps)")
proof -
  have conn: "relay_chunks (px_disconnected penv) fmt k cs = (map fmt cs, False)" for fmt k and cs :: "chat_stream_chunk list"
    by (rule relay_chunks_connected) (rule assms(6))
  have "fst (chat_stream_sse penv call req) = map sse_frame ?ps"
    using assms(4,5,7)
    by (cases err) (simp_all add: conn chat_stream_sse_def format_sse_role_delta_def proto_chunk_to_sse_event_def
        sse_event_def format_sse_done_def format_sse_error_def Let_def i_def now_def dump_def)
  moreover have "list_all is_line_safe ?ps"
  proof -
    have "is_line_safe (dump (chat_error_payload m))" for m
      unfolding dump_def by (rule json_dumps_line_safe) (simp add: chat_error_payload_def)
    then show ?thesis using is_line_safe_done
      by (auto simp: list_all_iff dump_def intro: json_dumps_line_safe split: option.split)
  qed
  ultimately show ?thesis by (simp only: text_lines_all_frames)
qed

text \<open>
  C24. The runner reads the same chat stream from the proxy and through the client. When the stream ends as it
  should, both count the same tokens and both succeed. When the frontend's stream breaks off, the
  client's run is a failure with its reason, while the proxy's run is a success with the
  tokens before the break: the error event has no \<open>choices\<close>, and the reader passes over it.
\<close>

theorem runner_streams_compared:
  assumes "chat_request_to_proto (px_f32 penv) req = Inr preq" "call preq = (map fst (gs_chunks g), err)"
    and "\<And>k. \<not> px_disconnected penv k" and "\<And>exc. err = Some exc \<Longrightarrow> isinstance exc ''AioRpcError''"
    and "hs_open run = Inr 200" "hs_error run = None"
    and "map fst (hs_lines run) = text_lines [] (concat (fst (chat_stream_sse penv call req)))"
    and loads: "\<forall>v \<in> set (stream_payloads penv req (map fst (gs_chunks g)) err).
      ru_loads env (json_dumps (px_fl penv) v) = Inr v"
    and last: "list_all (\<lambda>ck. ck_finish_reason ck = [] \<or> \<not> chunk_counts ck) (map fst (gs_chunks g))"
    and "gs_error g = err" "send_one_grpc_stream env c s g = Inr direct"
  shows "let proxied = send_one_streaming env Proxy c s run;
      n = int (length (filter chunk_counts (map fst (gs_chunks g))))
    in rq_success proxied \<and> rq_error proxied = None
     \<and> rq_token_count proxied = (if 0 < n then Some n else None)
     \<and> (case err of
          None \<Rightarrow> rq_success direct \<and> rq_error direct = None \<and> rq_token_count direct = rq_token_count proxied
        | Some exc \<Rightarrow> \<not> rq_success direct \<and> rq_error direct = Some (ru_exn_text env exc)
                     \<and> rq_token_count direct = None)"
proof -
  let ?ms = "map fst (gs_chunks g)"
  let ?n = "int (length (filter chunk_counts ?ms))"
  note tokens = proxied_line_tokens[OF loads last]
  note body = trans[OF assms(7) proxied_body[where messages = ?ms and call = call and err = err, OF assms(1-4)]]
  have "\<exists>tk r. send_one_streaming env Proxy c s run = with_tokens (hs_t0 run) tk r
    \<and> rq_success r \<and> rq_error r = None \<and> tk_count tk = int (length (filter id (False # map chunk_counts ?ms @ [False])))"
  proof (rule http_stream_counts[OF assms(5,6) _ body])
    show "ok_status 200" by (simp add: ok_status_def)
    show "list_all2 (\<lambda>p b. line_token env (''data: '' @ p) = Inr b)
      (json_dumps (px_fl penv) (role_payload (''chatcmpl-'' @ px_uuid penv) (px_now penv) (oc_model req))
       # map (\<lambda>ck. json_dumps (px_fl penv) (chat_chunk_payload ck (''chatcmpl-'' @ px_uuid penv) (px_now penv) (oc_model req))) ?ms
       @ [case err of None \<Rightarrow> ''[DONE]''
          | Some exc \<Rightarrow> json_dumps (px_fl penv) (chat_error_payload (details_or ''Internal error'' exc))])
      (False # map chunk_counts ?ms @ [False])"
      using tokens
      by (auto simp: list_all2_map1 list_all2_map2 list.rel_refl_strong list_all2_same intro!: list_all2_appendI
          split: option.split)
  qed
  moreover have "length (filter id (map chunk_counts ?ms)) = length (filter chunk_counts ?ms)"
    by (simp add: filter_map comp_def)
  ultimately have proxied: "rq_success (send_one_streaming env Proxy c s run)"
    "rq_error (send_one_streaming env Proxy c s run) = None"
    "rq_token_count (send_one_streaming env Proxy c s run) = (if 0 < ?n then Some ?n else None)"
    by auto
  have n: "tk_count (fold count_chunk (client_chunks g) no_tokens) = ?n"
    by (simp add: count_chunks_count client_chunks_def filter_map comp_def chat_chunk_result_of_def chunk_counts_def
        case_prod_unfold)
  have "case err of
      None \<Rightarrow> rq_success direct \<and> rq_error direct = None \<and> rq_token_count direct = (if 0 < ?n then Some ?n else None)
    | Some exc \<Rightarrow> \<not> rq_success direct \<and> rq_error direct = Some (ru_exn_text env exc) \<and> rq_token_count direct = None"
    using assms(10,11) n
    by (auto simp: send_one_grpc_stream_def bind_result_Inr_iff Let_def failed_result_def base_result_def split: option.split)
  then show ?thesis using proxied by (simp add: Let_def split: option.split_asm)
qed

definition demo_break :: py_exn where
  "demo_break = aio_rpc_error ''UNAVAILABLE'' ''down''"

definition demo_chunk :: chat_stream_chunk where
  "demo_chunk = \<lparr>ck_delta_content = ''Hi'', ck_finish_reason = [], ck_token_index = 0\<rparr>"

definition demo_payload :: "nat \<Rightarrow> json" where
  "demo_payload k = stream_payloads demo_proxy demo_openai [demo_chunk] (Some demo_break) ! k"

definition demo_runner :: "unit runner_env" where
  "demo_runner = \<lparr>ru_f32 = (\<lambda>x. x), ru_fl = (\<lambda>x. ''0.0''),
     ru_loads = (\<lambda>t. if t = json_dumps (px_fl demo_proxy) (demo_payload 0) then Inr (demo_payload 0)
                     else if t = json_dumps (px_fl demo_proxy) (demo_payload 1) then Inr (demo_payload 1)
                     else Inr (demo_payload 2)),
     ru_exn_text = (\<lambda>e. ''down''), ru_torch_load = (\<lambda>b. Inr ()), ru_torch_save = (\<lambda>t. Inr []),
     ru_chat_request_size = (\<lambda>q. 20), ru_chat_response_size = (\<lambda>r. 20),
     ru_completion_request_size = (\<lambda>q. 20), ru_completion_response_size = (\<lambda>r. 20)\<rparr>"

lemma demo_payloads:
  "stream_payloads demo_proxy demo_openai [demo_chunk] (Some demo_break) = [demo_payload 0, demo_payload 1, demo_payload 2]"
  by (simp add: demo_payload_def stream_payloads_def Let_def)

lemma demo_payload_texts:
  "json_dumps (px_fl demo_proxy) (demo_payload 1) \<noteq> json_dumps (px_fl demo_proxy) (demo_payload 0)"
  "json_dumps (px_fl demo_proxy) (demo_payload 2) \<noteq> json_dumps (px_fl demo_proxy) (demo_payload 0)"
  "json_dumps (px_fl demo_proxy) (demo_payload 2) \<noteq> json_dumps (px_fl demo_proxy) (demo_payload 1)"
  by (simp_all add: demo_payload_def stream_payloads_def Let_def role_payload_def chat_chunk_payload_def
      sse_chunk_payload_def chat_error_payload_def demo_chunk_def json_quote_def esc_char_def
      demo_proxy_def demo_openai_def join_with_def)

definition demo_broken_call :: "chat_complete_request \<Rightarrow> chat_stream_chunk message_stream" where
  "demo_broken_call = (\<lambda>q. ([demo_chunk], Some demo_break))"

definition demo_proxied_run :: http_stream_run where
  "demo_proxied_run = \<lparr>hs_t0 = 1, hs_open = Inr 200,
     hs_lines = map (\<lambda>l. (l, 2)) (text_lines [] (concat (fst (chat_stream_sse demo_proxy demo_broken_call demo_openai)))),
     hs_error = None, hs_done_at = 4\<rparr>"

definition demo_direct_run :: grpc_stream_run where
  "demo_direct_run = \<lparr>gs_t0 = 1, gs_chunks = [(demo_chunk, 2)], gs_error = Some demo_break, gs_done_at = 4,
     gs_trailers = Inr None\<rparr>"

definition demo_request_sample :: request_sample where
  "demo_request_sample = \<lparr>rs_id = ''s1'', rs_messages = [], rs_model = ''m'', rs_max_tokens = 5,
     rs_temperature = 0, rs_seed = 3, rs_bucket = ''short''\<rparr>"

theorem runner_streams_compared_witness:
  "rq_success (send_one_streaming demo_runner Proxy 1 demo_request_sample demo_proxied_run)
   \<and> rq_token_count (send_one_streaming demo_runner Proxy 1 demo_request_sample demo_proxied_run) = Some 1
   \<and> (\<exists>direct. send_one_grpc_stream demo_runner 1 demo_request_sample demo_direct_run = Inr direct
        \<and> \<not> rq_success direct \<and> rq_error direct = Some ''down'')"
proof -
  obtain direct where direct: "send_one_grpc_stream demo_runner 1 demo_request_sample demo_direct_run = Inr direct"
    by (auto simp: send_one_grpc_stream_def build_request_proto_def chat_build_request_def chat_request_pb_def
        demo_request_sample_def fields_in_range_def int32_ok_def int64_ok_def Let_def)
  have chunks: "map fst (gs_chunks demo_direct_run) = [demo_chunk]" "gs_error demo_direct_run = Some demo_break"
    by (simp_all add: demo_direct_run_def)
  have loads: "\<forall>v \<in> set (stream_payloads demo_proxy demo_openai (map fst (gs_chunks demo_direct_run)) (Some demo_break)).
      ru_loads demo_runner (json_dumps (px_fl demo_proxy) v) = Inr v"
    by (simp add: chunks demo_payloads demo_runner_def demo_payload_texts
        demo_payload_texts[unfolded One_nat_def] del: json_dumps.simps)
  have "let proxied = send_one_streaming demo_runner Proxy 1 demo_request_sample demo_proxied_run;
      n = int (length (filter chunk_counts (map fst (gs_chunks demo_direct_run))))
    in rq_success proxied \<and> rq_error proxied = None
     \<and> rq_token_count proxied = (if 0 < n then Some n else None)
     \<and> (case Some demo_break of
          None \<Rightarrow> rq_success direct \<and> rq_error direct = None \<and> rq_token_count direct = rq_token_count proxied
        | Some exc \<Rightarrow> \<not> rq_success direct \<and> rq_error direct = Some (ru_exn_text demo_runner exc)
                     \<and> rq_token_count direct = None)"
    by (rule runner_streams_compared[where call = demo_broken_call and g = demo_direct_run and err = "Some demo_break",
          OF demo_openai_proto _ _ _ _ _ _ loads _ _ direct])
      (simp_all add: demo_broken_call_def demo_direct_run_def demo_proxied_run_def demo_proxy_def demo_break_def
        aio_rpc_error_def chunk_counts_def demo_chunk_def comp_def)
  then show ?thesis using direct by (simp add: chunks Let_def chunk_counts_def demo_chunk_def) (simp add: demo_runner_def)
qed

end
