(* ===== verification/Spec2Isabelle.thy ===== *)
theory Spec2Isabelle
  imports Concrete_Run Validate_Laws Semaphore Report Topology Engine_Cost Channel_Config
    Gateway Monitor_Laws Gen_Embed_Laws Modal_Laws Bench_Laws
    Bench_Main_Laws Smoke_Laws Modal_Embed Setup_Scripts
    Bench_Servicer_Laws Rpc_Retry Bench_Serve_Laws Modal_Images Demos Runner_Laws
begin

text \<open>
  This library verifies the vllm-grpc repository: a gateway that serves the OpenAI HTTP interface of a
  vLLM engine over gRPC, its Python client, the benchmark harness that compares the two transports, and
  the scripts around them. Each theory names the file under \<open>src/\<close> it models. A definition keeps the
  name of the function, class or constant it translates, where HOL allows it; a name that several
  modules use is qualified by a prefix, as are the fields of records.

  \<^bold>\<open>The program.\<close> An HTTP request reaches the proxy (\<open>packages/proxy\<close>), which validates it,
  translates it to protobuf, calls the frontend (\<open>packages/frontend\<close>) over gRPC and turns the answer or
  the stream back into JSON or server-sent events. The frontend translates the request for the engine and
  streams the engine's outputs back, with its timings in the trailing metadata. The client
  (\<open>packages/client\<close>) talks to the frontend directly. The harness (\<open>tools/benchmark\<close>) runs a sweep:
  blocks of requests over cells, caps and cohorts, checkpointed row by row, with anchor blocks, a
  sub-probe and a topology probe, and writes an artifact that a monitor follows. The scripts deploy
  servers to Modal, drive benchmark runs against them and generate the corpora the sweep is pinned to.

  \<^bold>\<open>The language.\<close> \<open>Py_Prelude\<close>, \<open>Py_Parse\<close>, \<open>Py_Text\<close>, \<open>Py_Json\<close> and \<open>Py_Base64\<close> hold
  what the program uses of Python: exceptions as values of a sum (\<open>py_result\<close>), \<open>int(text)\<close> and
  \<open>float(text)\<close>, decimal and fixed-point printing, JSON values and \<open>json.dumps\<close>, event-stream framing,
  base64 in its lenient mode. Ints are \<open>int\<close>, and the 32-bit and 64-bit fields of the messages keep
  their range checks; floats are idealised as \<open>real\<close>; text is a list of characters; a dict is an
  association list where its order matters and a map elsewhere.

  \<^bold>\<open>The gateway.\<close> \<open>Grpc_Wire\<close> has the messages of \<open>proto/\<close>. \<open>Proxy_Translate\<close>,
  \<open>Proxy_Client\<close> and \<open>Proxy_Router\<close> model the proxy: validators, both translations, the clients with
  their deadlines, both routes with their error map. A generator that relays a stream is built from parts,
  one per statement of its source, which say how control leaves them: by its end, an exception, or the
  consumer's closing it.
  \<open>Frontend_Translate\<close>, \<open>Frontend_Stream\<close>, \<open>Frontend_Chat\<close>, \<open>Frontend_Completions\<close> and
  \<open>Frontend_Server\<close> model the frontend: a streaming handler is one step per engine output over the
  handler's local variables, and \<open>async_for\<close> runs it over the outputs of the engine. \<open>Client_Api\<close> is
  the client, its channel ownership a step relation. \<open>Frontend_Laws\<close> shows what a stream delivers: the
  text of the engine's last output in numbered chunks, the exact metadata, and what an engine that stops
  short or a context without \<open>is_active\<close> leads to. \<open>Gateway\<close> composes the two sides: the text an
  HTTP reader sees, the sampling parameters and inputs that reach the engine, the status of every failure,
  the channels a client leaves open, and the cancellation of every call.

  \<^bold>\<open>The sweep.\<close> \<open>Bench_Types\<close> and \<open>Sweep_Types\<close> are the records, \<open>Iteration\<close> the dispatch
  order, \<open>Stats\<close> the percentiles and intervals, \<open>Timing\<close> and \<open>Engine_Cost\<close> the measurements of one
  request, \<open>Corpus\<close> and \<open>Prompts\<close> its inputs, \<open>Retry\<close> and \<open>Aggregate\<close> the path from a block to
  its row, \<open>Null_Anchor\<close>, \<open>Anchor\<close>, \<open>Crossover\<close>, \<open>Sub_Probe\<close> and \<open>Topology\<close> the analyses,
  \<open>Resume\<close> the checkpoint file with the points an append can crash at, \<open>Sweep\<close> the run,
  \<open>Dispatch\<close>, \<open>Semaphore\<close>, \<open>Baseline\<close> and \<open>Validate\<close> the Modal dispatchers, their concurrency and the
  entry function with its exit codes, \<open>Report\<close> the computed parts of the artifact, \<open>Channel_Config\<close> the
  channel presets. \<open>Sweep_Laws\<close>, \<open>Sweep_Time\<close>, \<open>Resume_Laws\<close>, \<open>Dispatch_Laws\<close> and
  \<open>Validate_Laws\<close> carry the proofs: the checkpoint mirrors the run at every point, a resumed run
  completes the dispatch order without a repetition, a run returns or names what stopped it, the recovery
  loop stays within its budget. \<open>Dispatch\<close> reads the RPCs of a block one after the other;
  \<open>Semaphore\<close> has them as tasks that share a semaphore, and shows that every interleaving of them is that
  reading in the order the calls returned. The world a sweep acts on is a type parameter threaded through it; the
  dispatchers, the clock and the disk are arguments. \<open>Concrete_Run\<close> instantiates them. This theory
  states the properties that span the sweep's components. \<open>Monitor\<close> and \<open>Monitor_Laws\<close> are the
  reader of the sweep's log.

  \<^bold>\<open>The drivers.\<close> \<open>Rpc_Driver\<close> is what a sweep calls for every RPC over either transport, with its
  round-trip probes and the resources it closes; \<open>Rest_Shim\<close> is the REST server of the deployments,
  \<open>Mock_Engine\<close> and \<open>Bench_Servicers\<close> the engine and the gRPC servicers of those without a GPU.
  \<open>Rpc_Laws\<close> and \<open>Rpc_Transport\<close> put driver and shim together: what the driver measures is the shim's
  run, the two transports report the same figures of one run and give the engine the same tensor, and the
  REST one loses a flag. \<open>Rpc_Results\<close> shows the form of every result and the bounds of the probes,
  \<open>Rpc_Retry\<close> that the retry of a block never sees a transient failure of this driver.
  \<open>Bench_Servicer_Laws\<close> compares the servicers with the frontend's and shows what the mock delivers.

  \<^bold>\<open>The scripts.\<close> \<open>Gen_Chat_Corpus\<close>, \<open>Gen_Embed_Corpus\<close> and their laws show that what the
  generators write, the loaders of the sweep accept. \<open>Modal_Serve\<close> and \<open>Modal_Laws\<close> are the serve
  functions and the local side that waits for their address, \<open>Bench_Deploy\<close> and \<open>Bench_Laws\<close> the
  benchmark deployments and the providers of the harness: two sides that share a dictionary, each with one
  definition per access, interleaved by a step relation with an invariant over its runs.
  \<open>Bench_Serve\<close> and \<open>Bench_Serve_Laws\<close> are what such a container serves: the engine it chooses, its
  gRPC and REST surfaces over that one engine, whom they let in and when they answer alike.
  \<open>Modal_Images\<close> builds the images of all the scripts over the hook that compiles the protos, and
  \<open>Demos\<close> compares the two ways of the demo programs to the frontend.
  \<open>Bench_Runs\<close> and \<open>Bench_Run_Laws\<close> are the records, summaries and comparisons of a benchmark run,
  \<open>Bench_Main\<close> and \<open>Bench_Main_Laws\<close> the run of \<open>bench_modal.py\<close> as a trace of effects and the
  regeneration of its reports. \<open>Runner\<close> and \<open>Runner_Laws\<close> are the requests of such a run and the
  results they become, with the proxy's stream and the client's read side by side. \<open>Smoke_Tests\<close> and \<open>Smoke_Laws\<close> are the smoke containers and the checks of
  prompt embeddings, with what a passing test says of the gateway; \<open>Modal_Embed\<close>
  the embedding corpus generated in a container and mirrored back;
  \<open>Setup_Scripts\<close> the weights, the build hook and the traceroute spike.

  \<^bold>\<open>Interfaces.\<close> The contracts between components are locales: the code that relies on one is proved in
  its context, and the model's own definitions interpret it where they are declared, so that the
  properties rest on interpretations and not on assumptions.

  \<^bold>\<open>Parameters.\<close> What the repository does not hold is an argument of the definitions that use it: the
  engine and its constructors, torch, the gRPC and asyncio runtimes, FastAPI, httpx, Modal, SHA-256 and
  blake2, \<open>random.sample\<close>, the tokenizer, JSON text, subprocesses and sockets. Where a property needs
  something of them it is a hypothesis on that argument at the values in hand, and its witness
  instantiates it.

  \<^bold>\<open>Bounds.\<close> Loops over data are structural recursions. A loop over what the environment gives is a
  recursion over the list of its readings, which stand for the iterations it makes; a loop that waits is a
  step relation, and the statement speaks of every run. No fuel is used: the recovery loop of a dispatcher
  and the retry wrapper have their own bounds in the code.

  \<^bold>\<open>Not modelled.\<close> Printing and logging, except where a text is the result; argument parsing, which is
  reduced to the parsed arguments; the Markdown of the reports; the packages an image installs from the
  index; the older cohort driver (\<open>rest_cohort\<close>) and the fake server of the tests, which
  are mostly calls into asyncio and httpx. The rounding of floats is not modelled, so no statement depends
  on it.
\<close>

section \<open>The sweep as a whole\<close>

text \<open>
  C7. A run that checkpoints leaves, however it ends, a file from which the sweep can be finished:
  the file loads, and a run of the same axis that starts from the loaded rows ends with exactly the
  rows of the full dispatch order, the loaded rows first and none of them measured again.
\<close>

theorem interrupted_sweep_completes:
  assumes first: "run_sweep inp w0 (write_checkpoint_header h f) = (r, st1)"
    and h: "ch_schema_version h = RESUME_SCHEMA_VERSION" and axis: "distinct (si_axis inp)"
    and fresh: "si_checkpoint inp" "si_preloaded_measurements inp = None" "si_preloaded_anchors inp = None"
    and same: "si_axis inp2 = si_axis inp"
    and resumed: "si_preloaded_measurements inp2 = Some (ss_measurements st1)"
    and second: "run_sweep inp2 w c = (Inr out, st2)"
  shows "load_checkpoint other (ss_ckpt st1) = Inr (h, ss_measurements st1, ss_anchors st1)
    \<and> map mp_key (so_measurements out) = dispatch_keys (si_axis inp)
    \<and> prefix (ss_measurements st1) (so_measurements out)
    \<and> (\<forall>i < length (so_measurements out). row_ok i (so_measurements out ! i))"
proof -
  note m = checkpoint_mirrors_run[OF first h fresh, of other]
  then have "map mp_key (so_measurements out) = dispatch_keys (si_axis inp2)
      \<and> take (length (ss_measurements st1)) (so_measurements out) = ss_measurements st1
      \<and> rows_ok 0 (so_measurements out)"
    using axis same by (intro resume_completes[OF second _ resumed]) simp_all
  then show ?thesis using m same by (auto simp: rows_ok_def) (metis take_is_prefix)
qed

theorem interrupted_sweep_completes_witness:
  "\<exists>st1 out. load_checkpoint (\<lambda>_. []) (ss_ckpt (st1 :: (nat, unit) Sweep.sweep_state))
      = Inr (demo_header, ss_measurements st1, ss_anchors st1)
    \<and> map mp_key (so_measurements (out :: unit sweep_outputs)) = dispatch_keys [10]
    \<and> prefix (ss_measurements st1) (so_measurements out)"
proof -
  let ?c = "write_checkpoint_header demo_header None"
  obtain r and st1 :: "(nat, unit) Sweep.sweep_state" where 1: "run_sweep (demo_inputs None) 0 ?c = (r, st1)"
    by fastforce
  obtain out st2 where 2: "run_sweep (demo_inputs (Some (ss_measurements st1))) 0 (ss_ckpt st1) = (Inr out, st2)"
    using demo_returns by blast
  show ?thesis
    using interrupted_sweep_completes[OF 1 _ _ _ _ _ _ _ 2, of "\<lambda>_. []"] by (intro exI[of _ st1] exI[of _ out]) simp
qed

text \<open>
  C8. The checkpoint mirrors the run, whether the run returns or raises: loading it gives back the
  header, every row measured so far and every anchor snapshot, and the rows are well-formed and
  follow the dispatch order.
\<close>

theorem checkpoint_is_the_run:
  assumes "run_sweep inp w0 (write_checkpoint_header h f) = (r, st)"
    and "ch_schema_version h = RESUME_SCHEMA_VERSION"
    and "si_checkpoint inp" "si_preloaded_measurements inp = None" "si_preloaded_anchors inp = None"
  shows "load_checkpoint other (ss_ckpt st) = Inr (h, ss_measurements st, ss_anchors st)
    \<and> prefix (map mp_key (ss_measurements st)) (dispatch_keys (si_axis inp))
    \<and> list_all mp_wf (ss_measurements st)"
  using checkpoint_mirrors_run[OF assms, of other]
  by (auto simp: rows_ok_def row_ok_def list_all_length)

theorem checkpoint_is_the_run_witness:
  "\<exists>st. load_checkpoint (\<lambda>_. []) (ss_ckpt (st :: (nat, unit) Sweep.sweep_state))
      = Inr (demo_header, ss_measurements st, ss_anchors st)
    \<and> prefix (map mp_key (ss_measurements st)) (dispatch_keys [10])"
proof -
  obtain r and st :: "(nat, unit) Sweep.sweep_state"
    where 1: "run_sweep (demo_inputs None) 0 (write_checkpoint_header demo_header None) = (r, st)"
    by fastforce
  show ?thesis using checkpoint_is_the_run[OF 1, of "\<lambda>_. []"] by (intro exI[of _ st]) simp
qed



text \<open>
  When a sweep raises, the exception came from resolving the inputs of a block of its own
  dispatch order or from the anchor driver: an exception of the block dispatcher, of the retry
  or of the network probe never ends the run.
\<close>

theorem sweep_error_sources:
  assumes "run_sweep inp w c = (Inl e, st)"
  shows "(\<exists>(cid, co, mt) \<in> set (dispatch_keys (si_axis inp)). \<exists>i :: nat.
      resolve_block_inputs (si_digest inp) cid mt (int i) co (si_base_seed inp)
        (Some (si_chat_corpus inp)) (Some (si_embed_corpus inp)) None = Inl e)
    \<or> (\<exists>co u u'. si_anchor_dispatcher inp co 20 (si_base_seed inp) 0 u = (Inl e, u'))"
  using run_sweep_error[OF assms] by (fastforce simp: inputs_fail_def anchor_fails_def)

theorem sweep_error_sources_witness:
  "\<exists>e st. run_sweep ((demo_inputs None)\<lparr>si_anchor_dispatcher := \<lambda>_ _ _ _ w. (Inl (Exn ''X'' ''m''), w)\<rparr>)
      0 None = (Inl e, st) \<and> e = Exn ''X'' ''m''"
proof -
  let ?inp = "(demo_inputs None)\<lparr>si_anchor_dispatcher := \<lambda>_ _ _ _ w. (Inl (Exn ''X'' ''m''), w)\<rparr>"
  obtain st where "run_sweep ?inp 0 None = (Inl (Exn ''X'' ''m''), st)"
    by (simp add: run_sweep_def demo_inputs_def sweep_start_utc_def capture_topology_probe_def
        start_anchor_def initial_state_def capture_anchor_block_def compute_anchor_block_def COHORTS_def)
  note run = this
  from sweep_error_sources[OF run] show ?thesis using run by blast
qed

text \<open>
  C37. The iteration-discipline check decides a sweep by the order of its rows: under clocks and
  outside calls that never go back in time, every sweep over distinct caps that returns, fresh or
  resumed from a prefix whose timestamps are in order and in the past, is reported as verified.
\<close>

theorem returned_sweep_is_verified:
  assumes run: "run_sweep inp w c = (Inr out, st)" and axis: "distinct (si_axis inp)"
    and mono: "monotone_world stamp inp"
    and pre: "prefix (map mp_key (preloaded inp)) (dispatch_keys (si_axis inp))"
      "sorted (map mp_block_start_utc (preloaded inp))"
      "\<forall>m \<in> set (preloaded inp). mp_block_start_utc m \<le> stamp w"
  shows "so_iteration_discipline_verified out"
proof -
  obtain w' evs where a: "advances inp (initial_state inp w' c) evs (todo_keys inp) st"
    and o: "so_iteration_discipline_verified out = verify_iteration_discipline (ss_measurements st)"
    using advances_run_sweep[OF run] by blast
  obtain n where n: "map mp_key (preloaded inp) = take n (dispatch_keys (si_axis inp))"
    using pre(1) unfolding prefix_def by (metis append_eq_conv_conj)
  have "map mp_key (ss_measurements st) = take n (dispatch_keys (si_axis inp)) @ drop n (dispatch_keys (si_axis inp))"
    using a todo_keys_prefix[OF axis n] n by (simp add: advances_def extends_def)
  then have "distinct (remdups_adj (map mp_tuple (ss_measurements st)))"
    unfolding mp_tuple_keys using dispatch_keys_contiguous[OF axis] by simp
  then show ?thesis
    using timely_discipline[OF timely_run_sweep[OF mono run pre(2,3)]] o by simp
qed

theorem returned_sweep_is_verified_witness:
  "\<exists>out st. run_sweep (demo_inputs None) 0 None = (Inr out, st) \<and> so_iteration_discipline_verified out"
proof -
  obtain out st where run: "run_sweep (demo_inputs None) 0 None = (Inr out, st)"
    using demo_returns by blast
  show ?thesis using returned_sweep_is_verified[OF run _ demo_monotone] run by auto
qed

section \<open>Dispatching a block\<close>

text \<open>
  C38. The preemption budget bounds a whole sweep: from fresh dispatcher states, no sequence of
  block and anchor dispatches, whatever the engine answers and however often the driver has to be
  replaced, counts more preemption events in either dispatcher than the configured budget.
\<close>

theorem preemptions_within_budget:
  "within_budget cfg (fold (modal_step cfg) calls
     \<lparr>mw_world = w, mw_block = fresh_state d, mw_anchor = fresh_state d'\<rparr>)"
  by (rule within_budget_run) (simp add: within_budget_def fresh_state_def)

text \<open>
  C39. The recovery loop stops, and it stops for a reason. If it gives results, they are not a block
  in which every RPC died with its endpoint, and the streak of partly dead blocks is below the
  threshold; if it raises, the budget was spent, or the driver could not be replaced, or the
  dispatch itself raised. The budget is never exceeded by the loop.
\<close>

theorem recovery_loop_outcome:
  assumes "recovery_loop a rs st w = (r, st', w')"
  shows "ps_events st' \<le> max (ps_events st) (ra_budget a)
    \<and> (case r of
         Inr rs' \<Rightarrow> \<not> block_failed_with_endpoint_death rs' (ra_n a)
           \<and> (ps_consecutive st' < ra_threshold a
              \<or> ps_consecutive st' = 0 \<and> \<not> block_has_endpoint_death rs')
       | Inl e \<Rightarrow> e = ra_exhausted a \<and> ra_budget a \<le> ps_events st'
           \<or> (\<exists>x u u'. ra_make_driver a u = (Inl x, u') \<and> e = ra_failed a x)
           \<or> (\<exists>d u u'. ra_gather a d u = (Inl e, u')))"
proof (cases r)
  case (Inl e)
  then show ?thesis
    using recovery_loop_events[OF assms] recovery_loop_error[of a rs st w e st' w'] assms by simp
next
  case (Inr rs')
  then show ?thesis
    using recovery_loop_events[OF assms] recovery_loop_result[of a rs st w rs' st' w'] assms by simp
qed

definition dead_outcome :: rpc_outcome where
  "dead_outcome = Inl (Lib_Exn ''ConnectError'' ''gone'' [''httpx.ConnectError''] None None)"

definition demo_recovery :: "nat \<Rightarrow> nat recovery_args" where
  "demo_recovery budget = \<lparr>ra_n = 1, ra_budget = budget, ra_threshold = 2,
     ra_gather = (\<lambda>d w. (Inr [dead_outcome], w)),
     ra_make_driver = (\<lambda>w. (Inr (\<lambda>_ _ _ _ _ _ _ u. (dead_outcome, u)), Suc w)),
     ra_exhausted = Exn ''Spent'' [], ra_failed = (\<lambda>e. e)\<rparr>"

theorem recovery_loop_outcome_witness:
  "\<exists>e st w'. recovery_loop (demo_recovery 0) [dead_outcome] (fresh_state (\<lambda>_ _ _ _ _ _ _ u. (dead_outcome, u))) 0
      = (Inl e, st, w') \<and> ps_events st = 0 \<and> e = Exn ''Spent'' []"
proof -
  let ?st = "fresh_state (\<lambda>_ _ _ _ _ _ _ u. (dead_outcome, u)) :: nat preempt_state"
  have r: "recovery_loop (demo_recovery 0) [dead_outcome] ?st 0 = (Inl (Exn ''Spent'' []), ?st, 0)"
    by (subst recovery_loop.simps)
      (simp add: demo_recovery_def death_trigger_def block_failed_with_endpoint_death_def
        dead_outcome_def is_endpoint_death_result_def is_modal_endpoint_death_def isinstance_def
        fresh_state_def)
  show ?thesis using recovery_loop_outcome[OF r] r by (auto simp: fresh_state_def)
qed

text \<open>
  A spent budget does not stop the sweep. When every RPC of a block dies with its endpoint and
  the budget is used up, the dispatcher raises \<open>PreemptionBudgetExhausted\<close>; the retry wrapper
  catches it without a second dispatch, and the block becomes a failed row like any other.
\<close>

theorem spent_budget_becomes_row:
  assumes "now mw0 = (t0, mw1)" "cell_from_cell_id (bcall_cell_id call) = Inr cell"
    and "gather_block (ps_driver (mw_block mw1)) (block_rpc_args call cell)
           (rpc_seeds (mc_base_seed cfg) (bcall_n call)) (mw_world mw1) = (results, w1)"
    and "block_failed_with_endpoint_death results (bcall_n call)"
    and "mc_make_driver cfg = Some mk" "mc_budget cfg \<le> ps_events (mw_block mw1)"
  shows "\<exists>t1 mw3. run_block_with_retry call (modal_block_dispatcher cfg) is_transient_modal_error now mw0
      = ((exception_result (block_exhausted cfg call), t0, t1, False), mw3)
    \<and> mp_failed_reason (build_measurement_point cid co mt n (exception_result (block_exhausted cfg call))
         t0 t1 False inputs) = Some (classify_exception (block_exhausted cfg call))"
proof -
  note d = modal_block_exhausted[OF assms(2-6)]
  obtain t1 mw3 where n: "now (mw1\<lparr>mw_world := w1, mw_block := (mw_block mw1)\<lparr>ps_consecutive := 0\<rparr>\<rparr>)
      = (t1, mw3)" by fastforce
  show ?thesis
    using spent_budget_row[of cfg call mw1 _ now mw0 t0 t1 mw3, OF d assms(1) n]
    by (intro exI[of _ t1] exI[of _ mw3])
      (simp add: build_measurement_point_def exception_result_def reason_or_default_def
        classify_exception_nonempty)
qed

definition demo_call :: block_call where
  "demo_call = \<lparr>bcall_cell_id = cell_id_of Embed 1, bcall_cohort = Default_Grpc, bcall_max_tokens = 10,
     bcall_n = 1, bcall_inputs = \<lparr>bi_prompt_text = None, bi_embed_tensor_bytes = None,
       bi_prompt_source = Synthetic_Random_Tensor, bi_prompt_corpus_idx = None,
       bi_ignore_eos = False, bi_max_tokens = 10\<rparr>\<rparr>"

definition demo_config :: "nat modal_config" where
  "demo_config = \<lparr>mc_base_seed = 0, mc_make_driver = Some (\<lambda>w. (Inl (Exn ''X'' []), w)), mc_budget = 0,
     mc_threshold = 2, mc_fstr = (\<lambda>_. []), mc_anchor_cell = default_anchor_cell, mc_anchor_max_tokens = 10\<rparr>"

definition dead_world :: "nat modal_world" where
  "dead_world = \<lparr>mw_world = 0, mw_block = fresh_state (\<lambda>_ _ _ _ _ _ _ u. (dead_outcome, u)),
     mw_anchor = fresh_state (\<lambda>_ _ _ _ _ _ _ u. (dead_outcome, u))\<rparr>"

theorem spent_budget_becomes_row_witness:
  "\<exists>t1 mw3. run_block_with_retry demo_call (modal_block_dispatcher demo_config) is_transient_modal_error
      (\<lambda>w. (''t'', w)) dead_world = ((exception_result (block_exhausted demo_config demo_call), ''t'', t1, False), mw3)"
proof -
  have cell: "cell_from_cell_id (bcall_cell_id demo_call)
      = Inr \<lparr>cell_path = Embed, cell_hidden_size = 4096, cell_concurrency = 1\<rparr>"
    by (simp add: demo_call_def cell_of_embed_c1)
  have g: "gather_block (ps_driver (mw_block dead_world)) (block_rpc_args demo_call c)
      (rpc_seeds (mc_base_seed demo_config) (bcall_n demo_call)) (mw_world dead_world)
      = ([dead_outcome], 0)" for c
    by (simp add: dead_world_def fresh_state_def rpc_seeds_def demo_call_def call_driver_def demo_config_def)
  have b: "block_failed_with_endpoint_death [dead_outcome] (bcall_n demo_call)"
    by (simp add: demo_call_def block_failed_with_endpoint_death_def dead_outcome_def
        is_endpoint_death_result_def is_modal_endpoint_death_def isinstance_def)
  have mk: "mc_make_driver demo_config = Some (\<lambda>w. (Inl (Exn ''X'' []), w))"
    and spent: "mc_budget demo_config \<le> ps_events (mw_block dead_world)"
    by (simp_all add: demo_config_def)
  show ?thesis
    using spent_budget_becomes_row[where now = "\<lambda>w. (''t'', w)", OF refl cell g b mk spent] by blast
qed

text \<open>The first answers of a dispatcher that is called again and again on the same block.\<close>

primrec block_answers ::
  "block_call \<Rightarrow> 'w block_dispatcher \<Rightarrow> nat \<Rightarrow> 'w \<Rightarrow> block_dispatch_result py_result list \<times> 'w" where
  "block_answers call d 0 w = ([], w)"
| "block_answers call d (Suc k) w =
     (let (rs, w') = block_answers call d k w; (r, w'') = d call w' in (rs @ [r], w''))"

text \<open>
  C32. The retry wrapper on every behaviour of the dispatcher. It dispatches the block once when the first
  answer is final, twice after a transient failure, and a third time exactly when a retry made for a
  transient exception comes back with a transient failure code. It returns what the last of these
  dispatches returned, or the classified failure of what it raised, in the world that dispatch left; the
  block starts at the clock's reading before the first dispatch and ends at the one after the last, and
  it reports a retry exactly when there was more than one dispatch.
\<close>

theorem dispatch_count_by_outcome:
  assumes "now w = (t0, w1)" and "d call w1 = (r1, w2)"
    and "k = (case r1 of
       Inl e \<Rightarrow> if \<not> tr e then 1
         else (case fst (d call w2) of Inl _ \<Rightarrow> 2 | Inr r \<Rightarrow> if transient_result r then 3 else 2)
     | Inr r \<Rightarrow> if transient_result r then 2 else 1)"
    and "block_answers call d k w1 = (answers, wk)" and "now wk = (t1, w')"
  shows "dispatch_count call d tr now w = k
    \<and> run_block_with_retry call d tr now w =
        ((case last answers of Inl e \<Rightarrow> exception_result e | Inr r \<Rightarrow> r, t0, t1, 1 < k), w')"
proof
  show "dispatch_count call d tr now w = k" 
    using dispatch_count_cases[where now = now and d = d and call = call, OF assms(1,2)] assms(3) by simp
  obtain r2 w3 where d2: "d call w2 = (r2, w3)" by fastforce
  obtain r3 w4 where d3: "d call w3 = (r3, w4)" by fastforce
  show "run_block_with_retry call d tr now w =
        ((case last answers of Inl e \<Rightarrow> exception_result e | Inr r \<Rightarrow> r, t0, t1, 1 < k), w')"
    using assms(3-5)
    by (auto simp: run_block_with_retry_def transient_result_def assms(1,2) d2 d3 numeral_2_eq_2 numeral_3_eq_3
        split: sum.splits option.splits if_split_asm)
qed

text \<open>A block whose first dispatch raises, whose second one fails with a transient code, and whose third one succeeds.\<close>

definition demo_flaky :: "nat block_dispatcher" where
  "demo_flaky call w = (if w = 0 then Inl (Exn ''ConnectError'' []) else
     Inr \<lparr>br_timings_ms = [], br_failed_reason = if w = 1 then Some ''rest_transient'' else None,
          br_per_rpc_metadata = []\<rparr>, Suc w)"

theorem dispatch_count_by_outcome_witness:
  "dispatch_count demo_call demo_flaky (\<lambda>_. True) (\<lambda>w. (''t'', w)) 0 = 3
   \<and> run_block_with_retry demo_call demo_flaky (\<lambda>_. True) (\<lambda>w. (''t'', w)) 0
       = ((\<lparr>br_timings_ms = [], br_failed_reason = None, br_per_rpc_metadata = []\<rparr>, ''t'', ''t'', True), 3)"
proof -
  have answers: "block_answers demo_call demo_flaky 3 0 =
      ([Inl (Exn ''ConnectError'' []),
        Inr \<lparr>br_timings_ms = [], br_failed_reason = Some ''rest_transient'', br_per_rpc_metadata = []\<rparr>,
        Inr \<lparr>br_timings_ms = [], br_failed_reason = None, br_per_rpc_metadata = []\<rparr>], 3)"
    by (simp add: numeral_3_eq_3 demo_flaky_def)
  have first: "demo_flaky demo_call 0 = (Inl (Exn ''ConnectError'' []), 1)" by (simp add: demo_flaky_def)
  from dispatch_count_by_outcome[where now = "\<lambda>w. (''t'', w)" and tr = "\<lambda>_. True", OF refl first _ answers refl]
  show ?thesis by (simp add: demo_flaky_def transient_result_def TRANSIENT_FAILURE_REASONS_def)
qed

text \<open>
  The row of a block says what its dispatch said: through the retry wrapper and the Modal
  dispatcher, for every engine behaviour, the row fails with exactly the failure reason of the
  dispatch result, never an empty one, and has latency figures exactly when it did not fail.
\<close>

theorem modal_row_reports_dispatch:
  assumes "0 < bcall_n call"
    and "run_block_with_retry call (modal_block_dispatcher cfg) tr now w = ((r, s, e, b), w')"
  shows "mp_failed_reason (build_measurement_point cid co mt n r s e b inputs) = br_failed_reason r
    \<and> (mp_wall_p50_ms (build_measurement_point cid co mt n r s e b inputs) \<noteq> None
       \<longleftrightarrow> br_failed_reason r = None)
    \<and> br_failed_reason r \<noteq> Some []"
  using modal.row_reports_dispatch[OF assms] modal.retry_coherent[OF assms]
  by (simp add: coherent_result_def)

theorem modal_row_reports_dispatch_witness:
  "\<exists>r s e b w'. run_block_with_retry demo_call (modal_block_dispatcher demo_config) is_transient_modal_error
      (\<lambda>w. (''t'', w)) dead_world = ((r, s, e, b), w') \<and> br_failed_reason r \<noteq> Some []"
proof -
  obtain r s e b w' where run: "run_block_with_retry demo_call (modal_block_dispatcher demo_config)
      is_transient_modal_error (\<lambda>w. (''t'', w)) dead_world = ((r, s, e, b), w')"
    by (metis prod_cases4 surj_pair)
  have "0 < bcall_n demo_call" by (simp add: demo_call_def)
  from modal_row_reports_dispatch[OF this run] show ?thesis using run by blast
qed

text \<open>
  The engine's time stamps survive the way to the row. For successful RPCs that carry a timing
  checkpoint, the metadata dictionaries of the dispatch give the aggregator back the stamps: its
  segment means are the means of the segments of those checkpoints.
\<close>

theorem checkpoints_reach_segments:
  assumes "list_all2 (\<lambda>x c. rr_success x \<and> rr_wall_clock_ms x \<noteq> None
      \<and> rr_timing_payload x = Some (checkpoint_fields c)) xs cs" "xs \<noteq> []"
  shows "let r = collect_results fstr (map Inr xs);
             agg = aggregate_block_metrics (br_timings_ms r) (br_per_rpc_metadata r)
         in br_failed_reason r = None \<and> br_timings_ms r = map (\<lambda>x. the (rr_wall_clock_ms x)) xs
            \<and> agg_seg_ab_ms agg = mean_or_none (map (\<lambda>c. sd_ab_ms (delta_from_checkpoint c)) cs)
            \<and> (list_all has_engine_stats cs \<longrightarrow>
                 agg_seg_queue_ms agg = mean_or_none (map (\<lambda>c. the (sd_queue_ms (delta_from_checkpoint c))) cs)
                 \<and> agg_seg_prefill_ms agg
                     = mean_or_none (map (\<lambda>c. the (sd_prefill_ms (delta_from_checkpoint c))) cs))"
proof -
  have p: "list_all2 (\<lambda>x c. rr_timing_payload x = Some (checkpoint_fields c)) xs cs"
    using assms(1) by (rule list_all2_mono) simp
  note c = collect_checkpoints[OF assms, of fstr]
  show ?thesis
    using seg_ab_samples_checkpoints[OF p, of fstr] engine_seg_samples_checkpoints[OF p, of fstr]
    by (auto simp: c Let_def aggregate_block_metrics_def list_all_iff split: prod.split)
qed

definition demo_checkpoint :: timing_checkpoint where
  "demo_checkpoint = \<lparr>tc_handler_entry_ns = 0, tc_pre_engine_ns = 1000000, tc_first_chunk_ns = 2000000,
     tc_terminal_emit_ns = 3000000, tc_perturbation_audit_ns = 5, tc_engine_arrival_ns = 10,
     tc_engine_queued_ns = 20, tc_engine_scheduled_ns = 30, tc_engine_first_token_ns = 40,
     tc_engine_last_token_ns = 50, tc_pre_engine_wall_ns = None, tc_first_chunk_mono_ns = None,
     tc_tokenized_prompt_length = None, tc_tokenized_prompt_hash = None\<rparr>"

theorem checkpoints_reach_segments_witness:
  "\<exists>r :: block_dispatch_result. br_failed_reason r = None
    \<and> agg_seg_ab_ms (aggregate_block_metrics (br_timings_ms r) (br_per_rpc_metadata r)) = Some 1"
proof -
  let ?x = "\<lparr>rr_success = True, rr_wall_clock_ms = Some 7, rr_ttft_ms = None, rr_engine_cost = None,
     rr_failure_reason = None, rr_timing_payload = Some (checkpoint_fields demo_checkpoint)\<rparr>"
  have "sd_ab_ms (delta_from_checkpoint demo_checkpoint) = 1"
    by (simp add: delta_from_checkpoint_def demo_checkpoint_def ns_to_ms_def)
  then show ?thesis
    using checkpoints_reach_segments[of "[?x]" "[demo_checkpoint]" "\<lambda>_. []"]
    by (intro exI[of _ "collect_results (\<lambda>_. []) [Inr ?x]"]) (auto simp: Let_def mean_or_none_def)
qed

end
